(* ===== verification/Prelude.thy ===== *)
theory Prelude
  imports Main "HOL-Library.Char_ord" "HOL-Library.List_Lexorder"
begin

text \<open>
  Shared vocabulary of the development.

  \<^item> Thrown JavaScript exceptions are the left injection of a sum; \<^theory_text>\<open>js_bind\<close> sequences
    computations that may throw.
  \<^item> The playground \<open>Result<T>\<close> type (\<open>src/src/playground/ledger-do.ts\<close>) is a datatype, because there an
    error answer is an ordinary return value: it commits the surrounding transaction.
  \<^item> A Durable Object keeps its storage in key order.  \<open>'v table\<close> is one key prefix of it: an
    association list sorted by key, with the operations \<open>get\<close>, \<open>put\<close>, \<open>delete\<close> and \<open>list({prefix})\<close>
    that the code calls.
  The lemmas about these are in the collections \<open>js_simps\<close> and \<open>table_simps\<close>.
\<close>

named_theorems js_simps "rewriting of throwing computations"
named_theorems table_simps "rewriting of storage tables"

subsection \<open>Exceptions\<close>

datatype js_throw = RangeError string | JsError string

type_synonym 'a js = "js_throw + 'a"

fun js_bind :: "'a js \<Rightarrow> ('a \<Rightarrow> 'b js) \<Rightarrow> 'b js" where
  "js_bind (Inl e) f = Inl e"
| "js_bind (Inr x) f = f x"

lemma js_bind_Inr_iff [js_simps]:
  "js_bind m f = Inr y \<longleftrightarrow> (\<exists>x. m = Inr x \<and> f x = Inr y)"
  by (cases m) auto

lemma js_bind_Inl_iff [js_simps]:
  "js_bind m f = Inl e \<longleftrightarrow> m = Inl e \<or> (\<exists>x. m = Inr x \<and> f x = Inl e)"
  by (cases m) auto

lemma js_bind_split:
  "P (js_bind m f) \<longleftrightarrow> (\<forall>e. m = Inl e \<longrightarrow> P (Inl e)) \<and> (\<forall>x. m = Inr x \<longrightarrow> P (f x))"
  by (cases m) auto

fun js_map :: "('a \<Rightarrow> 'b js) \<Rightarrow> 'a list \<Rightarrow> 'b list js" where
  "js_map f [] = Inr []"
| "js_map f (x # xs) = js_bind (f x) (\<lambda>y. js_bind (js_map f xs) (\<lambda>ys. Inr (y # ys)))"

lemma js_map_length: "js_map f xs = Inr ys \<Longrightarrow> length ys = length xs"
  by (induction xs arbitrary: ys) (auto simp: js_simps)

subsection \<open>Ordered tables\<close>

type_synonym 'v table = "(string \<times> 'v) list"

fun tget :: "'v table \<Rightarrow> string \<Rightarrow> 'v option" where
  "tget [] k = None"
| "tget ((k', v) # t) k = (if k = k' then Some v else tget t k)"

fun tput :: "string \<Rightarrow> 'v \<Rightarrow> 'v table \<Rightarrow> 'v table" where
  "tput k v [] = [(k, v)]"
| "tput k v ((k', v') # t) =
     (if k = k' then (k, v) # t
      else if k < k' then (k, v) # (k', v') # t
      else (k', v') # tput k v t)"

fun tdel :: "string \<Rightarrow> 'v table \<Rightarrow> 'v table" where
  "tdel k [] = []"
| "tdel k ((k', v') # t) = (if k = k' then tdel k t else (k', v') # tdel k t)"

definition tkeys :: "'v table \<Rightarrow> string list" where
  "tkeys t = map fst t"

text \<open>\<open>storage.list({ prefix })\<close>: the entries whose key starts with the prefix, in key order.\<close>

fun is_prefix :: "string \<Rightarrow> string \<Rightarrow> bool" where
  "is_prefix [] s = True"
| "is_prefix (c # p) [] = False"
| "is_prefix (c # p) (d # s) = (c = d \<and> is_prefix p s)"

definition tlist :: "string \<Rightarrow> 'v table \<Rightarrow> 'v table" where
  "tlist p t = filter (\<lambda>kv. is_prefix p (fst kv)) t"

definition table_ok :: "'v table \<Rightarrow> bool" where
  "table_ok t \<longleftrightarrow> sorted_wrt (<) (tkeys t)"

lemma tkeys_simps [simp]:
  "tkeys [] = []"
  "tkeys ((k, v) # t) = k # tkeys t"
  by (simp_all add: tkeys_def)

lemma tget_tput [table_simps, simp]: "tget (tput k v t) k' = (if k' = k then Some v else tget t k')"
  by (induction t) (auto split: if_splits)

lemma tget_tdel [table_simps, simp]: "tget (tdel k t) k' = (if k' = k then None else tget t k')"
  by (induction t) auto

lemma set_tkeys_tput: "set (tkeys (tput k v t)) = insert k (set (tkeys t))"
  by (induction k v t rule: tput.induct) auto

lemma set_tkeys_tdel: "set (tkeys (tdel k t)) = set (tkeys t) - {k}"
  by (induction k t rule: tdel.induct) auto

lemma tget_None_iff: "tget t k = None \<longleftrightarrow> k \<notin> set (tkeys t)"
  by (induction t k rule: tget.induct) auto

lemma table_ok_Nil [intro, simp]: "table_ok []"
  by (simp add: table_ok_def)

lemma table_ok_Cons:
  "table_ok ((k, v) # t) \<longleftrightarrow> (\<forall>k' \<in> set (tkeys t). k < k') \<and> table_ok t"
  by (simp add: table_ok_def)

lemma table_ok_tput [intro, simp]: "table_ok t \<Longrightarrow> table_ok (tput k v t)"
proof (induction t)
  case Nil
  then show ?case by (simp add: table_ok_def)
next
  case (Cons x t)
  then show ?case
    by (cases x) (auto simp: table_ok_Cons set_tkeys_tput)
qed

lemma table_ok_tdel [intro, simp]: "table_ok t \<Longrightarrow> table_ok (tdel k t)"
proof (induction t)
  case Nil
  then show ?case by simp
next
  case (Cons x t)
  then show ?case
    by (cases x) (auto simp: table_ok_Cons set_tkeys_tdel)
qed

lemma tget_Cons_absent: "table_ok ((k, v) # t) \<Longrightarrow> tget t k = None"
  by (auto simp: table_ok_Cons tget_None_iff)

lemma tget_in_set: "tget t k = Some v \<Longrightarrow> (k, v) \<in> set t"
  by (induction t) (auto split: if_splits)

lemma in_set_tget: "table_ok t \<Longrightarrow> (k, v) \<in> set t \<Longrightarrow> tget t k = Some v"
proof (induction t)
  case Nil
  then show ?case by simp
next
  case (Cons x t)
  obtain k' v' where x: "x = (k', v')" by (cases x)
  from Cons.prems have ok: "table_ok t" by (simp add: x table_ok_Cons)
  show ?case
  proof (cases "(k, v) = x")
    case True
    then show ?thesis by (simp add: x)
  next
    case False
    with Cons.prems have mem: "(k, v) \<in> set t" by simp
    then have "k \<in> set (tkeys t)" by (force simp: tkeys_def)
    with Cons.prems(1) have "k \<noteq> k'" by (auto simp: x table_ok_Cons)
    with Cons.IH [OF ok mem] show ?thesis by (simp add: x)
  qed
qed

subsection \<open>Sums over tables\<close>

text \<open>
  \<open>tsum f t\<close> adds \<open>f\<close> over every entry.  One \<open>put\<close> changes it by the difference at that key:
  the lemma every conservation argument uses.
\<close>

definition tsum :: "('v \<Rightarrow> int) \<Rightarrow> 'v table \<Rightarrow> int" where
  "tsum f t = sum_list (map (\<lambda>kv. f (snd kv)) t)"

definition tval :: "('v \<Rightarrow> int) \<Rightarrow> 'v table \<Rightarrow> string \<Rightarrow> int" where
  "tval f t k = (case tget t k of None \<Rightarrow> 0 | Some v \<Rightarrow> f v)"

lemma tsum_simps [simp]:
  "tsum f [] = 0"
  "tsum f ((k, v) # t) = f v + tsum f t"
  by (simp_all add: tsum_def)

lemma tsum_tput [table_simps]:
  "table_ok t \<Longrightarrow> tsum f (tput k v t) = tsum f t - tval f t k + f v"
proof (induction t)
  case Nil
  then show ?case by (simp add: tval_def)
next
  case (Cons x t)
  obtain k' v' where x: "x = (k', v')" by (cases x)
  from Cons.prems have ok: "table_ok t" by (simp add: x table_ok_Cons)
  show ?case
  proof (cases "k < k'")
    case True
    with Cons.prems have "\<forall>j \<in> set (tkeys t). k < j"
      by (auto simp: x table_ok_Cons)
    then have "tget t k = None" by (auto simp: tget_None_iff)
    with True show ?thesis by (simp add: x tval_def)
  next
    case False
    then show ?thesis
      using Cons.IH [OF ok] by (simp add: x tval_def)
  qed
qed

lemma tsum_nonneg: "(\<And>k v. (k, v) \<in> set t \<Longrightarrow> 0 \<le> f v) \<Longrightarrow> 0 \<le> tsum f t"
  by (induction t) (force simp: tsum_def)+

lemma tval_le_tsum:
  "table_ok t \<Longrightarrow> (\<And>k v. tget t k = Some v \<Longrightarrow> 0 \<le> f v) \<Longrightarrow> tval f t k \<le> tsum f t"
proof (induction t)
  case Nil
  then show ?case by (simp add: tval_def)
next
  case (Cons x t)
  obtain k' v' where x: "x = (k', v')" by (cases x)
  have ok: "table_ok t" using Cons.prems(1) by (simp add: x table_ok_Cons)
  have pos: "0 \<le> f v" if "tget t j = Some v" for j v
  proof (cases "j = k'")
    case True
    with that Cons.prems(1) show ?thesis
      by (simp add: x tget_Cons_absent)
  next
    case False
    with that Cons.prems(2) [of j v] show ?thesis by (simp add: x)
  qed
  have v': "0 \<le> f v'" using Cons.prems(2) [of k' v'] by (simp add: x)
  have "0 \<le> tsum f t" by (rule tsum_nonneg) (use pos in_set_tget [OF ok] in blast)
  moreover have "tval f t k \<le> tsum f t" by (rule Cons.IH [OF ok pos])
  ultimately show ?case using v' by (simp add: x tval_def)
qed

subsection \<open>The storage interface\<close>

text \<open>
  What the components rely on of a Durable Object's storage: reading back a write, frame, and
  the order of keys kept by every write.  Interpreted on the ordered table just defined.
\<close>

locale storage_iface =
  fixes get :: "'s \<Rightarrow> string \<Rightarrow> 'v option"
    and put :: "string \<Rightarrow> 'v \<Rightarrow> 's \<Rightarrow> 's"
    and del :: "string \<Rightarrow> 's \<Rightarrow> 's"
    and ok :: "'s \<Rightarrow> bool"
  assumes get_put: "get (put k v s) k' = (if k' = k then Some v else get s k')"
    and get_del: "get (del k s) k' = (if k' = k then None else get s k')"
    and ok_put: "ok s \<Longrightarrow> ok (put k v s)"
    and ok_del: "ok s \<Longrightarrow> ok (del k s)"
begin

lemma read_own_write: "get (put k v s) k = Some v"
  by (simp add: get_put)

lemma write_frame: "k' \<noteq> k \<Longrightarrow> get (put k v s) k' = get s k'"
  by (simp add: get_put)

lemma writes_commute:
  "k \<noteq> k' \<Longrightarrow> get (put k v (put k' v' s)) j = get (put k' v' (put k v s)) j"
  by (simp add: get_put)

lemma last_write_wins: "get (put k v (put k v' s)) j = get (put k v s) j"
  by (simp add: get_put)

end

interpretation table: storage_iface tget tput tdel table_ok
  by unfold_locales auto

end
