(* ===== verification/JsString.thy ===== *)
theory JsString
  imports Prelude
begin

text \<open>
  The parts of the JavaScript string and BigInt library that the modelled code calls.

  A string is a list of \<open>char\<close>, read as UTF-16 code units below 256 (every literal and format of the
  code is ASCII).  \<open>\\d\<close> of a regular expression is \<open>is_digit\<close>; \<open>BigInt(s)\<close> on a string of digits is
  \<open>dec_val\<close>; \<open>n.toString()\<close> is \<open>int_str\<close>; BigInt division truncates towards zero (\<open>bigint_div\<close>).
\<close>

named_theorems str_simps "strings of decimal digits"

subsection \<open>Digits\<close>

definition is_digit :: "char \<Rightarrow> bool" where
  "is_digit c \<longleftrightarrow> 48 \<le> (of_char c :: nat) \<and> (of_char c :: nat) \<le> 57"

definition digit_val :: "char \<Rightarrow> nat" where
  "digit_val c = of_char c - 48"

definition digit_char :: "nat \<Rightarrow> char" where
  "digit_char d = char_of (48 + d)"

definition all_digits :: "string \<Rightarrow> bool" where
  "all_digits s = list_all is_digit s"

lemma of_digit_char: "d < 10 \<Longrightarrow> (of_char (digit_char d) :: nat) = 48 + d"
  by (simp add: digit_char_def)

lemma is_digit_digit_char [simp]: "d < 10 \<Longrightarrow> is_digit (digit_char d)"
  by (simp add: is_digit_def of_digit_char)

lemma digit_val_digit_char [simp]: "d < 10 \<Longrightarrow> digit_val (digit_char d) = d"
  by (simp add: digit_val_def of_digit_char)

lemma digit_val_lt: "is_digit c \<Longrightarrow> digit_val c < 10"
  unfolding is_digit_def digit_val_def by linarith

lemma digit_char_digit_val: "is_digit c \<Longrightarrow> digit_char (digit_val c) = c"
  by (simp add: is_digit_def digit_val_def digit_char_def)

lemma digit_char_0: "digit_char 0 = CHR ''0''"
  using char_of_char [where 'a = nat, of "CHR ''0''"] by (simp add: digit_char_def)

lemma is_digit_0 [simp]: "is_digit (CHR ''0'')" and digit_val_0 [simp]: "digit_val (CHR ''0'') = 0"
  by (simp_all add: is_digit_def digit_val_def)

lemma not_digit_punct [simp]:
  "\<not> is_digit (CHR ''.'')" "\<not> is_digit (CHR ''-'')" "\<not> is_digit (CHR '':'')"
  "\<not> is_digit (CHR '' '')" "\<not> is_digit (CHR ''T'')" "\<not> is_digit (CHR ''Z'')"
  by (simp_all add: is_digit_def)

lemma all_digits_simps [simp]:
  "all_digits []"
  "all_digits (c # s) \<longleftrightarrow> is_digit c \<and> all_digits s"
  "all_digits (s @ s') \<longleftrightarrow> all_digits s \<and> all_digits s'"
  by (simp_all add: all_digits_def)

lemma all_digits_replicate [simp]: "all_digits (replicate n (CHR ''0''))"
  by (induction n) simp_all

subsection \<open>Decimal numerals\<close>

fun nat_str :: "nat \<Rightarrow> string" where
  "nat_str n = (if n < 10 then [digit_char n] else nat_str (n div 10) @ [digit_char (n mod 10)])"

declare nat_str.simps [simp del]

definition int_str :: "int \<Rightarrow> string" where
  "int_str n = (if n < 0 then CHR ''-'' # nat_str (nat (- n)) else nat_str (nat n))"

definition dec_val :: "string \<Rightarrow> nat" where
  "dec_val s = foldl (\<lambda>a c. 10 * a + digit_val c) 0 s"

lemma dec_val_acc: "foldl (\<lambda>a c. 10 * a + digit_val c) n s = n * 10 ^ length s + dec_val s"
proof (induction s arbitrary: n)
  case Nil
  then show ?case by (simp add: dec_val_def)
next
  case (Cons c s)
  show ?case
    using Cons.IH [of "10 * n + digit_val c"] Cons.IH [of "digit_val c"]
    by (simp add: dec_val_def algebra_simps)
qed

lemma dec_val_simps [simp]:
  "dec_val [] = 0"
  "dec_val (c # s) = digit_val c * 10 ^ length s + dec_val s"
  using dec_val_acc [of "digit_val c" s] by (simp_all add: dec_val_def)

lemma dec_val_append [str_simps]: "dec_val (s @ s') = dec_val s * 10 ^ length s' + dec_val s'"
  using dec_val_acc [of "dec_val s" s'] by (simp add: dec_val_def)

lemma dec_val_zeros [simp]: "dec_val (replicate n (CHR ''0'')) = 0"
  by (induction n) simp_all

lemma dec_val_lt: "all_digits s \<Longrightarrow> dec_val s < 10 ^ length s"
proof (induction s)
  case Nil
  then show ?case by simp
next
  case (Cons c s)
  then have "dec_val s < 10 ^ length s" and d: "digit_val c \<le> 9"
    using digit_val_lt [of c] by auto
  moreover from d have "digit_val c * 10 ^ length s \<le> 9 * 10 ^ length s"
    by (rule mult_le_mono1)
  ultimately have "digit_val c * 10 ^ length s + dec_val s < 9 * 10 ^ length s + 10 ^ length s"
    by (rule_tac add_le_less_mono)
  then show ?case by simp
qed

lemma dec_val_nat_str [simp]: "dec_val (nat_str n) = n"
proof (induction n rule: nat_str.induct)
  case (1 n)
  then show ?case
    by (subst nat_str.simps) (auto simp: str_simps)
qed

lemma all_digits_nat_str [simp]: "all_digits (nat_str n)"
proof (induction n rule: nat_str.induct)
  case (1 n)
  then show ?case by (subst nat_str.simps) auto
qed

lemma nat_str_not_Nil [simp]: "nat_str n \<noteq> []"
  by (subst nat_str.simps) simp

lemma length_nat_str: "n < 10 ^ k \<Longrightarrow> 0 < k \<Longrightarrow> length (nat_str n) \<le> k"
proof (induction n arbitrary: k rule: nat_str.induct)
  case (1 n)
  show ?case
  proof (cases "n < 10")
    case True
    with 1(3) show ?thesis by (subst nat_str.simps) simp
  next
    case False
    from 1(3) obtain j where k: "k = Suc j" by (cases k) auto
    with False 1(2) have j: "0 < j" by (cases j) auto
    from 1(2) k have "n div 10 < 10 ^ j" by (simp add: less_mult_imp_div_less mult.commute)
    from 1(1) [OF False this j] have "length (nat_str (n div 10)) \<le> j" .
    with False k show ?thesis by (subst nat_str.simps) simp
  qed
qed

lemma nat_str_inject [simp]: "nat_str m = nat_str n \<longleftrightarrow> m = n"
  by (metis dec_val_nat_str)

lemma dec_val_inject:
  "all_digits s \<Longrightarrow> all_digits s' \<Longrightarrow> length s = length s' \<Longrightarrow> dec_val s = dec_val s' \<Longrightarrow> s = s'"
proof (induction s arbitrary: s')
  case Nil
  then show ?case by simp
next
  case (Cons c s)
  from Cons.prems(3) obtain d r where s': "s' = d # r" and len: "length s = length r"
    by (cases s') auto
  have lt: "dec_val s < 10 ^ length s" "dec_val r < 10 ^ length s"
    using dec_val_lt [of s] dec_val_lt [of r] len Cons.prems(1,2) s' by simp_all
  have eq: "digit_val c * 10 ^ length s + dec_val s = digit_val d * 10 ^ length s + dec_val r"
    using Cons.prems(4) len by (simp add: s')
  have div: "(a * 10 ^ length s + x) div 10 ^ length s = a" if "x < 10 ^ length s" for a x :: nat
    using that by simp
  have hd: "digit_val c = digit_val d"
    by (metis eq div lt)
  have "dec_val s = dec_val r" using eq unfolding hd by (rule add_left_imp_eq)
  then have "s = r" using Cons.prems(1,2) s' len by (intro Cons.IH) auto
  have "is_digit c" "is_digit d" using Cons.prems(1,2) s' by simp_all
  then have "c = d" using hd by (metis digit_char_digit_val)
  with \<open>s = r\<close> show ?case by (simp add: s')
qed

subsection \<open>padStart, padEnd, split, trim and replace\<close>

definition padStart :: "nat \<Rightarrow> char \<Rightarrow> string \<Rightarrow> string" where
  "padStart n c s = replicate (n - length s) c @ s"

definition padEnd :: "nat \<Rightarrow> char \<Rightarrow> string \<Rightarrow> string" where
  "padEnd n c s = s @ replicate (n - length s) c"

lemma length_padStart [simp]: "length (padStart n c s) = max n (length s)"
  by (simp add: padStart_def)

lemma length_padEnd [simp]: "length (padEnd n c s) = max n (length s)"
  by (simp add: padEnd_def)

lemma dec_val_padStart [simp]: "dec_val (padStart n (CHR ''0'') s) = dec_val s"
  by (simp add: padStart_def str_simps)

lemma all_digits_padStart [simp]: "all_digits (padStart n (CHR ''0'') s) = all_digits s"
  by (simp add: padStart_def)

lemma all_digits_padEnd [simp]: "all_digits (padEnd n (CHR ''0'') s) = all_digits s"
  by (simp add: padEnd_def)

text \<open>\<open>s.split(c)\<close> for a one-character separator.\<close>

fun split_on :: "char \<Rightarrow> string \<Rightarrow> string list" where
  "split_on c [] = [[]]"
| "split_on c (d # s) =
     (if d = c then [] # split_on c s
      else (case split_on c s of [] \<Rightarrow> [[d]] | w # ws \<Rightarrow> (d # w) # ws))"

lemma split_on_not_Nil [simp]: "split_on c s \<noteq> []"
  by (cases s) (auto split: list.splits)

lemma split_on_none [str_simps]: "c \<notin> set s \<Longrightarrow> split_on c s = [s]"
  by (induction s) auto

lemma split_on_append [str_simps]: "c \<notin> set s \<Longrightarrow> split_on c (s @ c # r) = s # split_on c r"
  by (induction s) auto

lemma all_digits_no_char: "all_digits s \<Longrightarrow> \<not> is_digit c \<Longrightarrow> c \<notin> set s"
  by (induction s) auto

definition is_space :: "char \<Rightarrow> bool" where
  "is_space c = (let n = (of_char c :: nat) in (9 \<le> n \<and> n \<le> 13) \<or> n = 32 \<or> n = 160)"

definition js_trim :: "string \<Rightarrow> string" where
  "js_trim s = rev (dropWhile is_space (rev (dropWhile is_space s)))"

lemma not_space_digit [simp]: "is_digit c \<Longrightarrow> \<not> is_space c"
  by (auto simp: is_digit_def is_space_def Let_def)

lemma not_space_minus [simp]: "\<not> is_space (CHR ''-'')"
  by (simp add: is_space_def)

lemma js_trim_id: "s \<noteq> [] \<Longrightarrow> \<not> is_space (hd s) \<Longrightarrow> \<not> is_space (last s) \<Longrightarrow> js_trim s = s"
proof -
  assume a: "s \<noteq> []" "\<not> is_space (hd s)" "\<not> is_space (last s)"
  then have "dropWhile is_space s = s" by (cases s) auto
  moreover have "dropWhile is_space (rev s) = rev s"
    using a by (cases s rule: rev_cases) auto
  ultimately show ?thesis by (simp add: js_trim_def)
qed

text \<open>\<open>s.replace(/0+$/, '')\<close>.\<close>

definition strip_zeros :: "string \<Rightarrow> string" where
  "strip_zeros s = rev (dropWhile (\<lambda>c. c = CHR ''0'') (rev s))"

lemma strip_zeros_decomp: "\<exists>k. s = strip_zeros s @ replicate k (CHR ''0'')"
proof -
  have "\<exists>k. t = replicate k (CHR ''0'') @ dropWhile (\<lambda>c. c = CHR ''0'') t" for t
  proof (induction t)
    case Nil
    then show ?case by (simp add: exI [of _ 0])
  next
    case (Cons c t)
    then obtain k where "t = replicate k (CHR ''0'') @ dropWhile (\<lambda>c. c = CHR ''0'') t" by blast
    then show ?case
      by (cases "c = CHR ''0''") (auto intro: exI [of _ "Suc k"] exI [of _ 0])
  qed
  then obtain k where "rev s = replicate k (CHR ''0'') @ dropWhile (\<lambda>c. c = CHR ''0'') (rev s)"
    by blast
  then have "s = rev (replicate k (CHR ''0'') @ dropWhile (\<lambda>c. c = CHR ''0'') (rev s))"
    by (metis rev_rev_ident)
  then show ?thesis by (auto simp: strip_zeros_def)
qed

subsection \<open>BigInt division\<close>

definition bigint_div :: "int \<Rightarrow> int \<Rightarrow> int" where
  "bigint_div a b = sgn a * sgn b * (\<bar>a\<bar> div \<bar>b\<bar>)"

definition bigint_mod :: "int \<Rightarrow> int \<Rightarrow> int" where
  "bigint_mod a b = a - b * bigint_div a b"

lemma bigint_div_nonneg: "0 \<le> a \<Longrightarrow> 0 < b \<Longrightarrow> bigint_div a b = a div b"
  by (cases "a = 0") (auto simp: bigint_div_def sgn_if)

lemma bigint_mod_nonneg: "0 \<le> a \<Longrightarrow> 0 < b \<Longrightarrow> bigint_mod a b = a mod b"
  by (simp add: bigint_mod_def bigint_div_nonneg minus_mult_div_eq_mod)

subsection \<open>Integers as strings\<close>

definition int_re :: "string \<Rightarrow> bool" where
  \<comment> \<open>\<open>/^-?\\d+$/\<close>\<close>
  "int_re s = (let u = (case s of c # r \<Rightarrow> if c = CHR ''-'' then r else s | [] \<Rightarrow> s)
               in u \<noteq> [] \<and> all_digits u)"

definition bigint_of :: "string \<Rightarrow> int" where
  \<comment> \<open>\<open>BigInt(s)\<close> on a string that matches \<open>int_re\<close>\<close>
  "bigint_of s = (case s of
       c # r \<Rightarrow> if c = CHR ''-'' then - int (dec_val r) else int (dec_val s)
     | [] \<Rightarrow> 0)"

lemma digits_hd_not_minus: "all_digits (c # s) \<Longrightarrow> c \<noteq> CHR ''-''"
  by auto

lemma nat_str_cases: "\<exists>c r. nat_str n = c # r \<and> is_digit c \<and> all_digits r"
  by (metis all_digits_nat_str all_digits_simps(2) nat_str_not_Nil list.exhaust)

lemma int_re_int_str [simp]: "int_re (int_str n)"
proof (cases "n < 0")
  case True
  then show ?thesis by (simp add: int_re_def int_str_def)
next
  case False
  obtain c r where "nat_str (nat n) = c # r" "is_digit c" "all_digits r"
    using nat_str_cases by blast
  with False show ?thesis by (auto simp: int_re_def int_str_def)
qed

lemma bigint_of_int_str [simp]: "bigint_of (int_str n) = n"
proof (cases "n < 0")
  case True
  then show ?thesis by (simp add: bigint_of_def int_str_def)
next
  case False
  obtain c r where s: "nat_str (nat n) = c # r" "is_digit c" "all_digits r"
    using nat_str_cases by blast
  then have "dec_val (c # r) = nat n" by (metis dec_val_nat_str)
  with False s show ?thesis by (auto simp: bigint_of_def int_str_def)
qed

lemma int_str_not_Nil [simp]: "int_str n \<noteq> []"
  by (simp add: int_str_def)

lemma int_str_inject [simp]: "int_str m = int_str n \<longleftrightarrow> m = n"
  by (metis bigint_of_int_str)

text \<open>\<open>toLowerCase\<close> on code units below 256.\<close>

definition lower_char :: "char \<Rightarrow> char" where
  "lower_char c =
     (let n = (of_char c :: nat) in
      if 65 \<le> n \<and> n \<le> 90 \<or> 192 \<le> n \<and> n \<le> 222 \<and> n \<noteq> 215 then char_of (n + 32) else c)"

definition js_lower :: "string \<Rightarrow> string" where
  "js_lower s = map lower_char s"

end
