(* ===== verification/AtomicStore.thy ===== *)
theory AtomicStore
  imports JsString
begin

text \<open>
  \<open>AtomicStoreDO\<close> (\<open>src/src/mpp/atomic-store-do.ts\<close>): the Durable Object that gives the router its
  compare-and-swap.  For a store key \<open>k\<close> the object keeps \<open>v:<k>\<close> (the value, absent is null) and
  \<open>n:<k>\<close> (the version, absent is 0): the two tables of the record.  Values are JSON text in the code;
  the model keeps what the text encodes, of type \<open>'v\<close>, so that each instance of the object (one per
  \<open>idFromName\<close>) can be given the values it stores.  Each handler is one atomic step, because the
  platform runs one request of an object at a time and the writes of a transaction land together.
\<close>

record 'v astore =
  vals :: "'v table"
  vers :: "int table"

definition value_at :: "'v astore \<Rightarrow> string \<Rightarrow> 'v option" where
  "value_at st key = tget (vals st) key"

definition version_at :: "'v astore \<Rightarrow> string \<Rightarrow> int" where
  "version_at st key = (case tget (vers st) key of None \<Rightarrow> 0 | Some n \<Rightarrow> n)"

definition empty_store :: "'v astore" where
  "empty_store = \<lparr>vals = [], vers = []\<rparr>"

datatype 'v write_op = SetOp 'v | DeleteOp

datatype 'v commit_response = CommitOk | CommitConflict "'v option" int

subsection \<open>/read and /scan\<close>

definition handleRead :: "string \<Rightarrow> 'v astore \<Rightarrow> 'v option \<times> int" where
  "handleRead key st = (value_at st key, version_at st key)"

definition handleScan :: "string \<Rightarrow> 'v astore \<Rightarrow> 'v list" where
  "handleScan prefix st = map snd (tlist prefix (vals st))"

subsection \<open>/commit\<close>

definition apply_write :: "string \<Rightarrow> int \<Rightarrow> 'v write_op \<Rightarrow> 'v astore \<Rightarrow> 'v astore" where
  "apply_write key expected wop st =
     (case wop of
        SetOp v \<Rightarrow> st\<lparr>vals := tput key v (vals st), vers := tput key (expected + 1) (vers st)\<rparr>
      | DeleteOp \<Rightarrow> st\<lparr>vals := tdel key (vals st), vers := tput key (expected + 1) (vers st)\<rparr>)"

definition handleCommit ::
    "string \<Rightarrow> int \<Rightarrow> 'v write_op \<Rightarrow> 'v astore \<Rightarrow> 'v commit_response \<times> 'v astore" where
  "handleCommit key expected wop st =
     (if version_at st key \<noteq> expected
      then (CommitConflict (value_at st key) (version_at st key), st)
      else (CommitOk, apply_write key expected wop st))"

subsection \<open>/seed\<close>

definition handleSeed :: "string \<Rightarrow> 'v \<Rightarrow> 'v astore \<Rightarrow> bool \<times> 'v astore" where
  "handleSeed key v st =
     (case value_at st key of
        Some _ \<Rightarrow> (False, st)
      | None \<Rightarrow> (True, st\<lparr>vals := tput key v (vals st), vers := tput key 1 (vers st)\<rparr>))"

subsection \<open>/gate\<close>

text \<open>Counters are the values \<open>{ count, bucket }\<close>; anything else reads as a fresh counter.\<close>

datatype counter_val = Counter int string | NotCounter

definition parseGateCount :: "counter_val option \<Rightarrow> string \<Rightarrow> int" where
  "parseGateCount raw bucket =
     (case raw of
        Some (Counter c b) \<Rightarrow> if b = bucket then c else 0
      | _ \<Rightarrow> 0)"

definition isGateBody :: "string \<Rightarrow> string \<Rightarrow> string \<Rightarrow> int \<Rightarrow> int \<Rightarrow> bool" where
  "isGateBody globalKey ipKey bucket globalLimit ipLimit \<longleftrightarrow>
     globalKey \<noteq> [] \<and> ipKey \<noteq> [] \<and> bucket \<noteq> [] \<and>
     0 < globalLimit \<and> globalLimit \<le> 2 ^ 53 - 1 \<and> 0 < ipLimit \<and> ipLimit \<le> 2 ^ 53 - 1"

definition gate_bump :: "string \<Rightarrow> string \<Rightarrow> counter_val astore \<Rightarrow> int \<times> counter_val astore" where
  "gate_bump bucket key st =
     (let c = parseGateCount (value_at st key) bucket + 1
      in (c, st\<lparr>vals := tput key (Counter c bucket) (vals st),
               vers := tput key (version_at st key + 1) (vers st)\<rparr>))"

definition handleGate ::
    "string \<Rightarrow> string \<Rightarrow> string \<Rightarrow> int \<Rightarrow> counter_val astore \<Rightarrow> (int \<times> int option) \<times> counter_val astore" where
  "handleGate globalKey ipKey bucket globalLimit st =
     (case gate_bump bucket globalKey st of (globalCount, st1) \<Rightarrow>
        if globalCount \<le> globalLimit
        then (case gate_bump bucket ipKey st1 of (ipCount, st2) \<Rightarrow> ((globalCount, Some ipCount), st2))
        else ((globalCount, None), st1))"

subsection \<open>Reads after the handlers\<close>

lemma empty_store_reads [simp]: "value_at empty_store k = None" "version_at empty_store k = 0"
  by (simp_all add: value_at_def version_at_def empty_store_def)

lemma value_apply_write:
  "value_at (apply_write key e wop st) k =
    (if k = key then (case wop of SetOp v \<Rightarrow> Some v | DeleteOp \<Rightarrow> None) else value_at st k)"
  by (simp add: value_at_def apply_write_def split: write_op.splits)

lemma version_apply_write:
  "version_at (apply_write key e wop st) k = (if k = key then e + 1 else version_at st k)"
  by (simp add: version_at_def apply_write_def split: write_op.splits)

lemma commit_ok_iff: "fst (handleCommit key e wop st) = CommitOk \<longleftrightarrow> version_at st key = e"
  by (simp add: handleCommit_def)

lemma version_seed:
  "value_at st key = None \<Longrightarrow>
    version_at (snd (handleSeed key v st)) k = (if k = key then 1 else version_at st k)"
  by (simp add: handleSeed_def version_at_def)

lemma gate_bump_value:
  "value_at (snd (gate_bump bucket key st)) k =
    (if k = key then Some (Counter (fst (gate_bump bucket key st)) bucket) else value_at st k)"
  by (simp add: gate_bump_def Let_def value_at_def)

lemma gate_bump_version:
  "version_at (snd (gate_bump bucket key st)) k = version_at st k + (if k = key then 1 else 0)"
  by (simp add: gate_bump_def Let_def version_at_def)

lemma gate_bump_count:
  "fst (gate_bump bucket key st) = parseGateCount (value_at st key) bucket + 1"
  by (simp add: gate_bump_def Let_def)

subsection \<open>What other requests may do to the object\<close>

text \<open>
  \<open>do_step\<close> is one request of anybody.  A seed is a step here only on a key that was never written:
  on a key that was written and then deleted, the version it restarts at 1 may have been used before,
  which the last theorem of this theory shows to break the compare-and-swap.
\<close>

inductive do_step :: "'v astore \<Rightarrow> 'v astore \<Rightarrow> bool" where
  commit: "do_step st (snd (handleCommit key e wop st))"
| seed: "version_at st key = 0 \<Longrightarrow> do_step st (snd (handleSeed key v st))"

inductive_cases do_stepE: "do_step st st'"

definition do_steps :: "'v astore \<Rightarrow> 'v astore \<Rightarrow> bool" where
  "do_steps = do_step\<^sup>*\<^sup>*"

definition versions_ok :: "'v astore \<Rightarrow> bool" where
  "versions_ok st \<longleftrightarrow> (\<forall>k. 0 \<le> version_at st k)"

text \<open>One request never lowers a version, and a version that did not move still guards the same value.\<close>

definition version_guards :: "'v astore \<Rightarrow> 'v astore \<Rightarrow> bool" where
  "version_guards st st' \<longleftrightarrow>
     (\<forall>k. version_at st k \<le> version_at st' k
        \<and> (version_at st' k = version_at st k \<longrightarrow> value_at st' k = value_at st k))"

lemma handleCommit_guards: "version_guards st (snd (handleCommit key e wop st))"
  by (auto simp: version_guards_def handleCommit_def version_apply_write value_apply_write)

lemma handleSeed_guards: "version_at st key = 0 \<Longrightarrow> version_guards st (snd (handleSeed key v st))"
  by (auto simp: version_guards_def handleSeed_def version_at_def value_at_def split: option.splits)

lemma do_step_guards: "do_step st st' \<Longrightarrow> version_guards st st'"
  by (auto elim!: do_stepE intro: handleCommit_guards handleSeed_guards)

lemma version_guards_refl: "version_guards st st"
  by (simp add: version_guards_def)

lemma version_guards_trans: "version_guards a b \<Longrightarrow> version_guards b c \<Longrightarrow> version_guards a c"
  unfolding version_guards_def by (metis order_antisym order_trans)

lemma do_steps_guards: "do_steps st st' \<Longrightarrow> version_guards st st'"
  unfolding do_steps_def
  by (induction rule: rtranclp_induct)
     (auto intro: version_guards_refl version_guards_trans do_step_guards)

lemma do_steps_refl [simp]: "do_steps st st"
  by (simp add: do_steps_def)

lemma do_steps_trans: "do_steps a b \<Longrightarrow> do_steps b c \<Longrightarrow> do_steps a c"
  unfolding do_steps_def by (rule rtranclp_trans)

lemma do_steps_commit: "do_steps st (snd (handleCommit key e wop st))"
  unfolding do_steps_def by (rule r_into_rtranclp) (rule do_step.commit)

text \<open>The gate's bump is a commit at the version it reads, so it is a step like any other.\<close>

lemma gate_bump_commit:
  "snd (gate_bump bucket key st) =
    snd (handleCommit key (version_at st key) (SetOp (Counter (fst (gate_bump bucket key st)) bucket)) st)"
  by (simp add: gate_bump_def Let_def handleCommit_def apply_write_def)

lemma handleGate_steps: "do_steps st (snd (handleGate globalKey ipKey bucket globalLimit st))"
proof -
  have bump: "do_steps s (snd (gate_bump bucket k s))" for s k
    unfolding gate_bump_commit by (rule do_steps_commit)
  show ?thesis
    unfolding handleGate_def
    using bump do_steps_trans [OF bump bump]
    by (auto split: prod.splits) (metis snd_conv)+
qed

subsection \<open>Properties\<close>



text \<open>A seed never overwrites a value: on a present key nothing changes, on an absent one the value is
  written, and no other key moves.\<close>

theorem seed_non_destructive:
  "case handleSeed key v st of (seeded, st') \<Rightarrow>
     (seeded \<longleftrightarrow> value_at st key = None) \<and>
     value_at st' key = (if seeded then Some v else value_at st key) \<and>
     (if seeded then version_at st' key = 1 else st' = st) \<and>
     (\<forall>k. k \<noteq> key \<longrightarrow> value_at st' k = value_at st k \<and> version_at st' k = version_at st k)"
  by (simp add: handleSeed_def value_at_def version_at_def split: option.splits)

theorem seed_non_destructive_witness:
  "handleSeed ''k'' (2 :: int) (snd (handleCommit ''k'' 0 (SetOp 1) empty_store)) =
    (False, snd (handleCommit ''k'' 0 (SetOp 1) empty_store))"
  using seed_non_destructive [where key = "''k''" and v = 2
      and st = "snd (handleCommit ''k'' 0 (SetOp 1) (empty_store :: int astore))"]
  by (simp add: handleCommit_def value_apply_write split_beta prod_eq_iff split: if_splits)

text \<open>The version a seed restarts at can have been used before.  After a write, a delete and a seed, a
  client that read the first value still commits successfully with its stale version, and the seeded
  value is lost although the client never saw it.\<close>

theorem seed_after_delete_breaks_cas:
  "\<exists>(s1 :: string astore) s2 s3.
     handleCommit ''k'' 0 (SetOp ''first'') empty_store = (CommitOk, s1) \<and>
     handleRead ''k'' s1 = (Some ''first'', 1) \<and>
     handleCommit ''k'' 1 DeleteOp s1 = (CommitOk, s2) \<and>
     handleSeed ''k'' ''migrated'' s2 = (True, s3) \<and>
     value_at s3 ''k'' = Some ''migrated'' \<and>
     fst (handleCommit ''k'' 1 (SetOp ''stale'') s3) = CommitOk \<and>
     value_at (snd (handleCommit ''k'' 1 (SetOp ''stale'') s3)) ''k'' = Some ''stale''"
  by (simp add: handleCommit_def handleRead_def handleSeed_def version_at_def value_at_def
      empty_store_def apply_write_def)

text \<open>The abuse gate counts every admitted request once.  The global counter of the bucket grows by
  exactly one whatever the answer; the per-IP counter grows by one when the global counter is within its limit
  and is untouched otherwise; a counter left by another bucket restarts from zero.\<close>

theorem gate_counts_once:
  assumes "globalKey \<noteq> ipKey"
  shows "case handleGate globalKey ipKey bucket globalLimit st of ((g, i), st') \<Rightarrow>
     g = parseGateCount (value_at st globalKey) bucket + 1 \<and>
     parseGateCount (value_at st' globalKey) bucket = g \<and>
     (if g \<le> globalLimit
      then i = Some (parseGateCount (value_at st ipKey) bucket + 1)
           \<and> parseGateCount (value_at st' ipKey) bucket = parseGateCount (value_at st ipKey) bucket + 1
      else i = None \<and> value_at st' ipKey = value_at st ipKey) \<and>
     (\<forall>k. k \<noteq> globalKey \<longrightarrow> k \<noteq> ipKey \<longrightarrow> value_at st' k = value_at st k)"
proof -
  obtain g s1 where g: "gate_bump bucket globalKey st = (g, s1)" by fastforce
  obtain i s2 where i: "gate_bump bucket ipKey s1 = (i, s2)" by fastforce
  note v1 = gate_bump_value [of bucket globalKey st, unfolded g fst_conv snd_conv]
  note v2 = gate_bump_value [of bucket ipKey s1, unfolded i fst_conv snd_conv]
  note c1 = gate_bump_count [of bucket globalKey st, unfolded g fst_conv]
  note c2 = gate_bump_count [of bucket ipKey s1, unfolded i fst_conv]
  show ?thesis
    using assms by (simp add: handleGate_def g i v1 v2 c1 c2) (simp add: parseGateCount_def)
qed

theorem gate_counts_once_witness:
  "case handleGate ''g'' ''ip'' ''2026-09-15T10'' 100 empty_store of ((g, i), st') \<Rightarrow>
     g = 1 \<and> i = Some 1"
  using gate_counts_once [where globalKey = "''g''" and ipKey = "''ip''" and bucket = "''2026-09-15T10''"
      and globalLimit = 100 and st = empty_store]
  by (simp add: split_beta value_at_def empty_store_def parseGateCount_def)

end
