(* ===== verification/KvStore.thy ===== *)
theory KvStore
  imports AtomicStore
begin

text \<open>
  \<open>doAtomicParams\<close> (\<open>src/src/mpp/kv-atomic-store.ts\<close>): the Worker-side client of the Durable Object.
  A Worker sends several requests for one operation, and requests of other Workers are served in
  between.  The operations therefore take an argument \<open>env\<close>: \<open>env n s\<close> is the store the client's
  \<open>n\<close>-th request finds when its previous one left \<open>s\<close>.  The loops are bounded by the retry limit of
  the code, so they are recursive in the number of attempts left; running out is the code's throw.

  The locale \<open>cas_reads\<close>, extended by \<open>cas_server\<close>, is what the client relies on: a commit is a compare-and-swap on versions, and
  what others do never lets a version guard two values.  The client's lemmas are proved in it once, for
  any such server; \<open>AtomicStore\<close> provides it.
\<close>

datatype ('v, 'r) change = Noop 'r | Change "'v write_op" 'r

definition MAX_UPDATE_RETRIES :: nat where
  "MAX_UPDATE_RETRIES = 5"

type_synonym ('s, 'v) committer = "string \<Rightarrow> int \<Rightarrow> 'v write_op \<Rightarrow> 's \<Rightarrow> 'v commit_response \<times> 's"

text \<open>The loop of \<open>update\<close>: \<open>n\<close> numbers the requests, \<open>cur\<close> and \<open>ver\<close> are what the client holds.\<close>

fun update_loop ::
    "('s, 'v) committer \<Rightarrow> (nat \<Rightarrow> 's \<Rightarrow> 's) \<Rightarrow> string \<Rightarrow> ('v option \<Rightarrow> ('v, 'r) change)
      \<Rightarrow> nat \<Rightarrow> nat \<Rightarrow> 'v option \<Rightarrow> int \<Rightarrow> 's \<Rightarrow> 'r js \<times> 's" where
  "update_loop commit env key fn 0 n cur ver s = (Inl (JsError ''exhausted CAS retries''), s)"
| "update_loop commit env key fn (Suc attempts) n cur ver s =
     (case fn cur of
        Noop r \<Rightarrow> (Inr r, s)
      | Change wop r \<Rightarrow>
          (case commit key ver wop (env n s) of
             (CommitOk, s') \<Rightarrow> (Inr r, s')
           | (CommitConflict cur' ver', s') \<Rightarrow>
               update_loop commit env key fn attempts (Suc n) cur' ver' s'))"

fun put_loop ::
    "(string \<Rightarrow> 's \<Rightarrow> 'v option \<times> int) \<Rightarrow> ('s, 'v) committer \<Rightarrow> (nat \<Rightarrow> 's \<Rightarrow> 's) \<Rightarrow> string \<Rightarrow> 'v
      \<Rightarrow> nat \<Rightarrow> nat \<Rightarrow> 's \<Rightarrow> unit js \<times> 's" where
  "put_loop read commit env key v 0 n s = (Inl (JsError ''exhausted retries''), s)"
| "put_loop read commit env key v (Suc attempts) n s =
     (let s1 = env n s in
      case commit key (snd (read key s1)) (SetOp v) (env (Suc n) s1) of
        (CommitOk, s') \<Rightarrow> (Inr (), s')
      | (CommitConflict _ _, s') \<Rightarrow> put_loop read commit env key v attempts (n + 2) s')"

fun delete_loop ::
    "(string \<Rightarrow> 's \<Rightarrow> 'v option \<times> int) \<Rightarrow> ('s, 'v) committer \<Rightarrow> (nat \<Rightarrow> 's \<Rightarrow> 's) \<Rightarrow> string
      \<Rightarrow> nat \<Rightarrow> nat \<Rightarrow> 's \<Rightarrow> unit js \<times> 's" where
  "delete_loop read commit env key 0 n s = (Inl (JsError ''exhausted retries''), s)"
| "delete_loop read commit env key (Suc attempts) n s =
     (let s1 = env n s in
      case read key s1 of
        (None, _) \<Rightarrow> (Inr (), s1)
      | (Some _, ver) \<Rightarrow>
          (case commit key ver DeleteOp (env (Suc n) s1) of
             (CommitOk, s') \<Rightarrow> (Inr (), s')
           | (CommitConflict _ _, s') \<Rightarrow> delete_loop read commit env key attempts (n + 2) s'))"

subsection \<open>The operations on the Durable Object\<close>

definition kv_get :: "string \<Rightarrow> 'v astore \<Rightarrow> 'v option" where
  "kv_get key st = fst (handleRead key st)"

definition kv_put ::
    "(nat \<Rightarrow> 'v astore \<Rightarrow> 'v astore) \<Rightarrow> string \<Rightarrow> 'v \<Rightarrow> 'v astore \<Rightarrow> unit js \<times> 'v astore" where
  "kv_put env key v st = put_loop handleRead handleCommit env key v MAX_UPDATE_RETRIES 0 st"

definition kv_delete ::
    "(nat \<Rightarrow> 'v astore \<Rightarrow> 'v astore) \<Rightarrow> string \<Rightarrow> 'v astore \<Rightarrow> unit js \<times> 'v astore" where
  "kv_delete env key st = delete_loop handleRead handleCommit env key MAX_UPDATE_RETRIES 0 st"

definition kv_update ::
    "(nat \<Rightarrow> 'v astore \<Rightarrow> 'v astore) \<Rightarrow> string \<Rightarrow> ('v option \<Rightarrow> ('v, 'r) change) \<Rightarrow> 'v astore
      \<Rightarrow> 'r js \<times> 'v astore" where
  "kv_update env key fn st =
     (let s0 = env 0 st in
      case handleRead key s0 of (cur, ver) \<Rightarrow>
        update_loop handleCommit env key fn MAX_UPDATE_RETRIES 1 cur ver s0)"

text \<open>With nobody else around, \<open>update\<close> is one read-modify-write: what the callers' own models use.\<close>

definition atomic_update ::
    "string \<Rightarrow> ('v option \<Rightarrow> ('v, 'r) change) \<Rightarrow> 'v astore \<Rightarrow> 'r \<times> 'v astore" where
  "atomic_update key fn st =
     (case fn (value_at st key) of
        Noop r \<Rightarrow> (r, st)
      | Change wop r \<Rightarrow> (r, apply_write key (version_at st key) wop st))"

subsection \<open>The interface the client relies on\<close>

locale cas_reads =
  fixes read :: "string \<Rightarrow> 's \<Rightarrow> 'v option \<times> int"
    and commit :: "string \<Rightarrow> int \<Rightarrow> 'v write_op \<Rightarrow> 's \<Rightarrow> 'v commit_response \<times> 's"
    and wr :: "string \<Rightarrow> int \<Rightarrow> 'v write_op \<Rightarrow> 's \<Rightarrow> 's"
    and evolves :: "'s \<Rightarrow> 's \<Rightarrow> bool"
  assumes commit_match: "snd (read key s) = ver \<Longrightarrow> commit key ver wop s = (CommitOk, wr key ver wop s)"
    and commit_stale: "snd (read key s) \<noteq> ver \<Longrightarrow>
      commit key ver wop s = (CommitConflict (fst (read key s)) (snd (read key s)), s)"
    and evolves_refl: "evolves s s"
    and evolves_trans: "evolves a b \<Longrightarrow> evolves b c \<Longrightarrow> evolves a c"
    and version_guard: "evolves s s' \<Longrightarrow> snd (read key s') = snd (read key s) \<Longrightarrow>
      fst (read key s') = fst (read key s)"
begin

lemma commit_cases:
  "commit key ver wop s =
    (if snd (read key s) = ver then (CommitOk, wr key ver wop s)
     else (CommitConflict (fst (read key s)) (snd (read key s)), s))"
  by (simp add: commit_match commit_stale)

text \<open>
  The central fact: if the loop returns, then \<open>fn\<close> was decided on the value the key had in some state
  \<open>lin\<close> between the start and the end, and either nothing was written and that was a no-op, or the
  final state is that state with exactly that write applied: \<open>lin\<close> is the linearization point.
\<close>

lemma update_loop_decides:
  assumes env: "\<And>n s. evolves s (env n s)"
  shows "\<lbrakk>update_loop commit env key fn attempts n cur ver s = (Inr r, s'); evolves held s;
      read key held = (cur, ver)\<rbrakk> \<Longrightarrow>
    (\<exists>lin. evolves held lin \<and>
      (case fn (fst (read key lin)) of
         Noop r' \<Rightarrow> r' = r \<and> evolves lin s' \<and> evolves s s'
       | Change wop r' \<Rightarrow> r' = r \<and> s' = wr key (snd (read key lin)) wop lin))"
proof (induction attempts arbitrary: n cur ver s held)
  case 0
  then show ?case by simp
next
  case (Suc attempts)
  have cur: "fst (read key held) = cur" "snd (read key held) = ver" using Suc.prems(3) by simp_all
  show ?case
  proof (cases "fn cur")
    case (Noop r')
    with Suc.prems have "r' = r" "s' = s" by simp_all
    with Suc.prems(2) Noop cur show ?thesis by (intro exI [of _ held]) (simp add: evolves_refl)
  next
    case (Change wop r')
    let ?e = "env n s"
    have held_e: "evolves held ?e" by (rule evolves_trans [OF Suc.prems(2) env])
    show ?thesis
    proof (cases "snd (read key ?e) = ver")
      case True
      with Change Suc.prems(1) have r: "r' = r" "s' = wr key ver wop ?e"
        by (simp_all add: commit_match)
      have "fst (read key ?e) = cur" using version_guard [OF held_e] True cur by simp
      with True Change r held_e show ?thesis by (intro exI [of _ ?e]) simp
    next
      case False
      with Change Suc.prems(1)
      have rec: "update_loop commit env key fn attempts (Suc n) (fst (read key ?e)) (snd (read key ?e)) ?e
          = (Inr r, s')"
        by (simp add: commit_stale)
      obtain lin where lin: "evolves ?e lin"
        "case fn (fst (read key lin)) of
           Noop r' \<Rightarrow> r' = r \<and> evolves lin s' \<and> evolves ?e s'
         | Change wop r' \<Rightarrow> r' = r \<and> s' = wr key (snd (read key lin)) wop lin"
        using Suc.IH [OF rec evolves_refl] by auto
      then show ?thesis
        using evolves_trans [OF held_e lin(1)] evolves_trans [OF env [of s n]]
        by (intro exI [of _ lin]) (auto split: change.splits)
    qed
  qed
qed

text \<open>Progress: one attempt suffices when nobody moves the key between the read and the commit.\<close>

lemma update_loop_quiet:
  assumes "read key (env n s) = (cur, ver)" "0 < attempts"
  shows "update_loop commit env key fn attempts n cur ver s =
    (case fn cur of Noop r \<Rightarrow> (Inr r, s) | Change wop r \<Rightarrow> (Inr r, wr key ver wop (env n s)))"
  using assms by (cases attempts) (auto split: change.splits simp: commit_match)

text \<open>Lock freedom: the loop gives up only if somebody else moved the key before each of its commits.\<close>

lemma update_loop_exhausted:
  "fst (update_loop commit env key fn attempts n cur ver s) = Inl e \<Longrightarrow> j < attempts \<Longrightarrow>
    \<exists>s0 ver0. snd (read key (env (n + j) s0)) \<noteq> ver0 \<and>
      (j = 0 \<longrightarrow> s0 = s \<and> ver0 = ver) \<and> (0 < j \<longrightarrow> snd (read key s0) = ver0)"
proof (induction attempts arbitrary: n cur ver s j)
  case 0
  then show ?case by simp
next
  case (Suc attempts)
  obtain wop r where ch: "fn cur = Change wop r"
    using Suc.prems(1) by (cases "fn cur") auto
  have moved: "snd (read key (env n s)) \<noteq> ver"
    using Suc.prems(1) ch by (auto simp: commit_match)
  have rec: "fst (update_loop commit env key fn attempts (Suc n) (fst (read key (env n s)))
      (snd (read key (env n s))) (env n s)) = Inl e"
    using Suc.prems(1) ch moved by (simp add: commit_stale)
  show ?case
  proof (cases j)
    case 0
    with moved show ?thesis by auto
  next
    case (Suc i)
    with Suc.prems(2) have "i < attempts" by simp
    from Suc.IH [OF rec this] show ?thesis
      by (cases i) (auto simp: Suc)
  qed
qed

lemma put_loop_writes:
  assumes env: "\<And>n s. evolves s (env n s)"
  shows "put_loop read commit env key v attempts n s = (Inr (), s') \<Longrightarrow>
    \<exists>lin. evolves s lin \<and> s' = wr key (snd (read key lin)) (SetOp v) lin"
proof (induction attempts arbitrary: n s)
  case 0
  then show ?case by simp
next
  case (Suc attempts)
  let ?s1 = "env n s" and ?s2 = "env (Suc n) (env n s)"
  have ev: "evolves s ?s2" by (rule evolves_trans [OF env env])
  show ?case
  proof (cases "snd (read key ?s2) = snd (read key ?s1)")
    case True
    with Suc.prems have "s' = wr key (snd (read key ?s2)) (SetOp v) ?s2"
      by (simp add: Let_def commit_match)
    with ev show ?thesis by blast
  next
    case False
    with Suc.prems have "put_loop read commit env key v attempts (n + 2) ?s2 = (Inr (), s')"
      by (simp add: Let_def commit_stale)
    from Suc.IH [OF this] show ?thesis using evolves_trans [OF ev] by blast
  qed
qed

lemma delete_loop_deletes:
  assumes env: "\<And>n s. evolves s (env n s)"
  shows "delete_loop read commit env key attempts n s = (Inr (), s') \<Longrightarrow>
    \<exists>lin. evolves s lin \<and>
      (s' = lin \<and> fst (read key lin) = None \<or> s' = wr key (snd (read key lin)) DeleteOp lin)"
proof (induction attempts arbitrary: n s)
  case 0
  then show ?case by simp
next
  case (Suc attempts)
  let ?s1 = "env n s" and ?s2 = "env (Suc n) (env n s)"
  have ev: "evolves s ?s2" by (rule evolves_trans [OF env env])
  obtain cur ver where rd: "read key ?s1 = (cur, ver)" by fastforce
  show ?case
  proof (cases cur)
    case None
    with Suc.prems have "s' = ?s1" by (simp add: Let_def rd)
    with None rd show ?thesis using env by (metis fst_conv)
  next
    case (Some x)
    show ?thesis
    proof (cases "snd (read key ?s2) = ver")
      case True
      with Suc.prems Some have "s' = wr key ver DeleteOp ?s2"
        by (simp add: Let_def commit_match rd)
      with ev True show ?thesis by blast
    next
      case False
      with Suc.prems Some have "delete_loop read commit env key attempts (n + 2) ?s2 = (Inr (), s')"
        by (simp add: Let_def commit_stale rd)
      from Suc.IH [OF this] show ?thesis using evolves_trans [OF ev] by blast
    qed
  qed
qed

end

text \<open>When the client's own writes are steps too, the final state is one the object goes through.\<close>

locale cas_server = cas_reads +
  assumes write_evolves: "snd (read key s) = ver \<Longrightarrow> evolves s (wr key ver wop s)"
begin

lemma update_loop_linearizes:
  assumes env: "\<And>n s. evolves s (env n s)"
    and run: "update_loop commit env key fn attempts n cur ver s = (Inr r, s')"
    and held: "evolves held s" "read key held = (cur, ver)"
  shows "\<exists>lin. evolves held lin \<and> evolves lin s' \<and>
      (case fn (fst (read key lin)) of
         Noop r' \<Rightarrow> r' = r \<and> evolves s s'
       | Change wop r' \<Rightarrow> r' = r \<and> s' = wr key (snd (read key lin)) wop lin)"
proof -
  obtain lin where "evolves held lin"
    "case fn (fst (read key lin)) of
       Noop r' \<Rightarrow> r' = r \<and> evolves lin s' \<and> evolves s s'
     | Change wop r' \<Rightarrow> r' = r \<and> s' = wr key (snd (read key lin)) wop lin"
    using update_loop_decides [OF env run held] by blast
  then show ?thesis
    using write_evolves by (intro exI [of _ lin]) (auto split: change.splits)
qed

end

text \<open>The Durable Object provides the interface: the steps of others are the requests it serves.\<close>

lemma read_version: "snd (handleRead key s) = version_at s key"
  and read_value: "fst (handleRead key s) = value_at s key"
  by (simp_all add: handleRead_def)

lemma commit_current: "handleCommit key (version_at s key) wop s = (CommitOk, apply_write key (version_at s key) wop s)"
  by (simp add: handleCommit_def)

lemma guarded_value:
  "do_steps s s' \<Longrightarrow> version_at s' key = version_at s key \<Longrightarrow> value_at s' key = value_at s key"
  using do_steps_guards unfolding version_guards_def by metis

lemma current_write_steps: "do_steps s (apply_write key (version_at s key) wop s)"
  using do_steps_commit [of s key "version_at s key" wop] unfolding commit_current by simp

interpretation do_cas: cas_server handleRead handleCommit apply_write do_steps
  by unfold_locales
    (auto simp: read_version read_value commit_current current_write_steps handleCommit_def
      intro: do_steps_trans guarded_value)

subsection \<open>Properties\<close>


text \<open>\<open>update\<close> is lock-free.  Of its five attempts one is enough before whose commit nobody else moves the key:
  then it returns a result, whatever happens around the other attempts.  On a quiet object it returns at
  once and is exactly one atomic read-modify-write.\<close>

theorem update_terminates:
  "((\<exists>j < MAX_UPDATE_RETRIES. \<forall>s. version_at (env (Suc j) s) key = version_at s key) \<longrightarrow>
      (\<exists>r. fst (kv_update env key fn st) = Inr r)) \<and>
   kv_update (\<lambda>_ s. s) key fn st = (Inr (fst (atomic_update key fn st)), snd (atomic_update key fn st))"
proof (intro conjI impI)
  assume "\<exists>j < MAX_UPDATE_RETRIES. \<forall>s. version_at (env (Suc j) s) key = version_at s key"
  then obtain j where j: "j < MAX_UPDATE_RETRIES"
    and quiet: "\<And>s. version_at (env (Suc j) s) key = version_at s key" by blast
  show "\<exists>r. fst (kv_update env key fn st) = Inr r"
  proof (cases "fst (kv_update env key fn st)")
    case (Inl e)
    let ?s0 = "env 0 st"
    have "fst (update_loop handleCommit env key fn MAX_UPDATE_RETRIES 1 (value_at ?s0 key)
        (version_at ?s0 key) ?s0) = Inl e"
      using Inl by (simp add: kv_update_def Let_def handleRead_def)
    from do_cas.update_loop_exhausted [OF this j] quiet show ?thesis
      by (cases j) (auto simp: handleRead_def)
  qed blast
next
  show "kv_update (\<lambda>_ s. s) key fn st = (Inr (fst (atomic_update key fn st)), snd (atomic_update key fn st))"
    unfolding kv_update_def Let_def handleRead_def prod.case
    by (subst do_cas.update_loop_quiet)
       (auto simp: handleRead_def MAX_UPDATE_RETRIES_def atomic_update_def split: change.splits)
qed

text \<open>Two concrete runs: another Worker commits between the read and the first commit.\<close>

definition claim_once :: "int option \<Rightarrow> (int, string) change" where
  "claim_once cur = (case cur of None \<Rightarrow> Change (SetOp 1) ''claimed'' | Some _ \<Rightarrow> Noop ''replay'')"

definition rival :: "nat \<Rightarrow> int astore \<Rightarrow> int astore" where
  "rival n s = (if n = 1 then snd (handleCommit ''tx'' (version_at s ''tx'') (SetOp 7) s) else s)"

lemma rival_steps: "do_steps s (rival n s)"
  by (simp add: rival_def do_steps_commit)

lemma rival_run: "kv_update rival ''tx'' claim_once empty_store =
    (Inr ''replay'', snd (handleCommit ''tx'' 0 (SetOp 7) empty_store))"
  by (simp add: kv_update_def rival_def claim_once_def handleRead_def handleCommit_def value_at_def
      version_at_def empty_store_def apply_write_def Let_def MAX_UPDATE_RETRIES_def numeral_eq_Suc)


theorem update_terminates_witness:
  "\<exists>r. fst (kv_update rival ''tx'' claim_once empty_store) = Inr r"
proof -
  have "\<exists>j < MAX_UPDATE_RETRIES. \<forall>s. version_at (rival (Suc j) s) ''tx'' = version_at s ''tx''"
    by (rule exI [of _ 1]) (simp add: MAX_UPDATE_RETRIES_def rival_def)
  then show ?thesis
    using update_terminates [of rival "''tx''" claim_once empty_store] by blast
qed

text \<open>\<open>put\<close> and \<open>delete\<close>, when they return, have taken effect on a state reached during the call: the value is
  the one put, respectively the key is absent.\<close>

theorem put_delete_effect:
  assumes "\<forall>n s. do_steps s (env n s)"
  shows "(kv_put env key v st = (Inr (), st') \<longrightarrow>
      (\<exists>lin. do_steps st lin \<and> st' = apply_write key (version_at lin key) (SetOp v) lin \<and>
        kv_get key st' = Some v)) \<and>
    (kv_delete env key st = (Inr (), st') \<longrightarrow>
      (\<exists>lin. do_steps st lin \<and>
        (st' = lin \<or> st' = apply_write key (version_at lin key) DeleteOp lin) \<and> kv_get key st' = None))"
proof (intro conjI impI)
  have env: "\<And>n s. do_steps s (env n s)" using assms by blast
  {
    assume "kv_put env key v st = (Inr (), st')"
    from do_cas.put_loop_writes [OF env this [unfolded kv_put_def]]
    show "\<exists>lin. do_steps st lin \<and> st' = apply_write key (version_at lin key) (SetOp v) lin \<and>
        kv_get key st' = Some v"
      by (auto simp: handleRead_def kv_get_def value_apply_write)
  }
  assume "kv_delete env key st = (Inr (), st')"
  from do_cas.delete_loop_deletes [OF env this [unfolded kv_delete_def]]
  show "\<exists>lin. do_steps st lin \<and>
      (st' = lin \<or> st' = apply_write key (version_at lin key) DeleteOp lin) \<and> kv_get key st' = None"
    by (auto simp: handleRead_def kv_get_def value_apply_write)
qed

theorem put_delete_effect_witness:
  "\<exists>lin. do_steps empty_store lin \<and>
     snd (kv_put rival ''tx'' 5 empty_store) = apply_write ''tx'' (version_at lin ''tx'') (SetOp 5) lin \<and>
     kv_get ''tx'' (snd (kv_put rival ''tx'' 5 empty_store)) = Some 5"
proof -
  have "fst (kv_put rival ''tx'' 5 empty_store) = Inr ()"
    by (simp add: kv_put_def rival_def handleRead_def handleCommit_def value_at_def
      version_at_def empty_store_def apply_write_def Let_def MAX_UPDATE_RETRIES_def numeral_eq_Suc)
  then have "kv_put rival ''tx'' 5 empty_store = (Inr (), snd (kv_put rival ''tx'' 5 empty_store))"
    by (metis prod.collapse)
  then show ?thesis
    using put_delete_effect [of rival "''tx''" 5 empty_store "snd (kv_put rival ''tx'' 5 empty_store)"]
      rival_steps by blast
qed

end
