(* ===== verification/JsDate.thy ===== *)
theory JsDate
  imports JsString
begin

text \<open>
  The part of the JavaScript \<open>Date\<close> the code uses, after the algorithms of the ECMAScript
  specification: a time value is a number of milliseconds since 1970-01-01 UTC (\<open>int\<close>);
  \<open>iso_of t\<close> is \<open>new Date(t).toISOString()\<close>; \<open>date_parse\<close> is \<open>Date.parse\<close> on that format
  (\<open>None\<close>, the code's \<open>NaN\<close>, on every other string: the code only parses what \<open>toISOString\<close> wrote).
  The window keys of the ledger and of the rate limiter are prefixes of that string.
  Shown: parsing undoes printing for the years 0 to 9999, and two times have the same day
  (hour) key exactly when they lie in the same UTC day (hour).
\<close>

definition msPerDay :: int where "msPerDay = 86400000"

definition dayFromYear :: "int \<Rightarrow> int" where
  "dayFromYear y = 365 * (y - 1970) + (y - 1969) div 4 - (y - 1901) div 100 + (y - 1601) div 400"

definition isLeap :: "int \<Rightarrow> bool" where
  "isLeap y \<longleftrightarrow> (y mod 4 = 0 \<and> y mod 100 \<noteq> 0) \<or> y mod 400 = 0"

lemma div_next:
  fixes a n :: int
  assumes "0 < n"
  shows "(a + 1) div n = a div n + (if n dvd a + 1 then 1 else 0)"
proof (cases "n dvd a + 1")
  case True
  then obtain k where k: "a + 1 = n * k" by blast
  then have "a = n * (k - 1) + (n - 1)" by (simp add: algebra_simps)
  then have "a div n = k - 1" using assms by simp
  with k True assms show ?thesis by simp
next
  case False
  have eq: "a + 1 = n * (a div n) + (a mod n + 1)" by simp
  have "a mod n + 1 \<noteq> n"
  proof
    assume "a mod n + 1 = n"
    then have "a + 1 = n * (a div n + 1)" unfolding eq by (simp add: distrib_left)
    with False show False by (metis dvd_triv_left)
  qed
  moreover have "a mod n < n" "0 \<le> a mod n" using assms by simp_all
  ultimately have "0 \<le> a mod n + 1" "a mod n + 1 < n" by linarith+
  then have "(a + 1) div n = a div n"
    using int_div_pos_eq [OF eq] by simp
  with False show ?thesis by simp
qed

lemma leap_sum:
  fixes y :: int
  shows "a' = a + p \<Longrightarrow> b' = b + q \<Longrightarrow> c' = c + r \<Longrightarrow>
    365 * (y + 1 - 1970) + a' - b' + c' = 365 * (y - 1970) + a - b + c + 365 + p - q + r"
  by simp

lemma dayFromYear_leap: "dayFromYear (y + 1) = dayFromYear y + (if isLeap y then 366 else 365)"
proof -
  have d: "4 dvd y - 1968 \<longleftrightarrow> 4 dvd y" "100 dvd y - 1900 \<longleftrightarrow> 100 dvd y" "400 dvd y - 1600 \<longleftrightarrow> 400 dvd y"
    using dvd_add_right_iff [of 4 "- 1968" y] dvd_add_right_iff [of 100 "- 1900" y]
      dvd_add_right_iff [of 400 "- 1600" y] by simp_all
  have i: "400 dvd y \<Longrightarrow> 100 dvd y" "100 dvd y \<Longrightarrow> 4 dvd y"
    using dvd_trans [of 100 400 y] dvd_trans [of 4 100 y] by simp_all
  have "isLeap y \<longleftrightarrow> (4 dvd y \<and> \<not> 100 dvd y) \<or> 400 dvd y"
    by (simp add: isLeap_def dvd_eq_mod_eq_0)
  moreover have "y + 1 - 1969 = y - 1969 + 1" "y - 1969 + 1 = y - 1968"
    "y + 1 - 1901 = y - 1901 + 1" "y - 1901 + 1 = y - 1900"
    "y + 1 - 1601 = y - 1601 + 1" "y - 1601 + 1 = y - 1600" by simp_all
  then have "(y + 1 - 1969) div 4 = (y - 1969) div 4 + (if 4 dvd y then 1 else 0)"
    "(y + 1 - 1901) div 100 = (y - 1901) div 100 + (if 100 dvd y then 1 else 0)"
    "(y + 1 - 1601) div 400 = (y - 1601) div 400 + (if 400 dvd y then 1 else 0)"
    using div_next [of 4 "y - 1969"] div_next [of 100 "y - 1901"] div_next [of 400 "y - 1601"] d
    by simp_all
  then have "dayFromYear (y + 1) = dayFromYear y + 365 + (if 4 dvd y then 1 else 0)
      - (if 100 dvd y then 1 else 0) + (if 400 dvd y then 1 else 0)"
    unfolding dayFromYear_def by (rule leap_sum)
  ultimately show ?thesis using i
    by (cases "400 dvd y"; cases "100 dvd y"; cases "4 dvd y") simp_all
qed

lemma dayFromYear_step: "365 \<le> dayFromYear (y + 1) - dayFromYear y"
    "dayFromYear (y + 1) - dayFromYear y \<le> 366"
  using dayFromYear_leap [of y] by (auto split: if_splits)

lemma dayFromYear_after: "365 * int n \<le> dayFromYear (1970 + int n)"
proof (induction n)
  case 0
  then show ?case by (simp add: dayFromYear_def)
next
  case (Suc n)
  then show ?case using dayFromYear_step(1) [of "1970 + int n"] by (simp add: algebra_simps)
qed

lemma dayFromYear_before: "- 366 * int n \<le> dayFromYear (1970 - int n)"
proof (induction n)
  case 0
  then show ?case by (simp add: dayFromYear_def)
next
  case (Suc n)
  then show ?case using dayFromYear_step(2) [of "1970 - int n - 1"] by (simp add: algebra_simps)
qed

text \<open>The largest year that starts on or before day \<open>d\<close>, searched downwards.\<close>

function year_down :: "int \<Rightarrow> int \<Rightarrow> int" where
  "year_down d y = (if dayFromYear y \<le> d then y else year_down d (y - 1))"
  by pat_completeness auto
termination
proof (relation "measure (\<lambda>(d, y). nat (dayFromYear y - d))")
  fix d y
  assume "\<not> dayFromYear y \<le> d"
  moreover have "dayFromYear (y - 1) < dayFromYear y"
    using dayFromYear_step(1) [of "y - 1"] by simp
  ultimately show "((d, y - 1), d, y) \<in> measure (\<lambda>(d, y). nat (dayFromYear y - d))" by simp
qed simp

declare year_down.simps [simp del]

definition yearFromDay :: "int \<Rightarrow> int" where
  "yearFromDay d = year_down d (1970 + (if 0 \<le> d then d div 365 else d div 366))"

lemma year_down_le: "dayFromYear (year_down d y) \<le> d"
proof (induction d y rule: year_down.induct)
  case (1 d y)
  then show ?case by (subst year_down.simps) auto
qed

lemma year_down_gt: "d < dayFromYear (y + 1) \<Longrightarrow> d < dayFromYear (year_down d y + 1)"
proof (induction d y rule: year_down.induct)
  case (1 d y)
  show ?case
  proof (cases "dayFromYear y \<le> d")
    case True
    with 1 show ?thesis by (subst year_down.simps) auto
  next
    case False
    then have "d < dayFromYear (y - 1 + 1)" by simp
    with 1(1) [OF False] False show ?thesis by (subst year_down.simps) auto
  qed
qed

lemma yearFromDay_bounds: "dayFromYear (yearFromDay d) \<le> d" "d < dayFromYear (yearFromDay d + 1)"
proof -
  show "dayFromYear (yearFromDay d) \<le> d"
    unfolding yearFromDay_def by (rule year_down_le)
  have "d < dayFromYear (1970 + (if 0 \<le> d then d div 365 else d div 366) + 1)"
  proof (cases "0 \<le> d")
    case True
    then have "0 \<le> d div 365" "d < 365 * (d div 365 + 1)" by simp_all
    with True show ?thesis using dayFromYear_after [of "nat (d div 365 + 1)"] by (simp add: add.assoc)
  next
    case False
    then have "d div 366 + 1 \<le> 0" "d < 366 * (d div 366 + 1)" by simp_all
    with False show ?thesis using dayFromYear_before [of "nat (- (d div 366 + 1))"]
      by (simp add: algebra_simps)
  qed
  then show "d < dayFromYear (yearFromDay d + 1)"
    unfolding yearFromDay_def by (rule year_down_gt)
qed

lemma dayFromYear_mono: "y \<le> y' \<Longrightarrow> dayFromYear y \<le> dayFromYear y'"
proof (induction "nat (y' - y)" arbitrary: y')
  case 0
  then show ?case by simp
next
  case (Suc n)
  then have "dayFromYear y \<le> dayFromYear (y' - 1)" by simp
  also have "\<dots> \<le> dayFromYear y'" using dayFromYear_step(1) [of "y' - 1"] by simp
  finally show ?case .
qed

definition dayInYear :: "int \<Rightarrow> int" where
  "dayInYear d = d - dayFromYear (yearFromDay d)"

lemma dayInYear_bounds:
  "0 \<le> dayInYear d" "dayInYear d < (if isLeap (yearFromDay d) then 366 else 365)"
  using yearFromDay_bounds [of d] dayFromYear_leap [of "yearFromDay d"]
  by (auto simp: dayInYear_def)

text \<open>Months are numbered from 1 as in the string; \<open>monthStart\<close> is the first day of a month in the year.\<close>

definition monthStart :: "bool \<Rightarrow> int \<Rightarrow> int" where
  "monthStart leap m =
     (let l = (if leap then 1 else 0) in
      if m \<le> 1 then 0 else if m = 2 then 31 else if m = 3 then 59 + l else if m = 4 then 90 + l
      else if m = 5 then 120 + l else if m = 6 then 151 + l else if m = 7 then 181 + l
      else if m = 8 then 212 + l else if m = 9 then 243 + l else if m = 10 then 273 + l
      else if m = 11 then 304 + l else 334 + l)"

definition monthFrom :: "bool \<Rightarrow> int \<Rightarrow> int" where
  "monthFrom leap dy =
     (if dy < monthStart leap 2 then 1 else if dy < monthStart leap 3 then 2
      else if dy < monthStart leap 4 then 3 else if dy < monthStart leap 5 then 4
      else if dy < monthStart leap 6 then 5 else if dy < monthStart leap 7 then 6
      else if dy < monthStart leap 8 then 7 else if dy < monthStart leap 9 then 8
      else if dy < monthStart leap 10 then 9 else if dy < monthStart leap 11 then 10
      else if dy < monthStart leap 12 then 11 else 12)"

lemma monthStart_values [simp]:
  "monthStart leap 1 = 0" "monthStart leap 2 = 31"
  "monthStart leap 3 = (if leap then 60 else 59)" "monthStart leap 4 = (if leap then 91 else 90)"
  "monthStart leap 5 = (if leap then 121 else 120)" "monthStart leap 6 = (if leap then 152 else 151)"
  "monthStart leap 7 = (if leap then 182 else 181)" "monthStart leap 8 = (if leap then 213 else 212)"
  "monthStart leap 9 = (if leap then 244 else 243)" "monthStart leap 10 = (if leap then 274 else 273)"
  "monthStart leap 11 = (if leap then 305 else 304)" "monthStart leap 12 = (if leap then 335 else 334)"
  by (simp_all add: monthStart_def Let_def)

lemma month_bounds:
  assumes "0 \<le> dy" "dy < (if leap then 366 else 365)"
  shows "1 \<le> monthFrom leap dy \<and> monthFrom leap dy \<le> 12
    \<and> 0 \<le> dy - monthStart leap (monthFrom leap dy) \<and> dy - monthStart leap (monthFrom leap dy) \<le> 30"
proof (cases leap)
  case True
  with assms have "0 \<le> dy" "dy < 366" by simp_all
  with True show ?thesis by (simp add: monthFrom_def)
next
  case False
  with assms have "0 \<le> dy" "dy < 365" by simp_all
  with False show ?thesis by (simp add: monthFrom_def)
qed

definition pad_int :: "nat \<Rightarrow> int \<Rightarrow> string" where
  "pad_int n x = padStart n (CHR ''0'') (nat_str (nat x))"

definition year_str :: "int \<Rightarrow> string" where
  "year_str y = (if 0 \<le> y \<and> y \<le> 9999 then pad_int 4 y
                 else (if y < 0 then ''-'' else ''+'') @ pad_int 6 \<bar>y\<bar>)"

definition date_str :: "int \<Rightarrow> string" where
  "date_str d =
     (let y = yearFromDay d; leap = isLeap y; m = monthFrom leap (dayInYear d)
      in year_str y @ ''-'' @ pad_int 2 m @ ''-'' @ pad_int 2 (dayInYear d - monthStart leap m + 1))"

definition time_str :: "int \<Rightarrow> string" where
  "time_str w =
     pad_int 2 (w div 3600000) @ '':'' @ pad_int 2 (w div 60000 mod 60) @ '':'' @
     pad_int 2 (w div 1000 mod 60) @ ''.'' @ pad_int 3 (w mod 1000)"

definition iso_of :: "int \<Rightarrow> string" where
  "iso_of t = date_str (t div msPerDay) @ ''T'' @ time_str (t mod msPerDay) @ ''Z''"

definition make_date :: "int \<Rightarrow> int \<Rightarrow> int \<Rightarrow> int \<Rightarrow> int \<Rightarrow> int \<Rightarrow> int \<Rightarrow> int" where
  "make_date y m d h mi s ms =
     (dayFromYear y + monthStart (isLeap y) m + d - 1) * msPerDay
       + h * 3600000 + mi * 60000 + s * 1000 + ms"

definition date_parse :: "string \<Rightarrow> int option" where
  "date_parse s =
     (case s of [y1, y2, y3, y4, p1, m1, m2, p2, d1, d2, p3, h1, h2, p4, n1, n2, p5, s1, s2, p6, z1, z2, z3, p7] \<Rightarrow>
        if p1 = CHR ''-'' \<and> p2 = CHR ''-'' \<and> p3 = CHR ''T'' \<and> p4 = CHR '':'' \<and> p5 = CHR '':''
           \<and> p6 = CHR ''.'' \<and> p7 = CHR ''Z''
           \<and> all_digits [y1, y2, y3, y4, m1, m2, d1, d2, h1, h2, n1, n2, s1, s2, z1, z2, z3]
           \<and> 1 \<le> dec_val [m1, m2] \<and> dec_val [m1, m2] \<le> 12 \<and> 1 \<le> dec_val [d1, d2] \<and> dec_val [d1, d2] \<le> 31
           \<and> dec_val [h1, h2] \<le> 23 \<and> dec_val [n1, n2] \<le> 59 \<and> dec_val [s1, s2] \<le> 59
        then Some (make_date (int (dec_val [y1, y2, y3, y4])) (int (dec_val [m1, m2]))
                     (int (dec_val [d1, d2])) (int (dec_val [h1, h2])) (int (dec_val [n1, n2]))
                     (int (dec_val [s1, s2])) (int (dec_val [z1, z2, z3])))
        else None
      | _ \<Rightarrow> None)"

subsection \<open>Fields\<close>

lemma length_pad_int: "0 \<le> x \<Longrightarrow> x < 10 ^ n \<Longrightarrow> 0 < n \<Longrightarrow> length (pad_int n x) = n"
proof -
  assume a: "0 \<le> x" "x < 10 ^ n" "0 < n"
  then have "nat x < 10 ^ n" by (simp add: nat_less_iff)
  then have "length (nat_str (nat x)) \<le> n" using a(3) by (rule length_nat_str)
  then show ?thesis by (simp add: pad_int_def)
qed

lemma pad_int_digits [simp]: "all_digits (pad_int n x)"
  by (simp add: pad_int_def)

lemma pad_int_val [simp]: "0 \<le> x \<Longrightarrow> int (dec_val (pad_int n x)) = x"
  by (simp add: pad_int_def)

lemma pad2E:
  assumes "0 \<le> x" "x < 100"
  obtains a b where "pad_int 2 x = [a, b]" "is_digit a" "is_digit b" "int (dec_val [a, b]) = x"
proof -
  have "length (pad_int 2 x) = 2" by (rule length_pad_int) (use assms in auto)
  then obtain a b where ab: "pad_int 2 x = [a, b]" by (auto simp: length_Suc_conv numeral_2_eq_2)
  with pad_int_digits [of 2 x] pad_int_val [OF assms(1), of 2] that show thesis by simp
qed

lemma pad3E:
  assumes "0 \<le> x" "x < 1000"
  obtains a b c where "pad_int 3 x = [a, b, c]" "is_digit a" "is_digit b" "is_digit c"
    "int (dec_val [a, b, c]) = x"
proof -
  have "length (pad_int 3 x) = 3" by (rule length_pad_int) (use assms in auto)
  then obtain a b c where ab: "pad_int 3 x = [a, b, c]" by (auto simp: length_Suc_conv numeral_3_eq_3)
  with pad_int_digits [of 3 x] pad_int_val [OF assms(1), of 3] that show thesis by simp
qed

lemma pad4E:
  assumes "0 \<le> x" "x < 10000"
  obtains a b c d where "pad_int 4 x = [a, b, c, d]" "is_digit a" "is_digit b" "is_digit c" "is_digit d"
    "int (dec_val [a, b, c, d]) = x"
proof -
  have "length (pad_int 4 x) = 4" by (rule length_pad_int) (use assms in auto)
  then obtain a b c d where ab: "pad_int 4 x = [a, b, c, d]"
    by (auto simp: length_Suc_conv numeral_eq_Suc)
  with pad_int_digits [of 4 x] pad_int_val [OF assms(1), of 4] that show thesis by simp
qed

subsection \<open>The format round-trips\<close>

definition iso_range :: "int \<Rightarrow> bool" where
  "iso_range t \<longleftrightarrow> -62167219200000 \<le> t \<and> t \<le> 253402300799999"

lemma iso_range_year:
  assumes "iso_range t"
  shows "0 \<le> yearFromDay (t div msPerDay)" "yearFromDay (t div msPerDay) \<le> 9999"
proof -
  let ?d = "t div msPerDay"
  have "-719528 \<le> ?d" "?d < 2932897"
    using assms by (auto simp: iso_range_def msPerDay_def)
  moreover have "dayFromYear 0 = -719528" "dayFromYear 10000 = 2932897" by (simp_all add: dayFromYear_def)
  ultimately have lo: "dayFromYear 0 \<le> ?d" and hi: "?d < dayFromYear 10000" by simp_all
  show "0 \<le> yearFromDay ?d"
  proof (rule ccontr)
    assume "\<not> 0 \<le> yearFromDay ?d"
    then have "dayFromYear (yearFromDay ?d + 1) \<le> dayFromYear 0" by (intro dayFromYear_mono) simp
    with yearFromDay_bounds(2) [of ?d] lo show False by simp
  qed
  show "yearFromDay ?d \<le> 9999"
  proof (rule ccontr)
    assume "\<not> yearFromDay ?d \<le> 9999"
    then have "dayFromYear 10000 \<le> dayFromYear (yearFromDay ?d)" by (intro dayFromYear_mono) simp
    with yearFromDay_bounds(1) [of ?d] hi show False by simp
  qed
qed

lemma timeParts:
  assumes "0 \<le> w" "w < msPerDay"
  shows "0 \<le> w div 3600000 \<and> w div 3600000 \<le> 23"
    "0 \<le> w div 60000 mod 60 \<and> w div 60000 mod 60 \<le> 59"
    "0 \<le> w div 1000 mod 60 \<and> w div 1000 mod 60 \<le> 59"
    "0 \<le> w mod 1000 \<and> w mod 1000 < 1000"
  using assms by (auto simp: msPerDay_def pos_imp_zdiv_nonneg_iff)

lemma timeSum: "w div 3600000 * 3600000 + w div 60000 mod 60 * 60000
    + w div 1000 mod 60 * 1000 + w mod 1000 = (w :: int)"
proof -
  have "w div 60000 = w div 1000 div 60" "w div 3600000 = w div 60000 div 60"
    by (simp_all add: zdiv_zmult2_eq [symmetric])
  then have "w div 1000 = w div 60000 * 60 + w div 1000 mod 60"
    "w div 60000 = w div 3600000 * 60 + w div 60000 mod 60" by simp_all
  moreover have "w = w div 1000 * 1000 + w mod 1000" by simp
  ultimately show ?thesis by linarith
qed

text \<open>The two halves of the string, each as an explicit list of characters.\<close>

lemma date_strE:
  assumes "0 \<le> yearFromDay d" "yearFromDay d \<le> 9999"
  obtains y1 y2 y3 y4 m1 m2 d1 d2
  where "date_str d = [y1, y2, y3, y4, CHR ''-'', m1, m2, CHR ''-'', d1, d2]"
    "all_digits [y1, y2, y3, y4, m1, m2, d1, d2]"
    "1 \<le> dec_val [m1, m2] \<and> dec_val [m1, m2] \<le> 12 \<and> 1 \<le> dec_val [d1, d2] \<and> dec_val [d1, d2] \<le> 31"
    "\<forall>h mi s ms. make_date (int (dec_val [y1, y2, y3, y4])) (int (dec_val [m1, m2])) (int (dec_val [d1, d2])) h mi s ms
       = d * msPerDay + h * 3600000 + mi * 60000 + s * 1000 + ms"
proof -
  define y where "y = yearFromDay d"
  define m where "m = monthFrom (isLeap y) (dayInYear d)"
  define day where "day = dayInYear d - monthStart (isLeap y) m + 1"
  have m: "1 \<le> m" "m \<le> 12" "1 \<le> day" "day \<le> 31"
    using month_bounds [OF dayInYear_bounds, of d] by (simp_all add: m_def y_def day_def)
  have str: "date_str d = pad_int 4 y @ ''-'' @ pad_int 2 m @ ''-'' @ pad_int 2 day"
    using assms by (simp add: date_str_def Let_def year_str_def y_def m_def day_def)
  have dn: "dayFromYear y + monthStart (isLeap y) m + day - 1 = d"
    by (simp add: day_def dayInYear_def y_def)
  obtain y1 y2 y3 y4 where Y: "pad_int 4 y = [y1, y2, y3, y4]" "is_digit y1" "is_digit y2"
      "is_digit y3" "is_digit y4" "int (dec_val [y1, y2, y3, y4]) = y"
    by (rule pad4E [of y]) (use assms in \<open>simp_all add: y_def\<close>)
  obtain m1 m2 where M: "pad_int 2 m = [m1, m2]" "is_digit m1" "is_digit m2" "int (dec_val [m1, m2]) = m"
    by (rule pad2E [of m]) (use m in simp_all)
  obtain d1 d2 where D: "pad_int 2 day = [d1, d2]" "is_digit d1" "is_digit d2" "int (dec_val [d1, d2]) = day"
    by (rule pad2E [of day]) (use m in simp_all)
  have ints: "1 \<le> dec_val [m1, m2] \<and> dec_val [m1, m2] \<le> 12 \<and> 1 \<le> dec_val [d1, d2] \<and> dec_val [d1, d2] \<le> 31"
    using m M(4) D(4) by linarith
  show thesis
  proof (rule that [OF _ _ ints])
    show "date_str d = [y1, y2, y3, y4, CHR ''-'', m1, m2, CHR ''-'', d1, d2]"
      by (simp add: str Y(1) M(1) D(1))
    show "all_digits [y1, y2, y3, y4, m1, m2, d1, d2]" using Y M D by simp
    show "\<forall>h mi s ms. make_date (int (dec_val [y1, y2, y3, y4])) (int (dec_val [m1, m2])) (int (dec_val [d1, d2])) h mi s ms
       = d * msPerDay + h * 3600000 + mi * 60000 + s * 1000 + ms"
      unfolding make_date_def Y(6) M(4) D(4) dn by (intro allI refl)
  qed
qed

lemma time_strE:
  assumes "0 \<le> w" "w < msPerDay"
  obtains h1 h2 n1 n2 s1 s2 z1 z2 z3
  where "time_str w = [h1, h2, CHR '':'', n1, n2, CHR '':'', s1, s2, CHR ''.'', z1, z2, z3]"
    "all_digits [h1, h2, n1, n2, s1, s2, z1, z2, z3]"
    "dec_val [h1, h2] \<le> 23 \<and> dec_val [n1, n2] \<le> 59 \<and> dec_val [s1, s2] \<le> 59"
    "int (dec_val [h1, h2]) * 3600000 + int (dec_val [n1, n2]) * 60000 + int (dec_val [s1, s2]) * 1000
       + int (dec_val [z1, z2, z3]) = w"
proof -
  define h where "h = w div 3600000"
  define n where "n = w div 60000 mod 60"
  define c where "c = w div 1000 mod 60"
  define z where "z = w mod 1000"
  note tp = timeParts [OF assms, folded h_def n_def c_def z_def]
  have hi: "h < 100" "n < 100" "c < 100" "z < 1000" using tp by linarith+
  have lo: "0 \<le> h" "0 \<le> n" "0 \<le> c" "0 \<le> z" using tp by linarith+
  obtain h1 h2 where H: "pad_int 2 h = [h1, h2]" "is_digit h1" "is_digit h2" "int (dec_val [h1, h2]) = h"
    by (rule pad2E [OF lo(1) hi(1)])
  obtain n1 n2 where N: "pad_int 2 n = [n1, n2]" "is_digit n1" "is_digit n2" "int (dec_val [n1, n2]) = n"
    by (rule pad2E [OF lo(2) hi(2)])
  obtain s1 s2 where S: "pad_int 2 c = [s1, s2]" "is_digit s1" "is_digit s2" "int (dec_val [s1, s2]) = c"
    by (rule pad2E [OF lo(3) hi(3)])
  obtain z1 z2 z3 where Z: "pad_int 3 z = [z1, z2, z3]" "is_digit z1" "is_digit z2" "is_digit z3"
      "int (dec_val [z1, z2, z3]) = z"
    by (rule pad3E [OF lo(4) hi(4)])
  have ints: "dec_val [h1, h2] \<le> 23 \<and> dec_val [n1, n2] \<le> 59 \<and> dec_val [s1, s2] \<le> 59"
    using H(4) N(4) S(4) tp by linarith
  show thesis
  proof (rule that [OF _ _ ints])
    show "time_str w = [h1, h2, CHR '':'', n1, n2, CHR '':'', s1, s2, CHR ''.'', z1, z2, z3]"
      unfolding time_str_def h_def [symmetric] n_def [symmetric] c_def [symmetric] z_def [symmetric]
        H(1) N(1) S(1) Z(1) by simp
    show "all_digits [h1, h2, n1, n2, s1, s2, z1, z2, z3]" using H N S Z by simp
    show "int (dec_val [h1, h2]) * 3600000 + int (dec_val [n1, n2]) * 60000 + int (dec_val [s1, s2]) * 1000
       + int (dec_val [z1, z2, z3]) = w"
      unfolding H(4) N(4) S(4) Z(5) h_def n_def c_def z_def by (rule timeSum)
  qed
qed

lemma iso_roundtrip:
  assumes "iso_range t"
  shows "date_parse (iso_of t) = Some t" "length (date_str (t div msPerDay)) = 10"
    "length (time_str (t mod msPerDay)) = 12"
proof -
  obtain y1 y2 y3 y4 m1 m2 d1 d2 where
    D: "date_str (t div msPerDay) = [y1, y2, y3, y4, CHR ''-'', m1, m2, CHR ''-'', d1, d2]"
      "all_digits [y1, y2, y3, y4, m1, m2, d1, d2]"
    and Di: "1 \<le> dec_val [m1, m2] \<and> dec_val [m1, m2] \<le> 12 \<and> 1 \<le> dec_val [d1, d2] \<and> dec_val [d1, d2] \<le> 31"
    and Dm: "\<forall>h mi s ms. make_date (int (dec_val [y1, y2, y3, y4])) (int (dec_val [m1, m2])) (int (dec_val [d1, d2])) h mi s ms
       = t div msPerDay * msPerDay + h * 3600000 + mi * 60000 + s * 1000 + ms"
    using date_strE [OF iso_range_year [OF assms]] .
  have w: "0 \<le> t mod msPerDay" "t mod msPerDay < msPerDay" by (simp_all add: msPerDay_def)
  obtain h1 h2 n1 n2 s1 s2 z1 z2 z3 where
    T: "time_str (t mod msPerDay) = [h1, h2, CHR '':'', n1, n2, CHR '':'', s1, s2, CHR ''.'', z1, z2, z3]"
      "all_digits [h1, h2, n1, n2, s1, s2, z1, z2, z3]"
    and Ti: "dec_val [h1, h2] \<le> 23 \<and> dec_val [n1, n2] \<le> 59 \<and> dec_val [s1, s2] \<le> 59"
    and Tm: "int (dec_val [h1, h2]) * 3600000 + int (dec_val [n1, n2]) * 60000 + int (dec_val [s1, s2]) * 1000
       + int (dec_val [z1, z2, z3]) = t mod msPerDay"
    using time_strE [OF w] .
  show "length (date_str (t div msPerDay)) = 10" by (simp add: D(1))
  show "length (time_str (t mod msPerDay)) = 12" by (simp add: T(1))
  have iso: "iso_of t = [y1, y2, y3, y4, CHR ''-'', m1, m2, CHR ''-'', d1, d2, CHR ''T'',
      h1, h2, CHR '':'', n1, n2, CHR '':'', s1, s2, CHR ''.'', z1, z2, z3, CHR ''Z'']"
    by (simp add: iso_of_def D(1) T(1))
  have val: "make_date (int (dec_val [y1, y2, y3, y4])) (int (dec_val [m1, m2])) (int (dec_val [d1, d2]))
      (int (dec_val [h1, h2])) (int (dec_val [n1, n2])) (int (dec_val [s1, s2])) (int (dec_val [z1, z2, z3])) = t"
    unfolding Dm [rule_format] using Tm div_mult_mod_eq [of t msPerDay] by linarith
  have digs: "all_digits [y1, y2, y3, y4, m1, m2, d1, d2, h1, h2, n1, n2, s1, s2, z1, z2, z3]"
    using D(2) T(2) by (simp only: all_digits_simps simp_thms)
  show "date_parse (iso_of t) = Some t"
    unfolding iso date_parse_def list.case
    by (simp only: val) (use digs Di Ti in \<open>simp del: dec_val_simps\<close>)
qed

subsection \<open>Window keys\<close>

text \<open>\<open>utcDayKey\<close> and \<open>utcHourKey\<close> of \<open>src/src/playground/ledger-do.ts\<close> (the rate limiter's
  \<open>utcDateKey\<close> is the same function), and the distance to the next hour.\<close>

definition utcDayKey :: "int \<Rightarrow> string" where
  "utcDayKey now = take 10 (iso_of now)"

definition utcHourKey :: "int \<Rightarrow> string" where
  "utcHourKey now = take 13 (iso_of now)"

definition js_ceil_div :: "int \<Rightarrow> int \<Rightarrow> int" where
  \<comment> \<open>\<open>Math.ceil(a / b)\<close>\<close>
  "js_ceil_div a b = - ((- a) div b)"

text \<open>\<open>Date.UTC(year, month, day, hours + 1, 0, 0)\<close> of the fields of \<open>now\<close>.\<close>

definition secondsUntilNextHour :: "int \<Rightarrow> int" where
  "secondsUntilNextHour now =
     (let d = now div msPerDay; y = yearFromDay d; leap = isLeap y; m = monthFrom leap (dayInYear d);
          dt = dayInYear d - monthStart leap m + 1; h = now mod msPerDay div 3600000;
          nxt = make_date y m dt (h + 1) 0 0 0
      in max 1 (js_ceil_div (nxt - now) 1000))"

lemma next_hour:
  "make_date (yearFromDay d) (monthFrom (isLeap (yearFromDay d)) (dayInYear d))
     (dayInYear d - monthStart (isLeap (yearFromDay d)) (monthFrom (isLeap (yearFromDay d)) (dayInYear d)) + 1)
     h 0 0 0 = d * msPerDay + h * 3600000"
  by (simp add: make_date_def dayInYear_def)

lemma hour_in_day: "now mod msPerDay div 3600000 = now div 3600000 mod 24"
proof -
  have "now mod msPerDay = 3600000 * (now div 3600000 mod 24) + now mod 3600000"
    using zmod_zmult2_eq [of 24 now 3600000] unfolding msPerDay_def by simp
  then show ?thesis by (rule int_div_pos_eq) simp_all
qed

lemma day_of_hour: "now div msPerDay = now div 3600000 div 24"
  using zdiv_zmult2_eq [of 24 now 3600000] unfolding msPerDay_def by simp

lemma day_hour_split: "now div 3600000 = now div msPerDay * 24 + now mod msPerDay div 3600000"
  unfolding hour_in_day day_of_hour by simp

lemma hour_end: "x = a * 24 + b \<Longrightarrow> a * 86400000 + (b + 1) * 3600000 = (x + 1) * (3600000 :: int)"
  by simp

lemma secondsUntilNextHour_eq:
  "secondsUntilNextHour now = js_ceil_div ((now div 3600000 + 1) * 3600000 - now) 1000"
proof -
  have eq: "now div msPerDay * msPerDay + (now mod msPerDay div 3600000 + 1) * 3600000
      = (now div 3600000 + 1) * 3600000"
    using hour_end [OF day_hour_split [of now]] unfolding msPerDay_def .
  have "(now div 3600000 + 1) * 3600000 - now = 3600000 - now mod 3600000"
    by (simp add: algebra_simps minus_mult_div_eq_mod [symmetric])
  then have pos: "0 < (now div 3600000 + 1) * 3600000 - now" by simp
  have ceil: "1 \<le> js_ceil_div x 1000" if "0 < x" for x
    using that unfolding js_ceil_div_def by linarith
  have "1 \<le> js_ceil_div ((now div 3600000 + 1) * 3600000 - now) 1000"
    by (rule ceil [OF pos])
  then show ?thesis
    unfolding secondsUntilNextHour_def Let_def next_hour eq by (rule max_absorb2)
qed

lemma iso_prefixes:
  assumes "iso_range t"
  shows "utcDayKey t = date_str (t div msPerDay)"
    "utcHourKey t = date_str (t div msPerDay) @ ''T'' @ pad_int 2 (t mod msPerDay div 3600000)"
proof -
  note r = iso_roundtrip [OF assms]
  show "utcDayKey t = date_str (t div msPerDay)" by (simp add: utcDayKey_def iso_of_def r(2))
  have "0 \<le> t mod msPerDay div 3600000" "t mod msPerDay div 3600000 < 100"
    by (simp_all add: msPerDay_def pos_imp_zdiv_nonneg_iff)
  then have "length (pad_int 2 (t mod msPerDay div 3600000)) = 2" by (intro length_pad_int) simp_all
  then show "utcHourKey t = date_str (t div msPerDay) @ ''T'' @ pad_int 2 (t mod msPerDay div 3600000)"
    by (simp add: utcHourKey_def iso_of_def r(2) time_str_def)
qed

lemma date_str_inject:
  assumes "iso_range s" "iso_range t" "date_str (s div msPerDay) = date_str (t div msPerDay)"
  shows "s div msPerDay = t div msPerDay"
proof -
  have range: "iso_range (u div msPerDay * msPerDay)" if "iso_range u" for u
    using that by (auto simp: iso_range_def msPerDay_def)
  have "iso_of (u div msPerDay * msPerDay) = date_str (u div msPerDay) @ ''T'' @ time_str 0 @ ''Z''" for u
    by (simp add: iso_of_def msPerDay_def)
  then have "iso_of (s div msPerDay * msPerDay) = iso_of (t div msPerDay * msPerDay)"
    using assms(3) by simp
  then have "s div msPerDay * msPerDay = t div msPerDay * msPerDay"
    using iso_roundtrip(1) [OF range [OF assms(1)]] iso_roundtrip(1) [OF range [OF assms(2)]]
    by (metis option.inject)
  then show ?thesis unfolding msPerDay_def by simp
qed

text \<open>The window keys are windows: for times of the years 0 to 9999 the day keys of two times are equal
  exactly when the times fall in the same UTC day, the hour keys exactly when they fall in the same UTC hour,
  and \<open>Date.parse\<close> reads back the very time value that \<open>toISOString\<close> printed.\<close>

theorem window_keys:
  assumes "iso_range s" "iso_range t"
  shows "(utcDayKey s = utcDayKey t \<longleftrightarrow> s div 86400000 = t div 86400000) \<and>
    (utcHourKey s = utcHourKey t \<longleftrightarrow> s div 3600000 = t div 3600000) \<and>
    date_parse (iso_of s) = Some s"
proof (intro conjI)
  note ps = iso_prefixes [OF assms(1)] and pt = iso_prefixes [OF assms(2)]
  have day: "date_str (s div msPerDay) = date_str (t div msPerDay) \<longleftrightarrow> s div msPerDay = t div msPerDay"
    using date_str_inject [OF assms] by auto
  show "utcDayKey s = utcDayKey t \<longleftrightarrow> s div 86400000 = t div 86400000"
    using day unfolding ps(1) pt(1) msPerDay_def .
  have len: "length (date_str (s div msPerDay)) = length (date_str (t div msPerDay))"
    using iso_roundtrip(2) [OF assms(1)] iso_roundtrip(2) [OF assms(2)] by simp
  have nonneg: "0 \<le> u mod msPerDay div 3600000" for u
    by (simp add: msPerDay_def pos_imp_zdiv_nonneg_iff)
  have "pad_int 2 (s mod msPerDay div 3600000) = pad_int 2 (t mod msPerDay div 3600000)
      \<longleftrightarrow> s mod msPerDay div 3600000 = t mod msPerDay div 3600000"
    by (metis nonneg pad_int_val)
  then have "utcHourKey s = utcHourKey t \<longleftrightarrow>
      s div msPerDay = t div msPerDay \<and> s mod msPerDay div 3600000 = t mod msPerDay div 3600000"
    unfolding ps(2) pt(2) using len day by simp
  also have "\<dots> \<longleftrightarrow> s div 3600000 = t div 3600000"
    using day_hour_split [of s] day_hour_split [of t] hour_in_day day_of_hour by metis
  finally show "utcHourKey s = utcHourKey t \<longleftrightarrow> s div 3600000 = t div 3600000" .
  show "date_parse (iso_of s) = Some s" by (rule iso_roundtrip(1) [OF assms(1)])
qed

theorem window_keys_witness:
  "(utcDayKey 1750000000000 = utcDayKey 1750000001000
      \<longleftrightarrow> (1750000000000::int) div 86400000 = 1750000001000 div 86400000) \<and>
    (utcHourKey 1750000000000 = utcHourKey 1750000001000
      \<longleftrightarrow> (1750000000000::int) div 3600000 = 1750000001000 div 3600000) \<and>
    date_parse (iso_of 1750000000000) = Some 1750000000000"
  by (rule window_keys) (simp_all add: iso_range_def)

end
