(* ===== verification/RateLimit.thy ===== *)
theory RateLimit
  imports KvStore JsDate "HOL-Library.Signed_Division" "HOL-Library.Multiset"
begin

text \<open>
  The request counters: \<open>src/src/mpp/rate-limit-do.ts\<close> (daily and short-window caps, bumped by
  compare-and-swap) and \<open>src/src/routes/create-invoice-gate.ts\<close> (the hourly abuse gate, on the
  \<open>/gate\<close> handler of the Durable Object).  \<open>bump_loop\<close> is the loop of one Worker between requests of
  others (as in \<open>KvStore\<close>); \<open>sys_step\<close> interleaves any number of Workers on one counter, and the
  theorem on it is what the cap is for: however they interleave, no more calls pass than the cap.
\<close>

subsection \<open>rate-limit-do.ts\<close>

definition MAX_CAS_RETRIES :: nat where "MAX_CAS_RETRIES = 25"

text \<open>\<open>parseCounter\<close>, with the fresh counter \<open>{ n: 0, day: '' }\<close> for a missing or unreadable text.\<close>

definition parseCounter :: "counter_val option \<Rightarrow> int \<times> string" where
  "parseCounter raw = (case raw of Some (Counter n day) \<Rightarrow> (n, day) | _ \<Rightarrow> (0, []))"

definition utcDateKey :: "int \<Rightarrow> string" where
  "utcDateKey now = take 10 (iso_of now)"

record daily_result =
  dl_ok :: bool
  dl_used :: int
  dl_limit :: int

definition used_in :: "string \<Rightarrow> counter_val option \<Rightarrow> int" where
  "used_in bucket raw = (case parseCounter raw of (n, day) \<Rightarrow> if day = bucket then n else 0)"

definition peekDailyLimit :: "string \<Rightarrow> int \<Rightarrow> int \<Rightarrow> counter_val astore \<Rightarrow> daily_result" where
  "peekDailyLimit key perDay now st =
     (let used = used_in (utcDateKey now) (fst (handleRead key st))
      in \<lparr>dl_ok = used < perDay, dl_used = used, dl_limit = perDay\<rparr>)"

text \<open>One round of the retry loop: the answer, or the value and version a lost race leaves in hand.\<close>

definition bump_attempt ::
    "string \<Rightarrow> int \<Rightarrow> string \<Rightarrow> counter_val option \<Rightarrow> int \<Rightarrow> counter_val astore
      \<Rightarrow> (daily_result + counter_val option \<times> int) \<times> counter_val astore" where
  "bump_attempt key limit bucket value version s =
     (let used = used_in bucket value in
      if limit \<le> used then (Inl \<lparr>dl_ok = False, dl_used = used, dl_limit = limit\<rparr>, s)
      else (case handleCommit key version (SetOp (Counter (used + 1) bucket)) s of
              (CommitOk, s') \<Rightarrow> (Inl \<lparr>dl_ok = True, dl_used = used + 1, dl_limit = limit\<rparr>, s')
            | (CommitConflict value' version', s') \<Rightarrow> (Inr (value', version'), s')))"

fun bump_loop ::
    "(nat \<Rightarrow> counter_val astore \<Rightarrow> counter_val astore) \<Rightarrow> string \<Rightarrow> string \<Rightarrow> int \<Rightarrow> string
      \<Rightarrow> nat \<Rightarrow> nat \<Rightarrow> counter_val option \<Rightarrow> int \<Rightarrow> counter_val astore
      \<Rightarrow> daily_result js \<times> counter_val astore" where
  "bump_loop env err key limit bucket 0 n value version s = (Inl (JsError err), s)"
| "bump_loop env err key limit bucket (Suc attempts) n value version s =
     (case bump_attempt key limit bucket value version (env n s) of
        (Inl r, s') \<Rightarrow> (Inr r, s')
      | (Inr (value', version'), s') \<Rightarrow>
          bump_loop env err key limit bucket attempts (Suc n) value' version' s')"

definition checkAndBumpDailyLimit ::
    "(nat \<Rightarrow> counter_val astore \<Rightarrow> counter_val astore) \<Rightarrow> string \<Rightarrow> int \<Rightarrow> int \<Rightarrow> counter_val astore
      \<Rightarrow> daily_result js \<times> counter_val astore" where
  "checkAndBumpDailyLimit env key perDay now st =
     (let s0 = env 0 st in
      case handleRead key s0 of (value, version) \<Rightarrow>
        bump_loop env ''rate-limit DO checkAndBumpDailyLimit: exhausted 25 retries''
          key perDay (utcDateKey now) MAX_CAS_RETRIES 1 value version s0)"

definition checkAndBumpWindowLimit ::
    "(nat \<Rightarrow> counter_val astore \<Rightarrow> counter_val astore) \<Rightarrow> string \<Rightarrow> int \<Rightarrow> int \<Rightarrow> int \<Rightarrow> counter_val astore
      \<Rightarrow> daily_result js \<times> counter_val astore" where
  "checkAndBumpWindowLimit env key limit windowMs now st =
     (let bucket = int_str (now div windowMs); s0 = env 0 st in
      case handleRead key s0 of (value, version) \<Rightarrow>
        bump_loop env ''rate-limit DO checkAndBumpWindowLimit: exhausted 25 retries''
          key limit bucket MAX_CAS_RETRIES 1 value version s0)"

text \<open>\<open>Date.UTC(year, month, date + 1, 0, 0, 0)\<close> of the fields of \<open>now\<close>.\<close>

definition secondsUntilUtcMidnight :: "int \<Rightarrow> int" where
  "secondsUntilUtcMidnight now =
     (let d = now div msPerDay; y = yearFromDay d; leap = isLeap y; m = monthFrom leap (dayInYear d);
          dt = dayInYear d - monthStart leap m + 1;
          nextMidnight = make_date y m (dt + 1) 0 0 0 0
      in max 1 (js_ceil_div (nextMidnight - now) 1000))"

subsection \<open>create-invoice-gate.ts\<close>

definition DEFAULT_IP_LIMIT_PER_HOUR :: int where "DEFAULT_IP_LIMIT_PER_HOUR = 200"
definition DEFAULT_GLOBAL_LIMIT_PER_HOUR :: int where "DEFAULT_GLOBAL_LIMIT_PER_HOUR = 1500"
definition WINDOW_SECONDS :: int where "WINDOW_SECONDS = 60 * 60"

record gate_limits =
  ipPerHour :: int
  globalPerHour :: int

text \<open>\<open>Number\<close> of a digit string rounds only above \<open>2^53\<close>, where \<open>isSafeInteger\<close> refuses it anyway.\<close>

definition positiveInt :: "string option \<Rightarrow> int \<Rightarrow> int" where
  "positiveInt raw fallback =
     (case raw of
        None \<Rightarrow> fallback
      | Some r \<Rightarrow>
          (let trimmed = js_trim r in
           if trimmed = [] \<or> \<not> all_digits trimmed then fallback
           else (let n = int (dec_val trimmed) in if n \<le> 2 ^ 53 - 1 \<and> 0 < n then n else fallback)))"

definition resolveGateLimits :: "string option \<Rightarrow> string option \<Rightarrow> gate_limits" where
  "resolveGateLimits ipVar globalVar =
     \<lparr>ipPerHour = positiveInt ipVar DEFAULT_IP_LIMIT_PER_HOUR,
      globalPerHour = positiveInt globalVar DEFAULT_GLOBAL_LIMIT_PER_HOUR\<rparr>"

definition secondsUntilWindowReset :: "int \<Rightarrow> int" where
  "secondsUntilWindowReset now =
     (let windowMs = WINDOW_SECONDS * 1000
      in max 1 (js_ceil_div (windowMs - now smod windowMs) 1000))"

definition hourBucket :: "int \<Rightarrow> string" where
  "hourBucket now = int_str (now div (WINDOW_SECONDS * 1000))"

definition clientIp :: "string option \<Rightarrow> string" where
  "clientIp header =
     (case header of
        None \<Rightarrow> ''unknown''
      | Some h \<Rightarrow> if js_trim h = [] then ''unknown'' else js_trim h)"

datatype gate_reason = IpRateLimited | GlobalCircuitOpen

datatype gate_decision = GateOk | GateRefused gate_reason int int

text \<open>
  One call: the decision, whether the breaker alert is sent, and the counters.  \<open>up\<close> says whether the
  Durable Object answers; it answers 400 to a body its guard refuses, and any failure lets the request pass; \<open>sink\<close> is \<open>alertSinkConfigured(env)\<close>; a \<open>GateScope\<close> is its prefix and limits.
\<close>

definition checkCreateInvoiceGate ::
    "bool \<Rightarrow> bool \<Rightarrow> string option \<Rightarrow> gate_limits \<Rightarrow> (string \<times> gate_limits) option \<Rightarrow> int \<Rightarrow> counter_val astore
      \<Rightarrow> (gate_decision \<times> bool) \<times> counter_val astore" where
  "checkCreateInvoiceGate up sink header envLimits scope now st =
     (let bucket = hourBucket now;
          limits = (case scope of None \<Rightarrow> envLimits | Some (_, l) \<Rightarrow> l);
          prefix = (case scope of None \<Rightarrow> ''ci'' | Some (p, _) \<Rightarrow> p);
          globalKey = prefix @ '':global:'' @ bucket;
          ipKey = prefix @ '':ip:'' @ clientIp header @ '':'' @ bucket
      in if \<not> up \<or> \<not> isGateBody globalKey ipKey bucket (globalPerHour limits) (ipPerHour limits)
         then ((GateOk, False), st)
         else (case handleGate globalKey ipKey bucket (globalPerHour limits) st of
                 ((globalCount, ipCount), st') \<Rightarrow>
                   if globalPerHour limits < globalCount
                   then ((GateRefused GlobalCircuitOpen (globalPerHour limits) (secondsUntilWindowReset now),
                          globalCount = globalPerHour limits + 1 \<and> sink), st')
                   else (case ipCount of
                           None \<Rightarrow> ((GateOk, False), st')
                         | Some c \<Rightarrow>
                             if ipPerHour limits < c
                             then ((GateRefused IpRateLimited (ipPerHour limits) (secondsUntilWindowReset now),
                                    False), st')
                             else ((GateOk, False), st'))))"


subsection \<open>Any number of callers on one counter\<close>

text \<open>
  A caller has not read yet, holds what it read (or what a lost race told it) with the attempts it has
  left, or has its answer.  A step is one request: a caller's read, one round of its loop, its giving up,
  or a commit of somebody else on another key.
\<close>

datatype phase = Waiting | Holding "counter_val option" int nat | Finished "daily_result js"

record sys =
  ctr :: "counter_val astore"
  callers :: "phase list"

definition set_caller :: "nat \<Rightarrow> phase \<Rightarrow> counter_val astore \<Rightarrow> sys \<Rightarrow> sys" where
  "set_caller i p s sy = \<lparr>ctr = s, callers = (callers sy)[i := p]\<rparr>"

fun caller_step :: "string \<Rightarrow> int \<Rightarrow> string \<Rightarrow> phase \<Rightarrow> counter_val astore \<Rightarrow> phase \<times> counter_val astore" where
  "caller_step key limit bucket Waiting s =
     (Holding (fst (handleRead key s)) (snd (handleRead key s)) MAX_CAS_RETRIES, s)"
| "caller_step key limit bucket (Holding v ver 0) s = (Finished (Inl (JsError ''exhausted retries'')), s)"
| "caller_step key limit bucket (Holding v ver (Suc n)) s =
     (case bump_attempt key limit bucket v ver s of
        (Inl r, s') \<Rightarrow> (Finished (Inr r), s')
      | (Inr (v', ver'), s') \<Rightarrow> (Holding v' ver' n, s'))"
| "caller_step key limit bucket (Finished r) s = (Finished r, s)"

inductive sys_step :: "string \<Rightarrow> int \<Rightarrow> string \<Rightarrow> sys \<Rightarrow> sys \<Rightarrow> bool" for key limit bucket where
  caller: "i < length (callers sy) \<Longrightarrow> caller_step key limit bucket (callers sy ! i) (ctr sy) = (p, s) \<Longrightarrow>
    sys_step key limit bucket sy (set_caller i p s sy)"
| others: "k \<noteq> key \<Longrightarrow> sys_step key limit bucket sy (sy\<lparr>ctr := snd (handleCommit k e wop (ctr sy))\<rparr>)"

inductive_cases sys_stepE: "sys_step key limit bucket sy sy'"

text \<open>The ordinals handed out: what \<open>used\<close> says in the answers that let a call pass.\<close>

fun ticket :: "phase \<Rightarrow> int list" where
  "ticket (Finished (Inr r)) = (if dl_ok r then [dl_used r] else [])"
| "ticket _ = []"

definition tickets :: "sys \<Rightarrow> int list" where
  "tickets sy = concat (map ticket (callers sy))"

definition count_at :: "string \<Rightarrow> string \<Rightarrow> sys \<Rightarrow> int" where
  "count_at key bucket sy = used_in bucket (value_at (ctr sy) key)"

fun phase_ok :: "string \<Rightarrow> int \<Rightarrow> string \<Rightarrow> counter_val astore \<Rightarrow> phase \<Rightarrow> bool" where
  "phase_ok key limit bucket s (Holding v ver n) \<longleftrightarrow>
     ver \<le> version_at s key \<and> (ver = version_at s key \<longrightarrow> v = value_at s key) \<and>
     used_in bucket v \<le> used_in bucket (value_at s key)"
| "phase_ok key limit bucket s (Finished (Inr r)) \<longleftrightarrow>
     (\<not> dl_ok r \<longrightarrow> limit \<le> used_in bucket (value_at s key))"
| "phase_ok key limit bucket s _ \<longleftrightarrow> True"

definition sys_inv :: "string \<Rightarrow> int \<Rightarrow> string \<Rightarrow> int \<Rightarrow> sys \<Rightarrow> bool" where
  "sys_inv key limit bucket base sy \<longleftrightarrow>
     mset (tickets sy) = mset [base + 1..count_at key bucket sy] \<and>
     base \<le> count_at key bucket sy \<and> count_at key bucket sy \<le> max base limit \<and>
     (\<forall>p\<in>set (callers sy). phase_ok key limit bucket (ctr sy) p)"


lemma used_in_counter [simp]: "used_in bucket (Some (Counter n bucket)) = n"
  by (simp add: used_in_def parseCounter_def)

lemma bump_attempt_cases:
  "bump_attempt key limit bucket v ver s =
    (if limit \<le> used_in bucket v
     then (Inl \<lparr>dl_ok = False, dl_used = used_in bucket v, dl_limit = limit\<rparr>, s)
     else if version_at s key = ver
     then (Inl \<lparr>dl_ok = True, dl_used = used_in bucket v + 1, dl_limit = limit\<rparr>,
           apply_write key ver (SetOp (Counter (used_in bucket v + 1) bucket)) s)
     else (Inr (value_at s key, version_at s key), s))"
  by (simp add: bump_attempt_def handleCommit_def Let_def)

lemma tickets_update:
  "i < length ps \<Longrightarrow> ticket (ps ! i) = [] \<Longrightarrow>
    mset (concat (map ticket (ps[i := p]))) = mset (concat (map ticket ps)) + mset (ticket p)"
proof (induction ps arbitrary: i)
  case (Cons q ps)
  then show ?case by (cases i) auto
qed simp

lemma upto_extend: "base \<le> (c :: int) \<Longrightarrow> mset [base + 1..c + 1] = mset [base + 1..c] + {#c + 1#}"
  by (simp add: upto_rec2 [of "base + 1" "c + 1"])

lemma phase_ok_mono:
  assumes "phase_ok key limit bucket s p" "version_at s key < version_at s' key"
    "used_in bucket (value_at s key) \<le> used_in bucket (value_at s' key)"
  shows "phase_ok key limit bucket s' p"
  using assms by (cases "(key, limit, bucket, s, p)" rule: phase_ok.cases) auto

lemma phase_ok_same:
  assumes "version_at s' key = version_at s key" "value_at s' key = value_at s key"
  shows "phase_ok key limit bucket s' p = phase_ok key limit bucket s p"
  using assms by (cases "(key, limit, bucket, s, p)" rule: phase_ok.cases) auto

lemma set_caller_simps [simp]:
  "ctr (set_caller i p s sy) = s" "callers (set_caller i p s sy) = (callers sy)[i := p]"
  by (simp_all add: set_caller_def)

lemma phases_update:
  "\<forall>q\<in>set ps. Q q \<Longrightarrow> Q p \<Longrightarrow> \<forall>q\<in>set (ps[i := p]). Q q"
  using set_update_subset_insert [of ps i p] by blast

text \<open>A step that leaves the counter alone: the caller gets a phase without a ticket.\<close>

lemma sys_inv_quiet:
  assumes "sys_inv key limit bucket base sy" "i < length (callers sy)"
    "ticket (callers sy ! i) = []" "ticket p = []" "phase_ok key limit bucket (ctr sy) p"
  shows "sys_inv key limit bucket base (set_caller i p (ctr sy) sy)"
proof -
  have "\<forall>q\<in>set ((callers sy)[i := p]). phase_ok key limit bucket (ctr sy) q"
    using assms(1,5) by (intro phases_update) (simp_all add: sys_inv_def)
  with assms(1,4) tickets_update [OF assms(2,3), of p] show ?thesis
    by (simp add: sys_inv_def tickets_def count_at_def)
qed

text \<open>The step that counts: the caller's version is current, so its count is too.\<close>

lemma sys_inv_commit:
  assumes inv: "sys_inv key limit bucket base sy" and i: "i < length (callers sy)"
    and p: "callers sy ! i = Holding v ver n" and cur: "version_at (ctr sy) key = ver"
    and room: "\<not> limit \<le> used_in bucket v"
  defines "c \<equiv> used_in bucket v + 1"
  shows "sys_inv key limit bucket base
    (set_caller i (Finished (Inr \<lparr>dl_ok = True, dl_used = c, dl_limit = limit\<rparr>))
      (apply_write key ver (SetOp (Counter c bucket)) (ctr sy)) sy)"
proof -
  let ?s' = "apply_write key ver (SetOp (Counter c bucket)) (ctr sy)"
  have "phase_ok key limit bucket (ctr sy) (Holding v ver n)"
    using inv i unfolding sys_inv_def p [symmetric] by (meson nth_mem)
  with cur have v: "value_at (ctr sy) key = v" by simp
  have count: "count_at key bucket sy = c - 1" by (simp add: count_at_def v c_def)
  have vals: "value_at ?s' key = Some (Counter c bucket)" "version_at ?s' key = ver + 1"
    by (simp_all add: value_apply_write version_apply_write)
  have grow: "version_at (ctr sy) key < version_at ?s' key"
    "used_in bucket (value_at (ctr sy) key) \<le> used_in bucket (value_at ?s' key)"
    by (simp_all add: vals cur v) (simp add: c_def)
  have old: "\<forall>q\<in>set (callers sy). phase_ok key limit bucket ?s' q"
    using inv phase_ok_mono [OF _ grow] unfolding sys_inv_def by blast
  have "ticket (callers sy ! i) = []" by (simp add: p)
  from tickets_update [OF i this, of "Finished (Inr \<lparr>dl_ok = True, dl_used = c, dl_limit = limit\<rparr>)"]
  have "mset (tickets (set_caller i (Finished (Inr \<lparr>dl_ok = True, dl_used = c, dl_limit = limit\<rparr>)) ?s' sy))
      = mset (tickets sy) + {#c#}"
    by (simp add: tickets_def)
  also have "\<dots> = mset [base + 1..c]"
    using inv upto_extend [of base "c - 1"] by (simp add: sys_inv_def count)
  finally have tk: "mset (tickets (set_caller i (Finished (Inr \<lparr>dl_ok = True, dl_used = c, dl_limit = limit\<rparr>)) ?s' sy))
      = mset [base + 1..c]" .
  show ?thesis
  proof -
    let ?p = "Finished (Inr \<lparr>dl_ok = True, dl_used = c, dl_limit = limit\<rparr>)"
    have "\<forall>q\<in>set ((callers sy)[i := ?p]). phase_ok key limit bucket ?s' q"
      by (rule phases_update [OF old]) simp
    with tk inv room show ?thesis
      by (simp add: sys_inv_def count_at_def v vals) (simp add: c_def)
  qed
qed

lemma sys_inv_caller:
  assumes inv: "sys_inv key limit bucket base sy" and i: "i < length (callers sy)"
    and st: "caller_step key limit bucket (callers sy ! i) (ctr sy) = (p, s)"
  shows "sys_inv key limit bucket base (set_caller i p s sy)"
proof (cases "(key, limit, bucket, callers sy ! i, ctr sy)" rule: caller_step.cases)
  case (1 key' limit' bucket' s')
  then show ?thesis using st i inv by (auto intro!: sys_inv_quiet simp: handleRead_def)
next
  case (2 key' limit' bucket' v ver s')
  then show ?thesis using st i inv by (auto intro!: sys_inv_quiet)
next
  case (3 key' limit' bucket' v ver n s')
  then have h: "callers sy ! i = Holding v ver (Suc n)" by simp
  have ok: "phase_ok key limit bucket (ctr sy) (Holding v ver (Suc n))"
    using inv i unfolding sys_inv_def h [symmetric] by (meson nth_mem)
  consider (full) "limit \<le> used_in bucket v" | (win) "\<not> limit \<le> used_in bucket v" "version_at (ctr sy) key = ver"
    | (lost) "\<not> limit \<le> used_in bucket v" "version_at (ctr sy) key \<noteq> ver" by blast
  then show ?thesis
  proof cases
    case full
    with st h ok i inv show ?thesis by (auto intro!: sys_inv_quiet simp: bump_attempt_cases)
  next
    case win
    with st h sys_inv_commit [OF inv i h win(2,1)] show ?thesis by (simp add: bump_attempt_cases)
  next
    case lost
    with st h ok i inv show ?thesis by (auto intro!: sys_inv_quiet simp: bump_attempt_cases)
  qed
next
  case (4 key' limit' bucket' r s')
  then have "callers sy ! i = p" "s = ctr sy" using st by auto
  then have "set_caller i p s sy = sy" by (cases sy) (auto simp: set_caller_def)
  with inv show ?thesis by simp
qed

lemma sys_inv_step: "sys_step key limit bucket sy sy' \<Longrightarrow> sys_inv key limit bucket base sy \<Longrightarrow>
    sys_inv key limit bucket base sy'"
proof (erule sys_stepE)
  fix k e wop
  assume inv: "sys_inv key limit bucket base sy" and k: "k \<noteq> key"
    and sy': "sy' = sy\<lparr>ctr := snd (handleCommit k e wop (ctr sy))\<rparr>"
  have same: "value_at (ctr sy') key = value_at (ctr sy) key" "version_at (ctr sy') key = version_at (ctr sy) key"
    using k by (simp_all add: sy' handleCommit_def value_apply_write version_apply_write)
  show "sys_inv key limit bucket base sy'"
    using inv phase_ok_same [OF same(2,1)] by (simp add: sys_inv_def tickets_def count_at_def same) (simp add: sy')
qed (simp add: sys_inv_caller)

lemma sys_inv_start:
  "sys_inv key limit bucket (used_in bucket (value_at st key)) \<lparr>ctr = st, callers = replicate n Waiting\<rparr>"
  by (simp add: sys_inv_def tickets_def count_at_def map_replicate_const)

lemma sys_inv_reachable:
  "(sys_step key limit bucket)\<^sup>*\<^sup>* sy sy' \<Longrightarrow> sys_inv key limit bucket base sy \<Longrightarrow> sys_inv key limit bucket base sy'"
  by (induction rule: rtranclp_induct) (auto intro: sys_inv_step)


subsection \<open>The abuse gate\<close>

lemma gate_keys_differ:
  "prefix @ '':global:'' @ bucket \<noteq> prefix @ '':ip:'' @ ip @ '':'' @ bucket"
  by simp

definition scope_limits :: "gate_limits \<Rightarrow> (string \<times> gate_limits) option \<Rightarrow> gate_limits" where
  "scope_limits envLimits scope = (case scope of None \<Rightarrow> envLimits | Some (_, l) \<Rightarrow> l)"

definition scope_prefix :: "(string \<times> gate_limits) option \<Rightarrow> string" where
  "scope_prefix scope = (case scope of None \<Rightarrow> ''ci'' | Some (p, _) \<Rightarrow> p)"

definition global_count :: "(string \<times> gate_limits) option \<Rightarrow> string \<Rightarrow> counter_val astore \<Rightarrow> int" where
  "global_count scope bucket st = parseGateCount (value_at st (scope_prefix scope @ '':global:'' @ bucket)) bucket"

lemma handleGate_global:
  assumes "g \<noteq> i"
  shows "fst (fst (handleGate g i bucket limit st)) = parseGateCount (value_at st g) bucket + 1"
    "parseGateCount (value_at (snd (handleGate g i bucket limit st)) g) bucket
      = parseGateCount (value_at st g) bucket + 1"
proof -
  have bumped: "parseGateCount (value_at (snd (gate_bump bucket k s)) k') bucket =
      (if k' = k then parseGateCount (value_at s k) bucket + 1 else parseGateCount (value_at s k') bucket)"
    for k k' s
    by (simp add: gate_bump_value gate_bump_count) (simp add: parseGateCount_def)
  show "fst (fst (handleGate g i bucket limit st)) = parseGateCount (value_at st g) bucket + 1"
    by (simp add: handleGate_def split_beta gate_bump_count)
  show "parseGateCount (value_at (snd (handleGate g i bucket limit st)) g) bucket
      = parseGateCount (value_at st g) bucket + 1"
    using assms by (simp add: handleGate_def split_beta bumped)
qed

definition limits_ok :: "gate_limits \<Rightarrow> bool" where
  "limits_ok l \<longleftrightarrow> 0 < globalPerHour l \<and> globalPerHour l \<le> 2 ^ 53 - 1 \<and>
     0 < ipPerHour l \<and> ipPerHour l \<le> 2 ^ 53 - 1"

lemma gate_body_ok: "limits_ok l \<Longrightarrow>
    isGateBody (p @ '':global:'' @ hourBucket now) (p @ '':ip:'' @ ip @ '':'' @ hourBucket now) (hourBucket now)
      (globalPerHour l) (ipPerHour l)"
  by (simp add: isGateBody_def limits_ok_def hourBucket_def)

lemma check_gate_store:
  assumes "limits_ok (scope_limits lim scope)"
  shows "snd (checkCreateInvoiceGate True sink hdr lim scope now st) =
    snd (handleGate (scope_prefix scope @ '':global:'' @ hourBucket now)
          (scope_prefix scope @ '':ip:'' @ clientIp hdr @ '':'' @ hourBucket now)
          (hourBucket now) (globalPerHour (scope_limits lim scope)) st)"
  using gate_body_ok [OF assms, of "scope_prefix scope" now "clientIp hdr"]
  by (simp add: checkCreateInvoiceGate_def Let_def scope_prefix_def [symmetric] scope_limits_def [symmetric]
      split: prod.splits option.splits)

lemma check_gate_count:
  assumes "limits_ok (scope_limits lim scope)"
  shows "global_count scope (hourBucket now) (snd (checkCreateInvoiceGate True sink hdr lim scope now st))
    = global_count scope (hourBucket now) st + 1"
  unfolding check_gate_store [OF assms] global_count_def by (rule handleGate_global(2)) (rule gate_keys_differ)

lemma check_gate_refuses:
  assumes lo: "limits_ok (scope_limits lim scope)"
    and full: "globalPerHour (scope_limits lim scope) \<le> global_count scope (hourBucket now) st"
  shows "fst (fst (checkCreateInvoiceGate True sink hdr lim scope now st)) =
    GateRefused GlobalCircuitOpen (globalPerHour (scope_limits lim scope)) (secondsUntilWindowReset now)"
proof -
  let ?g = "handleGate (scope_prefix scope @ '':global:'' @ hourBucket now)
      (scope_prefix scope @ '':ip:'' @ clientIp hdr @ '':'' @ hourBucket now)
      (hourBucket now) (globalPerHour (scope_limits lim scope)) st"
  obtain n i s' where g: "?g = ((n, i), s')" by (metis prod.collapse)
  with handleGate_global(1) [OF gate_keys_differ, of "scope_prefix scope" "hourBucket now" "clientIp hdr"
      "hourBucket now" "globalPerHour (scope_limits lim scope)" st] full
  have "globalPerHour (scope_limits lim scope) < n" by (simp add: global_count_def)
  with g gate_body_ok [OF lo, of "scope_prefix scope" now "clientIp hdr"] show ?thesis
    by (simp add: checkCreateInvoiceGate_def Let_def scope_prefix_def [symmetric] scope_limits_def [symmetric])
qed

subsection \<open>Waiting times\<close>

lemma js_ceil_div_bounds:
  assumes "0 < b"
  shows "a \<le> b * js_ceil_div a b" "b * js_ceil_div a b < a + b"
proof -
  have eq: "b * ((- a) div b) + (- a) mod b = - a" by (rule mult_div_mod_eq)
  have "0 \<le> (- a) mod b" "(- a) mod b < b" using assms by simp_all
  with eq show "a \<le> b * js_ceil_div a b" "b * js_ceil_div a b < a + b"
    unfolding js_ceil_div_def mult_minus_right by linarith+
qed

lemma window_end:
  fixes now W :: int
  assumes "1000 \<le> W"
  defines "r \<equiv> max 1 (js_ceil_div (W - now mod W) 1000)"
  shows "(now + 1000 * r) div W = now div W + 1" "(now + 1000 * (r - 1)) div W = now div W"
proof -
  define x where "x = W - now mod W"
  have m: "0 \<le> now mod W" "now mod W < W" using assms(1) by simp_all
  then have x: "1 \<le> x" "x \<le> W" by (simp_all add: x_def)
  have "x \<le> 1000 * js_ceil_div x 1000" "1000 * js_ceil_div x 1000 < x + 1000"
    using js_ceil_div_bounds [of 1000 x] by simp_all
  with x have r: "x \<le> 1000 * r" "1000 * (r - 1) < x" "0 \<le> r - 1" by (auto simp: r_def x_def)
  define q where "q = now div W"
  have now: "now = W * q + (W - x)" by (simp add: q_def x_def)
  show "(now + 1000 * r) div W = now div W + 1"
    unfolding q_def [symmetric] using r x assms(1)
    by (intro int_div_pos_eq [where r = "1000 * r - x"]) (simp_all add: now algebra_simps)
  show "(now + 1000 * (r - 1)) div W = now div W"
    unfolding q_def [symmetric] using r x assms(1)
    by (intro int_div_pos_eq [where r = "W - x + 1000 * (r - 1)"]) (simp_all add: now algebra_simps)
qed

lemma secondsUntilUtcMidnight_eq:
  "secondsUntilUtcMidnight now = max 1 (js_ceil_div (msPerDay - now mod msPerDay) 1000)"
proof -
  have "make_date (yearFromDay d) (monthFrom (isLeap (yearFromDay d)) (dayInYear d))
     (dayInYear d - monthStart (isLeap (yearFromDay d)) (monthFrom (isLeap (yearFromDay d)) (dayInYear d)) + 1 + 1)
     0 0 0 0 = (d + 1) * msPerDay" for d
    by (simp add: make_date_def dayInYear_def algebra_simps)
  moreover have "(now div msPerDay + 1) * msPerDay - now = msPerDay - now mod msPerDay"
    by (simp add: algebra_simps minus_mult_div_eq_mod [symmetric])
  ultimately show ?thesis by (simp add: secondsUntilUtcMidnight_def Let_def)
qed

lemma secondsUntilWindowReset_eq:
  "0 \<le> now \<Longrightarrow> secondsUntilWindowReset now = max 1 (js_ceil_div (3600000 - now mod 3600000) 1000)"
  by (simp add: secondsUntilWindowReset_def WINDOW_SECONDS_def smod_int_alt_def Let_def sgn_if)


subsection \<open>Properties\<close>


text \<open>Two callers race for the last slot of the day: both read an empty counter, one commits, the other loses.\<close>

definition race_start :: sys where
  "race_start = \<lparr>ctr = empty_store, callers = replicate 2 Waiting\<rparr>"

definition race_step :: "nat \<Rightarrow> sys \<Rightarrow> sys" where
  "race_step i sy = (case caller_step ''k'' 1 ''d'' (callers sy ! i) (ctr sy) of (p, s) \<Rightarrow> set_caller i p s sy)"

definition race_end :: sys where
  "race_end = race_step 1 (race_step 1 (race_step 0 (race_step 1 (race_step 0 race_start))))"

lemma race_step_sys: "i < length (callers sy) \<Longrightarrow> sys_step ''k'' 1 ''d'' sy (race_step i sy)"
  unfolding race_step_def by (auto intro: sys_step.caller split: prod.splits)

lemma race_length [simp]: "length (callers (race_step i sy)) = length (callers sy)"
  by (simp add: race_step_def split: prod.splits)

lemma race_more:
  "(sys_step ''k'' 1 ''d'')\<^sup>*\<^sup>* s0 sy \<Longrightarrow> i < length (callers sy) \<Longrightarrow>
    (sys_step ''k'' 1 ''d'')\<^sup>*\<^sup>* s0 (race_step i sy)"
  by (rule rtranclp.rtrancl_into_rtrancl) (auto intro: race_step_sys)

lemma race_run: "(sys_step ''k'' 1 ''d'')\<^sup>*\<^sup>* race_start race_end"
  unfolding race_end_def
  by (rule race_more [OF race_more [OF race_more [OF race_more [OF race_more [OF rtranclp.rtrancl_refl]]]]])
     (simp_all add: race_start_def)


text \<open>\<open>n\<close> requests of one client in one hour, whatever each of them is answered.\<close>

definition spray ::
    "nat \<Rightarrow> string option \<Rightarrow> bool \<Rightarrow> gate_limits \<Rightarrow> (string \<times> gate_limits) option \<Rightarrow> int
      \<Rightarrow> counter_val astore \<Rightarrow> counter_val astore" where
  "spray n hot sink lim scope now st =
     ((\<lambda>s. snd (checkCreateInvoiceGate True sink hot lim scope now s)) ^^ n) st"

text \<open>The hourly breaker counts refused requests too, so one hot client opens it for everybody: after as many
  requests as the global limit, all from one address and whatever they were answered, the next request
  of the hour, from any address, is refused with \<open>global_circuit_open\<close>.\<close>

theorem hot_ip_opens_breaker:
  assumes "limits_ok (scope_limits lim scope)"
    and "globalPerHour (scope_limits lim scope) \<le> global_count scope (hourBucket now) st + int n"
    and "hourBucket now' = hourBucket now"
  shows "global_count scope (hourBucket now) (spray n hot sink lim scope now st) = global_count scope (hourBucket now) st + int n \<and>
    fst (fst (checkCreateInvoiceGate True sink other lim scope now' (spray n hot sink lim scope now st))) =
      GateRefused GlobalCircuitOpen (globalPerHour (scope_limits lim scope)) (secondsUntilWindowReset now')"
proof -
  have "global_count scope (hourBucket now) (spray n hot sink lim scope now st) = global_count scope (hourBucket now) st + int n"
    by (induction n) (simp_all add: spray_def check_gate_count assms(1))
  moreover from this have "globalPerHour (scope_limits lim scope) \<le> global_count scope (hourBucket now') (spray n hot sink lim scope now st)"
    using assms(2,3) by simp
  ultimately show ?thesis by (simp add: check_gate_refuses assms(1))
qed

theorem hot_ip_opens_breaker_witness:
  "fst (fst (checkCreateInvoiceGate True True (Some ''198.51.100.7'') (resolveGateLimits None None) None 5000
      (spray 1500 (Some ''203.0.113.9'') True (resolveGateLimits None None) None 0 empty_store))) = GateRefused GlobalCircuitOpen 1500 3595"
proof -
  have "scope_limits (resolveGateLimits None None) None = \<lparr>ipPerHour = 200, globalPerHour = 1500\<rparr>"
    by (simp add: scope_limits_def resolveGateLimits_def positiveInt_def DEFAULT_IP_LIMIT_PER_HOUR_def
        DEFAULT_GLOBAL_LIMIT_PER_HOUR_def)
  moreover have "global_count None b empty_store = 0" for b
    by (simp add: global_count_def parseGateCount_def)
  moreover have "hourBucket 5000 = hourBucket 0"
    by (simp add: hourBucket_def WINDOW_SECONDS_def)
  moreover have "secondsUntilWindowReset 5000 = 3595"
    by (simp add: secondsUntilWindowReset_eq js_ceil_div_def)
  ultimately show ?thesis
    using hot_ip_opens_breaker [where lim = "resolveGateLimits None None" and scope = None and now = 0
        and now' = 5000 and st = empty_store and n = 1500 and hot = "Some ''203.0.113.9''" and sink = True
        and other = "Some ''198.51.100.7''"]
    by (simp add: limits_ok_def)
qed

text \<open>The waiting time a refusal reports is the exact one, in whole seconds: after it the clock is in the next
  hour, respectively the next UTC day, and one second less would not be enough.\<close>

theorem retry_after_exact:
  assumes "0 \<le> now"
  shows "(now + 1000 * secondsUntilWindowReset now) div 3600000 = now div 3600000 + 1 \<and>
    (now + 1000 * (secondsUntilWindowReset now - 1)) div 3600000 = now div 3600000 \<and>
    (now + 1000 * secondsUntilUtcMidnight now) div msPerDay = now div msPerDay + 1 \<and>
    (now + 1000 * (secondsUntilUtcMidnight now - 1)) div msPerDay = now div msPerDay"
proof -
  have "1000 \<le> (3600000 :: int)" "1000 \<le> msPerDay" by (simp_all add: msPerDay_def)
  from window_end [OF this(1)] window_end [OF this(2)] show ?thesis
    unfolding secondsUntilWindowReset_eq [OF assms] secondsUntilUtcMidnight_eq by (intro conjI)
qed

theorem retry_after_exact_witness:
  "(5400000 + 1000 * secondsUntilWindowReset 5400000) div 3600000 = 2 \<and>
   (5400000 + 1000 * secondsUntilUtcMidnight 5400000) div msPerDay = 1"
  using retry_after_exact [of 5400000] by (simp add: msPerDay_def)

end
