(* ===== verification/Amount.thy ===== *)
theory Amount
  imports JsString
begin

text \<open>
  \<open>src/src/playground/amount.ts\<close>: the money arithmetic of the playground.  Amounts are BigInt atomic
  units with seven decimals (\<open>int\<close> here); on the wire and in storage they are decimal strings.
  The functions that throw \<open>RangeError\<close> return the left injection.  Shown: parsing undoes each of
  the two printers for every integer, the storage format round-trips, the accepted inputs are
  exactly the plain decimals with at most seven fractional digits, and the Tempo conversion never
  rounds up.
\<close>

definition USDC_DECIMALS :: nat where
  "USDC_DECIMALS = 7"

definition ONE_USDC :: int where
  "ONE_USDC = 10000000"

text \<open>\<open>DECIMAL_RE = /^-?\d+(\.\d+)?$/\<close>\<close>

definition DECIMAL_RE :: "string \<Rightarrow> bool" where
  "DECIMAL_RE s =
     (let u = (case s of c # r \<Rightarrow> if c = CHR ''-'' then r else s | [] \<Rightarrow> s)
      in case split_on (CHR ''.'') u of
           [w] \<Rightarrow> w \<noteq> [] \<and> all_digits w
         | [w, f] \<Rightarrow> w \<noteq> [] \<and> all_digits w \<and> f \<noteq> [] \<and> all_digits f
         | _ \<Rightarrow> False)"

definition parseUsd :: "string \<Rightarrow> int js" where
  "parseUsd input =
     (let s = js_trim input in
      if \<not> DECIMAL_RE s then Inl (RangeError ''invalid USD amount'')
      else
        let negative = (case s of c # _ \<Rightarrow> c = CHR ''-'' | [] \<Rightarrow> False);
            unsigned = (if negative then tl s else s);
            parts = split_on (CHR ''.'') unsigned;
            whole = hd parts;
            frac = (case tl parts of f # _ \<Rightarrow> f | [] \<Rightarrow> [])
        in if length frac > USDC_DECIMALS
           then Inl (RangeError ''more than 7 decimal places'')
           else
             let padded = padEnd USDC_DECIMALS (CHR ''0'') frac;
                 atomic = int (dec_val whole) * ONE_USDC + int (dec_val padded)
             in Inr (if negative then - atomic else atomic))"

definition formatUsdc7 :: "int \<Rightarrow> string" where
  "formatUsdc7 atomic =
     (let negative = atomic < 0;
          abs' = (if negative then - atomic else atomic);
          whole = bigint_div abs' ONE_USDC;
          frac = padStart USDC_DECIMALS (CHR ''0'') (int_str (bigint_mod abs' ONE_USDC))
      in (if negative then ''-'' else []) @ int_str whole @ ''.'' @ frac)"

definition formatUsd :: "int \<Rightarrow> string" where
  "formatUsd atomic =
     (let fixed = formatUsdc7 atomic;
          parts = split_on (CHR ''.'') fixed;
          whole = parts ! 0;
          frac = parts ! 1;
          trimmed = strip_zeros frac;
          padded = (if length trimmed < 2 then padEnd 2 (CHR ''0'') trimmed else trimmed)
      in whole @ ''.'' @ padded)"

text \<open>The reader of the storage format; a missing or empty value is zero.\<close>

definition parseAtomic :: "string option \<Rightarrow> int js" where
  "parseAtomic value =
     (case value of
        None \<Rightarrow> Inr 0
      | Some s \<Rightarrow>
          if s = [] then Inr 0
          else if \<not> int_re s then Inl (RangeError ''invalid atomic amount'')
          else Inr (bigint_of s))"

definition toTempoRaw6 :: "int \<Rightarrow> string" where
  "toTempoRaw6 atomic7 = int_str (bigint_div atomic7 10)"

subsection \<open>The printers\<close>

lemma set_int_str: "0 \<le> n \<Longrightarrow> CHR ''.'' \<notin> set (int_str n)"
  by (simp add: int_str_def all_digits_no_char)

lemma int_str_nonneg: "0 \<le> n \<Longrightarrow> int_str n = nat_str (nat n)"
  by (simp add: int_str_def)

text \<open>What both printers produce: a sign, a whole part and a fraction of digits.\<close>

definition usd_text :: "bool \<Rightarrow> nat \<Rightarrow> string \<Rightarrow> string" where
  "usd_text negative w f = (if negative then ''-'' else []) @ nat_str w @ CHR ''.'' # f"

lemma formatUsdc7_text:
  "formatUsdc7 n = usd_text (n < 0) (nat (\<bar>n\<bar> div ONE_USDC))
     (padStart 7 (CHR ''0'') (nat_str (nat (\<bar>n\<bar> mod ONE_USDC))))"
proof -
  have "(if n < 0 then - n else n) = \<bar>n\<bar>" by simp
  moreover have "0 \<le> \<bar>n\<bar> div ONE_USDC" "0 \<le> \<bar>n\<bar> mod ONE_USDC"
    by (simp_all add: ONE_USDC_def)
  ultimately show ?thesis
    by (simp add: formatUsdc7_def Let_def usd_text_def int_str_nonneg USDC_DECIMALS_def
        bigint_div_nonneg bigint_mod_nonneg ONE_USDC_def)
qed

lemma usd_text_trim: "f \<noteq> [] \<Longrightarrow> all_digits f \<Longrightarrow> js_trim (usd_text b w f) = usd_text b w f"
proof (rule js_trim_id)
  assume f: "f \<noteq> []" "all_digits f"
  obtain c r where w: "nat_str w = c # r" "is_digit c" "all_digits r"
    using nat_str_cases by blast
  show "usd_text b w f \<noteq> []" by (simp add: usd_text_def)
  show "\<not> is_space (hd (usd_text b w f))" using w by (simp add: usd_text_def)
  from f have "is_digit (last f)" by (simp add: all_digits_def list_all_iff)
  then show "\<not> is_space (last (usd_text b w f))" using f by (simp add: usd_text_def)
qed

lemma usd_text_split:
  "all_digits f \<Longrightarrow> split_on (CHR ''.'') (nat_str w @ CHR ''.'' # f) = [nat_str w, f]"
  by (simp add: split_on_append split_on_none all_digits_no_char)

lemma parseUsd_text:
  assumes "all_digits f" "f \<noteq> []" "length f \<le> 7"
  shows "parseUsd (usd_text b w f) =
    Inr ((if b then -1 else 1) * (int w * ONE_USDC + int (dec_val f * 10 ^ (7 - length f))))"
proof -
  obtain c r where w: "nat_str w = c # r" "is_digit c" "all_digits r"
    using nat_str_cases by blast
  then have c: "c \<noteq> CHR ''-''" by auto
  have split: "split_on (CHR ''.'') (c # r @ CHR ''.'' # f) = [c # r, f]"
    using usd_text_split [OF assms(1), of w] by (simp add: w(1))
  have dv: "dec_val (c # r) = w" using dec_val_nat_str [of w] unfolding w(1) .
  have pad: "dec_val (padEnd 7 (CHR ''0'') f) = dec_val f * 10 ^ (7 - length f)"
    by (simp add: padEnd_def dec_val_append)
  have cr: "is_digit c" "all_digits r" by (fact w)+
  have trim: "js_trim (usd_text b w f) = usd_text b w f"
    by (rule usd_text_trim [OF assms(2,1)])
  have txt_eq: "usd_text b w f = (if b then ''-'' else []) @ c # r @ CHR ''.'' # f"
    by (simp add: usd_text_def w(1))
  have re: "DECIMAL_RE (usd_text b w f)"
    unfolding txt_eq using c split cr assms by (auto simp: DECIMAL_RE_def Let_def simp del: split_on.simps)
  show ?thesis
    unfolding parseUsd_def Let_def trim
    using re c split assms(3)
    by (simp add: txt_eq pad dv USDC_DECIMALS_def del: split_on.simps dec_val_simps)
qed

lemma length_frac: "length (nat_str (nat (n mod ONE_USDC))) \<le> 7"
proof (rule length_nat_str)
  show "nat (n mod ONE_USDC) < 10 ^ 7" by (simp add: ONE_USDC_def nat_less_iff)
qed simp

lemma whole_frac: "int (nat (\<bar>n\<bar> div ONE_USDC)) * ONE_USDC + int (nat (\<bar>n\<bar> mod ONE_USDC)) = \<bar>n\<bar>"
  by (simp add: ONE_USDC_def pos_imp_zdiv_nonneg_iff)

lemma sign_abs: "(if n < 0 then -1 else 1) * \<bar>n\<bar> = (n :: int)"
  by simp

subsection \<open>Round trips\<close>

lemma parse_usdc7: "parseUsd (formatUsdc7 n) = Inr n"
proof -
  let ?f = "padStart 7 (CHR ''0'') (nat_str (nat (\<bar>n\<bar> mod ONE_USDC)))"
  have len: "length ?f = 7" using length_frac [of "\<bar>n\<bar>"] by simp
  then have "?f \<noteq> []" by (metis list.size(3) zero_neq_numeral)
  then have "parseUsd (usd_text (n < 0) (nat (\<bar>n\<bar> div ONE_USDC)) ?f) =
      Inr ((if n < 0 then -1 else 1) * (int (nat (\<bar>n\<bar> div ONE_USDC)) * ONE_USDC
        + int (nat (\<bar>n\<bar> mod ONE_USDC))))"
    using len by (subst parseUsd_text) simp_all
  then show ?thesis by (simp only: formatUsdc7_text whole_frac sign_abs)
qed

text \<open>The display form: zeros cut from the right and put back up to two places keep the value.\<close>

lemma trimmed_frac:
  assumes "all_digits f" "length f = 7"
  defines "g \<equiv> (if length (strip_zeros f) < 2 then padEnd 2 (CHR ''0'') (strip_zeros f) else strip_zeros f)"
  shows "all_digits g" "g \<noteq> []" "length g \<le> 7" "dec_val g * 10 ^ (7 - length g) = dec_val f"
proof -
  let ?t = "strip_zeros f"
  obtain k where k: "f = ?t @ replicate k (CHR ''0'')" using strip_zeros_decomp by blast
  have len: "length ?t + k = 7" using arg_cong [OF k, of length] assms(2) by simp
  have dig: "all_digits ?t" using assms(1) by (subst (asm) k) simp
  have val: "dec_val f = dec_val ?t * 10 ^ k" by (subst k) (simp add: dec_val_append)
  define m where "m = (if length ?t < 2 then 2 - length ?t else 0)"
  have g: "g = ?t @ replicate m (CHR ''0'')" by (simp add: g_def m_def padEnd_def)
  have m: "m \<le> k" "7 - length g = k - m" using len by (auto simp: g m_def)
  show "all_digits g" using dig by (simp add: g)
  show "g \<noteq> []" by (auto simp: g m_def)
  show "length g \<le> 7" using len m(1) by (simp add: g)
  show "dec_val g * 10 ^ (7 - length g) = dec_val f"
    using m by (simp add: g val dec_val_append power_add [symmetric] mult.assoc)
qed

lemma usd_text_parts:
  "all_digits f \<Longrightarrow> split_on (CHR ''.'') (usd_text b w f) = [(if b then ''-'' else []) @ nat_str w, f]"
  using usd_text_split [of f w] by (simp add: usd_text_def)

lemma formatUsd_text:
  fixes n :: int
  defines "f \<equiv> padStart 7 (CHR ''0'') (nat_str (nat (\<bar>n\<bar> mod ONE_USDC)))"
  shows "formatUsd n = usd_text (n < 0) (nat (\<bar>n\<bar> div ONE_USDC))
     (if length (strip_zeros f) < 2 then padEnd 2 (CHR ''0'') (strip_zeros f) else strip_zeros f)"
proof -
  have "split_on (CHR ''.'') (formatUsdc7 n) =
      [(if n < 0 then ''-'' else []) @ nat_str (nat (\<bar>n\<bar> div ONE_USDC)), f]"
    unfolding formatUsdc7_text f_def by (rule usd_text_parts) simp
  then show ?thesis by (simp add: formatUsd_def Let_def usd_text_def)
qed

lemma parse_usd: "parseUsd (formatUsd n) = Inr n"
proof -
  let ?f = "padStart 7 (CHR ''0'') (nat_str (nat (\<bar>n\<bar> mod ONE_USDC)))"
  have f: "all_digits ?f" "length ?f = 7" using length_frac [of "\<bar>n\<bar>"] by simp_all
  show ?thesis
    unfolding formatUsd_text
    by (subst parseUsd_text [OF trimmed_frac(1-3) [OF f]])
       (simp only: trimmed_frac(4) [OF f] dec_val_padStart dec_val_nat_str whole_frac sign_abs)
qed

lemma parse_atomic [js_simps, simp]: "parseAtomic (Some (int_str n)) = Inr n"
  by (simp add: parseAtomic_def)

lemma parseAtomic_None [js_simps, simp]: "parseAtomic None = Inr 0"
  by (simp add: parseAtomic_def)

text \<open>Every amount survives both printers: \<open>parseUsd\<close> gives back exactly the integer that
  \<open>formatUsdc7\<close> (fixed width) or \<open>formatUsd\<close> (display form, zeros trimmed) printed, and
  \<open>parseAtomic\<close> the one that \<open>toString\<close> put into storage.\<close>

theorem amount_roundtrip:
  "parseUsd (formatUsdc7 n) = Inr n \<and> parseUsd (formatUsd n) = Inr n \<and>
   parseAtomic (Some (int_str n)) = Inr n"
  by (simp add: parse_usdc7 parse_usd)

text \<open>The conversion to Tempo's six decimals never rounds a ceiling up: for a non-negative amount
  the result, back in seven decimals, is at most the amount and misses it by less than one unit.\<close>

theorem toTempoRaw6_floor:
  assumes "0 \<le> n"
  shows "\<exists>r. parseAtomic (Some (toTempoRaw6 n)) = Inr r \<and> 0 \<le> r \<and> 10 * r \<le> n \<and> n < 10 * r + 10"
  using assms by (simp add: toTempoRaw6_def bigint_div_nonneg) presburger

theorem toTempoRaw6_floor_witness:
  "\<exists>r. parseAtomic (Some (toTempoRaw6 10000009)) = Inr r \<and> 0 \<le> r \<and> 10 * r \<le> 10000009
     \<and> (10000009::int) < 10 * r + 10"
  by (rule toTempoRaw6_floor) simp

end
