(* ===== verification/Ledger.thy ===== *)
theory Ledger
  imports JsDate Amount
begin

text \<open>
  \<open>PlaygroundLedger\<close> (\<open>src/src/playground/ledger-do.ts\<close>): the Durable Object that holds the playground
  money.  One record field per key prefix of its storage (\<open>intent:\<close>, \<open>memo:\<close>, \<open>consumed:\<close>, \<open>bal:\<close>, \<open>dep:\<close>,
  \<open>rl:\<close>, \<open>open:\<close>, \<open>overcap:\<close>, \<open>call:\<close>, \<open>hist:\<close>, \<open>total:\<close>) and one function per handler, from the request body and
  the state to the answer and the next state.  Every handler is one atomic step: the object serves one request
  at a time and its writes are in a transaction.

  Amounts in a request body are strings, read by \<open>parseAtomic\<close>, which throws on anything else: a throw
  inside a transaction leaves the state as it was.  Amounts in storage are the strings the object itself
  wrote with \<open>BigInt.toString\<close>, which \<open>parseAtomic\<close> reads back exactly (\<open>parseAtomic_int_str\<close>), so the
  model stores the integers.
\<close>

lemma parseAtomic_int_str: "parseAtomic (Some (int_str n)) = Inr n"
  by (simp add: parseAtomic_def bigint_of_int_str)

subsection \<open>Stored data\<close>

datatype intent_status = IOpen | IConsumed | IExpired | IOverCap

record stored_intent =
  intent_id :: string
  i_account :: string
  i_amount :: int
  i_memo :: string
  i_destination :: string
  i_created_at :: int
  i_expires_at :: int
  i_status :: intent_status
  i_tx_hash :: "string option"
  i_op_index :: "int option"
  i_session_jti :: "string option"
  i_session_exp :: "int option"

datatype call_status = Reserved | Committed | Released

record stored_call =
  call_id :: string
  c_account :: string
  c_chip :: string
  c_model :: "string option"
  c_status :: call_status
  c_max_price :: int
  c_charged :: int
  c_at :: int
  c_dispatched :: bool
  c_release_reason :: "string option"
  c_reaped :: bool
  c_possible_paid :: bool

record over_cap_entry =
  oc_intent_id :: string
  oc_account :: string
  oc_amount :: int
  oc_tx_hash :: string
  oc_op_index :: int
  oc_reason :: string
  oc_at :: int

record ledger =
  intents :: "stored_intent table"
  memos :: "string table"
  consumed :: "string table"
  bal :: "int table"
  dep :: "int table"
  rl :: "int table"
  opens :: "int table"
  overcap :: "over_cap_entry table"
  calls :: "stored_call table"
  hist :: "string list table"
  credited :: int
  committed :: int
  outstanding :: int
  alarm_at :: "int option"

definition empty_ledger :: ledger where
  "empty_ledger = \<lparr>intents = [], memos = [], consumed = [], bal = [], dep = [], rl = [], opens = [],
     overcap = [], calls = [], hist = [], credited = 0, committed = 0, outstanding = 0, alarm_at = None\<rparr>"

text \<open>\<open>Result<T>\<close>: an error answer carries a code and details; it is an ordinary return.\<close>

datatype 'a result = Ok 'a | Err string "(string \<times> string) list"

definition num_at :: "int table \<Rightarrow> string \<Rightarrow> int" where
  "num_at t k = (case tget t k of None \<Rightarrow> 0 | Some n \<Rightarrow> n)"

text \<open>\<open>parseAtomic\<close> on a field of the body, then the rest of the handler.\<close>

definition parse_then :: "string option \<Rightarrow> ledger \<Rightarrow> (int \<Rightarrow> 'a js \<times> ledger) \<Rightarrow> 'a js \<times> ledger" where
  "parse_then s st f = (case parseAtomic s of Inl e \<Rightarrow> (Inl e, st) | Inr n \<Rightarrow> f n)"

text \<open>\<open>xs.slice(0, n)\<close>: a negative end counts from the back.\<close>

definition js_slice0 :: "int \<Rightarrow> 'a list \<Rightarrow> 'a list" where
  "js_slice0 n xs = take (nat (if 0 \<le> n then n else int (length xs) + n)) xs"

definition RESERVED_LEASE_MS :: int where "RESERVED_LEASE_MS = 5 * 60 * 1000"
definition REAPER_INTERVAL_MS :: int where "REAPER_INTERVAL_MS = 60 * 1000"

subsection \<open>/intent/create and /intent/get\<close>

record create_body =
  cb_intent_id :: string
  cb_account :: string
  cb_amount :: string
  cb_memo :: string
  cb_destination :: string
  cb_now :: int
  cb_expires_at :: int
  cb_day_cap :: string
  cb_global_cap :: string
  cb_intents_per_hour :: int
  cb_max_open :: int

definition new_intent :: "create_body \<Rightarrow> int \<Rightarrow> stored_intent" where
  "new_intent b amount =
     \<lparr>intent_id = cb_intent_id b, i_account = cb_account b, i_amount = amount, i_memo = cb_memo b,
      i_destination = cb_destination b, i_created_at = cb_now b, i_expires_at = cb_expires_at b,
      i_status = IOpen, i_tx_hash = None, i_op_index = None, i_session_jti = None, i_session_exp = None\<rparr>"

text \<open>The four writes of a successful creation.\<close>

definition put_intent :: "create_body \<Rightarrow> int \<Rightarrow> string \<Rightarrow> int \<Rightarrow> int \<Rightarrow> ledger \<Rightarrow> ledger" where
  "put_intent b amount rlKey used openCount st =
     st\<lparr>intents := tput (cb_intent_id b) (new_intent b amount) (intents st),
        memos := tput (cb_memo b) (cb_intent_id b) (memos st),
        rl := tput rlKey used (rl st),
        opens := tput (cb_account b) openCount (opens st)\<rparr>"

definition createIntent :: "create_body \<Rightarrow> ledger \<Rightarrow> stored_intent result js \<times> ledger" where
  "createIntent b st =
     parse_then (Some (cb_amount b)) st (\<lambda>amount.
     if amount \<le> 0 then (Inr (Err ''invalid_amount'' []), st) else
     let rlKey = cb_account b @ '':'' @ utcHourKey (cb_now b); used = num_at (rl st) rlKey in
     if cb_intents_per_hour b \<le> used
     then (Inr (Err ''rate_limited''
             [(''retry_after_seconds'', int_str (secondsUntilNextHour (cb_now b)))]), st) else
     let depKey = cb_account b @ '':'' @ utcDayKey (cb_now b); depositedToday = num_at (dep st) depKey in
     parse_then (Some (cb_day_cap b)) st (\<lambda>dayCap.
     if dayCap < depositedToday + amount
     then (Inr (Err ''deposit_cap_exceeded''
             [(''deposited_today'', int_str depositedToday), (''cap'', int_str dayCap)]), st) else
     parse_then (Some (cb_global_cap b)) st (\<lambda>globalCap.
     if globalCap < outstanding st + amount
     then (Inr (Err ''global_cap_exceeded''
             [(''outstanding'', int_str (outstanding st)), (''cap'', int_str globalCap)]), st) else
     let openCount = num_at (opens st) (cb_account b) in
     if cb_max_open b \<le> openCount
     then (Inr (Err ''too_many_open_intents''
             [(''open_intents'', int_str openCount), (''max'', int_str (cb_max_open b))]), st)
     else if tget (memos st) (cb_memo b) \<notin> {None, Some []}
     then (Inr (Err ''memo_collision'' []), st)
     else (Inr (Ok (new_intent b amount)), put_intent b amount rlKey (used + 1) (openCount + 1) st))))"

definition getIntent :: "string \<Rightarrow> ledger \<Rightarrow> stored_intent result" where
  "getIntent k st = (case tget (intents st) k of None \<Rightarrow> Err ''intent_not_found'' [] | Some i \<Rightarrow> Ok i)"

subsection \<open>/open\<close>

record open_body =
  ob_intent_id :: string
  ob_tx_hash :: string
  ob_op_index :: int
  ob_now :: int
  ob_confirmed_at :: int
  ob_session_jti :: string
  ob_session_exp :: int
  ob_day_cap :: string
  ob_global_cap :: string

record open_answer =
  oa_intent :: stored_intent
  oa_balance :: int
  oa_replayed :: bool

definition consumed_key :: "string \<Rightarrow> int \<Rightarrow> string" where
  "consumed_key tx op = tx @ '':'' @ int_str op"

definition releaseOpenSlot :: "string \<Rightarrow> ledger \<Rightarrow> ledger" where
  "releaseOpenSlot account st =
     (let current = num_at (opens st) account
      in st\<lparr>opens := tput account (if 0 < current then current - 1 else 0) (opens st)\<rparr>)"

text \<open>The answer to an intent already consumed: replay (renewing an ended session) or conflict.\<close>

definition open_replay :: "open_body \<Rightarrow> stored_intent \<Rightarrow> ledger \<Rightarrow> open_answer result \<times> ledger" where
  "open_replay b intent st =
     (if i_tx_hash intent = Some (ob_tx_hash b) \<and> i_op_index intent = Some (ob_op_index b)
      then (let renew = (case i_session_exp intent of None \<Rightarrow> True | Some e \<Rightarrow> e * 1000 \<le> ob_now b);
                returned = (if renew then intent\<lparr>i_session_jti := Some (ob_session_jti b),
                                                i_session_exp := Some (ob_session_exp b)\<rparr> else intent)
            in (Ok \<lparr>oa_intent = returned, oa_balance = num_at (bal st) (i_account intent), oa_replayed = True\<rparr>,
                if renew then st\<lparr>intents := tput (ob_intent_id b) returned (intents st)\<rparr> else st))
      else (Err ''intent_already_used'' [], st))"

definition open_over_cap :: "open_body \<Rightarrow> stored_intent \<Rightarrow> bool \<Rightarrow> ledger \<Rightarrow> ledger" where
  "open_over_cap b intent overDay st =
     (let st1 = st\<lparr>intents := tput (ob_intent_id b)
            (intent\<lparr>i_status := IOverCap, i_tx_hash := Some (ob_tx_hash b), i_op_index := Some (ob_op_index b)\<rparr>)
            (intents st)\<rparr>;
          st2 = releaseOpenSlot (i_account intent) st1
      in st2\<lparr>overcap := tput (ob_intent_id b)
           \<lparr>oc_intent_id = ob_intent_id b, oc_account = i_account intent, oc_amount = i_amount intent,
            oc_tx_hash = ob_tx_hash b, oc_op_index = ob_op_index b,
            oc_reason = (if overDay then ''deposit_cap_exceeded'' else ''global_cap_exceeded''),
            oc_at = ob_now b\<rparr> (overcap st2)\<rparr>)"

definition consumed_intent :: "open_body \<Rightarrow> stored_intent \<Rightarrow> stored_intent" where
  "consumed_intent b intent =
     intent\<lparr>i_status := IConsumed, i_tx_hash := Some (ob_tx_hash b), i_op_index := Some (ob_op_index b),
            i_session_jti := Some (ob_session_jti b), i_session_exp := Some (ob_session_exp b)\<rparr>"

definition open_credit :: "open_body \<Rightarrow> stored_intent \<Rightarrow> string \<Rightarrow> ledger \<Rightarrow> ledger" where
  "open_credit b intent depKey st =
     (let amount = i_amount intent;
          st1 = st\<lparr>consumed := tput (consumed_key (ob_tx_hash b) (ob_op_index b)) (ob_intent_id b) (consumed st),
                   intents := tput (ob_intent_id b) (consumed_intent b intent) (intents st)\<rparr>;
          st2 = releaseOpenSlot (i_account intent) st1
      in st2\<lparr>bal := tput (i_account intent) (num_at (bal st) (i_account intent) + amount) (bal st2),
             dep := tput depKey (num_at (dep st) depKey + amount) (dep st2),
             credited := credited st + amount,
             outstanding := outstanding st + amount\<rparr>)"

definition openIntent :: "open_body \<Rightarrow> ledger \<Rightarrow> open_answer result js \<times> ledger" where
  "openIntent b st =
     (case tget (intents st) (ob_intent_id b) of
        None \<Rightarrow> (Inr (Err ''intent_not_found'' []), st)
      | Some intent \<Rightarrow>
          let consumedBy = tget (consumed st) (consumed_key (ob_tx_hash b) (ob_op_index b)) in
          if i_status intent = IOverCap
          then (Inr (Err ''deposit_exceeds_cap'' [(''intent_id'', intent_id intent)]), st)
          else if i_status intent = IConsumed
          then (case open_replay b intent st of (r, st') \<Rightarrow> (Inr r, st'))
          else if consumedBy \<notin> {None, Some []}
          then (Inr (Err ''payment_already_claimed'' []), st)
          else if i_expires_at intent < ob_confirmed_at b
          then (Inr (Err ''intent_expired'' []),
                releaseOpenSlot (i_account intent)
                  (st\<lparr>intents := tput (ob_intent_id b) (intent\<lparr>i_status := IExpired\<rparr>) (intents st)\<rparr>))
          else
            let amount = i_amount intent;
                depKey = i_account intent @ '':'' @ utcDayKey (ob_confirmed_at b);
                depositedToday = num_at (dep st) depKey in
            parse_then (Some (ob_day_cap b)) st (\<lambda>dayCap.
            parse_then (Some (ob_global_cap b)) st (\<lambda>globalCap.
            let overDay = dayCap < depositedToday + amount;
                overGlobal = globalCap < outstanding st + amount in
            if overDay \<or> overGlobal
            then (Inr (Err ''deposit_exceeds_cap''
                    [(''reason'', if overDay then ''deposit_cap_exceeded'' else ''global_cap_exceeded''),
                     (''deposited_today'', int_str depositedToday), (''day_cap'', int_str dayCap),
                     (''outstanding'', int_str (outstanding st)), (''global_cap'', int_str globalCap)]),
                  open_over_cap b intent overDay st)
            else (Inr (Ok \<lparr>oa_intent = consumed_intent b intent,
                           oa_balance = num_at (bal st) (i_account intent) + amount,
                           oa_replayed = False\<rparr>),
                  open_credit b intent depKey st))))"

subsection \<open>/account\<close>

definition account :: "string \<Rightarrow> int \<Rightarrow> ledger \<Rightarrow> int \<times> stored_call list" where
  "account acc limit st =
     (let ids = (case tget (hist st) acc of None \<Rightarrow> [] | Some h \<Rightarrow> h)
      in (num_at (bal st) acc, List.map_filter (tget (calls st)) (js_slice0 limit ids)))"

subsection \<open>/reserve\<close>

record reserve_body =
  rb_call_id :: string
  rb_account :: string
  rb_chip :: string
  rb_model :: "string option"
  rb_max_price :: string
  rb_now :: int
  rb_history_limit :: int

record reserve_outcome =
  ro_ok :: bool
  ro_call :: "stored_call option"
  ro_balance :: int
  ro_duplicate :: bool

definition new_call :: "reserve_body \<Rightarrow> int \<Rightarrow> stored_call" where
  "new_call b maxPrice =
     \<lparr>call_id = rb_call_id b, c_account = rb_account b, c_chip = rb_chip b, c_model = rb_model b,
      c_status = Reserved, c_max_price = maxPrice, c_charged = 0, c_at = rb_now b, c_dispatched = False,
      c_release_reason = None, c_reaped = False, c_possible_paid = False\<rparr>"

text \<open>The hold itself, and the alarm that is armed after it unless one is set already.\<close>

definition take_hold :: "reserve_body \<Rightarrow> int \<Rightarrow> ledger \<Rightarrow> ledger" where
  "take_hold b maxPrice st =
     (let h = (case tget (hist st) (rb_account b) of None \<Rightarrow> [] | Some h \<Rightarrow> h)
      in st\<lparr>bal := tput (rb_account b) (num_at (bal st) (rb_account b) - maxPrice) (bal st),
            calls := tput (rb_call_id b) (new_call b maxPrice) (calls st),
            hist := tput (rb_account b) (js_slice0 (rb_history_limit b) (rb_call_id b # h)) (hist st),
            alarm_at := (case alarm_at st of None \<Rightarrow> Some (rb_now b + REAPER_INTERVAL_MS) | Some a \<Rightarrow> Some a)\<rparr>)"

definition reserve :: "reserve_body \<Rightarrow> ledger \<Rightarrow> reserve_outcome result js \<times> ledger" where
  "reserve b st =
     parse_then (Some (rb_max_price b)) st (\<lambda>maxPrice.
     if maxPrice < 0 then (Inr (Err ''invalid_amount'' []), st)
     else case tget (calls st) (rb_call_id b) of
       Some existing \<Rightarrow>
         (Inr (Ok \<lparr>ro_ok = True, ro_call = Some existing,
                   ro_balance = num_at (bal st) (c_account existing), ro_duplicate = True\<rparr>), st)
     | None \<Rightarrow>
         let balance = num_at (bal st) (rb_account b) in
         if balance < maxPrice
         then (Inr (Ok \<lparr>ro_ok = False, ro_call = None, ro_balance = balance, ro_duplicate = False\<rparr>), st)
         else (Inr (Ok \<lparr>ro_ok = True, ro_call = Some (new_call b maxPrice),
                        ro_balance = balance - maxPrice, ro_duplicate = False\<rparr>),
               take_hold b maxPrice st))"

subsection \<open>/dispatch and /settle\<close>

definition markDispatched :: "string \<Rightarrow> ledger \<Rightarrow> bool result \<times> ledger" where
  "markDispatched k st =
     (case tget (calls st) k of
        None \<Rightarrow> (Err ''call_not_found'' [], st)
      | Some call \<Rightarrow>
          if c_status call \<noteq> Reserved \<or> c_dispatched call then (Ok False, st)
          else (Ok True, st\<lparr>calls := tput k (call\<lparr>c_dispatched := True\<rparr>) (calls st)\<rparr>))"

datatype settle_action = DoCommit | DoRelease

record settle_answer =
  sa_call :: stored_call
  sa_balance :: int
  sa_already :: bool

text \<open>The two writes that end a hold: the settled record, and what goes back to the balance.\<close>

definition end_hold :: "string \<Rightarrow> stored_call \<Rightarrow> int \<Rightarrow> ledger \<Rightarrow> ledger" where
  "end_hold k settled refund st =
     st\<lparr>calls := tput k settled (calls st),
        bal := tput (c_account settled) (num_at (bal st) (c_account settled) + refund) (bal st)\<rparr>"

definition settle ::
    "string \<Rightarrow> settle_action \<Rightarrow> string option \<Rightarrow> string option \<Rightarrow> ledger
      \<Rightarrow> settle_answer result js \<times> ledger" where
  "settle k action charge reason st =
     (case tget (calls st) k of
        None \<Rightarrow> (Inr (Err ''call_not_found'' []), st)
      | Some call \<Rightarrow>
          let balance = num_at (bal st) (c_account call) in
          if c_status call \<noteq> Reserved
          then (Inr (Ok \<lparr>sa_call = call, sa_balance = balance, sa_already = True\<rparr>), st)
          else
            let held = c_max_price call in
            case action of
              DoRelease \<Rightarrow>
                (let settled = call\<lparr>c_status := Released, c_charged := 0, c_release_reason := reason\<rparr>
                 in (Inr (Ok \<lparr>sa_call = settled, sa_balance = balance + held, sa_already = False\<rparr>),
                     end_hold k settled held st))
            | DoCommit \<Rightarrow>
                parse_then charge st (\<lambda>charged0.
                let charged1 = (if charged0 < 0 then 0 else charged0);
                    charged2 = (if held < charged1 then held else charged1);
                    refund = held - charged2;
                    settled = call\<lparr>c_status := Committed, c_charged := charged2\<rparr>
                in (Inr (Ok \<lparr>sa_call = settled, sa_balance = balance + refund, sa_already = False\<rparr>),
                    (end_hold k settled refund st)
                      \<lparr>committed := committed st + charged2, outstanding := outstanding st - charged2\<rparr>)))"

subsection \<open>alarm\<close>

definition reaped_call :: "stored_call \<Rightarrow> stored_call" where
  "reaped_call call =
     call\<lparr>c_status := Released, c_charged := 0,
          c_release_reason := Some (if c_dispatched call then ''reaped_dispatched'' else ''reaped_never_dispatched''),
          c_reaped := True, c_possible_paid := c_possible_paid call \<or> c_dispatched call\<rparr>"

definition reap_one :: "int \<Rightarrow> string \<times> stored_call \<Rightarrow> nat \<times> ledger \<Rightarrow> nat \<times> ledger" where
  "reap_one now kc acc =
     (case kc of (k, call) \<Rightarrow> case acc of (remaining, st) \<Rightarrow>
        if c_status call \<noteq> Reserved then (remaining, st)
        else if now - c_at call < RESERVED_LEASE_MS then (Suc remaining, st)
        else (remaining, end_hold k (reaped_call call) (c_max_price call) st))"

definition alarm :: "int \<Rightarrow> ledger \<Rightarrow> ledger" where
  "alarm now st =
     (case fold (reap_one now) (calls st) (0, st\<lparr>alarm_at := None\<rparr>) of (remaining, st') \<Rightarrow>
        st'\<lparr>alarm_at := (if 0 < remaining then Some (now + REAPER_INTERVAL_MS) else None)\<rparr>)"

subsection \<open>/totals\<close>

record consumed_deposit =
  cd_tx_hash :: string
  cd_op_index :: int
  cd_intent_id :: string
  cd_binding :: "(string \<times> int \<times> string) option"

record totals_answer =
  ta_credited :: int
  ta_committed :: int
  ta_outstanding :: int
  ta_balances_sum :: int
  ta_holds_sum :: int
  ta_reaped_released :: int
  ta_reaped_possible_paid :: int
  ta_consumed :: "consumed_deposit list"

definition hold_of :: "stored_call \<Rightarrow> int" where
  "hold_of c = (if c_status c = Reserved then c_max_price c else 0)"

text \<open>\<open>rest.lastIndexOf(':')\<close> and the two slices around it.\<close>

fun rsplit_colon :: "string \<Rightarrow> (string \<times> string) option" where
  "rsplit_colon [] = None"
| "rsplit_colon (c # s) =
     (case rsplit_colon s of
        Some (a, b) \<Rightarrow> Some (c # a, b)
      | None \<Rightarrow> if c = CHR '':'' then Some ([], s) else None)"

definition totals :: "ledger \<Rightarrow> totals_answer" where
  "totals st =
     \<lparr>ta_credited = credited st, ta_committed = committed st, ta_outstanding = outstanding st,
      ta_balances_sum = tsum (\<lambda>v. v) (bal st),
      ta_holds_sum = tsum hold_of (calls st),
      ta_reaped_released = tsum (\<lambda>c. if c_reaped c \<and> c_status c = Released then 1 else 0) (calls st),
      ta_reaped_possible_paid =
        tsum (\<lambda>c. if c_reaped c \<and> c_status c = Released \<and> c_possible_paid c then 1 else 0) (calls st),
      ta_consumed = map (\<lambda>(k, id).
          (case rsplit_colon k of
             Some (tx, op) \<Rightarrow>
               \<lparr>cd_tx_hash = tx, cd_op_index = bigint_of op, cd_intent_id = id,
                cd_binding = map_option (\<lambda>i. (i_account i, i_amount i, i_memo i)) (tget (intents st) id)\<rparr>
           | None \<Rightarrow>
               \<lparr>cd_tx_hash = butlast k, cd_op_index = bigint_of k, cd_intent_id = id,
                cd_binding = map_option (\<lambda>i. (i_account i, i_amount i, i_memo i)) (tget (intents st) id)\<rparr>))
        (consumed st)\<rparr>"

end
