(* ===== verification/LedgerInv.thy ===== *)
theory LedgerInv
  imports Ledger
begin

text \<open>
  The invariants of \<open>PlaygroundLedger\<close> and the properties they give.  First, what each handler can do to the
  state (\<open>createIntent_effect\<close>, \<open>openIntent_effect\<close>, ...): a predicate holds after the handler if it holds after
  each of its possible writes.  Then one preservation lemma per invariant over those writes, and reachability
  over \<open>lstep\<close>, one request or alarm of anybody.
\<close>

subsection \<open>What the handlers can do\<close>

lemma pres_parse:
  "P st \<Longrightarrow> (\<And>n. parseAtomic s = Inr n \<Longrightarrow> P (snd (f n))) \<Longrightarrow> P (snd (parse_then s st f))"
  by (simp add: parse_then_def split: sum.splits)

lemma pres_if: "(c \<Longrightarrow> P (snd x)) \<Longrightarrow> (\<not> c \<Longrightarrow> P (snd y)) \<Longrightarrow> P (snd (if c then x else y))"
  by simp

lemma pres_pair: "P s \<Longrightarrow> P (snd (r, s))"
  by simp

lemmas pres_rules = pres_parse pres_if pres_pair

lemma createIntent_effect:
  assumes "P st"
    and "\<And>amount u n. 0 < amount \<Longrightarrow>
      P (put_intent b amount (cb_account b @ '':'' @ utcHourKey (cb_now b)) u n st)"
  shows "P (snd (createIntent b st))"
  unfolding createIntent_def Let_def
  by (intro pres_rules [where P = P] assms) (simp_all add: not_le)

lemma openIntent_effect:
  assumes "P st"
    and "\<And>i. tget (intents st) (ob_intent_id b) = Some i \<Longrightarrow> i_status i = IConsumed \<Longrightarrow>
      P (st\<lparr>intents := tput (ob_intent_id b)
         (i\<lparr>i_session_jti := Some (ob_session_jti b), i_session_exp := Some (ob_session_exp b)\<rparr>) (intents st)\<rparr>)"
    and "\<And>i. tget (intents st) (ob_intent_id b) = Some i \<Longrightarrow> i_status i = IOpen \<or> i_status i = IExpired \<Longrightarrow>
      P (releaseOpenSlot (i_account i)
         (st\<lparr>intents := tput (ob_intent_id b) (i\<lparr>i_status := IExpired\<rparr>) (intents st)\<rparr>))"
    and "\<And>i overDay. tget (intents st) (ob_intent_id b) = Some i \<Longrightarrow>
      i_status i = IOpen \<or> i_status i = IExpired \<Longrightarrow> P (open_over_cap b i overDay st)"
    and "\<And>i dayCap globalCap. tget (intents st) (ob_intent_id b) = Some i \<Longrightarrow>
      i_status i = IOpen \<or> i_status i = IExpired \<Longrightarrow>
      tget (consumed st) (consumed_key (ob_tx_hash b) (ob_op_index b)) \<in> {None, Some []} \<Longrightarrow>
      parseAtomic (Some (ob_day_cap b)) = Inr dayCap \<Longrightarrow> parseAtomic (Some (ob_global_cap b)) = Inr globalCap \<Longrightarrow>
      num_at (dep st) (i_account i @ '':'' @ utcDayKey (ob_confirmed_at b)) + i_amount i \<le> dayCap \<Longrightarrow>
      outstanding st + i_amount i \<le> globalCap \<Longrightarrow>
      P (open_credit b i (i_account i @ '':'' @ utcDayKey (ob_confirmed_at b)) st)"
  shows "P (snd (openIntent b st))"
proof (cases "tget (intents st) (ob_intent_id b)")
  case None
  with assms(1) show ?thesis by (simp add: openIntent_def)
next
  case (Some i)
  have live: "i_status i \<noteq> IOverCap \<Longrightarrow> i_status i \<noteq> IConsumed \<Longrightarrow> i_status i = IOpen \<or> i_status i = IExpired"
    by (cases "i_status i") simp_all
  have replay: "i_status i = IConsumed \<Longrightarrow> P (snd (case open_replay b i st of (r, st') \<Rightarrow> (Inr r, st')))"
    using assms(1) assms(2) [OF Some] by (simp add: open_replay_def Let_def split: option.splits)
  show ?thesis
    unfolding openIntent_def Let_def Some option.case
    by (intro pres_rules [where P = P] assms replay Some live) (auto simp: not_less)
qed

lemma reserve_effect:
  assumes "P st"
    and "\<And>m. tget (calls st) (rb_call_id b) = None \<Longrightarrow> 0 \<le> m \<Longrightarrow> m \<le> num_at (bal st) (rb_account b) \<Longrightarrow>
      P (take_hold b m st)"
  shows "P (snd (reserve b st))"
proof (cases "tget (calls st) (rb_call_id b)")
  case None
  show ?thesis
    unfolding reserve_def Let_def None option.case by (intro pres_rules [where P = P] assms None) (simp_all add: not_less)
next
  case (Some c)
  show ?thesis unfolding reserve_def Let_def Some option.case by (intro pres_rules [where P = P] assms(1))
qed

lemma markDispatched_effect:
  assumes "P st"
    and "\<And>c. tget (calls st) k = Some c \<Longrightarrow> c_status c = Reserved \<Longrightarrow>
      P (st\<lparr>calls := tput k (c\<lparr>c_dispatched := True\<rparr>) (calls st)\<rparr>)"
  shows "P (snd (markDispatched k st))"
  using assms by (simp add: markDispatched_def split: option.splits)

lemma settle_effect:
  assumes "P st"
    and "\<And>c. tget (calls st) k = Some c \<Longrightarrow> c_status c = Reserved \<Longrightarrow>
      P (end_hold k (c\<lparr>c_status := Released, c_charged := 0, c_release_reason := reason\<rparr>) (c_max_price c) st)"
    and "\<And>c n. tget (calls st) k = Some c \<Longrightarrow> c_status c = Reserved \<Longrightarrow>
      0 \<le> n \<or> n = c_max_price c \<Longrightarrow> n \<le> c_max_price c \<Longrightarrow>
      P ((end_hold k (c\<lparr>c_status := Committed, c_charged := n\<rparr>) (c_max_price c - n) st)
           \<lparr>committed := committed st + n, outstanding := outstanding st - n\<rparr>)"
  shows "P (snd (settle k action charge reason st))"
proof (cases "tget (calls st) k")
  case None
  with assms(1) show ?thesis by (simp add: settle_def)
next
  case (Some c)
  show ?thesis
  proof (cases "c_status c = Reserved")
    case False
    with Some assms(1) show ?thesis by (simp add: settle_def Let_def)
  next
    case True
    show ?thesis
    proof (cases action)
      case DoRelease
      with Some True assms(2) show ?thesis by (simp add: settle_def Let_def)
    next
      case DoCommit
      show ?thesis
        unfolding settle_def Let_def Some DoCommit option.case settle_action.case
        by (intro pres_rules [where P = P] assms Some True) (auto simp: True)
    qed
  qed
qed

text \<open>The alarm is a fold over a snapshot; a predicate that every reaped call keeps is kept by all of it.\<close>

lemma fold_reap_calls_other:
  "k \<notin> fst ` set kcs \<Longrightarrow> tget (calls (snd (fold (reap_one now) kcs acc))) k = tget (calls (snd acc)) k"
  by (induction kcs arbitrary: acc) (auto simp: reap_one_def end_hold_def split: prod.splits)

lemma fold_reap_pres:
  assumes "\<And>k c s. P s \<Longrightarrow> tget (calls s) k = Some c \<Longrightarrow> c_status c = Reserved \<Longrightarrow>
      RESERVED_LEASE_MS \<le> now - c_at c \<Longrightarrow> P (end_hold k (reaped_call c) (c_max_price c) s)"
  shows "distinct (map fst kcs) \<Longrightarrow> (\<And>k c. (k, c) \<in> set kcs \<Longrightarrow> tget (calls (snd acc)) k = Some c) \<Longrightarrow>
    P (snd acc) \<Longrightarrow> P (snd (fold (reap_one now) kcs acc))"
proof (induction kcs arbitrary: acc)
  case Nil
  then show ?case by simp
next
  case (Cons kc kcs)
  obtain k c where kc: "kc = (k, c)" by (cases kc)
  obtain n s where acc: "acc = (n, s)" by (cases acc)
  let ?acc' = "reap_one now kc acc"
  have c: "tget (calls s) k = Some c" using Cons.prems(2) [of k c] by (simp add: kc acc)
  have "P (snd ?acc')"
    using Cons.prems(3) assms [of s k c] c by (simp add: kc acc reap_one_def)
  moreover have "tget (calls (snd ?acc')) k' = Some c'" if "(k', c') \<in> set kcs" for k' c'
  proof -
    have "k' \<noteq> k" using that Cons.prems(1) by (force simp: kc)
    with Cons.prems(2) [of k' c'] that show ?thesis by (simp add: kc acc reap_one_def end_hold_def)
  qed
  ultimately show ?case using Cons.IH [of ?acc'] Cons.prems(1) by simp
qed


subsection \<open>The money invariant\<close>

definition balances :: "ledger \<Rightarrow> int" where
  "balances st = tsum (\<lambda>v. v) (bal st)"

definition holds :: "ledger \<Rightarrow> int" where
  "holds st = tsum hold_of (calls st)"

definition credit_of :: "stored_intent \<Rightarrow> int" where
  "credit_of i = (if i_status i = IConsumed then i_amount i else 0)"

definition deposits :: "ledger \<Rightarrow> int" where
  "deposits st = tsum credit_of (intents st)"

definition charge_of :: "stored_call \<Rightarrow> int" where
  "charge_of c = (if c_status c = Committed then c_charged c else 0)"

definition charges :: "ledger \<Rightarrow> int" where
  "charges st = tsum charge_of (calls st)"

definition call_ok :: "stored_call \<Rightarrow> bool" where
  "call_ok c \<longleftrightarrow> 0 \<le> c_max_price c \<and> 0 \<le> c_charged c \<and> c_charged c \<le> c_max_price c"

definition money_ok :: "ledger \<Rightarrow> bool" where
  "money_ok st \<longleftrightarrow>
     table_ok (bal st) \<and> table_ok (calls st) \<and> table_ok (intents st) \<and>
     outstanding st = balances st + holds st \<and>
     credited st = deposits st \<and> committed st = charges st \<and>
     credited st = committed st + outstanding st \<and>
     (\<forall>k v. tget (bal st) k = Some v \<longrightarrow> 0 \<le> v) \<and>
     (\<forall>k c. tget (calls st) k = Some c \<longrightarrow> call_ok c) \<and>
     (\<forall>k i. tget (intents st) k = Some i \<longrightarrow> 0 < i_amount i)"

lemma tval_num_at: "tval (\<lambda>v. v) t k = num_at t k"
  by (simp add: tval_def num_at_def)

lemma money_bal: "money_ok st \<Longrightarrow> 0 \<le> num_at (bal st) k"
  by (auto simp: money_ok_def num_at_def split: option.splits)

lemma balances_put: "table_ok (bal st) \<Longrightarrow>
    tsum (\<lambda>v. v) (tput k v (bal st)) = balances st - num_at (bal st) k + v"
  by (simp add: balances_def tsum_tput tval_num_at)

lemma tsum_put_new: "table_ok t \<Longrightarrow> tget t k = None \<Longrightarrow> tsum f (tput k v t) = tsum f t + f v"
  by (simp add: tsum_tput tval_def)

lemma tsum_put_old: "table_ok t \<Longrightarrow> tget t k = Some w \<Longrightarrow> tsum f (tput k v t) = tsum f t - f w + f v"
  by (simp add: tsum_tput tval_def)

lemma slot_fields [simp]:
  "intents (releaseOpenSlot a st) = intents st" "bal (releaseOpenSlot a st) = bal st"
  "calls (releaseOpenSlot a st) = calls st" "dep (releaseOpenSlot a st) = dep st"
  "consumed (releaseOpenSlot a st) = consumed st" "credited (releaseOpenSlot a st) = credited st"
  "committed (releaseOpenSlot a st) = committed st" "outstanding (releaseOpenSlot a st) = outstanding st"
  "alarm_at (releaseOpenSlot a st) = alarm_at st" "memos (releaseOpenSlot a st) = memos st"
  by (simp_all add: releaseOpenSlot_def Let_def)

text \<open>The money fields: what the invariant reads.\<close>

lemma money_ok_cong:
  assumes "bal st' = bal st" "calls st' = calls st" "intents st' = intents st" "credited st' = credited st"
    "committed st' = committed st" "outstanding st' = outstanding st"
  shows "money_ok st' = money_ok st"
  using assms by (simp add: money_ok_def balances_def holds_def deposits_def charges_def)

lemma money_put_intent:
  assumes "money_ok st" "bal st' = bal st" "calls st' = calls st" "credited st' = credited st"
    "committed st' = committed st" "outstanding st' = outstanding st"
    "intents st' = tput k i (intents st)" "0 < i_amount i"
    "credit_of i = (case tget (intents st) k of None \<Rightarrow> 0 | Some j \<Rightarrow> credit_of j)"
  shows "money_ok st'"
  using assms unfolding money_ok_def balances_def holds_def deposits_def charges_def
  by (simp add: tsum_tput tval_def)

lemma money_create:
  "money_ok st \<Longrightarrow> 0 < amount \<Longrightarrow> tget (intents st) (cb_intent_id b) = None \<Longrightarrow>
    money_ok (put_intent b amount key u n st)"
  by (rule money_put_intent [of st _ "cb_intent_id b" "new_intent b amount"])
     (simp_all add: put_intent_def new_intent_def credit_of_def)

lemma money_open_credit:
  assumes "money_ok st" "tget (intents st) (ob_intent_id b) = Some i" "i_status i = IOpen \<or> i_status i = IExpired"
  shows "money_ok (open_credit b i depKey st)"
proof -
  have pos: "0 < i_amount i" using assms(1,2) by (simp add: money_ok_def)
  have "tsum credit_of (tput (ob_intent_id b) (consumed_intent b i) (intents st)) = deposits st + i_amount i"
    using assms by (subst tsum_put_old [OF _ assms(2)])
      (auto simp: money_ok_def deposits_def credit_of_def consumed_intent_def)
  moreover have "tsum (\<lambda>v. v) (tput (i_account i) (num_at (bal st) (i_account i) + i_amount i) (bal st))
      = balances st + i_amount i"
    using assms(1) by (simp add: balances_put money_ok_def)
  moreover have "0 \<le> num_at (bal st) (i_account i) + i_amount i"
    using money_bal [OF assms(1)] pos by (simp add: add_nonneg_pos order_less_imp_le)
  ultimately show ?thesis
    using assms(1) pos
    unfolding money_ok_def open_credit_def Let_def balances_def deposits_def holds_def charges_def
    by (simp add: consumed_intent_def)
qed

lemma money_take_hold:
  assumes "money_ok st" "tget (calls st) (rb_call_id b) = None" "0 \<le> m" "m \<le> num_at (bal st) (rb_account b)"
  shows "money_ok (take_hold b m st)"
proof -
  have t: "table_ok (calls st)" "table_ok (bal st)" using assms(1) by (simp_all add: money_ok_def)
  have "call_ok (new_call b m)" "hold_of (new_call b m) = m" "charge_of (new_call b m) = 0"
    using assms(3) by (simp_all add: call_ok_def hold_of_def charge_of_def new_call_def)
  with assms show ?thesis
    unfolding money_ok_def take_hold_def Let_def balances_def holds_def charges_def deposits_def
    by (simp add: tsum_put_new [OF t(1) assms(2)] tsum_tput [OF t(2)] tval_num_at)
qed

text \<open>Ending a hold: \<open>m\<close> of it is charged, the rest goes back.  With \<open>m = 0\<close> this is a release.\<close>

lemma money_end_hold:
  assumes "money_ok st" "tget (calls st) k = Some c" "c_status c = Reserved"
    and "c_account c' = c_account c" "c_max_price c' = c_max_price c" "c_status c' \<noteq> Reserved"
    and "charge_of c' = m" "0 \<le> c_charged c'" "c_charged c' \<le> c_max_price c" "0 \<le> m" "m \<le> c_max_price c"
  shows "money_ok ((end_hold k c' (c_max_price c - m) st)
    \<lparr>committed := committed st + m, outstanding := outstanding st - m\<rparr>)"
proof -
  have t: "table_ok (calls st)" "table_ok (bal st)" using assms(1) by (simp_all add: money_ok_def)
  have "tsum hold_of (tput k c' (calls st)) = holds st - c_max_price c"
    "tsum charge_of (tput k c' (calls st)) = charges st + m"
    using assms(3,6,7)
    by (simp_all add: tsum_put_old [OF t(1) assms(2)] holds_def charges_def) (simp_all add: hold_of_def charge_of_def)
  moreover have "tsum (\<lambda>v. v) (tput (c_account c) (num_at (bal st) (c_account c) + (c_max_price c - m)) (bal st))
      = balances st + (c_max_price c - m)"
    by (simp add: balances_put t)
  moreover have "call_ok c'" using assms by (simp add: call_ok_def)
  moreover have "0 \<le> num_at (bal st) (c_account c) + (c_max_price c - m)"
    using money_bal [OF assms(1), of "c_account c"] assms(11) by simp
  ultimately show ?thesis
    using assms(1,4)
    unfolding money_ok_def end_hold_def balances_def holds_def charges_def deposits_def by simp
qed

lemma money_release:
  assumes "money_ok st" "tget (calls st) k = Some c" "c_status c = Reserved"
    and "c_account c' = c_account c" "c_max_price c' = c_max_price c" "c_status c' = Released" "c_charged c' = 0"
  shows "money_ok (end_hold k c' (c_max_price c) st)"
proof -
  have "call_ok c" using assms(1,2) by (simp add: money_ok_def)
  with assms money_end_hold [where k = k and c = c and c' = c' and m = 0 and st = st]
  have "money_ok ((end_hold k c' (c_max_price c) st)\<lparr>committed := committed st, outstanding := outstanding st\<rparr>)"
    by (simp add: charge_of_def call_ok_def)
  moreover have "(end_hold k c' (c_max_price c) st)\<lparr>committed := committed st, outstanding := outstanding st\<rparr>
      = end_hold k c' (c_max_price c) st"
    by (simp add: end_hold_def)
  ultimately show ?thesis by simp
qed


subsection \<open>The alarm, call by call\<close>

definition stale :: "int \<Rightarrow> stored_call \<Rightarrow> bool" where
  "stale now c \<longleftrightarrow> c_status c = Reserved \<and> RESERVED_LEASE_MS \<le> now - c_at c"

lemma fold_reap_calls:
  "distinct (map fst kcs) \<Longrightarrow> tget (calls (snd (fold (reap_one now) kcs acc))) k =
    (case tget kcs k of
       Some c \<Rightarrow> if stale now c then Some (reaped_call c) else tget (calls (snd acc)) k
     | None \<Rightarrow> tget (calls (snd acc)) k)"
proof (induction kcs arbitrary: acc)
  case (Cons kc kcs)
  obtain k' c where kc: "kc = (k', c)" by (cases kc)
  have "tget kcs k' = None" using Cons.prems by (auto simp: kc tget_None_iff tkeys_def)
  with Cons show ?case
    by (cases acc) (auto simp: kc reap_one_def end_hold_def stale_def split: option.splits)
qed simp

lemma num_at_put [simp]: "num_at (tput k v t) k' = (if k' = k then v else num_at t k')"
  by (simp add: num_at_def)

lemma fold_reap_bal:
  "num_at (bal (snd (fold (reap_one now) kcs acc))) a = num_at (bal (snd acc)) a
    + tsum (\<lambda>c. if stale now c \<and> c_account c = a then c_max_price c else 0) kcs"
proof (induction kcs arbitrary: acc)
  case (Cons kc kcs)
  obtain k c where kc: "kc = (k, c)" by (cases kc)
  have "num_at (bal (snd (reap_one now kc acc))) a = num_at (bal (snd acc)) a
      + (if stale now c \<and> c_account c = a then c_max_price c else 0)"
    by (cases acc) (simp add: kc reap_one_def end_hold_def stale_def reaped_call_def)
  with Cons show ?case by (simp add: kc)
qed simp

definition young :: "int \<Rightarrow> stored_call \<Rightarrow> bool" where
  "young now c \<longleftrightarrow> c_status c = Reserved \<and> now - c_at c < RESERVED_LEASE_MS"

lemma fold_reap_count:
  "fst (fold (reap_one now) kcs acc) = fst acc + length (filter (\<lambda>kc. young now (snd kc)) kcs)"
  by (induction kcs arbitrary: acc) (auto simp: reap_one_def young_def split: prod.splits)

lemma fold_reap_frame:
  "intents (snd (fold (reap_one now) kcs acc)) = intents (snd acc)"
  "consumed (snd (fold (reap_one now) kcs acc)) = consumed (snd acc)"
  "dep (snd (fold (reap_one now) kcs acc)) = dep (snd acc)"
  "credited (snd (fold (reap_one now) kcs acc)) = credited (snd acc)"
  "committed (snd (fold (reap_one now) kcs acc)) = committed (snd acc)"
  "outstanding (snd (fold (reap_one now) kcs acc)) = outstanding (snd acc)"
  by (induction kcs arbitrary: acc) (auto simp: reap_one_def end_hold_def split: prod.splits)

lemma alarm_fields:
  "intents (alarm now st) = intents st" "consumed (alarm now st) = consumed st" "dep (alarm now st) = dep st"
  "credited (alarm now st) = credited st" "committed (alarm now st) = committed st"
  "outstanding (alarm now st) = outstanding st"
  by (simp_all add: alarm_def split_beta fold_reap_frame)

lemma table_distinct: "table_ok t \<Longrightarrow> distinct (map fst t)"
  unfolding table_ok_def tkeys_def by (metis strict_sorted_iff)

lemma alarm_calls:
  "table_ok (calls st) \<Longrightarrow> tget (calls (alarm now st)) k =
    map_option (\<lambda>c. if stale now c then reaped_call c else c) (tget (calls st) k)"
  by (simp add: alarm_def split_beta fold_reap_calls table_distinct split: option.splits)

lemma alarm_bal:
  "num_at (bal (alarm now st)) a = num_at (bal st) a
    + tsum (\<lambda>c. if stale now c \<and> c_account c = a then c_max_price c else 0) (calls st)"
  by (simp add: alarm_def split_beta fold_reap_bal)

lemma alarm_rearm:
  "alarm_at (alarm now st) =
    (if \<exists>(k, c)\<in>set (calls st). young now c then Some (now + REAPER_INTERVAL_MS) else None)"
  by (force simp: alarm_def split_beta fold_reap_count filter_empty_conv)

lemma money_alarm: "money_ok st \<Longrightarrow> money_ok (alarm now st)"
proof -
  assume m: "money_ok st"
  then have t: "table_ok (calls st)" by (simp add: money_ok_def)
  have "money_ok (snd (fold (reap_one now) (calls st) (0, st\<lparr>alarm_at := None\<rparr>)))"
  proof (rule fold_reap_pres)
    show "money_ok (end_hold k (reaped_call c) (c_max_price c) s)"
      if "money_ok s" "tget (calls s) k = Some c" "c_status c = Reserved" for k c s
      by (rule money_release [OF that]) (simp_all add: reaped_call_def)
    show "money_ok (snd (0, st\<lparr>alarm_at := None\<rparr>))"
      using m money_ok_cong [of "st\<lparr>alarm_at := None\<rparr>" st] by simp
  qed (use t in_set_tget table_distinct in auto)
  then show ?thesis
    unfolding alarm_def split_beta by (subst money_ok_cong [where st = "snd (fold (reap_one now) (calls st) (0, st\<lparr>alarm_at := None\<rparr>))"]) simp_all
qed

subsection \<open>The payment invariant\<close>

text \<open>A payment operation is bound to at most one intent, and the bindings are exactly the credits.\<close>

definition paid_by :: "stored_intent \<Rightarrow> string \<Rightarrow> bool" where
  "paid_by i k \<longleftrightarrow> i_status i = IConsumed \<and>
     (\<exists>tx op. i_tx_hash i = Some tx \<and> i_op_index i = Some op \<and> k = consumed_key tx op)"

definition amount_of :: "ledger \<Rightarrow> string \<Rightarrow> int" where
  "amount_of st k = (case tget (intents st) k of None \<Rightarrow> 0 | Some i \<Rightarrow> i_amount i)"

definition claimed :: "ledger \<Rightarrow> int" where
  "claimed st = tsum (amount_of st) (consumed st)"

definition payments_ok :: "ledger \<Rightarrow> bool" where
  "payments_ok st \<longleftrightarrow>
     table_ok (consumed st) \<and> claimed st = credited st \<and>
     (\<forall>k i. tget (intents st) k = Some i \<longrightarrow> k \<noteq> [] \<and> intent_id i = k) \<and>
     (\<forall>k i. tget (intents st) k = Some i \<longrightarrow> i_status i = IConsumed \<longrightarrow>
        (\<exists>p. paid_by i p \<and> tget (consumed st) p = Some k)) \<and>
     (\<forall>p k. tget (consumed st) p = Some k \<longrightarrow> (\<exists>i. tget (intents st) k = Some i \<and> paid_by i p))"

lemma payments_ok_cong:
  assumes "intents st' = intents st" "consumed st' = consumed st" "credited st' = credited st"
  shows "payments_ok st' = payments_ok st"
proof -
  have "amount_of st' = amount_of st" by (rule ext) (simp add: amount_of_def assms)
  then show ?thesis by (simp add: payments_ok_def claimed_def assms)
qed

lemma tsum_cong: "(\<And>k v. (k, v) \<in> set t \<Longrightarrow> f v = g v) \<Longrightarrow> tsum f t = tsum g t"
  by (induction t) (force simp: tsum_def)+

text \<open>Writing one intent that no binding points to, or keeping its binding and amount.\<close>

lemma payments_put_intent:
  assumes p: "payments_ok st" and new: "intents st' = tput k i (intents st)"
    and frame: "consumed st' = consumed st" "credited st' = credited st"
    and i: "k \<noteq> []" "intent_id i = k"
    and old: "case tget (intents st) k of
        None \<Rightarrow> i_status i \<noteq> IConsumed
      | Some j \<Rightarrow> i_amount i = i_amount j \<and> (i_status i = IConsumed \<longleftrightarrow> i_status j = IConsumed) \<and>
          (i_status j = IConsumed \<longrightarrow> (\<forall>p. paid_by i p = paid_by j p))"
  shows "payments_ok st'"
proof -
  have bound: "\<exists>j. tget (intents st) k' = Some j \<and> paid_by j q" if "tget (consumed st) q = Some k'" for q k'
    using p that by (auto simp: payments_ok_def)
  have "claimed st' = claimed st"
    unfolding claimed_def frame
  proof (rule tsum_cong)
    fix q k' assume "(q, k') \<in> set (consumed st)"
    then have "tget (consumed st) q = Some k'"
      using p in_set_tget by (auto simp: payments_ok_def)
    from bound [OF this] show "amount_of st' k' = amount_of st k'"
      using old by (auto simp: amount_of_def new split: option.splits)
  qed
  moreover have "\<exists>j. tget (intents st') k' = Some j \<and> paid_by j q" if "tget (consumed st) q = Some k'" for q k'
    using bound [OF that] old by (auto simp: new paid_by_def split: option.splits)
  moreover have "\<exists>q. paid_by j q \<and> tget (consumed st) q = Some k'"
    if "tget (intents st') k' = Some j" "i_status j = IConsumed" for k' j
  proof (cases "k' = k")
    case True
    with that have j: "j = i" by (simp add: new)
    with old that obtain j' where j': "tget (intents st) k = Some j'" "i_status j' = IConsumed"
      "\<forall>q. paid_by i q = paid_by j' q" by (auto split: option.splits)
    with p have "\<exists>q. paid_by j' q \<and> tget (consumed st) q = Some k" by (simp add: payments_ok_def)
    with j' j True show ?thesis by auto
  next
    case False
    with that p show ?thesis by (auto simp: new payments_ok_def)
  qed
  ultimately show ?thesis
    using p i by (auto simp: payments_ok_def frame new)
qed


lemma payments_create:
  "payments_ok st \<Longrightarrow> tget (intents st) (cb_intent_id b) = None \<Longrightarrow> cb_intent_id b \<noteq> [] \<Longrightarrow>
    payments_ok (put_intent b amount key u n st)"
  by (rule payments_put_intent [of st _ "cb_intent_id b" "new_intent b amount"])
     (simp_all add: put_intent_def new_intent_def)

lemma payments_intent_id: "payments_ok st \<Longrightarrow> tget (intents st) k = Some i \<Longrightarrow> k \<noteq> [] \<and> intent_id i = k"
  by (simp add: payments_ok_def)

lemma payments_open_credit:
  assumes p: "payments_ok st" and i: "tget (intents st) (ob_intent_id b) = Some i"
    and live: "i_status i = IOpen \<or> i_status i = IExpired"
    and free: "tget (consumed st) (consumed_key (ob_tx_hash b) (ob_op_index b)) \<in> {None, Some []}"
  shows "payments_ok (open_credit b i depKey st)"
proof -
  let ?q = "consumed_key (ob_tx_hash b) (ob_op_index b)" and ?k = "ob_intent_id b"
  let ?st = "open_credit b i depKey st"
  have bound: "\<exists>j. tget (intents st) k = Some j \<and> paid_by j q" if "tget (consumed st) q = Some k" for q k
    using p that by (simp add: payments_ok_def)
  have rev: "\<exists>q. paid_by j q \<and> tget (consumed st) q = Some k"
    if "tget (intents st) k = Some j" "i_status j = IConsumed" for k j
    using p that unfolding payments_ok_def by blast
  have id: "?k \<noteq> [] \<and> intent_id i = ?k" by (rule payments_intent_id [OF p i])
  have none: "tget (consumed st) ?q = None"
    using free bound [of ?q "[]"] payments_intent_id [OF p, of "[]"] by auto
  have t: "table_ok (consumed st)" using p by (simp add: payments_ok_def)
  have ints: "intents ?st = tput ?k (consumed_intent b i) (intents st)"
    and cons: "consumed ?st = tput ?q ?k (consumed st)"
    and cred: "credited ?st = credited st + i_amount i"
    by (simp_all add: open_credit_def Let_def)
  have amt: "amount_of ?st = amount_of st"
    using i by (auto simp: amount_of_def ints consumed_intent_def split: option.splits)
  have paid: "paid_by (consumed_intent b i) q \<longleftrightarrow> q = ?q" for q
    by (simp add: paid_by_def consumed_intent_def)
  have "claimed ?st = claimed st + i_amount i"
    unfolding claimed_def amt cons by (simp add: tsum_put_new [OF t none]) (simp add: amount_of_def i)
  moreover have "claimed st = credited st" using p by (simp add: payments_ok_def)
  ultimately have cl: "claimed ?st = credited st + i_amount i" by simp
  have c1: "\<exists>j. tget (intents ?st) k = Some j \<and> paid_by j q" if "tget (consumed ?st) q = Some k" for q k
  proof (cases "q = ?q")
    case True
    with that show ?thesis by (simp add: ints cons paid)
  next
    case False
    with that bound [of q k] obtain j where j: "tget (intents st) k = Some j" "paid_by j q" by (auto simp: cons)
    with i live have "k \<noteq> ?k" by (auto simp: paid_by_def)
    with j show ?thesis by (simp add: ints)
  qed
  have c2: "\<exists>q. paid_by j q \<and> tget (consumed ?st) q = Some k"
    if "tget (intents ?st) k = Some j" "i_status j = IConsumed" for k j
  proof (cases "k = ?k")
    case True
    with that have "j = consumed_intent b i" by (simp add: ints)
    then have "paid_by j ?q" by (simp add: paid)
    moreover have "tget (consumed ?st) ?q = Some k" by (simp add: cons True)
    ultimately show ?thesis by blast
  next
    case False
    with that(1) have "tget (intents st) k = Some j" by (simp add: ints)
    from rev [OF this that(2)] obtain q where q: "paid_by j q" "tget (consumed st) q = Some k" by blast
    then have "q \<noteq> ?q" using none by (metis option.distinct(1))
    with q have "tget (consumed ?st) q = Some k" by (simp add: cons)
    with q(1) show ?thesis by blast
  qed
  have c3: "table_ok (consumed ?st)" by (simp add: cons t)
  have c4: "k \<noteq> [] \<and> intent_id j = k" if "tget (intents ?st) k = Some j" for k j
    using that payments_intent_id [OF p, of k j] id by (cases "k = ?k") (auto simp: ints consumed_intent_def)
  show ?thesis
    unfolding payments_ok_def cred using c1 c2 c3 c4 cl by blast
qed

lemma payments_open:
  assumes p: "payments_ok st"
  shows "payments_ok (snd (openIntent b st))"
proof (rule openIntent_effect [where P = payments_ok])
  show "payments_ok st" by (rule p)
next
  fix i assume i: "tget (intents st) (ob_intent_id b) = Some i" "i_status i = IConsumed"
  show "payments_ok (st\<lparr>intents := tput (ob_intent_id b) (i\<lparr>i_session_jti := Some (ob_session_jti b),
      i_session_exp := Some (ob_session_exp b)\<rparr>) (intents st)\<rparr>)"
    using payments_intent_id [OF p i(1)] i
    by (intro payments_put_intent [OF p, where k = "ob_intent_id b" and
          i = "i\<lparr>i_session_jti := Some (ob_session_jti b), i_session_exp := Some (ob_session_exp b)\<rparr>"])
       (auto simp: paid_by_def)
next
  fix i assume i: "tget (intents st) (ob_intent_id b) = Some i" "i_status i = IOpen \<or> i_status i = IExpired"
  show "payments_ok (releaseOpenSlot (i_account i)
      (st\<lparr>intents := tput (ob_intent_id b) (i\<lparr>i_status := IExpired\<rparr>) (intents st)\<rparr>))"
    using payments_intent_id [OF p i(1)] i
    by (intro payments_put_intent [OF p, where k = "ob_intent_id b" and i = "i\<lparr>i_status := IExpired\<rparr>"]) auto
next
  fix i overDay
  assume i: "tget (intents st) (ob_intent_id b) = Some i" "i_status i = IOpen \<or> i_status i = IExpired"
  show "payments_ok (open_over_cap b i overDay st)"
    using payments_intent_id [OF p i(1)] i
    by (intro payments_put_intent [OF p, where k = "ob_intent_id b" and i = "i\<lparr>i_status := IOverCap,
          i_tx_hash := Some (ob_tx_hash b), i_op_index := Some (ob_op_index b)\<rparr>"])
       (auto simp: open_over_cap_def Let_def)
qed (rule payments_open_credit [OF p])

lemma money_open:
  assumes m: "money_ok st"
  shows "money_ok (snd (openIntent b st))"
proof (rule openIntent_effect [where P = money_ok])
  show "money_ok st" by (rule m)
next
  fix i assume i: "tget (intents st) (ob_intent_id b) = Some i" "i_status i = IConsumed"
  show "money_ok (st\<lparr>intents := tput (ob_intent_id b) (i\<lparr>i_session_jti := Some (ob_session_jti b),
      i_session_exp := Some (ob_session_exp b)\<rparr>) (intents st)\<rparr>)"
    using m i
    by (intro money_put_intent [OF m, where k = "ob_intent_id b" and
          i = "i\<lparr>i_session_jti := Some (ob_session_jti b), i_session_exp := Some (ob_session_exp b)\<rparr>"])
       (auto simp: credit_of_def money_ok_def)
next
  fix i assume i: "tget (intents st) (ob_intent_id b) = Some i" "i_status i = IOpen \<or> i_status i = IExpired"
  show "money_ok (releaseOpenSlot (i_account i)
      (st\<lparr>intents := tput (ob_intent_id b) (i\<lparr>i_status := IExpired\<rparr>) (intents st)\<rparr>))"
    using m i
    by (intro money_put_intent [OF m, where k = "ob_intent_id b" and i = "i\<lparr>i_status := IExpired\<rparr>"])
       (auto simp: credit_of_def money_ok_def)
next
  fix i overDay
  assume i: "tget (intents st) (ob_intent_id b) = Some i" "i_status i = IOpen \<or> i_status i = IExpired"
  show "money_ok (open_over_cap b i overDay st)"
    using m i
    by (intro money_put_intent [OF m, where k = "ob_intent_id b" and i = "i\<lparr>i_status := IOverCap,
          i_tx_hash := Some (ob_tx_hash b), i_op_index := Some (ob_op_index b)\<rparr>"])
       (auto simp: credit_of_def money_ok_def open_over_cap_def Let_def)
qed (rule money_open_credit [OF m])

subsection \<open>Reachable states\<close>

text \<open>
  One request of anybody, or the alarm.  The route draws intent ids with \<open>crypto.randomUUID\<close>, so a creation uses an
  id that is not taken and not empty; nothing is assumed of the other requests but \<open>Q\<close> on the bodies of \<open>/open\<close>.
\<close>

inductive lstep :: "(open_body \<Rightarrow> bool) \<Rightarrow> ledger \<Rightarrow> ledger \<Rightarrow> bool" for Q where
  create: "tget (intents st) (cb_intent_id b) = None \<Longrightarrow> cb_intent_id b \<noteq> [] \<Longrightarrow>
    lstep Q st (snd (createIntent b st))"
| claiming: "Q b \<Longrightarrow> lstep Q st (snd (openIntent b st))"
| reserving: "lstep Q st (snd (reserve b st))"
| dispatch: "lstep Q st (snd (markDispatched k st))"
| settling: "lstep Q st (snd (settle k action charge reason st))"
| reaper: "lstep Q st (alarm now st)"

definition lsteps :: "(open_body \<Rightarrow> bool) \<Rightarrow> ledger \<Rightarrow> ledger \<Rightarrow> bool" where
  "lsteps Q = (lstep Q)\<^sup>*\<^sup>*"

definition any_open :: "open_body \<Rightarrow> bool" where "any_open b = True"

lemma money_mark:
  assumes "money_ok st" "tget (calls st) k = Some c"
  shows "money_ok (st\<lparr>calls := tput k (c\<lparr>c_dispatched := d\<rparr>) (calls st)\<rparr>)"
proof -
  have "tsum hold_of (tput k (c\<lparr>c_dispatched := d\<rparr>) (calls st)) = holds st"
    "tsum charge_of (tput k (c\<lparr>c_dispatched := d\<rparr>) (calls st)) = charges st"
    using assms by (simp_all add: tsum_put_old money_ok_def holds_def charges_def)
      (simp_all add: hold_of_def charge_of_def)
  with assms show ?thesis
    by (simp add: money_ok_def holds_def charges_def balances_def deposits_def call_ok_def)
qed

lemma money_step: "lstep Q st st' \<Longrightarrow> money_ok st \<Longrightarrow> money_ok st'"
proof (induction rule: lstep.induct)
  case (create st b)
  then show ?case by (intro createIntent_effect [where P = money_ok]) (auto intro: money_create)
next
  case (reserving st b)
  then show ?case by (intro reserve_effect [where P = money_ok]) (auto intro: money_take_hold)
next
  case (dispatch st k)
  then show ?case by (intro markDispatched_effect [where P = money_ok]) (auto intro: money_mark)
next
  case (settling st k action charge reason)
  show ?case
  proof (rule settle_effect [where P = money_ok])
    fix c assume c: "tget (calls st) k = Some c" "c_status c = Reserved"
    then show "money_ok (end_hold k (c\<lparr>c_status := Released, c_charged := 0, c_release_reason := reason\<rparr>)
        (c_max_price c) st)"
      by (intro money_release [OF settling]) simp_all
    fix n assume n: "0 \<le> n \<or> n = c_max_price c" "n \<le> c_max_price c"
    have "call_ok c" using settling c by (simp add: money_ok_def)
    with n have "0 \<le> n" by (auto simp: call_ok_def)
    with c n show "money_ok ((end_hold k (c\<lparr>c_status := Committed, c_charged := n\<rparr>) (c_max_price c - n) st)
        \<lparr>committed := committed st + n, outstanding := outstanding st - n\<rparr>)"
      by (intro money_end_hold [OF settling]) (simp_all add: charge_of_def)
  qed (rule settling)
qed (auto intro: money_open money_alarm)

lemma payments_frame:
  "payments_ok (take_hold b m st) = payments_ok st"
  "payments_ok (st\<lparr>calls := cs\<rparr>) = payments_ok st"
  "payments_ok (end_hold k c m st) = payments_ok st"
  "payments_ok (s\<lparr>committed := x, outstanding := y\<rparr>) = payments_ok s"
  "payments_ok (alarm now st) = payments_ok st"
  by (rule payments_ok_cong; simp add: take_hold_def Let_def end_hold_def alarm_fields)+

lemma payments_step: "lstep Q st st' \<Longrightarrow> payments_ok st \<Longrightarrow> payments_ok st'"
proof (induction rule: lstep.induct)
  case (create st b)
  then show ?case by (intro createIntent_effect [where P = payments_ok]) (auto intro: payments_create)
next
  case (reserving st b)
  then show ?case by (intro reserve_effect [where P = payments_ok]) (auto simp: payments_frame)
next
  case (dispatch st k)
  then show ?case by (intro markDispatched_effect [where P = payments_ok]) (auto simp: payments_frame)
next
  case (settling st k action charge reason)
  then show ?case by (intro settle_effect [where P = payments_ok]) (auto simp: payments_frame)
qed (auto intro: payments_open simp: payments_frame)

lemma lsteps_inv:
  assumes "\<And>s s'. lstep Q s s' \<Longrightarrow> I s \<Longrightarrow> I s'" "lsteps Q st st'" "I st"
  shows "I st'"
  using assms(2) unfolding lsteps_def
  by (induction rule: rtranclp_induct) (auto intro: assms(1,3))

lemma money_empty: "money_ok empty_ledger"
  by (simp add: money_ok_def empty_ledger_def balances_def holds_def deposits_def charges_def)

lemma payments_empty: "payments_ok empty_ledger"
  by (simp add: payments_ok_def empty_ledger_def claimed_def)

lemma money_reach: "lsteps Q empty_ledger st \<Longrightarrow> money_ok st"
  by (rule lsteps_inv [where I = money_ok, OF money_step _ money_empty])

lemma payments_reach: "lsteps Q empty_ledger st \<Longrightarrow> payments_ok st"
  by (rule lsteps_inv [where I = payments_ok, OF payments_step _ payments_empty])


subsection \<open>Caps\<close>

definition caps_are :: "int \<Rightarrow> int \<Rightarrow> open_body \<Rightarrow> bool" where
  "caps_are D G b \<longleftrightarrow> parseAtomic (Some (ob_day_cap b)) = Inr D \<and> parseAtomic (Some (ob_global_cap b)) = Inr G"

definition caps_ok :: "int \<Rightarrow> int \<Rightarrow> ledger \<Rightarrow> bool" where
  "caps_ok D G st \<longleftrightarrow> outstanding st \<le> max 0 G \<and> (\<forall>k. num_at (dep st) k \<le> max 0 D)"

lemma caps_frame:
  assumes "outstanding st' \<le> outstanding st" "dep st' = dep st" "caps_ok D G st"
  shows "caps_ok D G st'"
  using assms by (auto simp: caps_ok_def)

lemma caps_step:
  assumes "lstep (caps_are D G) st st'" "money_ok st" "caps_ok D G st"
  shows "caps_ok D G st'"
  using assms
proof (induction rule: lstep.induct)
  case (create st b)
  then show ?case
    by (intro createIntent_effect [where P = "caps_ok D G"]) (auto intro: caps_frame [of _ st] simp: put_intent_def)
next
  case (claiming b st)
  show ?case
  proof (rule openIntent_effect [where P = "caps_ok D G"])
    fix i :: stored_intent and dayCap globalCap
    assume c: "parseAtomic (Some (ob_day_cap b)) = Inr dayCap" "parseAtomic (Some (ob_global_cap b)) = Inr globalCap"
      "num_at (dep st) (i_account i @ '':'' @ utcDayKey (ob_confirmed_at b)) + i_amount i \<le> dayCap"
      "outstanding st + i_amount i \<le> globalCap"
    then show "caps_ok D G (open_credit b i (i_account i @ '':'' @ utcDayKey (ob_confirmed_at b)) st)"
      using claiming by (auto simp: caps_ok_def caps_are_def open_credit_def Let_def)
  qed (use claiming in \<open>auto intro: caps_frame [of _ st] simp: open_over_cap_def Let_def\<close>)
next
  case (reserving st b)
  then show ?case
    by (intro reserve_effect [where P = "caps_ok D G"]) (auto intro: caps_frame [of _ st] simp: take_hold_def Let_def)
next
  case (dispatch st k)
  then show ?case by (intro markDispatched_effect [where P = "caps_ok D G"]) (auto intro: caps_frame [of _ st])
next
  case (settling st k action charge reason)
  show ?case
  proof (rule settle_effect [where P = "caps_ok D G"])
    fix c :: stored_call and n assume c: "tget (calls st) k = Some c" "0 \<le> n \<or> n = c_max_price c"
    have "0 \<le> n" using settling c by (auto simp: money_ok_def call_ok_def)
    then show "caps_ok D G ((end_hold k (c\<lparr>c_status := Committed, c_charged := n\<rparr>) (c_max_price c - n) st)
        \<lparr>committed := committed st + n, outstanding := outstanding st - n\<rparr>)"
      by (intro caps_frame [OF _ _ settling(2)]) (simp_all add: end_hold_def)
  qed (use settling in \<open>auto intro: caps_frame [of _ st] simp: end_hold_def\<close>)
next
  case (reaper st now)
  then show ?case by (auto intro: caps_frame [of _ st] simp: alarm_fields)
qed

lemma lsteps_inv2:
  assumes "\<And>s s'. lstep Q s s' \<Longrightarrow> J s \<Longrightarrow> J s'" "\<And>s s'. lstep Q s s' \<Longrightarrow> J s \<Longrightarrow> I s \<Longrightarrow> I s'"
    and "lsteps Q st st'" "J st" "I st"
  shows "I st'"
  using assms(3) unfolding lsteps_def
  by (induction rule: rtranclp_induct)
    (use assms(1,2,4,5) lsteps_inv [of Q J st] in \<open>auto simp: lsteps_def\<close>)

lemma caps_reach: "lsteps (caps_are D G) empty_ledger st \<Longrightarrow> caps_ok D G st"
  by (rule lsteps_inv2 [where J = money_ok and I = "caps_ok D G", OF money_step caps_step _ money_empty])
     (simp_all add: caps_ok_def empty_ledger_def num_at_def)

subsection \<open>Armed alarms\<close>

definition armed :: "ledger \<Rightarrow> bool" where
  "armed st \<longleftrightarrow> (\<forall>k c. tget (calls st) k = Some c \<longrightarrow> c_status c = Reserved \<longrightarrow> alarm_at st \<noteq> None)"

lemma armed_frame:
  assumes "armed st" "alarm_at st' = alarm_at st"
    and "\<And>k c. tget (calls st') k = Some c \<Longrightarrow> c_status c = Reserved \<Longrightarrow>
      \<exists>c'. tget (calls st) k = Some c' \<and> c_status c' = Reserved"
  shows "armed st'"
  using assms unfolding armed_def by metis

lemma armed_alarm: "table_ok (calls st) \<Longrightarrow> armed (alarm now st)"
proof -
  assume t: "table_ok (calls st)"
  show ?thesis
    unfolding armed_def
  proof (intro allI impI)
    fix k c assume c: "tget (calls (alarm now st)) k = Some c" "c_status c = Reserved"
    then obtain c' where "tget (calls st) k = Some c'" "c = (if stale now c' then reaped_call c' else c')"
      by (auto simp: alarm_calls [OF t])
    with c(2) have "tget (calls st) k = Some c" "young now c"
      by (auto simp: reaped_call_def stale_def young_def split: if_splits)
    then show "alarm_at (alarm now st) \<noteq> None" by (auto simp: alarm_rearm dest: tget_in_set)
  qed
qed

lemma armed_step:
  assumes "lstep Q st st'" "money_ok st" "armed st"
  shows "armed st'"
  using assms
proof (induction rule: lstep.induct)
  case (create st b)
  then show ?case by (intro createIntent_effect [where P = armed]) (auto intro: armed_frame [of st] simp: put_intent_def)
next
  case (claiming b st)
  then show ?case
    by (intro openIntent_effect [where P = armed])
       (auto intro: armed_frame [of st] simp: open_over_cap_def open_credit_def Let_def)
next
  case (reserving st b)
  then show ?case
    by (intro reserve_effect [where P = armed]) (auto simp: armed_def take_hold_def Let_def split: option.splits)
next
  case (dispatch st k)
  then show ?case
    by (intro markDispatched_effect [where P = armed]) (auto intro!: armed_frame [of st] split: if_splits)
next
  case (settling st k action charge reason)
  then show ?case
    by (intro settle_effect [where P = armed]) (auto intro!: armed_frame [of st] simp: end_hold_def split: if_splits)
next
  case (reaper st now)
  then show ?case by (simp add: armed_alarm money_ok_def)
qed

lemma armed_reach: "lsteps Q empty_ledger st \<Longrightarrow> armed st"
  by (rule lsteps_inv2 [where J = money_ok and I = armed, OF money_step armed_step _ money_empty])
     (simp_all add: armed_def empty_ledger_def)

subsection \<open>What no later request can change\<close>

definition call_kept :: "stored_call \<Rightarrow> stored_call \<Rightarrow> bool" where
  "call_kept c c' \<longleftrightarrow> c_account c' = c_account c \<and> c_max_price c' = c_max_price c \<and> c_at c' = c_at c \<and>
     (c_status c \<noteq> Reserved \<longrightarrow> c' = c)"

definition intent_kept :: "stored_intent \<Rightarrow> stored_intent \<Rightarrow> bool" where
  "intent_kept i i' \<longleftrightarrow> i_account i' = i_account i \<and> i_amount i' = i_amount i \<and> i_memo i' = i_memo i \<and>
     i_destination i' = i_destination i \<and> i_expires_at i' = i_expires_at i \<and> i_created_at i' = i_created_at i \<and>
     (i_status i = IOverCap \<longrightarrow> i' = i) \<and>
     (i_status i = IConsumed \<longrightarrow> i_status i' = IConsumed \<and> i_tx_hash i' = i_tx_hash i \<and> i_op_index i' = i_op_index i)"

definition table_kept :: "('a \<Rightarrow> 'a \<Rightarrow> bool) \<Rightarrow> 'a table \<Rightarrow> 'a table \<Rightarrow> bool" where
  "table_kept r t t' \<longleftrightarrow> (\<forall>k x. tget t k = Some x \<longrightarrow> (\<exists>x'. tget t' k = Some x' \<and> r x x'))"

definition kept :: "ledger \<Rightarrow> ledger \<Rightarrow> bool" where
  "kept st st' \<longleftrightarrow> table_kept call_kept (calls st) (calls st') \<and>
     table_kept intent_kept (intents st) (intents st') \<and> table_kept (=) (consumed st) (consumed st')"

lemma call_kept_refl [simp]: "call_kept c c"
  and intent_kept_refl [simp]: "intent_kept i i"
  by (simp_all add: call_kept_def intent_kept_def)

lemma table_kept_refl [simp]: "(\<And>x. r x x) \<Longrightarrow> table_kept r t t"
  by (simp add: table_kept_def)

lemma table_kept_put:
  "(\<And>x. r x x) \<Longrightarrow> (case tget t k of None \<Rightarrow> True | Some y \<Rightarrow> r y x) \<Longrightarrow> table_kept r t (tput k x t)"
  by (auto simp: table_kept_def split: option.splits)

lemma table_kept_trans:
  "(\<And>x y z. r x y \<Longrightarrow> r y z \<Longrightarrow> r x z) \<Longrightarrow> table_kept r a b \<Longrightarrow> table_kept r b c \<Longrightarrow> table_kept r a c"
  unfolding table_kept_def by metis

lemma kept_refl: "kept st st" by (simp add: kept_def)

lemma kept_trans: "kept a b \<Longrightarrow> kept b c \<Longrightarrow> kept a c"
  unfolding kept_def
  by (intro conjI; (elim conjE; rule table_kept_trans; assumption?))
     (auto simp: call_kept_def intent_kept_def)


lemma kept_calls:
  "table_kept call_kept (calls st) (calls st') \<Longrightarrow> intents st' = intents st \<Longrightarrow> consumed st' = consumed st \<Longrightarrow>
    kept st st'"
  by (simp add: kept_def)

lemma kept_intents:
  "table_kept intent_kept (intents st) (intents st') \<Longrightarrow> calls st' = calls st \<Longrightarrow> consumed st' = consumed st \<Longrightarrow>
    kept st st'"
  by (simp add: kept_def)

lemma kept_end_hold:
  assumes "tget (calls st) k = Some c" "call_kept c c'"
  shows "kept st (end_hold k c' m st)"
  using assms by (intro kept_calls table_kept_put) (simp_all add: end_hold_def table_kept_put)

lemma kept_open:
  assumes p: "payments_ok st"
  shows "kept st (snd (openIntent b st))"
proof (rule openIntent_effect [where P = "kept st"])
  show "kept st st" by (rule kept_refl)
next
  fix i assume i: "tget (intents st) (ob_intent_id b) = Some i" "i_status i = IConsumed"
  then show "kept st (st\<lparr>intents := tput (ob_intent_id b) (i\<lparr>i_session_jti := Some (ob_session_jti b),
      i_session_exp := Some (ob_session_exp b)\<rparr>) (intents st)\<rparr>)"
    by (intro kept_intents) (simp_all add: table_kept_put intent_kept_def)
next
  fix i assume i: "tget (intents st) (ob_intent_id b) = Some i" "i_status i = IOpen \<or> i_status i = IExpired"
  then show "kept st (releaseOpenSlot (i_account i)
      (st\<lparr>intents := tput (ob_intent_id b) (i\<lparr>i_status := IExpired\<rparr>) (intents st)\<rparr>))"
    by (intro kept_intents) (auto simp: table_kept_put intent_kept_def)
next
  fix i overDay
  assume i: "tget (intents st) (ob_intent_id b) = Some i" "i_status i = IOpen \<or> i_status i = IExpired"
  then show "kept st (open_over_cap b i overDay st)"
    by (intro kept_intents) (auto simp: open_over_cap_def Let_def table_kept_put intent_kept_def)
next
  fix i dayCap globalCap
  assume i: "tget (intents st) (ob_intent_id b) = Some i" "i_status i = IOpen \<or> i_status i = IExpired"
    and free: "tget (consumed st) (consumed_key (ob_tx_hash b) (ob_op_index b)) \<in> {None, Some []}"
  have "tget (consumed st) q \<noteq> Some []" for q
    using p payments_intent_id [OF p, of "[]"] unfolding payments_ok_def by blast
  with free have "tget (consumed st) (consumed_key (ob_tx_hash b) (ob_op_index b)) = None" by auto
  with i show "kept st (open_credit b i (i_account i @ '':'' @ utcDayKey (ob_confirmed_at b)) st)"
    by (auto simp: kept_def open_credit_def Let_def table_kept_put intent_kept_def consumed_intent_def)
qed

lemma kept_step:
  assumes "lstep Q st st'" "payments_ok st" "money_ok st"
  shows "kept st st'"
  using assms
proof (induction rule: lstep.induct)
  case (create st b)
  then show ?case
    by (intro createIntent_effect [where P = "kept st"] kept_refl kept_intents) (simp_all add: put_intent_def table_kept_put)
next
  case (reserving st b)
  then show ?case
    by (intro reserve_effect [where P = "kept st"] kept_refl kept_calls) (simp_all add: take_hold_def Let_def table_kept_put)
next
  case (dispatch st k)
  then show ?case
    by (intro markDispatched_effect [where P = "kept st"] kept_refl kept_calls)
       (simp_all add: table_kept_put call_kept_def)
next
  case (settling st k action charge reason)
  show ?case
  proof (rule settle_effect [where P = "kept st"])
    fix c :: stored_call and n assume c: "tget (calls st) k = Some c" "c_status c = Reserved"
    let ?s = "end_hold k (c\<lparr>c_status := Committed, c_charged := n\<rparr>) (c_max_price c - n) st"
    have "kept st ?s" by (rule kept_end_hold [OF c(1)]) (simp add: call_kept_def c(2))
    then show "kept st (?s\<lparr>committed := committed st + n, outstanding := outstanding st - n\<rparr>)"
      by (simp add: kept_def)
  qed (auto intro: kept_refl kept_end_hold simp: call_kept_def)
next
  case (reaper st now)
  then have "table_ok (calls st)" by (simp add: money_ok_def)
  then show ?case
    by (intro kept_calls) (auto simp: alarm_fields table_kept_def alarm_calls call_kept_def reaped_call_def stale_def)
qed (rule kept_open)

lemma kept_steps:
  assumes "lsteps Q st st'" "payments_ok st" "money_ok st"
  shows "kept st st'"
proof (rule lsteps_inv2 [where J = "\<lambda>s. payments_ok s \<and> money_ok s" and I = "kept st" and Q = Q])
  show "kept st s'" if "lstep Q s s'" "payments_ok s \<and> money_ok s" "kept st s" for s s'
    using that kept_trans kept_step by blast
qed (use assms kept_refl money_step payments_step in auto)

end
