(* ===== verification/LedgerProps.thy ===== *)
theory LedgerProps
  imports LedgerInv
begin

text \<open>
  The properties of \<open>PlaygroundLedger\<close>: conservation, single credit per payment, caps, finality of records, the
  outcome of every settlement, single execution per call id, the reaper, the replay of \<open>/open\<close>, what the
  reconciliation endpoint may rely on, and the open-intent slots that an expired intent gives back more than
  once.  The concrete runs of the witnesses are at the head of the theory.
\<close>

subsection \<open>A concrete run\<close>

definition demo_intent :: stored_intent where
  "demo_intent = \<lparr>intent_id = ''i1'', i_account = ''A'', i_amount = 50, i_memo = ''m1'', i_destination = ''D'',
     i_created_at = 0, i_expires_at = 1000, i_status = IOpen, i_tx_hash = None, i_op_index = None,
     i_session_jti = None, i_session_exp = None\<rparr>"

definition demo_create :: create_body where
  "demo_create = \<lparr>cb_intent_id = ''i1'', cb_account = ''A'', cb_amount = ''50'', cb_memo = ''m1'',
     cb_destination = ''D'', cb_now = 0, cb_expires_at = 1000, cb_day_cap = ''100'', cb_global_cap = ''1000'',
     cb_intents_per_hour = 5, cb_max_open = 3\<rparr>"

definition demo_open :: open_body where
  "demo_open = \<lparr>ob_intent_id = ''i1'', ob_tx_hash = ''T'', ob_op_index = 2, ob_now = 900, ob_confirmed_at = 800,
     ob_session_jti = ''J'', ob_session_exp = 10, ob_day_cap = ''100'', ob_global_cap = ''1000''\<rparr>"

definition demo_reserve :: reserve_body where
  "demo_reserve = \<lparr>rb_call_id = ''c1'', rb_account = ''A'', rb_chip = ''chat'', rb_model = None,
     rb_max_price = ''20'', rb_now = 1000, rb_history_limit = 20\<rparr>"

lemma atomic_digits:
  "parseAtomic (Some ''50'') = Inr 50" "parseAtomic (Some ''100'') = Inr 100"
  "parseAtomic (Some ''1000'') = Inr 1000" "parseAtomic (Some ''20'') = Inr 20" "parseAtomic (Some ''7'') = Inr 7"
  by code_simp+

lemma demo_create_run:
  "fst (createIntent demo_create empty_ledger) = Inr (Ok demo_intent)"
  "intents (snd (createIntent demo_create empty_ledger)) = [(''i1'', demo_intent)]"
  "consumed (snd (createIntent demo_create empty_ledger)) = []"
  "dep (snd (createIntent demo_create empty_ledger)) = []"
  "outstanding (snd (createIntent demo_create empty_ledger)) = 0"
  "credited (snd (createIntent demo_create empty_ledger)) = 0"
  "bal (snd (createIntent demo_create empty_ledger)) = []"
  "calls (snd (createIntent demo_create empty_ledger)) = []"
  by (simp_all add: createIntent_def demo_create_def empty_ledger_def parse_then_def atomic_digits Let_def
      num_at_def put_intent_def new_intent_def demo_intent_def)

definition demo1 :: ledger where "demo1 = snd (createIntent demo_create empty_ledger)"
definition demo2 :: ledger where "demo2 = snd (openIntent demo_open demo1)"
definition demo3 :: ledger where "demo3 = snd (reserve demo_reserve demo2)"

lemma demo_open_run:
  "openIntent demo_open demo1 =
    (Inr (Ok \<lparr>oa_intent = consumed_intent demo_open demo_intent, oa_balance = 50, oa_replayed = False\<rparr>), demo2)"
  "intents demo2 = [(''i1'', consumed_intent demo_open demo_intent)]" "bal demo2 = [(''A'', 50)]" "calls demo2 = []"
  "outstanding demo2 = 50" "credited demo2 = 50"
  unfolding demo2_def
  by (simp_all add: openIntent_def demo1_def demo_create_run demo_open_def demo_intent_def parse_then_def
      atomic_digits Let_def num_at_def open_credit_def consumed_intent_def)

lemma demo_reserve_run:
  "fst (reserve demo_reserve demo2) = Inr (Ok \<lparr>ro_ok = True, ro_call = Some (new_call demo_reserve 20),
     ro_balance = 30, ro_duplicate = False\<rparr>)"
  "calls demo3 = [(''c1'', new_call demo_reserve 20)]" "bal demo3 = [(''A'', 30)]"
  unfolding demo3_def
  by (simp_all add: reserve_def demo_open_run demo_reserve_def parse_then_def atomic_digits Let_def num_at_def
      take_hold_def)

lemma lstep_steps: "lsteps Q a b \<Longrightarrow> lstep Q b c \<Longrightarrow> lsteps Q a c"
  unfolding lsteps_def by (rule rtranclp.rtrancl_into_rtrancl)

lemma lsteps_refl: "lsteps Q a a"
  by (simp add: lsteps_def)

lemma demo1_reach: "lsteps Q empty_ledger demo1"
  unfolding demo1_def
  by (rule lstep_steps [OF lsteps_refl]) (rule lstep.create; simp add: empty_ledger_def demo_create_def)

lemma demo2_reach: "Q demo_open \<Longrightarrow> lsteps Q empty_ledger demo2"
  unfolding demo2_def by (rule lstep_steps [OF demo1_reach]) (rule lstep.claiming)

lemma demo3_reach: "Q demo_open \<Longrightarrow> lsteps Q empty_ledger demo3"
  unfolding demo3_def by (rule lstep_steps [OF demo2_reach]) (simp_all add: lstep.reserving)

subsection \<open>Properties\<close>

text \<open>C4: conservation.  In every reachable state the outstanding credit is the sum of all balances and of all
  holds, the lifetime credit is what was charged plus what is outstanding, it is also the sum of the amounts of the
  consumed intents, the lifetime charge is the sum over the committed calls, and no balance is negative.\<close>

theorem ledger_conservation:
  assumes "lsteps any_open empty_ledger st"
  shows "outstanding st = balances st + holds st \<and> credited st = committed st + outstanding st \<and>
    credited st = deposits st \<and> committed st = charges st \<and> (\<forall>a. 0 \<le> num_at (bal st) a)"
  using money_reach [OF assms] money_bal by (auto simp: money_ok_def)

theorem ledger_conservation_witness:
  "outstanding demo3 = balances demo3 + holds demo3 \<and> 0 \<le> num_at (bal demo3) ''A'' \<and> num_at (bal demo3) ''A'' = 30"
  using ledger_conservation [OF demo3_reach] by (simp add: any_open_def demo_reserve_run num_at_def)

text \<open>C20: a payment credits at most once.  In every reachable state two consumed intents never carry the same
  payment operation, and the intents bound in the replay table are exactly the consumed ones, so the amounts bound
  there sum up to the whole lifetime credit.\<close>

theorem payment_credited_once:
  assumes "lsteps any_open empty_ledger st"
  shows "(\<forall>k k' i i' p. tget (intents st) k = Some i \<longrightarrow> tget (intents st) k' = Some i' \<longrightarrow>
      paid_by i p \<longrightarrow> paid_by i' p \<longrightarrow> k = k') \<and>
    (\<forall>k i. tget (intents st) k = Some i \<longrightarrow>
      (i_status i = IConsumed \<longleftrightarrow> (\<exists>p. tget (consumed st) p = Some k))) \<and>
    claimed st = credited st"
proof -
  have p: "payments_ok st" by (rule payments_reach [OF assms])
  have bound: "tget (consumed st) q = Some k" if i: "tget (intents st) k = Some i" "paid_by i q" for k i q
  proof -
    have "i_status i = IConsumed" using i(2) by (simp add: paid_by_def)
    with p i(1) obtain q' where "paid_by i q'" "tget (consumed st) q' = Some k"
      unfolding payments_ok_def by blast
    with i(2) show ?thesis by (auto simp: paid_by_def)
  qed
  then show ?thesis
    using p unfolding payments_ok_def by (intro conjI allI impI) (metis option.inject paid_by_def)+
qed

theorem payment_credited_once_witness:
  "claimed demo2 = 50 \<and> (\<exists>p. tget (consumed demo2) p = Some ''i1'')"
proof -
  have i: "tget (intents demo2) ''i1'' = Some (consumed_intent demo_open demo_intent)" by (simp add: demo_open_run)
  have "any_open demo_open" by (simp add: any_open_def)
  note all = payment_credited_once [OF demo2_reach [where Q = any_open, OF this]]
  from all have "claimed demo2 = credited demo2" by blast
  moreover from all i have "i_status (consumed_intent demo_open demo_intent) = IConsumed \<longleftrightarrow>
      (\<exists>p. tget (consumed demo2) p = Some ''i1'')" by blast
  ultimately show ?thesis by (simp add: demo_open_run consumed_intent_def)
qed

text \<open>The caps bound the credit.  If every \<open>/open\<close> carries the same day cap \<open>D\<close> and global cap \<open>G\<close>, the
  outstanding credit of a reachable state is at most \<open>G\<close> and no account was credited more than \<open>D\<close> for the deposits
  confirmed on one day, however the requests were ordered and however many intents were created beforehand.\<close>

theorem ledger_caps:
  assumes "lsteps (caps_are D G) empty_ledger st"
  shows "outstanding st \<le> max 0 G \<and> (\<forall>a t. num_at (dep st) (a @ '':'' @ utcDayKey t) \<le> max 0 D)"
  using caps_reach [OF assms] by (simp add: caps_ok_def)

theorem ledger_caps_witness: "outstanding demo3 \<le> 1000"
  using ledger_caps [OF demo3_reach, of 100 1000] by (simp add: caps_are_def demo_open_def atomic_digits)

text \<open>Records are final.  Whatever requests follow a reachable state, a settled call keeps its record, a
  held call keeps its account and its hold, a consumed intent stays bound to the payment that consumed it, an
  intent over the cap stays as it is, and no entry of the replay table is lost or rebound.\<close>

theorem records_are_final:
  assumes "lsteps any_open empty_ledger st" "lsteps any_open st st'"
  shows "(\<forall>k c. tget (calls st) k = Some c \<longrightarrow> (\<exists>c'. tget (calls st') k = Some c' \<and> call_kept c c')) \<and>
    (\<forall>k i. tget (intents st) k = Some i \<longrightarrow> (\<exists>i'. tget (intents st') k = Some i' \<and> intent_kept i i')) \<and>
    (\<forall>p k. tget (consumed st) p = Some k \<longrightarrow> tget (consumed st') p = Some k)"
  using kept_steps [OF assms(2) payments_reach [OF assms(1)] money_reach [OF assms(1)]]
  by (simp add: kept_def table_kept_def)

theorem records_are_final_witness:
  "tget (consumed (alarm 0 demo2)) (consumed_key ''T'' 2) = Some ''i1''"
proof -
  have "tget (consumed demo2) (consumed_key ''T'' 2) = Some ''i1''"
    unfolding demo2_def
    by (simp add: openIntent_def demo1_def demo_create_run demo_open_def demo_intent_def parse_then_def
        atomic_digits Let_def num_at_def open_credit_def)
  moreover have "lsteps any_open demo2 (alarm 0 demo2)"
    by (rule lstep_steps [OF lsteps_refl]) (rule lstep.reaper)
  ultimately show ?thesis
    using records_are_final [OF demo2_reach] by (simp add: any_open_def)
qed


definition clamp :: "int \<Rightarrow> int \<Rightarrow> int" where
  "clamp held n = (if held < (if n < 0 then 0 else n) then held else (if n < 0 then 0 else n))"

lemma clamp_bounds: "0 \<le> held \<Longrightarrow> 0 \<le> clamp held n \<and> clamp held n \<le> held"
  by (simp add: clamp_def)

lemma settle_commit:
  assumes "tget (calls st) k = Some c" "c_status c = Reserved" "parseAtomic charge = Inr n"
  shows "settle k DoCommit charge reason st =
    (Inr (Ok \<lparr>sa_call = c\<lparr>c_status := Committed, c_charged := clamp (c_max_price c) n\<rparr>,
             sa_balance = num_at (bal st) (c_account c) + (c_max_price c - clamp (c_max_price c) n),
             sa_already = False\<rparr>),
     (end_hold k (c\<lparr>c_status := Committed, c_charged := clamp (c_max_price c) n\<rparr>)
        (c_max_price c - clamp (c_max_price c) n) st)
       \<lparr>committed := committed st + clamp (c_max_price c) n,
        outstanding := outstanding st - clamp (c_max_price c) n\<rparr>)"
  using assms by (simp add: settle_def Let_def parse_then_def clamp_def)

lemma settle_release:
  assumes "tget (calls st) k = Some c" "c_status c = Reserved"
  shows "settle k DoRelease charge reason st =
    (Inr (Ok \<lparr>sa_call = c\<lparr>c_status := Released, c_charged := 0, c_release_reason := reason\<rparr>,
             sa_balance = num_at (bal st) (c_account c) + c_max_price c, sa_already = False\<rparr>),
     end_hold k (c\<lparr>c_status := Released, c_charged := 0, c_release_reason := reason\<rparr>) (c_max_price c) st)"
  using assms by (simp add: settle_def Let_def)

lemma settle_settled:
  "tget (calls st) k = Some c \<Longrightarrow> c_status c \<noteq> Reserved \<Longrightarrow> settle k action charge reason st =
    (Inr (Ok \<lparr>sa_call = c, sa_balance = num_at (bal st) (c_account c), sa_already = True\<rparr>), st)"
  by (simp add: settle_def Let_def)

text \<open>The outcome of a settlement.  The first settlement of a held call decides: a release gives the whole
  hold back and charges nothing, a commit charges the given amount clamped to between zero and the hold and gives
  the rest back; the account's balance moves by exactly that.  Every later settlement, of either kind and
  amount, changes nothing and reports the recorded call.\<close>

theorem settle_outcome:
  assumes "tget (calls st) k = Some c" "c_status c = Reserved" "parseAtomic charge = Inr n" "0 \<le> c_max_price c"
    and "settle k action charge reason st = (Inr (Ok a), st')"
  shows "0 \<le> c_charged (sa_call a) \<and> c_charged (sa_call a) \<le> c_max_price c \<and>
    c_charged (sa_call a) = (case action of DoRelease \<Rightarrow> 0 | DoCommit \<Rightarrow> min (c_max_price c) (max 0 n)) \<and>
    num_at (bal st') (c_account c) = num_at (bal st) (c_account c) + c_max_price c - c_charged (sa_call a) \<and>
    committed st' = committed st + c_charged (sa_call a) \<and>
    outstanding st' = outstanding st - c_charged (sa_call a) \<and>
    settle k action' charge' reason' st' =
      (Inr (Ok \<lparr>sa_call = sa_call a, sa_balance = num_at (bal st') (c_account c), sa_already = True\<rparr>), st')"
proof (cases action)
  case DoCommit
  with assms(5) settle_commit [OF assms(1-3)]
  have a: "sa_call a = c\<lparr>c_status := Committed, c_charged := clamp (c_max_price c) n\<rparr>"
    and st': "st' = (end_hold k (sa_call a) (c_max_price c - clamp (c_max_price c) n) st)
       \<lparr>committed := committed st + clamp (c_max_price c) n,
        outstanding := outstanding st - clamp (c_max_price c) n\<rparr>"
    by auto
  have "tget (calls st') k = Some (sa_call a)" by (simp add: st' end_hold_def)
  then have "settle k action' charge' reason' st' =
      (Inr (Ok \<lparr>sa_call = sa_call a, sa_balance = num_at (bal st') (c_account c), sa_already = True\<rparr>), st')"
    using settle_settled [of st' k "sa_call a" action' charge' reason'] by (simp add: a)
  with DoCommit clamp_bounds [OF assms(4), of n] show ?thesis
    by (auto simp: a st' end_hold_def) (auto simp: clamp_def)
next
  case DoRelease
  with assms(5) settle_release [OF assms(1,2)]
  have a: "sa_call a = c\<lparr>c_status := Released, c_charged := 0, c_release_reason := reason\<rparr>"
    and st': "st' = end_hold k (sa_call a) (c_max_price c) st"
    by auto
  have "tget (calls st') k = Some (sa_call a)" by (simp add: st' end_hold_def)
  then have "settle k action' charge' reason' st' =
      (Inr (Ok \<lparr>sa_call = sa_call a, sa_balance = num_at (bal st') (c_account c), sa_already = True\<rparr>), st')"
    using settle_settled [of st' k "sa_call a" action' charge' reason'] by (simp add: a)
  with DoRelease assms(4) show ?thesis by (simp add: a st' end_hold_def)
qed

text \<open>A pricing bug asks for 1000 of a hold of 20: only 20 is charged.\<close>

lemma demo_settle_run:
  "settle ''c1'' DoCommit (Some ''1000'') None demo3 =
    (Inr (Ok \<lparr>sa_call = (new_call demo_reserve 20)\<lparr>c_status := Committed, c_charged := 20\<rparr>,
              sa_balance = 30, sa_already = False\<rparr>),
     snd (settle ''c1'' DoCommit (Some ''1000'') None demo3))"
  using settle_commit [of demo3 "''c1''" "new_call demo_reserve 20" "Some ''1000''" 1000 None]
  by (simp add: demo_reserve_run atomic_digits new_call_def clamp_def num_at_def demo_reserve_def)

theorem settle_outcome_witness:
  "num_at (bal (snd (settle ''c1'' DoCommit (Some ''1000'') None demo3))) ''A'' = 30"
  using settle_outcome [OF _ _ atomic_digits(3) _ demo_settle_run, of "new_call demo_reserve 20"]
  by (simp add: demo_reserve_run new_call_def demo_reserve_def num_at_def)

text \<open>A call id runs once.  Once a reservation has succeeded, whatever requests follow, a reservation with the same
  call id (of any account and any price) takes no second hold: it changes nothing and answers \<open>duplicate\<close> with the
  recorded call.\<close>

theorem reserve_once:
  assumes "lsteps any_open empty_ledger st" "reserve b st = (Inr (Ok a), st1)" "ro_ok a"
    and "lsteps any_open st1 st2" "rb_call_id b' = rb_call_id b"
    and "parseAtomic (Some (rb_max_price b')) = Inr m" "0 \<le> m"
  shows "\<exists>c. tget (calls st2) (rb_call_id b) = Some c \<and>
    reserve b' st2 = (Inr (Ok \<lparr>ro_ok = True, ro_call = Some c, ro_balance = num_at (bal st2) (c_account c),
      ro_duplicate = True\<rparr>), st2)"
proof -
  have "lsteps any_open empty_ledger st1"
    using lstep_steps [OF assms(1) lstep.reserving [of _ _ b]] assms(2) by simp
  then have "kept st1 st2" by (intro kept_steps [OF assms(4)] payments_reach money_reach)
  moreover have "\<exists>c. tget (calls st1) (rb_call_id b) = Some c"
    using assms(2,3) by (auto simp: reserve_def parse_then_def take_hold_def Let_def split: sum.splits if_splits option.splits)
  ultimately obtain c where "tget (calls st2) (rb_call_id b) = Some c"
    unfolding kept_def table_kept_def by blast
  with assms(5,6,7) show ?thesis by (simp add: reserve_def parse_then_def)
qed

theorem reserve_once_witness:
  "\<exists>c. tget (calls (alarm 0 demo3)) ''c1'' = Some c \<and>
    reserve demo_reserve (alarm 0 demo3) = (Inr (Ok \<lparr>ro_ok = True, ro_call = Some c,
      ro_balance = num_at (bal (alarm 0 demo3)) (c_account c), ro_duplicate = True\<rparr>), alarm 0 demo3)"
proof -
  have "reserve demo_reserve demo2 = (Inr (Ok \<lparr>ro_ok = True, ro_call = Some (new_call demo_reserve 20),
      ro_balance = 30, ro_duplicate = False\<rparr>), demo3)"
    by (metis demo3_def demo_reserve_run(1) prod.collapse)
  moreover have "lsteps any_open demo3 (alarm 0 demo3)"
    by (rule lstep_steps [OF lsteps_refl]) (rule lstep.reaper)
  moreover have "lsteps any_open empty_ledger demo2" by (rule demo2_reach) (simp add: any_open_def)
  ultimately show ?thesis
    using reserve_once [of demo2 demo_reserve _ demo3 "alarm 0 demo3" demo_reserve 20]
    by (simp add: demo_reserve_def atomic_digits)
qed

text \<open>The reaper only releases.  At an alarm every held call at least as old as the lease is released, charged
  nothing and flagged, its hold goes back to its account, every other call keeps its record, and neither the charged
  nor the outstanding total moves; a dispatched call is treated like any other and only flagged for review.\<close>

theorem reaper_releases:
  assumes "lsteps any_open empty_ledger st"
  shows "(\<forall>k. tget (calls (alarm now st)) k =
      map_option (\<lambda>c. if stale now c then reaped_call c else c) (tget (calls st) k)) \<and>
    (\<forall>c. c_status (reaped_call c) = Released \<and> c_charged (reaped_call c) = 0 \<and> c_reaped (reaped_call c) \<and>
      (c_dispatched c \<longrightarrow> c_possible_paid (reaped_call c))) \<and>
    (\<forall>a. num_at (bal (alarm now st)) a = num_at (bal st) a
      + tsum (\<lambda>c. if stale now c \<and> c_account c = a then c_max_price c else 0) (calls st)) \<and>
    committed (alarm now st) = committed st \<and> outstanding (alarm now st) = outstanding st"
  using money_reach [OF assms]
  by (simp add: alarm_calls alarm_bal alarm_fields money_ok_def) (simp add: reaped_call_def)

theorem reaper_releases_witness: "num_at (bal (alarm 400000 demo3)) ''A'' = 50"
proof -
  have "lsteps any_open empty_ledger demo3" by (rule demo3_reach) (simp add: any_open_def)
  from reaper_releases [OF this, of 400000] show ?thesis
    by (simp add: demo_reserve_run num_at_def stale_def new_call_def demo_reserve_def RESERVED_LEASE_MS_def)
qed




lemma openIntent_credited:
  assumes "openIntent b st = (Inr (Ok a), st')" "\<not> oa_replayed a"
  obtains i depKey where "tget (intents st) (ob_intent_id b) = Some i" "st' = open_credit b i depKey st"
    "oa_intent a = consumed_intent b i" "oa_balance a = num_at (bal st) (i_account i) + i_amount i"
  using assms
  by (auto simp: openIntent_def open_replay_def parse_then_def Let_def split: option.splits if_splits sum.splits)

lemma open_credit_reads:
  "tget (intents (open_credit b i depKey st)) (ob_intent_id b) = Some (consumed_intent b i)"
  "num_at (bal (open_credit b i depKey st)) (i_account i) = num_at (bal st) (i_account i) + i_amount i"
  by (simp_all add: open_credit_def Let_def)

lemma openIntent_consumed:
  "tget (intents st) (ob_intent_id b) = Some i \<Longrightarrow> i_status i = IConsumed \<Longrightarrow>
    openIntent b st = (Inr (fst (open_replay b i st)), snd (open_replay b i st))"
  by (simp add: openIntent_def Let_def split_beta)

text \<open>Claiming is idempotent.  After a claim was credited, claiming again with the same payment succeeds as a
  replay and credits nothing; while the session is valid it returns the very same intent and session and
  changes nothing at all, after it only the session is renewed.  Any other payment for that intent is refused.\<close>

theorem open_idempotent:
  assumes "openIntent b st = (Inr (Ok a), st')" "\<not> oa_replayed a" "ob_intent_id b' = ob_intent_id b"
  shows "(ob_tx_hash b' = ob_tx_hash b \<and> ob_op_index b' = ob_op_index b \<longrightarrow>
      (\<exists>a' st''. openIntent b' st' = (Inr (Ok a'), st'') \<and> oa_replayed a' \<and> oa_balance a' = oa_balance a \<and>
        st'' = st'\<lparr>intents := intents st''\<rparr> \<and>
        (ob_now b' < ob_session_exp b * 1000 \<longrightarrow> oa_intent a' = oa_intent a \<and> st'' = st') \<and>
        (ob_session_exp b * 1000 \<le> ob_now b' \<longrightarrow> i_session_jti (oa_intent a') = Some (ob_session_jti b') \<and>
          i_session_exp (oa_intent a') = Some (ob_session_exp b')))) \<and>
    (\<not> (ob_tx_hash b' = ob_tx_hash b \<and> ob_op_index b' = ob_op_index b) \<longrightarrow>
      openIntent b' st' = (Inr (Err ''intent_already_used'' []), st'))"
proof -
  obtain i depKey where st': "st' = open_credit b i depKey st" and a: "oa_intent a = consumed_intent b i"
    "oa_balance a = num_at (bal st) (i_account i) + i_amount i"
    using openIntent_credited [OF assms(1,2)] by metis
  let ?c = "consumed_intent b i"
  have "tget (intents st') (ob_intent_id b') = Some ?c" unfolding st' assms(3) by (rule open_credit_reads)
  moreover have c: "i_status ?c = IConsumed" "i_tx_hash ?c = Some (ob_tx_hash b)" "i_account ?c = i_account i"
    "i_op_index ?c = Some (ob_op_index b)" "i_session_exp ?c = Some (ob_session_exp b)"
    by (simp_all add: consumed_intent_def)
  ultimately have run: "openIntent b' st' = (Inr (fst (open_replay b' ?c st')), snd (open_replay b' ?c st'))"
    by (simp add: openIntent_consumed)
  have bal: "num_at (bal st') (i_account i) = oa_balance a"
    by (simp add: st' a(2) open_credit_reads)
  show ?thesis
    unfolding run by (auto simp: open_replay_def Let_def c bal a(1) not_le)
qed

theorem open_idempotent_witness:
  "openIntent (demo_open\<lparr>ob_now := 950, ob_session_jti := ''other''\<rparr>) demo2 =
    (Inr (Ok \<lparr>oa_intent = consumed_intent demo_open demo_intent, oa_balance = 50, oa_replayed = True\<rparr>), demo2)"
  using open_idempotent [OF demo_open_run(1), of "demo_open\<lparr>ob_now := 950, ob_session_jti := ''other''\<rparr>"]
  by (auto simp: demo_open_def)

text \<open>Claiming an intent with a payment that confirmed too late, again and again.\<close>

definition claim_late :: "nat \<Rightarrow> open_body \<Rightarrow> ledger \<Rightarrow> ledger" where
  "claim_late n b st = ((\<lambda>s. snd (openIntent b s)) ^^ n) st"

lemma claim_late_step:
  assumes "tget (intents st) (ob_intent_id b) = Some i" "i_status i \<in> {IOpen, IExpired}"
    "tget (consumed st) (consumed_key (ob_tx_hash b) (ob_op_index b)) = None" "i_expires_at i < ob_confirmed_at b"
  shows "openIntent b st = (Inr (Err ''intent_expired'' []), releaseOpenSlot (i_account i)
    (st\<lparr>intents := tput (ob_intent_id b) (i\<lparr>i_status := IExpired\<rparr>) (intents st)\<rparr>))"
  using assms by (auto simp: openIntent_def Let_def)

text \<open>An expired intent gives its slot back more than once.  Each claim of an intent with a payment confirmed
  after its expiry, the first one and every repetition, takes one off the account's count of open intents,
  while only the first of them closes an intent: after enough repetitions the count says zero although the
  account's other intents are still open, so the ceiling on open intents no longer holds.\<close>

theorem expired_claim_frees_slots:
  assumes "tget (intents st) (ob_intent_id b) = Some i" "i_status i = IOpen"
    "tget (consumed st) (consumed_key (ob_tx_hash b) (ob_op_index b)) = None"
    "i_expires_at i < ob_confirmed_at b" "0 \<le> num_at (opens st) (i_account i)"
  shows "num_at (opens (claim_late n b st)) (i_account i) = max 0 (num_at (opens st) (i_account i) - int n) \<and>
    (\<forall>k. k \<noteq> ob_intent_id b \<longrightarrow> tget (intents (claim_late n b st)) k = tget (intents st) k)"
proof -
  have "\<exists>j. tget (intents (claim_late n b st)) (ob_intent_id b) = Some j \<and> i_status j \<in> {IOpen, IExpired} \<and>
      i_account j = i_account i \<and> i_expires_at j = i_expires_at i \<and>
      consumed (claim_late n b st) = consumed st \<and>
      num_at (opens (claim_late n b st)) (i_account i) = max 0 (num_at (opens st) (i_account i) - int n) \<and>
      (\<forall>k. k \<noteq> ob_intent_id b \<longrightarrow> tget (intents (claim_late n b st)) k = tget (intents st) k)"
  proof (induction n)
    case 0
    with assms show ?case by (simp add: claim_late_def)
  next
    case (Suc n)
    then obtain j where j: "tget (intents (claim_late n b st)) (ob_intent_id b) = Some j"
      "i_status j \<in> {IOpen, IExpired}" "i_account j = i_account i" "i_expires_at j = i_expires_at i"
      "consumed (claim_late n b st) = consumed st"
      "num_at (opens (claim_late n b st)) (i_account i) = max 0 (num_at (opens st) (i_account i) - int n)"
      "\<forall>k. k \<noteq> ob_intent_id b \<longrightarrow> tget (intents (claim_late n b st)) k = tget (intents st) k"
      by blast
    have "claim_late (Suc n) b st = releaseOpenSlot (i_account i) ((claim_late n b st)
        \<lparr>intents := tput (ob_intent_id b) (j\<lparr>i_status := IExpired\<rparr>) (intents (claim_late n b st))\<rparr>)"
      using claim_late_step [OF j(1,2), unfolded j(3-5), OF assms(3,4)] by (simp add: claim_late_def)
    with j show ?case by (simp add: releaseOpenSlot_def Let_def)
  qed
  then show ?thesis by blast
qed

definition two_open :: ledger where
  "two_open = empty_ledger\<lparr>intents := [(''i1'', demo_intent), (''i2'', demo_intent\<lparr>intent_id := ''i2''\<rparr>)],
     opens := [(''A'', 2)]\<rparr>"

theorem expired_claim_frees_slots_witness:
  "num_at (opens (claim_late 2 (demo_open\<lparr>ob_confirmed_at := 2000\<rparr>) two_open)) ''A'' = 0 \<and>
   map_option i_status (tget (intents (claim_late 2 (demo_open\<lparr>ob_confirmed_at := 2000\<rparr>) two_open)) ''i2'')
     = Some IOpen"
  using expired_claim_frees_slots [of two_open "demo_open\<lparr>ob_confirmed_at := 2000\<rparr>" demo_intent 2]
  by (simp add: two_open_def demo_open_def demo_intent_def empty_ledger_def num_at_def)

definition may_create :: "create_body \<Rightarrow> ledger \<Rightarrow> bool" where
  "may_create b st \<longleftrightarrow>
     (\<exists>amount dayCap globalCap. parseAtomic (Some (cb_amount b)) = Inr amount \<and> 0 < amount \<and>
      num_at (rl st) (cb_account b @ '':'' @ utcHourKey (cb_now b)) < cb_intents_per_hour b \<and>
      parseAtomic (Some (cb_day_cap b)) = Inr dayCap \<and>
      num_at (dep st) (cb_account b @ '':'' @ utcDayKey (cb_now b)) + amount \<le> dayCap \<and>
      parseAtomic (Some (cb_global_cap b)) = Inr globalCap \<and> outstanding st + amount \<le> globalCap \<and>
      num_at (opens st) (cb_account b) < cb_max_open b \<and> tget (memos st) (cb_memo b) \<in> {None, Some []})"

lemma create_allowed:
  assumes "may_create b st"
  shows "\<exists>i. createIntent b st = (Inr (Ok i), put_intent b (i_amount i)
      (cb_account b @ '':'' @ utcHourKey (cb_now b))
      (num_at (rl st) (cb_account b @ '':'' @ utcHourKey (cb_now b)) + 1)
      (num_at (opens st) (cb_account b) + 1) st) \<and> i = new_intent b (i_amount i)"
  using assms unfolding may_create_def
  by (elim exE conjE) (simp add: createIntent_def parse_then_def Let_def not_le not_less new_intent_def)

lemma create_refused:
  assumes "\<not> may_create b st"
  shows "\<exists>r. createIntent b st = (r, st) \<and> (\<forall>i. r \<noteq> Inr (Ok i))"
proof -
  let ?x = "createIntent b st"
  have "fst ?x \<noteq> Inr (Ok i) \<and> snd ?x = st" for i
    using assms unfolding may_create_def createIntent_def parse_then_def Let_def
    by (auto simp: not_le not_less split: sum.splits)
  then show ?thesis by (metis prod.collapse)
qed

text \<open>Creation is guarded and atomic.  An intent is created exactly when the amount is a positive atomic integer,
  the account is under its hourly rate, the day cap and the global cap leave room for it, the account is under
  its ceiling of open intents and the memo is new; then exactly the intent, its memo and the two counters are
  written.  Otherwise the state is unchanged, also when a field of the body does not parse.\<close>

theorem create_guarded:
  "\<exists>r st'. createIntent b st = (r, st') \<and>
    ((\<exists>i. r = Inr (Ok i)) \<longleftrightarrow> may_create b st) \<and>
    (if may_create b st
     then (\<exists>i. r = Inr (Ok i) \<and> i = new_intent b (i_amount i) \<and> tget (intents st') (cb_intent_id b) = Some i \<and>
       tget (memos st') (cb_memo b) = Some (cb_intent_id b) \<and>
       num_at (opens st') (cb_account b) = num_at (opens st) (cb_account b) + 1 \<and> bal st' = bal st \<and>
       outstanding st' = outstanding st)
     else st' = st)"
proof (cases "may_create b st")
  case True
  from create_allowed [OF this] True show ?thesis by (auto simp: put_intent_def)
next
  case False
  from create_refused [OF this] False show ?thesis by auto
qed

subsection \<open>Reconciliation\<close>

lemma rsplit_colon_append:
  "CHR '':'' \<notin> set v \<Longrightarrow> rsplit_colon (u @ CHR '':'' # v) = Some (u, v)"
proof (induction u)
  case Nil
  have "CHR '':'' \<notin> set v \<Longrightarrow> rsplit_colon v = None" by (induction v) auto
  with Nil show ?case by simp
qed simp

lemma int_str_no_colon: "CHR '':'' \<notin> set (int_str n)"
  by (auto simp: int_str_def all_digits_no_char)

lemma rsplit_consumed_key: "rsplit_colon (consumed_key tx op) = Some (tx, int_str op)"
  by (simp add: consumed_key_def rsplit_colon_append int_str_no_colon)

definition binding_of :: "ledger \<Rightarrow> string \<Rightarrow> (string \<times> int \<times> string) option" where
  "binding_of st iid = map_option (\<lambda>i. (i_account i, i_amount i, i_memo i)) (tget (intents st) iid)"

lemma consumed_bound:
  assumes p: "payments_ok st" and k: "(k, iid) \<in> set (consumed st)"
  obtains i where "tget (intents st) iid = Some i" "paid_by i k"
proof -
  have "table_ok (consumed st)" using p by (simp add: payments_ok_def)
  from in_set_tget [OF this k] p show thesis using that unfolding payments_ok_def by blast
qed

lemma totals_consumed:
  assumes "payments_ok st"
  shows "ta_consumed (totals st) = map (\<lambda>(k, iid).
    \<lparr>cd_tx_hash = fst (the (rsplit_colon k)), cd_op_index = bigint_of (snd (the (rsplit_colon k))),
     cd_intent_id = iid, cd_binding = binding_of st iid\<rparr>) (consumed st)"
proof -
  have key: "\<exists>tx op. fst x = consumed_key tx op" if "x \<in> set (consumed st)" for x
  proof -
    have "(fst x, snd x) \<in> set (consumed st)" using that by simp
    then obtain i where "paid_by i (fst x)" by (rule consumed_bound [OF assms])
    then show ?thesis by (auto simp: paid_by_def)
  qed
  show ?thesis
    unfolding totals_def totals_answer.simps
  proof (rule map_cong [OF refl])
    fix x assume "x \<in> set (consumed st)"
    from key [OF this] obtain tx op where "fst x = consumed_key tx op" by blast
    then obtain iid where "x = (consumed_key tx op, iid)" by (metis prod.collapse)
    then show "(case x of (k, iid) \<Rightarrow> (case rsplit_colon k of
             Some (tx, op) \<Rightarrow>
               \<lparr>cd_tx_hash = tx, cd_op_index = bigint_of op, cd_intent_id = iid,
                cd_binding = map_option (\<lambda>i. (i_account i, i_amount i, i_memo i)) (tget (intents st) iid)\<rparr>
           | None \<Rightarrow>
               \<lparr>cd_tx_hash = butlast k, cd_op_index = bigint_of k, cd_intent_id = iid,
                cd_binding = map_option (\<lambda>i. (i_account i, i_amount i, i_memo i)) (tget (intents st) iid)\<rparr>)) =
        (case x of (k, iid) \<Rightarrow>
          \<lparr>cd_tx_hash = fst (the (rsplit_colon k)), cd_op_index = bigint_of (snd (the (rsplit_colon k))),
           cd_intent_id = iid, cd_binding = binding_of st iid\<rparr>)"
      by (simp add: rsplit_consumed_key binding_of_def)
  qed
qed

definition binding_amount :: "consumed_deposit \<Rightarrow> int" where
  "binding_amount d = (case cd_binding d of None \<Rightarrow> 0 | Some (_, amount, _) \<Rightarrow> amount)"

text \<open>Reconciliation is exact.  In every reachable state the figures of \<open>/totals\<close> agree: the scanned balances and
  holds sum up to the incremental outstanding total, credit is charge plus outstanding, every reported deposit
  carries the transaction and operation that the key was built from, with the account, amount and memo of
  the consumed intent it is bound to, and the reported amounts sum up to the lifetime credit.\<close>

theorem recon_exact:
  assumes "lsteps any_open empty_ledger st"
  shows "ta_balances_sum (totals st) + ta_holds_sum (totals st) = ta_outstanding (totals st) \<and>
    ta_credited (totals st) = ta_committed (totals st) + ta_outstanding (totals st) \<and>
    sum_list (map binding_amount (ta_consumed (totals st))) = ta_credited (totals st) \<and>
    (\<forall>d\<in>set (ta_consumed (totals st)). \<exists>i. tget (intents st) (cd_intent_id d) = Some i \<and>
      i_status i = IConsumed \<and> i_tx_hash i = Some (cd_tx_hash d) \<and> i_op_index i = Some (cd_op_index d) \<and>
      cd_binding d = Some (i_account i, i_amount i, i_memo i))"
proof -
  have m: "money_ok st" and p: "payments_ok st" by (rule money_reach [OF assms], rule payments_reach [OF assms])
  have "binding_amount \<lparr>cd_tx_hash = x, cd_op_index = y, cd_intent_id = iid, cd_binding = binding_of st iid\<rparr>
      = amount_of st iid" for x y iid
    by (simp add: binding_amount_def binding_of_def amount_of_def split: option.splits)
  then have "sum_list (map binding_amount (ta_consumed (totals st))) = claimed st"
    by (simp add: totals_consumed [OF p] claimed_def tsum_def comp_def split_beta)
  moreover have "claimed st = credited st" using p by (simp add: payments_ok_def)
  moreover have "\<exists>i. tget (intents st) (cd_intent_id d) = Some i \<and> i_status i = IConsumed \<and>
      i_tx_hash i = Some (cd_tx_hash d) \<and> i_op_index i = Some (cd_op_index d) \<and>
      cd_binding d = Some (i_account i, i_amount i, i_memo i)" if d: "d \<in> set (ta_consumed (totals st))" for d
  proof -
    obtain k iid where k: "(k, iid) \<in> set (consumed st)" and d': "d = \<lparr>cd_tx_hash = fst (the (rsplit_colon k)),
        cd_op_index = bigint_of (snd (the (rsplit_colon k))), cd_intent_id = iid, cd_binding = binding_of st iid\<rparr>"
      using d by (auto simp: totals_consumed [OF p])
    obtain i where "tget (intents st) iid = Some i" "paid_by i k" using consumed_bound [OF p k] by blast
    then show ?thesis
      by (auto simp: d' paid_by_def rsplit_consumed_key bigint_of_int_str binding_of_def)
  qed
  ultimately show ?thesis
    using m by (simp add: totals_def money_ok_def balances_def holds_def)
qed

theorem recon_exact_witness:
  "ta_balances_sum (totals demo3) + ta_holds_sum (totals demo3) = ta_outstanding (totals demo3) \<and>
   ta_balances_sum (totals demo3) = 30"
proof -
  have "lsteps any_open empty_ledger demo3" by (rule demo3_reach) (simp add: any_open_def)
  from recon_exact [OF this] show ?thesis by (simp add: totals_def demo_reserve_run)
qed

end
