(* ===== verification/Refund.thy ===== *)
theory Refund
  imports KvStore JsDate
begin

text \<open>
  Refund records (\<open>src/src/refund/refund.ts\<close>).  A refund is one JSON record in the atomic store, and every
  operation on it is one \<open>update\<close> of \<open>kv-atomic-store.ts\<close> with a function from the stored record to the
  change: the functions \<open>enqueue_change\<close>, \<open>lease_change\<close>, \<open>complete_change\<close>, \<open>unpark_change\<close> and
  \<open>requeue_change\<close> are those arguments, and the operations are \<open>kv_update\<close> of them, with arbitrary requests of
  others in between (\<open>env\<close>).  The abstract state machine is \<open>refund_step\<close>, one change applied in one
  atomic step; every operation that returns is such a step of a state reached during the call.

  The hash and the random capability are arguments (\<open>sha\<close>, \<open>publicId\<close>), and so is the clock.  Amounts are the
  decimal strings of the records.
\<close>

datatype refund_reason = Timeout | Upstream5xx | NonFulfillment | EmptyResponse
datatype refund_state = Pending | Leased | Submitted | Confirmed | ManualReview
datatype pay_mode = ModeCharge | ModeChannel

record payment_proof =
  p_paymentId :: string
  p_paymentTx :: string
  p_payer :: string
  p_recipient :: string
  p_asset :: string
  p_amountAtomic :: string
  p_mode :: pay_mode

record refund_event =
  ev_kind :: string
  ev_at :: string
  ev_from :: refund_state
  ev_discardedRefundTx :: "string option"
  ev_reason :: "string option"

record refund_record =
  refundId :: string
  publicId :: string
  r_state :: refund_state
  r_reason :: refund_reason
  r_payment :: payment_proof
  r_merchant :: string
  r_routeId :: string
  r_orderId :: "string option"
  r_amount :: string
  r_createdAt :: string
  r_events :: "refund_event list"
  r_lease :: "(string \<times> string) option"
  r_refundTx :: "string option"
  r_signedXdr :: "string option"
  r_confirmedLedger :: "int option"
  r_confirmedAt :: "string option"

text \<open>What the store keeps: refund records, and the public capabilities that point to them.\<close>

datatype mppx_val = RefundVal refund_record | PublicRef string

definition PREFIX :: string where "PREFIX = ''refund:v1:''"
definition PUBLIC_PREFIX :: string where "PUBLIC_PREFIX = ''refund:public:''"

text \<open>JavaScript truthiness of an optional string.\<close>

definition is_given :: "string option \<Rightarrow> bool" where
  "is_given s \<longleftrightarrow> s \<noteq> None \<and> s \<noteq> Some []"

definition or_else :: "'a option \<Rightarrow> 'a option \<Rightarrow> 'a option" where
  "or_else a b = (case a of None \<Rightarrow> b | Some x \<Rightarrow> Some x)"

definition refundAmountAtomic :: "pay_mode \<Rightarrow> int \<Rightarrow> int option \<Rightarrow> int" where
  "refundAmountAtomic mode paid delivered =
     (if mode = ModeCharge then paid
      else let d = (case delivered of None \<Rightarrow> 0 | Some x \<Rightarrow> x)
           in if paid \<le> d then 0 else paid - d)"

definition parseRecord :: "mppx_val option \<Rightarrow> refund_record option" where
  "parseRecord raw = (case raw of Some (RefundVal r) \<Rightarrow> Some r | _ \<Rightarrow> None)"

definition is_base32 :: "char \<Rightarrow> bool" where
  "is_base32 c \<longleftrightarrow> (CHR ''A'' \<le> c \<and> c \<le> CHR ''Z'') \<or> (CHR ''2'' \<le> c \<and> c \<le> CHR ''7'')"

definition payerAccount :: "string \<Rightarrow> string js" where
  "payerAccount source =
     (let acc = last (split_on (CHR '':'') source) in
      case acc of
        c # r \<Rightarrow> if c = CHR ''G'' \<and> length r = 55 \<and> list_all is_base32 r then Inr acc
                 else Inl (JsError ''Verified payer DID has no Stellar G account'')
      | [] \<Rightarrow> Inl (JsError ''Verified payer DID has no Stellar G account''))"

definition refundIdForPaymentTx :: "(string \<Rightarrow> string) \<Rightarrow> string \<Rightarrow> string" where
  "refundIdForPaymentTx sha tx = sha (''refund-v1:'' @ tx @ '':full'')"

subsection \<open>enqueueRefund\<close>

record enqueue_input =
  en_proof :: payment_proof
  en_reason :: refund_reason
  en_merchant :: string
  en_routeId :: string
  en_orderId :: "string option"

definition new_refund :: "string \<Rightarrow> string \<Rightarrow> enqueue_input \<Rightarrow> int \<Rightarrow> refund_record" where
  "new_refund rid pub inp now =
     \<lparr>refundId = rid, publicId = pub, r_state = Pending, r_reason = en_reason inp, r_payment = en_proof inp,
      r_merchant = en_merchant inp, r_routeId = en_routeId inp,
      r_orderId = (if is_given (en_orderId inp) then en_orderId inp else None),
      r_amount = p_amountAtomic (en_proof inp), r_createdAt = iso_of now, r_events = [], r_lease = None,
      r_refundTx = None, r_signedXdr = None, r_confirmedLedger = None, r_confirmedAt = None\<rparr>"

definition enqueue_change ::
    "string \<Rightarrow> string \<Rightarrow> enqueue_input \<Rightarrow> int \<Rightarrow> mppx_val option \<Rightarrow> (mppx_val, refund_record) change" where
  "enqueue_change rid pub inp now current =
     (case parseRecord current of
        Some existing \<Rightarrow> Noop existing
      | None \<Rightarrow> let created = new_refund rid pub inp now in Change (SetOp (RefundVal created)) created)"

definition positive_atomic :: "string \<Rightarrow> bool" where
  "positive_atomic s \<longleftrightarrow> s \<noteq> [] \<and> all_digits s \<and> 0 < dec_val s"

definition enqueueRefund ::
    "(nat \<Rightarrow> mppx_val astore \<Rightarrow> mppx_val astore) \<Rightarrow> (nat \<Rightarrow> mppx_val astore \<Rightarrow> mppx_val astore)
      \<Rightarrow> (string \<Rightarrow> string) \<Rightarrow> string \<Rightarrow> enqueue_input \<Rightarrow> int \<Rightarrow> mppx_val astore
      \<Rightarrow> refund_record js \<times> mppx_val astore" where
  "enqueueRefund env env' sha pub inp now st =
     (if \<not> positive_atomic (p_amountAtomic (en_proof inp))
      then (Inl (JsError ''Refund amount must be positive atomic units''), st)
      else
        let rid = refundIdForPaymentTx sha (p_paymentTx (en_proof inp)) in
        case kv_update env (PREFIX @ rid) (enqueue_change rid pub inp now) st of
          (Inl e, st1) \<Rightarrow> (Inl e, st1)
        | (Inr r, st1) \<Rightarrow>
            (case kv_put env' (PUBLIC_PREFIX @ publicId r) (PublicRef (refundId r)) st1 of
               (Inl e, st2) \<Rightarrow> (Inl e, st2)
             | (Inr _, st2) \<Rightarrow> (Inr r, st2)))"

subsection \<open>Readers\<close>

definition listRefunds :: "mppx_val astore \<Rightarrow> refund_record list" where
  "listRefunds st = List.map_filter (\<lambda>v. parseRecord (Some v)) (handleScan PREFIX st)"

definition readRefund :: "string \<Rightarrow> mppx_val astore \<Rightarrow> refund_record option" where
  "readRefund rid st = parseRecord (kv_get (PREFIX @ rid) st)"

definition readRefundByPublicId :: "string \<Rightarrow> mppx_val astore \<Rightarrow> refund_record option" where
  "readRefundByPublicId pub st =
     (case kv_get (PUBLIC_PREFIX @ pub) st of
        Some (PublicRef rid) \<Rightarrow> if rid = [] then None else readRefund rid st
      | _ \<Rightarrow> None)"

subsection \<open>leaseRefund\<close>

definition lease_active :: "int \<Rightarrow> refund_record \<Rightarrow> bool" where
  "lease_active now r \<longleftrightarrow> r_state r = Leased \<and>
     (case r_lease r of None \<Rightarrow> False
      | Some (_, until) \<Rightarrow> (case date_parse until of None \<Rightarrow> False | Some t \<Rightarrow> now < t))"

definition lease_change ::
    "string \<Rightarrow> int \<Rightarrow> mppx_val option \<Rightarrow> (mppx_val, refund_record option) change" where
  "lease_change leaseId now current =
     (case parseRecord current of
        None \<Rightarrow> Noop None
      | Some r \<Rightarrow>
          if r_state r \<noteq> Pending \<and> lease_active now r then Noop None
          else if r_state r \<noteq> Pending \<and> r_state r \<noteq> Leased then Noop None
          else let leased = r\<lparr>r_state := Leased, r_lease := Some (leaseId, iso_of (now + 60000))\<rparr>
               in Change (SetOp (RefundVal leased)) (Some leased))"

definition leaseRefund ::
    "(nat \<Rightarrow> mppx_val astore \<Rightarrow> mppx_val astore) \<Rightarrow> string \<Rightarrow> string \<Rightarrow> int \<Rightarrow> mppx_val astore
      \<Rightarrow> refund_record option js \<times> mppx_val astore" where
  "leaseRefund env rid leaseId now st = kv_update env (PREFIX @ rid) (lease_change leaseId now) st"

subsection \<open>completeRefund\<close>

datatype complete_state = ToSubmitted | ToConfirmed | ToManualReview

fun target :: "complete_state \<Rightarrow> refund_state" where
  "target ToSubmitted = Submitted"
| "target ToConfirmed = Confirmed"
| "target ToManualReview = ManualReview"

record complete_update =
  u_state :: complete_state
  u_refundTx :: string
  u_signedXdr :: "string option"
  u_confirmedLedger :: "int option"

definition held_by :: "string \<Rightarrow> refund_record \<Rightarrow> bool" where
  "held_by leaseId r \<longleftrightarrow> (case r_lease r of None \<Rightarrow> False | Some (l, _) \<Rightarrow> l = leaseId)"

definition identical :: "refund_record \<Rightarrow> complete_update \<Rightarrow> bool" where
  "identical r u \<longleftrightarrow> r_refundTx r = Some (u_refundTx u) \<and> (u_signedXdr u = None \<or> r_signedXdr r = u_signedXdr u)"

definition complete_change ::
    "string \<Rightarrow> complete_update \<Rightarrow> int \<Rightarrow> mppx_val option \<Rightarrow> (mppx_val, refund_record option) change" where
  "complete_change leaseId u now current =
     (case parseRecord current of
        None \<Rightarrow> Noop None
      | Some r \<Rightarrow>
          if r_state r = Confirmed then Noop (Some r)
          else if \<not> held_by leaseId r then Noop None
          else if r_state r = Submitted \<and> u_state u \<noteq> ToConfirmed
          then (if u_state u = ToSubmitted then Noop (if identical r u then Some r else None)
                else if \<not> identical r u then Noop None
                else let reviewed = r\<lparr>r_state := ManualReview\<rparr>
                     in Change (SetOp (RefundVal reviewed)) (Some reviewed))
          else if u_state u = ToConfirmed \<and> r_state r \<noteq> Submitted then Noop None
          else if u_state u = ToSubmitted \<and> (\<not> is_given (u_signedXdr u) \<or> r_state r \<noteq> Leased) then Noop None
          else let next' = r\<lparr>r_state := target (u_state u), r_refundTx := Some (u_refundTx u),
                             r_signedXdr := or_else (u_signedXdr u) (r_signedXdr r),
                             r_confirmedLedger := or_else (u_confirmedLedger u) (r_confirmedLedger r),
                             r_confirmedAt := (if u_state u = ToConfirmed then Some (iso_of now)
                                               else r_confirmedAt r)\<rparr>
               in Change (SetOp (RefundVal next')) (Some next'))"

text \<open>The result, and the order row that is then marked refunded.\<close>

definition order_to_flip :: "refund_record option \<Rightarrow> string option" where
  "order_to_flip res =
     (case res of
        Some r \<Rightarrow> if r_state r = Confirmed \<and> is_given (r_orderId r) then r_orderId r else None
      | None \<Rightarrow> None)"

definition completeRefund ::
    "(nat \<Rightarrow> mppx_val astore \<Rightarrow> mppx_val astore) \<Rightarrow> string \<Rightarrow> string \<Rightarrow> complete_update \<Rightarrow> int
      \<Rightarrow> mppx_val astore \<Rightarrow> (refund_record option \<times> string option) js \<times> mppx_val astore" where
  "completeRefund env rid leaseId u now st =
     (case kv_update env (PREFIX @ rid) (complete_change leaseId u now) st of
        (Inl e, st') \<Rightarrow> (Inl e, st')
      | (Inr res, st') \<Rightarrow> (Inr (res, order_to_flip res), st'))"

subsection \<open>unparkRefund and requeueMalformedRefund\<close>

datatype unpark_outcome = Unparked bool refund_record | UnparkNotFound | UnparkInvalid refund_state

definition unpark_change ::
    "string option \<Rightarrow> int \<Rightarrow> mppx_val option \<Rightarrow> (mppx_val, unpark_outcome) change" where
  "unpark_change reason now current =
     (case parseRecord current of
        None \<Rightarrow> Noop UnparkNotFound
      | Some r \<Rightarrow>
          if r_state r = Pending then Noop (Unparked False r)
          else if r_state r \<noteq> ManualReview then Noop (UnparkInvalid (r_state r))
          else let ev = \<lparr>ev_kind = ''admin_unpark'', ev_at = iso_of now, ev_from = ManualReview,
                         ev_discardedRefundTx = (if is_given (r_refundTx r) then r_refundTx r else None),
                         ev_reason = (if is_given reason then reason else None)\<rparr>;
                   unparked = r\<lparr>r_state := Pending, r_events := r_events r @ [ev], r_lease := None,
                                r_refundTx := None, r_signedXdr := None\<rparr>
               in Change (SetOp (RefundVal unparked)) (Unparked True unparked))"

definition unparkRefund ::
    "(nat \<Rightarrow> mppx_val astore \<Rightarrow> mppx_val astore) \<Rightarrow> string \<Rightarrow> string option \<Rightarrow> int \<Rightarrow> mppx_val astore
      \<Rightarrow> unpark_outcome js \<times> mppx_val astore" where
  "unparkRefund env rid reason now st = kv_update env (PREFIX @ rid) (unpark_change reason now) st"

definition requeue_change ::
    "string \<Rightarrow> string \<Rightarrow> mppx_val option \<Rightarrow> (mppx_val, refund_record option) change" where
  "requeue_change leaseId expectedTx current =
     (case parseRecord current of
        None \<Rightarrow> Noop None
      | Some r \<Rightarrow>
          if r_state r \<noteq> Submitted \<or> \<not> held_by leaseId r then Noop None
          else if r_refundTx r \<noteq> Some expectedTx \<or> \<not> is_given (r_signedXdr r) then Noop None
          else let pending = r\<lparr>r_state := Pending, r_lease := None, r_refundTx := None, r_signedXdr := None\<rparr>
               in Change (SetOp (RefundVal pending)) (Some pending))"

definition requeueMalformedRefund ::
    "(nat \<Rightarrow> mppx_val astore \<Rightarrow> mppx_val astore) \<Rightarrow> string \<Rightarrow> string \<Rightarrow> string \<Rightarrow> mppx_val astore
      \<Rightarrow> refund_record option js \<times> mppx_val astore" where
  "requeueMalformedRefund env rid leaseId expectedTx st =
     kv_update env (PREFIX @ rid) (requeue_change leaseId expectedTx) st"

subsection \<open>The state machine\<close>

text \<open>One write of one of the operations, on the record it finds.\<close>

inductive refund_write :: "string \<Rightarrow> mppx_val option \<Rightarrow> mppx_val write_op \<Rightarrow> bool" for rid where
  enqueued: "enqueue_change rid pub inp now cur = Change wop res \<Longrightarrow>
    positive_atomic (p_amountAtomic (en_proof inp)) \<Longrightarrow> refund_write rid cur wop"
| leased: "lease_change leaseId now cur = Change wop res1 \<Longrightarrow> refund_write rid cur wop"
| completed: "complete_change leaseId u now cur = Change wop res1 \<Longrightarrow> refund_write rid cur wop"
| unparked: "unpark_change reason now cur = Change wop res2 \<Longrightarrow> refund_write rid cur wop"
| requeued: "requeue_change leaseId tx cur = Change wop res1 \<Longrightarrow> refund_write rid cur wop"

inductive refund_step :: "mppx_val astore \<Rightarrow> mppx_val astore \<Rightarrow> bool" where
  wrote: "refund_write rid (value_at st (PREFIX @ rid)) wop \<Longrightarrow>
    refund_step st (apply_write (PREFIX @ rid) (version_at st (PREFIX @ rid)) wop st)"
| elsewhere: "\<not> is_prefix PREFIX key \<Longrightarrow> refund_step st (snd (handleCommit key e wop st))"

inductive_cases refund_stepE: "refund_step st st'"

definition refund_steps :: "mppx_val astore \<Rightarrow> mppx_val astore \<Rightarrow> bool" where
  "refund_steps = refund_step\<^sup>*\<^sup>*"

text \<open>What the states mean for the rest of the record.\<close>

definition refund_ok :: "string \<Rightarrow> refund_record \<Rightarrow> bool" where
  "refund_ok rid r \<longleftrightarrow> refundId r = rid \<and> r_amount r = p_amountAtomic (r_payment r) \<and> positive_atomic (r_amount r) \<and>
     (case r_state r of
        Pending \<Rightarrow> r_lease r = None \<and> r_refundTx r = None \<and> r_signedXdr r = None
      | Leased \<Rightarrow> r_lease r \<noteq> None \<and> r_refundTx r = None \<and> r_signedXdr r = None
      | Submitted \<Rightarrow> r_lease r \<noteq> None \<and> r_refundTx r \<noteq> None \<and> is_given (r_signedXdr r)
      | Confirmed \<Rightarrow> r_refundTx r \<noteq> None \<and> r_signedXdr r \<noteq> None \<and> r_confirmedAt r \<noteq> None
      | ManualReview \<Rightarrow> r_refundTx r \<noteq> None)"

fun may_move :: "refund_state \<Rightarrow> refund_state \<Rightarrow> bool" where
  "may_move Pending s = (s = Leased)"
| "may_move Leased s = (s = Leased \<or> s = Submitted \<or> s = ManualReview)"
| "may_move Submitted s = (s = Confirmed \<or> s = ManualReview \<or> s = Pending)"
| "may_move ManualReview s = (s = Pending \<or> s = ManualReview)"
| "may_move Confirmed s = False"

definition same_refund :: "refund_record \<Rightarrow> refund_record \<Rightarrow> bool" where
  "same_refund r r' \<longleftrightarrow> refundId r' = refundId r \<and> publicId r' = publicId r \<and> r_reason r' = r_reason r \<and>
     r_payment r' = r_payment r \<and> r_merchant r' = r_merchant r \<and> r_routeId r' = r_routeId r \<and>
     r_orderId r' = r_orderId r \<and> r_amount r' = r_amount r \<and> r_createdAt r' = r_createdAt r \<and>
     (\<exists>evs. r_events r' = r_events r @ evs)"

lemma same_refund_refl [simp]: "same_refund r r"
  by (simp add: same_refund_def)

lemma same_refund_trans: "same_refund a b \<Longrightarrow> same_refund b c \<Longrightarrow> same_refund a c"
  by (auto simp: same_refund_def)

text \<open>Each operation's write, when there is a record.\<close>

definition move_to :: "string \<Rightarrow> refund_record \<Rightarrow> refund_record \<Rightarrow> bool" where
  "move_to rid r r' \<longleftrightarrow> may_move (r_state r) (r_state r') \<and> same_refund r r' \<and> refund_ok rid r' \<and>
     (r_state r = Submitted \<longrightarrow> r_state r' = Pending \<or> r_state r' = Confirmed \<or>
       (r_refundTx r' = r_refundTx r \<and> r_signedXdr r' = r_signedXdr r))"

definition moves :: "string \<Rightarrow> refund_record \<Rightarrow> mppx_val write_op \<Rightarrow> bool" where
  "moves rid r wop \<longleftrightarrow> (\<exists>r'. wop = SetOp (RefundVal r') \<and> move_to rid r r')"

lemma moves_Set [simp]: "moves rid r (SetOp (RefundVal r')) = move_to rid r r'"
  by (simp add: moves_def)

lemma parse_Some [simp]: "parseRecord (Some (RefundVal r)) = Some r" "parseRecord None = None"
  by (simp_all add: parseRecord_def)

lemma lease_moves:
  "refund_ok rid r \<Longrightarrow> lease_change l now (Some (RefundVal r)) = Change wop res \<Longrightarrow> moves rid r wop"
  by (auto simp: lease_change_def Let_def move_to_def same_refund_def refund_ok_def split: if_splits refund_state.splits)

lemma unpark_moves:
  "refund_ok rid r \<Longrightarrow> unpark_change reason now (Some (RefundVal r)) = Change wop res \<Longrightarrow> moves rid r wop"
  by (auto simp: unpark_change_def Let_def move_to_def same_refund_def refund_ok_def split: if_splits)

lemma requeue_moves:
  "refund_ok rid r \<Longrightarrow> requeue_change l tx (Some (RefundVal r)) = Change wop res \<Longrightarrow> moves rid r wop"
  by (auto simp: requeue_change_def Let_def move_to_def same_refund_def refund_ok_def split: if_splits)

lemma complete_moves:
  assumes ok: "refund_ok rid r" and ch: "complete_change l u now (Some (RefundVal r)) = Change wop res"
  shows "moves rid r wop"
proof -
  have held: "held_by l r" "r_state r \<noteq> Confirmed"
    using ch by (auto simp: complete_change_def Let_def split: if_splits)
  then have "r_state r \<noteq> Pending" using ok by (auto simp: refund_ok_def held_by_def)
  with held ok ch show ?thesis
    by (cases "r_state r"; cases "u_state u")
       (auto simp: complete_change_def Let_def move_to_def same_refund_def refund_ok_def or_else_def is_given_def
        split: if_splits option.splits)
qed

lemma refund_write_moves:
  "refund_write rid (Some (RefundVal r)) wop \<Longrightarrow> refund_ok rid r \<Longrightarrow> moves rid r wop"
  by (erule refund_write.cases)
     (auto simp: enqueue_change_def dest: lease_moves complete_moves unpark_moves requeue_moves)

lemma refund_write_new:
  "refund_write rid cur wop \<Longrightarrow> parseRecord cur = None \<Longrightarrow>
    \<exists>r'. wop = SetOp (RefundVal r') \<and> r_state r' = Pending \<and> refund_ok rid r'"
  by (erule refund_write.cases)
     (auto simp: enqueue_change_def lease_change_def complete_change_def unpark_change_def requeue_change_def
      Let_def new_refund_def refund_ok_def)

definition refunds_ok :: "mppx_val astore \<Rightarrow> bool" where
  "refunds_ok st \<longleftrightarrow> (\<forall>rid v. value_at st (PREFIX @ rid) = Some v \<longrightarrow> (\<exists>r. v = RefundVal r \<and> refund_ok rid r))"

lemma is_prefix_append [simp]: "is_prefix p (p @ s)"
  by (induction p) simp_all

lemma elsewhere_value: "\<not> is_prefix PREFIX key \<Longrightarrow>
    value_at (snd (handleCommit key e wop st)) (PREFIX @ rid) = value_at st (PREFIX @ rid)"
  by (auto simp: handleCommit_def value_apply_write)

lemma refunds_ok_step: "refund_step st st' \<Longrightarrow> refunds_ok st \<Longrightarrow> refunds_ok st'"
proof (erule refund_stepE)
  fix rid wop
  assume ok: "refunds_ok st" and w: "refund_write rid (value_at st (PREFIX @ rid)) wop"
    and st': "st' = apply_write (PREFIX @ rid) (version_at st (PREFIX @ rid)) wop st"
  have "\<exists>r'. wop = SetOp (RefundVal r') \<and> refund_ok rid r'"
  proof (cases "value_at st (PREFIX @ rid)")
    case None
    with refund_write_new [OF w] show ?thesis by auto
  next
    case (Some v)
    with ok obtain r where r: "v = RefundVal r" "refund_ok rid r" by (auto simp: refunds_ok_def)
    from refund_write_moves [OF w [unfolded Some r(1)] r(2)] show ?thesis by (auto simp: moves_def move_to_def)
  qed
  with ok show "refunds_ok st'" by (auto simp: st' refunds_ok_def value_apply_write)
next
  fix key e wop
  assume "refunds_ok st" "\<not> is_prefix PREFIX key" "st' = snd (handleCommit key e wop st)"
  then show "refunds_ok st'" by (simp add: refunds_ok_def elsewhere_value)
qed

lemma refunds_ok_steps: "refund_steps st st' \<Longrightarrow> refunds_ok st \<Longrightarrow> refunds_ok st'"
  unfolding refund_steps_def by (induction rule: rtranclp_induct) (auto intro: refunds_ok_step)

lemma refunds_ok_empty: "refunds_ok empty_store"
  by (simp add: refunds_ok_def)

text \<open>A step of the machine is a step of the object.\<close>

lemma refund_step_do: "refund_step st st' \<Longrightarrow> do_step st st'"
proof (erule refund_stepE)
  fix rid wop assume "st' = apply_write (PREFIX @ rid) (version_at st (PREFIX @ rid)) wop st"
  then show "do_step st st'"
    using do_step.commit [of st "PREFIX @ rid" "version_at st (PREFIX @ rid)" wop] by (simp add: commit_current)
qed (simp add: do_step.commit)

lemma refund_steps_do: "refund_steps st st' \<Longrightarrow> do_steps st st'"
  unfolding refund_steps_def do_steps_def by (rule rtranclp_mono [THEN predicate2D]) (auto intro: refund_step_do)

lemma refund_steps_refl [simp]: "refund_steps st st"
  by (simp add: refund_steps_def)

lemma refund_steps_trans: "refund_steps a b \<Longrightarrow> refund_steps b c \<Longrightarrow> refund_steps a c"
  unfolding refund_steps_def by (rule rtranclp_trans)

lemma refund_steps_step: "refund_steps a b \<Longrightarrow> refund_step b c \<Longrightarrow> refund_steps a c"
  unfolding refund_steps_def by (rule rtranclp.rtrancl_into_rtrancl)

interpretation refund_cas: cas_reads handleRead handleCommit apply_write refund_steps
  by unfold_locales
    (auto simp: read_version read_value commit_current handleCommit_def
      intro: refund_steps_trans guarded_value refund_steps_do)

text \<open>Every operation that returns has taken one step of the machine, or none, at a state reached during the call.\<close>

lemma update_refines:
  assumes env: "\<forall>n s. refund_steps s (env n s)" and run: "kv_update env (PREFIX @ rid) fn st = (Inr r, st')"
    and fn: "\<And>cur wop r. fn cur = Change wop r \<Longrightarrow> refund_write rid cur wop"
  shows "\<exists>lin. refund_steps st lin \<and> refund_steps lin st' \<and>
    (case fn (value_at lin (PREFIX @ rid)) of
       Noop r' \<Rightarrow> r' = r
     | Change wop r' \<Rightarrow> r' = r \<and> st' = apply_write (PREFIX @ rid) (version_at lin (PREFIX @ rid)) wop lin)"
proof -
  let ?k = "PREFIX @ rid" and ?s0 = "env 0 st"
  have e: "\<And>n s. refund_steps s (env n s)" using env by blast
  have "update_loop handleCommit env ?k fn MAX_UPDATE_RETRIES 1 (value_at ?s0 ?k) (version_at ?s0 ?k) ?s0 = (Inr r, st')"
    using run by (simp add: kv_update_def Let_def handleRead_def)
  from refund_cas.update_loop_decides [OF e this refund_steps_refl, unfolded handleRead_def fst_conv snd_conv]
  obtain lin where lin: "refund_steps ?s0 lin"
    "case fn (value_at lin ?k) of
       Noop r' \<Rightarrow> r' = r \<and> refund_steps lin st' \<and> refund_steps ?s0 st'
     | Change wop r' \<Rightarrow> r' = r \<and> st' = apply_write ?k (version_at lin ?k) wop lin"
    by blast
  then have "refund_steps lin st'"
    by (cases "fn (value_at lin ?k)") (auto intro!: refund_steps_step [OF refund_steps_refl] refund_step.wrote fn)
  with lin refund_steps_trans [OF e lin(1)] show ?thesis
    by (intro exI [of _ lin]) (auto split: change.splits)
qed

end
