(* ===== verification/RefundProps.thy ===== *)
theory RefundProps
  imports Refund
begin

text \<open>
  The properties of the refund records: the life cycle of a record over any number of operations, the
  refinement of the concurrent operations by the steps of the machine, exclusivity of a lease, idempotence of
  enqueueing and of unparking, and the run in which unparking discards an envelope that was submitted.
\<close>

subsection \<open>The life of one record\<close>

definition record_at :: "string \<Rightarrow> mppx_val astore \<Rightarrow> refund_record option" where
  "record_at rid st = parseRecord (value_at st (PREFIX @ rid))"

lemma record_at_value:
  "refunds_ok st \<Longrightarrow> record_at rid st = Some r \<longleftrightarrow> value_at st (PREFIX @ rid) = Some (RefundVal r)"
  by (auto simp: record_at_def parseRecord_def refunds_ok_def split: option.splits mppx_val.splits)

lemma record_ok: "refunds_ok st \<Longrightarrow> record_at rid st = Some r \<Longrightarrow> refund_ok rid r"
  by (auto simp: record_at_value refunds_ok_def)

lemma record_step:
  assumes step: "refund_step st st'" and ok: "refunds_ok st" and r: "record_at rid st = Some r"
  shows "record_at rid st' = Some r \<or> (\<exists>r'. record_at rid st' = Some r' \<and> move_to rid r r')"
  using step
proof (rule refund_stepE)
  fix rid' wop
  assume w: "refund_write rid' (value_at st (PREFIX @ rid')) wop"
    and st': "st' = apply_write (PREFIX @ rid') (version_at st (PREFIX @ rid')) wop st"
  show ?thesis
  proof (cases "rid' = rid")
    case True
    have v: "value_at st (PREFIX @ rid) = Some (RefundVal r)" using r ok by (simp add: record_at_value)
    from refund_write_moves [OF w [unfolded True v] record_ok [OF ok r]]
    show ?thesis by (auto simp: moves_def record_at_def st' value_apply_write True)
  next
    case False
    with r show ?thesis by (simp add: record_at_def st' value_apply_write)
  qed
next
  fix key e wop
  assume "\<not> is_prefix PREFIX key" "st' = snd (handleCommit key e wop st)"
  with r show ?thesis by (simp add: record_at_def elsewhere_value)
qed

definition lives_on :: "refund_record \<Rightarrow> refund_record \<Rightarrow> bool" where
  "lives_on r r' \<longleftrightarrow> same_refund r r' \<and> (r_state r = Confirmed \<longrightarrow> r' = r)"

lemma record_steps:
  assumes "refund_steps st st'" "refunds_ok st" "record_at rid st = Some r"
  shows "\<exists>r'. record_at rid st' = Some r' \<and> lives_on r r'"
  using assms(1) unfolding refund_steps_def
proof (induction rule: rtranclp_induct)
  case base
  with assms(3) show ?case by (simp add: lives_on_def)
next
  case (step s s')
  then obtain q where q: "record_at rid s = Some q" "lives_on r q" by blast
  have "refunds_ok s" using refunds_ok_steps [OF _ assms(2)] step.hyps(1) by (simp add: refund_steps_def)
  from record_step [OF step.hyps(2) this q(1)] obtain q' where "record_at rid s' = Some q'"
    "q' = q \<or> move_to rid q q'" by auto
  with q(2) show ?case
    by (auto simp: lives_on_def move_to_def intro: same_refund_trans)
qed

subsection \<open>Concrete records\<close>

definition demo_proof :: payment_proof where
  "demo_proof = \<lparr>p_paymentId = ''pid'', p_paymentTx = ''tx'', p_payer = ''GP'', p_recipient = ''GR'',
     p_asset = ''CA'', p_amountAtomic = ''42'', p_mode = ModeCharge\<rparr>"

definition demo_input :: enqueue_input where
  "demo_input = \<lparr>en_proof = demo_proof, en_reason = Timeout, en_merchant = ''m'', en_routeId = ''r'',
     en_orderId = None\<rparr>"

definition demo_pending :: refund_record where
  "demo_pending = \<lparr>refundId = ''h'', publicId = ''u'', r_state = Pending, r_reason = Timeout,
     r_payment = demo_proof, r_merchant = ''m'', r_routeId = ''r'', r_orderId = None, r_amount = ''42'',
     r_createdAt = ''2026-01-01T00:00:00.000Z'', r_events = [], r_lease = None, r_refundTx = None,
     r_signedXdr = None, r_confirmedLedger = None, r_confirmedAt = None\<rparr>"

definition store_with :: "refund_record \<Rightarrow> mppx_val astore" where
  "store_with r = \<lparr>vals = [(PREFIX @ refundId r, RefundVal r)], vers = [(PREFIX @ refundId r, 1)]\<rparr>"

lemma store_with_value: "value_at (store_with r) k = (if k = PREFIX @ refundId r then Some (RefundVal r) else None)"
  "version_at (store_with r) (PREFIX @ refundId r) = 1"
  by (simp_all add: store_with_def value_at_def version_at_def)

lemma demo_amount: "positive_atomic ''42''"
  by code_simp

lemma refunds_ok_with: "refund_ok (refundId r) r \<Longrightarrow> refunds_ok (store_with r)"
  by (auto simp: refunds_ok_def store_with_value)

lemma demo_pending_ok: "refund_ok ''h'' demo_pending"
  by (simp add: refund_ok_def demo_pending_def demo_proof_def demo_amount)

definition demo_leased :: refund_record where
  "demo_leased = demo_pending\<lparr>r_state := Leased, r_lease := Some (''w'', iso_of 60000)\<rparr>"

definition demo_submitted :: refund_record where
  "demo_submitted = demo_leased\<lparr>r_state := Submitted, r_refundTx := Some ''rtx'', r_signedXdr := Some ''xdr''\<rparr>"

definition demo_parked :: refund_record where
  "demo_parked = demo_submitted\<lparr>r_state := ManualReview\<rparr>"

lemma demo_ok: "refund_ok ''h'' demo_leased" "refund_ok ''h'' demo_submitted" "refund_ok ''h'' demo_parked"
  by (simp_all add: refund_ok_def demo_parked_def demo_submitted_def demo_leased_def demo_pending_def demo_proof_def
      demo_amount is_given_def)

lemma change_step:
  assumes "refund_write (refundId r) (Some (RefundVal r)) (SetOp (RefundVal r'))"
  shows "\<exists>st'. refund_step (store_with r) st' \<and> value_at st' (PREFIX @ refundId r) = Some (RefundVal r')"
  using refund_step.wrote [of "refundId r" "store_with r" "SetOp (RefundVal r')"] assms
  by (auto simp: store_with_value value_apply_write intro!: exI)

subsection \<open>Properties\<close>

text \<open>C19: the life cycle.  From any sound state, one step moves a refund record only along
  \<open>pending -> leased -> submitted -> confirmed\<close>, \<open>leased\<close> or \<open>submitted -> manual_review\<close>, and back to \<open>pending\<close>
  from \<open>submitted\<close> (requeue) or \<open>manual_review\<close> (unpark); a submitted record keeps its envelope until it is confirmed
  or made pending; the record keeps its payment, amount and identity for ever; and a confirmed record never changes.\<close>

theorem refund_lifecycle:
  assumes "refunds_ok st" "record_at rid st = Some r"
  shows "(refund_step st st' \<longrightarrow> record_at rid st' = Some r \<or>
      (\<exists>r'. record_at rid st' = Some r' \<and> move_to rid r r')) \<and>
    (refund_steps st st' \<longrightarrow> refunds_ok st' \<and>
      (\<exists>r'. record_at rid st' = Some r' \<and> same_refund r r' \<and> (r_state r = Confirmed \<longrightarrow> r' = r)))"
  using record_step [OF _ assms] record_steps [OF _ assms] refunds_ok_steps [OF _ assms(1)]
  by (auto simp: lives_on_def)

definition demo_store2 :: "mppx_val astore" where
  "demo_store2 = apply_write (PREFIX @ ''h'') 1 (SetOp (RefundVal demo_leased)) (store_with demo_pending)"

lemma demo_lease_change:
  "lease_change ''w'' 0 (Some (RefundVal demo_pending)) = Change (SetOp (RefundVal demo_leased)) (Some demo_leased)"
  by (simp add: lease_change_def Let_def demo_leased_def demo_pending_def)

lemma demo_lease_step: "refund_step (store_with demo_pending) demo_store2"
proof -
  have id: "refundId demo_pending = ''h''" by (simp add: demo_pending_def)
  have v: "value_at (store_with demo_pending) (PREFIX @ ''h'') = Some (RefundVal demo_pending)"
    "version_at (store_with demo_pending) (PREFIX @ ''h'') = 1"
    using store_with_value [of demo_pending] by (simp_all add: id)
  have "refund_write ''h'' (Some (RefundVal demo_pending)) (SetOp (RefundVal demo_leased))"
    by (rule refund_write.leased [OF demo_lease_change])
  then have "refund_write ''h'' (value_at (store_with demo_pending) (PREFIX @ ''h'')) (SetOp (RefundVal demo_leased))"
    by (simp add: v)
  from refund_step.wrote [OF this] show ?thesis by (simp add: demo_store2_def v)
qed

lemma demo_reads:
  "record_at ''h'' (store_with demo_pending) = Some demo_pending" "record_at ''h'' demo_store2 = Some demo_leased"
proof -
  have "refundId demo_pending = ''h''" by (simp add: demo_pending_def)
  with store_with_value(1) [of demo_pending] show "record_at ''h'' (store_with demo_pending) = Some demo_pending"
    by (simp add: record_at_def)
  show "record_at ''h'' demo_store2 = Some demo_leased"
    by (simp add: record_at_def demo_store2_def value_apply_write)
qed

theorem refund_lifecycle_witness:
  "refunds_ok demo_store2 \<and> (\<exists>r'. record_at ''h'' demo_store2 = Some r' \<and> same_refund demo_pending r')"
proof -
  have "refunds_ok (store_with demo_pending)"
    by (rule refunds_ok_with) (use demo_pending_ok in \<open>simp add: demo_pending_def\<close>)
  from refund_lifecycle [OF this demo_reads(1), of demo_store2]
  show ?thesis using refund_steps_step [OF refund_steps_refl demo_lease_step] by blast
qed

definition decided ::
    "string \<Rightarrow> (mppx_val option \<Rightarrow> (mppx_val, 'r) change) \<Rightarrow> 'r \<Rightarrow> mppx_val astore \<Rightarrow> mppx_val astore \<Rightarrow> bool" where
  "decided rid fn r st st' \<longleftrightarrow> (\<exists>lin. refund_steps st lin \<and> refund_steps lin st' \<and>
     (case fn (value_at lin (PREFIX @ rid)) of
        Noop r' \<Rightarrow> r' = r
      | Change wop r' \<Rightarrow> r' = r \<and> st' = apply_write (PREFIX @ rid) (version_at lin (PREFIX @ rid)) wop lin))"

lemma decided_update:
  assumes "\<forall>n s. refund_steps s (env n s)" "kv_update env (PREFIX @ rid) fn st = (Inr r, st')"
    and "\<And>cur wop r. fn cur = Change wop r \<Longrightarrow> refund_write rid cur wop"
  shows "decided rid fn r st st'"
  unfolding decided_def by (rule update_refines [OF assms])

text \<open>C32: the operations are atomic under contention.  Whatever refund operations and other requests interleave with
  the requests of \<open>leaseRefund\<close>, \<open>completeRefund\<close>, \<open>unparkRefund\<close> or \<open>requeueMalformedRefund\<close>, if the operation
  returns then its answer was decided on the record in one state \<open>lin\<close> reached during the call, and the call did
  nothing else than that decision's write at \<open>lin\<close>; the whole call is a run of the state machine.\<close>

theorem refund_ops_atomic:
  assumes env: "\<forall>n s. refund_steps s (env n s)"
  shows "(leaseRefund env rid leaseId now st = (Inr res, st1) \<longrightarrow> decided rid (lease_change leaseId now) res st st1) \<and>
    (completeRefund env rid leaseId u now st = (Inr (res, order), st2) \<longrightarrow>
      decided rid (complete_change leaseId u now) res st st2 \<and> order = order_to_flip res) \<and>
    (unparkRefund env rid reason now st = (Inr out, st3) \<longrightarrow> decided rid (unpark_change reason now) out st st3) \<and>
    (requeueMalformedRefund env rid leaseId tx st = (Inr res, st4) \<longrightarrow>
      decided rid (requeue_change leaseId tx) res st st4)"
proof (intro conjI impI)
  assume "leaseRefund env rid leaseId now st = (Inr res, st1)"
  then show "decided rid (lease_change leaseId now) res st st1"
    unfolding leaseRefund_def by (rule decided_update [OF env]) (rule refund_write.leased)
next
  assume "completeRefund env rid leaseId u now st = (Inr (res, order), st2)"
  then have run: "kv_update env (PREFIX @ rid) (complete_change leaseId u now) st = (Inr res, st2)"
    and "order = order_to_flip res"
    by (auto simp: completeRefund_def split: prod.splits sum.splits)
  then show "decided rid (complete_change leaseId u now) res st st2" "order = order_to_flip res"
    by (blast intro: decided_update [OF env run] refund_write.completed)+
next
  assume "unparkRefund env rid reason now st = (Inr out, st3)"
  then show "decided rid (unpark_change reason now) out st st3"
    unfolding unparkRefund_def by (rule decided_update [OF env]) (rule refund_write.unparked)
next
  assume "requeueMalformedRefund env rid leaseId tx st = (Inr res, st4)"
  then show "decided rid (requeue_change leaseId tx) res st st4"
    unfolding requeueMalformedRefund_def by (rule decided_update [OF env]) (rule refund_write.requeued)
qed

text \<open>Two executors race for one pending refund: the rival's lease lands between the read and the commit.\<close>

definition rival_lease :: "nat \<Rightarrow> mppx_val astore \<Rightarrow> mppx_val astore" where
  "rival_lease n s = (if n = 1 then snd (atomic_update (PREFIX @ ''h'') (lease_change ''w'' 0) s) else s)"

lemma atomic_refund_step:
  assumes "\<And>cur wop r. fn cur = Change wop r \<Longrightarrow> refund_write rid cur wop"
  shows "refund_steps s (snd (atomic_update (PREFIX @ rid) fn s))"
  using assms
  by (auto simp: atomic_update_def split: change.splits
      intro!: refund_steps_step [OF refund_steps_refl] refund_step.wrote)

lemma rival_lease_steps: "refund_steps s (rival_lease n s)"
  using atomic_refund_step [of "lease_change ''w'' 0" "''h''" s, OF refund_write.leased]
  by (simp add: rival_lease_def)

lemma kv_update_race:
  assumes "value_at st key = Some v" "fn (Some v) = Change wop r" "env 0 st = st"
    and "env 1 st = st'" "value_at st' key = Some v'" "version_at st' key \<noteq> version_at st key" "fn (Some v') = Noop r'"
  shows "kv_update env key fn st = (Inr r', st')"
  using assms by (simp add: kv_update_def Let_def handleRead_def handleCommit_def MAX_UPDATE_RETRIES_def numeral_eq_Suc)

lemma until_60: "date_parse (iso_of 60000) = Some 60000"
  by (rule iso_roundtrip(1)) (simp add: iso_range_def)

lemma demo_race: "leaseRefund rival_lease ''h'' ''z'' 5 (store_with demo_pending) = (Inr None, demo_store2)"
  unfolding leaseRefund_def
proof (rule kv_update_race)
  have id: "refundId demo_pending = ''h''" by (simp add: demo_pending_def)
  show v: "value_at (store_with demo_pending) (PREFIX @ ''h'') = Some (RefundVal demo_pending)"
    using store_with_value(1) [of demo_pending] by (simp add: id)
  have n: "version_at (store_with demo_pending) (PREFIX @ ''h'') = 1"
    using store_with_value(2) [of demo_pending] by (simp add: id)
  show "lease_change ''z'' 5 (Some (RefundVal demo_pending)) =
      Change (SetOp (RefundVal (demo_pending\<lparr>r_state := Leased, r_lease := Some (''z'', iso_of (5 + 60000))\<rparr>)))
        (Some (demo_pending\<lparr>r_state := Leased, r_lease := Some (''z'', iso_of (5 + 60000))\<rparr>))"
    by (simp add: lease_change_def Let_def demo_pending_def)
  show "rival_lease 1 (store_with demo_pending) = demo_store2"
    by (simp add: rival_lease_def atomic_update_def v n demo_lease_change demo_store2_def)
  show "value_at demo_store2 (PREFIX @ ''h'') = Some (RefundVal demo_leased)"
    "version_at demo_store2 (PREFIX @ ''h'') \<noteq> version_at (store_with demo_pending) (PREFIX @ ''h'')"
    by (simp_all add: demo_store2_def value_apply_write version_apply_write n)
  show "lease_change ''z'' 5 (Some (RefundVal demo_leased)) = Noop None"
    by (simp add: lease_change_def demo_leased_def lease_active_def until_60)
qed (simp add: rival_lease_def)

theorem refund_ops_atomic_witness:
  "decided ''h'' (lease_change ''z'' 5) None (store_with demo_pending) demo_store2"
  using refund_ops_atomic [of rival_lease "''h''" "''z''" 5] rival_lease_steps demo_race by blast

text \<open>A lease is exclusive.  A successful lease makes the record \<open>leased\<close> by that id for sixty seconds; while it is
  active nobody, not even the same executor, can lease the record again, and without its lease id a record
  that is not confirmed can be neither completed nor requeued: all these are refused without a write.\<close>

theorem lease_exclusive:
  assumes "lease_change leaseId now cur = Change wop res"
  shows "\<exists>r. res = Some r \<and> wop = SetOp (RefundVal r) \<and> r_state r = Leased \<and> held_by leaseId r \<and>
    (iso_range (now + 60000) \<longrightarrow> now' < now + 60000 \<longrightarrow>
      lease_change leaseId' now' (Some (RefundVal r)) = Noop None) \<and>
    (leaseId' \<noteq> leaseId \<longrightarrow> complete_change leaseId' u now' (Some (RefundVal r)) = Noop None \<and>
      requeue_change leaseId' tx (Some (RefundVal r)) = Noop None)"
proof -
  obtain r0 where "parseRecord cur = Some r0"
    using assms by (auto simp: lease_change_def split: option.splits)
  with assms have res: "res = Some (r0\<lparr>r_state := Leased, r_lease := Some (leaseId, iso_of (now + 60000))\<rparr>)"
    "wop = SetOp (RefundVal (r0\<lparr>r_state := Leased, r_lease := Some (leaseId, iso_of (now + 60000))\<rparr>))"
    by (auto simp: lease_change_def Let_def split: if_splits)
  then show ?thesis
    by (auto simp: held_by_def lease_change_def lease_active_def iso_roundtrip(1) complete_change_def requeue_change_def)
qed

theorem lease_exclusive_witness:
  "lease_change ''z'' 5 (Some (RefundVal demo_leased)) = Noop None"
  using lease_exclusive [OF demo_lease_change, of 5 "''z''"] by (auto simp: iso_range_def)

subsection \<open>Enqueueing\<close>

abbreviation quiet :: "nat \<Rightarrow> 'v astore \<Rightarrow> 'v astore" where "quiet n s \<equiv> s"

lemma kv_put_quiet: "kv_put quiet key v st = (Inr (), apply_write key (version_at st key) (SetOp v) st)"
  by (simp add: kv_put_def MAX_UPDATE_RETRIES_def numeral_eq_Suc Let_def handleRead_def handleCommit_def)

lemma kv_update_quiet:
  "kv_update quiet key fn st = (Inr (fst (atomic_update key fn st)), snd (atomic_update key fn st))"
  unfolding kv_update_def Let_def handleRead_def prod.case
  by (subst do_cas.update_loop_quiet)
     (auto simp: handleRead_def MAX_UPDATE_RETRIES_def atomic_update_def split: change.splits)

lemma prefixes_differ: "PREFIX @ a \<noteq> PUBLIC_PREFIX @ b"
  by (simp add: PREFIX_def PUBLIC_PREFIX_def)

lemma record_at_public:
  "record_at rid (apply_write (PUBLIC_PREFIX @ pub) n wop st) = record_at rid st"
  using prefixes_differ [of rid pub] by (simp add: record_at_def value_apply_write)

definition id_of :: "(string \<Rightarrow> string) \<Rightarrow> enqueue_input \<Rightarrow> string" where
  "id_of sha inp = refundIdForPaymentTx sha (p_paymentTx (en_proof inp))"

lemma enqueue_run:
  assumes "positive_atomic (p_amountAtomic (en_proof inp))" and rid_def: "rid = id_of sha inp"
    and r_def: "r = (case record_at rid st of Some r \<Rightarrow> r | None \<Rightarrow> new_refund rid pub inp now)"
  shows "\<exists>st'. enqueueRefund quiet quiet sha pub inp now st = (Inr r, st') \<and> record_at rid st' = Some r \<and>
    value_at st' (PUBLIC_PREFIX @ publicId r) = Some (PublicRef (refundId r))"
proof (cases "record_at rid st")
  case (Some r0)
  then have "atomic_update (PREFIX @ rid) (enqueue_change rid pub inp now) st = (r, st)"
    by (simp add: atomic_update_def enqueue_change_def record_at_def r_def)
  with assms(1) Some show ?thesis
    by (simp add: enqueueRefund_def Let_def id_of_def [symmetric] rid_def [symmetric] kv_update_quiet kv_put_quiet record_at_public
        value_apply_write) (simp add: r_def)
next
  case None
  then have "atomic_update (PREFIX @ rid) (enqueue_change rid pub inp now) st =
      (r, apply_write (PREFIX @ rid) (version_at st (PREFIX @ rid)) (SetOp (RefundVal r)) st)"
    by (simp add: atomic_update_def enqueue_change_def record_at_def r_def Let_def)
  with assms(1) show ?thesis
    by (simp add: enqueueRefund_def Let_def id_of_def [symmetric] rid_def [symmetric] kv_update_quiet kv_put_quiet record_at_public
        value_apply_write) (simp add: record_at_def value_apply_write)
qed

text \<open>One refund per payment.  Enqueueing a refund for a settled payment returns the record kept under the hash of
  the payment transaction: the existing one, unchanged, if there is one, else a new pending record for the full
  amount.  Its random capability then leads to it.  Enqueueing again for the same payment, whatever the reason,
  merchant, amount or time say, returns that same record and writes no second one.\<close>

theorem enqueue_idempotent:
  assumes "positive_atomic (p_amountAtomic (en_proof inp))" "positive_atomic (p_amountAtomic (en_proof inp'))"
    and "p_paymentTx (en_proof inp') = p_paymentTx (en_proof inp)" "refunds_ok st"
    and "id_of sha inp \<noteq> []"
  shows "\<exists>r st1 st2. enqueueRefund quiet quiet sha pub inp now st = (Inr r, st1) \<and>
    (case record_at (id_of sha inp) st of Some r0 \<Rightarrow> r = r0 | None \<Rightarrow> r_state r = Pending \<and> r_amount r = p_amountAtomic (en_proof inp)) \<and>
    record_at (id_of sha inp) st1 = Some r \<and> readRefundByPublicId (publicId r) st1 = Some r \<and>
    enqueueRefund quiet quiet sha pub' inp' now' st1 = (Inr r, st2) \<and> record_at (id_of sha inp) st2 = Some r"
proof -
  obtain r st1 where r: "r = (case record_at (id_of sha inp) st of Some r \<Rightarrow> r | None \<Rightarrow> new_refund (id_of sha inp) pub inp now)"
    and run: "enqueueRefund quiet quiet sha pub inp now st = (Inr r, st1)" "record_at (id_of sha inp) st1 = Some r"
      "value_at st1 (PUBLIC_PREFIX @ publicId r) = Some (PublicRef (refundId r))"
    using enqueue_run [OF assms(1), where rid = "id_of sha inp" and sha = sha and st = st and pub = pub and now = now] by blast
  have "refundId r = id_of sha inp"
    using r record_ok [OF assms(4), of "id_of sha inp"] by (auto simp: refund_ok_def new_refund_def split: option.splits)
  with run(2,3) assms(5) have "readRefundByPublicId (publicId r) st1 = Some r"
    by (simp add: readRefundByPublicId_def kv_get_def handleRead_def readRefund_def record_at_def)
  moreover obtain st2 where "enqueueRefund quiet quiet sha pub' inp' now' st1 = (Inr r, st2)" "record_at (id_of sha inp) st2 = Some r"
    using enqueue_run [OF assms(2), where rid = "id_of sha inp" and sha = sha and st = st1 and pub = pub' and now = now'] run(2) assms(3) by (auto simp: id_of_def)
  ultimately show ?thesis
    using run(1,2) r by (auto simp: new_refund_def split: option.splits)
qed

theorem enqueue_idempotent_witness:
  "\<exists>r st1 st2. enqueueRefund quiet quiet (\<lambda>x. x) ''u'' demo_input 0 empty_store = (Inr r, st1) \<and>
    r_state r = Pending \<and> r_amount r = ''42'' \<and>
    enqueueRefund quiet quiet (\<lambda>x. x) ''v'' (demo_input\<lparr>en_reason := Upstream5xx\<rparr>) 9 st1 = (Inr r, st2)"
proof -
  have "positive_atomic (p_amountAtomic (en_proof demo_input))"
    "positive_atomic (p_amountAtomic (en_proof (demo_input\<lparr>en_reason := Upstream5xx\<rparr>)))"
    by (simp_all add: demo_input_def demo_proof_def demo_amount)
  from enqueue_idempotent [OF this _ refunds_ok_empty, of "\<lambda>x. x" "''u''" 0 "''v''" 9]
  show ?thesis
    by (fastforce simp: demo_input_def demo_proof_def refundIdForPaymentTx_def id_of_def record_at_def)
qed

subsection \<open>Unparking\<close>

text \<open>Unparking is narrow and idempotent.  Only a record in \<open>manual_review\<close> is changed: it becomes pending without
  lease and envelope, with one audit event that names the discarded transaction, can be leased at once, and
  unparking it again writes nothing.  A pending record is reported unchanged; any other state is refused.\<close>

theorem unpark_narrow:
  "case unpark_change reason now (Some (RefundVal r)) of
     Noop out \<Rightarrow> r_state r \<noteq> ManualReview \<and>
       out = (if r_state r = Pending then Unparked False r else UnparkInvalid (r_state r))
   | Change wop out \<Rightarrow> r_state r = ManualReview \<and>
       (\<exists>r' ev. wop = SetOp (RefundVal r') \<and> out = Unparked True r' \<and> r_state r' = Pending \<and> same_refund r r' \<and>
         r_lease r' = None \<and> r_refundTx r' = None \<and> r_signedXdr r' = None \<and>
         r_events r' = r_events r @ [ev] \<and>
         ev_discardedRefundTx ev = (if is_given (r_refundTx r) then r_refundTx r else None) \<and>
         unpark_change reason' now' (Some (RefundVal r')) = Noop (Unparked False r') \<and>
         (\<exists>leased. lease_change l now' (Some (RefundVal r')) = Change (SetOp (RefundVal leased)) (Some leased)))"
  by (auto simp: unpark_change_def Let_def same_refund_def lease_change_def)



end
