(* ===== verification/RefundRoutes.thy ===== *)
theory RefundRoutes
  imports RefundProps
begin

text \<open>
  The refund endpoints (\<open>src/src/routes/refunds.ts\<close>), the envelope checks they rest on
  (\<open>src/src/refund/stellar-proof.ts\<close>) and the token comparison (\<open>src/src/utils/timing-safe.ts\<close>).  The Stellar
  SDK's decoder is the argument \<open>decode\<close>: what \<open>TransactionBuilder.fromXDR\<close> reads from a text, or nothing when it
  throws.  The network's RPC is the argument \<open>getTx\<close>, one answer per transaction hash.
\<close>

subsection \<open>timing-safe.ts\<close>

definition char_code :: "char \<Rightarrow> int" where
  "char_code c = of_char c"

unbundle bit_operations_syntax

fun diff_codes :: "string \<Rightarrow> string \<Rightarrow> int \<Rightarrow> int" where
  "diff_codes (a # as) (b # bs) d = diff_codes as bs (d OR (char_code a XOR char_code b))"
| "diff_codes _ _ d = d"

definition timingSafeEqualStr :: "string option \<Rightarrow> string option \<Rightarrow> bool" where
  "timingSafeEqualStr a b =
     (case (a, b) of
        (Some x, Some y) \<Rightarrow>
          if length x = 0 \<or> length y = 0 then False
          else if length x \<noteq> length y then False
          else diff_codes x y 0 = 0
      | _ \<Rightarrow> False)"

subsection \<open>stellar-proof.ts\<close>

datatype net = Pubnet | Testnet

definition networkPassphrase :: "string \<Rightarrow> net js" where
  "networkPassphrase network =
     (if network = ''stellar:pubnet'' then Inr Pubnet
      else if network = ''stellar:testnet'' then Inr Testnet
      else Inl (JsError ''Unsupported Stellar network''))"

text \<open>
  An argument of a contract call as \<open>scValToNative\<close> returns it: a string, a bigint, or another value; what
  \<open>String\<close> and \<open>BigInt\<close> make of the others is kept with them.
\<close>

datatype sc_arg =
  NativeString string "int option"
| NativeBigint int
| NativeOther string "int option"

fun a_string :: "sc_arg \<Rightarrow> string" where
  "a_string (NativeString s _) = s"
| "a_string (NativeBigint n) = int_str n"
| "a_string (NativeOther s _) = s"

fun a_bigint :: "sc_arg \<Rightarrow> int option" where
  "a_bigint (NativeString _ n) = n"
| "a_bigint (NativeBigint n) = Some n"
| "a_bigint (NativeOther _ n) = n"

datatype stellar_op =
  InvokeContract string string "sc_arg list"
| InvokeAddressOther
| InvokeHostOther
| OtherOperation

record stellar_tx =
  t_ops :: "stellar_op list"
  t_source :: string
  t_hash :: string
  t_ext :: int
  t_minTime :: "int option"
  t_maxTime :: "int option"
  t_fee :: int
  t_signatures :: nat
  t_sequence :: int

type_synonym decoder = "net \<Rightarrow> string \<Rightarrow> stellar_tx option"

definition from_xdr :: "decoder \<Rightarrow> string \<Rightarrow> string \<Rightarrow> stellar_tx js" where
  "from_xdr decode xdr network =
     js_bind (networkPassphrase network) (\<lambda>n.
       case decode n xdr of None \<Rightarrow> Inl (JsError ''fromXDR'') | Some tx \<Rightarrow> Inr tx)"

definition arg_string :: "sc_arg list \<Rightarrow> nat \<Rightarrow> string" where
  "arg_string xs i = (if i < length xs then a_string (xs ! i) else ''undefined'')"

definition arg_bigint :: "sc_arg list \<Rightarrow> nat \<Rightarrow> int option" where
  "arg_bigint xs i = (if i < length xs then a_bigint (xs ! i) else None)"

definition check :: "bool \<Rightarrow> string \<Rightarrow> 'a js \<Rightarrow> 'a js" where
  "check bad msg k = (if bad then Inl (JsError msg) else k)"

definition validateSignedRefundXdr :: "decoder \<Rightarrow> refund_record \<Rightarrow> string \<Rightarrow> string \<Rightarrow> string js" where
  "validateSignedRefundXdr decode r xdr network =
     js_bind (from_xdr decode xdr network) (\<lambda>tx.
       case t_ops tx of
         [op] \<Rightarrow>
           (case op of
              OtherOperation \<Rightarrow> Inl (JsError ''Refund transaction must invoke the SAC'')
            | InvokeHostOther \<Rightarrow> Inl (JsError ''Refund host function must invoke a contract'')
            | InvokeAddressOther \<Rightarrow> Inl (JsError ''Refund target must be a contract'')
            | InvokeContract contract fname args \<Rightarrow>
                check (contract \<noteq> p_asset (r_payment r)) ''Refund asset does not match payment asset''
                (check (fname \<noteq> ''transfer'') ''Refund function must be transfer''
                (check (arg_string args 0 \<noteq> p_recipient (r_payment r)) ''Refund source does not match original recipient''
                (check (arg_string args 1 \<noteq> p_payer (r_payment r)) ''Refund destination does not match original payer''
                (case arg_bigint args 2 of
                   None \<Rightarrow> Inl (JsError ''BigInt'')
                 | Some n \<Rightarrow>
                     check (n \<noteq> int (dec_val (r_amount r))) ''Refund amount mismatch''
                     (check (t_source tx \<noteq> p_recipient (r_payment r)) ''Envelope source does not match original recipient''
                     (Inr (t_hash tx))))))))
       | _ \<Rightarrow> Inl (JsError ''Refund transaction must contain exactly one operation''))"

definition hasSorobanTransactionData :: "decoder \<Rightarrow> string \<Rightarrow> string \<Rightarrow> bool js" where
  "hasSorobanTransactionData decode xdr network =
     js_bind (from_xdr decode xdr network) (\<lambda>tx. Inr (t_ext tx = 1))"

datatype tx_status = TxSuccess | TxNotFound | TxFailed

record tx_result =
  tr_status :: tx_status
  tr_ledger :: int
  tr_latestClose :: "int option"
  tr_oldestClose :: "int option"
  tr_envelopeXdr :: string

definition verifyConfirmedRefund ::
    "decoder \<Rightarrow> (string \<Rightarrow> tx_result) \<Rightarrow> refund_record \<Rightarrow> string \<Rightarrow> string \<Rightarrow> (string \<times> int) js" where
  "verifyConfirmedRefund decode getTx r xdr network =
     js_bind (validateSignedRefundXdr decode r xdr network) (\<lambda>txHash.
       if tr_status (getTx txHash) \<noteq> TxSuccess then Inl (JsError ''Refund transaction is not confirmed'')
       else Inr (txHash, tr_ledger (getTx txHash)))"

definition or_zero :: "int option \<Rightarrow> int" where
  "or_zero x = (case x of None \<Rightarrow> 0 | Some n \<Rightarrow> n)"

definition isProvablyDeadEnvelope :: "decoder \<Rightarrow> string \<Rightarrow> string \<Rightarrow> int \<Rightarrow> int \<Rightarrow> bool js" where
  "isProvablyDeadEnvelope decode xdr network latest oldest =
     js_bind (from_xdr decode xdr network) (\<lambda>tx.
       let maxTime = or_zero (t_maxTime tx); minTime = or_zero (t_minTime tx) in
       if maxTime \<le> 0 \<or> minTime \<le> 0 then Inr False
       else if latest \<le> 0 \<or> oldest \<le> 0 then Inr False
       else if latest \<le> maxTime then Inr False
       else Inr (oldest \<le> minTime))"

subsection \<open>Stuck refunds\<close>

definition STUCK_REFUND_THRESHOLD_MS :: int where "STUCK_REFUND_THRESHOLD_MS = 10 * 60000"
definition MIN_STUCK_REFUND_THRESHOLD_MS :: int where "MIN_STUCK_REFUND_THRESHOLD_MS = 60000"
definition MAX_STUCK_REFUNDS :: nat where "MAX_STUCK_REFUNDS = 50"

text \<open>A \<open>StuckRefund\<close> is the record and its age; an unreadable creation time has the age NaN and is dropped.\<close>

definition ages :: "int \<Rightarrow> refund_record list \<Rightarrow> (refund_record \<times> int) list" where
  "ages now records =
     List.map_filter (\<lambda>r. map_option (\<lambda>t. (r, now - t)) (date_parse (r_createdAt r)))
       (filter (\<lambda>r. r_state r \<noteq> Confirmed) records)"

definition selectStuckRefunds :: "refund_record list \<Rightarrow> int \<Rightarrow> int \<Rightarrow> nat \<Rightarrow> (refund_record \<times> int) list" where
  "selectStuckRefunds records now thresholdMs limit =
     take limit (sort_key (\<lambda>x. - snd x) (filter (\<lambda>x. thresholdMs \<le> snd x) (ages now records)))"

subsection \<open>Requests and answers\<close>

record refund_config =
  executor_token :: "string option"
  admin_token :: "string option"
  network :: string

record refund_body =
  b_refundId :: "string option"
  b_leaseId :: "string option"
  b_state :: "string option"
  b_refundTx :: "string option"
  b_signedXdr :: "string option"
  b_paymentTx :: "string option"
  b_reason :: "string option"

text \<open>\<open>rq_minutes\<close>: absent, not finite, or the number of milliseconds the query asks for.\<close>

record refund_request =
  rq_path :: string
  rq_method :: string
  rq_auth :: "string option"
  rq_minutes :: "int option option"
  rq_body :: "refund_body option"

datatype refund_reply =
  RError string
| RJobs "refund_record list"
| RStuck "(refund_record \<times> int) list" bool
| RJob "refund_record option"
| RUnparked bool refund_record

definition lower :: "char \<Rightarrow> char" where
  "lower c = (if CHR ''A'' \<le> c \<and> c \<le> CHR ''Z'' then char_of ((of_char c :: nat) + 32) else c)"

text \<open>\<open>header.replace(/^Bearer\s+/i, '')\<close>\<close>

definition bearer :: "string option \<Rightarrow> string option" where
  "bearer header = map_option (\<lambda>h.
     if map lower (take 6 h) = ''bearer'' \<and> drop 6 h \<noteq> [] \<and> is_space (hd (drop 6 h))
     then dropWhile is_space (drop 6 h) else h) header"

definition authorized :: "refund_config \<Rightarrow> string option \<Rightarrow> bool" where
  "authorized cfg auth =
     (let supplied = bearer auth in
      is_given supplied \<and>
      ((is_given (executor_token cfg) \<and> timingSafeEqualStr supplied (executor_token cfg)) \<or>
       (is_given (admin_token cfg) \<and> timingSafeEqualStr supplied (admin_token cfg))))"

definition adminAuthorized :: "refund_config \<Rightarrow> string option \<Rightarrow> bool" where
  "adminAuthorized cfg auth =
     (let supplied = bearer auth
      in is_given supplied \<and> is_given (admin_token cfg) \<and> timingSafeEqualStr supplied (admin_token cfg))"

definition is_hex64 :: "string \<Rightarrow> bool" where
  "is_hex64 s \<longleftrightarrow> length s = 64 \<and> list_all (\<lambda>c. is_digit c \<or> (CHR ''a'' \<le> c \<and> c \<le> CHR ''f'')) s"

subsection \<open>The endpoints\<close>

text \<open>
  An answer is a status and a body; a throw that the handler does not catch is the left side.  The store
  operations run between requests of others (\<open>env\<close>); the readings before them are of the state the request finds.
\<close>

type_synonym reply = "(nat \<times> refund_reply) js"
type_synonym others = "nat \<Rightarrow> mppx_val astore \<Rightarrow> mppx_val astore"

definition job_reply :: "refund_record option js \<Rightarrow> string \<Rightarrow> reply" where
  "job_reply res err =
     (case res of
        Inl e \<Rightarrow> Inl e
      | Inr None \<Rightarrow> Inr (409, RError err)
      | Inr (Some job) \<Rightarrow> Inr (200, RJob (Some job)))"

definition handlePending :: "mppx_val astore \<Rightarrow> reply" where
  "handlePending st =
     Inr (200, RJobs (filter (\<lambda>job. r_state job = Pending \<or> r_state job = Leased \<or> r_state job = Submitted)
       (listRefunds st)))"

definition handleStuck :: "int option option \<Rightarrow> int \<Rightarrow> mppx_val astore \<Rightarrow> reply" where
  "handleStuck minutes now st =
     (let answer = (\<lambda>thresholdMs. let jobs = selectStuckRefunds (listRefunds st) now thresholdMs MAX_STUCK_REFUNDS
                                 in Inr (200, RStuck jobs (length jobs = MAX_STUCK_REFUNDS)))
      in case minutes of
           None \<Rightarrow> answer STUCK_REFUND_THRESHOLD_MS
         | Some m \<Rightarrow>
             (case m of
                None \<Rightarrow> Inr (400, RError ''minutes must be a number no smaller than 1'')
              | Some ms \<Rightarrow> if ms < MIN_STUCK_REFUND_THRESHOLD_MS
                           then Inr (400, RError ''minutes must be a number no smaller than 1'')
                           else answer ms))"

definition handleUnpark ::
    "others \<Rightarrow> (string \<Rightarrow> string) \<Rightarrow> refund_config \<Rightarrow> refund_request \<Rightarrow> int \<Rightarrow> mppx_val astore
      \<Rightarrow> reply \<times> mppx_val astore" where
  "handleUnpark env sha cfg rq now st =
     (if \<not> adminAuthorized cfg (rq_auth rq) then (Inr (401, RError ''Unauthorized''), st)
      else
        let paymentTx = map_option (map lower) (Option.bind (rq_body rq) b_paymentTx) in
        if paymentTx \<noteq> None \<and> \<not> is_hex64 (the paymentTx)
        then (Inr (400, RError ''paymentTx must be a 64-character hex transaction hash''), st)
        else
          let refundId = (case Option.bind (rq_body rq) b_refundId of
                 Some r \<Rightarrow> if is_hex64 r then Some r else map_option (refundIdForPaymentTx sha) paymentTx
               | None \<Rightarrow> map_option (refundIdForPaymentTx sha) paymentTx) in
          case refundId of
            None \<Rightarrow> (Inr (400, RError ''refundId or paymentTx required''), st)
          | Some rid \<Rightarrow>
              if rid = [] then (Inr (400, RError ''refundId or paymentTx required''), st)
              else
              (case unparkRefund env rid (map_option (take 200) (Option.bind (rq_body rq) b_reason)) now st of
                 (Inl e, st') \<Rightarrow> (Inl e, st')
               | (Inr out, st') \<Rightarrow>
                   ((case out of
                       UnparkNotFound \<Rightarrow> Inr (404, RError ''Refund not found'')
                     | UnparkInvalid _ \<Rightarrow> Inr (409, RError ''Refusing to unpark'')
                     | Unparked changed job \<Rightarrow> Inr (200, RUnparked changed job)), st')))"

definition handleLease ::
    "others \<Rightarrow> string \<Rightarrow> string \<Rightarrow> int \<Rightarrow> mppx_val astore \<Rightarrow> reply \<times> mppx_val astore" where
  "handleLease env rid leaseId now st =
     (case leaseRefund env rid leaseId now st of (res, st') \<Rightarrow> (job_reply res ''Not available'', st'))"

definition complete_and_reply ::
    "others \<Rightarrow> string \<Rightarrow> string \<Rightarrow> complete_update \<Rightarrow> int \<Rightarrow> mppx_val astore \<Rightarrow> reply \<times> mppx_val astore" where
  "complete_and_reply env rid leaseId u now st =
     (case completeRefund env rid leaseId u now st of
        (Inl e, st') \<Rightarrow> (Inl e, st')
      | (Inr (res, _), st') \<Rightarrow> (job_reply (Inr res) ''Lease mismatch'', st'))"

definition handleComplete ::
    "decoder \<Rightarrow> others \<Rightarrow> refund_config \<Rightarrow> refund_body \<Rightarrow> string \<Rightarrow> string \<Rightarrow> int \<Rightarrow> mppx_val astore
      \<Rightarrow> reply \<times> mppx_val astore" where
  "handleComplete decode env cfg body rid leaseId now st =
     (if b_state body \<notin> {Some ''submitted'', Some ''manual_review''} \<or> \<not> is_given (b_refundTx body)
      then (Inr (400, RError ''Valid non-final state and refundTx required''), st)
      else
        let tx = the (b_refundTx body) in
        case readRefund rid st of
          None \<Rightarrow> (Inr (409, RError ''Lease mismatch''), st)
        | Some current \<Rightarrow>
            if \<not> held_by leaseId current then (Inr (409, RError ''Lease mismatch''), st)
            else if b_state body = Some ''submitted''
            then (case b_signedXdr body of
                    None \<Rightarrow> (Inr (400, RError ''signedXdr required''), st)
                  | Some xdr \<Rightarrow>
                      (case validateSignedRefundXdr decode current xdr (network cfg) of
                         Inl e \<Rightarrow> (Inl e, st)
                       | Inr computed \<Rightarrow>
                           if computed \<noteq> tx
                           then (Inr (400, RError ''refundTx does not match signedXdr''), st)
                           else (case hasSorobanTransactionData decode xdr (network cfg) of
                                   Inl e \<Rightarrow> (Inl e, st)
                                 | Inr False \<Rightarrow>
                                     (Inr (400, RError ''Refund transaction is missing Soroban resource data''), st)
                                 | Inr True \<Rightarrow>
                                     complete_and_reply env rid leaseId
                                       \<lparr>u_state = ToSubmitted, u_refundTx = tx, u_signedXdr = Some xdr,
                                        u_confirmedLedger = None\<rparr> now st)))
            else complete_and_reply env rid leaseId
                   \<lparr>u_state = ToManualReview, u_refundTx = tx, u_signedXdr = b_signedXdr body,
                    u_confirmedLedger = None\<rparr> now st)"

definition handleConfirm ::
    "decoder \<Rightarrow> (string \<Rightarrow> tx_result) \<Rightarrow> others \<Rightarrow> refund_config \<Rightarrow> string \<Rightarrow> string \<Rightarrow> int \<Rightarrow> mppx_val astore
      \<Rightarrow> reply \<times> mppx_val astore" where
  "handleConfirm decode getTx env cfg rid leaseId now st =
     (case readRefund rid st of
        None \<Rightarrow> (Inr (409, RError ''Submitted refund not found or lease mismatch''), st)
      | Some current \<Rightarrow>
          if \<not> held_by leaseId current \<or> \<not> is_given (r_signedXdr current) \<or> \<not> is_given (r_refundTx current)
          then (Inr (409, RError ''Submitted refund not found or lease mismatch''), st)
          else (case verifyConfirmedRefund decode getTx current (the (r_signedXdr current)) (network cfg) of
                  Inl e \<Rightarrow> (Inr (409, RError ''error''), st)
                | Inr (txHash, ledger) \<Rightarrow>
                    (case completeRefund env rid leaseId
                            \<lparr>u_state = ToConfirmed, u_refundTx = txHash, u_signedXdr = None,
                             u_confirmedLedger = Some ledger\<rparr> now st of
                       (Inl e, st') \<Rightarrow> (Inr (409, RError ''error''), st')
                     | (Inr (job, _), st') \<Rightarrow> (Inr (200, RJob job), st'))))"

definition may_requeue :: "decoder \<Rightarrow> refund_config \<Rightarrow> string \<Rightarrow> tx_result \<Rightarrow> bool js" where
  \<comment> \<open>whether the envelope may be replaced: malformed, or provably dead\<close>
  "may_requeue decode cfg xdr r =
     js_bind (hasSorobanTransactionData decode xdr (network cfg)) (\<lambda>valid.
       if \<not> valid then Inr True
       else isProvablyDeadEnvelope decode xdr (network cfg) (or_zero (tr_latestClose r)) (or_zero (tr_oldestClose r)))"

definition handleRequeue ::
    "decoder \<Rightarrow> (string \<Rightarrow> tx_result) \<Rightarrow> others \<Rightarrow> refund_config \<Rightarrow> string \<Rightarrow> string \<Rightarrow> mppx_val astore
      \<Rightarrow> reply \<times> mppx_val astore" where
  "handleRequeue decode getTx env cfg rid leaseId st =
     (case readRefund rid st of
        None \<Rightarrow> (Inr (409, RError ''Submitted refund not found or lease mismatch''), st)
      | Some current \<Rightarrow>
          if r_state current \<noteq> Submitted \<or> \<not> held_by leaseId current \<or> \<not> is_given (r_signedXdr current) \<or>
             \<not> is_given (r_refundTx current)
          then (Inr (409, RError ''Submitted refund not found or lease mismatch''), st)
          else
            let xdr = the (r_signedXdr current); tx = the (r_refundTx current) in
            case validateSignedRefundXdr decode current xdr (network cfg) of
              Inl e \<Rightarrow> (Inl e, st)
            | Inr computed \<Rightarrow>
                if computed \<noteq> tx then (Inr (409, RError ''Stored refund proof mismatch''), st)
                else if tr_status (getTx tx) \<noteq> TxNotFound
                then (Inr (409, RError ''Refusing to replace transaction''), st)
                else (case may_requeue decode cfg xdr (getTx tx) of
                        Inl e \<Rightarrow> (Inl e, st)
                      | Inr False \<Rightarrow> (Inr (409, RError ''Refusing to replace: envelope not provably dead''), st)
                      | Inr True \<Rightarrow>
                          (case requeueMalformedRefund env rid leaseId tx st of
                             (res, st') \<Rightarrow> (job_reply res ''Refund changed during recovery'', st'))))"

definition handleRefundAdmin ::
    "decoder \<Rightarrow> (string \<Rightarrow> tx_result) \<Rightarrow> others \<Rightarrow> (string \<Rightarrow> string) \<Rightarrow> refund_config \<Rightarrow> refund_request \<Rightarrow> int
      \<Rightarrow> mppx_val astore \<Rightarrow> reply \<times> mppx_val astore" where
  "handleRefundAdmin decode getTx env sha cfg rq now st =
     (if \<not> authorized cfg (rq_auth rq) then (Inr (401, RError ''Unauthorized''), st)
      else if rq_path rq = ''/admin/refunds/pending'' \<and> rq_method rq = ''GET'' then (handlePending st, st)
      else if rq_path rq = ''/admin/refunds/stuck'' \<and> rq_method rq = ''GET''
      then (handleStuck (rq_minutes rq) now st, st)
      else if rq_path rq = ''/admin/refunds/unpark'' \<and> rq_method rq = ''POST''
      then handleUnpark env sha cfg rq now st
      else case rq_body rq of
        None \<Rightarrow> (Inr (400, RError ''refundId and leaseId required''), st)
      | Some body \<Rightarrow>
          if \<not> is_given (b_refundId body) \<or> \<not> is_given (b_leaseId body)
          then (Inr (400, RError ''refundId and leaseId required''), st)
          else
            let rid = the (b_refundId body); leaseId = the (b_leaseId body) in
            if rq_path rq = ''/admin/refunds/lease'' \<and> rq_method rq = ''POST''
            then handleLease env rid leaseId now st
            else if rq_path rq = ''/admin/refunds/complete'' \<and> rq_method rq = ''POST''
            then handleComplete decode env cfg body rid leaseId now st
            else if rq_path rq = ''/admin/refunds/confirm'' \<and> rq_method rq = ''POST''
            then handleConfirm decode getTx env cfg rid leaseId now st
            else if rq_path rq = ''/admin/refunds/requeue-malformed'' \<and> rq_method rq = ''POST''
            then handleRequeue decode getTx env cfg rid leaseId st
            else (Inr (404, RError ''Not found''), st))"

subsection \<open>The public status\<close>

datatype refund_outcome = RefundedFull | RefundedPartial

record receipt =
  rc_payment_id :: string
  rc_payment_tx :: string
  rc_merchant :: string
  rc_amount :: string
  rc_mode :: pay_mode
  rc_outcome :: refund_outcome
  rc_refund_tx :: "string option"
  rc_refund_amount :: string
  rc_reason :: refund_reason
  rc_confirmed_ledger :: "int option"
  rc_iat :: string
  rc_exp :: "string option"

text \<open>\<open>rc_exp\<close> is absent where \<open>Date.parse\<close> gives NaN and \<open>toISOString\<close> throws.\<close>

definition receipt_of :: "refund_record \<Rightarrow> receipt" where
  "receipt_of r =
     \<lparr>rc_payment_id = p_paymentId (r_payment r), rc_payment_tx = p_paymentTx (r_payment r),
      rc_merchant = r_merchant r, rc_amount = p_amountAtomic (r_payment r), rc_mode = p_mode (r_payment r),
      rc_outcome = (if dec_val (r_amount r) = dec_val (p_amountAtomic (r_payment r)) then RefundedFull
                    else RefundedPartial),
      rc_refund_tx = r_refundTx r, rc_refund_amount = r_amount r, rc_reason = r_reason r,
      rc_confirmed_ledger = r_confirmedLedger r, rc_iat = r_createdAt r,
      rc_exp = map_option (\<lambda>t. iso_of (t + 86400000)) (date_parse (r_createdAt r))\<rparr>"

datatype 's status_reply =
  StatusNotFound
| StatusReceipt 's
| StatusUnavailable
| StatusPending string refund_reason string string string string "string option"

definition is_public_id :: "string \<Rightarrow> bool" where
  "is_public_id s \<longleftrightarrow> length s = 36 \<and>
     list_all (\<lambda>c. is_digit c \<or> (CHR ''a'' \<le> c \<and> c \<le> CHR ''f'') \<or> c = CHR ''-'') s"

text \<open>\<open>sign\<close> is \<open>signReceipt\<close> with the configured key: nothing when no usable key is configured.\<close>

definition handleRefundStatus ::
    "(receipt \<Rightarrow> 's option) \<Rightarrow> string \<Rightarrow> mppx_val astore \<Rightarrow> 's status_reply js" where
  "handleRefundStatus sign pub st =
     (if \<not> is_public_id pub then Inr StatusNotFound
      else case readRefundByPublicId pub st of
        None \<Rightarrow> Inr StatusNotFound
      | Some r \<Rightarrow>
          if r_state r = Confirmed
          then (if rc_exp (receipt_of r) = None then Inl (RangeError ''Invalid time value'')
                else (case sign (receipt_of r) of Some x \<Rightarrow> Inr (StatusReceipt x) | None \<Rightarrow> Inr StatusUnavailable))
          else Inr (StatusPending (publicId r) (r_reason r) (p_paymentTx (r_payment r)) (r_amount r)
                      (r_merchant r) (r_createdAt r) (r_confirmedAt r)))"

subsection \<open>Token comparison\<close>

lemma or_eq_0_int: "(x :: int) OR y = 0 \<longleftrightarrow> x = 0 \<and> y = 0"
  by (auto simp: bit_eq_iff bit_or_iff)

lemma xor_eq_0_int: "(x :: int) XOR y = 0 \<longleftrightarrow> x = y"
  by (auto simp: bit_eq_iff bit_xor_iff)

lemma char_code_inject: "char_code a = char_code b \<longleftrightarrow> a = b"
  by (simp add: char_code_def)

lemma diff_codes_zero: "length a = length b \<Longrightarrow> diff_codes a b d = 0 \<longleftrightarrow> d = 0 \<and> a = b"
  by (induction a b d rule: diff_codes.induct) (auto simp: or_eq_0_int xor_eq_0_int char_code_inject)

lemma token_eq: "timingSafeEqualStr a b \<longleftrightarrow> a = b \<and> is_given a"
  by (cases a; cases b) (auto simp: timingSafeEqualStr_def diff_codes_zero is_given_def)

text \<open>The constant-time comparison is equality of two present, non-empty texts.\<close>

theorem timing_safe_is_equality:
  "timingSafeEqualStr a b \<longleftrightarrow> a = b \<and> is_given a"
  by (rule token_eq)

subsection \<open>Properties\<close>

text \<open>Credentials.  A request to an admin endpoint without the executor's or the operator's token is answered 401
  and changes nothing, and one to \<open>/admin/refunds/unpark\<close> with anything but the operator's own token, the executor's
  included, is answered 401 and changes nothing.\<close>

theorem refund_admin_guarded:
  "((bearer (rq_auth rq) = None \<or> bearer (rq_auth rq) \<notin> {executor_token cfg, admin_token cfg}) \<longrightarrow>
      handleRefundAdmin decode getTx env sha cfg rq now st = (Inr (401, RError ''Unauthorized''), st)) \<and>
   (rq_path rq = ''/admin/refunds/unpark'' \<and> rq_method rq = ''POST'' \<and> bearer (rq_auth rq) \<noteq> admin_token cfg \<longrightarrow>
      handleRefundAdmin decode getTx env sha cfg rq now st = (Inr (401, RError ''Unauthorized''), st))"
  by (auto simp: handleRefundAdmin_def authorized_def adminAuthorized_def handleUnpark_def token_eq is_given_def Let_def)

definition demo_unpark_request :: refund_request where
  "demo_unpark_request = \<lparr>rq_path = ''/admin/refunds/unpark'', rq_method = ''POST'',
     rq_auth = Some ''Bearer exec'', rq_minutes = None, rq_body = None\<rparr>"

theorem refund_admin_guarded_witness:
  "handleRefundAdmin (\<lambda>_ _. None) (\<lambda>_. \<lparr>tr_status = TxFailed, tr_ledger = 0, tr_latestClose = None,
      tr_oldestClose = None, tr_envelopeXdr = []\<rparr>) quiet (\<lambda>x. x)
    \<lparr>executor_token = Some ''exec'', admin_token = Some ''admin'', network = ''stellar:pubnet''\<rparr>
    demo_unpark_request 0 empty_store = (Inr (401, RError ''Unauthorized''), empty_store)"
proof -
  have "bearer (rq_auth demo_unpark_request) = Some ''exec''" by code_simp
  then show ?thesis
    using refund_admin_guarded [of demo_unpark_request
      "\<lparr>executor_token = Some ''exec'', admin_token = Some ''admin'', network = ''stellar:pubnet''\<rparr>"]
    by (simp add: demo_unpark_request_def)
qed

definition cannot_land :: "stellar_tx \<Rightarrow> tx_result \<Rightarrow> bool" where
  "cannot_land tx r \<longleftrightarrow> t_ext tx \<noteq> 1 \<or>
     (\<exists>lo hi latest oldest. t_minTime tx = Some lo \<and> t_maxTime tx = Some hi \<and> tr_latestClose r = Some latest \<and>
        tr_oldestClose r = Some oldest \<and> 0 < lo \<and> 0 < oldest \<and> oldest \<le> lo \<and> 0 < hi \<and> hi < latest)"

lemma js_bind_Inr: "js_bind m f = Inr y \<Longrightarrow> \<exists>x. m = Inr x \<and> f x = Inr y"
  by (cases m) auto

lemma may_requeue_sound:
  assumes "may_requeue decode cfg xdr r = Inr True"
  shows "\<exists>tx. from_xdr decode xdr (network cfg) = Inr tx \<and> cannot_land tx r"
proof -
  obtain tx where "from_xdr decode xdr (network cfg) = Inr tx"
    using assms by (auto simp: may_requeue_def hasSorobanTransactionData_def js_simps)
  with assms show ?thesis
    by (auto simp: may_requeue_def hasSorobanTransactionData_def isProvablyDeadEnvelope_def js_simps cannot_land_def
        Let_def or_zero_def not_le split: if_splits option.splits)
qed


definition demo_tx :: stellar_tx where
  "demo_tx = \<lparr>t_ops = [InvokeContract ''CA'' ''transfer''
       [NativeString ''GR'' None, NativeString ''GP'' None, NativeBigint 42]],
     t_source = ''GR'', t_hash = ''rtx'', t_ext = 1, t_minTime = Some 100, t_maxTime = Some 200,
     t_fee = 1000, t_signatures = 1, t_sequence = 5\<rparr>"

definition demo_decode :: decoder where
  "demo_decode n xdr = (if xdr = ''xdr'' then Some demo_tx else None)"

definition demo_cfg :: refund_config where
  "demo_cfg = \<lparr>executor_token = Some ''exec'', admin_token = Some ''admin'', network = ''stellar:pubnet''\<rparr>"

definition demo_rpc :: "tx_status \<Rightarrow> string \<Rightarrow> tx_result" where
  "demo_rpc status tx = \<lparr>tr_status = status, tr_ledger = 7, tr_latestClose = Some 300, tr_oldestClose = Some 50,
     tr_envelopeXdr = ''pay''\<rparr>"

lemma demo_value: "dec_val ''42'' = 42"
  by code_simp

lemma demo_read: "refundId r = ''h'' \<Longrightarrow> readRefund ''h'' (store_with r) = Some r"
  using store_with_value(1) [of r "PREFIX @ ''h''"] by (simp add: readRefund_def kv_get_def handleRead_def)

lemma demo_version: "refundId r = ''h'' \<Longrightarrow> value_at (store_with r) (PREFIX @ ''h'') = Some (RefundVal r)"
  using store_with_value(1) [of r "PREFIX @ ''h''"] by simp

lemma demo_fields:
  "refundId demo_submitted = ''h''" "r_state demo_submitted = Submitted" "held_by ''w'' demo_submitted"
  "r_signedXdr demo_submitted = Some ''xdr''" "r_refundTx demo_submitted = Some ''rtx''"
  "r_payment demo_submitted = demo_proof" "r_amount demo_submitted = ''42''"
  "refundId demo_leased = ''h''" "r_state demo_leased = Leased" "held_by ''w'' demo_leased"
  "r_payment demo_leased = demo_proof" "r_amount demo_leased = ''42''"
  by (simp_all add: demo_submitted_def demo_leased_def demo_pending_def held_by_def)

lemma demo_xdr: "from_xdr demo_decode ''xdr'' (network demo_cfg) = Inr demo_tx"
  by (simp add: from_xdr_def demo_decode_def networkPassphrase_def demo_cfg_def)

lemma demo_valid:
  "r_payment r = demo_proof \<Longrightarrow> r_amount r = ''42'' \<Longrightarrow>
    validateSignedRefundXdr demo_decode r ''xdr'' (network demo_cfg) = Inr ''rtx''"
  by (simp add: validateSignedRefundXdr_def demo_xdr demo_tx_def check_def demo_proof_def arg_string_def
      arg_bigint_def digit_val_def)

lemma demo_requeue_run:
  "\<exists>st'. handleRequeue demo_decode (demo_rpc TxNotFound) quiet demo_cfg ''h'' ''w'' (store_with demo_submitted) =
    (Inr (200, RJob (Some (demo_submitted\<lparr>r_state := Pending, r_lease := None, r_refundTx := None, r_signedXdr := None\<rparr>))), st')"
proof -
  have "may_requeue demo_decode demo_cfg ''xdr'' (demo_rpc TxNotFound ''rtx'') = Inr True"
    by (simp add: may_requeue_def hasSorobanTransactionData_def isProvablyDeadEnvelope_def demo_xdr demo_tx_def
        demo_rpc_def or_zero_def)
  moreover have "requeue_change ''w'' ''rtx'' (Some (RefundVal demo_submitted)) =
      (let p = demo_submitted\<lparr>r_state := Pending, r_lease := None, r_refundTx := None, r_signedXdr := None\<rparr>
       in Change (SetOp (RefundVal p)) (Some p))"
    by (simp add: requeue_change_def demo_fields is_given_def)
  ultimately show ?thesis
    by (simp add: handleRequeue_def demo_read demo_fields demo_valid is_given_def Let_def demo_rpc_def
        requeueMalformedRefund_def kv_update_quiet atomic_update_def demo_version job_reply_def)
qed


subsection \<open>What is submitted and confirmed\<close>

definition pays_back :: "stellar_tx \<Rightarrow> refund_record \<Rightarrow> bool" where
  "pays_back tx r \<longleftrightarrow> t_source tx = p_recipient (r_payment r) \<and>
     (\<exists>args. t_ops tx = [InvokeContract (p_asset (r_payment r)) ''transfer'' args] \<and>
        arg_string args 0 = p_recipient (r_payment r) \<and> arg_string args 1 = p_payer (r_payment r) \<and>
        arg_bigint args 2 = Some (int (dec_val (r_amount r))))"

lemma check_Inr: "check bad msg k = Inr y \<longleftrightarrow> \<not> bad \<and> k = Inr y"
  by (simp add: check_def)

lemma validate_sound:
  assumes "validateSignedRefundXdr decode r xdr nw = Inr h"
  shows "\<exists>tx. from_xdr decode xdr nw = Inr tx \<and> pays_back tx r \<and> h = t_hash tx"
proof -
  obtain tx where tx: "from_xdr decode xdr nw = Inr tx"
    using assms by (auto simp: validateSignedRefundXdr_def js_simps)
  note v = assms [unfolded validateSignedRefundXdr_def tx js_bind.simps]
  obtain op where op: "t_ops tx = [op]"
    using v by (cases "t_ops tx"; cases "tl (t_ops tx)") simp_all
  note v' = v [unfolded op list.case]
  obtain c f args where "op = InvokeContract c f args" using v' by (cases op) simp_all
  with v' op tx show ?thesis
    by (cases "arg_bigint args 2") (simp_all add: check_Inr pays_back_def)
qed

lemma pays_back_same: "same_refund r r' \<Longrightarrow> pays_back tx r' = pays_back tx r"
  by (simp add: same_refund_def pays_back_def)

definition result_of :: "('v, 'r) change \<Rightarrow> 'r" where
  "result_of ch = (case ch of Noop r \<Rightarrow> r | Change _ r \<Rightarrow> r)"

lemma result_of_simps [simp]: "result_of (Noop r) = r" "result_of (Change w r) = r"
  "result_of (if b then x else y) = (if b then result_of x else result_of y)"
  by (simp_all add: result_of_def)

definition job_ok :: "refund_record \<Rightarrow> complete_update \<Rightarrow> refund_record \<Rightarrow> bool" where
  "job_ok r u job \<longleftrightarrow> same_refund r job \<and> (r_state job = Confirmed \<or>
    (u_state u = ToSubmitted \<longrightarrow> r_state job = Submitted \<and> r_refundTx job = Some (u_refundTx u) \<and>
      (u_signedXdr u \<noteq> None \<longrightarrow> r_signedXdr job = u_signedXdr u))) \<and>
    (u_state u = ToConfirmed \<longrightarrow> r_state job = Confirmed)"

lemma complete_result:
  assumes "result_of (complete_change l u now (Some (RefundVal r))) = Some job"
  shows "job_ok r u job"
proof -
  note c = assms [unfolded complete_change_def parse_Some option.case Let_def result_of_simps]
  show ?thesis
  proof (cases "u_state u")
    case ToSubmitted
    with c show ?thesis
      by (auto simp: job_ok_def identical_def same_refund_def or_else_def split: if_split_asm option.split_asm)
  next
    case ToConfirmed
    with c show ?thesis by (auto simp: job_ok_def same_refund_def split: if_split_asm)
  next
    case ToManualReview
    with c show ?thesis by (auto simp: job_ok_def same_refund_def split: if_split_asm)
  qed
qed

text \<open>A completion that answers with a job: the job is the same refund as the record the request found.\<close>

lemma completed_job:
  assumes env: "\<forall>n s. refund_steps s (env n s)" and ok: "refunds_ok st" and cur: "readRefund rid st = Some current"
    and run: "completeRefund env rid leaseId u now st = (Inr (Some job, order), st')"
  shows "job_ok current u job"
proof -
  have "kv_update env (PREFIX @ rid) (complete_change leaseId u now) st = (Inr (Some job), st')"
    using run by (auto simp: completeRefund_def split: prod.splits sum.splits)
  then have "decided rid (complete_change leaseId u now) (Some job) st st'"
    by (rule decided_update [OF env]) (rule refund_write.completed)
  then obtain lin where lin: "refund_steps st lin"
    "case complete_change leaseId u now (value_at lin (PREFIX @ rid)) of
       Noop r' \<Rightarrow> r' = Some job | Change wop r' \<Rightarrow> r' = Some job \<and>
         st' = apply_write (PREFIX @ rid) (version_at lin (PREFIX @ rid)) wop lin"
    unfolding decided_def by blast
  have "record_at rid st = Some current"
    using cur by (simp add: readRefund_def record_at_def kv_get_def handleRead_def)
  from record_steps [OF lin(1) ok this] obtain r where r: "record_at rid lin = Some r" "same_refund current r"
    by (auto simp: lives_on_def)
  have v: "value_at lin (PREFIX @ rid) = Some (RefundVal r)"
    using r(1) record_at_value [OF refunds_ok_steps [OF lin(1) ok]] by blast
  have "result_of (complete_change leaseId u now (Some (RefundVal r))) = Some job"
    using lin(2) unfolding v by (auto split: change.splits)
  from complete_result [OF this] same_refund_trans [OF r(2)] show ?thesis by (simp add: job_ok_def)
qed


text \<open>C27: what is confirmed was paid back.  If the confirm endpoint answers with a job, then that record is confirmed, and
  the network reported success for the transaction of an envelope that pays its full amount to the original payer.\<close>

theorem confirmed_was_paid:
  assumes "\<forall>n s. refund_steps s (env n s)" "refunds_ok st"
    and "handleConfirm decode getTx env cfg rid leaseId now st = (Inr (200, RJob (Some job)), st')"
  shows "r_state job = Confirmed \<and> (\<exists>xdr tx. from_xdr decode xdr (network cfg) = Inr tx \<and> pays_back tx job \<and>
    tr_status (getTx (t_hash tx)) = TxSuccess)"
proof -
  obtain current h ledger where c: "readRefund rid st = Some current"
    and ver: "verifyConfirmedRefund decode getTx current (the (r_signedXdr current)) (network cfg) = Inr (h, ledger)"
    using assms(3) by (auto simp: handleConfirm_def split: option.splits if_splits sum.splits prod.splits)
  moreover from this assms(3) obtain order where
    "completeRefund env rid leaseId \<lparr>u_state = ToConfirmed, u_refundTx = h, u_signedXdr = None,
       u_confirmedLedger = Some ledger\<rparr> now st = (Inr (Some job, order), st')"
    by (auto simp: handleConfirm_def split: if_splits sum.splits prod.splits)
  note job = completed_job [OF assms(1,2) c this, unfolded job_ok_def]
  obtain tx where "from_xdr decode (the (r_signedXdr current)) (network cfg) = Inr tx" "pays_back tx current"
    "h = t_hash tx" "tr_status (getTx h) = TxSuccess"
    using ver validate_sound [of decode current] by (auto simp: verifyConfirmedRefund_def js_simps split: if_splits)
  with job pays_back_same show ?thesis by fastforce
qed

text \<open>Both endpoints, on the concrete records.\<close>

definition demo_body :: refund_body where
  "demo_body = \<lparr>b_refundId = Some ''h'', b_leaseId = Some ''w'', b_state = Some ''submitted'',
     b_refundTx = Some ''rtx'', b_signedXdr = Some ''xdr'', b_paymentTx = None, b_reason = None\<rparr>"

lemma quiet_steps: "\<forall>n s. refund_steps s (quiet n s)"
  by simp

lemma demo_complete_run:
  "\<exists>st'. handleComplete demo_decode quiet demo_cfg demo_body ''h'' ''w'' 0 (store_with demo_leased) =
    (Inr (200, RJob (Some demo_submitted)), st')"
proof -
  have "hasSorobanTransactionData demo_decode ''xdr'' (network demo_cfg) = Inr True"
    by (simp add: hasSorobanTransactionData_def demo_xdr demo_tx_def)
  moreover have "complete_change ''w'' \<lparr>u_state = ToSubmitted, u_refundTx = ''rtx'', u_signedXdr = Some ''xdr'',
      u_confirmedLedger = None\<rparr> 0 (Some (RefundVal demo_leased)) =
      Change (SetOp (RefundVal demo_submitted)) (Some demo_submitted)"
    by (simp add: complete_change_def demo_fields is_given_def Let_def or_else_def)
       (simp add: demo_submitted_def demo_leased_def demo_pending_def)
  ultimately show ?thesis
    by (simp add: handleComplete_def demo_body_def demo_read demo_fields demo_valid is_given_def Let_def
        complete_and_reply_def completeRefund_def kv_update_quiet atomic_update_def demo_version job_reply_def)
qed


lemma demo_confirm_run:
  "\<exists>job st'. handleConfirm demo_decode (demo_rpc TxSuccess) quiet demo_cfg ''h'' ''w'' 0 (store_with demo_submitted) =
    (Inr (200, RJob (Some job)), st')"
proof -
  have "verifyConfirmedRefund demo_decode (demo_rpc TxSuccess) demo_submitted ''xdr'' (network demo_cfg) = Inr (''rtx'', 7)"
    by (simp add: verifyConfirmedRefund_def demo_valid demo_fields demo_rpc_def)
  then show ?thesis
    by (simp add: handleConfirm_def demo_read demo_fields is_given_def completeRefund_def kv_update_quiet
        atomic_update_def demo_version complete_change_def Let_def)
qed

theorem confirmed_was_paid_witness:
  "\<exists>job st'. handleConfirm demo_decode (demo_rpc TxSuccess) quiet demo_cfg ''h'' ''w'' 0 (store_with demo_submitted) =
    (Inr (200, RJob (Some job)), st') \<and> r_state job = Confirmed"
proof -
  obtain job st' where run: "handleConfirm demo_decode (demo_rpc TxSuccess) quiet demo_cfg ''h'' ''w'' 0
      (store_with demo_submitted) = (Inr (200, RJob (Some job)), st')"
    using demo_confirm_run by blast
  have "refunds_ok (store_with demo_submitted)" by (rule refunds_ok_with) (simp add: demo_fields demo_ok)
  from confirmed_was_paid [OF quiet_steps this run] run show ?thesis by blast
qed

text \<open>Confirming a parked refund is answered with success.  The envelope of a refund under manual review has landed;
  its holder confirms it, the proof is found, and the answer is 200, although nothing was confirmed: the job of the
  answer is null and the record stays under review (the other endpoints answer 409 when the store refuses).\<close>

theorem confirm_of_parked_answers_ok:
  assumes "readRefund rid st = Some r" "r_state r = ManualReview" "held_by leaseId r"
    and "is_given (r_signedXdr r)" "is_given (r_refundTx r)"
    and "verifyConfirmedRefund decode getTx r (the (r_signedXdr r)) (network cfg) = Inr (h, n)"
  shows "handleConfirm decode getTx quiet cfg rid leaseId now st = (Inr (200, RJob None), st)"
proof -
  have "parseRecord (value_at st (PREFIX @ rid)) = Some r"
    using assms(1) by (simp add: readRefund_def kv_get_def handleRead_def)
  with assms show ?thesis
    by (simp add: handleConfirm_def completeRefund_def kv_update_quiet atomic_update_def complete_change_def
        order_to_flip_def)
qed

theorem confirm_of_parked_answers_ok_witness:
  "handleConfirm demo_decode (demo_rpc TxSuccess) quiet demo_cfg ''h'' ''w'' 0 (store_with demo_parked) =
    (Inr (200, RJob None), store_with demo_parked)"
proof (rule confirm_of_parked_answers_ok)
  show "readRefund ''h'' (store_with demo_parked) = Some demo_parked"
    by (rule demo_read) (simp add: demo_parked_def demo_fields)
  show "verifyConfirmedRefund demo_decode (demo_rpc TxSuccess) demo_parked (the (r_signedXdr demo_parked)) (network demo_cfg)
      = Inr (''rtx'', 7)"
    using demo_valid
    by (simp add: verifyConfirmedRefund_def demo_parked_def demo_fields demo_rpc_def validateSignedRefundXdr_def)
  show "held_by ''w'' demo_parked"
    using demo_fields(3) by (simp add: demo_parked_def held_by_def)
qed (simp_all add: demo_parked_def demo_fields is_given_def)

subsection \<open>Stuck refunds\<close>

lemma map_filter_in: "y \<in> set (List.map_filter f xs) \<longleftrightarrow> (\<exists>x\<in>set xs. f x = Some y)"
  by (force simp: List.map_filter_def)

lemma ages_in: "(r, age) \<in> set (ages now records) \<longleftrightarrow>
    r \<in> set records \<and> r_state r \<noteq> Confirmed \<and> date_parse (r_createdAt r) = Some (now - age)"
  by (auto simp: ages_def map_filter_in)

lemma take_sorted_le:
  "sorted_wrt (\<ge>) (map f xs) \<Longrightarrow> x \<in> set (take n xs) \<Longrightarrow> y \<in> set (drop n xs) \<Longrightarrow> f y \<le> (f x :: int)"
proof -
  assume s: "sorted_wrt (\<ge>) (map f xs)" and x: "x \<in> set (take n xs)" and y: "y \<in> set (drop n xs)"
  have "sorted_wrt (\<ge>) (map f (take n xs) @ map f (drop n xs))"
    using s by (metis append_take_drop_id map_append)
  with x y show ?thesis by (auto simp: sorted_wrt_append)
qed

lemma sort_desc: "sorted_wrt (\<ge>) (map f (sort_key (\<lambda>x. - f x) xs))" for f :: "'a \<Rightarrow> int"
proof -
  have "sorted (map (\<lambda>x. - f x) (sort_key (\<lambda>x. - f x) xs))" by simp
  then show ?thesis by (simp add: sorted_wrt_map)
qed

text \<open>The stuck list misses nothing older.  It holds unconfirmed refunds at least as old as the threshold, with their
  true ages, oldest first and at most \<open>limit\<close> of them; and an unconfirmed refund that old with a readable creation time
  is left out only when the list is full of refunds at least as old.\<close>

theorem stuck_refunds_complete:
  "length (selectStuckRefunds records now th limit) \<le> limit \<and>
   sorted_wrt (\<ge>) (map snd (selectStuckRefunds records now th limit)) \<and>
   (\<forall>(r, age)\<in>set (selectStuckRefunds records now th limit). r \<in> set records \<and> r_state r \<noteq> Confirmed \<and>
      th \<le> age \<and> date_parse (r_createdAt r) = Some (now - age)) \<and>
   (\<forall>r t. r \<in> set records \<longrightarrow> r_state r \<noteq> Confirmed \<longrightarrow> date_parse (r_createdAt r) = Some t \<longrightarrow> th \<le> now - t \<longrightarrow>
      (r, now - t) \<in> set (selectStuckRefunds records now th limit) \<or>
      (length (selectStuckRefunds records now th limit) = limit \<and>
       (\<forall>x\<in>set (selectStuckRefunds records now th limit). now - t \<le> snd x)))"
proof -
  define xs where "xs = sort_key (\<lambda>x. - snd x) (filter (\<lambda>x. th \<le> snd x) (ages now records))"
  have out: "selectStuckRefunds records now th limit = take limit xs"
    by (simp add: selectStuckRefunds_def xs_def)
  have xs: "(r, age) \<in> set xs \<longleftrightarrow> r \<in> set records \<and> r_state r \<noteq> Confirmed \<and> th \<le> age \<and>
      date_parse (r_createdAt r) = Some (now - age)" for r age
    by (auto simp: xs_def ages_in)
  have desc: "sorted_wrt (\<ge>) (map snd xs)" unfolding xs_def by (rule sort_desc)
  have "(r, now - t) \<in> set (take limit xs) \<or>
      (length (take limit xs) = limit \<and> (\<forall>x\<in>set (take limit xs). now - t \<le> snd x))"
    if "(r, now - t) \<in> set xs" for r t
  proof (cases "(r, now - t) \<in> set (take limit xs)")
    case False
    then have d: "(r, now - t) \<in> set (drop limit xs)"
      using that by (metis Un_iff append_take_drop_id set_append)
    then have "limit < length xs" by (metis drop_all empty_iff list.set(1) not_le)
    moreover have "\<forall>x\<in>set (take limit xs). now - t \<le> snd x"
      using take_sorted_le [OF desc _ d] by simp
    ultimately show ?thesis by simp
  qed simp
  moreover have "sorted_wrt (\<ge>) (map snd (take limit xs))"
    using desc by (simp add: take_map [symmetric] sorted_wrt_take)
  ultimately show ?thesis
    unfolding out using xs by (auto dest: in_set_takeD)
qed

definition demo_old :: refund_record where
  "demo_old = demo_pending\<lparr>r_createdAt := iso_of 0\<rparr>"

theorem stuck_refunds_complete_witness:
  "(demo_old, 700000) \<in> set (selectStuckRefunds [demo_old] 700000 STUCK_REFUND_THRESHOLD_MS MAX_STUCK_REFUNDS)"
proof -
  have "date_parse (r_createdAt demo_old) = Some 0" "r_state demo_old \<noteq> Confirmed"
    by (simp_all add: demo_old_def demo_pending_def iso_roundtrip(1) iso_range_def)
  moreover have "length (selectStuckRefunds [demo_old] 700000 STUCK_REFUND_THRESHOLD_MS MAX_STUCK_REFUNDS) \<le> 1"
    by (simp add: selectStuckRefunds_def ages_def List.map_filter_def)
  ultimately show ?thesis
    using stuck_refunds_complete [of "[demo_old]" 700000 STUCK_REFUND_THRESHOLD_MS MAX_STUCK_REFUNDS]
    by (auto simp: STUCK_REFUND_THRESHOLD_MS_def MAX_STUCK_REFUNDS_def)
qed

end
