(* ===== verification/RefundSigner.thy ===== *)
theory RefundSigner
  imports RefundRoutes Amount
begin

text \<open>
  The refund signer (\<open>src/src/refund-signer-core.ts\<close>, \<open>src/src/refund-signer.ts\<close>): the Worker that holds the router's
  Stellar key and works off the pending refunds.  Its calls to the router go to the endpoints of \<open>RefundRoutes\<close>,
  on the store that both share; its own ledger is two SQL tables, the reservations and the alert outbox.
  The network is the argument \<open>chain\<close>: what each RPC call answers during the processing of one job.  Building and
  signing an envelope is the SDK's, the argument \<open>build\<close>; the checks on what it built are the code's.
\<close>

subsection \<open>Policy and parsing\<close>

definition PUBLIC_USDC_SAC :: string where
  "PUBLIC_USDC_SAC = ''CCW67TSZV3SSS2HXMBQ5JFGCKJNXKZM7UQUWUZPUTHXSTZLEO7SJMI75''"
definition POLL_ATTEMPTS :: nat where "POLL_ATTEMPTS = 25"
definition HARD_AUTO_REFUND_MAX_ATOMIC :: int where "HARD_AUTO_REFUND_MAX_ATOMIC = 1000000000"
definition HARD_ALERT_THRESHOLD_ATOMIC :: int where "HARD_ALERT_THRESHOLD_ATOMIC = 100000000"
definition HARD_MAX_FEE_STROOPS :: int where "HARD_MAX_FEE_STROOPS = 10000000"
definition REFUND_TX_MIN_TIME_GRACE_SECONDS :: int where "REFUND_TX_MIN_TIME_GRACE_SECONDS = 60"
definition REFUND_TX_VALIDITY_SECONDS :: int where "REFUND_TX_VALIDITY_SECONDS = 600"
definition REFUND_MAX_INCLUSION_FEE_STROOPS :: int where "REFUND_MAX_INCLUSION_FEE_STROOPS = 1000000"

text \<open>\<open>BASE_FEE\<close> of the Stellar SDK, documented as 100 stroops.\<close>

definition BASE_FEE :: int where "BASE_FEE = 100"

datatype refund_policy = Auto | AutoAlert | HoldAlert

definition classifyRefund :: "int \<Rightarrow> int \<Rightarrow> int \<Rightarrow> refund_policy" where
  "classifyRefund amount max' alertThreshold =
     (if max' \<le> amount then HoldAlert else if alertThreshold < amount then AutoAlert else Auto)"

definition assertRefundWithinPaid :: "int \<Rightarrow> int \<Rightarrow> int \<Rightarrow> unit js" where
  "assertRefundWithinPaid reserved amount paid =
     check (reserved < 0 \<or> amount \<le> 0 \<or> paid \<le> 0 \<or> paid < reserved + amount)
       ''cumulative refunds exceed original payment'' (Inr ())"

definition parsePositiveAtomic :: "string \<Rightarrow> int js" where
  "parsePositiveAtomic value =
     check (\<not> positive_atomic value) ''must be positive atomic units'' (Inr (int (dec_val value)))"

definition formatUsdc :: "int \<Rightarrow> string" where
  "formatUsdc amount =
     (let whole = bigint_div amount 10000000;
          fraction = strip_zeros (padStart 7 (CHR ''0'') (int_str (bigint_mod amount 10000000)))
      in if fraction \<noteq> [] then int_str whole @ ''.'' @ fraction else int_str whole)"

subsection \<open>Sequence numbers, statuses and fees\<close>

type_synonym guard = "int option"

text \<open>\<open>RefundSequenceGuard\<close>: the sequence the source account is built with, and what an accepted one records.\<close>

definition advance :: "guard \<Rightarrow> int \<Rightarrow> int" where
  "advance lastAccepted fetched =
     (case lastAccepted of Some a \<Rightarrow> if fetched < a then a else fetched | None \<Rightarrow> fetched)"

definition recordAccepted :: "int \<Rightarrow> guard \<Rightarrow> guard" where
  "recordAccepted value lastAccepted =
     (case lastAccepted of None \<Rightarrow> Some value | Some a \<Rightarrow> if a < value then Some value else Some a)"

definition consumesSequence :: "string \<Rightarrow> bool" where
  "consumesSequence status \<longleftrightarrow> status = ''PENDING'' \<or> status = ''DUPLICATE''"

definition isRetryableSendError :: "string option \<Rightarrow> bool" where
  "isRetryableSendError code \<longleftrightarrow>
     code = Some ''txBadSeq'' \<or> code = Some ''txTooLate'' \<or> code = Some ''txInsufficientFee''"

text \<open>\<open>stats\<close>: the p90 text, absent when the RPC has no such call, it fails, or the field is not a string.\<close>

definition refundInclusionFee :: "string option \<Rightarrow> string" where
  "refundInclusionFee stats =
     (case stats of
        None \<Rightarrow> int_str BASE_FEE
      | Some p90 \<Rightarrow>
          if p90 = [] \<or> \<not> all_digits p90 then int_str BASE_FEE
          else let bid = int (dec_val p90) in
               if bid \<le> BASE_FEE then int_str BASE_FEE
               else int_str (if REFUND_MAX_INCLUSION_FEE_STROOPS < bid then REFUND_MAX_INCLUSION_FEE_STROOPS else bid))"

subsection \<open>Checks on jobs and envelopes\<close>

text \<open>\<open>args[i] !== x\<close> for a string and for a bigint: no conversion.\<close>

definition is_string_arg :: "sc_arg list \<Rightarrow> nat \<Rightarrow> string \<Rightarrow> bool" where
  "is_string_arg xs i x \<longleftrightarrow> i < length xs \<and> (case xs ! i of NativeString s _ \<Rightarrow> s = x | _ \<Rightarrow> False)"

definition is_bigint_arg :: "sc_arg list \<Rightarrow> nat \<Rightarrow> int \<Rightarrow> bool" where
  "is_bigint_arg xs i x \<longleftrightarrow> i < length xs \<and> xs ! i = NativeBigint x"

definition validateTransfer :: "stellar_tx \<Rightarrow> string \<Rightarrow> string \<Rightarrow> string \<Rightarrow> int \<Rightarrow> unit js" where
  "validateTransfer tx from' to' asset amount =
     (case t_ops tx of
        [op] \<Rightarrow>
          (case op of
             OtherOperation \<Rightarrow> Inl (JsError ''transaction must invoke the SAC'')
           | InvokeHostOther \<Rightarrow> Inl (JsError ''invokeContract'')
           | InvokeAddressOther \<Rightarrow> Inl (JsError ''transaction is not the expected SAC transfer'')
           | InvokeContract contract fname args \<Rightarrow>
               check (contract \<noteq> asset \<or> fname \<noteq> ''transfer'') ''transaction is not the expected SAC transfer''
               (check (\<not> is_string_arg args 0 from' \<or> \<not> is_string_arg args 1 to' \<or> \<not> is_bigint_arg args 2 amount)
                  ''transaction transfer fields do not match refund proof'' (Inr ())))
      | _ \<Rightarrow> Inl (JsError ''transaction must contain exactly one operation''))"

definition validateJob :: "string \<Rightarrow> refund_record \<Rightarrow> int js" where
  "validateJob signer job =
     js_bind (parsePositiveAtomic (r_amount job)) (\<lambda>amount.
     check (p_recipient (r_payment job) \<noteq> signer) ''refund signer is not original recipient''
     (check (p_asset (r_payment job) \<noteq> PUBLIC_USDC_SAC) ''refund asset is not pubnet USDC SAC''
     (check (payerAccount (p_payer (r_payment job)) \<noteq> Inr (p_payer (r_payment job)))
        ''refund payer is not a Stellar account'' (Inr amount))))"

definition assertLeasedJobMatches :: "refund_record \<Rightarrow> refund_record \<Rightarrow> unit js" where
  "assertLeasedJobMatches job leased =
     check (\<not> (refundId leased = refundId job \<and> publicId leased = publicId job \<and> r_amount leased = r_amount job \<and>
              r_reason leased = r_reason job \<and> r_merchant leased = r_merchant job \<and> r_payment leased = r_payment job))
       ''leased refund proof changed'' (Inr ())"

subsection \<open>The signer's own state\<close>

record reservation =
  v_payment_tx :: string
  v_amount_atomic :: string
  v_paid_atomic :: int
  v_confirmed :: bool
  v_created_at :: int

text \<open>What an alert says: the values the code prints into its text.\<close>

datatype alert_text =
  HeldAlert string string
| LargeAlert string string
| RejectedAlert string string string string string "string option"
| StuckAlert int refund_state string string string "string option"

record alert_row =
  al_content :: alert_text
  al_sent :: bool
  al_created_at :: int

text \<open>
  The signer, the router's store it works on, and \<open>sg_sent\<close>: the envelopes handed to the network so far.
  \<open>sg_tick\<close> numbers the calls to the outside; the answers of the outside are functions of that number.
\<close>

record signer =
  sg_rows :: "reservation table"
  sg_outbox :: "alert_row table"
  sg_running :: bool
  sg_router :: "mppx_val astore"
  sg_guard :: guard
  sg_sent :: "stellar_tx list"
  sg_tick :: nat

definition reserved_total :: "reservation table \<Rightarrow> string \<Rightarrow> int" where
  "reserved_total rows tx = tsum (\<lambda>v. if v_payment_tx v = tx then int (dec_val (v_amount_atomic v)) else 0) rows"

definition reserve_row :: "refund_record \<Rightarrow> int \<Rightarrow> int \<Rightarrow> reservation table \<Rightarrow> reservation table js" where
  "reserve_row job paidAtomic now rows =
     (case tget rows (refundId job) of
        Some existing \<Rightarrow>
          check (v_payment_tx existing \<noteq> p_paymentTx (r_payment job) \<or> v_amount_atomic existing \<noteq> r_amount job \<or>
                 v_paid_atomic existing \<noteq> paidAtomic) ''refund reservation proof changed'' (Inr rows)
      | None \<Rightarrow>
          js_bind (assertRefundWithinPaid (reserved_total rows (p_paymentTx (r_payment job)))
                     (int (dec_val (r_amount job))) paidAtomic) (\<lambda>_.
          Inr (tput (refundId job)
                 \<lparr>v_payment_tx = p_paymentTx (r_payment job), v_amount_atomic = r_amount job,
                  v_paid_atomic = paidAtomic, v_confirmed = False, v_created_at = now\<rparr> rows)))"

definition confirm_row :: "string \<Rightarrow> reservation table \<Rightarrow> reservation table" where
  "confirm_row rid rows =
     (case tget rows rid of None \<Rightarrow> rows | Some v \<Rightarrow> tput rid (v\<lparr>v_confirmed := True\<rparr>) rows)"

definition insert_alert :: "string \<Rightarrow> alert_text \<Rightarrow> int \<Rightarrow> alert_row table \<Rightarrow> alert_row table" where
  "insert_alert key content now rows =
     (case tget rows key of
        Some _ \<Rightarrow> rows
      | None \<Rightarrow> tput key \<lparr>al_content = content, al_sent = False, al_created_at = now\<rparr> rows)"

subsection \<open>Calls to the outside\<close>

record unsigned_refund =
  un_source :: string
  un_sequence :: int
  un_fee :: string
  un_asset :: string
  un_to :: string
  un_amount :: int
  un_minTime :: int
  un_maxTime :: int

record send_result =
  sr_status :: string
  sr_code :: "string option"

text \<open>What becomes of one HTTP call: it arrives and is answered, or is lost before or after it took effect.\<close>

datatype link = Delivered | LostRequest | LostResponse

record world =
  w_token :: string
  w_signer :: string
  w_max :: string
  w_threshold :: string
  w_router_cfg :: refund_config
  w_decode :: decoder
  w_sha :: "string \<Rightarrow> string"
  w_now :: "nat \<Rightarrow> int"
  w_uuid :: "nat \<Rightarrow> string"
  w_between :: "nat \<Rightarrow> mppx_val astore \<Rightarrow> mppx_val astore"
  w_env :: "nat \<Rightarrow> others"
  w_link :: "nat \<Rightarrow> link"
  w_router_rpc :: "nat \<Rightarrow> string \<Rightarrow> tx_result"
  w_getTx :: "nat \<Rightarrow> string \<Rightarrow> tx_result js"
  w_account :: "nat \<Rightarrow> int js"
  w_p90 :: "nat \<Rightarrow> string option"
  w_prepare :: "nat \<Rightarrow> unsigned_refund \<Rightarrow> stellar_tx js"
  w_toXDR :: "stellar_tx \<Rightarrow> string"
  w_send :: "nat \<Rightarrow> stellar_tx \<Rightarrow> send_result js"
  w_deliver :: "nat \<Rightarrow> alert_text \<Rightarrow> (bool \<times> int option) js"

type_synonym 'a act = "signer \<Rightarrow> 'a js \<times> signer"

definition act_return :: "'a js \<Rightarrow> 'a act" where
  "act_return r s = (r, s)"

definition act_bind :: "'a act \<Rightarrow> ('a \<Rightarrow> 'b act) \<Rightarrow> 'b act" where
  "act_bind f g s = (case f s of (Inl e, s') \<Rightarrow> (Inl e, s') | (Inr a, s') \<Rightarrow> g a s')"

definition act_catch :: "unit act \<Rightarrow> unit act" where
  "act_catch f s = (Inr (), snd (f s))"

fun act_each :: "('a \<Rightarrow> unit act) \<Rightarrow> 'a list \<Rightarrow> unit act" where
  "act_each f [] = act_return (Inr ())"
| "act_each f (x # xs) = act_bind (f x) (\<lambda>_. act_each f xs)"

definition ask :: "(nat \<Rightarrow> 'a js) \<Rightarrow> 'a act" where
  "ask f s = (f (sg_tick s), s\<lparr>sg_tick := Suc (sg_tick s)\<rparr>)"

definition routerApi :: "world \<Rightarrow> string \<Rightarrow> string \<Rightarrow> refund_body option \<Rightarrow> refund_reply act" where
  "routerApi w method path body s =
     (let n = sg_tick s;
          s1 = s\<lparr>sg_tick := Suc n, sg_router := w_between w n (sg_router s)\<rparr>;
          rq = \<lparr>rq_path = path, rq_method = method, rq_auth = Some (''Bearer '' @ w_token w),
                rq_minutes = None, rq_body = body\<rparr>
      in if w_link w n = LostRequest then (Inl (JsError path), s1)
         else (case handleRefundAdmin (w_decode w) (w_router_rpc w n) (w_env w n) (w_sha w) (w_router_cfg w) rq
                      (w_now w n) (sg_router s1) of
                 (answer, st') \<Rightarrow>
                   (case answer of
                      Inl e \<Rightarrow> (Inl (JsError path), s1\<lparr>sg_router := st'\<rparr>)
                    | Inr (status, value) \<Rightarrow>
                        if w_link w n = LostResponse \<or> status < 200 \<or> 299 < status
                        then (Inl (JsError path), s1\<lparr>sg_router := st'\<rparr>)
                        else (Inr value, s1\<lparr>sg_router := st'\<rparr>))))"

definition lease_body :: "refund_record \<Rightarrow> string \<Rightarrow> refund_body" where
  "lease_body job leaseId =
     \<lparr>b_refundId = Some (refundId job), b_leaseId = Some leaseId, b_state = None, b_refundTx = None,
      b_signedXdr = None, b_paymentTx = None, b_reason = None\<rparr>"

definition enqueueAlert :: "world \<Rightarrow> string \<Rightarrow> alert_text \<Rightarrow> unit act" where
  "enqueueAlert w key content s =
     (Inr (), s\<lparr>sg_tick := Suc (sg_tick s),
                sg_outbox := insert_alert key content (w_now w (sg_tick s)) (sg_outbox s)\<rparr>)"

definition reserveJob :: "world \<Rightarrow> refund_record \<Rightarrow> int \<Rightarrow> unit act" where
  "reserveJob w job paidAtomic s =
     (case reserve_row job paidAtomic (w_now w (sg_tick s)) (sg_rows s) of
        Inl e \<Rightarrow> (Inl e, s)
      | Inr rows \<Rightarrow> (Inr (), s\<lparr>sg_tick := Suc (sg_tick s), sg_rows := rows\<rparr>))"

definition markConfirmed :: "string \<Rightarrow> unit act" where
  "markConfirmed rid s = (Inr (), s\<lparr>sg_rows := confirm_row rid (sg_rows s)\<rparr>)"

definition send_tx :: "world \<Rightarrow> stellar_tx \<Rightarrow> send_result act" where
  "send_tx w tx s =
     (w_send w (sg_tick s) tx, s\<lparr>sg_tick := Suc (sg_tick s), sg_sent := sg_sent s @ [tx]\<rparr>)"

definition note_accepted :: "send_result \<Rightarrow> int \<Rightarrow> unit act" where
  "note_accepted send value s =
     (Inr (), if consumesSequence (sr_status send) then s\<lparr>sg_guard := recordAccepted value (sg_guard s)\<rparr> else s)"

subsection \<open>One refund\<close>

definition decode_pub :: "world \<Rightarrow> string \<Rightarrow> stellar_tx js" where
  "decode_pub w xdr =
     (case w_decode w Pubnet xdr of None \<Rightarrow> Inl (JsError ''fromXDR'') | Some tx \<Rightarrow> Inr tx)"

definition original_proof :: "world \<Rightarrow> refund_record \<Rightarrow> tx_result \<Rightarrow> int js" where
  "original_proof w job result =
     (let p = r_payment job in
      check (tr_status result \<noteq> TxSuccess) ''original payment is not confirmed''
      (js_bind (decode_pub w (tr_envelopeXdr result)) (\<lambda>tx.
       check (t_hash tx \<noteq> p_paymentTx p) ''original payment envelope hash mismatch''
       (js_bind (parsePositiveAtomic (p_amountAtomic p)) (\<lambda>paidAtomic.
        js_bind (validateTransfer tx (p_payer p) (p_recipient p) (p_asset p) paidAtomic) (\<lambda>_.
        check (paidAtomic < int (dec_val (r_amount job))) ''refund exceeds original payment'' (Inr paidAtomic)))))))"

definition verifyOriginalPayment :: "world \<Rightarrow> refund_record \<Rightarrow> int act" where
  "verifyOriginalPayment w job =
     act_bind (act_return (check (\<not> is_hex64 (p_paymentTx (r_payment job)))
                 ''invalid payment transaction hash'' (Inr ()))) (\<lambda>_.
     act_bind (ask (\<lambda>n. w_getTx w n (p_paymentTx (r_payment job)))) (\<lambda>result.
     act_return (original_proof w job result)))"

primrec waitForTransaction :: "world \<Rightarrow> string \<Rightarrow> nat \<Rightarrow> unit act" where
  "waitForTransaction w hash 0 = act_return (Inl (JsError ''refund transaction confirmation timed out''))"
| "waitForTransaction w hash (Suc attempts) =
     act_bind (ask (\<lambda>n. w_getTx w n hash)) (\<lambda>result.
       if tr_status result = TxSuccess then act_return (Inr ())
       else if tr_status result = TxFailed then act_return (Inl (JsError ''refund transaction failed''))
       else waitForTransaction w hash attempts)"

definition prepared_checks :: "world \<Rightarrow> refund_record \<Rightarrow> int \<Rightarrow> stellar_tx \<Rightarrow> unit js" where
  "prepared_checks w job amount tx =
     check (t_source tx \<noteq> w_signer w) ''prepared refund source mismatch''
     (check (t_ext tx \<noteq> 1) ''prepared refund lacks Soroban resources''
     (check (HARD_MAX_FEE_STROOPS < t_fee tx) ''prepared refund fee exceeds hard limit''
     (validateTransfer tx (w_signer w) (p_payer (r_payment job)) (p_asset (r_payment job)) amount)))"

text \<open>\<open>prepared.sign(signer)\<close> adds one signature.\<close>

definition signed :: "stellar_tx \<Rightarrow> stellar_tx js" where
  "signed tx = (let tx' = tx\<lparr>t_signatures := Suc (t_signatures tx)\<rparr>
                in check (t_signatures tx' \<noteq> 1) ''prepared refund must have exactly one signature'' (Inr tx'))"

definition refund_request_of :: "world \<Rightarrow> refund_record \<Rightarrow> int \<Rightarrow> int \<Rightarrow> string \<Rightarrow> int \<Rightarrow> int \<Rightarrow> unsigned_refund" where
  "refund_request_of w job amount account fee now1 now2 =
     \<lparr>un_source = w_signer w, un_sequence = account + 1, un_fee = fee, un_asset = p_asset (r_payment job),
      un_to = p_payer (r_payment job), un_amount = amount,
      un_minTime = now1 div 1000 - REFUND_TX_MIN_TIME_GRACE_SECONDS,
      un_maxTime = now2 div 1000 + REFUND_TX_VALIDITY_SECONDS\<rparr>"

definition fetch_account :: "world \<Rightarrow> int act" where
  "fetch_account w s =
     (case w_account w (sg_tick s) of
        Inl e \<Rightarrow> (Inl e, s\<lparr>sg_tick := Suc (sg_tick s)\<rparr>)
      | Inr fetched \<Rightarrow> (Inr (advance (sg_guard s) fetched), s\<lparr>sg_tick := Suc (sg_tick s)\<rparr>))"

definition buildSignedRefund :: "world \<Rightarrow> refund_record \<Rightarrow> int \<Rightarrow> stellar_tx act" where
  "buildSignedRefund w job amount =
     act_bind (fetch_account w) (\<lambda>account.
     act_bind (ask (\<lambda>n. Inr (refundInclusionFee (w_p90 w n)))) (\<lambda>fee.
     act_bind (ask (\<lambda>n. Inr (w_now w n))) (\<lambda>now1.
     act_bind (ask (\<lambda>n. Inr (w_now w n))) (\<lambda>now2.
     act_bind (ask (\<lambda>n. w_prepare w n (refund_request_of w job amount account fee now1 now2))) (\<lambda>prepared.
     act_bind (act_return (prepared_checks w job amount prepared)) (\<lambda>_.
     act_return (signed prepared)))))))"

definition parkRejected :: "world \<Rightarrow> refund_record \<Rightarrow> string \<Rightarrow> unit act" where
  "parkRejected w job refundTx =
     (case r_lease job of
        None \<Rightarrow> act_return (Inl (JsError ''cannot park rejected refund without lease''))
      | Some (leaseId, _) \<Rightarrow>
          if leaseId = [] then act_return (Inl (JsError ''cannot park rejected refund without lease''))
          else act_bind (routerApi w ''POST'' ''/admin/refunds/complete''
                 (Some ((lease_body job leaseId)\<lparr>b_state := Some ''manual_review'', b_refundTx := Some refundTx\<rparr>)))
               (\<lambda>_. act_return (Inr ())))"

definition rejectedAlert :: "world \<Rightarrow> refund_record \<Rightarrow> int \<Rightarrow> string \<Rightarrow> string option \<Rightarrow> unit act" where
  "rejectedAlert w job amount refundTx detail =
     enqueueAlert w (''rejected:'' @ refundId job)
       (RejectedAlert (formatUsdc amount) (r_merchant job) (p_payer (r_payment job))
          (p_paymentTx (r_payment job)) refundTx detail)"

definition beforeRouterConfirm :: "world \<Rightarrow> refund_record \<Rightarrow> int \<Rightarrow> refund_policy \<Rightarrow> string \<Rightarrow> unit act" where
  "beforeRouterConfirm w job amount policy refundTx =
     (if policy = AutoAlert
      then enqueueAlert w (''large:'' @ refundId job) (LargeAlert (formatUsdc amount) refundTx)
      else act_return (Inr ()))"

text \<open>Sending an envelope whose record is submitted, and waiting for it; \<open>leased\<close> is the record that holds the lease.\<close>

definition submit :: "world \<Rightarrow> refund_record \<Rightarrow> int \<Rightarrow> refund_record \<Rightarrow> stellar_tx \<Rightarrow> string \<Rightarrow> unit act" where
  "submit w job amount leased tx refundTx =
     act_bind (send_tx w tx) (\<lambda>send.
       if sr_status send = ''ERROR''
       then (if isRetryableSendError (sr_code send)
             then act_return (Inl (JsError ''left for dead-envelope recovery''))
             else act_bind (parkRejected w leased refundTx) (\<lambda>_.
                  act_bind (rejectedAlert w job amount refundTx (sr_code send)) (\<lambda>_.
                  act_return (Inl (JsError ''refund transaction rejected and parked'')))))
       else act_bind (note_accepted send (t_sequence tx)) (\<lambda>_.
            waitForTransaction w refundTx POLL_ATTEMPTS))"

definition finish :: "world \<Rightarrow> refund_record \<Rightarrow> int \<Rightarrow> refund_policy \<Rightarrow> string \<Rightarrow> string \<Rightarrow> string act" where
  "finish w job amount policy leaseId refundTx =
     act_bind (beforeRouterConfirm w job amount policy refundTx) (\<lambda>_.
     act_bind (routerApi w ''POST'' ''/admin/refunds/confirm'' (Some (lease_body job leaseId))) (\<lambda>_.
     act_return (Inr refundTx)))"

definition leased_job :: "refund_reply \<Rightarrow> refund_record js" where
  "leased_job answer = (case answer of RJob (Some job) \<Rightarrow> Inr job | _ \<Rightarrow> Inl (JsError ''leased.job''))"

definition executePending :: "world \<Rightarrow> refund_record \<Rightarrow> int \<Rightarrow> refund_policy \<Rightarrow> string act" where
  "executePending w job amount0 policy =
     act_bind (ask (\<lambda>n. Inr (w_uuid w n))) (\<lambda>leaseId.
     act_bind (routerApi w ''POST'' ''/admin/refunds/lease'' (Some (lease_body job leaseId))) (\<lambda>answer.
     act_bind (act_return (leased_job answer)) (\<lambda>leased.
     act_bind (act_return (assertLeasedJobMatches job leased)) (\<lambda>_.
     act_bind (act_return (validateJob (w_signer w) leased)) (\<lambda>amount.
     act_bind (buildSignedRefund w leased amount) (\<lambda>prepared.
     act_bind (routerApi w ''POST'' ''/admin/refunds/complete''
       (Some ((lease_body job leaseId)\<lparr>b_state := Some ''submitted'', b_refundTx := Some (t_hash prepared),
                b_signedXdr := Some (w_toXDR w prepared)\<rparr>))) (\<lambda>_.
     act_bind (submit w job amount0 leased prepared (t_hash prepared)) (\<lambda>_.
     finish w job amount0 policy leaseId (t_hash prepared)))))))))"

definition stored_envelope :: "world \<Rightarrow> refund_record \<Rightarrow> (string \<times> string \<times> stellar_tx) js" where
  \<comment> \<open>lease id, hash and decoded envelope of a submitted job, after the checks of \<open>confirmSubmitted\<close>\<close>
  "stored_envelope w job =
     (case (r_signedXdr job, r_refundTx job, r_lease job) of
        (Some xdr, Some refundTx, Some (leaseId, _)) \<Rightarrow>
          check (xdr = [] \<or> refundTx = [] \<or> leaseId = []) ''submitted refund is incomplete''
          (js_bind (decode_pub w xdr) (\<lambda>tx.
           check (t_hash tx \<noteq> refundTx) ''submitted refund hash mismatch''
           (check (t_source tx \<noteq> p_recipient (r_payment job) \<or> t_ext tx \<noteq> 1)
              ''submitted refund envelope is structurally invalid''
           (check (HARD_MAX_FEE_STROOPS < t_fee tx \<or> t_signatures tx \<noteq> 1)
              ''submitted refund exceeds fee or signature limits''
           (js_bind (validateTransfer tx (p_recipient (r_payment job)) (p_payer (r_payment job))
                       (p_asset (r_payment job)) (int (dec_val (r_amount job)))) (\<lambda>_.
            Inr (leaseId, refundTx, tx)))))))
      | _ \<Rightarrow> Inl (JsError ''submitted refund is incomplete''))"

definition looks_dead :: "stellar_tx \<Rightarrow> tx_result \<Rightarrow> bool" where
  "looks_dead tx existing \<longleftrightarrow>
     (let maxTime = or_zero (t_maxTime tx); minTime = or_zero (t_minTime tx);
          ledgerClose = or_zero (tr_latestClose existing); oldestClose = or_zero (tr_oldestClose existing)
      in 0 < maxTime \<and> 0 < minTime \<and> 0 < ledgerClose \<and> maxTime < ledgerClose \<and> 0 < oldestClose \<and>
         oldestClose \<le> minTime \<and> tr_status existing = TxNotFound)"

definition confirmSubmitted :: "world \<Rightarrow> refund_record \<Rightarrow> int \<Rightarrow> refund_policy \<Rightarrow> string act" where
  "confirmSubmitted w job amount policy =
     act_bind (act_return (stored_envelope w job)) (\<lambda>(leaseId, refundTx, tx).
     act_bind (ask (\<lambda>n. w_getTx w n refundTx)) (\<lambda>existing.
       if tr_status existing = TxSuccess then finish w job amount policy leaseId refundTx
       else if looks_dead tx existing
       then act_bind (routerApi w ''POST'' ''/admin/refunds/requeue-malformed'' (Some (lease_body job leaseId))) (\<lambda>_.
            executePending w
              (job\<lparr>r_state := Pending, r_refundTx := None, r_signedXdr := None, r_lease := None\<rparr>) amount policy)
       else act_bind (submit w job amount job tx refundTx) (\<lambda>_.
            finish w job amount policy leaseId refundTx)))"

subsection \<open>A run\<close>

definition refund_job :: "world \<Rightarrow> refund_record \<Rightarrow> int \<Rightarrow> refund_policy \<Rightarrow> unit act" where
  "refund_job w job amount policy =
     (if r_state job = Submitted
      then act_bind (confirmSubmitted w job amount policy) (\<lambda>_. markConfirmed (refundId job))
      else if r_state job = Pending \<or> r_state job = Leased
      then act_bind (executePending w job amount policy) (\<lambda>_. markConfirmed (refundId job))
      else act_return (Inr ()))"

definition process_job :: "world \<Rightarrow> int \<Rightarrow> int \<Rightarrow> refund_record \<Rightarrow> unit act" where
  "process_job w max' threshold job =
     act_bind (act_return (validateJob (w_signer w) job)) (\<lambda>amount.
     act_bind (verifyOriginalPayment w job) (\<lambda>paidAtomic.
       let policy = classifyRefund amount max' threshold in
       if policy = HoldAlert
       then enqueueAlert w (''held:'' @ refundId job) (HeldAlert (formatUsdc amount) (publicId job))
       else act_bind (reserveJob w job paidAtomic) (\<lambda>_. refund_job w job amount policy)))"

definition report_stuck :: "world \<Rightarrow> refund_record \<times> int \<Rightarrow> unit act" where
  "report_stuck w job =
     (case job of (r, ageMs) \<Rightarrow>
        enqueueAlert w (''stuck:'' @ refundId r)
          (StuckAlert (ageMs div 60000) (r_state r) (formatUsdc (int (dec_val (r_amount r)))) (r_merchant r)
             (p_paymentTx (r_payment r)) (r_orderId r)))"

definition reportStuckRefunds :: "world \<Rightarrow> unit act" where
  "reportStuckRefunds w =
     act_catch (act_bind (routerApi w ''GET'' ''/admin/refunds/stuck'' None) (\<lambda>answer.
       case answer of
         RStuck jobs _ \<Rightarrow> act_each (report_stuck w) jobs
       | _ \<Rightarrow> act_return (Inl (JsError ''stuck.jobs''))))"

definition policy_limits :: "world \<Rightarrow> (int \<times> int) js" where
  "policy_limits w =
     js_bind (parsePositiveAtomic (w_max w)) (\<lambda>max'.
     js_bind (parsePositiveAtomic (w_threshold w)) (\<lambda>threshold.
     check (max' \<noteq> HARD_AUTO_REFUND_MAX_ATOMIC \<or> threshold \<noteq> HARD_ALERT_THRESHOLD_ATOMIC)
       ''refund policy configuration does not match hard-coded safety limits'' (Inr (max', threshold))))"

text \<open>A fresh \<open>RefundSequenceGuard\<close>.\<close>

definition new_guard :: "unit act" where
  "new_guard s = (Inr (), s\<lparr>sg_guard := None\<rparr>)"

definition pending_jobs :: "refund_reply \<Rightarrow> refund_record list js" where
  "pending_jobs answer = (case answer of RJobs jobs \<Rightarrow> Inr jobs | _ \<Rightarrow> Inl (JsError ''pending.jobs''))"

definition runRefundSigner :: "world \<Rightarrow> unit act" where
  "runRefundSigner w =
     act_bind (act_return (policy_limits w)) (\<lambda>(max', threshold).
     act_bind (routerApi w ''GET'' ''/admin/refunds/pending'' None) (\<lambda>answer.
     act_bind (act_return (pending_jobs answer)) (\<lambda>jobs.
     act_bind new_guard (\<lambda>_.
     act_bind (act_each (\<lambda>job. act_catch (process_job w max' threshold job)) jobs) (\<lambda>_.
     reportStuckRefunds w)))))"

subsection \<open>The coordinator\<close>

definition sendAlert :: "world \<Rightarrow> alert_text \<Rightarrow> unit act" where
  "sendAlert w content =
     act_bind (ask (\<lambda>n. w_deliver w n content)) (\<lambda>(response_ok, errcode).
     act_return (check (\<not> response_ok) ''DingTalk alert failed''
       (check (errcode \<noteq> Some 0) ''DingTalk alert rejected'' (Inr ()))))"

definition markSent :: "string \<Rightarrow> unit act" where
  "markSent key s =
     (Inr (), case tget (sg_outbox s) key of
        None \<Rightarrow> s
      | Some a \<Rightarrow> s\<lparr>sg_outbox := tput key (a\<lparr>al_sent := True\<rparr>) (sg_outbox s)\<rparr>)"

definition pending_alerts :: "alert_row table \<Rightarrow> (string \<times> alert_row) list" where
  "pending_alerts rows = take 20 (sort_key (\<lambda>a. al_created_at (snd a)) (filter (\<lambda>a. \<not> al_sent (snd a)) rows))"

definition flushAlerts :: "world \<Rightarrow> unit act" where
  "flushAlerts w s =
     act_each (\<lambda>(key, a). act_catch (act_bind (sendAlert w (al_content a)) (\<lambda>_. markSent key)))
       (pending_alerts (sg_outbox s)) s"

definition set_running :: "bool \<Rightarrow> unit act" where
  "set_running b s = (Inr (), s\<lparr>sg_running := b\<rparr>)"

text \<open>The result is \<open>skipped\<close>; the \<open>finally\<close> clears the flag on every way out.\<close>

definition run :: "world \<Rightarrow> bool act" where
  "run w s =
     (if sg_running s then (Inr True, s)
      else case act_bind (set_running True) (\<lambda>_. act_bind (flushAlerts w) (\<lambda>_.
                  act_bind (runRefundSigner w) (\<lambda>_. act_bind (flushAlerts w) (\<lambda>_. act_return (Inr False))))) s of
             (res, s') \<Rightarrow> (res, s'\<lparr>sg_running := False\<rparr>))"

end
