(* ===== verification/SignerInv.thy ===== *)
theory SignerInv
  imports RefundSigner
begin

text \<open>
  What a run of the refund signer keeps.  First the router's side: every request to the refund endpoints is a
  sequence of steps of the refund machine.  Then a small calculus for the signer's actions (\<open>pres\<close>), a locale
  with what an invariant of the signer needs, and two invariants: the refund machine below the router, and the
  books of the signer (the reservations and the envelopes it sent).
\<close>

subsection \<open>The refund endpoints take steps of the refund machine\<close>

lemma update_loop_steps:
  assumes env: "\<forall>n s. refund_steps s (env n s)"
    and fn: "\<And>cur wop r. fn cur = Change wop r \<Longrightarrow> refund_write rid cur wop"
  shows "\<lbrakk>refund_steps held s; handleRead (PREFIX @ rid) held = (cur, ver)\<rbrakk> \<Longrightarrow>
    refund_steps s (snd (update_loop handleCommit env (PREFIX @ rid) fn attempts n cur ver s))"
proof (induction attempts arbitrary: n cur ver s held)
  case 0
  then show ?case by simp
next
  case (Suc attempts)
  let ?k = "PREFIX @ rid" and ?e = "env n s"
  have e: "refund_steps s ?e" using env by blast
  have he: "refund_steps held ?e" by (rule refund_steps_trans [OF Suc.prems(1) e])
  show ?case
  proof (cases "fn cur")
    case (Noop r)
    then show ?thesis by simp
  next
    case (Change wop r)
    show ?thesis
    proof (cases "version_at ?e ?k = ver")
      case True
      have "value_at ?e ?k = cur"
        using guarded_value [OF refund_steps_do [OF he], of ?k] True Suc.prems(2) by (simp add: handleRead_def)
      with True fn [OF Change] have "refund_step ?e (apply_write ?k ver wop ?e)"
        using refund_step.wrote [where st = ?e and rid = rid and wop = wop] by simp
      with True Change e show ?thesis
        by (simp add: handleCommit_def) (rule refund_steps_step)
    next
      case False
      have "refund_steps ?e (snd (update_loop handleCommit env ?k fn attempts (Suc n)
          (value_at ?e ?k) (version_at ?e ?k) ?e))"
        by (rule Suc.IH [OF refund_steps_refl]) (simp add: handleRead_def)
      moreover have "handleCommit ?k ver wop ?e = (CommitConflict (value_at ?e ?k) (version_at ?e ?k), ?e)"
        using False by (simp add: handleCommit_def)
      ultimately show ?thesis using Change refund_steps_trans [OF e] by simp
    qed
  qed
qed

lemma kv_update_steps:
  assumes env: "\<forall>n s. refund_steps s (env n s)"
    and fn: "\<And>cur wop r. fn cur = Change wop r \<Longrightarrow> refund_write rid cur wop"
  shows "refund_steps st (snd (kv_update env (PREFIX @ rid) fn st))"
proof -
  have "refund_steps st (env 0 st)" using env by blast
  moreover obtain cur ver where r: "handleRead (PREFIX @ rid) (env 0 st) = (cur, ver)" by fastforce
  from update_loop_steps [OF env fn refund_steps_refl this]
  have "refund_steps (env 0 st) (snd (kv_update env (PREFIX @ rid) fn st))"
    by (simp add: kv_update_def Let_def r)
  ultimately show ?thesis by (rule refund_steps_trans)
qed

lemma refund_ops_steps:
  assumes env: "\<forall>n s. refund_steps s (env n s)"
  shows "refund_steps st (snd (leaseRefund env rid l now st))"
    "refund_steps st (snd (completeRefund env rid l u now st))"
    "refund_steps st (snd (unparkRefund env rid reason now st))"
    "refund_steps st (snd (requeueMalformedRefund env rid l tx st))"
proof -
  show "refund_steps st (snd (leaseRefund env rid l now st))"
    unfolding leaseRefund_def by (rule kv_update_steps [OF env]) (rule refund_write.leased)
  have "refund_steps st (snd (kv_update env (PREFIX @ rid) (complete_change l u now) st))"
    by (rule kv_update_steps [OF env]) (rule refund_write.completed)
  then show "refund_steps st (snd (completeRefund env rid l u now st))"
    by (auto simp: completeRefund_def split_beta split: sum.split)
  show "refund_steps st (snd (unparkRefund env rid reason now st))"
    unfolding unparkRefund_def by (rule kv_update_steps [OF env]) (rule refund_write.unparked)
  show "refund_steps st (snd (requeueMalformedRefund env rid l tx st))"
    unfolding requeueMalformedRefund_def by (rule kv_update_steps [OF env]) (rule refund_write.requeued)
qed

lemma handler_steps:
  assumes env: "\<forall>n s. refund_steps s (env n s)"
  shows "refund_steps st (snd (handleLease env rid l now st))"
    "refund_steps st (snd (complete_and_reply env rid l u now st))"
    "refund_steps st (snd (handleUnpark env sha cfg rq now st))"
  using refund_ops_steps [OF env]
  by (auto simp: handleLease_def complete_and_reply_def handleUnpark_def Let_def split_beta
      split: sum.split option.split)

lemma handleComplete_steps:
  "\<forall>n s. refund_steps s (env n s) \<Longrightarrow> refund_steps st (snd (handleComplete decode env cfg body rid l now st))"
  using handler_steps(2) [of env]
  by (auto simp: handleComplete_def Let_def split: option.split sum.split bool.split)

lemma handleConfirm_steps:
  "\<forall>n s. refund_steps s (env n s) \<Longrightarrow> refund_steps st (snd (handleConfirm decode getTx env cfg rid l now st))"
  using refund_ops_steps(2) [of env]
  by (auto simp: handleConfirm_def Let_def split_beta split: option.split sum.split)

lemma handleRequeue_steps:
  "\<forall>n s. refund_steps s (env n s) \<Longrightarrow> refund_steps st (snd (handleRequeue decode getTx env cfg rid l st))"
  using refund_ops_steps(4) [of env]
  by (auto simp: handleRequeue_def Let_def split_beta split: option.split sum.split bool.split)

text \<open>Every request to the refund endpoints takes steps of the refund machine, whatever it answers.\<close>

lemma handleRefundAdmin_steps:
  assumes "\<forall>n s. refund_steps s (env n s)"
  shows "refund_steps st (snd (handleRefundAdmin decode getTx env sha cfg rq now st))"
  using handler_steps [OF assms] handleComplete_steps [OF assms] handleConfirm_steps [OF assms]
    handleRequeue_steps [OF assms]
  by (simp add: handleRefundAdmin_def Let_def split: option.split)

subsection \<open>What an action keeps\<close>

text \<open>
  \<open>pres I f Q\<close>: whatever the outcome, the action keeps \<open>I\<close>; and if it returns a value, the value satisfies \<open>Q\<close>.
\<close>

definition pres :: "(signer \<Rightarrow> bool) \<Rightarrow> 'a act \<Rightarrow> ('a \<Rightarrow> bool) \<Rightarrow> bool" where
  "pres I f Q \<longleftrightarrow> (\<forall>s. I s \<longrightarrow> I (snd (f s)) \<and> (\<forall>a. fst (f s) = Inr a \<longrightarrow> Q a))"

lemma presI: "(\<And>s. I s \<Longrightarrow> I (snd (f s))) \<Longrightarrow> pres I f (\<lambda>_. True)"
  by (simp add: pres_def)

lemma presD: "pres I f Q \<Longrightarrow> I s \<Longrightarrow> I (snd (f s))"
  by (simp add: pres_def)

lemma pres_weaken: "pres I f Q \<Longrightarrow> (\<And>a. Q a \<Longrightarrow> R a) \<Longrightarrow> pres I f R"
  by (simp add: pres_def)

lemma pres_return: "pres I (act_return r) (\<lambda>a. r = Inr a)"
  by (simp add: pres_def act_return_def)

lemma pres_return': "pres I (act_return r) (\<lambda>_. True)"
  by (simp add: pres_def act_return_def)

lemma pres_bind: "pres I f Q \<Longrightarrow> (\<And>a. Q a \<Longrightarrow> pres I (g a) R) \<Longrightarrow> pres I (act_bind f g) R"
  unfolding pres_def act_bind_def by (auto split: prod.split sum.split)

lemma pres_catch: "pres I f Q \<Longrightarrow> pres I (act_catch f) (\<lambda>_. True)"
  by (simp add: pres_def act_catch_def)

lemma pres_each: "(\<And>x. x \<in> set xs \<Longrightarrow> pres I (f x) (\<lambda>_. True)) \<Longrightarrow> pres I (act_each f xs) (\<lambda>_. True)"
proof (induction xs)
  case (Cons x xs)
  show ?case unfolding act_each.simps
    by (rule pres_bind [of I "f x" "\<lambda>_. True"], rule Cons.prems, simp, rule Cons.IH, rule Cons.prems, simp)
qed (simp add: pres_return')

text \<open>An action that establishes a stronger invariant on its normal way out.\<close>

lemma pres_strengthen:
  assumes "\<And>s. I s \<Longrightarrow> (case f s of (Inl e, s') \<Rightarrow> I s' | (Inr a, s') \<Rightarrow> J s')"
    and "\<And>a. pres J (g a) R" "\<And>s. J s \<Longrightarrow> I s"
  shows "pres I (act_bind f g) R"
  unfolding pres_def
proof (intro allI impI)
  fix s assume "I s"
  note f = assms(1) [OF this]
  show "I (snd (act_bind f g s)) \<and> (\<forall>a. fst (act_bind f g s) = Inr a \<longrightarrow> R a)"
  proof (cases "f s")
    case (Pair r s')
    show ?thesis
    proof (cases r)
      case (Inl e)
      with f Pair show ?thesis by (simp add: act_bind_def)
    next
      case (Inr a)
      with f Pair have "J s'" by simp
      with assms(2,3) Inr Pair show ?thesis by (simp add: act_bind_def pres_def)
    qed
  qed
qed

subsection \<open>The router under the signer\<close>

text \<open>Others use the store of the router as the refund machine allows.\<close>

definition well_behaved :: "world \<Rightarrow> bool" where
  "well_behaved w \<longleftrightarrow> (\<forall>n s. refund_steps s (w_between w n s)) \<and> (\<forall>k n s. refund_steps s (w_env w k n s))"

lemma routerApi_steps:
  assumes "well_behaved w"
  shows "refund_steps (sg_router s) (sg_router (snd (routerApi w m path body s)))"
proof -
  let ?n = "sg_tick s" and ?s1 = "w_between w (sg_tick s) (sg_router s)"
  have "refund_steps (sg_router s) ?s1" using assms by (simp add: well_behaved_def)
  moreover have "refund_steps ?s1 (snd (handleRefundAdmin (w_decode w) (w_router_rpc w ?n) (w_env w ?n) (w_sha w)
      (w_router_cfg w) rq (w_now w ?n) ?s1))" for rq
    using assms by (intro handleRefundAdmin_steps) (simp add: well_behaved_def)
  ultimately show ?thesis
    by (auto simp: routerApi_def Let_def split_beta split: sum.split intro: refund_steps_trans)
qed

lemma routerApi_frame:
  "sg_rows (snd (routerApi w m path body s)) = sg_rows s"
  "sg_sent (snd (routerApi w m path body s)) = sg_sent s"
  "sg_outbox (snd (routerApi w m path body s)) = sg_outbox s"
  by (simp_all add: routerApi_def Let_def split_beta split: sum.split)

text \<open>The actions that are neither a router call nor a change of rows, outbox or sent envelopes.\<close>

lemma ask_pres: "(\<And>s n. I s \<Longrightarrow> I (s\<lparr>sg_tick := n\<rparr>)) \<Longrightarrow> pres I (ask f) (\<lambda>a. \<exists>n. f n = Inr a)"
  by (auto simp: pres_def ask_def)

lemma fetch_pres: "(\<And>s n. I s \<Longrightarrow> I (s\<lparr>sg_tick := n\<rparr>)) \<Longrightarrow> pres I (fetch_account w) (\<lambda>_. True)"
  by (auto simp: pres_def fetch_account_def split: sum.split)

definition transfers :: "stellar_tx \<Rightarrow> string \<Rightarrow> string \<Rightarrow> string \<Rightarrow> int \<Rightarrow> bool" where
  "transfers tx from' to' asset amount \<longleftrightarrow> (\<exists>args. t_ops tx = [InvokeContract asset ''transfer'' args] \<and>
     is_string_arg args 0 from' \<and> is_string_arg args 1 to' \<and> is_bigint_arg args 2 amount)"

lemma validateTransfer_iff: "validateTransfer tx f t a n = Inr u \<longleftrightarrow> transfers tx f t a n"
proof -
  have "t_ops tx = [] \<or> (\<exists>op. t_ops tx = [op]) \<or> (\<exists>x y zs. t_ops tx = x # y # zs)"
    by (metis list.exhaust)
  then show ?thesis
    by (elim disjE exE)
      (auto simp: validateTransfer_def transfers_def check_Inr split: stellar_op.split)
qed

lemma arg_unique: "is_string_arg xs i x \<Longrightarrow> is_string_arg xs i y \<Longrightarrow> x = y"
  "is_bigint_arg xs i m \<Longrightarrow> is_bigint_arg xs i n \<Longrightarrow> m = n"
  by (auto simp: is_string_arg_def is_bigint_arg_def split: sc_arg.split_asm)

lemma transfers_unique:
  "transfers t a b asset m \<Longrightarrow> transfers u a' b' asset' n \<Longrightarrow> t_ops t = t_ops u \<Longrightarrow> a = a' \<and> b = b' \<and> m = n"
  unfolding transfers_def using arg_unique by fastforce

lemma validateJob_sound:
  "validateJob signer job = Inr amount \<Longrightarrow> positive_atomic (r_amount job) \<and> amount = int (dec_val (r_amount job)) \<and>
    p_recipient (r_payment job) = signer \<and> p_asset (r_payment job) = PUBLIC_USDC_SAC"
  by (auto simp: validateJob_def parsePositiveAtomic_def js_simps check_Inr)

text \<open>What the signer may send for a job.\<close>

definition pays :: "world \<Rightarrow> refund_record \<Rightarrow> stellar_tx \<Rightarrow> bool" where
  "pays w job tx \<longleftrightarrow> transfers tx (w_signer w) (p_payer (r_payment job)) PUBLIC_USDC_SAC (int (dec_val (r_amount job)))"

lemma prepared_pays:
  assumes "assertLeasedJobMatches job leased = Inr u" "validateJob (w_signer w) leased = Inr amount"
    and "prepared_checks w leased amount p = Inr u'" "signed p = Inr tx"
  shows "pays w job tx"
proof -
  have "t_ops tx = t_ops p" using assms(4) by (auto simp: signed_def Let_def check_Inr)
  moreover have "transfers p (w_signer w) (p_payer (r_payment leased)) (p_asset (r_payment leased)) amount"
    using assms(3) by (simp add: prepared_checks_def check_Inr validateTransfer_iff)
  ultimately show ?thesis
    using assms(1) validateJob_sound [OF assms(2)]
    by (simp add: pays_def transfers_def assertLeasedJobMatches_def check_Inr)
qed

lemma stored_pays:
  assumes "validateJob (w_signer w) job = Inr amount" "stored_envelope w job = Inr (l, h, tx)"
  shows "pays w job tx"
  using validateJob_sound [OF assms(1)] assms(2)
  by (auto simp: stored_envelope_def pays_def js_simps check_Inr validateTransfer_iff split: option.splits)

locale signer_invariant =
  fixes I :: "signer \<Rightarrow> bool" and w :: world
  assumes tick: "I s \<Longrightarrow> I (s\<lparr>sg_tick := n\<rparr>)"
    and guards: "I s \<Longrightarrow> I (s\<lparr>sg_guard := g\<rparr>)"
    and router: "I s \<Longrightarrow> I (snd (routerApi w m path body s))"
    and alerts: "I s \<Longrightarrow> I (s\<lparr>sg_outbox := insert_alert key content now (sg_outbox s)\<rparr>)"
    and confirming: "I s \<Longrightarrow> I (s\<lparr>sg_rows := confirm_row rid (sg_rows s)\<rparr>)"
    and delivered: "I s \<Longrightarrow> I (snd (markSent key s))"
    and flag: "I s \<Longrightarrow> I (s\<lparr>sg_running := b\<rparr>)"
begin

lemma asking: "pres I (ask f) (\<lambda>a. \<exists>n. f n = Inr a)"
  by (rule ask_pres) (rule tick)

lemma asking': "pres I (ask f) (\<lambda>_. True)"
  using asking by (rule pres_weaken) simp

lemma fetching: "pres I (fetch_account w) (\<lambda>_. True)"
  by (rule fetch_pres) (rule tick)

lemma calling: "pres I (routerApi w m path body) (\<lambda>_. True)"
  by (rule presI) (rule router)

lemma alerting: "pres I (enqueueAlert w key content) (\<lambda>_. True)"
  using tick alerts by (fastforce simp: pres_def enqueueAlert_def)

lemma noting: "pres I (note_accepted send v) (\<lambda>_. True)"
  using guards by (auto simp: pres_def note_accepted_def)

lemma marking: "pres I (markConfirmed rid) (\<lambda>_. True)"
  using confirming by (auto simp: pres_def markConfirmed_def)

lemma polling: "pres I (waitForTransaction w hash n) (\<lambda>_. True)"
proof (induction n)
  case (Suc n)
  then show ?case unfolding waitForTransaction.simps
    by (intro pres_bind [OF asking]) (simp add: pres_return')
qed (simp add: pres_return')

lemma verifying:
  "pres I (verifyOriginalPayment w job) (\<lambda>paid. \<exists>n result. w_getTx w n (p_paymentTx (r_payment job)) = Inr result \<and>
    original_proof w job result = Inr paid)"
  unfolding verifyOriginalPayment_def
  by (rule pres_bind [OF pres_return]) (rule pres_bind [OF asking], rule pres_weaken [OF pres_return], blast)

lemma building:
  "pres I (buildSignedRefund w job amount) (\<lambda>tx. \<exists>p. prepared_checks w job amount p = Inr () \<and> signed p = Inr tx)"
  unfolding buildSignedRefund_def
  by (rule pres_bind [OF fetching]) (rule pres_bind [OF asking'],
      rule pres_bind [OF asking'], rule pres_bind [OF asking'], rule pres_bind [OF asking'],
      rule pres_bind [OF pres_return], rule pres_weaken [OF pres_return], auto)

lemma parking: "pres I (parkRejected w job refundTx) (\<lambda>_. True)"
  unfolding parkRejected_def
  by (auto split: option.split intro!: pres_return' pres_bind [OF calling])

lemma finishing: "pres I (finish w job amount policy leaseId refundTx) (\<lambda>_. True)"
  unfolding finish_def beforeRouterConfirm_def
  by (intro pres_bind [where Q = "\<lambda>_. True"]) (auto intro: pres_return' alerting calling)

lemma submitting:
  assumes "pres I (send_tx w tx) (\<lambda>_. True)"
  shows "pres I (submit w job amount leased tx refundTx) (\<lambda>_. True)"
  unfolding submit_def rejectedAlert_def
  by (rule pres_bind [OF assms])
    (auto intro: pres_return' pres_bind [OF parking] pres_bind [OF alerting] pres_bind [OF noting] polling)

lemma executing:
  assumes "\<And>tx. pays w job tx \<Longrightarrow> pres I (send_tx w tx) (\<lambda>_. True)"
  shows "pres I (executePending w job amount policy) (\<lambda>_. True)"
  unfolding executePending_def
  by (rule pres_bind [OF asking'], rule pres_bind [OF calling], rule pres_bind [OF pres_return],
      rule pres_bind [OF pres_return], rule pres_bind [OF pres_return], rule pres_bind [OF building],
      rule pres_bind [OF calling], rule pres_bind [OF submitting [OF assms] finishing])
    (elim exE conjE, rule prepared_pays)

lemma confirming_submitted:
  assumes "\<And>tx. pays w job tx \<Longrightarrow> pres I (send_tx w tx) (\<lambda>_. True)"
    and "validateJob (w_signer w) job = Inr a"
  shows "pres I (confirmSubmitted w job amount policy) (\<lambda>_. True)"
  unfolding confirmSubmitted_def
proof (rule pres_bind [OF pres_return])
  fix x assume x: "stored_envelope w job = Inr x"
  obtain l h tx where [simp]: "x = (l, h, tx)" by (cases x)
  let ?job = "job\<lparr>r_state := Pending, r_refundTx := None, r_signedXdr := None, r_lease := None\<rparr>"
  have e: "pres I (executePending w ?job amount policy) (\<lambda>_. True)"
    by (rule executing) (rule assms, simp add: pays_def)
  have s: "pres I (submit w job amount job tx h) (\<lambda>_. True)"
    by (rule submitting) (rule assms, rule stored_pays [OF assms(2)], use x in simp)
  show "pres I (case x of (leaseId, refundTx, tx) \<Rightarrow>
      act_bind (ask (\<lambda>n. w_getTx w n refundTx)) (\<lambda>existing.
       if tr_status existing = TxSuccess then finish w job amount policy leaseId refundTx
       else if looks_dead tx existing
       then act_bind (routerApi w ''POST'' ''/admin/refunds/requeue-malformed'' (Some (lease_body job leaseId))) (\<lambda>_.
            executePending w ?job amount policy)
       else act_bind (submit w job amount job tx refundTx) (\<lambda>_.
            finish w job amount policy leaseId refundTx))) (\<lambda>_. True)"
    by (auto intro!: pres_bind [OF asking'] finishing pres_bind [OF calling e] pres_bind [OF s finishing])
qed

lemma doing:
  assumes "\<And>tx. pays w job tx \<Longrightarrow> pres I (send_tx w tx) (\<lambda>_. True)"
    and "validateJob (w_signer w) job = Inr a"
  shows "pres I (refund_job w job amount policy) (\<lambda>_. True)"
  unfolding refund_job_def
  by (auto intro!: pres_return' pres_bind [OF confirming_submitted [OF assms] marking]
      pres_bind [OF executing [OF assms(1)] marking])

lemma delivering: "pres I (act_catch (act_bind (sendAlert w c) (\<lambda>_. markSent key))) (\<lambda>_. True)"
  unfolding sendAlert_def split_beta
  by (rule pres_catch, rule pres_bind [OF pres_bind [OF asking' pres_return']], rule presI, rule delivered)

lemma flushing: "pres I (flushAlerts w) (\<lambda>_. True)"
proof (rule presI)
  fix s assume "I s"
  have "pres I (act_each (\<lambda>(key, a). act_catch (act_bind (sendAlert w (al_content a)) (\<lambda>_. markSent key))) xs)
      (\<lambda>_. True)" for xs :: "(string \<times> alert_row) list"
    by (rule pres_each) (auto intro: delivering)
  then show "I (snd (flushAlerts w s))" using \<open>I s\<close> by (simp add: flushAlerts_def pres_def)
qed

lemma reporting: "pres I (reportStuckRefunds w) (\<lambda>_. True)"
  unfolding reportStuckRefunds_def
  by (rule pres_catch, rule pres_bind [OF calling])
    (auto simp: report_stuck_def intro!: pres_each pres_return' alerting split: refund_reply.split)

lemma whole_run:
  assumes "\<And>job threshold. pres I (process_job w HARD_AUTO_REFUND_MAX_ATOMIC threshold job) (\<lambda>_. True)"
  shows "I s \<Longrightarrow> I (snd (run w s))"
proof -
  have "pres I (runRefundSigner w) (\<lambda>_. True)"
    unfolding runRefundSigner_def
  proof (rule pres_bind [OF pres_return])
    fix lim assume "policy_limits w = Inr lim"
    then obtain threshold where "lim = (HARD_AUTO_REFUND_MAX_ATOMIC, threshold)"
      by (auto simp: policy_limits_def js_simps check_Inr)
    with assms show "pres I (case lim of (max', threshold) \<Rightarrow>
        act_bind (routerApi w ''GET'' ''/admin/refunds/pending'' None) (\<lambda>answer.
        act_bind (act_return (pending_jobs answer)) (\<lambda>jobs.
        act_bind new_guard (\<lambda>_.
        act_bind (act_each (\<lambda>job. act_catch (process_job w max' threshold job)) jobs) (\<lambda>_.
        reportStuckRefunds w))))) (\<lambda>_. True)"
      by (auto simp: new_guard_def intro!: pres_bind [OF calling] pres_bind [OF pres_return] guards
          pres_bind [OF presI [of I new_guard]] pres_bind [OF pres_each reporting] pres_catch)
  qed
  then have "pres I (act_bind (set_running True) (\<lambda>_. act_bind (flushAlerts w) (\<lambda>_.
      act_bind (runRefundSigner w) (\<lambda>_. act_bind (flushAlerts w) (\<lambda>_. act_return (Inr False)))))) (\<lambda>_. True)"
    by (auto simp: set_running_def intro!: flag pres_bind [OF presI [of I "set_running True"]]
        pres_bind [OF flushing] pres_bind [where f = "runRefundSigner w" and Q = "\<lambda>_. True"] pres_return')
  then show "I s \<Longrightarrow> I (snd (run w s))"
    by (auto simp: run_def pres_def split_beta intro: flag)
qed

end

subsection \<open>The refund machine under a run\<close>

interpretation lifecycle: signer_invariant "\<lambda>s. well_behaved w \<longrightarrow> refund_steps st0 (sg_router s)" w for w st0
  by unfold_locales
    (auto simp: markSent_def split: option.split intro: refund_steps_trans routerApi_steps)

lemma send_frame: "sg_router (snd (send_tx w tx s)) = sg_router s" "sg_rows (snd (send_tx w tx s)) = sg_rows s"
  "sg_outbox (snd (send_tx w tx s)) = sg_outbox s" "sg_sent (snd (send_tx w tx s)) = sg_sent s @ [tx]"
  by (simp_all add: send_tx_def)

lemma reserve_frame: "sg_router (snd (reserveJob w job paid s)) = sg_router s"
  "sg_outbox (snd (reserveJob w job paid s)) = sg_outbox s" "sg_sent (snd (reserveJob w job paid s)) = sg_sent s"
  by (simp_all add: reserveJob_def split: sum.split)

lemma process_job_steps:
  "pres (\<lambda>s. well_behaved w \<longrightarrow> refund_steps st0 (sg_router s)) (process_job w max' threshold job) (\<lambda>_. True)"
  unfolding process_job_def Let_def
proof (rule pres_bind [OF pres_return], rule pres_bind [OF lifecycle.verifying], goal_cases)
  case (1 amount paid)
  have "pres (\<lambda>s. well_behaved w \<longrightarrow> refund_steps st0 (sg_router s)) (send_tx w tx) (\<lambda>_. True)" for tx
    by (rule presI) (simp add: send_frame)
  from lifecycle.doing [OF this 1(1)] show ?case
    by (auto intro!: lifecycle.alerting pres_bind [OF presI] simp: reserve_frame)
qed

subsection \<open>The books of the signer\<close>

text \<open>\<open>v\<close> is backed by a payment of \<open>payer\<close>: an envelope whose hash is the payment's and that transfers the paid amount.\<close>

definition backed :: "decoder \<Rightarrow> string \<Rightarrow> reservation \<Rightarrow> string \<Rightarrow> bool" where
  "backed D signer v payer \<longleftrightarrow> (\<exists>xdr orig. D Pubnet xdr = Some orig \<and> t_hash orig = v_payment_tx v \<and>
     transfers orig payer signer PUBLIC_USDC_SAC (v_paid_atomic v))"

definition rows_ok :: "decoder \<Rightarrow> string \<Rightarrow> reservation table \<Rightarrow> bool" where
  "rows_ok D signer rows \<longleftrightarrow> table_ok rows \<and> (\<forall>rid v. tget rows rid = Some v \<longrightarrow>
     int (dec_val (v_amount_atomic v)) < HARD_AUTO_REFUND_MAX_ATOMIC \<and> (\<exists>payer. backed D signer v payer) \<and>
     reserved_total rows (v_payment_tx v) \<le> v_paid_atomic v)"

definition sent_for :: "decoder \<Rightarrow> string \<Rightarrow> reservation table \<Rightarrow> stellar_tx \<Rightarrow> bool" where
  "sent_for D signer rows tx \<longleftrightarrow> (\<exists>rid v payer. tget rows rid = Some v \<and> backed D signer v payer \<and>
     transfers tx signer payer PUBLIC_USDC_SAC (int (dec_val (v_amount_atomic v))))"

definition books_ok :: "decoder \<Rightarrow> string \<Rightarrow> signer \<Rightarrow> bool" where
  "books_ok D signer s \<longleftrightarrow> rows_ok D signer (sg_rows s) \<and> (\<forall>tx \<in> set (sg_sent s). sent_for D signer (sg_rows s) tx)"

text \<open>The transaction hash is a collision-free digest of the envelope: it fixes the operations.\<close>

definition hash_ok :: "decoder \<Rightarrow> bool" where
  "hash_ok D \<longleftrightarrow> (\<forall>x y t u. D Pubnet x = Some t \<longrightarrow> D Pubnet y = Some u \<longrightarrow> t_hash t = t_hash u \<longrightarrow> t_ops t = t_ops u)"

lemma backed_paid:
  assumes "hash_ok D" "backed D signer v payer" "backed D signer v' payer'" "v_payment_tx v = v_payment_tx v'"
  shows "v_paid_atomic v = v_paid_atomic v'" and "payer = payer'"
proof -
  obtain x t y u where "D Pubnet x = Some t" "D Pubnet y = Some u" "t_hash t = v_payment_tx v" "t_hash u = v_payment_tx v'"
    and tr: "transfers t payer signer PUBLIC_USDC_SAC (v_paid_atomic v)"
      "transfers u payer' signer PUBLIC_USDC_SAC (v_paid_atomic v')"
    using assms(2,3) unfolding backed_def by blast
  with assms(1,4) have "t_ops t = t_ops u" unfolding hash_ok_def by metis
  with tr transfers_unique show "v_paid_atomic v = v_paid_atomic v'" "payer = payer'" by blast+
qed

lemma reserved_total_tput:
  assumes "table_ok rows"
  shows "reserved_total (tput rid v rows) tx = reserved_total rows tx +
    (if v_payment_tx v = tx then int (dec_val (v_amount_atomic v)) else 0) -
    (case tget rows rid of None \<Rightarrow> 0
     | Some u \<Rightarrow> if v_payment_tx u = tx then int (dec_val (v_amount_atomic u)) else 0)"
  using assms by (simp add: reserved_total_def tsum_tput tval_def split: option.split)

text \<open>What holds once a job is reserved.\<close>

definition booked_row :: "decoder \<Rightarrow> string \<Rightarrow> refund_record \<Rightarrow> reservation table \<Rightarrow> bool" where
  "booked_row D signer job rows \<longleftrightarrow> (\<exists>v. tget rows (refundId job) = Some v \<and>
     v_amount_atomic v = r_amount job \<and> backed D signer v (p_payer (r_payment job)))"

definition job_booked :: "decoder \<Rightarrow> string \<Rightarrow> refund_record \<Rightarrow> signer \<Rightarrow> bool" where
  "job_booked D signer job s \<longleftrightarrow> books_ok D signer s \<and> booked_row D signer job (sg_rows s)"

lemma confirm_row_get: "tget (confirm_row rid rows) k =
    (if k = rid then map_option (v_confirmed_update (\<lambda>_. True)) (tget rows k) else tget rows k)"
  by (auto simp: confirm_row_def split: option.split)

lemma confirm_row_total: "table_ok rows \<Longrightarrow> reserved_total (confirm_row rid rows) tx = reserved_total rows tx"
  by (simp add: confirm_row_def reserved_total_tput split: option.split)

lemma confirm_row_ok: "table_ok rows \<Longrightarrow> table_ok (confirm_row rid rows)"
  by (simp add: confirm_row_def split: option.split)

lemma backed_confirmed [simp]: "backed D signer (v_confirmed_update f v) = backed D signer v"
  by (simp add: backed_def fun_eq_iff)

lemma rows_ok_confirm: "rows_ok D signer rows \<Longrightarrow> rows_ok D signer (confirm_row rid rows)"
  unfolding rows_ok_def
  by (auto simp: confirm_row_get confirm_row_total confirm_row_ok split: if_split_asm)

lemma sent_for_confirm: "sent_for D signer rows tx \<Longrightarrow> sent_for D signer (confirm_row rid rows) tx"
  unfolding sent_for_def
proof (elim exE conjE)
  fix k v payer assume a: "tget rows k = Some v" "backed D signer v payer"
    "transfers tx signer payer PUBLIC_USDC_SAC (int (dec_val (v_amount_atomic v)))"
  then show "\<exists>k v payer. tget (confirm_row rid rows) k = Some v \<and> backed D signer v payer \<and>
      transfers tx signer payer PUBLIC_USDC_SAC (int (dec_val (v_amount_atomic v)))"
    by (intro exI [of _ k] exI [of _ "if k = rid then v_confirmed_update (\<lambda>_. True) v else v"] exI [of _ payer])
      (auto simp: confirm_row_get)
qed

lemma books_confirm: "books_ok D signer s \<Longrightarrow> books_ok D signer (s\<lparr>sg_rows := confirm_row rid (sg_rows s)\<rparr>)"
  by (simp add: books_ok_def rows_ok_confirm sent_for_confirm)

lemma booked_def': "job_booked D signer job s \<longleftrightarrow> rows_ok D signer (sg_rows s) \<and>
    (\<forall>tx \<in> set (sg_sent s). sent_for D signer (sg_rows s) tx) \<and> booked_row D signer job (sg_rows s)"
  by (simp add: job_booked_def books_ok_def)

lemma booked_row_confirm: "booked_row D signer job rows \<Longrightarrow> booked_row D signer job (confirm_row rid rows)"
  by (auto simp: booked_row_def confirm_row_get)

lemma markSent_frame: "sg_rows (snd (markSent key s)) = sg_rows s" "sg_sent (snd (markSent key s)) = sg_sent s"
  by (simp_all add: markSent_def split: option.split)

interpretation books: signer_invariant "books_ok D signer" w for D signer w
  by unfold_locales
    (simp_all add: books_ok_def routerApi_frame markSent_frame rows_ok_confirm sent_for_confirm)

interpretation booked: signer_invariant "job_booked D signer job" w for D signer job w
  by unfold_locales
    (simp_all add: booked_def' routerApi_frame markSent_frame rows_ok_confirm sent_for_confirm booked_row_confirm)

text \<open>A reservation: the row is backed by the payment that was verified, and the payment still covers its rows.\<close>

lemma reserve_books:
  assumes "hash_ok D" "books_ok D signer s" "reserve_row job paid now (sg_rows s) = Inr rows"
    and "int (dec_val (r_amount job)) < HARD_AUTO_REFUND_MAX_ATOMIC"
    and backed: "\<And>v. v_payment_tx v = p_paymentTx (r_payment job) \<Longrightarrow> v_paid_atomic v = paid \<Longrightarrow>
      backed D signer v (p_payer (r_payment job))"
  shows "job_booked D signer job (s\<lparr>sg_tick := n, sg_rows := rows\<rparr>)"
proof (cases "tget (sg_rows s) (refundId job)")
  case (Some v)
  with assms(3) have "rows = sg_rows s" "v_payment_tx v = p_paymentTx (r_payment job)"
    "v_amount_atomic v = r_amount job" "v_paid_atomic v = paid"
    by (simp_all add: reserve_row_def check_Inr)
  with Some assms(2) backed show ?thesis by (auto simp: job_booked_def booked_row_def books_ok_def)
next
  case None
  let ?p = "p_paymentTx (r_payment job)"
  define v where "v = \<lparr>v_payment_tx = ?p, v_amount_atomic = r_amount job, v_paid_atomic = paid,
    v_confirmed = False, v_created_at = now\<rparr>"
  have rows: "rows = tput (refundId job) v (sg_rows s)"
    and le: "reserved_total (sg_rows s) ?p + int (dec_val (r_amount job)) \<le> paid"
    using None assms(3) by (auto simp: reserve_row_def assertRefundWithinPaid_def js_simps check_Inr v_def)
  have bv: "backed D signer v (p_payer (r_payment job))" by (rule backed) (simp_all add: v_def)
  note ok = assms(2) [unfolded books_ok_def rows_ok_def]
  have tot: "reserved_total rows tx = reserved_total (sg_rows s) tx
      + (if tx = ?p then int (dec_val (r_amount job)) else 0)" for tx
    using ok None by (auto simp: rows reserved_total_tput v_def)
  have "reserved_total rows (v_payment_tx u) \<le> v_paid_atomic u" if u: "tget rows k = Some u" for k u
  proof (cases "v_payment_tx u = ?p")
    case True
    have "\<exists>payer. backed D signer u payer" using u ok bv by (auto simp: rows split: if_split_asm)
    then have "v_paid_atomic u = paid" using backed_paid(1) [OF assms(1) _ bv] True by (auto simp: v_def)
    with True le show ?thesis by (simp add: tot)
  next
    case False
    with u have "tget (sg_rows s) k = Some u" by (auto simp: rows v_def split: if_split_asm)
    with False ok show ?thesis by (simp add: tot)
  qed
  moreover have "table_ok rows" using ok by (simp add: rows)
  ultimately have "rows_ok D signer rows"
    using ok bv assms(4) unfolding rows_ok_def by (auto simp: rows v_def split: if_split_asm)
  moreover have "sent_for D signer rows tx" if "sent_for D signer (sg_rows s) tx" for tx
    using that None unfolding sent_for_def rows by (metis option.distinct(1) tget_tput)
  ultimately show ?thesis
    using ok bv by (auto simp: booked_def' booked_row_def) (auto simp: rows v_def)
qed

lemma send_booked: "pays w job tx \<Longrightarrow> pres (job_booked D (w_signer w) job) (send_tx w tx) (\<lambda>_. True)"
proof (rule presI)
  fix s assume "pays w job tx" "job_booked D (w_signer w) job s"
  then have "sent_for D (w_signer w) (sg_rows s) tx" unfolding sent_for_def job_booked_def booked_row_def pays_def by metis
  with \<open>job_booked D (w_signer w) job s\<close> show "job_booked D (w_signer w) job (snd (send_tx w tx s))"
    by (auto simp: job_booked_def books_ok_def send_frame)
qed

lemma process_job_books:
  assumes "hash_ok (w_decode w)"
  shows "pres (books_ok (w_decode w) (w_signer w))
    (process_job w HARD_AUTO_REFUND_MAX_ATOMIC threshold job) (\<lambda>_. True)"
  unfolding process_job_def Let_def
proof (rule pres_bind [OF pres_return], rule pres_bind [OF books.verifying], goal_cases)
  case (1 amount paid)
  note j = validateJob_sound [OF 1(1)]
  obtain result where "original_proof w job result = Inr paid" using 1(2) by blast
  then have b: "backed (w_decode w) (w_signer w) v (p_payer (r_payment job))"
    if "v_payment_tx v = p_paymentTx (r_payment job)" "v_paid_atomic v = paid" for v
    using that j unfolding backed_def
    by (auto simp: original_proof_def Let_def js_simps check_Inr validateTransfer_iff decode_pub_def split: option.splits)
  show ?case
  proof (cases "classifyRefund amount HARD_AUTO_REFUND_MAX_ATOMIC threshold = HoldAlert")
    case True
    then show ?thesis by (simp add: books.alerting)
  next
    case False
    then have small: "int (dec_val (r_amount job)) < HARD_AUTO_REFUND_MAX_ATOMIC"
      using j by (simp add: classifyRefund_def split: if_split_asm)
    have "pres (books_ok (w_decode w) (w_signer w)) (act_bind (reserveJob w job paid)
        (\<lambda>_. refund_job w job amount (classifyRefund amount HARD_AUTO_REFUND_MAX_ATOMIC threshold))) (\<lambda>_. True)"
    proof (rule pres_strengthen [where J = "job_booked (w_decode w) (w_signer w) job"])
      fix s assume "books_ok (w_decode w) (w_signer w) s"
      then show "case reserveJob w job paid s of (Inl e, s') \<Rightarrow> books_ok (w_decode w) (w_signer w) s'
          | (Inr a, s') \<Rightarrow> job_booked (w_decode w) (w_signer w) job s'"
        using reserve_books [where paid = paid, OF assms _ _ small b] by (auto simp: reserveJob_def split: sum.split)
    qed (auto intro: booked.doing [OF send_booked 1(1)] simp: job_booked_def)
    with False show ?thesis by simp
  qed
qed

end
