(* ===== verification/SignerProps.thy ===== *)
theory SignerProps
  imports SignerInv
begin

text \<open>The properties of the refund signer.\<close>

subsection \<open>Runs\<close>

text \<open>
  Any number of runs of the coordinator over one network and one signing key; between them the store of the router
  may become anything (\<open>outside\<close>): the books of the signer do not rest on the router.
\<close>

inductive signer_runs :: "decoder \<Rightarrow> string \<Rightarrow> signer \<Rightarrow> signer \<Rightarrow> bool" for D acct where
  start: "signer_runs D acct s s"
| again: "signer_runs D acct s s' \<Longrightarrow> w_decode w = D \<Longrightarrow> w_signer w = acct \<Longrightarrow> signer_runs D acct s (snd (run w s'))"
| outside: "signer_runs D acct s s' \<Longrightarrow> signer_runs D acct s (s'\<lparr>sg_router := st\<rparr>)"

lemma runs_books:
  assumes "signer_runs D acct s s'" "hash_ok D" "books_ok D acct s"
  shows "books_ok D acct s'"
  using assms(1,3)
proof induction
  case (again s s' w)
  have "hash_ok (w_decode w)" using again assms(2) by simp
  from books.whole_run [OF process_job_books [OF this]] again show ?case by metis
qed (simp_all add: books_ok_def)

lemma books_start: "sg_rows s = [] \<Longrightarrow> sg_sent s = [] \<Longrightarrow> books_ok D acct s"
  by (simp add: books_ok_def rows_ok_def)

subsection \<open>A concrete network\<close>

definition payer_key :: string where
  "payer_key = ''GAAAAAAAAAAAAAAAAAAAAAAAAAAAAAAAAAAAAAAAAAAAAAAAAAAAAAAA''"

definition pay_hash :: string where
  "pay_hash = replicate 64 (CHR ''a'')"

definition sac_tx :: "string \<Rightarrow> string \<Rightarrow> string \<Rightarrow> int \<Rightarrow> stellar_tx" where
  "sac_tx hash from' to' amount = \<lparr>t_ops = [InvokeContract PUBLIC_USDC_SAC ''transfer''
       [NativeString from' None, NativeString to' None, NativeBigint amount]],
     t_source = from', t_hash = hash, t_ext = 1, t_minTime = Some 100, t_maxTime = Some 700,
     t_fee = 1000, t_signatures = 1, t_sequence = 8\<rparr>"

definition net_decode :: decoder where
  "net_decode n xdr = (if xdr = ''pay'' then Some (sac_tx pay_hash payer_key ''GROUTER'' 50)
     else if xdr = ''ref'' then Some (sac_tx ''rtx'' ''GROUTER'' payer_key 50) else None)"

definition net_job :: refund_record where
  "net_job = \<lparr>refundId = ''h'', publicId = ''u'', r_state = Submitted, r_reason = Timeout,
     r_payment = \<lparr>p_paymentId = ''pid'', p_paymentTx = pay_hash, p_payer = payer_key, p_recipient = ''GROUTER'',
       p_asset = PUBLIC_USDC_SAC, p_amountAtomic = ''50'', p_mode = ModeCharge\<rparr>,
     r_merchant = ''m'', r_routeId = ''r'', r_orderId = None, r_amount = ''50'',
     r_createdAt = ''2026-01-01T00:00:00.000Z'', r_events = [], r_lease = Some (''l'', ''until''),
     r_refundTx = Some ''rtx'', r_signedXdr = Some ''ref'', r_confirmedLedger = None, r_confirmedAt = None\<rparr>"

text \<open>The payment is on chain, the refund is not; sending it is answered with \<open>txBadSeq\<close>, and the router stops answering.\<close>

definition net_getTx :: "nat \<Rightarrow> string \<Rightarrow> tx_result js" where
  "net_getTx n h = Inr (demo_rpc (if h = pay_hash then TxSuccess else TxFailed) h)"

definition net_world :: world where
  "net_world = \<lparr>w_token = ''exec'', w_signer = ''GROUTER'', w_max = ''1000000000'', w_threshold = ''100000000'',
     w_router_cfg = demo_cfg, w_decode = net_decode, w_sha = (\<lambda>x. x), w_now = (\<lambda>n. 200000),
     w_uuid = (\<lambda>n. ''l''), w_between = (\<lambda>n s. s), w_env = (\<lambda>k n s. s),
     w_link = (\<lambda>n. if n = 0 then Delivered else LostRequest),
     w_router_rpc = (\<lambda>n. demo_rpc TxNotFound), w_getTx = net_getTx,
     w_account = (\<lambda>n. Inr 7), w_p90 = (\<lambda>n. None), w_prepare = (\<lambda>n u. Inl (JsError ''rpc'')),
     w_toXDR = (\<lambda>tx. ''ref''), w_send = (\<lambda>n tx. Inr \<lparr>sr_status = ''ERROR'', sr_code = Some ''txBadSeq''\<rparr>),
     w_deliver = (\<lambda>n a. Inr (True, Some 0))\<rparr>"

definition net_start :: signer where
  "net_start = \<lparr>sg_rows = [], sg_outbox = [], sg_running = False, sg_router = store_with net_job, sg_guard = None,
     sg_sent = [], sg_tick = 0\<rparr>"

lemma net_start_fields [simp]: "sg_outbox net_start = []" "sg_rows net_start = []" "sg_sent net_start = []"
  "sg_running net_start = False" "sg_tick net_start = 0"
  by (simp_all add: net_start_def)

lemma net_limits: "policy_limits net_world = Inr (1000000000, 100000000)"
  by (simp add: policy_limits_def net_world_def parsePositiveAtomic_def check_def positive_atomic_def
      HARD_AUTO_REFUND_MAX_ATOMIC_def HARD_ALERT_THRESHOLD_ATOMIC_def is_digit_def digit_val_def)

lemma net_token: "authorized demo_cfg (Some ''Bearer exec'')"
  by code_simp

lemma net_list: "listRefunds (store_with net_job) = [net_job]"
  by (simp add: listRefunds_def handleScan_def store_with_def tlist_def map_filter_simps)

lemma net_valid: "validateJob ''GROUTER'' net_job = Inr 50"
proof -
  have "payerAccount payer_key = Inr payer_key" "positive_atomic ''50''" "dec_val ''50'' = 50" by code_simp+
  then show ?thesis by (simp add: validateJob_def net_job_def check_def parsePositiveAtomic_def)
qed

lemma net_pending:
  "routerApi net_world ''GET'' ''/admin/refunds/pending'' None (net_start\<lparr>sg_running := True\<rparr>) =
    (Inr (RJobs [net_job]), net_start\<lparr>sg_running := True, sg_tick := 1\<rparr>)"
  using net_token net_list
  by (simp add: routerApi_def Let_def net_start_def net_world_def handleRefundAdmin_def handlePending_def)
    (simp add: net_job_def)

lemma net_payment:
  "verifyOriginalPayment net_world net_job s = (Inr 50, s\<lparr>sg_tick := Suc (sg_tick s)\<rparr>)"
proof -
  have "is_hex64 pay_hash" "positive_atomic ''50''" "dec_val ''50'' = 50" "dec_val ''50'' = 50" by code_simp+
  then show ?thesis
    by (simp add: verifyOriginalPayment_def act_bind_def act_return_def ask_def net_job_def net_world_def check_def
        net_getTx_def demo_rpc_def original_proof_def Let_def decode_pub_def net_decode_def sac_tx_def
        parsePositiveAtomic_def validateTransfer_def is_string_arg_def is_bigint_arg_def)
qed

definition net_row :: reservation where
  "net_row = \<lparr>v_payment_tx = pay_hash, v_amount_atomic = ''50'', v_paid_atomic = 50, v_confirmed = False,
     v_created_at = 200000\<rparr>"

definition net_tx :: stellar_tx where
  "net_tx = sac_tx ''rtx'' ''GROUTER'' payer_key 50"

lemma net_reserve:
  "sg_rows s = [] \<Longrightarrow> reserveJob net_world net_job 50 s = (Inr (), s\<lparr>sg_tick := Suc (sg_tick s), sg_rows := [(''h'', net_row)]\<rparr>)"
proof -
  have "dec_val ''50'' = 50" by code_simp
  then show "sg_rows s = [] \<Longrightarrow> ?thesis"
    by (simp add: reserveJob_def reserve_row_def assertRefundWithinPaid_def net_job_def net_world_def check_def
        reserved_total_def net_row_def)
qed

lemma net_envelope: "stored_envelope net_world net_job = Inr (''l'', ''rtx'', net_tx)"
proof -
  have "dec_val ''50'' = 50" by code_simp
  then show ?thesis
    by (simp add: stored_envelope_def net_job_def check_def decode_pub_def net_world_def net_decode_def sac_tx_def
        HARD_MAX_FEE_STROOPS_def validateTransfer_def is_string_arg_def is_bigint_arg_def net_tx_def)
qed

lemma net_confirm:
  "confirmSubmitted net_world net_job 50 Auto s =
    (Inl (JsError ''left for dead-envelope recovery''),
     s\<lparr>sg_tick := Suc (Suc (sg_tick s)), sg_sent := sg_sent s @ [net_tx]\<rparr>)"
proof -
  have "length pay_hash \<noteq> length ''rtx''" by (simp add: pay_hash_def)
  then have "pay_hash \<noteq> ''rtx''" by metis
  then show ?thesis
    unfolding confirmSubmitted_def
    by (simp add: act_bind_def act_return_def net_envelope ask_def)
      (simp add: net_world_def net_getTx_def demo_rpc_def looks_dead_def Let_def submit_def act_bind_def
        send_tx_def isRetryableSendError_def act_return_def)
qed

lemma net_process:
  "sg_rows s = [] \<Longrightarrow> process_job net_world 1000000000 100000000 net_job s =
    (Inl (JsError ''left for dead-envelope recovery''),
     s\<lparr>sg_tick := sg_tick s + 4, sg_rows := [(''h'', net_row)], sg_sent := sg_sent s @ [net_tx]\<rparr>)"
proof -
  have "w_signer net_world = ''GROUTER''" "r_state net_job = Submitted"
    by (simp_all add: net_world_def net_job_def)
  then show "sg_rows s = [] \<Longrightarrow> ?thesis"
    by (simp add: process_job_def act_bind_def act_return_def net_valid net_payment classifyRefund_def net_reserve
        refund_job_def net_confirm numeral_eq_Suc)
qed

lemma net_lost: "0 < sg_tick s \<Longrightarrow> routerApi net_world m path body s =
    (Inl (JsError path), s\<lparr>sg_tick := Suc (sg_tick s)\<rparr>)"
  by (simp add: routerApi_def Let_def net_world_def)

lemma net_flush: "sg_outbox s = [] \<Longrightarrow> flushAlerts w s = (Inr (), s)"
  by (simp add: flushAlerts_def pending_alerts_def act_return_def)

lemma net_run:
  "run net_world net_start =
    (Inr False, net_start\<lparr>sg_tick := 6, sg_rows := [(''h'', net_row)], sg_sent := [net_tx]\<rparr>)"
  by (simp add: run_def act_bind_def set_running_def act_return_def net_flush runRefundSigner_def net_limits
      net_pending pending_jobs_def new_guard_def act_catch_def net_process reportStuckRefunds_def net_lost)
    (simp add: net_start_def)

subsection \<open>Money\<close>

lemma net_hash_ok: "hash_ok net_decode"
  by (auto simp: hash_ok_def net_decode_def sac_tx_def pay_hash_def numeral_eq_Suc split: if_splits)

lemma net_runs: "signer_runs net_decode ''GROUTER'' net_start (snd (run net_world net_start))"
  by (rule signer_runs.again [OF signer_runs.start]) (simp_all add: net_world_def)

lemma net_after: "sg_rows (snd (run net_world net_start)) = [(''h'', net_row)]"
  "sg_sent (snd (run net_world net_start)) = [net_tx]"
  by (simp_all add: net_run)

text \<open>C16: the signer never refunds more than was paid.  Whatever the network, the clock and the router answer, over any
  number of runs, and even if the router's store is replaced between them: every reservation is backed by an
  envelope whose hash is that of the payment and that transfers the paid amount of USDC to the signer, the reservations
  of one payment add up to at most the amount it paid, and every envelope ever handed to the network transfers exactly
  the amount of one reservation, below the automatic limit, back to the account that made that payment.\<close>

theorem refunds_within_payment:
  assumes "hash_ok D" "signer_runs D acct s0 s" "sg_rows s0 = []" "sg_sent s0 = []"
  shows "(\<forall>rid v. tget (sg_rows s) rid = Some v \<longrightarrow>
      (\<exists>payer. backed D acct v payer) \<and> reserved_total (sg_rows s) (v_payment_tx v) \<le> v_paid_atomic v) \<and>
    (\<forall>tx \<in> set (sg_sent s). \<exists>rid v payer. tget (sg_rows s) rid = Some v \<and> backed D acct v payer \<and>
      transfers tx acct payer PUBLIC_USDC_SAC (int (dec_val (v_amount_atomic v))) \<and>
      int (dec_val (v_amount_atomic v)) < HARD_AUTO_REFUND_MAX_ATOMIC)"
  using runs_books [OF assms(2,1) books_start [OF assms(3,4)]]
  unfolding books_ok_def rows_ok_def sent_for_def by blast

theorem refunds_within_payment_witness:
  "(\<exists>payer. backed net_decode ''GROUTER'' net_row payer \<and>
      transfers net_tx ''GROUTER'' payer PUBLIC_USDC_SAC (int (dec_val (v_amount_atomic net_row)))) \<and>
    reserved_total [(''h'', net_row)] pay_hash \<le> 50"
proof -
  note all = refunds_within_payment [OF net_hash_ok net_runs net_start_fields(2,3), unfolded net_after]
  have "tget [(''h'', net_row)] ''h'' = Some net_row" by simp
  with all have "reserved_total [(''h'', net_row)] (v_payment_tx net_row) \<le> v_paid_atomic net_row" by blast
  moreover from all obtain rid v payer where "tget [(''h'', net_row)] rid = Some v"
    "backed net_decode ''GROUTER'' v payer"
    "transfers net_tx ''GROUTER'' payer PUBLIC_USDC_SAC (int (dec_val (v_amount_atomic v)))"
    by auto
  ultimately show ?thesis by (auto simp: net_row_def split: if_split_asm)
qed



text \<open>Large refunds wait for a human.  A job whose amount reaches the hard limit changes no reservation, reaches
  neither the router nor the network, and leaves an alert once its payment has been verified.\<close>

theorem large_refund_held:
  assumes "validateJob (w_signer w) job = Inr amount" "HARD_AUTO_REFUND_MAX_ATOMIC \<le> amount"
    and "process_job w HARD_AUTO_REFUND_MAX_ATOMIC threshold job s = (r, s')"
  shows "sg_rows s' = sg_rows s \<and> sg_router s' = sg_router s \<and> sg_sent s' = sg_sent s \<and> sg_guard s' = sg_guard s \<and>
    (r = Inr () \<longrightarrow> tget (sg_outbox s') (''held:'' @ refundId job) \<noteq> None)"
proof -
  have "classifyRefund amount HARD_AUTO_REFUND_MAX_ATOMIC threshold = HoldAlert"
    using assms(2) by (simp add: classifyRefund_def)
  with assms(1,3) show ?thesis
    by (auto simp: process_job_def act_bind_def act_return_def verifyOriginalPayment_def ask_def enqueueAlert_def
        insert_alert_def split: sum.splits prod.splits option.splits)
qed

definition big_job :: refund_record where
  "big_job = net_job\<lparr>r_amount := ''1000000000'', r_payment := (r_payment net_job)\<lparr>p_amountAtomic := ''1000000000''\<rparr>\<rparr>"

lemma big_valid: "validateJob ''GROUTER'' big_job = Inr 1000000000"
proof -
  have "payerAccount payer_key = Inr payer_key" by code_simp
  moreover have "positive_atomic ''1000000000''" "dec_val ''1000000000'' = 1000000000"
    by (simp_all add: positive_atomic_def is_digit_def digit_val_def)
  ultimately show ?thesis
    by (simp add: validateJob_def big_job_def net_job_def check_def parsePositiveAtomic_def)
qed

theorem large_refund_held_witness:
  "sg_sent (snd (process_job net_world HARD_AUTO_REFUND_MAX_ATOMIC 5 big_job net_start)) = []"
  using large_refund_held [of net_world big_job 1000000000 5 net_start] big_valid
  by (simp add: net_world_def HARD_AUTO_REFUND_MAX_ATOMIC_def prod_eq_iff)

subsection \<open>Sequence numbers, fees and polling\<close>

lemma recordAccepted_max: "fold recordAccepted qs (Some a) = Some (Max (insert a (set qs)))"
proof (induction qs arbitrary: a)
  case (Cons q qs)
  have "recordAccepted q (Some a) = Some (max a q)" by (simp add: recordAccepted_def max_def)
  moreover have "insert (max a q) (set qs) = insert (max a q) (set qs)" by simp
  ultimately show ?case
    using Cons.IH [of "max a q"] by (cases "qs = []") (simp_all add: max.assoc)
qed simp

text \<open>The sequence guard is a running maximum.  After any accepted sequence numbers, in any order and with
  repetitions, the account a refund is built on has the largest of them and of the sequence just fetched; so the
  envelope built next is numbered above every accepted one, and without a gap.\<close>

theorem sequence_guard_is_max:
  "advance (fold recordAccepted qs None) fetched = Max (insert fetched (set qs)) \<and>
    un_sequence (refund_request_of w job amount (advance (fold recordAccepted qs None) fetched) fee t1 t2) =
      Max (insert fetched (set qs)) + 1"
proof (cases qs)
  case (Cons q qs')
  have "fold recordAccepted qs None = Some (Max (set qs))"
    by (simp add: Cons recordAccepted_max recordAccepted_def [of q None])
  moreover have "finite (set qs)" "set qs \<noteq> {}" by (simp_all add: Cons)
  ultimately show ?thesis by (simp add: advance_def refund_request_of_def max_def)
qed (simp add: advance_def refund_request_of_def)

text \<open>The inclusion bid is the p90 clamped to the floor and the ceiling, and the floor when there is no p90.\<close>

theorem inclusion_fee_clamped:
  "refundInclusionFee stats = int_str (case stats of
      Some p90 \<Rightarrow> if p90 \<noteq> [] \<and> all_digits p90
                then max BASE_FEE (min REFUND_MAX_INCLUSION_FEE_STROOPS (int (dec_val p90))) else BASE_FEE
    | None \<Rightarrow> BASE_FEE)"
  by (simp add: refundInclusionFee_def Let_def BASE_FEE_def REFUND_MAX_INCLUSION_FEE_STROOPS_def
      split: option.split)

text \<open>The answer to the poll made at \<open>tick\<close>, when it ends the wait.\<close>

definition poll_ends :: "world \<Rightarrow> string \<Rightarrow> nat \<Rightarrow> bool" where
  "poll_ends w h tick = (case w_getTx w tick h of Inl _ \<Rightarrow> True | Inr r \<Rightarrow> tr_status r \<noteq> TxNotFound)"

lemma wait_unfold:
  "waitForTransaction w h (Suc n) s =
    (if poll_ends w h (sg_tick s)
     then ((case w_getTx w (sg_tick s) h of Inl e \<Rightarrow> Inl e
            | Inr r \<Rightarrow> if tr_status r = TxSuccess then Inr () else Inl (JsError ''refund transaction failed'')),
           s\<lparr>sg_tick := Suc (sg_tick s)\<rparr>)
     else waitForTransaction w h n (s\<lparr>sg_tick := Suc (sg_tick s)\<rparr>))"
proof (cases "w_getTx w (sg_tick s) h")
  case (Inr r)
  then show ?thesis
    by (cases "tr_status r") (simp_all add: act_bind_def ask_def poll_ends_def act_return_def)
qed (simp add: act_bind_def ask_def poll_ends_def)

text \<open>C36: waiting for a transaction ends after at most \<open>n\<close> polls.  It returns exactly if one of the first \<open>n\<close> answers
  reports success and no earlier one ended the wait (an error of the RPC or a failed transaction); it changes
  nothing but the number of calls made.\<close>

theorem wait_decides:
  assumes "waitForTransaction w h n s = (r, s')"
  shows "(r = Inr () \<longleftrightarrow> (\<exists>k < n. (\<exists>x. w_getTx w (sg_tick s + k) h = Inr x \<and> tr_status x = TxSuccess) \<and>
      (\<forall>j < k. \<not> poll_ends w h (sg_tick s + j)))) \<and>
    s' = s\<lparr>sg_tick := sg_tick s'\<rparr> \<and> sg_tick s' \<le> sg_tick s + n"
  using assms
proof (induction n arbitrary: s)
  case 0
  then show ?case by (auto simp: act_return_def)
next
  case (Suc n)
  let ?s1 = "s\<lparr>sg_tick := Suc (sg_tick s)\<rparr>"
  show ?case
  proof (cases "poll_ends w h (sg_tick s)")
    case True
    then have none: "\<not> (\<exists>k < Suc n. 0 < k \<and> (\<forall>j < k. \<not> poll_ends w h (sg_tick s + j)))" by auto
    from True Suc.prems have s': "s' = ?s1" and r: "r = Inr () \<longleftrightarrow>
        (\<exists>x. w_getTx w (sg_tick s) h = Inr x \<and> tr_status x = TxSuccess)"
      by (auto simp: wait_unfold simp del: waitForTransaction.simps split: sum.splits if_split_asm)
    have "(\<exists>k < Suc n. (\<exists>x. w_getTx w (sg_tick s + k) h = Inr x \<and> tr_status x = TxSuccess) \<and>
        (\<forall>j < k. \<not> poll_ends w h (sg_tick s + j))) \<longleftrightarrow> r = Inr ()"
      unfolding r using none by (metis add_0_right neq0_conv not_less_zero zero_less_Suc)
    with s' show ?thesis by simp
  next
    case False
    with Suc.prems have "waitForTransaction w h n ?s1 = (r, s')"
      by (simp add: wait_unfold del: waitForTransaction.simps)
    note ih = Suc.IH [OF this]
    have no: "\<not> (\<exists>x. w_getTx w (sg_tick s) h = Inr x \<and> tr_status x = TxSuccess)"
      using False by (auto simp: poll_ends_def)
    have "(\<exists>k < Suc n. P k \<and> (\<forall>j < k. \<not> poll_ends w h (sg_tick s + j))) \<longleftrightarrow>
        (\<exists>k < n. P (Suc k) \<and> (\<forall>j < k. \<not> poll_ends w h (Suc (sg_tick s) + j)))" if "\<not> P 0" for P
    proof -
      have "(\<forall>j < Suc k. \<not> poll_ends w h (sg_tick s + j)) \<longleftrightarrow> (\<forall>j < k. \<not> poll_ends w h (Suc (sg_tick s) + j))" for k
        using False by (auto simp: less_Suc_eq_0_disj)
      with that show ?thesis by (auto simp: Ex_less_Suc2)
    qed
    from this [of "\<lambda>k. \<exists>x. w_getTx w (sg_tick s + k) h = Inr x \<and> tr_status x = TxSuccess"] no ih
    show ?thesis by auto
  qed
qed

definition slow_world :: world where
  "slow_world = net_world\<lparr>w_getTx := \<lambda>n h. Inr (demo_rpc (if n < 3 then TxNotFound else TxSuccess) h)\<rparr>"

theorem wait_decides_witness:
  "fst (waitForTransaction slow_world ''rtx'' 3 net_start) \<noteq> Inr () \<and>
   fst (waitForTransaction slow_world ''rtx'' POLL_ATTEMPTS net_start) = Inr ()"
  using wait_decides [OF prod.collapse [symmetric], of slow_world "''rtx''" 3 net_start]
    wait_decides [OF prod.collapse [symmetric], of slow_world "''rtx''" POLL_ATTEMPTS net_start]
  by (auto simp: slow_world_def demo_rpc_def poll_ends_def POLL_ATTEMPTS_def intro!: exI [of _ 3])

subsection \<open>Failures\<close>

text \<open>A refund that failed on chain is never recovered.  If the network reports the stored envelope of a submitted
  refund as failed and refuses it again with \<open>txBadSeq\<close> (its sequence number is used up), then the signer leaves the
  job as it is for the recovery of dead envelopes, and the router's recovery refuses every such job, because the
  envelope is not absent from the chain: nothing changes, run after run.\<close>

theorem failed_refund_never_recovered:
  assumes "stored_envelope w job = Inr (leaseId, refundTx, tx)"
    and "w_getTx w (sg_tick s) refundTx = Inr res" "tr_status res = TxFailed"
    and "w_send w (Suc (sg_tick s)) tx = Inr \<lparr>sr_status = ''ERROR'', sr_code = Some ''txBadSeq''\<rparr>"
    and "tr_status (getTx refundTx) = TxFailed" "readRefund rid st = Some job"
  shows "confirmSubmitted w job amount policy s =
      (Inl (JsError ''left for dead-envelope recovery''),
       s\<lparr>sg_tick := Suc (Suc (sg_tick s)), sg_sent := sg_sent s @ [tx]\<rparr>) \<and>
    snd (handleRequeue decode getTx env cfg rid leaseId st) = st \<and>
    (\<forall>c v. fst (handleRequeue decode getTx env cfg rid leaseId st) = Inr (c, v) \<longrightarrow> c = 409)"
proof
  show "confirmSubmitted w job amount policy s =
      (Inl (JsError ''left for dead-envelope recovery''),
       s\<lparr>sg_tick := Suc (Suc (sg_tick s)), sg_sent := sg_sent s @ [tx]\<rparr>)"
    using assms(1-4)
    by (simp add: confirmSubmitted_def act_bind_def act_return_def ask_def looks_dead_def Let_def submit_def
        send_tx_def isRetryableSendError_def)
  have "r_refundTx job = Some refundTx"
    using assms(1) by (auto simp: stored_envelope_def js_simps check_Inr split: option.splits)
  with assms(5,6) show "snd (handleRequeue decode getTx env cfg rid leaseId st) = st \<and>
      (\<forall>c v. fst (handleRequeue decode getTx env cfg rid leaseId st) = Inr (c, v) \<longrightarrow> c = 409)"
    by (simp add: handleRequeue_def Let_def split: sum.split)
qed

lemma net_read: "readRefund ''h'' (store_with net_job) = Some net_job"
  by (simp add: readRefund_def kv_get_def handleRead_def store_with_value) (simp add: net_job_def)

theorem failed_refund_never_recovered_witness:
  "fst (confirmSubmitted net_world net_job 50 Auto net_start) = Inl (JsError ''left for dead-envelope recovery'') \<and>
    snd (handleRequeue net_decode (demo_rpc TxFailed) quiet demo_cfg ''h'' ''l'' (store_with net_job)) =
      store_with net_job"
proof -
  have "w_getTx net_world (sg_tick net_start) ''rtx'' = Inr (demo_rpc TxFailed ''rtx'')"
    by (simp add: net_world_def net_getTx_def pay_hash_def numeral_eq_Suc)
  moreover have "w_send net_world (Suc (sg_tick net_start)) net_tx = Inr \<lparr>sr_status = ''ERROR'', sr_code = Some ''txBadSeq''\<rparr>"
    by (simp add: net_world_def)
  ultimately show ?thesis
    using failed_refund_never_recovered [OF net_envelope, of net_start "demo_rpc TxFailed ''rtx''" "demo_rpc TxFailed"
        "''h''" "store_with net_job" 50 Auto net_decode quiet demo_cfg] net_read
    by (simp add: demo_rpc_def)
qed

subsection \<open>Alerts\<close>

definition outbox_kept :: "alert_row table \<Rightarrow> alert_row table \<Rightarrow> bool" where
  "outbox_kept ob ob' \<longleftrightarrow> (\<forall>k a. tget ob k = Some a \<longrightarrow> (\<exists>a'. tget ob' k = Some a' \<and>
     al_content a' = al_content a \<and> al_created_at a' = al_created_at a \<and> (al_sent a \<longrightarrow> al_sent a')))"

lemma outbox_kept_refl: "outbox_kept ob ob"
  by (simp add: outbox_kept_def)

lemma outbox_kept_trans: "outbox_kept a b \<Longrightarrow> outbox_kept b c \<Longrightarrow> outbox_kept a c"
  unfolding outbox_kept_def by metis

lemma insert_alert_kept: "outbox_kept ob (insert_alert key content now ob)"
  by (auto simp: outbox_kept_def insert_alert_def split: option.split)

lemma markSent_kept: "outbox_kept (sg_outbox s) (sg_outbox (snd (markSent key s)))"
  by (auto simp: outbox_kept_def markSent_def split: option.split)

interpretation alerts: signer_invariant "\<lambda>s. outbox_kept ob (sg_outbox s)" w for ob w
  by unfold_locales
    (auto simp: routerApi_frame intro: outbox_kept_trans insert_alert_kept markSent_kept)

lemma process_job_alerts: "pres (\<lambda>s. outbox_kept ob (sg_outbox s)) (process_job w max' threshold job) (\<lambda>_. True)"
  unfolding process_job_def Let_def
proof (rule pres_bind [OF pres_return], rule pres_bind [OF alerts.verifying], goal_cases)
  case (1 amount paid)
  have "pres (\<lambda>s. outbox_kept ob (sg_outbox s)) (send_tx w tx) (\<lambda>_. True)" for tx
    by (rule presI) (simp add: send_frame)
  from alerts.doing [OF this 1(1)] show ?case
    by (auto intro!: alerts.alerting pres_bind [OF presI] simp: reserve_frame)
qed

text \<open>Alerts are durable and go out once.  Over a run no alert is lost or rewritten (a second alert under the same key
  is ignored), an alert marked as sent stays so, and a flush only ever delivers alerts not yet marked.\<close>

theorem alerts_once:
  "outbox_kept (sg_outbox s) (sg_outbox (snd (run w s))) \<and>
    (\<forall>kv \<in> set (pending_alerts (sg_outbox s)). kv \<in> set (sg_outbox s) \<and> \<not> al_sent (snd kv))"
proof -
  have "set (pending_alerts ob) \<subseteq> set (filter (\<lambda>a. \<not> al_sent (snd a)) ob)" for ob
    unfolding pending_alerts_def by (rule order_trans [OF set_take_subset]) simp
  then show ?thesis
    using alerts.whole_run [OF process_job_alerts outbox_kept_refl] by (auto dest: subsetD)
qed

definition parked_alert :: alert_row where
  "parked_alert = \<lparr>al_content = HeldAlert ''h'' ''1000000000'', al_sent = False, al_created_at = 100\<rparr>"

theorem alerts_once_witness:
  "(\<exists>a. tget (sg_outbox (snd (run net_world (net_start\<lparr>sg_outbox := [(''held:h'', parked_alert)]\<rparr>)))) ''held:h'' = Some a \<and>
      al_content a = al_content parked_alert) \<and>
    pending_alerts [(''held:h'', parked_alert)] = [(''held:h'', parked_alert)]"
proof
  have "outbox_kept [(''held:h'', parked_alert)]
      (sg_outbox (snd (run net_world (net_start\<lparr>sg_outbox := [(''held:h'', parked_alert)]\<rparr>))))"
    using alerts_once [of "net_start\<lparr>sg_outbox := [(''held:h'', parked_alert)]\<rparr>" net_world] by simp
  moreover have "tget [(''held:h'', parked_alert)] ''held:h'' = Some parked_alert" by simp
  ultimately show "\<exists>a. tget (sg_outbox (snd (run net_world
      (net_start\<lparr>sg_outbox := [(''held:h'', parked_alert)]\<rparr>)))) ''held:h'' = Some a \<and>
      al_content a = al_content parked_alert"
    unfolding outbox_kept_def by blast
qed (simp add: pending_alerts_def parked_alert_def)

end
