(* ===== verification/Json.thy ===== *)
theory Json
  imports JsString
begin

text \<open>JSON values and HTTP responses: what the handlers parse and answer.\<close>

subsection \<open>JSON values\<close>

text \<open>\<open>JSON.parse\<close> results.  A number is carried by the text \<open>String(n)\<close>; an object by its members, each name once.\<close>

datatype json =
  JNull
| JBool bool
| JNum string
| JStr string
| JArr "json list"
| JObj "(string \<times> json) list"

fun jfield :: "json \<Rightarrow> string \<Rightarrow> json option" where
  "jfield (JObj fs) k = map_of fs k"
| "jfield _ k = None"

fun jstring :: "json option \<Rightarrow> string option" where
  "jstring (Some (JStr s)) = Some s"
| "jstring _ = None"

fun truthy :: "json option \<Rightarrow> bool" where
  "truthy (Some (JBool b)) = b"
| "truthy (Some (JNum s)) = (s \<notin> {''0'', ''NaN''})"
| "truthy (Some (JStr s)) = (s \<noteq> [])"
| "truthy (Some (JArr _)) = True"
| "truthy (Some (JObj _)) = True"
| "truthy _ = False"

text \<open>Is it an object or an array (\<open>typeof v === 'object'\<close> and not null)?\<close>

fun is_object :: "json \<Rightarrow> bool" where
  "is_object (JArr _) = True"
| "is_object (JObj _) = True"
| "is_object _ = False"

text \<open>An optional member of an answer: \<open>undefined\<close> is dropped by \<open>JSON.stringify\<close>.\<close>

definition opt_str :: "string \<Rightarrow> string option \<Rightarrow> (string \<times> json) list" where
  "opt_str k v = (case v of None \<Rightarrow> [] | Some s \<Rightarrow> [(k, JStr s)])"

definition opt_pair :: "string \<Rightarrow> string option \<Rightarrow> (string \<times> string) list" where
  "opt_pair k v = (case v of None \<Rightarrow> [] | Some s \<Rightarrow> [(k, s)])"

text \<open>A body that is not built as JSON is carried as \<open>JStr\<close> of its text; header names as the code writes them.\<close>

record response =
  rs_status :: int
  rs_headers :: "(string \<times> string) list"
  rs_body :: json

definition JSON_HEADERS :: "(string \<times> string) list" where
  "JSON_HEADERS = [(''Content-Type'', ''application/json'')]"

text \<open>\<open>headers.get\<close> and \<open>headers.set\<close>: names are compared without case.\<close>

fun header_of :: "(string \<times> string) list \<Rightarrow> string \<Rightarrow> string option" where
  "header_of [] k = None"
| "header_of ((k', v) # hs) k = (if js_lower k' = js_lower k then Some v else header_of hs k)"

fun set_header :: "string \<Rightarrow> string \<Rightarrow> (string \<times> string) list \<Rightarrow> (string \<times> string) list" where
  "set_header k v [] = [(k, v)]"
| "set_header k v ((k', v') # hs) = (if js_lower k' = js_lower k then (k', v) # hs else (k', v') # set_header k v hs)"

lemma header_set [simp]: "header_of (set_header k v hs) k' = (if js_lower k = js_lower k' then Some v else header_of hs k')"
  by (induction hs) auto

definition json_response :: "(string \<times> json) list \<Rightarrow> int \<Rightarrow> response" where
  "json_response body status = \<lparr>rs_status = status, rs_headers = JSON_HEADERS, rs_body = JObj body\<rparr>"

definition fail :: "int \<Rightarrow> string \<Rightarrow> string \<Rightarrow> (string \<times> json) list \<Rightarrow> response" where
  "fail status code message extra =
     json_response ([(''error'', JStr code), (''message'', JStr message)] @ extra) status"

end
