(* ===== verification/ProxyTypes.thy ===== *)
theory ProxyTypes
  imports Json Refund
begin

text \<open>
  What the paid proxy (\<open>src/src/routes/proxy.ts\<close>) asks of others and is answered: plain fetches, the payment library's
  verification of an incoming payment, the x402 facilitator, Cloudflare KV, the refund queue, and the readers of
  balances and switches.  They are calls of a program (\<open>Async\<close>), so this theory comes before it.
\<close>

subsection \<open>Fetches\<close>

record fetch_call =
  fc_method :: string
  fc_url :: string
  fc_headers :: "(string \<times> string) list"
  fc_body :: "string option"

text \<open>A response: its text, unless reading it fails.\<close>

record http_text =
  ht_status :: int
  ht_headers :: "(string \<times> string) list"
  ht_text :: "string option"

subsection \<open>Incoming payments\<close>

text \<open>
  A run of the library's \<open>stellar/charge\<close> or \<open>stellar/channel\<close> handler on a request.  It answers with a challenge, or it
  accepts: then its \<open>onPaymentSuccess\<close> hook may have seen the payment, and its receipt may carry a reference.
\<close>

record pay_check =
  py_channel :: "(string \<times> string) option"
  py_amount :: string
  py_currency :: string
  py_recipient :: string
  py_meta :: string
  py_authorization :: "string option"

datatype pay_answer = PayChallenged "(string \<times> string) list" json | PayAccepted "json option" "string option"

text \<open>A decoded x402 payload, what the facilitator must hold it to, and what a settlement came to.\<close>

record x402_payment =
  xp_scheme :: string
  xp_network :: string
  xp_payTo :: string
  xp_amount :: string
  xp_transaction :: "json option"

record x402_requirements =
  xq_network :: string
  xq_amount :: string
  xq_asset :: string
  xq_payTo :: string

datatype settle_state = SettlePending | SettleDone | SettleFailed | SettleUnknown

record settle_result =
  sr_success :: bool
  sr_state :: settle_state
  sr_transaction :: "string option"
  sr_reason :: "string option"
  sr_error :: "string option"
  sr_attempted :: "string list"

subsection \<open>The order ledger\<close>

datatype refund_mark = RefundNone | RefundPending | RefundRefunded | RefundUnknown

record order_entry =
  oe_id :: string
  oe_ts :: int
  oe_route :: string
  oe_payer :: "string option"
  oe_amount :: string
  oe_currency :: "json option"
  oe_ref :: "string option"
  oe_settlement :: "settle_state option"
  oe_attempts :: "string list"
  oe_reason :: "string option"
  oe_error :: "string option"
  oe_path :: string
  oe_upstream :: int
  oe_refund :: refund_mark

subsection \<open>Calls\<close>

text \<open>
  \<open>ReadBody\<close> reads the body of an answer of that status; a settlement is answered by the hash lists its \<open>onSigned\<close>
  callback was called with, and its result.
\<close>

text \<open>How a call came out for the published metrics, and one row of them; latency is left out.\<close>

datatype call_outcome = CallOk | ProviderFault | CallerError | RouterFault | CallPending

record route_call =
  rcl_callId :: "string option"
  rcl_routeId :: string
  rcl_method :: string
  rcl_outcome :: call_outcome
  rcl_reason :: "string option"
  rcl_upstream :: "int option"

text \<open>What a job is bound to, and the voucher it was paid with.\<close>

record channel_delivery =
  cd_contract :: string
  cd_lockId :: string
  cd_challengeId :: string
  cd_accepted :: string
  cd_previous :: string
  cd_close :: bool

record job_auth =
  ja_address :: string
  ja_service :: string
  ja_host :: string
  ja_path :: string
  ja_paidAt :: int
  ja_proof :: "payment_proof option"
  ja_delivery :: "channel_delivery option"

datatype proxy_req =
  AllowedMethods string
| ProviderIndex string
| Fetch fetch_call
| ReadBody int
| PeekDaily string int
| CheckoutPaused
| TempoBalance string
| SessionState string
| KvTextGet string
| KvTextPut string json
| KvTextDelete string
| VerifyPayment pay_check
| FacilitatorVerify x402_payment x402_requirements
| SettleX402 x402_payment x402_requirements
| EnqueueRefund enqueue_input
| OrderPut string order_entry
| OrderGet string
| TxIndexPut string string
| RecordStats order_entry
| OpenPut string order_entry int
| OpenGet string
| OpenList
| OpenDelete string
| TxStatus string
| SettlementAlert order_entry
| LowBalanceAlert int
| JobPut string job_auth
| HostedHeaders string
| ChannelForAgent string
| StellarChannel string
| RouteHealth string "string option"
| RouteCall route_call

datatype chain_status = ChainSuccess | ChainFailed | ChainNotFound

text \<open>The record of a Stellar channel, as far as the proxy reads it: commitment key, agent, currency.\<close>

record stellar_channel =
  sc_commitmentKey :: string
  sc_agent :: string
  sc_currency :: string

datatype proxy_ans =
  AMethods "string list"
| AIndex "response option"
| AFetched http_text
| ABody "string option" string
| APeek "bool \<times> int"
| AFlag bool
| ABalance "int option"
| AChain int int int
| AText "string option"
| AUnit
| APay pay_answer
| AFacilitator "string option"
| ASettled402 "string list list" settle_result
| ARefund refund_record
| AOrder "order_entry option"
| AOpen "(order_entry \<times> int) option"
| ANames "string list"
| ATxStatus chain_status
| AHeaders "(string \<times> string) list option"
| AAgentChannel "string option"
| AStellarChannel "stellar_channel option"

end
