(* ===== verification/ChannelTypes.thy ===== *)
theory ChannelTypes
  imports ProxyTypes
begin

text \<open>
  The data of the payment channels of the playground: what the atomic store and the registry hold for a channel, what is
  read from the chain, and the calls the channel code makes.  An update of the atomic store is named by the function
  it passes to \<open>update\<close>; \<open>Vouchers\<close> gives these functions.  Dates are kept as the instants they print.
\<close>

subsection \<open>The atomic store\<close>

text \<open>\<open>LatestVoucher\<close>, \<open>VoucherWriteoff\<close>, the totals of the write-offs, the delivery lock, and the watermark of mppx.\<close>

record latest_voucher =
  lv_amountDecimal :: string
  lv_cumulativeRaw :: string
  lv_signature :: string
  lv_lastSettledRaw :: string
  lv_updatedAt :: int

record voucher_writeoff =
  wo_cumulativeRaw :: string
  wo_reason :: string
  wo_at :: int

record writeoff_totals =
  wt_count :: int
  wt_totalRaw :: string
  wt_channels :: "(string \<times> string) list"

record delivery_lock =
  dl_id :: string
  dl_acquiredAt :: "int option"
  dl_expiresAt :: "int option"

record watermark =
  wm_amount :: string
  wm_settling :: bool

datatype chan_val =
  VoucherVal latest_voucher
| MarkVal int
| CountVal int
| WriteoffVal voucher_writeoff
| TotalsVal writeoff_totals
| LockVal delivery_lock
| WatermarkVal watermark
| OtherVal json

datatype chan_upd =
  PutVoucher string string string int
| MarkSettled string int
| SetMark int
| CountAbort
| WriteOff string string int
| AddWriteoff string string
| Rollback string string
| AcquireLock string int
| RevalidateLock string int
| ReleaseLock string

subsection \<open>The registry and the chain\<close>

record pg_channel =
  pc_contract :: string
  pc_commitmentKey :: string
  pc_agent :: string
  pc_currency :: string
  pc_network :: string
  pc_depositRaw :: string
  pc_to :: string
  pc_wasmHash :: string
  pc_version :: "int option"
  pc_openedAt :: int

record onchain_channel =
  oc_token :: string
  oc_from :: string
  oc_to :: string
  oc_commitmentKeyHex :: string
  oc_refundWaitingPeriod :: int
  oc_balanceRaw :: string
  oc_wasmHash :: string
  oc_closeEffectiveAt :: "int option"

record chan_state =
  cs_closeEffectiveAt :: "int option"
  cs_currentLedger :: int
  cs_balance :: "json option"

record verify_request =
  vr_channel :: string
  vr_commitmentKey :: string
  vr_amount :: string
  vr_reference :: string
  vr_authorization :: "string option"

text \<open>
  What the library's verification of a voucher returns: a 402 with the body of its challenge, or success with the payment its
  \<open>onPaymentSuccess\<close> hook saw, if it fired.
\<close>

datatype verify_answer = Challenged "(string \<times> string) list" json | Accepted "json option"

record close_call =
  cc_channel :: string
  cc_amount :: int
  cc_signature :: "nat list"

subsection \<open>Calls\<close>

datatype chan_req =
  StoreGet string
| StoreUpdate string chan_upd
| StoreDelete string
| PgGet string
| PgAgentGet string
| PgPut string pg_channel
| PgAgentPut string string
| PgList string
| VerifyVoucher verify_request
| CacheGet string
| CachePut string chan_state int
| ReadState string
| ReadOnChain string string
| CloseOnChain close_call
| Proxy proxy_req

datatype chan_ans =
  AValue "chan_val option"
| ADid bool
| ADone
| APgChannel "pg_channel option"
| APgAgent "string option"
| APgPages "string list list"
| AVerify verify_answer
| ACached "(chan_state \<times> int) option"
| AState chan_state
| AOnChain onchain_channel
| ATx string
| AProxy proxy_ans

end
