(* ===== verification/Async.thy ===== *)
theory Async
  imports Ledger ChannelTypes
begin

text \<open>
  Request handlers as programs.  An \<open>async\<close> handler of the router alternates its own code with awaited calls: to the
  \<open>PlaygroundLedger\<close> object, to other HTTP servers, to the wallet that signs payments, to Cloudflare KV, to the clock
  and the random source.  \<open>'a prog\<close> is the tree of those calls: a constructor per kind of call, whose argument is
  the rest of the handler, for every answer.  Programs are composed with \<open>bind\<close> and \<open>try_catch\<close>, as the source
  sequences its awaits.

  \<open>system\<close> is the whole deployment: the ledger, and any number of handlers in flight, each with the history of its
  own calls.  A step delivers one call of one handler, so handlers interleave at every await; an answer of the ledger
  can be lost before or after the request took effect, and a handler that is never stepped again has crashed.
  \<open>wp\<close> is the calculus for such programs: a guard on every call that must be justified by the history so far.
\<close>

subsection \<open>HTTP answers\<close>

text \<open>A response of another server: its status, and its body when that parses as JSON.\<close>

record http_answer =
  ha_status :: int
  ha_json :: "json option"

definition ha_ok :: "http_answer \<Rightarrow> bool" where
  "ha_ok a \<longleftrightarrow> 200 \<le> ha_status a \<and> ha_status a \<le> 299"

subsection \<open>Exceptions\<close>

text \<open>\<open>PaymentEvidence\<close>, \<open>UpstreamError\<close> and the other error classes a \<open>catch\<close> tells apart.\<close>

datatype evidence = EvNo | EvMaybe | EvYes

datatype exn =
  JsExn string
| UpstreamError string int string evidence
| ModelNotAllowedError string string
| ChannelNotInstalledError string
| SessionChallengeMismatchError string string
| BudgetExceededError string string string
| ChannelDepositExhaustedError string string string
| StellarChannelNotRegisteredError string

subsection \<open>Ledger requests\<close>

datatype lreq =
  RCreate create_body
| RGet string
| ROpen open_body
| RAccount string int
| RReserve reserve_body
| RDispatch string
| RSettle string settle_action "string option" "string option"
| RTotals

datatype lans =
  AIntent "stored_intent result"
| AOpened "open_answer result"
| AAccount "int \<times> stored_call list"
| AReserved "reserve_outcome result"
| AMarked "bool result"
| ASettled "settle_answer result"
| ATotals totals_answer

text \<open>
  What the object answers, and its next state.  A handler of the object that throws answers status 500, on which
  \<open>doPost\<close> throws.  A call to the outside ends with an answer, or throws an \<open>Error\<close> with a message.
\<close>

type_synonym 'a outcome = "string + 'a"

definition answer :: "('a \<Rightarrow> lans) \<Rightarrow> 'a js \<Rightarrow> lans outcome" where
  "answer f r = (case r of Inl e \<Rightarrow> Inl ''playground ledger DO failed (500)'' | Inr x \<Rightarrow> Inr (f x))"

fun serve :: "lreq \<Rightarrow> ledger \<Rightarrow> lans outcome \<times> ledger" where
  "serve (RCreate b) st = (case createIntent b st of (r, st') \<Rightarrow> (answer AIntent r, st'))"
| "serve (RGet k) st = (Inr (AIntent (getIntent k st)), st)"
| "serve (ROpen b) st = (case openIntent b st of (r, st') \<Rightarrow> (answer AOpened r, st'))"
| "serve (RAccount acc limit) st = (Inr (AAccount (account acc limit st)), st)"
| "serve (RReserve b) st = (case reserve b st of (r, st') \<Rightarrow> (answer AReserved r, st'))"
| "serve (RDispatch k) st = (case markDispatched k st of (r, st') \<Rightarrow> (Inr (AMarked r), st'))"
| "serve (RSettle k action charge reason) st =
     (case settle k action charge reason st of (r, st') \<Rightarrow> (answer ASettled r, st'))"
| "serve RTotals st = (Inr (ATotals (totals st)), st)"

subsection \<open>Programs\<close>

text \<open>
  The calls beside the ledger's: an HTTP request; one run of the payment client (\<open>mppx\<close>), answered by the candidate
  challenges of each 402 it meets, in its order of preference, and, when all of those have been answered, what it
  returns; a payment to sign; KV; a slot of a daily limit; the clock; the random source.
\<close>

datatype http_req =
  HttpGet string
| HttpPost string "(string \<times> string) list"
| HttpMetered string "(string \<times> string) list" "string option"

text \<open>One challenge of a 402 answer: its intent and its request object.\<close>

record challenge =
  ch_intent :: "json option"
  ch_request :: "json option"

record signing =
  sn_url :: string
  sn_amount :: string
  sn_channel :: "string option"
  sn_cumulative :: "string option"

record tempo_channel =
  tc_channelId :: string
  tc_signer :: "string option"
  tc_payee :: string
  tc_currency :: string
  tc_escrow :: string
  tc_chain :: string
  tc_cumulativeRaw :: string
  tc_depositRaw :: "string option"

datatype 'a prog =
  Done 'a
| Throw exn
| Ledger lreq "lans outcome \<Rightarrow> 'a prog"
| Http http_req "http_answer outcome \<Rightarrow> 'a prog"
| Mppx string "challenge list list \<times> http_answer outcome \<Rightarrow> 'a prog"
| Sign signing "unit outcome \<Rightarrow> 'a prog"
| KvGet string "tempo_channel option outcome \<Rightarrow> 'a prog"
| KvPut string tempo_channel "unit outcome \<Rightarrow> 'a prog"
| DailySlot string int "(bool \<times> int) outcome \<Rightarrow> 'a prog"
| Clock "int \<Rightarrow> 'a prog"
| RandomUUID "string \<Rightarrow> 'a prog"
| RandomBytes "nat list \<Rightarrow> 'a prog"
| Chan chan_req "chan_ans outcome \<Rightarrow> 'a prog"

lemma prog_induct [case_names Done Throw Ledger Http Mppx Sign KvGet KvPut DailySlot Clock RandomUUID RandomBytes Chan]:
  assumes "\<And>x. P (Done x)" "\<And>e. P (Throw e)" "\<And>r k. (\<And>a. P (k a)) \<Longrightarrow> P (Ledger r k)"
    "\<And>r k. (\<And>a. P (k a)) \<Longrightarrow> P (Http r k)" "\<And>u k. (\<And>a. P (k a)) \<Longrightarrow> P (Mppx u k)"
    "\<And>c k. (\<And>a. P (k a)) \<Longrightarrow> P (Sign c k)" "\<And>n k. (\<And>a. P (k a)) \<Longrightarrow> P (KvGet n k)"
    "\<And>n v k. (\<And>a. P (k a)) \<Longrightarrow> P (KvPut n v k)" "\<And>n d k. (\<And>a. P (k a)) \<Longrightarrow> P (DailySlot n d k)"
    "\<And>k. (\<And>a. P (k a)) \<Longrightarrow> P (Clock k)" "\<And>k. (\<And>a. P (k a)) \<Longrightarrow> P (RandomUUID k)"
    "\<And>k. (\<And>a. P (k a)) \<Longrightarrow> P (RandomBytes k)" "\<And>c k. (\<And>a. P (k a)) \<Longrightarrow> P (Chan c k)"
  shows "P p"
  by (induction p) (auto intro: assms rangeI)

primrec bind :: "'a prog \<Rightarrow> ('a \<Rightarrow> 'b prog) \<Rightarrow> 'b prog" where
  "bind (Done x) f = f x"
| "bind (Throw e) f = Throw e"
| "bind (Ledger r k) f = Ledger r (\<lambda>a. bind (k a) f)"
| "bind (Http r k) f = Http r (\<lambda>a. bind (k a) f)"
| "bind (Mppx u k) f = Mppx u (\<lambda>a. bind (k a) f)"
| "bind (Sign s k) f = Sign s (\<lambda>a. bind (k a) f)"
| "bind (KvGet n k) f = KvGet n (\<lambda>a. bind (k a) f)"
| "bind (KvPut n v k) f = KvPut n v (\<lambda>a. bind (k a) f)"
| "bind (DailySlot n d k) f = DailySlot n d (\<lambda>a. bind (k a) f)"
| "bind (Clock k) f = Clock (\<lambda>a. bind (k a) f)"
| "bind (RandomUUID k) f = RandomUUID (\<lambda>a. bind (k a) f)"
| "bind (RandomBytes k) f = RandomBytes (\<lambda>a. bind (k a) f)"
| "bind (Chan c k) f = Chan c (\<lambda>a. bind (k a) f)"

text \<open>\<open>try { p } catch (e) { h(e) }\<close>\<close>

primrec try_catch :: "'a prog \<Rightarrow> (exn \<Rightarrow> 'a prog) \<Rightarrow> 'a prog" where
  "try_catch (Done x) h = Done x"
| "try_catch (Throw e) h = h e"
| "try_catch (Ledger r k) h = Ledger r (\<lambda>a. try_catch (k a) h)"
| "try_catch (Http r k) h = Http r (\<lambda>a. try_catch (k a) h)"
| "try_catch (Mppx u k) h = Mppx u (\<lambda>a. try_catch (k a) h)"
| "try_catch (Sign s k) h = Sign s (\<lambda>a. try_catch (k a) h)"
| "try_catch (KvGet n k) h = KvGet n (\<lambda>a. try_catch (k a) h)"
| "try_catch (KvPut n v k) h = KvPut n v (\<lambda>a. try_catch (k a) h)"
| "try_catch (DailySlot n d k) h = DailySlot n d (\<lambda>a. try_catch (k a) h)"
| "try_catch (Clock k) h = Clock (\<lambda>a. try_catch (k a) h)"
| "try_catch (RandomUUID k) h = RandomUUID (\<lambda>a. try_catch (k a) h)"
| "try_catch (RandomBytes k) h = RandomBytes (\<lambda>a. try_catch (k a) h)"
| "try_catch (Chan c k) h = Chan c (\<lambda>a. try_catch (k a) h)"

text \<open>The result of a \<open>try\<close> as a value, for a caller that branches on it.\<close>

definition attempt :: "'a prog \<Rightarrow> (exn + 'a) prog" where
  "attempt p = try_catch (bind p (\<lambda>x. Done (Inr x))) (\<lambda>e. Done (Inl e))"

definition from_sum :: "exn + 'a \<Rightarrow> 'a prog" where
  "from_sum r = (case r of Inl e \<Rightarrow> Throw e | Inr x \<Rightarrow> Done x)"

definition from_outside :: "'a outcome \<Rightarrow> 'a prog" where
  "from_outside r = (case r of Inl m \<Rightarrow> Throw (JsExn m) | Inr x \<Rightarrow> Done x)"

definition throwing :: "'a js \<Rightarrow> 'a prog" where
  "throwing r = (case r of Inl _ \<Rightarrow> Throw (JsExn ''RangeError'') | Inr x \<Rightarrow> Done x)"

definition http :: "http_req \<Rightarrow> http_answer prog" where
  "http r = Http r from_outside"

definition date_now :: "int prog" where "date_now = Clock Done"
definition uuid :: "string prog" where "uuid = RandomUUID Done"

end
