(* ===== verification/AsyncSystem.thy ===== *)
theory AsyncSystem
  imports Async LedgerInv
begin

text \<open>
  The system of all handlers in flight, the guard calculus \<open>wp\<close>, and the locale \<open>guarded_system\<close> that turns the guards
  of the handlers into an invariant of the system.
\<close>

subsection \<open>Histories and guards\<close>

text \<open>What a handler has done so far, newest first: the calls that matter to the properties, with their answers.\<close>

datatype event =
  ELedger lreq "lans outcome"
| EHttp http_req "http_answer outcome"
| ESign signing "unit outcome"
| EKvGet string "tempo_channel option outcome"
| EChan chan_req "chan_ans outcome"

type_synonym history = "event list"

datatype act = CallLedger lreq | CallHttp http_req | CallSign signing | CallChan chan_req

type_synonym guard_pred = "act \<Rightarrow> history \<Rightarrow> bool"

text \<open>
  \<open>wp p G Q E h\<close>: run from history \<open>h\<close>, whatever is answered, every call of \<open>p\<close> satisfies \<open>G\<close> at that moment, and
  \<open>p\<close> ends with \<open>Q\<close> of its value or \<open>E\<close> of its exception and the history then.
\<close>

primrec wp :: "'a prog \<Rightarrow> guard_pred \<Rightarrow> ('a \<Rightarrow> history \<Rightarrow> bool) \<Rightarrow> (exn \<Rightarrow> history \<Rightarrow> bool) \<Rightarrow> history \<Rightarrow> bool" where
  "wp (Done x) G Q E h = Q x h"
| "wp (Throw e) G Q E h = E e h"
| "wp (Ledger r k) G Q E h = (G (CallLedger r) h \<and> (\<forall>a. wp (k a) G Q E (ELedger r a # h)))"
| "wp (Http r k) G Q E h = (G (CallHttp r) h \<and> (\<forall>a. wp (k a) G Q E (EHttp r a # h)))"
| "wp (Sign c k) G Q E h = (G (CallSign c) h \<and> (\<forall>a. wp (k a) G Q E (ESign c a # h)))"
| "wp (Mppx u k) G Q E h = (\<forall>a. wp (k a) G Q E h)"
| "wp (KvGet n k) G Q E h = (\<forall>a. wp (k a) G Q E (EKvGet n a # h))"
| "wp (KvPut n v k) G Q E h = (\<forall>a. wp (k a) G Q E h)"
| "wp (DailySlot n d k) G Q E h = (\<forall>a. wp (k a) G Q E h)"
| "wp (Clock k) G Q E h = (\<forall>a. wp (k a) G Q E h)"
| "wp (RandomUUID k) G Q E h = (\<forall>a. wp (k a) G Q E h)"
| "wp (RandomBytes k) G Q E h = (\<forall>a. wp (k a) G Q E h)"
| "wp (Chan c k) G Q E h = (G (CallChan c) h \<and> (\<forall>a. wp (k a) G Q E (EChan c a # h)))"

lemma wp_Done [simp]: "wp (Done x) G Q E = Q x" and wp_Throw [simp]: "wp (Throw e) G Q E = E e"
  by auto

lemma wp_bind [simp]: "wp (bind p f) G Q E = wp p G (\<lambda>x. wp (f x) G Q E) E"
proof
  show "wp (bind p f) G Q E h = wp p G (\<lambda>x. wp (f x) G Q E) E h" for h
    by (induction p arbitrary: h) simp_all
qed

lemma wp_try [simp]: "wp (try_catch p c) G Q E = wp p G Q (\<lambda>e. wp (c e) G Q E)"
proof
  show "wp (try_catch p c) G Q E h = wp p G Q (\<lambda>e. wp (c e) G Q E) h" for h
    by (induction p arbitrary: h) simp_all
qed

lemma wp_mono:
  "wp p G Q E h \<Longrightarrow> (\<And>x h. Q x h \<Longrightarrow> Q' x h) \<Longrightarrow> (\<And>e h. E e h \<Longrightarrow> E' e h) \<Longrightarrow> wp p G Q' E' h"
  by (induction p arbitrary: h) auto

lemma wp_attempt [simp]: "wp (attempt p) G Q E = wp p G (\<lambda>x. Q (Inr x)) (\<lambda>e. Q (Inl e))"
  by (simp add: attempt_def)

lemma wp_from_sum [simp]: "wp (from_sum r) G Q E = (case r of Inl e \<Rightarrow> E e | Inr x \<Rightarrow> Q x)"
  by (simp add: from_sum_def split: sum.split)

lemma wp_from_outside [simp]: "wp (from_outside r) G Q E = (case r of Inl m \<Rightarrow> E (JsExn m) | Inr x \<Rightarrow> Q x)"
  by (simp add: from_outside_def split: sum.split)

lemma wp_throwing [simp]:
  "wp (throwing r) G Q E = (case r of Inl _ \<Rightarrow> E (JsExn ''RangeError'') | Inr x \<Rightarrow> Q x)"
  by (simp add: throwing_def split: sum.split)

lemma wp_conj: "wp p G Q E h \<Longrightarrow> wp p G' Q' E' h \<Longrightarrow>
    wp p (\<lambda>c h. G c h \<and> G' c h) (\<lambda>x h. Q x h \<and> Q' x h) (\<lambda>e h. E e h \<and> E' e h) h"
  by (induction p arbitrary: h) auto

text \<open>The history only grows; what holds of a history and every longer one can be carried along.\<close>

lemma wp_grows:
  "wp p G Q E h \<Longrightarrow> (\<And>e h. F h \<Longrightarrow> F (e # h)) \<Longrightarrow> F h \<Longrightarrow>
    wp p G (\<lambda>x h. Q x h \<and> F h) (\<lambda>e h. E e h \<and> F h) h"
  by (induction p arbitrary: h) auto

subsection \<open>The system\<close>

record system =
  s_ledger :: ledger
  s_procs :: "nat \<Rightarrow> (history \<times> response prog) option"

definition start :: system where
  "start = \<lparr>s_ledger = empty_ledger, s_procs = (\<lambda>_. None)\<rparr>"

text \<open>A call other than the ledger's is answered in any way.\<close>

inductive outside :: "'a prog \<Rightarrow> history \<Rightarrow> 'a prog \<Rightarrow> bool" where
  "outside (Http r k) [EHttp r a] (k a)"
| "outside (Sign c k) [ESign c b] (k b)"
| "outside (Mppx u k) [] (k m)"
| "outside (KvGet n k) [EKvGet n g] (k g)"
| "outside (KvPut n v k) [] (k b)"
| "outside (DailySlot n d k) [] (k y)"
| "outside (Clock k) [] (k t)"
| "outside (RandomUUID k) [] (k s)"
| "outside (RandomBytes k) [] (k bs)"
| "outside (Chan c k) [EChan c z] (k z)"

text \<open>\<open>crypto.randomUUID\<close> gives an id that is not taken.\<close>

definition fresh_id :: "lreq \<Rightarrow> ledger \<Rightarrow> bool" where
  "fresh_id r l = (case r of RCreate b \<Rightarrow> tget (intents l) (cb_intent_id b) = None \<and> cb_intent_id b \<noteq> [] | _ \<Rightarrow> True)"

inductive sys_step :: "(response prog \<Rightarrow> bool) \<Rightarrow> system \<Rightarrow> system \<Rightarrow> bool" for H where
  arrive: "H p \<Longrightarrow> s_procs s n = None \<Longrightarrow> sys_step H s (s\<lparr>s_procs := (s_procs s)(n \<mapsto> ([], p))\<rparr>)"
| served: "s_procs s n = Some (h, Ledger r k) \<Longrightarrow> fresh_id r (s_ledger s) \<Longrightarrow> serve r (s_ledger s) = (a, l) \<Longrightarrow>
    sys_step H s \<lparr>s_ledger = l, s_procs = (s_procs s)(n \<mapsto> (ELedger r a # h, k a))\<rparr>"
| answer_lost: "s_procs s n = Some (h, Ledger r k) \<Longrightarrow> fresh_id r (s_ledger s) \<Longrightarrow> serve r (s_ledger s) = (a, l) \<Longrightarrow>
    sys_step H s \<lparr>s_ledger = l, s_procs = (s_procs s)(n \<mapsto> (ELedger r (Inl e) # h, k (Inl e)))\<rparr>"
| request_lost: "s_procs s n = Some (h, Ledger r k) \<Longrightarrow>
    sys_step H s (s\<lparr>s_procs := (s_procs s)(n \<mapsto> (ELedger r (Inl e) # h, k (Inl e)))\<rparr>)"
| answered: "s_procs s n = Some (h, p) \<Longrightarrow> outside p es p' \<Longrightarrow>
    sys_step H s (s\<lparr>s_procs := (s_procs s)(n \<mapsto> (es @ h, p'))\<rparr>)"
| reaper: "sys_step H s (s\<lparr>s_ledger := alarm t (s_ledger s)\<rparr>)"

definition sys_steps :: "(response prog \<Rightarrow> bool) \<Rightarrow> system \<Rightarrow> system \<Rightarrow> bool" where
  "sys_steps H = (sys_step H)\<^sup>*\<^sup>*"

definition reachable :: "(response prog \<Rightarrow> bool) \<Rightarrow> system \<Rightarrow> bool" where
  "reachable H = sys_steps H start"

lemma reachable_start: "reachable H start"
  by (simp add: reachable_def sys_steps_def)

lemma reachable_step: "reachable H s \<Longrightarrow> sys_step H s s' \<Longrightarrow> reachable H s'"
  unfolding reachable_def sys_steps_def by (rule rtranclp.rtrancl_into_rtrancl)

text \<open>Every step of the system is at most one step of the ledger: its invariants hold of the system's ledger.\<close>

lemma serve_lstep:
  assumes "fresh_id r l" "\<And>b. r = ROpen b \<Longrightarrow> Q b"
  shows "lsteps Q l (snd (serve r l))"
proof -
  have one: "lstep Q l l' \<Longrightarrow> lsteps Q l l'" for l' by (simp add: lsteps_def)
  show ?thesis
    using assms by (cases r) (auto simp: split_beta fresh_id_def lsteps_def intro!: one [unfolded lsteps_def] lstep.intros)
qed

lemma any_openI: "any_open b"
  by (simp add: any_open_def)

lemma sys_step_ledger: "sys_step H s s' \<Longrightarrow> lsteps any_open (s_ledger s) (s_ledger s')"
proof (induction rule: sys_step.induct)
  case (served s n h r k a l)
  then show ?case using serve_lstep [of r "s_ledger s" any_open, OF _ any_openI] by simp
next
  case (answer_lost s n h r k a l e)
  then show ?case using serve_lstep [of r "s_ledger s" any_open, OF _ any_openI] by simp
next
  case (reaper s t)
  have "lstep any_open (s_ledger s) (alarm t (s_ledger s))" by (rule lstep.intros)
  then show ?case by (simp add: lsteps_def)
qed (simp_all add: lsteps_def)

lemma reachable_ledger: "reachable H s \<Longrightarrow> lsteps any_open empty_ledger (s_ledger s)"
  unfolding reachable_def sys_steps_def
proof (induction rule: rtranclp_induct)
  case base
  show ?case by (simp add: start_def lsteps_def)
next
  case (step s s')
  from step.IH sys_step_ledger [OF step.hyps(2)] show ?case by (simp add: lsteps_def)
qed

lemma reachable_money: "reachable H s \<Longrightarrow> money_ok (s_ledger s)"
  and reachable_payments: "reachable H s \<Longrightarrow> payments_ok (s_ledger s)"
  using reachable_ledger money_reach payments_reach by blast+

subsection \<open>Invariants of the system\<close>

definition hist_of :: "system \<Rightarrow> nat \<Rightarrow> history" where
  "hist_of s n = (case s_procs s n of None \<Rightarrow> [] | Some (h, p) \<Rightarrow> h)"

lemma hist_of_simps [simp]:
  "hist_of start = (\<lambda>_. [])"
  "hist_of (s\<lparr>s_procs := (s_procs s)(n \<mapsto> (h, p))\<rparr>) = (hist_of s)(n := h)"
  "hist_of \<lparr>s_ledger = l, s_procs = (s_procs s)(n \<mapsto> (h, p))\<rparr> = (hist_of s)(n := h)"
  "hist_of (s\<lparr>s_ledger := l\<rparr>) = hist_of s"
  by (auto simp: hist_of_def start_def fun_eq_iff)

lemma s_ledger_procs: "s_ledger (s\<lparr>s_procs := f\<rparr>) = s_ledger s"
  by simp

lemma hist_of_Some: "s_procs s n = Some (h, p) \<Longrightarrow> hist_of s n = h"
  by (simp add: hist_of_def)

lemma hist_of_None: "s_procs s n = None \<Longrightarrow> (hist_of s)(n := []) = hist_of s"
  by (auto simp: hist_of_def)

text \<open>
  A guard that every handler justifies, and an assertion \<open>I\<close> on the ledger and the histories that every guarded call
  keeps: then \<open>I\<close> holds in every reachable state.
\<close>

locale guarded_system =
  fixes H :: "response prog \<Rightarrow> bool" and G :: guard_pred and I :: "ledger \<Rightarrow> (nat \<Rightarrow> history) \<Rightarrow> bool"
  assumes handlers: "H p \<Longrightarrow> wp p G (\<lambda>_ _. True) (\<lambda>_ _. True) []"
    and initially: "I empty_ledger (\<lambda>_. [])"
    and serving: "I l hs \<Longrightarrow> money_ok l \<Longrightarrow> payments_ok l \<Longrightarrow> G (CallLedger r) (hs n) \<Longrightarrow> fresh_id r l \<Longrightarrow>
      serve r l = (a, l') \<Longrightarrow> b = a \<or> b = Inl e \<Longrightarrow> I l' (hs(n := ELedger r b # hs n))"
    and losing: "I l hs \<Longrightarrow> I l (hs(n := ELedger r (Inl e) # hs n))"
    and asking: "I l hs \<Longrightarrow> G (CallHttp q) (hs n) \<Longrightarrow> I l (hs(n := EHttp q w # hs n))"
    and signing: "I l hs \<Longrightarrow> G (CallSign c) (hs n) \<Longrightarrow> I l (hs(n := ESign c v # hs n))"
    and calling: "I l hs \<Longrightarrow> G (CallChan q') (hs n) \<Longrightarrow> I l (hs(n := EChan q' z # hs n))"
    and reading: "I l hs \<Longrightarrow> I l (hs(n := EKvGet key g # hs n))"
    and reaping: "I l hs \<Longrightarrow> money_ok l \<Longrightarrow> payments_ok l \<Longrightarrow> I (alarm t l) hs"
begin

definition live :: "system \<Rightarrow> bool" where
  "live s \<longleftrightarrow> (\<forall>n h p. s_procs s n = Some (h, p) \<longrightarrow> wp p G (\<lambda>_ _. True) (\<lambda>_ _. True) h)"

lemma outside_wp: "outside p es p' \<Longrightarrow> wp p G Q E h \<Longrightarrow> wp p' G Q E (es @ h)"
  by (induction rule: outside.induct) auto

lemma outside_keeps: "outside p es p' \<Longrightarrow> wp p G Q E (hs n) \<Longrightarrow> I l hs \<Longrightarrow> I l (hs(n := es @ hs n))"
  by (induction rule: outside.induct) (auto intro: asking signing calling reading)

lemma step_live: "sys_step H s s' \<Longrightarrow> live s \<Longrightarrow> live s'"
proof (induction rule: sys_step.induct)
  case (arrive p s n)
  then show ?case using handlers [of p] by (auto simp: live_def)
next
  case (answered s n h p es p')
  then have "wp p' G (\<lambda>_ _. True) (\<lambda>_ _. True) (es @ h)" by (auto simp: live_def intro: outside_wp)
  with answered(3) show ?case by (auto simp: live_def)
qed (force simp: live_def)+

lemma step_keeps:
  assumes "sys_step H s s'" "live s" "money_ok (s_ledger s)" "payments_ok (s_ledger s)" "I (s_ledger s) (hist_of s)"
  shows "I (s_ledger s') (hist_of s')"
  using assms
proof (induction rule: sys_step.induct)
  case (arrive p s n)
  then show ?case by (simp add: hist_of_None)
next
  case (served s n h r k a l)
  then have "G (CallLedger r) h" by (force simp: live_def)
  with served serving [of "s_ledger s" "hist_of s" r n a l a] have "I l ((hist_of s)(n := ELedger r a # h))"
    by (simp add: hist_of_Some)
  then show ?case by (simp only: hist_of_simps system.select_convs)
next
  case (answer_lost s n h r k a l e)
  then have "G (CallLedger r) h" by (force simp: live_def)
  with answer_lost serving [of "s_ledger s" "hist_of s" r n a l "Inl e" e]
  have "I l ((hist_of s)(n := ELedger r (Inl e) # h))" by (simp add: hist_of_Some)
  then show ?case by (simp only: hist_of_simps system.select_convs)
next
  case (request_lost s n h r k e)
  then have "I (s_ledger s) ((hist_of s)(n := ELedger r (Inl e) # h))"
    using losing [of "s_ledger s" "hist_of s" n r e] by (simp add: hist_of_Some)
  then show ?case by (simp only: hist_of_simps s_ledger_procs)
next
  case (answered s n h p es p')
  then have "wp p G (\<lambda>_ _. True) (\<lambda>_ _. True) h" by (auto simp: live_def)
  with answered outside_keeps [of p es p' _ _ "hist_of s" n] have "I (s_ledger s) ((hist_of s)(n := es @ h))"
    by (simp add: hist_of_Some)
  then show ?case by (simp only: hist_of_simps s_ledger_procs)
next
  case (reaper s t)
  then show ?case by (simp add: reaping)
qed

theorem invariant:
  assumes "reachable H s"
  shows "I (s_ledger s) (hist_of s)" and "live s"
proof -
  have "reachable H s \<and> live s \<and> I (s_ledger s) (hist_of s)"
    using assms unfolding reachable_def sys_steps_def
  proof (induction rule: rtranclp_induct)
    case base
    show ?case using initially by (simp add: live_def start_def) (simp add: start_def [symmetric])
  next
    case (step s s')
    then have r: "reachable H s" by (simp add: reachable_def sys_steps_def)
    with step step_live step_keeps reachable_money reachable_payments show ?case
      by (metis rtranclp.rtrancl_into_rtrancl)
  qed
  then show "I (s_ledger s) (hist_of s)" and "live s" by simp_all
qed

end

subsection \<open>Running one handler\<close>

text \<open>
  A concrete outside: the handler run alone against it, every answer delivered.  The flag says that every id drawn
  for an intent was fresh.
\<close>

record answers =
  o_http :: "http_req \<Rightarrow> http_answer outcome"
  o_mppx :: "string \<Rightarrow> challenge list list \<times> http_answer outcome"
  o_sign :: "signing \<Rightarrow> unit outcome"
  o_kv :: "string \<Rightarrow> tempo_channel option outcome"
  o_put :: "string \<Rightarrow> tempo_channel \<Rightarrow> unit outcome"
  o_daily :: "string \<Rightarrow> int \<Rightarrow> (bool \<times> int) outcome"
  o_clock :: int
  o_uuid :: string
  o_bytes :: "nat list"
  o_chan :: "chan_req \<Rightarrow> chan_ans outcome"

primrec run_prog :: "'a prog \<Rightarrow> answers \<Rightarrow> history \<Rightarrow> ledger \<Rightarrow> bool \<Rightarrow> 'a prog \<times> history \<times> ledger \<times> bool" where
  "run_prog (Done x) w h l ok = (Done x, h, l, ok)"
| "run_prog (Throw e) w h l ok = (Throw e, h, l, ok)"
| "run_prog (Ledger r k) w h l ok =
     (case serve r l of (a, l') \<Rightarrow> run_prog (k a) w (ELedger r a # h) l' (ok \<and> fresh_id r l))"
| "run_prog (Http r k) w h l ok = run_prog (k (o_http w r)) w (EHttp r (o_http w r) # h) l ok"
| "run_prog (Sign c k) w h l ok = run_prog (k (o_sign w c)) w (ESign c (o_sign w c) # h) l ok"
| "run_prog (Mppx u k) w h l ok = run_prog (k (o_mppx w u)) w h l ok"
| "run_prog (KvGet n k) w h l ok = run_prog (k (o_kv w n)) w (EKvGet n (o_kv w n) # h) l ok"
| "run_prog (KvPut n v k) w h l ok = run_prog (k (o_put w n v)) w h l ok"
| "run_prog (DailySlot n d k) w h l ok = run_prog (k (o_daily w n d)) w h l ok"
| "run_prog (Clock k) w h l ok = run_prog (k (o_clock w)) w h l ok"
| "run_prog (RandomUUID k) w h l ok = run_prog (k (o_uuid w)) w h l ok"
| "run_prog (RandomBytes k) w h l ok = run_prog (k (o_bytes w)) w h l ok"
| "run_prog (Chan c k) w h l ok = run_prog (k (o_chan w c)) w (EChan c (o_chan w c) # h) l ok"

lemma run_flag: "run_prog p w h l ok = (p', h', l', True) \<Longrightarrow> ok"
proof (induction p arbitrary: h l ok rule: prog_induct)
  case (Ledger r k)
  then show ?case by (simp split: prod.splits) blast
qed simp_all

lemma run_outside:
  assumes "\<And>h s. reachable H s \<Longrightarrow> s_procs s n = Some (h, p2) \<Longrightarrow> run_prog p2 w h (s_ledger s) True = R \<Longrightarrow>
      \<exists>s'. reachable H s' \<and> s_ledger s' = l' \<and> s_procs s' = (s_procs s)(n \<mapsto> q)"
    and "outside p es p2" "reachable H s" "s_procs s n = Some (h, p)" "run_prog p2 w (es @ h) (s_ledger s) True = R"
  shows "\<exists>s'. reachable H s' \<and> s_ledger s' = l' \<and> s_procs s' = (s_procs s)(n \<mapsto> q)"
  using assms(1) [OF reachable_step [OF assms(3) sys_step.answered [OF assms(4,2)]]] assms(5) by simp

lemma run_reachable:
  assumes "reachable H s" "s_procs s n = Some (h, p)" "run_prog p w h (s_ledger s) True = (p', h', l', True)"
  shows "\<exists>s'. reachable H s' \<and> s_ledger s' = l' \<and> s_procs s' = (s_procs s)(n \<mapsto> (h', p'))"
  using assms
proof (induction p arbitrary: h s rule: prog_induct)
  case (Ledger r k)
  obtain a l where a: "serve r (s_ledger s) = (a, l)" by (cases "serve r (s_ledger s)")
  let ?s = "\<lparr>s_ledger = l, s_procs = (s_procs s)(n \<mapsto> (ELedger r a # h, k a))\<rparr>"
  have rest: "run_prog (k a) w (ELedger r a # h) l (fresh_id r (s_ledger s)) = (p', h', l', True)"
    using Ledger.prems(3) a by simp
  have f: "fresh_id r (s_ledger s)" by (rule run_flag [OF rest])
  have s: "reachable H ?s"
    by (rule reachable_step [OF Ledger.prems(1)]) (rule sys_step.served [OF Ledger.prems(2) f a])
  have r: "run_prog (k a) w (ELedger r a # h) (s_ledger ?s) True = (p', h', l', True)" using rest f by simp
  have p: "s_procs ?s n = Some (ELedger r a # h, k a)" by simp
  from Ledger.IH [OF s p r] show ?case by (simp only: system.select_convs fun_upd_upd)
next
  case (Done x)
  then show ?case by (auto intro!: exI [of _ s] simp: fun_upd_idem)
next
  case (Throw e)
  then show ?case by (auto intro!: exI [of _ s] simp: fun_upd_idem)
next
  case (Http r k)
  show ?case
    by (rule run_outside [where R = "(p', h', l', True)" and w = w, OF Http.IH outside.intros(1) [where a = "o_http w r"] Http.prems(1,2)])
      (use Http.prems(3) in simp_all)
next
  case (Sign c k)
  show ?case
    by (rule run_outside [where R = "(p', h', l', True)" and w = w, OF Sign.IH outside.intros(2) [where b = "o_sign w c"] Sign.prems(1,2)])
      (use Sign.prems(3) in simp_all)
next
  case (Mppx u k)
  show ?case
    by (rule run_outside [where R = "(p', h', l', True)" and w = w, OF Mppx.IH outside.intros(3) [where m = "o_mppx w u"] Mppx.prems(1,2)])
      (use Mppx.prems(3) in simp_all)
next
  case (KvGet m k)
  show ?case
    by (rule run_outside [where R = "(p', h', l', True)" and w = w, OF KvGet.IH outside.intros(4) [where g = "o_kv w m"] KvGet.prems(1,2)])
      (use KvGet.prems(3) in simp_all)
next
  case (KvPut m v k)
  show ?case
    by (rule run_outside [where R = "(p', h', l', True)" and w = w, OF KvPut.IH outside.intros(5) [where b = "o_put w m v"] KvPut.prems(1,2)])
      (use KvPut.prems(3) in simp_all)
next
  case (DailySlot m d k)
  show ?case
    by (rule run_outside [where R = "(p', h', l', True)" and w = w, OF DailySlot.IH outside.intros(6) [where y = "o_daily w m d"] DailySlot.prems(1,2)])
      (use DailySlot.prems(3) in simp_all)
next
  case (Clock k)
  show ?case
    by (rule run_outside [where R = "(p', h', l', True)" and w = w, OF Clock.IH outside.intros(7) [where t = "o_clock w"] Clock.prems(1,2)])
      (use Clock.prems(3) in simp_all)
next
  case (RandomUUID k)
  show ?case
    by (rule run_outside [where R = "(p', h', l', True)" and w = w, OF RandomUUID.IH outside.intros(8) [where s = "o_uuid w"] RandomUUID.prems(1,2)])
      (use RandomUUID.prems(3) in simp_all)
next
  case (RandomBytes k)
  show ?case
    by (rule run_outside [where R = "(p', h', l', True)" and w = w, OF RandomBytes.IH outside.intros(9) [where bs = "o_bytes w"] RandomBytes.prems(1,2)])
      (use RandomBytes.prems(3) in simp_all)
next
  case (Chan c k)
  show ?case
    by (rule run_outside [where R = "(p', h', l', True)" and w = w, OF Chan.IH outside.intros(10) [where z = "o_chan w c"] Chan.prems(1,2)])
      (use Chan.prems(3) in simp_all)
qed

end
