(* ===== verification/PlayModels.thy ===== *)
theory PlayModels
  imports Async
begin

text \<open>
  The playground's catalog and limits (\<open>src/src/playground/models.ts\<close>): the allow-listed models, the flat prices, what
  the router may spend upstream for them, the deposit options and the caps.
\<close>

subsection \<open>JavaScript strings\<close>

text \<open>\<open>JSON.stringify\<close> of a string.\<close>

definition hex_digit :: "nat \<Rightarrow> char" where
  "hex_digit n = ''0123456789abcdef'' ! n"

definition json_char :: "char \<Rightarrow> string" where
  "json_char c =
     (let n = (of_char c :: nat) in
      if n = 34 then [char_of (92 :: nat), c] else if n = 92 then [c, c]
      else if n = 8 then [char_of (92 :: nat), CHR ''b''] else if n = 9 then [char_of (92 :: nat), CHR ''t'']
      else if n = 10 then [char_of (92 :: nat), CHR ''n''] else if n = 12 then [char_of (92 :: nat), CHR ''f'']
      else if n = 13 then [char_of (92 :: nat), CHR ''r'']
      else if n < 32 then char_of (92 :: nat) # ''u00'' @ [hex_digit (n div 16), hex_digit (n mod 16)]
      else [c])"

definition json_quote :: "string \<Rightarrow> string" where
  "json_quote s = [char_of (34 :: nat)] @ concat (map json_char s) @ [char_of (34 :: nat)]"

subsection \<open>Models\<close>

datatype tier = Cheap | Flagship

datatype http_method = MethodPost | MethodGet

record play_model =
  m_id :: string
  m_tier :: tier
  m_provider :: string
  m_path :: string
  m_method :: http_method
  m_available :: bool
  m_reason :: "string option"

fun TIER_PRICE_USD :: "tier \<Rightarrow> string" where
  "TIER_PRICE_USD Cheap = ''0.02''"
| "TIER_PRICE_USD Flagship = ''0.10''"

fun TIER_UPSTREAM_BUDGET_USD :: "tier \<Rightarrow> string" where
  "TIER_UPSTREAM_BUDGET_USD Cheap = ''0.02''"
| "TIER_UPSTREAM_BUDGET_USD Flagship = ''0.08''"

definition FORCED_MAX_TOKENS :: int where "FORCED_MAX_TOKENS = 800"
definition MAX_MESSAGES_PER_TURN :: nat where "MAX_MESSAGES_PER_TURN = 12"
definition MAX_MESSAGE_CHARS :: nat where "MAX_MESSAGE_CHARS = 8000"

definition ANTHROPIC_DELISTED_REASON :: string where
  "ANTHROPIC_DELISTED_REASON =
     ''The upstream Anthropic merchant accepts payment and then rejects the call '' @
     ''(403 after payment, re-confirmed with paid probes on 2026-08-18 and '' @
     ''2026-09-15), so the route is delisted. Unavailable until a paid re-probe '' @
     ''returns a completion.''"

definition live_model :: "string \<Rightarrow> string \<Rightarrow> string \<Rightarrow> play_model" where
  "live_model i provider path =
     \<lparr>m_id = i, m_tier = Cheap, m_provider = provider, m_path = path, m_method = MethodPost, m_available = True,
      m_reason = None\<rparr>"

definition dead_model :: "string \<Rightarrow> tier \<Rightarrow> string \<Rightarrow> string \<Rightarrow> string \<Rightarrow> play_model" where
  "dead_model i t provider path reason =
     \<lparr>m_id = i, m_tier = t, m_provider = provider, m_path = path, m_method = MethodPost, m_available = False,
      m_reason = Some reason\<rparr>"

definition PLAYGROUND_MODELS :: "play_model list" where
  "PLAYGROUND_MODELS =
     [live_model ''openai/gpt-oss-20b'' ''groq'' ''/v1/services/groq/chat'',
      live_model ''openai/gpt-oss-120b'' ''groq'' ''/v1/services/groq/chat'',
      dead_model ''llama-3.1-8b-instant'' Cheap ''groq'' ''/v1/services/groq/chat''
        (''Groq retired this id: the merchant answers model_not_found after payment (the router refunds '' @
         ''automatically), and the paid /groq/models listing on 2026-09-08 no longer includes it. '' @
         ''Use openai/gpt-oss-20b.''),
      live_model ''deepseek-flash'' ''deepseek'' ''/v1/services/deepseek/chat'',
      live_model ''deepseek-v4-flash'' ''deepseek'' ''/v1/services/deepseek/chat'',
      live_model ''deepseek-v4-pro'' ''deepseek'' ''/v1/services/deepseek/chat'',
      dead_model ''claude-haiku-4-5'' Cheap ''anthropic'' ''/v1/services/anthropic/chat_completions''
        ANTHROPIC_DELISTED_REASON,
      dead_model ''claude-opus-5'' Flagship ''anthropic'' ''/v1/services/anthropic/chat_completions''
        ANTHROPIC_DELISTED_REASON,
      dead_model ''claude-sonnet-5'' Flagship ''anthropic'' ''/v1/services/anthropic/chat_completions''
        ANTHROPIC_DELISTED_REASON,
      dead_model ''claude-opus-4-8'' Flagship ''anthropic'' ''/v1/services/anthropic/chat_completions''
        ANTHROPIC_DELISTED_REASON,
      dead_model ''openai-flagship-pending-verification'' Flagship ''openai'' ''/v1/services/openai/chat''
        (''No flagship OpenAI model id (e.g. gpt-5.5 / gpt-5.6) has been verified or listed by the upstream '' @
         ''through this router yet. Pending upstream verification.'')]"

definition BLEND_SUMMARY_MODEL_ID :: string where "BLEND_SUMMARY_MODEL_ID = ''deepseek-flash''"

definition findModel :: "string \<Rightarrow> play_model option" where
  "findModel i = find (\<lambda>m. m_id m = i) PLAYGROUND_MODELS"

text \<open>\<open>ModelNotAllowedError\<close> carries its code and message; the offending id, which no caller reads, is left out.\<close>

definition assertModelCallable :: "json option \<Rightarrow> exn + play_model" where
  "assertModelCallable v =
     (case jstring v of
        None \<Rightarrow> Inl (ModelNotAllowedError ''model_not_allowed'' ''model is required'')
      | Some i \<Rightarrow>
          if i = [] then Inl (ModelNotAllowedError ''model_not_allowed'' ''model is required'')
          else case findModel i of
            None \<Rightarrow> Inl (ModelNotAllowedError ''model_not_allowed''
                      (''model '' @ json_quote i @ '' is not in the playground allow-list''))
          | Some m \<Rightarrow>
              if \<not> m_available m
              then Inl (ModelNotAllowedError ''model_unavailable''
                     (case m_reason m of Some r \<Rightarrow> r | None \<Rightarrow> ''model '' @ i @ '' is temporarily unavailable''))
              else Inr m)"

subsection \<open>Chips\<close>

record chip =
  cp_id :: string
  cp_label :: string
  cp_price :: string
  cp_budget :: string
  cp_description :: string

definition CHAT_CHIP :: chip where
  "CHAT_CHIP = \<lparr>cp_id = ''chat'', cp_label = ''Ask an AI'', cp_price = TIER_PRICE_USD Cheap, cp_budget = ''0.10'',
     cp_description = ''One chat turn against a charge-verified model. Priced per tier.''\<rparr>"

definition BLEND_CHIP :: chip where
  "BLEND_CHIP = \<lparr>cp_id = ''blend-activity'', cp_label = ''Blend activity'', cp_price = ''0.03'', cp_budget = ''0.05'',
     cp_description = ''Reads recent Blend pool events from the Mercury indexer, aggregates them deterministically, and summarises them in one line.''\<rparr>"

definition TX_CHIP :: chip where
  "TX_CHIP = \<lparr>cp_id = ''tx-decode'', cp_label = ''Decode a tx'', cp_price = ''0.005'', cp_budget = ''0.01'',
     cp_description = ''Fetches and structures a Stellar transaction by hash via the Mercury indexer.''\<rparr>"

definition PLAYGROUND_CHIPS :: "chip list" where
  "PLAYGROUND_CHIPS = [CHAT_CHIP, BLEND_CHIP, TX_CHIP]"

definition findChip :: "string \<Rightarrow> chip option" where
  "findChip i = find (\<lambda>c. cp_id c = i) PLAYGROUND_CHIPS"

lemma findChip_ids [simp]:
  "findChip ''chat'' = Some CHAT_CHIP" "findChip ''blend-activity'' = Some BLEND_CHIP"
  "findChip ''tx-decode'' = Some TX_CHIP"
  by (simp_all add: findChip_def PLAYGROUND_CHIPS_def CHAT_CHIP_def BLEND_CHIP_def TX_CHIP_def)

subsection \<open>Deposits and limits\<close>

definition DEPOSIT_OPTIONS_USD :: "string list" where
  "DEPOSIT_OPTIONS_USD = [''0.1'', ''1'', ''10'', ''100'']"

definition isDepositOption :: "string \<Rightarrow> bool" where
  "isDepositOption amountUsd =
     (case parseUsd amountUsd of
        Inl _ \<Rightarrow> False
      | Inr wanted \<Rightarrow> list_ex (\<lambda>opt. parseUsd opt = Inr wanted) DEPOSIT_OPTIONS_USD)"

definition DEPOSIT_CAP_PER_ACCOUNT_PER_DAY_USD :: string where "DEPOSIT_CAP_PER_ACCOUNT_PER_DAY_USD = ''100''"
definition DEFAULT_GLOBAL_CAP_USD :: string where "DEFAULT_GLOBAL_CAP_USD = ''1000''"
definition INTENT_RATE_PER_HOUR :: int where "INTENT_RATE_PER_HOUR = 6"
definition MAX_OPEN_INTENTS_PER_ACCOUNT :: int where "MAX_OPEN_INTENTS_PER_ACCOUNT = 20"
definition SESSION_RENEWAL_CAP_SECONDS :: int where "SESSION_RENEWAL_CAP_SECONDS = 30 * 24 * 60 * 60"
definition SESSION_TTL_SECONDS :: int where "SESSION_TTL_SECONDS = 7 * 24 * 60 * 60"
definition INTENT_TTL_SECONDS :: int where "INTENT_TTL_SECONDS = 30 * 60"
definition CALL_HISTORY_LIMIT :: int where "CALL_HISTORY_LIMIT = 20"

definition CHAT_OUTAGE_REASON :: string where
  "CHAT_OUTAGE_REASON =
     ''Paid chat calls are temporarily paused: the upstream model provider is rejecting calls after accepting payment (observed 2026-08-13). Disabled so you are never charged for a call that cannot succeed.''"

text \<open>The first argument is \<open>env.PLAYGROUND_CHAT_MODELS_DISABLED\<close>.\<close>

definition chatModelsDisabled :: "string option \<Rightarrow> string option \<Rightarrow> bool" where
  "chatModelsDisabled var provider =
     (let v = (case var of None \<Rightarrow> [] | Some s \<Rightarrow> js_trim s) in
      if v = [] \<or> v = ''false'' then False
      else if v = ''true'' then True
      else let set' = filter (\<lambda>x. x \<noteq> []) (map (\<lambda>x. js_lower (js_trim x)) (split_on (CHR '','') v))
           in case provider of None \<Rightarrow> False | Some p \<Rightarrow> js_lower p \<in> set set')"

lemma usd_values:
  "parseUsd ''0.02'' = Inr 200000" "parseUsd ''0.10'' = Inr 1000000" "parseUsd ''0.08'' = Inr 800000"
  "parseUsd ''0.03'' = Inr 300000" "parseUsd ''0.05'' = Inr 500000" "parseUsd ''0.005'' = Inr 50000"
  "parseUsd ''0.01'' = Inr 100000" "parseUsd ''100'' = Inr 1000000000" "parseUsd ''1000'' = Inr 10000000000"
  "parseUsd ''0.1'' = Inr 1000000" "parseUsd ''1'' = Inr 10000000" "parseUsd ''10'' = Inr 100000000"
  by (simp_all add: parseUsd_def js_trim_def is_space_def DECIMAL_RE_def USDC_DECIMALS_def ONE_USDC_def padEnd_def
      is_digit_def digit_val_def Let_def)

end
