(* ===== verification/SessionToken.thy ===== *)
theory SessionToken
  imports PlayModels
begin

text \<open>
  Playground session tokens (\<open>src/src/playground/session-token.ts\<close>): base64url, the constant-time comparison, minting and
  verification.  HMAC-SHA256 (Web Crypto) is the argument \<open>hmac\<close>, from the secret and the message to the tag;
  \<open>JSON.parse\<close> of UTF-8 bytes is the argument \<open>parse\<close>.
\<close>

subsection \<open>base64\<close>

text \<open>\<open>btoa\<close> and \<open>atob\<close>: the six-bit groups, the alphabet, the padding, and what \<open>atob\<close> rejects.\<close>

fun sextets :: "nat list \<Rightarrow> nat list" where
  "sextets (a # b # c # r) = [a div 4, a mod 4 * 16 + b div 16, b mod 16 * 4 + c div 64, c mod 64] @ sextets r"
| "sextets [a, b] = [a div 4, a mod 4 * 16 + b div 16, b mod 16 * 4]"
| "sextets [a] = [a div 4, a mod 4 * 16]"
| "sextets [] = []"

fun octets :: "nat list \<Rightarrow> nat list" where
  "octets (w # x # y # z # r) = [w * 4 + x div 16, x mod 16 * 16 + y div 4, y mod 4 * 64 + z] @ octets r"
| "octets [w, x, y] = [w * 4 + x div 16, x mod 16 * 16 + y div 4]"
| "octets [w, x] = [w * 4 + x div 16]"
| "octets _ = []"

definition B64 :: string where
  "B64 = ''ABCDEFGHIJKLMNOPQRSTUVWXYZabcdefghijklmnopqrstuvwxyz0123456789+/''"

definition b64_char :: "nat \<Rightarrow> char" where
  "b64_char n = B64 ! n"

fun index_of :: "char \<Rightarrow> string \<Rightarrow> nat option" where
  "index_of c [] = None"
| "index_of c (d # s) = (if c = d then Some 0 else map_option Suc (index_of c s))"

definition b64_val :: "char \<Rightarrow> nat option" where
  "b64_val c = index_of c B64"

definition btoa :: "nat list \<Rightarrow> string" where
  "btoa bs = map b64_char (sextets bs) @ replicate ((3 - length bs mod 3) mod 3) (CHR ''='')"

definition strip_pad :: "string \<Rightarrow> string" where
  "strip_pad s =
     (if length s mod 4 \<noteq> 0 then s
      else case rev s of
        c # d # r \<Rightarrow> if c = CHR ''='' \<and> d = CHR ''='' then rev r
                    else if c = CHR ''='' then rev (d # r) else s
      | _ \<Rightarrow> s)"

definition ascii_space :: "char \<Rightarrow> bool" where
  "ascii_space c \<longleftrightarrow> (of_char c :: nat) \<in> {9, 10, 12, 13, 32}"

definition atob :: "string \<Rightarrow> nat list js" where
  "atob s =
     (let t = strip_pad (filter (\<lambda>c. \<not> ascii_space c) s) in
      if length t mod 4 = 1 then Inl (JsError ''InvalidCharacterError'')
      else case those (map b64_val t) of
        None \<Rightarrow> Inl (JsError ''InvalidCharacterError'')
      | Some ns \<Rightarrow> Inr (octets ns))"

definition url_char :: "char \<Rightarrow> char" where
  "url_char c = (if c = CHR ''+'' then CHR ''-'' else if c = CHR ''/'' then CHR ''_'' else c)"

definition unurl_char :: "char \<Rightarrow> char" where
  "unurl_char c = (if c = CHR ''-'' then CHR ''+'' else if c = CHR ''_'' then CHR ''/'' else c)"

definition base64urlEncode :: "nat list \<Rightarrow> string" where
  "base64urlEncode bytes = rev (dropWhile (\<lambda>c. c = CHR ''='') (rev (map url_char (btoa bytes))))"

definition base64urlDecode :: "string \<Rightarrow> nat list js" where
  "base64urlDecode value =
     (let padded = map unurl_char value
      in atob (padded @ replicate ((4 - length padded mod 4) mod 4) (CHR ''='')))"

text \<open>\<open>new TextEncoder().encode(s)\<close> on code units below 256.\<close>

definition utf8 :: "string \<Rightarrow> nat list" where
  "utf8 s = concat (map (\<lambda>c. let n = of_char c in if n < 128 then [n] else [192 + n div 64, 128 + n mod 64]) s)"

subsection \<open>Tokens\<close>

definition ISSUER :: string where "ISSUER = ''mpprouter-playground''"
definition AUDIENCE :: string where "AUDIENCE = ''playground''"
definition KEY_VERSION :: int where "KEY_VERSION = 1"

record session_payload =
  sp_iss :: string
  sp_aud :: string
  sp_sub :: string
  sp_jti :: string
  sp_iat :: int
  sp_exp :: int
  sp_kv :: int

definition payload_json :: "session_payload \<Rightarrow> json" where
  "payload_json p = JObj
     [(''iss'', JStr (sp_iss p)), (''aud'', JStr (sp_aud p)), (''sub'', JStr (sp_sub p)), (''jti'', JStr (sp_jti p)),
      (''iat'', JNum (int_str (sp_iat p))), (''exp'', JNum (int_str (sp_exp p))), (''kv'', JNum (int_str (sp_kv p)))]"

text \<open>\<open>JSON.stringify\<close>.\<close>

fun sep_by :: "string \<Rightarrow> string list \<Rightarrow> string" where
  "sep_by d [] = []"
| "sep_by d [s] = s"
| "sep_by d (s # t # r) = s @ d @ sep_by d (t # r)"

fun stringify :: "json \<Rightarrow> string" where
  "stringify JNull = ''null''"
| "stringify (JBool b) = (if b then ''true'' else ''false'')"
| "stringify (JNum s) = s"
| "stringify (JStr s) = json_quote s"
| "stringify (JArr xs) = ''['' @ sep_by '','' (map stringify xs) @ '']''"
| "stringify (JObj fs) = ''{'' @ sep_by '','' (map (\<lambda>(k, v). json_quote k @ '':'' @ stringify v) fs) @ ''}''"

unbundle bit_operations_syntax

fun diff_bytes :: "nat list \<Rightarrow> nat list \<Rightarrow> nat \<Rightarrow> nat" where
  "diff_bytes (a # as) (b # bs) d = diff_bytes as bs (d OR (a XOR b))"
| "diff_bytes _ _ d = d"

definition timingSafeEqual :: "nat list \<Rightarrow> nat list \<Rightarrow> bool" where
  "timingSafeEqual a b = (if length a \<noteq> length b then False else diff_bytes a b 0 = 0)"

definition isSessionSecretUsable :: "string option \<Rightarrow> bool" where
  "isSessionSecretUsable secret = (case secret of None \<Rightarrow> False | Some s \<Rightarrow> 16 \<le> length s)"

definition requireSecret :: "string option \<Rightarrow> exn + string" where
  "requireSecret secret =
     (case secret of
        Some s \<Rightarrow> if isSessionSecretUsable secret then Inr s
                  else Inl (JsExn ''PLAYGROUND_SESSION_SECRET is not configured (min 16 chars)'')
      | None \<Rightarrow> Inl (JsExn ''PLAYGROUND_SESSION_SECRET is not configured (min 16 chars)''))"

type_synonym hmac = "string \<Rightarrow> nat list \<Rightarrow> nat list"

definition mintSessionToken ::
    "hmac \<Rightarrow> string option \<Rightarrow> string \<Rightarrow> string \<Rightarrow> int \<Rightarrow> int \<Rightarrow> exn + (string \<times> session_payload)" where
  "mintSessionToken hmac secret account' jti now ttlSeconds =
     (case requireSecret secret of
        Inl e \<Rightarrow> Inl e
      | Inr key \<Rightarrow>
          let iat = now div 1000;
              payload = \<lparr>sp_iss = ISSUER, sp_aud = AUDIENCE, sp_sub = account', sp_jti = jti, sp_iat = iat,
                         sp_exp = iat + ttlSeconds, sp_kv = KEY_VERSION\<rparr>;
              encodedPayload = base64urlEncode (utf8 (stringify (payload_json payload)));
              mac = hmac key (utf8 encodedPayload)
          in Inr (encodedPayload @ ''.'' @ base64urlEncode mac, payload))"

datatype verify_failure = Malformed | BadSignature | Expired | WrongAudience | UnknownKeyVersion

text \<open>\<open>n >= j\<close> for an integer \<open>n\<close> and the number with text \<open>j\<close>; \<open>ceiling\<close> rounds up a number that is not an integer.\<close>

definition num_ge :: "(string \<Rightarrow> int) \<Rightarrow> int \<Rightarrow> string \<Rightarrow> bool" where
  "num_ge ceiling n s \<longleftrightarrow> (if int_re s then bigint_of s else ceiling s) \<le> n"

text \<open>The checks on a decoded payload; reading a field of \<open>null\<close> throws.\<close>

definition check_payload :: "(string \<Rightarrow> int) \<Rightarrow> json \<Rightarrow> int \<Rightarrow> exn + (verify_failure + json)" where
  "check_payload ceiling payload now =
     (if payload = JNull then Inl (JsExn ''TypeError'')
      else if jfield payload ''iss'' \<noteq> Some (JStr ISSUER) \<or> jfield payload ''aud'' \<noteq> Some (JStr AUDIENCE)
      then Inr (Inl WrongAudience)
      else if jfield payload ''kv'' \<noteq> Some (JNum (int_str KEY_VERSION)) then Inr (Inl UnknownKeyVersion)
      else if jstring (jfield payload ''sub'') \<in> {None, Some []} then Inr (Inl Malformed)
      else case jfield payload ''exp'' of
        Some (JNum e) \<Rightarrow> if num_ge ceiling (now div 1000) e then Inr (Inl Expired) else Inr (Inr payload)
      | _ \<Rightarrow> Inr (Inl Expired))"

definition verifySessionToken ::
    "hmac \<Rightarrow> (nat list \<Rightarrow> json option) \<Rightarrow> (string \<Rightarrow> int) \<Rightarrow> string option \<Rightarrow> string \<Rightarrow> int
      \<Rightarrow> exn + (verify_failure + json)" where
  "verifySessionToken hmac parse ceiling secret token now =
     (case split_on (CHR ''.'') token of
        [encodedPayload, encodedMac] \<Rightarrow>
          if encodedPayload = [] \<or> encodedMac = [] then Inr (Inl Malformed)
          else (case base64urlDecode encodedMac of
            Inl _ \<Rightarrow> Inr (Inl Malformed)
          | Inr presentedMac \<Rightarrow>
              (case requireSecret secret of
                 Inl e \<Rightarrow> Inl e
               | Inr key \<Rightarrow>
                   let expectedMac = hmac key (utf8 encodedPayload) in
                   if \<not> timingSafeEqual presentedMac expectedMac then Inr (Inl BadSignature)
                   else (case base64urlDecode encodedPayload of
                     Inl _ \<Rightarrow> Inr (Inl Malformed)
                   | Inr bytes \<Rightarrow>
                       (case parse bytes of
                          None \<Rightarrow> Inr (Inl Malformed)
                        | Some payload \<Rightarrow> check_payload ceiling payload now))))
      | _ \<Rightarrow> Inr (Inl Malformed))"

text \<open>
  \<open>header.match(/^Bearer\s+(.+)$/i)\<close>, then \<open>trim\<close>: at least one space after the word and one character more, which
  may be the last of several spaces.
\<close>

definition bearerFrom :: "string option \<Rightarrow> string option" where
  "bearerFrom header =
     (case header of
        None \<Rightarrow> None
      | Some s \<Rightarrow>
          if js_lower (take 6 s) \<noteq> ''bearer'' then None
          else let r = drop 6 s; spaces = takeWhile is_space r; group = dropWhile is_space r in
               if spaces = [] then None
               else if group \<noteq> [] then Some (js_trim group)
               else if 2 \<le> length spaces then Some [] else None)"

definition maskAccount :: "string \<Rightarrow> string" where
  "maskAccount acc = (if length acc \<le> 10 then acc else take 6 acc @ ''...'' @ drop (length acc - 4) acc)"

subsection \<open>base64url round trip\<close>

lemma sextet_parts: "b < 256 \<Longrightarrow> (x * 16 + b div 16) div 16 = x" "b < 256 \<Longrightarrow> (x * 16 + b div 16) mod 16 = b div 16"
  "(x * 4 + c div 64) div 4 = x + c div 64 div 4" "c < 256 \<Longrightarrow> (x * 4 + c div 64) mod 4 = c div 64"
  "c < 256 \<Longrightarrow> c div 64 div 4 = 0" "b < 256 \<Longrightarrow> b div 16 div 16 = 0" "b < 256 \<Longrightarrow> b div 16 mod 16 = b div 16"
  "c < 256 \<Longrightarrow> c div 64 mod 4 = c div 64" for b c x :: nat
  by (simp_all flip: div_mult2_eq)

lemma octets_sextets: "list_all (\<lambda>b. b < 256) bs \<Longrightarrow> octets (sextets bs) = bs"
  by (induction bs rule: sextets.induct) (simp_all add: sextet_parts)

lemma sextets_small: "list_all (\<lambda>b. b < 256) bs \<Longrightarrow> n \<in> set (sextets bs) \<Longrightarrow> n < 64"
  by (induction bs rule: sextets.induct) auto

lemma length_sextets:
  "length (sextets bs) mod 4 = (if length bs mod 3 = 0 then 0 else Suc (length bs mod 3))"
proof (induction bs rule: sextets.induct)
  case (1 a b c r)
  have "(4 + length (sextets r)) mod 4 = length (sextets r) mod 4" "(3 + length r) mod 3 = length r mod 3" by simp_all
  with 1 show ?case by simp
qed simp_all

lemma b64_table: "list_all (\<lambda>n. b64_val (b64_char n) = Some n \<and> url_char (b64_char n) \<notin> {CHR ''='', CHR ''.''} \<and>
    unurl_char (url_char (b64_char n)) = b64_char n \<and> (of_char (b64_char n) :: nat) \<notin> {9, 10, 12, 13, 32} \<and>
    b64_char n \<noteq> CHR ''='') [0..<64]"
  by code_simp

lemma b64_facts:
  assumes "n < 64"
  shows "b64_val (b64_char n) = Some n" "url_char (b64_char n) \<noteq> CHR ''=''" "url_char (b64_char n) \<noteq> CHR ''.''"
    "unurl_char (url_char (b64_char n)) = b64_char n" "(of_char (b64_char n) :: nat) \<notin> {9, 10, 12, 13, 32}"
    "b64_char n \<noteq> CHR ''=''"
  using b64_table assms by (auto simp: list_all_iff)

lemma map_unurl: "list_all (\<lambda>n. n < 64) ns \<Longrightarrow> map (unurl_char \<circ> (url_char \<circ> b64_char)) ns = map b64_char ns"
  by (auto simp: list_all_iff b64_facts)

lemma those_vals: "list_all (\<lambda>n. n < 64) ns \<Longrightarrow> those (map (b64_val \<circ> b64_char) ns) = Some ns"
  by (induction ns) (auto simp: b64_facts)

lemma small_sextets: "list_all (\<lambda>b. b < 256) bs \<Longrightarrow> list_all (\<lambda>n. n < 64) (sextets bs)"
  using sextets_small by (simp add: list_all_iff)

lemma dropWhile_none: "(\<And>x. x \<in> set xs \<Longrightarrow> \<not> P x) \<Longrightarrow> dropWhile P xs = xs"
  by (cases xs) auto

lemma encode_text: "list_all (\<lambda>b. b < 256) bs \<Longrightarrow> base64urlEncode bs = map (url_char \<circ> b64_char) (sextets bs)"
proof -
  assume bs: "list_all (\<lambda>b. b < 256) bs"
  let ?t = "map (url_char \<circ> b64_char) (sextets bs)"
  have "dropWhile (\<lambda>c. c = CHR ''='') (replicate k (CHR ''='') @ rev ?t) = rev ?t" for k
  proof -
    have "dropWhile (\<lambda>c. c = CHR ''='') (rev ?t) = rev ?t"
      using small_sextets [OF bs] by (intro dropWhile_none) (auto simp: list_all_iff b64_facts)
    then show ?thesis by (induction k) simp_all
  qed
  then show ?thesis by (simp add: base64urlEncode_def btoa_def url_char_def rev_map)
qed

lemma filter_pad: "list_all (\<lambda>n. n < 64) ns \<Longrightarrow>
    filter (\<lambda>c. \<not> ascii_space c) (map b64_char ns @ replicate k (CHR ''='')) =
      map b64_char ns @ replicate k (CHR ''='')"
  using b64_facts(5) by (intro filter_True) (fastforce simp: list_all_iff ascii_space_def)

lemma strip_padded:
  assumes "list_all (\<lambda>n. n < 64) ns" "length ns mod 4 \<noteq> 1"
  shows "strip_pad (map b64_char ns @ replicate ((4 - length ns mod 4) mod 4) (CHR ''='')) = map b64_char ns"
proof -
  have last: "c \<noteq> CHR ''=''" if "rev (map b64_char ns) = c # r" for c r
  proof -
    have "c \<in> set (rev (map b64_char ns))" using that by simp
    then show ?thesis using assms(1) by (auto simp: list_all_iff b64_facts)
  qed
  consider "length ns mod 4 = 0" | "length ns mod 4 = 2" | "length ns mod 4 = 3"
    using assms(2) by linarith
  then show ?thesis
  proof cases
    case 1
    then show ?thesis
      using last by (auto simp: strip_pad_def rev_map split: list.split)
  next
    case 2
    then have "(length ns + 2) mod 4 = 0" by presburger
    then show ?thesis using 2 by (simp add: strip_pad_def numeral_2_eq_2)
  next
    case 3
    then have "(length ns + 1) mod 4 = 0" by presburger
    then show ?thesis using 3 last
      by (cases "rev (map b64_char ns)") (auto simp: strip_pad_def rev_map)
  qed
qed

lemma base64url_inverse:
  assumes "list_all (\<lambda>b. b < 256) bs"
  shows "base64urlDecode (base64urlEncode bs) = Inr bs"
proof -
  note small = small_sextets [OF assms]
  have len: "length (sextets bs) mod 4 \<noteq> 1" by (simp add: length_sextets)
  have plain: "map unurl_char (base64urlEncode bs) = map b64_char (sextets bs)"
    using map_unurl [OF small] by (simp add: encode_text [OF assms] comp_assoc)
  show ?thesis
    by (simp add: base64urlDecode_def Let_def plain atob_def filter_pad [OF small] strip_padded [OF small len] len
        those_vals [OF small] octets_sextets [OF assms] del: filter_append)
      (use len in simp)
qed

lemma encode_no_dot: "list_all (\<lambda>b. b < 256) bs \<Longrightarrow> CHR ''.'' \<notin> set (base64urlEncode bs)"
  using small_sextets [of bs] b64_facts(3) by (fastforce simp: encode_text list_all_iff)

lemma encode_Nil_iff: "list_all (\<lambda>b. b < 256) bs \<Longrightarrow> base64urlEncode bs = [] \<longleftrightarrow> bs = []"
  by (cases bs rule: sextets.cases) (simp_all add: encode_text)

subsection \<open>Minted tokens\<close>

lemma or_eq_0_nat: "(a OR b) = 0 \<longleftrightarrow> a = 0 \<and> b = (0 :: nat)"
  by (auto intro!: bit_eqI simp: bit_eq_iff bit_or_iff)

lemma xor_eq_0_nat: "(a XOR b) = 0 \<longleftrightarrow> a = (b :: nat)"
  by (auto intro!: bit_eqI simp: bit_eq_iff bit_xor_iff)

lemma diff_bytes_0: "length a = length b \<Longrightarrow> diff_bytes a b d = 0 \<longleftrightarrow> d = 0 \<and> a = b"
  by (induction a b d rule: diff_bytes.induct) (auto simp: or_eq_0_nat xor_eq_0_nat)

lemma timingSafeEqual_eq: "timingSafeEqual a b \<longleftrightarrow> a = b"
  by (auto simp: timingSafeEqual_def diff_bytes_0)

lemma utf8_bytes: "list_all (\<lambda>b. b < 256) (utf8 s)"
proof -
  have "192 + n div 64 < 256" "128 + n mod 64 < 256" if "n < 256" for n :: nat
    using that by simp_all
  note this [OF nat_of_char_less_256]
  then show ?thesis by (auto simp: utf8_def list_all_iff Let_def split: if_splits)
qed

text \<open>A token this Worker minted is accepted until it expires, by the same key, with the account and the id it was minted
  for, and refused afterwards.  (\<open>parse\<close> reads back what \<open>JSON.stringify\<close> wrote; the tag is a string of bytes.)\<close>

theorem minted_token_verifies:
  assumes "mintSessionToken hmac secret acc jti t ttl = Inr (token, p)" "acc \<noteq> []"
    and "parse (utf8 (stringify (payload_json p))) = Some (payload_json p)"
    and "\<And>k m. list_all (\<lambda>b. b < 256) (hmac k m) \<and> hmac k m \<noteq> []"
  shows "verifySessionToken hmac parse ceiling secret token now' =
      Inr (if t div 1000 + ttl \<le> now' div 1000 then Inl Expired else Inr (payload_json p)) \<and>
    jfield (payload_json p) ''sub'' = Some (JStr acc) \<and> jfield (payload_json p) ''jti'' = Some (JStr jti)"
proof -
  obtain key where key: "requireSecret secret = Inr key"
    using assms(1) by (auto simp: mintSessionToken_def split: sum.splits)
  let ?E = "base64urlEncode (utf8 (stringify (payload_json p)))"
  let ?M = "base64urlEncode (hmac key (utf8 ?E))"
  have p: "p = \<lparr>sp_iss = ISSUER, sp_aud = AUDIENCE, sp_sub = acc, sp_jti = jti, sp_iat = t div 1000,
      sp_exp = t div 1000 + ttl, sp_kv = KEY_VERSION\<rparr>" and token: "token = ?E @ ''.'' @ ?M"
    using assms(1) key by (auto simp: mintSessionToken_def Let_def)
  have parts: "split_on (CHR ''.'') token = [?E, ?M]"
    using assms(4) by (simp add: token split_on_append split_on_none encode_no_dot utf8_bytes)
  have nonempty: "?E \<noteq> []" "?M \<noteq> []"
    using assms(4) by (simp_all add: encode_Nil_iff utf8_bytes) (simp add: payload_json_def utf8_def)
  show ?thesis
    using assms(2,3,4)
    by (simp add: verifySessionToken_def parts nonempty base64url_inverse utf8_bytes key timingSafeEqual_eq check_payload_def Let_def)
      (simp add: p payload_json_def num_ge_def)
qed

definition demo_payload :: session_payload where
  "demo_payload = \<lparr>sp_iss = ISSUER, sp_aud = AUDIENCE, sp_sub = ''GACC'', sp_jti = ''j1'', sp_iat = 1000, sp_exp = 1060,
     sp_kv = KEY_VERSION\<rparr>"

theorem minted_token_verifies_witness:
  "verifySessionToken (\<lambda>k m. [7]) (\<lambda>_. Some (payload_json demo_payload)) (\<lambda>_. 0) (Some ''0123456789abcdef'')
      (fst (projr (mintSessionToken (\<lambda>k m. [7]) (Some ''0123456789abcdef'') ''GACC'' ''j1'' 1000000 60))) 1059999 =
    Inr (Inr (payload_json demo_payload))"
proof -
  have "mintSessionToken (\<lambda>k m. [7]) (Some ''0123456789abcdef'') ''GACC'' ''j1'' 1000000 60 =
      Inr (base64urlEncode (utf8 (stringify (payload_json demo_payload))) @ ''.'' @ base64urlEncode [7], demo_payload)"
    by (simp add: mintSessionToken_def requireSecret_def isSessionSecretUsable_def demo_payload_def Let_def)
  from minted_token_verifies [OF this, of "\<lambda>_. Some (payload_json demo_payload)" "\<lambda>_. 0" 1059999] this
  show ?thesis by simp
qed

lemma split_on_two: "split_on c s = [a, b] \<Longrightarrow> s = a @ c # b"
proof (induction s arbitrary: a)
  case Nil
  then show ?case by simp
next
  case (Cons d s)
  have one: "split_on c t = [b] \<Longrightarrow> t = b" for t
    by (induction t arbitrary: b) (auto split: if_splits list.splits)
  from Cons show ?case by (auto split: if_splits list.splits dest: one)
qed

text \<open>C22: only what this Worker signed is a session.  An accepted token carries, after its dot, the HMAC of the text before
  it under the configured secret, which has at least 16 characters; the payload read from that signed text is for this
  issuer and audience, names an account and has not expired.\<close>

theorem accepted_token_signed:
  assumes "verifySessionToken hmac parse ceiling secret token now = Inr (Inr payload)"
  shows "\<exists>key E M bytes acc e. requireSecret secret = Inr key \<and> 16 \<le> length key \<and> token = E @ ''.'' @ M \<and>
    base64urlDecode M = Inr (hmac key (utf8 E)) \<and> base64urlDecode E = Inr bytes \<and> parse bytes = Some payload \<and>
    jfield payload ''iss'' = Some (JStr ISSUER) \<and> jfield payload ''aud'' = Some (JStr AUDIENCE) \<and>
    jfield payload ''sub'' = Some (JStr acc) \<and> acc \<noteq> [] \<and>
    jfield payload ''exp'' = Some (JNum e) \<and> \<not> num_ge ceiling (now div 1000) e"
proof -
  obtain E M where parts: "split_on (CHR ''.'') token = [E, M]"
    using assms by (auto simp: verifySessionToken_def split: list.splits)
  obtain key where key: "requireSecret secret = Inr key" and mac: "base64urlDecode M = Inr (hmac key (utf8 E))"
    using assms by (auto simp: verifySessionToken_def parts timingSafeEqual_eq split: if_splits sum.splits)
  obtain bytes where bytes: "base64urlDecode E = Inr bytes" "parse bytes = Some payload"
    and ok: "check_payload ceiling payload now = Inr (Inr payload)"
    using assms
    by (auto simp: verifySessionToken_def parts key mac timingSafeEqual_eq check_payload_def
        split: if_splits sum.splits option.splits json.splits)
  obtain acc where acc: "jstring (jfield payload ''sub'') = Some acc" "acc \<noteq> []"
    using ok by (auto simp: check_payload_def split: if_splits)
  then have sub: "jfield payload ''sub'' = Some (JStr acc)" by (auto elim: jstring.elims)
  have "16 \<le> length key" using key by (auto simp: requireSecret_def isSessionSecretUsable_def split: option.splits if_splits)
  moreover obtain e where "jfield payload ''exp'' = Some (JNum e)" "\<not> num_ge ceiling (now div 1000) e"
    using ok by (auto simp: check_payload_def split: if_splits option.splits json.splits)
  ultimately show ?thesis
    using key mac bytes ok acc sub split_on_two [OF parts] by (auto simp: check_payload_def split: if_splits)
qed

theorem accepted_token_signed_witness:
  "\<exists>key. requireSecret (Some ''0123456789abcdef'') = Inr key \<and> 16 \<le> length key"
proof -
  have "verifySessionToken (\<lambda>k m. [7]) (\<lambda>_. Some (payload_json demo_payload)) (\<lambda>_. 0) (Some ''0123456789abcdef'')
      ''AAAA.Bw'' 1059999 = Inr (Inr (payload_json demo_payload))"
  proof -
    have "split_on (CHR ''.'') ''AAAA.Bw'' = [''AAAA'', ''Bw'']" "base64urlDecode ''Bw'' = Inr [7]"
      "base64urlDecode ''AAAA'' = Inr [0, 0, 0]" by code_simp+
    then show ?thesis
      by (simp add: verifySessionToken_def requireSecret_def isSessionSecretUsable_def timingSafeEqual_eq
          check_payload_def payload_json_def demo_payload_def num_ge_def)
  qed
  from accepted_token_signed [OF this] show ?thesis by blast
qed

end
