(* ===== verification/Upstream.thy ===== *)
theory Upstream
  imports SessionToken "HOL-Library.AList"
begin

text \<open>
  How the playground pays a merchant: the Tempo channel records (\<open>src/src/mpp/channel-store.ts\<close>), the choice among
  challenges (\<open>src/src/mpp/tempo-challenges.ts\<close>), the two payment seams and what they refuse to sign
  (\<open>src/src/mpp/tempo-client.ts\<close>), and the playground's door to the merchants (\<open>src/src/playground/upstream.ts\<close>).

  The payment client \<open>mppx\<close> is a library: it meets some number of 402 answers, each with candidate challenges, and calls
  back into the code for each of them; then it returns a response or throws.  Making a credential is the call
  \<open>Sign\<close>.
\<close>

subsection \<open>Routes and the environment\<close>

record proute =
  pr_id :: string
  pr_publicPath :: string
  pr_method :: http_method
  pr_service :: string
  pr_host :: string
  pr_path :: string
  pr_defaults :: "(string \<times> string) list"
  pr_verified :: bool
  pr_auth :: "(string \<times> string \<times> bool) option"
  pr_rate :: "int option"
  pr_payment :: string
  pr_session_key :: "string option"

text \<open>
  \<open>env\<close>: the variables, and what the code takes from outside the repository: StrKey's checksum test, HMAC, JSON and
  number parsing, \<open>Date.parse\<close>, \<open>URLSearchParams\<close>, the generated route table, and the address of the router's key.
\<close>

record penv =
  pe_enabled :: "string option"
  pe_session_secret :: "string option"
  pe_turnstile_disabled :: "string option"
  pe_turnstile_secret :: "string option"
  pe_router_public :: "string option"
  pe_recon_token :: "string option"
  pe_horizon_url :: "string option"
  pe_global_cap :: "string option"
  pe_chat_disabled :: "string option"
  pe_secrets :: "string \<Rightarrow> string option"
  pe_router_signer :: "string option"
  pe_routes :: "proute list"
  pe_strkey :: "string \<Rightarrow> bool"
  pe_hmac :: hmac
  pe_parse :: "nat list \<Rightarrow> json option"
  pe_ceiling :: "string \<Rightarrow> int"
  pe_number :: "json \<Rightarrow> string"
  pe_date_parse :: "string \<Rightarrow> int option"
  pe_query :: "(string \<times> string) list \<Rightarrow> string"

fun exn_message :: "exn \<Rightarrow> string" where
  "exn_message (JsExn m) = m"
| "exn_message (UpstreamError c s m ev) = m"
| "exn_message (ModelNotAllowedError c m) = m"
| "exn_message (ChannelNotInstalledError i) =
     ''No Tempo channel installed for merchant '' @ [char_of (34 :: nat)] @ i @ [char_of (34 :: nat)] @
     ''. Run scripts/open-channel.ts to open one.''"
| "exn_message (SessionChallengeMismatchError i d) = ''no session challenge payable from channel '' @ i @ '': '' @ d"
| "exn_message (BudgetExceededError u r m) =
     ''Merchant asked for '' @ r @ '' base units but the caller''@ [char_of (39 :: nat)] @ ''s ceiling is '' @ m @ ''. Refusing to sign a credential.''"
| "exn_message (ChannelDepositExhaustedError i n d) =
     ''Tempo session channel for '' @ [char_of (34 :: nat)] @ i @ [char_of (34 :: nat)] @ '' would reach cumulative '' @ n @
     '' but its deposit is '' @ d @ '' (base units). Refusing to sign a voucher; top up with scripts/admin/topup-tempo-channel.ts.''"
| "exn_message (StellarChannelNotRegisteredError g) =
     ''No stellarAgent:<G> index entry in KV for '' @ g @ ''. '' @
     ''Deploy the channel contract on Stellar and run '' @ ''scripts/admin/register-stellar-channel.ts to register it.''"

definition digits_re :: "string \<Rightarrow> bool" where
  "digits_re s \<longleftrightarrow> s \<noteq> [] \<and> all_digits s"

text \<open>\<open>BigInt(s)\<close> on decimal text: surrounding space is allowed, nothing is zero, anything else throws.\<close>

definition js_BigInt :: "string \<Rightarrow> int js" where
  "js_BigInt s =
     (let t = js_trim s in if t = [] then Inr 0 else if int_re t then Inr (bigint_of t) else Inl (JsError ''SyntaxError''))"

subsection \<open>Tempo channel records\<close>

definition KEY_PREFIX :: string where "KEY_PREFIX = ''tempoChannel:''"
definition ALT_KEY_PREFIX :: string where "ALT_KEY_PREFIX = ''tempoChannelAlt:''"

definition signedByRouter :: "penv \<Rightarrow> tempo_channel \<Rightarrow> bool" where
  "signedByRouter env state \<longleftrightarrow>
     pe_router_signer env = None \<or> map_option js_lower (tc_signer state) = pe_router_signer env"

text \<open>\<open>readSlot\<close>: a missing and an unreadable entry are both no channel.\<close>

definition readSlot :: "string \<Rightarrow> tempo_channel option prog" where
  "readSlot key = KvGet key from_outside"

definition resolveChannel :: "penv \<Rightarrow> string \<Rightarrow> (string \<times> tempo_channel) option prog" where
  "resolveChannel env merchantId =
     bind (readSlot (KEY_PREFIX @ merchantId)) (\<lambda>primary.
       case primary of
         Some st \<Rightarrow>
           if signedByRouter env st then Done (Some (KEY_PREFIX @ merchantId, st))
           else bind (readSlot (ALT_KEY_PREFIX @ merchantId)) (\<lambda>alternate.
             case alternate of
               Some st' \<Rightarrow> Done (if signedByRouter env st' then Some (ALT_KEY_PREFIX @ merchantId, st') else None)
             | None \<Rightarrow> Done None)
       | None \<Rightarrow> bind (readSlot (ALT_KEY_PREFIX @ merchantId)) (\<lambda>alternate.
           case alternate of
             Some st' \<Rightarrow> Done (if signedByRouter env st' then Some (ALT_KEY_PREFIX @ merchantId, st') else None)
           | None \<Rightarrow> Done None))"

definition getTempoChannel :: "penv \<Rightarrow> string \<Rightarrow> tempo_channel option prog" where
  "getTempoChannel env merchantId = bind (resolveChannel env merchantId) (\<lambda>r. Done (map_option snd r))"

definition bumpCumulative :: "penv \<Rightarrow> string \<Rightarrow> string \<Rightarrow> unit prog" where
  "bumpCumulative env merchantId newCumulativeRaw =
     (if \<not> digits_re newCumulativeRaw
      then Throw (JsExn (''bumpCumulative: cumulative must be non-negative integer string, got '' @ newCumulativeRaw))
      else bind (resolveChannel env merchantId) (\<lambda>resolved.
        case resolved of
          None \<Rightarrow> Throw (JsExn (''bumpCumulative: no channel for merchant '' @ merchantId))
        | Some (key, current) \<Rightarrow>
            bind (throwing (js_BigInt (tc_cumulativeRaw current))) (\<lambda>stored.
            let incoming = int (dec_val newCumulativeRaw) in
            if incoming \<le> stored then Done ()
            else KvPut key (current\<lparr>tc_cumulativeRaw := int_str incoming\<rparr>) from_outside)))"

definition sessionChannelKeyFor :: "proute \<Rightarrow> string" where
  "sessionChannelKeyFor route =
     (case pr_session_key route of Some k \<Rightarrow> if k = [] then pr_id route else k | None \<Rightarrow> pr_id route)"

subsection \<open>Challenges\<close>

text \<open>\<open>a?.k\<close>, \<open>a ?? b\<close>, and a field of \<open>challenge.request ?? {}\<close>.\<close>

definition optional :: "json option \<Rightarrow> string \<Rightarrow> json option" where
  "optional v k = (case v of None \<Rightarrow> None | Some j \<Rightarrow> jfield j k)"

definition coalesce :: "json option \<Rightarrow> json option \<Rightarrow> json option" where
  "coalesce a b = (if a = None \<or> a = Some JNull then b else a)"

definition same :: "json option \<Rightarrow> string \<Rightarrow> bool" where
  "same a b = (case jstring a of None \<Rightarrow> False | Some s \<Rightarrow> js_lower s = js_lower b)"

text \<open>\<open>Number(a) === Number(b)\<close>\<close>

definition num_eq :: "penv \<Rightarrow> json \<Rightarrow> json \<Rightarrow> bool" where
  "num_eq env a b \<longleftrightarrow> pe_number env a = pe_number env b \<and> pe_number env a \<noteq> ''NaN''"

definition sessionChallengeMismatch :: "penv \<Rightarrow> json option \<Rightarrow> tempo_channel \<Rightarrow> string option" where
  "sessionChallengeMismatch env request channel =
     (let details = optional request ''methodDetails'';
          escrow = coalesce (optional details ''escrowContract'') (optional request ''escrowContract'');
          chainId = coalesce (optional details ''chainId'') (optional request ''chainId'') in
      if \<not> same (optional request ''currency'') (tc_currency channel) then Some ''currency''
      else if \<not> same (optional request ''recipient'') (tc_payee channel) then Some ''payee''
      else if \<not> same escrow (tc_escrow channel) then Some ''escrow''
      else if (case chainId of None \<Rightarrow> True | Some c \<Rightarrow> \<not> num_eq env c (JNum (tc_chain channel))) then Some ''chain''
      else if (case optional request ''decimals'' of None \<Rightarrow> False | Some d \<Rightarrow> \<not> num_eq env d (JNum ''6''))
      then Some ''decimals''
      else None)"

definition filterPayableCandidates :: "penv \<Rightarrow> challenge list \<Rightarrow> tempo_channel \<Rightarrow> challenge list" where
  "filterPayableCandidates env candidates channel =
     filter (\<lambda>c. map_option js_lower (jstring (ch_intent c)) = Some ''session'' \<and>
                 sessionChallengeMismatch env (ch_request c) channel = None) candidates"

subsection \<open>What the seams refuse to sign\<close>

text \<open>\<open>String(v)\<close>\<close>

fun js_String :: "json \<Rightarrow> string" where
  "js_String JNull = ''null''"
| "js_String (JBool b) = (if b then ''true'' else ''false'')"
| "js_String (JNum s) = s"
| "js_String (JStr s) = s"
| "js_String (JArr xs) = sep_by '','' (map (\<lambda>x. if x = JNull then [] else js_String x) xs)"
| "js_String (JObj _) = ''[object Object]''"

definition shown :: "json option \<Rightarrow> string" where
  "shown v = (case v of None \<Rightarrow> ''undefined'' | Some j \<Rightarrow> js_String j)"

definition assertWithinBudget :: "json option \<Rightarrow> string \<Rightarrow> string \<Rightarrow> exn + unit" where
  "assertWithinBudget requested merchantUrl maxAmountRaw =
     (case requested of
        Some (JStr s) \<Rightarrow>
          if \<not> digits_re s then Inl (BudgetExceededError merchantUrl s maxAmountRaw)
          else (case js_BigInt maxAmountRaw of
            Inl _ \<Rightarrow> Inl (JsExn ''SyntaxError'')
          | Inr m \<Rightarrow> if m < int (dec_val s) then Inl (BudgetExceededError merchantUrl s maxAmountRaw) else Inr ())
      | _ \<Rightarrow> Inl (BudgetExceededError merchantUrl (shown requested) maxAmountRaw))"

definition addRaw :: "string \<Rightarrow> string \<Rightarrow> exn + string" where
  "addRaw a b =
     (case (js_BigInt a, js_BigInt b) of (Inr x, Inr y) \<Rightarrow> Inr (int_str (x + y)) | _ \<Rightarrow> Inl (JsExn ''SyntaxError''))"

definition nextSessionCumulative :: "string \<Rightarrow> tempo_channel \<Rightarrow> string \<Rightarrow> exn + string" where
  "nextSessionCumulative merchantId channel deltaRaw =
     (case addRaw (tc_cumulativeRaw channel) deltaRaw of
        Inl e \<Rightarrow> Inl e
      | Inr next' \<Rightarrow>
          (case tc_depositRaw channel of
             Some deposit \<Rightarrow>
               if digits_re deposit \<and> int (dec_val deposit) < bigint_of next'
               then Inl (ChannelDepositExhaustedError merchantId next' deposit) else Inr next'
           | None \<Rightarrow> Inr next'))"

subsection \<open>The payment seams\<close>

text \<open>
  \<open>onCredentialSigned\<close> writes into the caller's variables, which survive an exception; so a hook, and a whole payment,
  returns the amounts it was called with beside its outcome.
\<close>

type_synonym 'a paying = "(string list \<times> (exn + 'a)) prog"

text \<open>The client: per 402, the first candidate in the caller's order; none left is the client's own error.\<close>

definition NO_METHOD :: string where "NO_METHOD = ''No method found for challenges''"

fun answer_challenges ::
    "(challenge list \<Rightarrow> challenge list) \<Rightarrow> (challenge \<Rightarrow> unit paying) \<Rightarrow> challenge list list \<Rightarrow> http_answer outcome
      \<Rightarrow> http_answer paying" where
  "answer_challenges order hook [] final =
     Done ([], case final of Inl m \<Rightarrow> Inl (JsExn m) | Inr a \<Rightarrow> Inr a)"
| "answer_challenges order hook (cs # rest) final =
     (case order cs of
        [] \<Rightarrow> Done ([], Inl (JsExn NO_METHOD))
      | c # _ \<Rightarrow>
          bind (hook c) (\<lambda>(signed, r).
            case r of
              Inl e \<Rightarrow> Done (signed, Inl e)
            | Inr _ \<Rightarrow>
                bind (answer_challenges order hook rest final) (\<lambda>(signed', r').
                  Done (signed @ signed', r'))))"

definition mppx_fetch ::
    "string \<Rightarrow> (challenge list \<Rightarrow> challenge list) \<Rightarrow> (challenge \<Rightarrow> unit paying) \<Rightarrow> http_answer paying" where
  "mppx_fetch url order hook = Mppx url (\<lambda>(rounds, final). answer_challenges order hook rounds final)"

text \<open>\<open>createCredential\<close>, and the callback once the credential exists.\<close>

definition sign_then :: "signing \<Rightarrow> unit prog \<Rightarrow> unit paying" where
  "sign_then c after =
     Sign c (\<lambda>r. case r of Inl m \<Rightarrow> Done ([], Inl (JsExn m)) | Inr _ \<Rightarrow> bind after (\<lambda>_. Done ([sn_amount c], Inr ())))"

text \<open>\<open>if (opts.maxAmountRaw) assertWithinBudget(...)\<close>\<close>

definition within_budget :: "json option \<Rightarrow> string \<Rightarrow> string option \<Rightarrow> exn + unit" where
  "within_budget requested merchantUrl maxAmountRaw =
     (case maxAmountRaw of
        None \<Rightarrow> Inr ()
      | Some m \<Rightarrow> if m = [] then Inr () else assertWithinBudget requested merchantUrl m)"

definition payMerchant :: "string \<Rightarrow> string option \<Rightarrow> http_answer paying" where
  "payMerchant merchantUrl maxAmountRaw =
     mppx_fetch merchantUrl (\<lambda>cs. cs) (\<lambda>c.
       let amount = optional (ch_request c) ''amount'' in
       case within_budget amount merchantUrl maxAmountRaw of
         Inl e \<Rightarrow> Done ([], Inl e)
       | Inr _ \<Rightarrow> sign_then \<lparr>sn_url = merchantUrl, sn_amount = shown amount, sn_channel = None, sn_cumulative = None\<rparr>
                    (Done ()))"

text \<open>The hook of a session payment; the client persists the new cumulative and does not wait for it.\<close>

definition session_hook ::
    "penv \<Rightarrow> string \<Rightarrow> string \<Rightarrow> string option \<Rightarrow> string option \<Rightarrow> tempo_channel \<Rightarrow> challenge \<Rightarrow> unit paying" where
  "session_hook env merchantId merchantUrl maxAmountRaw expectedAmountRaw channel c =
     (case sessionChallengeMismatch env (ch_request c) channel of
        Some m \<Rightarrow> Done ([], Inl (SessionChallengeMismatchError merchantId m))
      | None \<Rightarrow>
          (let amount = optional (ch_request c) ''amount''; delta = shown amount in
           if \<not> truthy amount \<or> \<not> digits_re delta
           then Done ([], Inl (JsExn (''tempo.session challenge for '' @ merchantId @ '' missing valid base-unit amount: '' @ delta)))
           else (case within_budget amount merchantUrl maxAmountRaw of
             Inl e \<Rightarrow> Done ([], Inl e)
           | Inr _ \<Rightarrow>
               if expectedAmountRaw \<notin> {None, Some delta}
               then Done ([], Inl (SessionChallengeMismatchError merchantId ''amount changed since the quote''))
               else (case nextSessionCumulative merchantId channel delta of
                 Inl e \<Rightarrow> Done ([], Inl e)
               | Inr cumulative \<Rightarrow>
                   sign_then \<lparr>sn_url = merchantUrl, sn_amount = delta, sn_channel = Some (tc_channelId channel),
                              sn_cumulative = Some cumulative\<rparr>
                     (bind (attempt (bumpCumulative env merchantId cumulative)) (\<lambda>_. Done ()))))))"

text \<open>The channel as it was before the payment, when there is one, beside the outcome.\<close>

definition payMerchantSessionWith ::
    "penv \<Rightarrow> string \<Rightarrow> string \<Rightarrow> string option \<Rightarrow> string option
      \<Rightarrow> (tempo_channel option \<times> string list \<times> (exn + http_answer)) prog" where
  "payMerchantSessionWith env merchantId merchantUrl maxAmountRaw expectedAmountRaw =
     bind (attempt (getTempoChannel env merchantId)) (\<lambda>r.
       case r of
         Inl e \<Rightarrow> Done (None, [], Inl e)
       | Inr None \<Rightarrow> Done (None, [], Inl (ChannelNotInstalledError merchantId))
       | Inr (Some channel) \<Rightarrow>
           bind (mppx_fetch merchantUrl (\<lambda>cs. filterPayableCandidates env cs channel)
                   (session_hook env merchantId merchantUrl maxAmountRaw expectedAmountRaw channel)) (\<lambda>(signed, r').
             Done (Some channel, signed,
               case r' of
                 Inl (JsExn m) \<Rightarrow>
                   if is_prefix NO_METHOD m
                   then Inl (SessionChallengeMismatchError merchantId ''channel token not offered'') else r'
               | _ \<Rightarrow> r')))"

definition payMerchantSession ::
    "penv \<Rightarrow> string \<Rightarrow> string \<Rightarrow> string option \<Rightarrow> string option \<Rightarrow> http_answer paying" where
  "payMerchantSession env merchantId merchantUrl maxAmountRaw expectedAmountRaw =
     bind (payMerchantSessionWith env merchantId merchantUrl maxAmountRaw expectedAmountRaw) (\<lambda>(_, r). Done r)"

subsection \<open>The playground's door to the merchants\<close>

definition getRouteByPublicPath :: "penv \<Rightarrow> string \<Rightarrow> http_method \<Rightarrow> proute option" where
  "getRouteByPublicPath env pathname m = find (\<lambda>r. pr_publicPath r = pathname \<and> pr_method r = m) (pe_routes env)"

definition resolvePlaygroundRoute :: "penv \<Rightarrow> string \<Rightarrow> http_method \<Rightarrow> exn + proute" where
  "resolvePlaygroundRoute env publicPath m =
     (case getRouteByPublicPath env publicPath m of
        None \<Rightarrow> Inl (UpstreamError ''route_unknown'' 500 (''playground route '' @ publicPath @ '' is not registered'') EvNo)
      | Some route \<Rightarrow>
          if \<not> pr_verified route
          then Inl (UpstreamError ''route_unverified'' 503 (''route '' @ pr_id route @ '' is not verified'') EvNo)
          else Inr route)"

definition consumeUpstreamRateLimit :: "proute \<Rightarrow> unit prog" where
  "consumeUpstreamRateLimit route =
     (case (pr_auth route, pr_rate route) of
        (Some _, Some perDay) \<Rightarrow>
          bind date_now (\<lambda>t.
          DailySlot (''ratelimit:'' @ pr_service route @ '':'' @ utcDayKey t) perDay (\<lambda>r.
            case r of
              Inl m \<Rightarrow> Throw (JsExn m)
            | Inr (ok, used) \<Rightarrow>
                if ok then Done ()
                else Throw (UpstreamError ''upstream_rate_limited'' 429
                       (''daily cap reached for '' @ pr_service route @ '' ('' @ int_str used @ ''/'' @ int_str perDay @ '')'') EvNo)))
      | _ \<Rightarrow> Done ())"

text \<open>\<open>resolveUpstreamPath\<close>: the placeholders of the path, in order; a value must match the whitelist.\<close>

definition word_char :: "char \<Rightarrow> bool" where
  "word_char c = (let n = (of_char c :: nat) in
     48 \<le> n \<and> n \<le> 57 \<or> 65 \<le> n \<and> n \<le> 90 \<or> 97 \<le> n \<and> n \<le> 122 \<or> n = 95)"

definition placeholder_value :: "string \<Rightarrow> bool" where
  "placeholder_value s \<longleftrightarrow> s \<noteq> [] \<and> list_all (\<lambda>c. word_char c \<or> c \<in> {CHR ''.'', CHR ''-''}) s"

function resolve_path ::
    "(string \<times> string) list \<Rightarrow> (string \<times> string) list \<Rightarrow> string \<Rightarrow> exn + (string \<times> string list)" where
  "resolve_path query defaults [] = Inr ([], [])"
| "resolve_path query defaults (c # s) =
     (let name = takeWhile word_char s; rest = dropWhile word_char s in
      if c = CHR ''{'' \<and> name \<noteq> [] \<and> rest \<noteq> [] \<and> hd rest = CHR ''}''
      then (case (map_of query name, map_of defaults name) of
              (None, None) \<Rightarrow> Inl (JsExn (''placeholder '' @ name @ '' has no value''))
            | (v, d) \<Rightarrow>
                let value = (case v of Some x \<Rightarrow> x | None \<Rightarrow> the d) in
                if \<not> placeholder_value value then Inl (JsExn (''placeholder '' @ name @ '' value is not allowed''))
                else (case resolve_path query defaults (tl rest) of
                  Inl e \<Rightarrow> Inl e
                | Inr (p, used) \<Rightarrow> Inr (value @ p, (if v = None then used else name # used))))
      else (case resolve_path query defaults s of Inl e \<Rightarrow> Inl e | Inr (p, used) \<Rightarrow> Inr (c # p, used)))"
  by pat_completeness auto
termination
proof (relation "measure (\<lambda>(q, d, s). length s)")
  show "wf (measure (\<lambda>(q :: (string \<times> string) list, d :: (string \<times> string) list, s :: string). length s))" by simp
qed (auto simp: less_Suc_eq_le length_dropWhile_le intro: le_trans [OF diff_le_self])

definition resolveUpstreamPath :: "proute \<Rightarrow> (string \<times> string) list \<Rightarrow> exn + (string \<times> string list)" where
  "resolveUpstreamPath route query = resolve_path query (pr_defaults route) (pr_path route)"

definition injectUpstreamAuth :: "(string \<times> string) list \<Rightarrow> proute \<Rightarrow> penv \<Rightarrow> (string \<times> string) list" where
  "injectUpstreamAuth headers route env =
     (case pr_auth route of
        None \<Rightarrow> headers
      | Some (binding, header, bearer) \<Rightarrow>
          (case pe_secrets env binding of
             None \<Rightarrow> headers
           | Some token \<Rightarrow>
               if token = [] then headers
               else AList.update header (if bearer then ''Bearer '' @ token else token) headers))"

definition PLAYGROUND_USER_AGENT :: string where
  "PLAYGROUND_USER_AGENT = ''mpprouter-playground/1.0 (+https://mpprouter.dev)''"

record upstream_call =
  uc_response :: http_answer
  uc_paid :: bool
  uc_cost :: "string option"

text \<open>\<open>upstreamCostRaw\<close>: the last signed amount that is a number.\<close>

definition cost_of :: "string list \<Rightarrow> string option" where
  "cost_of signed = (case filter digits_re signed of [] \<Rightarrow> None | xs \<Rightarrow> Some (last xs))"

definition evidence_of :: "string list \<Rightarrow> evidence" where
  "evidence_of signed = (if signed \<noteq> [] then EvYes else EvNo)"

definition callUpstream ::
    "penv \<Rightarrow> proute \<Rightarrow> (string \<times> string) list \<Rightarrow> json option \<Rightarrow> int option \<Rightarrow> upstream_call prog" where
  "callUpstream env route query body budgetAtomic =
     bind (from_sum (resolveUpstreamPath route query)) (\<lambda>(path, used).
     let search = pe_query env (filter (\<lambda>(k, v). k \<notin> set used) query);
         merchantUrl = ''https://'' @ pr_host route @ path @ (if search \<noteq> [] then ''?'' @ search else []);
         headers = [(''accept'', ''application/json''), (''user-agent'', PLAYGROUND_USER_AGENT)] @
                   (if body \<noteq> None then [(''content-type'', ''application/json'')] else []) in
     if pr_auth route \<noteq> None
     then bind (consumeUpstreamRateLimit route) (\<lambda>_.
          bind (http (HttpMetered merchantUrl (injectUpstreamAuth headers route env) (map_option stringify body))) (\<lambda>response.
          Done \<lparr>uc_response = response, uc_paid = ha_ok response, uc_cost = None\<rparr>))
     else
       case budgetAtomic of
         None \<Rightarrow> Throw (UpstreamError ''budget_not_set'' 500
                   (''playground call to '' @ pr_id route @ '' has no upstream budget'') EvNo)
       | Some budget \<Rightarrow>
           let maxAmountRaw = toTempoRaw6 budget in
           if pr_payment route = ''tempo.session''
           then bind (payMerchantSession env (sessionChannelKeyFor route) merchantUrl (Some maxAmountRaw) None) (\<lambda>(signed, r).
             case r of
               Inr response \<Rightarrow> Done \<lparr>uc_response = response, uc_paid = signed \<noteq> [], uc_cost = cost_of signed\<rparr>
             | Inl (ChannelNotInstalledError i) \<Rightarrow>
                 Throw (UpstreamError ''session_channel_not_installed'' 503 (exn_message (ChannelNotInstalledError i))
                   (evidence_of signed))
             | Inl (BudgetExceededError u q m) \<Rightarrow>
                 Throw (UpstreamError ''upstream_over_budget'' 502 (exn_message (BudgetExceededError u q m))
                   (evidence_of signed))
             | Inl e \<Rightarrow> Throw (UpstreamError ''upstream_unreachable'' 502 (exn_message e) (evidence_of signed)))
           else bind (payMerchant merchantUrl (Some maxAmountRaw)) (\<lambda>(signed, r).
             case r of
               Inr response \<Rightarrow> Done \<lparr>uc_response = response, uc_paid = signed \<noteq> [], uc_cost = cost_of signed\<rparr>
             | Inl (BudgetExceededError u q m) \<Rightarrow>
                 Throw (UpstreamError ''upstream_over_budget'' 502 (exn_message (BudgetExceededError u q m))
                   (evidence_of signed))
             | Inl e \<Rightarrow> Throw (UpstreamError ''upstream_unreachable'' 502 (exn_message e) (evidence_of signed))))"

definition unwrapMerchantEnvelope :: "json \<Rightarrow> json" where
  "unwrapMerchantEnvelope body =
     (if jfield body ''success'' = Some (JBool True)
      then (case jfield body ''data'' of Some d \<Rightarrow> if is_object d then d else body | None \<Rightarrow> body)
      else body)"

definition callUpstreamJson ::
    "penv \<Rightarrow> proute \<Rightarrow> (string \<times> string) list \<Rightarrow> json option \<Rightarrow> int option
      \<Rightarrow> (json \<times> bool \<times> string option) prog" where
  "callUpstreamJson env route query body budgetAtomic =
     bind (try_catch (callUpstream env route query body budgetAtomic) (\<lambda>e.
             case e of
               UpstreamError _ _ _ _ \<Rightarrow> Throw e
             | _ \<Rightarrow> Throw (UpstreamError ''upstream_unreachable'' 502 (exn_message e) EvNo))) (\<lambda>call.
     let evidence = (if uc_paid call then EvYes else EvNo) in
     if \<not> ha_ok (uc_response call)
     then Throw (UpstreamError ''upstream_error'' 502
            (''upstream '' @ pr_id route @ '' returned '' @ int_str (ha_status (uc_response call))) evidence)
     else case ha_json (uc_response call) of
       None \<Rightarrow> Throw (UpstreamError ''upstream_bad_body'' 502
                 (''upstream '' @ pr_id route @ '' returned non-JSON'') evidence)
     | Some j \<Rightarrow> Done (unwrapMerchantEnvelope j, uc_paid call, uc_cost call))"

end
