(* ===== verification/UpstreamInv.thy ===== *)
theory UpstreamInv
  imports AsyncSystem Upstream
begin

text \<open>
  What the payment code guarantees of a call to a merchant: the \<open>wp\<close> rules of the payment seams.  Everything that is
  signed is within the budget of the call and, through a channel, within the channel's deposit; and the evidence
  the caller gets is \<open>yes\<close> only if a credential was signed, or the metered request succeeded, during that call.
\<close>

definition paying_event :: "event \<Rightarrow> bool" where
  "paying_event e = (case e of
     ESign _ (Inr _) \<Rightarrow> True
   | EHttp (HttpMetered _ _ _) (Inr a) \<Rightarrow> ha_ok a
   | _ \<Rightarrow> False)"

definition grown :: "history \<Rightarrow> bool \<Rightarrow> history \<Rightarrow> bool" where
  "grown h paid h' \<longleftrightarrow> (\<exists>h1. h' = h1 @ h \<and> (paid \<longrightarrow> list_ex paying_event h1))"

lemma grown_refl [simp]: "grown h False h"
  by (simp add: grown_def)

lemma grown_Cons: "grown h p h' \<Longrightarrow> grown h p (e # h')"
  by (auto simp: grown_def)

lemma grown_paying: "grown h p h' \<Longrightarrow> paying_event e \<Longrightarrow> grown h q (e # h')"
proof -
  assume "grown h p h'" "paying_event e"
  then obtain h1 where "e # h' = (e # h1) @ h" "list_ex paying_event (e # h1)" by (auto simp: grown_def)
  then show "grown h q (e # h')" unfolding grown_def by blast
qed

lemma grown_trans: "grown h p h' \<Longrightarrow> grown h' q h'' \<Longrightarrow> grown h (p \<or> q) h''"
  unfolding grown_def by fastforce

lemma grown_weaken: "grown h p h' \<Longrightarrow> (q \<Longrightarrow> p) \<Longrightarrow> grown h q h'"
  by (auto simp: grown_def)

lemma wp_grown: "wp p G Q E h \<Longrightarrow> wp p G (\<lambda>x h'. Q x h' \<and> grown h False h') (\<lambda>e h'. E e h' \<and> grown h False h') h"
  by (rule wp_grows) (auto intro: grown_Cons)

text \<open>Both ways: something was paid in between exactly if the outcome says so.\<close>

definition exact :: "history \<Rightarrow> bool \<Rightarrow> history \<Rightarrow> bool" where
  "exact h paid h' \<longleftrightarrow> (\<exists>h1. h' = h1 @ h \<and> (paid \<longleftrightarrow> list_ex paying_event h1))"

lemma exact_refl [simp]: "exact h False h"
  by (simp add: exact_def)

lemma exact_Cons: "exact h p h' \<Longrightarrow> q \<longleftrightarrow> p \<or> paying_event e \<Longrightarrow> exact h q (e # h')"
proof -
  assume "exact h p h'" and q: "q \<longleftrightarrow> p \<or> paying_event e"
  then obtain h1 where "h' = h1 @ h" "p \<longleftrightarrow> list_ex paying_event h1" by (auto simp: exact_def)
  with q have "e # h' = (e # h1) @ h" "q \<longleftrightarrow> list_ex paying_event (e # h1)" by auto
  then show "exact h q (e # h')" unfolding exact_def by blast
qed

lemma exact_skip: "exact h p h' \<Longrightarrow> \<not> paying_event e \<Longrightarrow> exact h p (e # h')"
  by (auto intro: exact_Cons)

lemma exact_trans: "exact h p h' \<Longrightarrow> exact h' q h'' \<Longrightarrow> exact h (p \<or> q) h''"
  unfolding exact_def by fastforce

lemma exact_cong: "exact h p h' \<Longrightarrow> q \<longleftrightarrow> p \<Longrightarrow> exact h q h'"
  by simp

lemma exact_grown: "exact h p h' \<Longrightarrow> grown h p h'"
  by (auto simp: exact_def grown_def)

lemma exact_extends: "exact h p h' \<Longrightarrow> grown h False h'"
  by (auto simp: exact_def grown_def)

lemma paying_event_simps [simp]:
  "paying_event (ESign c (Inr u))" "\<not> paying_event (ESign c (Inl m))" "\<not> paying_event (EKvGet n g)"
  "\<not> paying_event (EHttp q (Inl m))" "\<not> paying_event (EHttp (HttpGet u') (Inr a))"
  "\<not> paying_event (EHttp (HttpPost u' f) (Inr a))" "paying_event (EHttp (HttpMetered u' hs b) (Inr a)) = ha_ok a"
  "\<not> paying_event (ELedger r x)" "\<not> paying_event (EChan r' y)"
  by (simp_all add: paying_event_def split: http_req.split)

subsection \<open>Amounts\<close>

lemma js_BigInt_int_str: "js_BigInt (int_str n) = Inr n"
proof -
  have "js_trim (int_str n) = int_str n"
  proof (rule js_trim_id)
    show "int_str n \<noteq> []" by simp
    obtain c r where "nat_str (nat (if n < 0 then - n else n)) = c # r" by (metis nat_str_not_Nil neq_Nil_conv)
    moreover have "all_digits (nat_str (nat (if n < 0 then - n else n)))" by (rule all_digits_nat_str)
    ultimately show "\<not> is_space (hd (int_str n))" by (auto simp: int_str_def split: if_splits)
    have "is_digit (last (nat_str k))" for k
      using all_digits_nat_str [of k] unfolding all_digits_def list_all_iff by (metis last_in_set nat_str_not_Nil)
    then show "\<not> is_space (last (int_str n))" by (simp add: int_str_def)
  qed
  then show ?thesis by (simp add: js_BigInt_def)
qed

lemma assertWithinBudget_ok:
  assumes "assertWithinBudget requested url (toTempoRaw6 budget) = Inr ()"
  shows "\<exists>s. requested = Some (JStr s) \<and> digits_re s \<and> int (dec_val s) \<le> bigint_div budget 10"
  using assms
  by (auto simp: assertWithinBudget_def toTempoRaw6_def js_BigInt_int_str not_less
      split: option.splits json.splits if_splits)

text \<open>What may be signed for a call with this budget.\<close>

definition voucher_ok :: "penv \<Rightarrow> history \<Rightarrow> signing \<Rightarrow> bool" where
  "voucher_ok env h c \<longleftrightarrow>
     (case sn_cumulative c of
        None \<Rightarrow> sn_channel c = None
      | Some cum \<Rightarrow>
          (\<exists>key ch stored. EKvGet key (Inr (Some ch)) \<in> set h \<and> signedByRouter env ch \<and>
            sn_channel c = Some (tc_channelId ch) \<and> js_BigInt (tc_cumulativeRaw ch) = Inr stored \<and>
            cum = int_str (stored + int (dec_val (sn_amount c))) \<and>
            (\<forall>d. tc_depositRaw ch = Some d \<and> digits_re d \<longrightarrow> stored + int (dec_val (sn_amount c)) \<le> int (dec_val d))))"

definition may_sign :: "penv \<Rightarrow> int \<Rightarrow> history \<Rightarrow> signing \<Rightarrow> bool" where
  "may_sign env budget h c \<longleftrightarrow>
     digits_re (sn_amount c) \<and> int (dec_val (sn_amount c)) \<le> bigint_div budget 10 \<and> voucher_ok env h c"

subsection \<open>Channel records\<close>

lemma wp_resolveChannel:
  "wp (resolveChannel env m) G
     (\<lambda>r h'. exact h False h' \<and>
        (\<forall>key ch. r = Some (key, ch) \<longrightarrow> signedByRouter env ch \<and> EKvGet key (Inr (Some ch)) \<in> set h'))
     (\<lambda>e h'. exact h False h') h"
  by (auto simp: resolveChannel_def readSlot_def intro!: exact_skip split: sum.splits option.splits)

lemma wp_getTempoChannel:
  "wp (getTempoChannel env m) G
     (\<lambda>r h'. exact h False h' \<and>
        (\<forall>ch. r = Some ch \<longrightarrow> signedByRouter env ch \<and> (\<exists>key. EKvGet key (Inr (Some ch)) \<in> set h')))
     (\<lambda>e h'. exact h False h') h"
  unfolding getTempoChannel_def wp_bind by (rule wp_mono [OF wp_resolveChannel]) auto

lemma wp_bumpCumulative:
  "wp (bumpCumulative env m raw) G (\<lambda>_ h'. exact h False h') (\<lambda>_ h'. exact h False h') h"
  unfolding bumpCumulative_def
proof (split if_split, intro conjI impI)
  assume "\<not> \<not> digits_re raw"
  show "wp (bind (resolveChannel env m) (\<lambda>resolved. case resolved of
        None \<Rightarrow> Throw (JsExn (''bumpCumulative: no channel for merchant '' @ m))
      | Some (key, current) \<Rightarrow> bind (throwing (js_BigInt (tc_cumulativeRaw current))) (\<lambda>stored.
          let incoming = int (dec_val raw) in if incoming \<le> stored then Done ()
          else KvPut key (current\<lparr>tc_cumulativeRaw := int_str incoming\<rparr>) from_outside)))
      G (\<lambda>_ h'. exact h False h') (\<lambda>_ h'. exact h False h') h"
    unfolding wp_bind
    by (rule wp_mono [OF wp_resolveChannel]) (auto simp: Let_def split: option.split sum.split)
qed simp

subsection \<open>The payment client\<close>

text \<open>A payment never throws out of its program: its outcome is a value beside the amounts signed.\<close>

definition pays :: "penv \<Rightarrow> int \<Rightarrow> guard_pred \<Rightarrow> history \<Rightarrow> bool" where
  "pays env budget G h \<longleftrightarrow> (\<forall>h1 c. may_sign env budget (h1 @ h) c \<longrightarrow> G (CallSign c) (h1 @ h))"

text \<open>What the seams sign for a ceiling and an expected amount, if any.\<close>

definition may_pay :: "penv \<Rightarrow> string option \<Rightarrow> string option \<Rightarrow> history \<Rightarrow> signing \<Rightarrow> bool" where
  "may_pay env maxRaw expected h c \<longleftrightarrow>
     (\<exists>amount. sn_amount c = shown amount \<and> within_budget amount (sn_url c) maxRaw = Inr ()) \<and>
     (sn_cumulative c = None \<and> sn_channel c = None \<or>
      sn_cumulative c \<noteq> None \<and> digits_re (sn_amount c) \<and> expected \<in> {None, Some (sn_amount c)} \<and> voucher_ok env h c)"

definition pays_up :: "penv \<Rightarrow> string option \<Rightarrow> string option \<Rightarrow> guard_pred \<Rightarrow> history \<Rightarrow> bool" where
  "pays_up env maxRaw expected G h \<longleftrightarrow> (\<forall>h1 c. may_pay env maxRaw expected (h1 @ h) c \<longrightarrow> G (CallSign c) (h1 @ h))"

lemma pays_up_later: "pays_up env m e G h \<Longrightarrow> pays_up env m e G (h1 @ h)"
  unfolding pays_up_def by (metis append.assoc)

lemma within_budget_ok:
  assumes "within_budget requested url (Some (toTempoRaw6 budget)) = Inr ()"
  shows "digits_re (shown requested) \<and> int (dec_val (shown requested)) \<le> bigint_div budget 10"
proof -
  have "toTempoRaw6 budget \<noteq> []" by (simp add: toTempoRaw6_def)
  with assms have "assertWithinBudget requested url (toTempoRaw6 budget) = Inr ()" by (simp add: within_budget_def)
  from assertWithinBudget_ok [OF this] show ?thesis by (auto simp: shown_def)
qed

lemma pays_pays_up: "pays env budget G h \<Longrightarrow> pays_up env (Some (toTempoRaw6 budget)) expected G h"
  using within_budget_ok unfolding pays_def pays_up_def may_pay_def may_sign_def
  by (fastforce simp: voucher_ok_def split: option.splits)

lemma wp_sign_then:
  assumes "G (CallSign c) h"
    and "\<And>h'. grown h False h' \<Longrightarrow> wp after G (\<lambda>_ h''. exact h' False h'') (\<lambda>_ _. False) h'"
  shows "wp (sign_then c after) G (\<lambda>x h'. exact h (fst x \<noteq> []) h') (\<lambda>_ _. False) h"
proof -
  let ?h = "ESign c (Inr ()) # h"
  have paid: "exact h True ?h" by (rule exact_Cons [OF exact_refl]) simp
  then have "wp after G (\<lambda>_ h''. exact h True h'') (\<lambda>_ _. False) ?h"
    by (intro wp_mono [OF assms(2)]) (auto dest: exact_trans intro: exact_extends)
  with assms(1) show ?thesis
    by (auto simp: sign_then_def exact_skip split: sum.split)
qed

lemma wp_answer_challenges:
  assumes "\<And>c cs h'. grown h False h' \<Longrightarrow> c \<in> set (order cs) \<Longrightarrow>
      wp (hook c) G (\<lambda>x h''. exact h' (fst x \<noteq> []) h'') (\<lambda>_ _. False) h'"
  shows "grown h False h' \<Longrightarrow>
    wp (answer_challenges order hook rounds final) G (\<lambda>x h''. exact h' (fst x \<noteq> []) h'') (\<lambda>_ _. False) h'"
proof (induction rounds arbitrary: h')
  case Nil
  then show ?case by simp
next
  case (Cons cs rest)
  note before = Cons.prems and again = Cons.IH
  show ?case
  proof (cases "order cs")
    case Nil
    then show ?thesis by simp
  next
    case (Cons c more)
    have c: "wp (hook c) G (\<lambda>x h''. exact h' (fst x \<noteq> []) h'') (\<lambda>_ _. False) h'"
      by (rule assms [OF before, of c cs]) (simp add: Cons)
    have rest: "wp (answer_challenges order hook rest final) G (\<lambda>x h3. exact h' (signed @ fst x \<noteq> []) h3)
        (\<lambda>_ _. False) h2" if h2: "exact h' (signed \<noteq> []) h2" for signed h2
    proof (rule wp_mono [OF again])
      show "grown h False h2"
        using grown_trans [OF before exact_extends [OF h2]] by simp
      show "exact h' (signed @ fst x \<noteq> []) h3" if "exact h2 (fst x \<noteq> []) h3" for x :: "string list \<times> (exn + http_answer)" and h3
        using exact_trans [OF h2 that] by simp
    qed
    show ?thesis
      by (simp add: Cons split_beta) (rule wp_mono [OF c]; auto intro: rest [simplified] simp: split_beta split: sum.split)
  qed
qed

lemma wp_mppx_fetch:
  assumes "\<And>c cs h'. grown h False h' \<Longrightarrow> c \<in> set (order cs) \<Longrightarrow>
      wp (hook c) G (\<lambda>x h''. exact h' (fst x \<noteq> []) h'') (\<lambda>_ _. False) h'"
  shows "wp (mppx_fetch url order hook) G (\<lambda>x h'. exact h (fst x \<noteq> []) h') (\<lambda>_ _. False) h"
  using wp_answer_challenges [of h order hook G h, OF assms] by (auto simp: mppx_fetch_def)

lemma wp_payMerchant:
  assumes "pays_up env maxRaw expected G h"
  shows "wp (payMerchant url maxRaw) G (\<lambda>x h'. exact h (fst x \<noteq> []) h') (\<lambda>_ _. False) h"
  unfolding payMerchant_def
proof (rule wp_mppx_fetch)
  fix c :: challenge and h' assume h': "grown h False h'"
  let ?amount = "optional (ch_request c) ''amount''"
  let ?sign = "\<lparr>sn_url = url, sn_amount = shown ?amount, sn_channel = None, sn_cumulative = None\<rparr>"
  show "wp (let amount = ?amount in
      case within_budget amount url maxRaw of
        Inl e \<Rightarrow> Done ([], Inl e)
      | Inr _ \<Rightarrow> sign_then \<lparr>sn_url = url, sn_amount = shown amount, sn_channel = None, sn_cumulative = None\<rparr> (Done ()))
      G (\<lambda>x h''. exact h' (fst x \<noteq> []) h'') (\<lambda>_ _. False) h'"
  proof (cases "within_budget ?amount url maxRaw")
    case (Inr u)
    then have "may_pay env maxRaw expected h' ?sign" by (auto simp: may_pay_def)
    with h' assms have "G (CallSign ?sign) h'" by (auto simp: grown_def pays_up_def)
    with Inr show ?thesis by (simp add: wp_sign_then Let_def)
  qed (simp add: Let_def)
qed

lemma nextSessionCumulative_ok:
  assumes "nextSessionCumulative m ch delta = Inr cum" "digits_re delta"
  shows "\<exists>stored. js_BigInt (tc_cumulativeRaw ch) = Inr stored \<and> cum = int_str (stored + int (dec_val delta)) \<and>
    (\<forall>d. tc_depositRaw ch = Some d \<and> digits_re d \<longrightarrow> stored + int (dec_val delta) \<le> int (dec_val d))"
proof -
  have "js_BigInt delta = Inr (int (dec_val delta))"
  proof -
    obtain c r where d: "delta = c # r" "is_digit c" "all_digits r" using assms(2) by (cases delta) (auto simp: digits_re_def)
    have "is_digit (last delta)" using assms(2) unfolding digits_re_def all_digits_def list_all_iff by auto
    with d have "js_trim delta = delta" by (intro js_trim_id) auto
    moreover have "c \<noteq> CHR ''-''" using d(2) by auto
    ultimately show ?thesis using d by (simp add: js_BigInt_def int_re_def bigint_of_def)
  qed
  with assms(1) show ?thesis
    by (auto simp: nextSessionCumulative_def addRaw_def not_less split: sum.splits option.splits if_splits)
qed

lemma wp_session_hook:
  assumes "pays_up env maxRaw expected G h" "grown h False h'" "signedByRouter env ch" "EKvGet key (Inr (Some ch)) \<in> set h'"
  shows "wp (session_hook env m url maxRaw expected ch c) G
    (\<lambda>x h''. exact h' (fst x \<noteq> []) h'') (\<lambda>_ _. False) h'"
proof -
  let ?amount = "optional (ch_request c) ''amount''"
  let ?sign = "\<lambda>cum. \<lparr>sn_url = url, sn_amount = shown ?amount, sn_channel = Some (tc_channelId ch), sn_cumulative = Some cum\<rparr>"
  have signing: "wp (sign_then (?sign cum) (bind (attempt (bumpCumulative env m cum)) (\<lambda>_. Done ()))) G
      (\<lambda>x h''. exact h' (fst x \<noteq> []) h'') (\<lambda>_ _. False) h'"
    if "within_budget ?amount url maxRaw = Inr ()" "digits_re (shown ?amount)" "expected \<in> {None, Some (shown ?amount)}"
      "nextSessionCumulative m ch (shown ?amount) = Inr cum" for cum
  proof (rule wp_sign_then)
    have "voucher_ok env h' (?sign cum)"
      using nextSessionCumulative_ok [OF that(4,2)] assms(3,4) by (fastforce simp: voucher_ok_def)
    with that have "may_pay env maxRaw expected h' (?sign cum)" by (auto simp: may_pay_def)
    with assms(1,2) show "G (CallSign (?sign cum)) h'" by (auto simp: grown_def pays_up_def)
    show "wp (bind (attempt (bumpCumulative env m cum)) (\<lambda>_. Done ())) G (\<lambda>_ h''. exact h2 False h'') (\<lambda>_ _. False) h2" for h2
      using wp_bumpCumulative by simp
  qed
  show ?thesis
    unfolding session_hook_def Let_def
    by (auto split: option.split sum.split intro: signing simp: signing)
qed

lemma wp_payMerchantSessionWith:
  assumes "pays_up env maxRaw expected G h"
  shows "wp (payMerchantSessionWith env m url maxRaw expected) G (\<lambda>x h'. exact h (fst (snd x) \<noteq> []) h') (\<lambda>_ _. False) h"
proof -
  have pay: "wp (mppx_fetch url (\<lambda>cs. filterPayableCandidates env cs ch) (session_hook env m url maxRaw expected ch))
      G (\<lambda>x h''. exact h (fst x \<noteq> []) h'') (\<lambda>_ _. False) h'"
    if h': "exact h False h'" and ch: "signedByRouter env ch" "EKvGet key (Inr (Some ch)) \<in> set h'" for h' ch key
  proof (rule wp_mono [OF wp_mppx_fetch])
    show "wp (session_hook env m url maxRaw expected ch c) G (\<lambda>x h''. exact h2 (fst x \<noteq> []) h'') (\<lambda>_ _. False) h2"
      if "grown h' False h2" for c h2
    proof (rule wp_session_hook [OF assms])
      show "grown h False h2" using grown_trans [OF exact_extends [OF h'] that] by simp
      show "EKvGet key (Inr (Some ch)) \<in> set h2" using that ch(2) by (auto simp: grown_def)
    qed (rule ch(1))
    show "exact h (fst x \<noteq> []) h2" if "exact h' (fst x \<noteq> []) h2" for x :: "string list \<times> (exn + http_answer)" and h2
      using exact_trans [OF h' that] by simp
  qed simp
  show ?thesis
    unfolding payMerchantSessionWith_def wp_bind wp_attempt
    by (rule wp_mono [OF wp_getTempoChannel]) (auto split: option.split simp: split_beta intro: pay)
qed

lemma wp_payMerchantSession:
  assumes "pays_up env maxRaw expected G h"
  shows "wp (payMerchantSession env m url maxRaw expected) G (\<lambda>x h'. exact h (fst x \<noteq> []) h') (\<lambda>_ _. False) h"
  unfolding payMerchantSession_def wp_bind
  by (rule wp_mono [OF wp_payMerchantSessionWith [OF assms]]) (auto simp: split_beta)

subsection \<open>The playground's door\<close>

fun exn_evidence :: "exn \<Rightarrow> evidence" where
  "exn_evidence (UpstreamError code status message ev) = ev"
| "exn_evidence _ = EvNo"

definition asks :: "guard_pred \<Rightarrow> history \<Rightarrow> bool" where
  "asks G h \<longleftrightarrow> (\<forall>h1 u hs b. G (CallHttp (HttpMetered u hs b)) (h1 @ h))"

lemma wp_consume:
  "wp (consumeUpstreamRateLimit route) G (\<lambda>_ h'. h' = h) (\<lambda>e h'. h' = h \<and> exn_evidence e = EvNo) h"
  by (simp add: consumeUpstreamRateLimit_def date_now_def split: option.split sum.split)

lemma wp_metered:
  assumes "asks G h"
  shows "wp (bind (consumeUpstreamRateLimit route) (\<lambda>_. bind (http (HttpMetered url hs b)) (\<lambda>response.
      Done \<lparr>uc_response = response, uc_paid = ha_ok response, uc_cost = None\<rparr>))) G
    (\<lambda>c h'. exact h (uc_paid c) h') (\<lambda>e h'. exact h (exn_evidence e = EvYes) h') h"
  unfolding wp_bind
proof (rule wp_mono [OF wp_consume])
  have "G (CallHttp (HttpMetered url hs b)) h" using assms by (auto simp: asks_def dest: spec [of _ "[]"])
  moreover have "exact h (ha_ok a) (EHttp (HttpMetered url hs b) (Inr a) # h)" for a
    by (rule exact_Cons [OF exact_refl]) simp
  ultimately show "wp (http (HttpMetered url hs b)) G (\<lambda>response. wp (Done \<lparr>uc_response = response, uc_paid = ha_ok response,
      uc_cost = None\<rparr>) G (\<lambda>c h'. exact h (uc_paid c) h') (\<lambda>e h'. exact h (exn_evidence e = EvYes) h'))
      (\<lambda>e h'. exact h (exn_evidence e = EvYes) h') h'" if "h' = h" for h'
    using that by (auto simp: http_def exact_skip split: sum.split)
qed simp

lemma evidence_of_yes [simp]: "evidence_of signed = EvYes \<longleftrightarrow> signed \<noteq> []"
  by (simp add: evidence_of_def)

lemma resolve_path_evidence: "resolve_path q d s = Inl e \<Longrightarrow> exn_evidence e = EvNo"
proof (induction q d s rule: resolve_path.induct)
  case (2 q d c s)
  then show ?case by (auto simp: Let_def split: option.splits if_splits sum.splits)
qed simp

lemma wp_callUpstream:
  assumes "\<And>b. budget = Some b \<Longrightarrow> pays env b G h" "asks G h"
  shows "wp (callUpstream env route query body budget) G
    (\<lambda>c h'. exact h (uc_paid c) h') (\<lambda>e h'. exact h (exn_evidence e = EvYes) h') h"
proof (cases "resolveUpstreamPath route query")
  case (Inl e)
  then have "exn_evidence e = EvNo" by (simp add: resolveUpstreamPath_def resolve_path_evidence)
  with Inl show ?thesis by (simp add: callUpstream_def)
next
  case (Inr r)
  show ?thesis
  proof (cases "pr_auth route")
    case None
    have pay: "wp (payMerchant url (Some (toTempoRaw6 b))) G Q (\<lambda>e h'. exact h (exn_evidence e = EvYes) h') h"
      if "budget = Some b" "\<And>x h'. exact h (fst x \<noteq> []) h' \<Longrightarrow> Q x h'" for Q url b
      by (rule wp_mono [OF wp_payMerchant [OF pays_pays_up [OF assms(1) [OF that(1)]]]]) (simp_all add: that(2))
    have session: "wp (payMerchantSession env m url (Some (toTempoRaw6 b)) None) G Q (\<lambda>e h'. exact h (exn_evidence e = EvYes) h') h"
      if "budget = Some b" "\<And>x h'. exact h (fst x \<noteq> []) h' \<Longrightarrow> Q x h'" for Q m url b
      by (rule wp_mono [OF wp_payMerchantSession [OF pays_pays_up [OF assms(1) [OF that(1)]]]]) (simp_all add: that(2))
    show ?thesis
      using None Inr
      by (auto simp: callUpstream_def Let_def split_beta intro!: pay session split: option.split sum.split exn.split)
  next
    case (Some a)
    have "bind (from_sum (Inr r)) f = f r" for f :: "string \<times> string list \<Rightarrow> upstream_call prog"
      by (simp add: from_sum_def)
    with Some Inr show ?thesis
      using wp_metered [OF assms(2), of route] by (simp add: callUpstream_def Let_def split_beta del: wp_bind)
  qed
qed

lemma wp_callUpstreamJson_exact:
  assumes "\<And>b. budget = Some b \<Longrightarrow> pays env b G h" "asks G h"
  shows "wp (callUpstreamJson env route query body budget) G
    (\<lambda>x h'. exact h (fst (snd x)) h') (\<lambda>e h'. exact h (exn_evidence e = EvYes) h') h"
  unfolding callUpstreamJson_def wp_bind wp_try
  by (rule wp_mono [OF wp_callUpstream [OF assms]])
     (auto simp: Let_def split: option.split exn.split intro: grown_weaken)

lemma wp_callUpstreamJson:
  assumes "\<And>b. budget = Some b \<Longrightarrow> pays env b G h" "asks G h"
  shows "wp (callUpstreamJson env route query body budget) G
    (\<lambda>x h'. grown h (fst (snd x)) h') (\<lambda>e h'. grown h (exn_evidence e = EvYes) h') h"
  by (rule wp_mono [OF wp_callUpstreamJson_exact [OF assms]]) (auto intro: exact_grown)

end
