(* ===== verification/Playground.thy ===== *)
theory Playground
  imports Blend
begin

text \<open>
  The custodial playground: the typed ledger calls (\<open>src/src/playground/ledger-client.ts\<close>), the on-chain deposit check
  (\<open>deposit.ts\<close>), the Turnstile gate (\<open>turnstile.ts\<close>) and the request handlers (\<open>src/src/routes/playground.ts\<close>), as
  programs of \<open>Async\<close>.  Logging is left out.
\<close>

subsection \<open>ledger-client.ts\<close>

text \<open>\<open>doPost<T>\<close>: one call of the object; the answer is read at the type of its path.\<close>

definition doPost :: "lreq \<Rightarrow> (lans \<Rightarrow> 'a option) \<Rightarrow> 'a prog" where
  "doPost r as' = Ledger r (\<lambda>a.
     case a of
       Inl m \<Rightarrow> Throw (JsExn m)
     | Inr v \<Rightarrow> (case as' v of Some x \<Rightarrow> Done x | None \<Rightarrow> Throw (JsExn ''unexpected answer'')))"

fun as_intent where "as_intent (AIntent r) = Some r" | "as_intent _ = None"
fun as_opened where "as_opened (AOpened r) = Some r" | "as_opened _ = None"
fun as_account where "as_account (AAccount r) = Some r" | "as_account _ = None"
fun as_reserved where "as_reserved (AReserved r) = Some r" | "as_reserved _ = None"
fun as_marked where "as_marked (AMarked r) = Some r" | "as_marked _ = None"
fun as_settled where "as_settled (ASettled r) = Some r" | "as_settled _ = None"
fun as_totals where "as_totals (ATotals r) = Some r" | "as_totals _ = None"

definition globalCapAtomic :: "penv \<Rightarrow> int js" where
  "globalCapAtomic env =
     (let raw = (case pe_global_cap env of None \<Rightarrow> [] | Some s \<Rightarrow> js_trim s) in
      if raw = [] then parseUsd DEFAULT_GLOBAL_CAP_USD
      else case parseUsd raw of
        Inl _ \<Rightarrow> parseUsd DEFAULT_GLOBAL_CAP_USD
      | Inr parsed \<Rightarrow> if parsed \<le> 0 then parseUsd DEFAULT_GLOBAL_CAP_USD else Inr parsed)"

definition call_createIntent ::
    "penv \<Rightarrow> string \<Rightarrow> string \<Rightarrow> int \<Rightarrow> string \<Rightarrow> string \<Rightarrow> int \<Rightarrow> int \<Rightarrow> stored_intent result prog" where
  "call_createIntent env intentId acc amountAtomic memo destination t expiresAt =
     bind (throwing (parseUsd DEPOSIT_CAP_PER_ACCOUNT_PER_DAY_USD)) (\<lambda>dayCap.
     bind (throwing (globalCapAtomic env)) (\<lambda>globalCap.
     doPost (RCreate
       \<lparr>cb_intent_id = intentId, cb_account = acc, cb_amount = int_str amountAtomic, cb_memo = memo,
        cb_destination = destination, cb_now = t, cb_expires_at = expiresAt, cb_day_cap = int_str dayCap,
        cb_global_cap = int_str globalCap, cb_intents_per_hour = INTENT_RATE_PER_HOUR,
        cb_max_open = MAX_OPEN_INTENTS_PER_ACCOUNT\<rparr>) as_intent))"

definition call_getIntent :: "string \<Rightarrow> stored_intent result prog" where
  "call_getIntent intentId = doPost (RGet intentId) as_intent"

definition call_openIntent ::
    "penv \<Rightarrow> string \<Rightarrow> string \<Rightarrow> int \<Rightarrow> int \<Rightarrow> int \<Rightarrow> string \<Rightarrow> int \<Rightarrow> open_answer result prog" where
  "call_openIntent env intentId txHash opIndex t confirmedAt sessionJti sessionExp =
     bind (throwing (parseUsd DEPOSIT_CAP_PER_ACCOUNT_PER_DAY_USD)) (\<lambda>dayCap.
     bind (throwing (globalCapAtomic env)) (\<lambda>globalCap.
     doPost (ROpen
       \<lparr>ob_intent_id = intentId, ob_tx_hash = txHash, ob_op_index = opIndex, ob_now = t,
        ob_confirmed_at = confirmedAt, ob_session_jti = sessionJti, ob_session_exp = sessionExp,
        ob_day_cap = int_str dayCap, ob_global_cap = int_str globalCap\<rparr>) as_opened))"

definition call_readAccount :: "string \<Rightarrow> (int \<times> stored_call list) prog" where
  "call_readAccount acc = doPost (RAccount acc CALL_HISTORY_LIMIT) as_account"

definition call_reserve ::
    "string \<Rightarrow> string \<Rightarrow> string \<Rightarrow> string option \<Rightarrow> int \<Rightarrow> int \<Rightarrow> reserve_outcome result prog" where
  "call_reserve callId acc chip' model maxPriceAtomic t =
     doPost (RReserve
       \<lparr>rb_call_id = callId, rb_account = acc, rb_chip = chip', rb_model = model,
        rb_max_price = int_str maxPriceAtomic, rb_now = t, rb_history_limit = CALL_HISTORY_LIMIT\<rparr>) as_reserved"

definition call_markDispatched :: "string \<Rightarrow> bool result prog" where
  "call_markDispatched callId = doPost (RDispatch callId) as_marked"

definition call_commit :: "string \<Rightarrow> int \<Rightarrow> settle_answer result prog" where
  "call_commit callId chargedAtomic =
     doPost (RSettle callId DoCommit (Some (int_str chargedAtomic)) None) as_settled"

definition call_release :: "string \<Rightarrow> string \<Rightarrow> settle_answer result prog" where
  "call_release callId reason = doPost (RSettle callId DoRelease None (Some reason)) as_settled"

definition call_readTotals :: "totals_answer prog" where
  "call_readTotals = doPost RTotals as_totals"

subsection \<open>deposit.ts\<close>

definition STELLAR_PUBNET_USDC_ISSUER :: string where
  "STELLAR_PUBNET_USDC_ISSUER = ''GA5ZSEJYB37JRC5AVCIA5MOP4RHTM335X2KGX3IHOJAPP5RE34K4KZVN''"
definition STELLAR_USDC_ASSET_CODE :: string where "STELLAR_USDC_ASSET_CODE = ''USDC''"
definition DEFAULT_HORIZON_URL :: string where "DEFAULT_HORIZON_URL = ''https://horizon.stellar.org''"
definition MAX_OPERATIONS :: int where "MAX_OPERATIONS = 200"

datatype deposit_failure = TxNotFoundOnChain | TxFailedOnChain | MemoMismatch | NoMatchingPayment | HorizonUnavailable

fun failure_name :: "deposit_failure \<Rightarrow> string" where
  "failure_name TxNotFoundOnChain = ''tx_not_found''"
| "failure_name TxFailedOnChain = ''tx_failed''"
| "failure_name MemoMismatch = ''memo_mismatch''"
| "failure_name NoMatchingPayment = ''no_matching_payment''"
| "failure_name HorizonUnavailable = ''horizon_unavailable''"

datatype deposit_verification = Verified nat int | Unverified deposit_failure "string option"

definition horizonAmountToAtomic :: "string \<Rightarrow> int option" where
  "horizonAmountToAtomic amount =
     (case split_on (CHR ''.'') (js_trim amount) of
        [w] \<Rightarrow> if digits_re w then Some (int (dec_val w) * 10000000) else None
      | [w, f] \<Rightarrow>
          if digits_re w \<and> digits_re f \<and> length f \<le> 7
          then Some (int (dec_val w) * 10000000 + int (dec_val (padEnd 7 (CHR ''0'') f))) else None
      | _ \<Rightarrow> None)"

definition hex_char :: "char \<Rightarrow> bool" where
  "hex_char c = (let n = (of_char c :: nat) in 48 \<le> n \<and> n \<le> 57 \<or> 97 \<le> n \<and> n \<le> 102)"

definition tx_hash_re :: "string \<Rightarrow> bool" where
  "tx_hash_re s \<longleftrightarrow> length s = 64 \<and> list_all hex_char s"

text \<open>One operation of the transaction: is it the payment?  Reading a field of \<open>null\<close>, or trimming an amount that is not
  a string, throws.\<close>

definition op_matches :: "json \<Rightarrow> string \<Rightarrow> string \<Rightarrow> int \<Rightarrow> exn + bool" where
  "op_matches op destination acc amountAtomic =
     (if op = JNull then Inl (JsExn ''TypeError'')
      else if jfield op ''type'' \<noteq> Some (JStr ''payment'') then Inr False
      else if jfield op ''to'' \<noteq> Some (JStr destination) then Inr False
      else if jfield op ''asset_code'' \<noteq> Some (JStr STELLAR_USDC_ASSET_CODE) then Inr False
      else if jfield op ''asset_issuer'' \<noteq> Some (JStr STELLAR_PUBNET_USDC_ISSUER) then Inr False
      else if coalesce (jfield op ''source_account'') (jfield op ''from'') \<noteq> Some (JStr acc) then Inr False
      else if \<not> truthy (jfield op ''amount'') then Inr False
      else case jfield op ''amount'' of
        Some (JStr amount) \<Rightarrow> Inr (horizonAmountToAtomic amount = Some amountAtomic)
      | _ \<Rightarrow> Inl (JsExn ''TypeError''))"

fun first_match :: "(json \<Rightarrow> exn + bool) \<Rightarrow> nat \<Rightarrow> json list \<Rightarrow> exn + nat option" where
  "first_match p i [] = Inr None"
| "first_match p i (op # ops) =
     (case p op of
        Inl e \<Rightarrow> Inl e
      | Inr True \<Rightarrow> Inr (Some i)
      | Inr False \<Rightarrow> first_match p (Suc i) ops)"

definition strip_slashes :: "string \<Rightarrow> string" where
  "strip_slashes s = rev (dropWhile (\<lambda>c. c = CHR ''/'') (rev s))"

definition tx_url :: "string \<Rightarrow> string \<Rightarrow> string" where
  "tx_url horizonUrl txHash = strip_slashes horizonUrl @ ''/transactions/'' @ txHash"

definition ops_url :: "string \<Rightarrow> string \<Rightarrow> string" where
  "ops_url horizonUrl txHash = tx_url horizonUrl txHash @ ''/operations?limit='' @ int_str MAX_OPERATIONS @ ''&order=asc''"

text \<open>\<open>await resp.json()\<close>, outside any \<open>try\<close>.\<close>

definition body_of :: "http_answer \<Rightarrow> json prog" where
  "body_of a = (case ha_json a of None \<Rightarrow> Throw (JsExn ''SyntaxError'') | Some j \<Rightarrow> Done j)"

definition non_null :: "json \<Rightarrow> json prog" where
  "non_null j = (if j = JNull then Throw (JsExn ''TypeError'') else Done j)"

definition close_time :: "penv \<Rightarrow> json \<Rightarrow> int prog" where
  "close_time env tx =
     (let created = jfield tx ''created_at'';
          closedAt = (if truthy created then pe_date_parse env (shown created) else None)
      in case closedAt of Some t \<Rightarrow> Done t | None \<Rightarrow> date_now)"

definition verifyDeposit ::
    "penv \<Rightarrow> string \<Rightarrow> string \<Rightarrow> string \<Rightarrow> string \<Rightarrow> string \<Rightarrow> int \<Rightarrow> deposit_verification prog" where
  "verifyDeposit env horizonUrl txHash memo destination acc amountAtomic =
     (if \<not> tx_hash_re (js_lower txHash)
      then Done (Unverified TxNotFoundOnChain (Some ''malformed transaction hash''))
      else bind (attempt (http (HttpGet (tx_url horizonUrl txHash)))) (\<lambda>r.
        case r of
          Inl e \<Rightarrow> Done (Unverified HorizonUnavailable (Some (exn_message e)))
        | Inr txResp \<Rightarrow>
            if ha_status txResp = 404 then Done (Unverified TxNotFoundOnChain None)
            else if \<not> ha_ok txResp
            then Done (Unverified HorizonUnavailable (Some (''status '' @ int_str (ha_status txResp))))
            else bind (body_of txResp) (\<lambda>tx0. bind (non_null tx0) (\<lambda>tx.
              if jfield tx ''successful'' \<noteq> Some (JBool True) then Done (Unverified TxFailedOnChain None)
              else bind (close_time env tx) (\<lambda>confirmedAt.
                if jfield tx ''memo_type'' \<noteq> Some (JStr ''text'') \<or> jfield tx ''memo'' \<noteq> Some (JStr memo)
                then Done (Unverified MemoMismatch None)
                else bind (attempt (http (HttpGet (ops_url horizonUrl txHash)))) (\<lambda>r'.
                  case r' of
                    Inl e \<Rightarrow> Done (Unverified HorizonUnavailable (Some (exn_message e)))
                  | Inr opsResp \<Rightarrow>
                      if \<not> ha_ok opsResp
                      then Done (Unverified HorizonUnavailable (Some (''status '' @ int_str (ha_status opsResp))))
                      else bind (body_of opsResp) (\<lambda>ops0. bind (non_null ops0) (\<lambda>opsBody.
                        let records = (case jarray (optional (jfield opsBody ''_embedded'') ''records'') of
                              Some xs \<Rightarrow> xs | None \<Rightarrow> [])
                        in bind (from_sum (first_match (\<lambda>op. op_matches op destination acc amountAtomic) 0 records)) (\<lambda>m.
                          case m of
                            Some index \<Rightarrow> Done (Verified index confirmedAt)
                          | None \<Rightarrow> Done (Unverified NoMatchingPayment None))))))))))"

subsection \<open>turnstile.ts\<close>

definition SITEVERIFY_URL :: string where
  "SITEVERIFY_URL = ''https://challenges.cloudflare.com/turnstile/v0/siteverify''"
definition PLAYGROUND_TURNSTILE_ACTION :: string where "PLAYGROUND_TURNSTILE_ACTION = ''playground_intent''"
definition PLAYGROUND_TURNSTILE_HOSTNAME :: string where "PLAYGROUND_TURNSTILE_HOSTNAME = ''www.mpprouter.dev''"

datatype turnstile_result = TurnstileVerified | TurnstileDisabled | NotConfigured | MissingToken
  | TurnstileRejected "json option" | Unreachable

fun turnstile_ok :: "turnstile_result \<Rightarrow> bool" where
  "turnstile_ok TurnstileVerified = True"
| "turnstile_ok TurnstileDisabled = True"
| "turnstile_ok _ = False"

fun turnstile_reason :: "turnstile_result \<Rightarrow> string" where
  "turnstile_reason NotConfigured = ''not_configured''"
| "turnstile_reason MissingToken = ''missing_token''"
| "turnstile_reason (TurnstileRejected _) = ''rejected''"
| "turnstile_reason Unreachable = ''unreachable''"
| "turnstile_reason _ = []"

definition isPlaygroundTurnstileDisabled :: "penv \<Rightarrow> bool" where
  "isPlaygroundTurnstileDisabled env \<longleftrightarrow> pe_turnstile_disabled env = Some ''true''"

text \<open>The checks on Cloudflare's answer; reading a field of \<open>null\<close> throws.\<close>

definition siteverify_result :: "json \<Rightarrow> turnstile_result prog" where
  "siteverify_result data =
     bind (non_null data) (\<lambda>data.
       Done (if \<not> truthy (jfield data ''success'') then TurnstileRejected (jfield data ''error-codes'')
             else if jfield data ''action'' \<noteq> Some (JStr PLAYGROUND_TURNSTILE_ACTION)
             then TurnstileRejected (Some (JArr [JStr ''action-mismatch'']))
             else if jfield data ''hostname'' \<noteq> Some (JStr PLAYGROUND_TURNSTILE_HOSTNAME)
             then TurnstileRejected (Some (JArr [JStr ''hostname-mismatch'']))
             else TurnstileVerified))"

definition verifyPlaygroundTurnstile :: "penv \<Rightarrow> string option \<Rightarrow> string option \<Rightarrow> turnstile_result prog" where
  "verifyPlaygroundTurnstile env token remoteIp =
     (if isPlaygroundTurnstileDisabled env then Done TurnstileDisabled
      else if pe_turnstile_secret env \<in> {None, Some []} then Done NotConfigured
      else
        let t = (case token of None \<Rightarrow> [] | Some s \<Rightarrow> js_trim s) in
        if t = [] then Done MissingToken
        else
          let form = opt_pair ''secret'' (pe_turnstile_secret env) @ [(''response'', t)] @
                     (if remoteIp = Some [] then [] else opt_pair ''remoteip'' remoteIp)
          in bind (attempt (bind (http (HttpPost SITEVERIFY_URL form)) (\<lambda>resp.
                     if \<not> ha_ok resp then Done None else bind (body_of resp) (\<lambda>j. Done (Some j))))) (\<lambda>r.
               case r of
                 Inr (Some data) \<Rightarrow> siteverify_result data
               | _ \<Rightarrow> Done Unreachable))"

subsection \<open>routes/playground.ts: requests and answers\<close>

record request =
  rq_auth :: "string option"
  rq_ip :: "string option"
  rq_body :: "json option"

definition playgroundEnabled :: "penv \<Rightarrow> bool" where
  "playgroundEnabled env \<longleftrightarrow> pe_enabled env = Some ''true''"

definition disabled :: response where
  "disabled = fail 404 ''not_found'' ''playground is not enabled'' []"

definition base32_char :: "char \<Rightarrow> bool" where
  "base32_char c = (let n = (of_char c :: nat) in 65 \<le> n \<and> n \<le> 90 \<or> 50 \<le> n \<and> n \<le> 55)"

definition isValidStellarAccount :: "penv \<Rightarrow> string \<Rightarrow> bool" where
  "isValidStellarAccount env acc \<longleftrightarrow>
     length acc = 56 \<and> hd acc = CHR ''G'' \<and> list_all base32_char (tl acc) \<and> pe_strkey env acc"

definition ID_PATTERN :: "string \<Rightarrow> bool" where
  "ID_PATTERN s \<longleftrightarrow> 8 \<le> length s \<and> length s \<le> 64 \<and> list_all (\<lambda>c. word_char c \<or> c = CHR ''-'') s"

definition readJsonBody :: "request \<Rightarrow> json" where
  "readJsonBody rq = (case rq_body rq of Some j \<Rightarrow> if is_object j then j else JObj [] | None \<Rightarrow> JObj [])"

definition horizonUrl :: "penv \<Rightarrow> string" where
  "horizonUrl env =
     (case pe_horizon_url env of None \<Rightarrow> DEFAULT_HORIZON_URL
      | Some u \<Rightarrow> if js_trim u = [] then DEFAULT_HORIZON_URL else js_trim u)"

text \<open>\<open>b.toString(16).padStart(2, '0')\<close> on bytes.\<close>

definition generateMemo :: "nat list \<Rightarrow> string" where
  "generateMemo bytes = ''pg-'' @ concat (map (\<lambda>b. [hex_digit (b div 16), hex_digit (b mod 16)]) bytes)"

text \<open>
  The texts of the object's errors, by code (a negative price, the other cause of \<open>invalid_amount\<close>, is never asked
  for), and their details, of which two are numbers.
\<close>

definition error_message :: "string \<Rightarrow> string" where
  "error_message code =
     (case map_of
        [(''invalid_amount'', ''deposit amount must be positive''),
         (''rate_limited'', ''too many deposit intents for this account''),
         (''deposit_cap_exceeded'', ''daily deposit cap reached for this account''),
         (''global_cap_exceeded'', ''playground is at its global credit ceiling''),
         (''too_many_open_intents'', ''too many unclaimed deposit intents for this account''),
         (''memo_collision'', ''memo nonce collision, retry''),
         (''intent_not_found'', ''unknown intent''),
         (''deposit_exceeds_cap'', ''deposit exceeds the playground credit cap''),
         (''intent_already_used'', ''this intent has already been claimed''),
         (''payment_already_claimed'', ''this payment operation was already credited''),
         (''intent_expired'', ''deposit was confirmed on-chain after the intent expired''),
         (''call_not_found'', ''unknown call_id'')] code of
        Some m \<Rightarrow> m | None \<Rightarrow> [])"

definition detail_json :: "(string \<times> string) list \<Rightarrow> (string \<times> json) list" where
  "detail_json detail =
     map (\<lambda>(k, v). (k, if k \<in> {''retry_after_seconds'', ''max''} then JNum v else JStr v)) detail"

definition SUPPORT_OVER_CAP :: string where
  "SUPPORT_OVER_CAP = ''Your deposit was received on-chain but exceeds the playground credit cap, so it was not credited. Contact support for a refund.''"

definition ledgerErrorResponse :: "string \<Rightarrow> (string \<times> string) list \<Rightarrow> response" where
  "ledgerErrorResponse code detail =
     (let m = error_message code in
      if code = ''rate_limited'' then fail 429 code m (detail_json detail)
      else if code = ''deposit_cap_exceeded'' \<or> code = ''global_cap_exceeded'' then fail 403 code m []
      else if code = ''intent_not_found'' then fail 404 code m []
      else if code \<in> {''intent_expired'', ''intent_already_used'', ''payment_already_claimed''} then fail 409 code m []
      else if code = ''too_many_open_intents'' then fail 429 code m (detail_json detail)
      else if code = ''deposit_exceeds_cap''
      then fail 409 code m (detail_json detail @ [(''support_note'', JStr SUPPORT_OVER_CAP)])
      else fail 400 code m [])"

definition usd :: "int \<Rightarrow> json" where
  "usd n = JStr (formatUsd n)"

subsection \<open>POST /v1/playground/session/intent\<close>

definition body_str :: "json \<Rightarrow> string \<Rightarrow> string" where
  "body_str body k = (case jstring (jfield body k) of Some s \<Rightarrow> js_trim s | None \<Rightarrow> [])"

definition amount_wanted :: "json \<Rightarrow> string" where
  "amount_wanted body =
     (case jfield body ''amount_usd'' of
        Some (JStr s) \<Rightarrow> s
      | Some (JNum s) \<Rightarrow> s
      | _ \<Rightarrow> last DEPOSIT_OPTIONS_USD)"

definition intent_answer :: "stored_intent \<Rightarrow> response" where
  "intent_answer i =
     json_response
       [(''intent_id'', JStr (intent_id i)), (''memo'', JStr (i_memo i)), (''memo_type'', JStr ''text''),
        (''destination'', JStr (i_destination i)), (''amount_usdc'', usd (i_amount i)), (''asset'', JStr ''USDC''),
        (''asset_issuer'', JStr STELLAR_PUBNET_USDC_ISSUER), (''network'', JStr ''stellar-mainnet''),
        (''expires_at'', JStr (iso_of (i_expires_at i)))] 200"

definition handlePlaygroundIntent :: "penv \<Rightarrow> request \<Rightarrow> response prog" where
  "handlePlaygroundIntent env rq =
     (if \<not> playgroundEnabled env then Done disabled
      else if \<not> isSessionSecretUsable (pe_session_secret env)
      then Done (fail 503 ''not_configured'' ''playground session signing is not configured'' [])
      else
        let body = readJsonBody rq; acc = body_str body ''account'' in
        if \<not> isValidStellarAccount env acc
        then Done (fail 400 ''invalid_account'' ''account must be a valid Stellar public address (G...)'' [])
        else bind (verifyPlaygroundTurnstile env (jstring (jfield body ''turnstile_token'')) (rq_ip rq)) (\<lambda>turnstile.
          if \<not> turnstile_ok turnstile
          then Done (fail (if turnstile = NotConfigured \<or> turnstile = Unreachable then 503 else 403)
                 (''turnstile_'' @ turnstile_reason turnstile) ''human verification failed'' [])
          else
            let amountUsd = amount_wanted body in
            if \<not> isDepositOption amountUsd
            then Done (fail 400 ''invalid_amount'' ''amount_usd must be one of the offered deposit options''
                   [(''deposit_options'', JArr (map JStr DEPOSIT_OPTIONS_USD))])
            else case pe_router_public env of
              None \<Rightarrow> Done (fail 503 ''not_configured'' ''playground deposit destination is not configured'' [])
            | Some destination \<Rightarrow>
                if \<not> isValidStellarAccount env destination
                then Done (fail 503 ''not_configured'' ''playground deposit destination is not configured'' [])
                else bind date_now (\<lambda>t.
                  bind uuid (\<lambda>intentId.
                  bind (throwing (parseUsd amountUsd)) (\<lambda>amount.
                  bind (RandomBytes Done) (\<lambda>bytes.
                  bind (call_createIntent env intentId acc amount (generateMemo bytes) destination t
                          (t + INTENT_TTL_SECONDS * 1000)) (\<lambda>created.
                    case created of
                      Err code detail \<Rightarrow> Done (ledgerErrorResponse code detail)
                    | Ok i \<Rightarrow> Done (intent_answer i))))))))"

subsection \<open>POST /v1/playground/session/open\<close>

fun DEPOSIT_FAILURE_STATUS :: "deposit_failure \<Rightarrow> int" where
  "DEPOSIT_FAILURE_STATUS TxNotFoundOnChain = 404"
| "DEPOSIT_FAILURE_STATUS TxFailedOnChain = 400"
| "DEPOSIT_FAILURE_STATUS MemoMismatch = 400"
| "DEPOSIT_FAILURE_STATUS NoMatchingPayment = 400"
| "DEPOSIT_FAILURE_STATUS HorizonUnavailable = 503"

definition renewal_expired :: response where
  "renewal_expired = fail 410 ''session_renewal_expired''
     ''this deposit is too old to open a new session; the balance remains credited to the account'' []"

definition isExactReplay :: "stored_intent \<Rightarrow> string \<Rightarrow> bool" where
  "isExactReplay i txHash \<longleftrightarrow> i_status i = IConsumed \<and> i_tx_hash i = Some txHash \<and> i_session_jti i \<noteq> None"

text \<open>Where the deposit is: recorded, for a replay, or verified on chain.\<close>

definition locate_deposit :: "penv \<Rightarrow> stored_intent \<Rightarrow> string \<Rightarrow> (response + (int \<times> int)) prog" where
  "locate_deposit env i txHash =
     (if isExactReplay i txHash
      then Done (Inr ((case i_op_index i of Some n \<Rightarrow> n | None \<Rightarrow> 0), i_created_at i))
      else bind (verifyDeposit env (horizonUrl env) txHash (i_memo i) (i_destination i) (i_account i) (i_amount i)) (\<lambda>v.
        case v of
          Verified opIndex confirmedAt \<Rightarrow> Done (Inr (int opIndex, confirmedAt))
        | Unverified reason detail \<Rightarrow>
            Done (Inl (fail (DEPOSIT_FAILURE_STATUS reason) (failure_name reason)
              (case detail of Some d \<Rightarrow> d | None \<Rightarrow> ''deposit could not be verified on-chain'') []))))"

text \<open>The session to grant: the recorded one while it lasts, or a new one within the renewal cap.\<close>

definition renewal_deadline :: "stored_intent \<Rightarrow> int" where
  "renewal_deadline i = i_created_at i div 1000 + SESSION_RENEWAL_CAP_SECONDS"

definition session_of :: "stored_intent \<Rightarrow> int \<Rightarrow> (response + (string \<times> int)) prog" where
  "session_of i nowSec =
     (case (i_session_jti i, i_session_exp i) of
        (Some j, Some e) \<Rightarrow>
          if j \<noteq> [] \<and> e \<noteq> 0 \<and> nowSec < e then Done (Inr (j, e))
          else if j \<noteq> [] \<and> renewal_deadline i < nowSec then Done (Inl renewal_expired)
          else bind uuid (\<lambda>j'. Done (Inr (j', min (nowSec + SESSION_TTL_SECONDS) (renewal_deadline i))))
      | (Some j, None) \<Rightarrow>
          if j \<noteq> [] \<and> renewal_deadline i < nowSec then Done (Inl renewal_expired)
          else bind uuid (\<lambda>j'. Done (Inr (j', min (nowSec + SESSION_TTL_SECONDS) (renewal_deadline i))))
      | (None, _) \<Rightarrow> bind uuid (\<lambda>j'. Done (Inr (j', min (nowSec + SESSION_TTL_SECONDS) (renewal_deadline i)))))"

definition open_response :: "penv \<Rightarrow> open_answer \<Rightarrow> string \<Rightarrow> int \<Rightarrow> int \<Rightarrow> response prog" where
  "open_response env opened jti sessionExp t =
     (let i = oa_intent opened; nowSec = t div 1000;
          grantedJti = (case i_session_jti i of Some j \<Rightarrow> j | None \<Rightarrow> jti);
          grantedExp = (case i_session_exp i of Some e \<Rightarrow> e | None \<Rightarrow> sessionExp);
          ttl = grantedExp - nowSec in
      if ttl \<le> 0 then Done renewal_expired
      else case mintSessionToken (pe_hmac env) (pe_session_secret env) (i_account i) grantedJti t ttl of
        Inl e \<Rightarrow> Done (fail 503 ''not_configured'' ''playground session signing is not configured'' [])
      | Inr (token, _) \<Rightarrow> Done (json_response
          [(''session_token'', JStr token), (''account_masked'', JStr (maskAccount (i_account i))),
           (''balance_usd'', usd (oa_balance opened)), (''expires_at'', JStr (iso_of (grantedExp * 1000))),
           (''replayed'', JBool (oa_replayed opened))] 200))"

definition handlePlaygroundOpen :: "penv \<Rightarrow> request \<Rightarrow> response prog" where
  "handlePlaygroundOpen env rq =
     (if \<not> playgroundEnabled env then Done disabled
      else
        let body = readJsonBody rq; intentId = body_str body ''intent_id''; txHash = js_lower (body_str body ''tx_hash'') in
        if intentId = [] then Done (fail 400 ''invalid_request'' ''intent_id is required'' [])
        else if \<not> tx_hash_re txHash
        then Done (fail 400 ''invalid_request'' ''tx_hash must be a 64-character hex transaction hash'' [])
        else if \<not> isSessionSecretUsable (pe_session_secret env)
        then Done (fail 503 ''not_configured'' ''playground session signing is not configured'' [])
        else bind (call_getIntent intentId) (\<lambda>found.
          case found of
            Err code detail \<Rightarrow> Done (ledgerErrorResponse code detail)
          | Ok i \<Rightarrow>
              if i_destination i = []
              then Done (fail 503 ''not_configured'' ''playground deposit destination is not configured'' [])
              else bind date_now (\<lambda>t.
                bind (locate_deposit env i txHash) (\<lambda>l.
                  case l of
                    Inl resp \<Rightarrow> Done resp
                  | Inr (opIndex, confirmedAt) \<Rightarrow>
                      bind (session_of i (t div 1000)) (\<lambda>s.
                        case s of
                          Inl resp \<Rightarrow> Done resp
                        | Inr (jti, sessionExp) \<Rightarrow>
                            bind (call_openIntent env intentId txHash opIndex t confirmedAt jti sessionExp) (\<lambda>opened.
                              case opened of
                                Err code detail \<Rightarrow> Done (ledgerErrorResponse code detail)
                              | Ok oa \<Rightarrow> open_response env oa jti sessionExp t))))))"

subsection \<open>Sessions, and the read-only endpoints\<close>

fun verify_reason :: "verify_failure \<Rightarrow> string" where
  "verify_reason Malformed = ''malformed''"
| "verify_reason BadSignature = ''bad_signature''"
| "verify_reason Expired = ''expired''"
| "verify_reason WrongAudience = ''wrong_audience''"
| "verify_reason UnknownKeyVersion = ''unknown_key_version''"

text \<open>The account of the session, or the refusal.\<close>

definition authenticate :: "penv \<Rightarrow> request \<Rightarrow> (response + string) prog" where
  "authenticate env rq =
     (case bearerFrom (rq_auth rq) of
        None \<Rightarrow> Done (Inl (fail 401 ''missing_session'' ''Authorization: Bearer <session_token> is required'' []))
      | Some token \<Rightarrow>
          if token = []
          then Done (Inl (fail 401 ''missing_session'' ''Authorization: Bearer <session_token> is required'' []))
          else bind date_now (\<lambda>t.
            Done (case verifySessionToken (pe_hmac env) (pe_parse env) (pe_ceiling env) (pe_session_secret env) token t of
                Inl e \<Rightarrow> Inl (fail 503 ''not_configured'' ''playground session signing is not configured'' [])
              | Inr (Inl reason) \<Rightarrow>
                  Inl (fail 401 (''session_'' @ verify_reason reason) ''session token is not valid'' [])
              | Inr (Inr payload) \<Rightarrow>
                  Inr (case jstring (jfield payload ''sub'') of Some s \<Rightarrow> s | None \<Rightarrow> []))))"

fun status_name :: "call_status \<Rightarrow> string" where
  "status_name Reserved = ''reserved''"
| "status_name Committed = ''committed''"
| "status_name Released = ''released''"

definition handlePlaygroundSession :: "penv \<Rightarrow> request \<Rightarrow> response prog" where
  "handlePlaygroundSession env rq =
     (if \<not> playgroundEnabled env then Done disabled
      else bind (authenticate env rq) (\<lambda>session.
        case session of
          Inl resp \<Rightarrow> Done resp
        | Inr acc \<Rightarrow>
            bind (call_readAccount acc) (\<lambda>(balance, cs).
            Done (json_response
              [(''account_masked'', JStr (maskAccount acc)), (''balance_usd'', usd balance),
               (''calls'', JArr (map (\<lambda>c. JObj
                  ([(''call_id'', JStr (call_id c)), (''chip'', JStr (c_chip c))] @ opt_str ''model'' (c_model c) @
                   [(''status'', JStr (status_name (c_status c))), (''charged_usd'', usd (c_charged c)),
                    (''at'', JStr (iso_of (c_at c)))])) (take (nat CALL_HISTORY_LIMIT) cs)))] 200))))"

text \<open>\<open>timingSafeEqualString\<close> compares the UTF-8 bytes.\<close>

definition timingSafeEqualString :: "string \<Rightarrow> string \<Rightarrow> bool" where
  "timingSafeEqualString a b = timingSafeEqual (utf8 a) (utf8 b)"

definition deposit_json :: "consumed_deposit \<Rightarrow> json" where
  "deposit_json d = JObj
     ([(''tx_hash'', JStr (cd_tx_hash d)), (''op_index'', JNum (int_str (cd_op_index d))),
       (''intent_id'', JStr (cd_intent_id d))] @
      (case cd_binding d of
         None \<Rightarrow> [(''account'', JNull), (''amount'', JNull), (''memo'', JNull)]
       | Some (acc, amount, memo) \<Rightarrow>
           [(''account'', JStr acc), (''amount'', JStr (int_str amount)), (''memo'', JStr memo)]))"

definition totals_json :: "totals_answer \<Rightarrow> json" where
  "totals_json ta = JObj
     [(''credited'', JStr (int_str (ta_credited ta))), (''committed'', JStr (int_str (ta_committed ta))),
      (''outstanding'', JStr (int_str (ta_outstanding ta))), (''balances_sum'', JStr (int_str (ta_balances_sum ta))),
      (''holds_sum'', JStr (int_str (ta_holds_sum ta))),
      (''reaped_released_count'', JNum (int_str (ta_reaped_released ta))),
      (''reaped_release_possible_paid_count'', JNum (int_str (ta_reaped_possible_paid ta))),
      (''consumed_deposits'', JArr (map deposit_json (ta_consumed ta)))]"

text \<open>The counters of the channel store are an argument: the superseded aborts, and the count and total of write-offs,
  or nothing when reading them fails.\<close>

definition handlePlaygroundAdminTotals ::
    "penv \<Rightarrow> (int \<times> int \<times> string) option \<Rightarrow> request \<Rightarrow> response prog" where
  "handlePlaygroundAdminTotals env counters rq =
     (if \<not> playgroundEnabled env then Done disabled
      else case pe_recon_token env of
        None \<Rightarrow> Done disabled
      | Some expected \<Rightarrow>
          if length expected < 16 then Done disabled
          else case bearerFrom (rq_auth rq) of
            None \<Rightarrow> Done (fail 401 ''unauthorized'' ''operator token required'' [])
          | Some presented \<Rightarrow>
              if presented = [] \<or> \<not> timingSafeEqualString presented expected
              then Done (fail 401 ''unauthorized'' ''operator token required'' [])
              else bind call_readTotals (\<lambda>ta.
                let (aborts, writeoffs, raw) = (case counters of None \<Rightarrow> (0, 0, ''0'') | Some c \<Rightarrow> c) in
                Done (json_response
                  [(''ok'', JBool True), (''value'', totals_json ta),
                   (''channel'', JObj [(''superseded_aborts'', JNum (int_str aborts)),
                     (''writeoff_count'', JNum (int_str writeoffs)), (''writeoff_total_raw'', JStr raw)])] 200)))"

subsection \<open>Reserve, run, settle\<close>

definition INSUFFICIENT :: string where "INSUFFICIENT = ''playground session balance is too low''"

text \<open>The hold of a call, or the response that explains why there is none.\<close>

definition beginCall :: "string \<Rightarrow> string \<Rightarrow> string \<Rightarrow> string option \<Rightarrow> int \<Rightarrow> (response + unit) prog" where
  "beginCall acc callId chip' model priceAtomic =
     bind date_now (\<lambda>t.
     bind (call_reserve callId acc chip' model priceAtomic t) (\<lambda>held.
       case held of
         Err code detail \<Rightarrow> Done (Inl (ledgerErrorResponse code detail))
       | Ok o' \<Rightarrow>
           if ro_duplicate o'
           then (case ro_call o' of
             None \<Rightarrow> Throw (JsExn ''TypeError'')
           | Some c \<Rightarrow> Done (Inl (json_response
               ([(''call_id'', JStr (call_id c)), (''replayed'', JBool True), (''status'', JStr (status_name (c_status c))),
                 (''chip'', JStr (c_chip c))] @ opt_str ''model'' (c_model c) @
                [(''charged_usd'', usd (c_charged c)), (''balance_usd'', usd (ro_balance o'))]) 200)))
           else if \<not> ro_ok o'
           then Done (Inl (fail 402 ''insufficient_balance'' INSUFFICIENT
                  [(''balance_remaining'', usd (ro_balance o')), (''price_usd'', usd priceAtomic)]))
           else bind (attempt (call_markDispatched callId)) (\<lambda>marked.
             case marked of
               Inr (Ok _) \<Rightarrow> Done (Inr ())
             | _ \<Rightarrow>
                 bind (attempt (call_release callId ''dispatch_mark_failed'')) (\<lambda>_.
                 Done (Inl (fail 503 ''dispatch_failed'' ''could not start the call; no charge was made''
                   [(''call_id'', JStr callId)]))))))"

definition PAID_NOTE :: string where
  "PAID_NOTE = ''The upstream provider was paid but did not return a usable result, so this call was charged. Contact support if you would like it reviewed.''"

text \<open>What settling a failed call found out: the charge and the balance, or nothing.\<close>

definition settled_facts :: "exn + settle_answer result \<Rightarrow> int \<times> int option" where
  "settled_facts r =
     (case r of Inr (Ok sa) \<Rightarrow> (c_charged (sa_call sa), Some (sa_balance sa)) | _ \<Rightarrow> (0, None))"

definition opt_balance :: "int option \<Rightarrow> (string \<times> json) list" where
  "opt_balance b = (case b of None \<Rightarrow> [] | Some n \<Rightarrow> [(''balance_usd'', usd n)])"

fun upstream_parts :: "exn \<Rightarrow> string \<times> int \<times> string \<times> evidence" where
  "upstream_parts (UpstreamError code status message ev) = (code, status, message, ev)"
| "upstream_parts _ = (''upstream_error'', 502, ''upstream call failed'', EvNo)"

definition failCall :: "string \<Rightarrow> exn \<Rightarrow> int \<Rightarrow> response prog" where
  "failCall callId e priceAtomic =
     (case upstream_parts e of (code, status, message, ev) \<Rightarrow>
        let shouldCommit = (ev = EvYes) in
        bind (attempt (if shouldCommit then call_commit callId priceAtomic else call_release callId code)) (\<lambda>r.
        case settled_facts r of (charged, balance) \<Rightarrow>
          Done (fail status code message
            ([(''call_id'', JStr callId), (''charged_usd'', usd charged)] @ opt_balance balance @
             (if shouldCommit then [(''support_note'', JStr PAID_NOTE)] else [])))))"

definition releaseUnpaid :: "string \<Rightarrow> response prog" where
  "releaseUnpaid callId =
     bind (attempt (call_release callId ''no_credential_signed'')) (\<lambda>r.
     Done (fail 502 ''upstream_unpaid'' ''the call did not complete a payment; you were not charged''
       ([(''call_id'', JStr callId), (''charged_usd'', JStr ''0.00'')] @ opt_balance (snd (settled_facts r)))))"

definition callId :: "json \<Rightarrow> string option prog" where
  "callId body =
     (case jfield body ''call_id'' of
        None \<Rightarrow> bind uuid (\<lambda>u. Done (Some u))
      | Some JNull \<Rightarrow> bind uuid (\<lambda>u. Done (Some u))
      | Some (JStr s) \<Rightarrow> Done (if ID_PATTERN s then Some s else None)
      | Some _ \<Rightarrow> Done None)"

definition BAD_CALL_ID :: response where
  "BAD_CALL_ID = fail 400 ''invalid_request'' ''call_id must be an opaque id of 8-64 characters'' []"

subsection \<open>POST /v1/playground/chat\<close>

text \<open>\<open>sanitizeMessages\<close>: the accepted messages as role and content, or the complaint.\<close>

fun sanitize_items :: "json list \<Rightarrow> nat \<Rightarrow> string + (string \<times> string) list" where
  "sanitize_items [] totalChars = Inr []"
| "sanitize_items (item # items) totalChars =
     (if \<not> is_object item then Inl ''each message must be an object''
      else case jstring (jfield item ''role'') of
        None \<Rightarrow> Inl ''message role must be system, user, or assistant''
      | Some role \<Rightarrow>
          if role \<notin> {''system'', ''user'', ''assistant''} then Inl ''message role must be system, user, or assistant''
          else (case jstring (jfield item ''content'') of
            None \<Rightarrow> Inl ''message content must be a non-empty string''
          | Some content \<Rightarrow>
              if content = [] then Inl ''message content must be a non-empty string''
              else if MAX_MESSAGE_CHARS < totalChars + length content
              then Inl (''messages may not exceed '' @ nat_str MAX_MESSAGE_CHARS @ '' characters in total'')
              else (case sanitize_items items (totalChars + length content) of
                Inl e \<Rightarrow> Inl e
              | Inr out \<Rightarrow> Inr ((role, content) # out))))"

definition sanitizeMessages :: "json option \<Rightarrow> string + (string \<times> string) list" where
  "sanitizeMessages raw =
     (case jarray raw of
        None \<Rightarrow> Inl ''messages must be a non-empty array''
      | Some items \<Rightarrow>
          if items = [] then Inl ''messages must be a non-empty array''
          else if MAX_MESSAGES_PER_TURN < length items
          then Inl (''messages may not exceed '' @ nat_str MAX_MESSAGES_PER_TURN @ '' entries'')
          else sanitize_items items 0)"

definition message_json :: "string \<times> string \<Rightarrow> json" where
  "message_json m = JObj [(''role'', JStr (fst m)), (''content'', JStr (snd m))]"

text \<open>\<open>completion.choices?.[0]?.message?.content\<close>\<close>

definition at_zero :: "json option \<Rightarrow> json option" where
  "at_zero v = (case v of Some (JArr (x # _)) \<Rightarrow> Some x | Some j \<Rightarrow> jfield j ''0'' | None \<Rightarrow> None)"

definition completion_text :: "json \<Rightarrow> string option prog" where
  "completion_text j =
     bind (non_null j) (\<lambda>completion.
     Done (jstring (optional (optional (at_zero (jfield completion ''choices'')) ''message'') ''content'')))"

definition charged_fields :: "settle_answer \<Rightarrow> (string \<times> json) list" where
  "charged_fields sa = [(''charged_usd'', usd (c_charged (sa_call sa))), (''balance_usd'', usd (sa_balance sa))]"

definition route_failure :: "exn \<Rightarrow> response" where
  "route_failure e = (case upstream_parts e of (code, status, message, _) \<Rightarrow> fail status code message [])"

definition chat_body :: "play_model \<Rightarrow> (string \<times> string) list \<Rightarrow> json" where
  "chat_body model messages = JObj
     [(''model'', JStr (m_id model)), (''messages'', JArr (map message_json messages)),
      (''max_tokens'', JNum (int_str FORCED_MAX_TOKENS)), (''stream'', JBool False)]"

text \<open>From the hold to the answer.\<close>

definition run_chat ::
    "penv \<Rightarrow> string \<Rightarrow> string \<Rightarrow> play_model \<Rightarrow> (string \<times> string) list \<Rightarrow> proute \<Rightarrow> response prog" where
  "run_chat env acc cid model messages route =
     bind (throwing (parseUsd (TIER_PRICE_USD (m_tier model)))) (\<lambda>priceAtomic.
     bind (beginCall acc cid ''chat'' (Some (m_id model)) priceAtomic) (\<lambda>started.
       case started of
         Inl resp \<Rightarrow> Done resp
       | Inr _ \<Rightarrow>
           bind (attempt (bind (throwing (parseUsd (TIER_UPSTREAM_BUDGET_USD (m_tier model)))) (\<lambda>budget.
                   callUpstreamJson env route [] (Some (chat_body model messages)) (Some budget)))) (\<lambda>r.
             case r of
               Inl e \<Rightarrow> failCall cid e priceAtomic
             | Inr (completion, paid, _) \<Rightarrow>
                 if \<not> paid then releaseUnpaid cid
                 else bind (completion_text completion) (\<lambda>content.
                   case content of
                     None \<Rightarrow> failCall cid (UpstreamError ''upstream_empty'' 502 ''upstream returned no completion'' EvYes) priceAtomic
                   | Some msg \<Rightarrow>
                       if msg = []
                       then failCall cid (UpstreamError ''upstream_empty'' 502 ''upstream returned no completion'' EvYes) priceAtomic
                       else bind (call_commit cid priceAtomic) (\<lambda>settled.
                         case settled of
                           Err code detail \<Rightarrow> Done (ledgerErrorResponse code detail)
                         | Ok sa \<Rightarrow> Done (json_response
                             ([(''call_id'', JStr cid), (''message'', JStr msg), (''model'', JStr (m_id model))] @
                              charged_fields sa) 200))))))"

definition handlePlaygroundChat :: "penv \<Rightarrow> request \<Rightarrow> response prog" where
  "handlePlaygroundChat env rq =
     (if \<not> playgroundEnabled env then Done disabled
      else bind (authenticate env rq) (\<lambda>session.
        case session of
          Inl resp \<Rightarrow> Done resp
        | Inr acc \<Rightarrow>
            let body = readJsonBody rq in
            bind (callId body) (\<lambda>c.
              case c of
                None \<Rightarrow> Done BAD_CALL_ID
              | Some cid \<Rightarrow>
                  (case assertModelCallable (jfield body ''model'') of
                     Inl (ModelNotAllowedError code message) \<Rightarrow>
                       Done (fail 400 code message
                         [(''allowed_models'', JArr (map (\<lambda>m. JStr (m_id m)) (filter m_available PLAYGROUND_MODELS)))])
                   | Inl e \<Rightarrow> Throw e
                   | Inr model \<Rightarrow>
                       if chatModelsDisabled (pe_chat_disabled env) (Some (m_provider model))
                       then Done (fail 503 ''model_unavailable'' CHAT_OUTAGE_REASON [])
                       else (case sanitizeMessages (jfield body ''messages'') of
                         Inl complaint \<Rightarrow> Done (fail 400 ''invalid_request'' complaint [])
                       | Inr messages \<Rightarrow>
                           (case resolvePlaygroundRoute env (m_path model) (m_method model) of
                              Inl e \<Rightarrow> Done (route_failure e)
                            | Inr route \<Rightarrow> run_chat env acc cid model messages route))))))"

subsection \<open>POST /v1/playground/blend-activity\<close>

text \<open>The narration: any failure keeps the summary made in code.\<close>

definition narration :: "penv \<Rightarrow> blend_aggregate \<Rightarrow> string \<Rightarrow> string prog" where
  "narration env agg summary =
     (case findModel BLEND_SUMMARY_MODEL_ID of
        None \<Rightarrow> Done summary
      | Some m \<Rightarrow>
          if \<not> m_available m \<or> ba_examined agg = 0 then Done summary
          else bind (attempt
              (bind (from_sum (resolvePlaygroundRoute env (m_path m) (m_method m))) (\<lambda>route.
               bind (throwing (parseUsd (TIER_UPSTREAM_BUDGET_USD (m_tier m)))) (\<lambda>budget.
               bind (callUpstreamJson env route []
                   (Some (JObj [(''model'', JStr (m_id m)),
                      (''messages'', JArr [message_json (''user'', buildSummaryPrompt agg)]),
                      (''max_tokens'', JNum ''200''), (''stream'', JBool False)])) (Some budget)) (\<lambda>(completion, _).
               completion_text completion))))) (\<lambda>r.
            Done (case r of
              Inr (Some t) \<Rightarrow> if js_trim t \<noteq> [] then js_trim t else summary
            | _ \<Rightarrow> summary)))"

definition row_json :: "blend_row \<Rightarrow> json" where
  "row_json r = JObj
     [(''action'', JStr (action_name (br_action r))), (''count'', jnat (br_count r)),
      (''total_amount'', JStr (br_total r)), (''amount_samples'', jnat (br_samples r)),
      (''unique_participants'', jnat (br_participants r))]"

definition run_blend :: "penv \<Rightarrow> scval \<Rightarrow> string \<Rightarrow> string \<Rightarrow> string \<Rightarrow> proute \<Rightarrow> response prog" where
  "run_blend env sc dash acc cid eventsRoute =
     bind (throwing (parseUsd (cp_price BLEND_CHIP))) (\<lambda>priceAtomic.
     bind (beginCall acc cid (cp_id BLEND_CHIP) None priceAtomic) (\<lambda>started.
       case started of
         Inl resp \<Rightarrow> Done resp
       | Inr _ \<Rightarrow>
           bind (attempt (bind (throwing (parseUsd (cp_budget BLEND_CHIP))) (\<lambda>budget.
                   callUpstreamJson env eventsRoute
                     [(''contract_id'', BLEND_MAIN_POOL_CONTRACT_ID), (''limit'', int_str BLEND_EVENT_LIMIT)]
                     None (Some budget)))) (\<lambda>r.
             case r of
               Inl e \<Rightarrow> failCall cid e priceAtomic
             | Inr (raw, paid, _) \<Rightarrow>
                 if \<not> paid then releaseUnpaid cid
                 else
                   let agg = aggregateBlendEvents sc (extractEvents raw) BLEND_MAIN_POOL_CONTRACT_ID in
                   bind (narration env agg (describeAggregate dash agg)) (\<lambda>summary.
                   bind (call_commit cid priceAtomic) (\<lambda>settled.
                     case settled of
                       Err code detail \<Rightarrow> Done (ledgerErrorResponse code detail)
                     | Ok sa \<Rightarrow> Done (json_response
                         ([(''call_id'', JStr cid), (''summary'', JStr summary),
                           (''events_table'', JObj
                             [(''contract_id'', JStr (ba_contract agg)), (''events_examined'', jnat (ba_examined agg)),
                              (''ledger_range'', range_json agg), (''rows'', JArr (map row_json (ba_rows agg)))])] @
                          charged_fields sa) 200))))))"

definition handlePlaygroundBlendActivity :: "penv \<Rightarrow> scval \<Rightarrow> string \<Rightarrow> request \<Rightarrow> response prog" where
  "handlePlaygroundBlendActivity env sc dash rq =
     (if \<not> playgroundEnabled env then Done disabled
      else bind (authenticate env rq) (\<lambda>session.
        case session of
          Inl resp \<Rightarrow> Done resp
        | Inr acc \<Rightarrow>
            bind (callId (readJsonBody rq)) (\<lambda>c.
              case c of
                None \<Rightarrow> Done BAD_CALL_ID
              | Some cid \<Rightarrow>
                  (case resolvePlaygroundRoute env ''/v1/services/mercury/events/by-contract'' MethodGet of
                     Inl e \<Rightarrow> Done (route_failure e)
                   | Inr route \<Rightarrow> run_blend env sc dash acc cid route))))"

subsection \<open>POST /v1/playground/tx-decode\<close>

definition run_tx :: "penv \<Rightarrow> string \<Rightarrow> string \<Rightarrow> string \<Rightarrow> proute \<Rightarrow> response prog" where
  "run_tx env acc cid txHash route =
     bind (throwing (parseUsd (cp_price TX_CHIP))) (\<lambda>priceAtomic.
     bind (beginCall acc cid (cp_id TX_CHIP) None priceAtomic) (\<lambda>started.
       case started of
         Inl resp \<Rightarrow> Done resp
       | Inr _ \<Rightarrow>
           bind (attempt (bind (throwing (parseUsd (cp_budget TX_CHIP))) (\<lambda>budget.
                   callUpstreamJson env route [(''tx_hash'', txHash)] None (Some budget)))) (\<lambda>r.
             case r of
               Inl e \<Rightarrow> failCall cid e priceAtomic
             | Inr (result', paid, _) \<Rightarrow>
                 if \<not> paid then releaseUnpaid cid
                 else bind (call_commit cid priceAtomic) (\<lambda>settled.
                   case settled of
                     Err code detail \<Rightarrow> Done (ledgerErrorResponse code detail)
                   | Ok sa \<Rightarrow> Done (json_response
                       ([(''call_id'', JStr cid), (''tx_hash'', JStr txHash), (''transaction'', result')] @
                        charged_fields sa) 200)))))"

definition handlePlaygroundTxDecode :: "penv \<Rightarrow> request \<Rightarrow> response prog" where
  "handlePlaygroundTxDecode env rq =
     (if \<not> playgroundEnabled env then Done disabled
      else bind (authenticate env rq) (\<lambda>session.
        case session of
          Inl resp \<Rightarrow> Done resp
        | Inr acc \<Rightarrow>
            let body = readJsonBody rq in
            bind (callId body) (\<lambda>c.
              case c of
                None \<Rightarrow> Done BAD_CALL_ID
              | Some cid \<Rightarrow>
                  let txHash = js_lower (body_str body ''tx_hash'') in
                  if \<not> tx_hash_re txHash
                  then Done (fail 400 ''invalid_request'' ''tx_hash must be a 64-character hex transaction hash'' [])
                  else (case resolvePlaygroundRoute env ''/v1/services/mercury/txs/by-hash'' MethodGet of
                     Inl e \<Rightarrow> Done (route_failure e)
                   | Inr route \<Rightarrow> run_tx env acc cid txHash route))))"

end
