(* ===== verification/PlayInv.thy ===== *)
theory PlayInv
  imports UpstreamInv Playground
begin

text \<open>
  The handlers of the playground as guarded programs: \<open>play_guard\<close> says when a handler may commit, release, claim a
  deposit, sign or call a metered merchant, in terms of what it has done before; \<open>playground_guarded\<close> that every
  handler keeps to it.
\<close>

subsection \<open>Histories of one handler\<close>

definition fresh_hold :: "string \<Rightarrow> string \<Rightarrow> event \<Rightarrow> bool" where
  "fresh_hold k m e = (case e of
     ELedger (RReserve b) (Inr (AReserved (Ok out))) \<Rightarrow>
       rb_call_id b = k \<and> rb_max_price b = m \<and> ro_ok out \<and> \<not> ro_duplicate out
   | _ \<Rightarrow> False)"

fun held :: "string \<Rightarrow> string \<Rightarrow> history \<Rightarrow> bool" where
  "held k m [] \<longleftrightarrow> False"
| "held k m (e # h) \<longleftrightarrow> fresh_hold k m e \<or> held k m h"

fun paid_since :: "string \<Rightarrow> string \<Rightarrow> history \<Rightarrow> bool" where
  "paid_since k m [] \<longleftrightarrow> False"
| "paid_since k m (e # h) \<longleftrightarrow> paid_since k m h \<or> paying_event e \<and> held k m h"

lemma held_append: "held k m h \<Longrightarrow> held k m (h1 @ h)"
  by (induction h1) simp_all

lemma held_grown: "held k m h \<Longrightarrow> grown h p h' \<Longrightarrow> held k m h'"
  by (auto simp: grown_def held_append)

lemma paid_append: "paid_since k m h \<Longrightarrow> paid_since k m (h1 @ h)"
  by (induction h1) simp_all

lemma paid_grown: "paid_since k m h \<Longrightarrow> grown h p h' \<Longrightarrow> paid_since k m h'"
  by (auto simp: grown_def paid_append)

lemma held_paid: "held k m h \<Longrightarrow> grown h True h' \<Longrightarrow> paid_since k m h'"
proof -
  have "held k m h \<Longrightarrow> list_ex paying_event h1 \<Longrightarrow> paid_since k m (h1 @ h)" for h1
    by (induction h1) (auto simp: held_append)
  then show "held k m h \<Longrightarrow> grown h True h' \<Longrightarrow> ?thesis" by (auto simp: grown_def)
qed

lemma paid_held: "paid_since k m h \<Longrightarrow> held k m h"
  by (induction h) auto

subsection \<open>On-chain facts\<close>

text \<open>The operation is a payment of that amount of Circle's USDC, from the account to the destination.\<close>

definition usdc_payment :: "json \<Rightarrow> string \<Rightarrow> string \<Rightarrow> int \<Rightarrow> bool" where
  "usdc_payment op destination acc amount \<longleftrightarrow>
     jfield op ''type'' = Some (JStr ''payment'') \<and> jfield op ''to'' = Some (JStr destination) \<and>
     jfield op ''asset_code'' = Some (JStr ''USDC'') \<and>
     jfield op ''asset_issuer'' = Some (JStr ''GA5ZSEJYB37JRC5AVCIA5MOP4RHTM335X2KGX3IHOJAPP5RE34K4KZVN'') \<and>
     (jfield op ''source_account'' = Some (JStr acc) \<or>
      jfield op ''source_account'' \<in> {None, Some JNull} \<and> jfield op ''from'' = Some (JStr acc)) \<and>
     (\<exists>s. jfield op ''amount'' = Some (JStr s) \<and> horizonAmountToAtomic s = Some amount)"

lemma op_matches_sound: "op_matches op destination acc amount = Inr True \<Longrightarrow> usdc_payment op destination acc amount"
  by (auto simp: op_matches_def usdc_payment_def STELLAR_USDC_ASSET_CODE_def STELLAR_PUBNET_USDC_ISSUER_def coalesce_def
      split: if_splits option.splits json.splits)

definition paid_on_chain :: "penv \<Rightarrow> history \<Rightarrow> string \<Rightarrow> string \<Rightarrow> string \<Rightarrow> int \<Rightarrow> string \<Rightarrow> int \<Rightarrow> bool" where
  "paid_on_chain env h memo destination acc amount tx op \<longleftrightarrow>
     (\<exists>txr opsr txj opsj recs n.
        EHttp (HttpGet (tx_url (horizonUrl env) tx)) (Inr txr) \<in> set h \<and> ha_ok txr \<and> ha_json txr = Some txj \<and>
        jfield txj ''successful'' = Some (JBool True) \<and> jfield txj ''memo_type'' = Some (JStr ''text'') \<and>
        jfield txj ''memo'' = Some (JStr memo) \<and>
        EHttp (HttpGet (ops_url (horizonUrl env) tx)) (Inr opsr) \<in> set h \<and> ha_ok opsr \<and> ha_json opsr = Some opsj \<and>
        jarray (optional (jfield opsj ''_embedded'') ''records'') = Some recs \<and> op = int n \<and> n < length recs \<and>
        usdc_payment (recs ! n) destination acc amount)"

lemma paid_on_chain_mono: "paid_on_chain env h memo d acc a tx op \<Longrightarrow> set h \<subseteq> set h' \<Longrightarrow> paid_on_chain env h' memo d acc a tx op"
  unfolding paid_on_chain_def by blast

lemma first_match_sound:
  "first_match p i ops = Inr (Some j) \<Longrightarrow> \<exists>m. j = i + m \<and> m < length ops \<and> p (ops ! m) = Inr True"
proof (induction ops arbitrary: i)
  case (Cons op ops)
  show ?case
  proof (cases "p op = Inr True")
    case True
    with Cons.prems show ?thesis by (auto intro!: exI [of _ 0])
  next
    case False
    with Cons.prems have "first_match p (Suc i) ops = Inr (Some j)" by (auto split: sum.splits bool.splits)
    from Cons.IH [OF this] obtain m where "j = Suc i + m" "m < length ops" "p (ops ! m) = Inr True" by blast
    then show ?thesis by (intro exI [of _ "Suc m"]) simp
  qed
qed simp

lemma wp_verifyDeposit:
  assumes "\<And>u h'. G (CallHttp (HttpGet u)) h'"
  shows "wp (verifyDeposit env (horizonUrl env) tx memo d acc amount) G
    (\<lambda>v h'. grown h False h' \<and> (\<forall>n t. v = Verified n t \<longrightarrow> paid_on_chain env h' memo d acc amount tx (int n)))
    (\<lambda>e h'. True) h"
proof -
  have found: "paid_on_chain env (EHttp (HttpGet (ops_url (horizonUrl env) tx)) (Inr opsr) #
        EHttp (HttpGet (tx_url (horizonUrl env) tx)) (Inr txr) # h) memo d acc amount tx (int n)"
    if "ha_ok txr" "ha_json txr = Some txj" "jfield txj ''successful'' = Some (JBool True)"
      "jfield txj ''memo_type'' = Some (JStr ''text'')" "jfield txj ''memo'' = Some (JStr memo)"
      "ha_ok opsr" "ha_json opsr = Some opsj"
      "first_match (\<lambda>op. op_matches op d acc amount) 0
         (case jarray (optional (jfield opsj ''_embedded'') ''records'') of Some xs \<Rightarrow> xs | None \<Rightarrow> []) = Inr (Some n)"
    for txr txj opsr opsj n
  proof -
    from first_match_sound [OF that(8)] obtain recs where
      "jarray (optional (jfield opsj ''_embedded'') ''records'') = Some recs" "n < length recs"
      "op_matches (recs ! n) d acc amount = Inr True"
      by (auto split: option.splits)
    with that(1-7) op_matches_sound show ?thesis unfolding paid_on_chain_def by force
  qed
  show ?thesis
    using assms found
    by (auto simp: verifyDeposit_def http_def body_of_def non_null_def close_time_def date_now_def Let_def grown_Cons
        split: sum.split option.split)
qed

subsection \<open>The guard\<close>

text \<open>The flat price the code advertises for a chip and, for a chat, its model.\<close>

definition advertised :: "string \<Rightarrow> string option \<Rightarrow> int \<Rightarrow> bool" where
  "advertised chip' model p \<longleftrightarrow>
     (case model of
        Some i \<Rightarrow> chip' = ''chat'' \<and> (\<exists>m. findModel i = Some m \<and> parseUsd (TIER_PRICE_USD (m_tier m)) = Inr p)
      | None \<Rightarrow> (\<exists>c. findChip chip' = Some c \<and> parseUsd (cp_price c) = Inr p))"

text \<open>A person passed the human check, or the check is switched off.\<close>

definition siteverify_ok :: "json \<Rightarrow> bool" where
  "siteverify_ok j \<longleftrightarrow> truthy (jfield j ''success'') \<and>
     jfield j ''action'' = Some (JStr PLAYGROUND_TURNSTILE_ACTION) \<and>
     jfield j ''hostname'' = Some (JStr PLAYGROUND_TURNSTILE_HOSTNAME)"

definition human :: "penv \<Rightarrow> history \<Rightarrow> bool" where
  "human env h \<longleftrightarrow> isPlaygroundTurnstileDisabled env \<or>
     (\<exists>form a j. EHttp (HttpPost SITEVERIFY_URL form) (Inr a) \<in> set h \<and> ha_ok a \<and> ha_json a = Some j \<and> siteverify_ok j)"

definition offer :: "penv \<Rightarrow> create_body \<Rightarrow> bool" where
  "offer env b \<longleftrightarrow>
     (\<exists>opt \<in> set DEPOSIT_OPTIONS_USD. \<exists>n. parseUsd opt = Inr n \<and> cb_amount b = int_str n) \<and>
     Some (cb_destination b) = pe_router_public env \<and> isValidStellarAccount env (cb_destination b) \<and>
     isValidStellarAccount env (cb_account b) \<and> cb_expires_at b = cb_now b + INTENT_TTL_SECONDS * 1000"

text \<open>The deposit of an intent is this payment; and how long a session it may get.\<close>

definition backed :: "penv \<Rightarrow> history \<Rightarrow> stored_intent \<Rightarrow> string \<Rightarrow> int \<Rightarrow> bool" where
  "backed env h i tx op \<longleftrightarrow>
     paid_on_chain env h (i_memo i) (i_destination i) (i_account i) (i_amount i) tx op"

definition located :: "penv \<Rightarrow> history \<Rightarrow> stored_intent \<Rightarrow> string \<Rightarrow> int \<Rightarrow> bool" where
  "located env h i tx op \<longleftrightarrow> isExactReplay i tx \<or> backed env h i tx op"

definition lasts :: "stored_intent \<Rightarrow> int \<Rightarrow> bool" where
  "lasts i e \<longleftrightarrow> i_session_exp i = Some e \<or> e \<le> renewal_deadline i"

definition claim_ok :: "penv \<Rightarrow> history \<Rightarrow> open_body \<Rightarrow> bool" where
  "claim_ok env h b \<longleftrightarrow>
     (\<exists>G. globalCapAtomic env = Inr G \<and> caps_are 1000000000 G b) \<and>
     (\<exists>i. ELedger (RGet (ob_intent_id b)) (Inr (AIntent (Ok i))) \<in> set h \<and>
        located env h i (ob_tx_hash b) (ob_op_index b) \<and> lasts i (ob_session_exp b))"

text \<open>The largest upstream budget of a call: that of the Blend chip.\<close>

definition LARGEST_BUDGET :: int where "LARGEST_BUDGET = 500000"

definition play_guard :: "penv \<Rightarrow> guard_pred" where
  "play_guard env c h =
     (case c of
        CallLedger (RCreate b) \<Rightarrow> offer env b \<and> human env h
      | CallLedger (ROpen b) \<Rightarrow> claim_ok env h b
      | CallLedger (RReserve b) \<Rightarrow> (\<exists>p. advertised (rb_chip b) (rb_model b) p \<and> rb_max_price b = int_str p)
      | CallLedger (RSettle k DoCommit charge reason) \<Rightarrow> (\<exists>m. charge = Some m \<and> paid_since k m h)
      | CallLedger (RSettle k DoRelease charge reason) \<Rightarrow> (\<exists>m. held k m h)
      | CallHttp (HttpMetered u hs b) \<Rightarrow> (\<exists>k m. held k m h)
      | CallSign s \<Rightarrow> (\<exists>k m. held k m h) \<and> may_sign env LARGEST_BUDGET h s
      | CallChan r \<Rightarrow> False
      | _ \<Rightarrow> True)"

lemma play_guard_simps [simp]:
  "play_guard env (CallLedger (RGet k)) h" "play_guard env (CallLedger (RAccount a l)) h"
  "play_guard env (CallLedger RTotals) h" "play_guard env (CallLedger (RDispatch k)) h"
  "play_guard env (CallHttp (HttpGet u)) h" "play_guard env (CallHttp (HttpPost u f)) h"
  "play_guard env (CallLedger (RCreate b)) h \<longleftrightarrow> offer env b \<and> human env h"
  "play_guard env (CallLedger (ROpen ob)) h \<longleftrightarrow> claim_ok env h ob"
  "play_guard env (CallLedger (RReserve rb)) h \<longleftrightarrow> (\<exists>p. advertised (rb_chip rb) (rb_model rb) p \<and> rb_max_price rb = int_str p)"
  "play_guard env (CallLedger (RSettle k DoCommit charge reason)) h \<longleftrightarrow> (\<exists>m. charge = Some m \<and> paid_since k m h)"
  "play_guard env (CallLedger (RSettle k DoRelease charge reason)) h \<longleftrightarrow> (\<exists>m. held k m h)"
  "play_guard env (CallHttp (HttpMetered u hs bd)) h \<longleftrightarrow> (\<exists>k m. held k m h)"
  "play_guard env (CallSign s) h \<longleftrightarrow> (\<exists>k m. held k m h) \<and> may_sign env LARGEST_BUDGET h s"
  "\<not> play_guard env (CallChan q) h"
  by (simp_all add: play_guard_def)

subsection \<open>The stages of a call\<close>

lemma wp_doPost:
  assumes "play_guard env (CallLedger r) h" "\<And>x v. as' v = Some x \<Longrightarrow> Q x (ELedger r (Inr v) # h)"
    "\<And>m a. E (JsExn m) (ELedger r a # h)"
  shows "wp (doPost r as') (play_guard env) Q E h"
  using assms by (auto simp: doPost_def split: sum.split option.split)

lemma as_inv [simp]:
  "as_intent v = Some x \<longleftrightarrow> v = AIntent x" "as_opened v = Some y \<longleftrightarrow> v = AOpened y"
  "as_account v = Some a \<longleftrightarrow> v = AAccount a" "as_reserved v = Some r \<longleftrightarrow> v = AReserved r"
  "as_marked v = Some m \<longleftrightarrow> v = AMarked m" "as_settled v = Some s \<longleftrightarrow> v = ASettled s"
  "as_totals v = Some t \<longleftrightarrow> v = ATotals t"
  by (cases v; simp)+

lemma wp_commit:
  assumes "paid_since k (int_str p) h"
  shows "wp (call_commit k p) (play_guard env) (\<lambda>_ h'. grown h False h') (\<lambda>_ h'. grown h False h') h"
  unfolding call_commit_def by (rule wp_doPost) (simp_all add: assms grown_Cons)

lemma wp_release:
  assumes "held k m h"
  shows "wp (call_release k reason) (play_guard env) (\<lambda>_ h'. grown h False h') (\<lambda>_ h'. grown h False h') h"
  unfolding call_release_def by (rule wp_doPost) (use assms in \<open>auto simp: grown_Cons\<close>)

lemma wp_mark:
  "wp (call_markDispatched k) (play_guard env) (\<lambda>_ h'. grown h False h') (\<lambda>_ h'. grown h False h') h"
  unfolding call_markDispatched_def by (rule wp_doPost) (simp_all add: grown_Cons)

lemma wp_beginCall:
  assumes "advertised chip' model p"
  shows "wp (beginCall acc k chip' model p) (play_guard env)
    (\<lambda>r h'. grown h False h' \<and> (r = Inr () \<longrightarrow> held k (int_str p) h')) (\<lambda>_ h'. grown h False h') h"
proof -
  let ?b = "\<lambda>t. \<lparr>rb_call_id = k, rb_account = acc, rb_chip = chip', rb_model = model, rb_max_price = int_str p,
      rb_now = t, rb_history_limit = CALL_HISTORY_LIMIT\<rparr>"
  have started: "wp (bind (attempt (call_markDispatched k)) (\<lambda>marked.
             case marked of
               Inr (Ok _) \<Rightarrow> Done (Inr ())
             | _ \<Rightarrow>
                 bind (attempt (call_release k ''dispatch_mark_failed'')) (\<lambda>_.
                 Done (Inl (fail 503 ''dispatch_failed'' ''could not start the call; no charge was made''
                   [(''call_id'', JStr k)]))))) (play_guard env)
      (\<lambda>r h'. grown h False h' \<and> (r = Inr () \<longrightarrow> held k (int_str p) h')) (\<lambda>_ h'. grown h False h') h1"
    if h1: "grown h False h1" "held k (int_str p) h1" for h1
  proof -
    have rel: "wp (call_release k ''dispatch_mark_failed'') (play_guard env) (\<lambda>_ h'. grown h False h') (\<lambda>_ h'. grown h False h') h2"
      if "grown h1 False h2" for h2
      by (rule wp_mono [OF wp_release [OF held_grown [OF h1(2) that]]])
        (use grown_trans [OF grown_trans [OF h1(1) that]] in auto)
    show ?thesis
      by (simp, rule wp_mono [OF wp_mark])
        (use rel h1 in \<open>auto split: sum.split result.split dest: grown_trans held_grown\<close>)
  qed
  show ?thesis
    unfolding beginCall_def call_reserve_def date_now_def wp_bind
    using assms
    by (auto intro!: wp_doPost started simp: grown_Cons fresh_hold_def simp del: wp_bind wp_attempt split: result.split option.split)
qed

lemma upstream_evidence: "snd (snd (snd (upstream_parts e))) = exn_evidence e"
  by (cases e) simp_all

lemma wp_charge:
  assumes "paid_since k (int_str p) h" "\<And>x h'. Q x h'" "\<And>e h'. E e h'"
  shows "wp (call_commit k p) (play_guard env) Q E h"
  by (rule wp_mono [OF wp_commit [OF assms(1)]]) (rule assms)+

lemma wp_refund:
  assumes "held k m h" "\<And>x h'. Q x h'" "\<And>e h'. E e h'"
  shows "wp (call_release k reason) (play_guard env) Q E h"
  by (rule wp_mono [OF wp_release [OF assms(1)]]) (rule assms)+

lemma wp_failCall:
  assumes "held k (int_str p) h" "exn_evidence e = EvYes \<Longrightarrow> paid_since k (int_str p) h"
  shows "wp (failCall k e p) (play_guard env) (\<lambda>_ _. True) (\<lambda>_ _. True) h"
proof -
  obtain code status message ev where e: "upstream_parts e = (code, status, message, ev)" by (cases "upstream_parts e")
  with upstream_evidence [of e] have ev: "ev = exn_evidence e" by simp
  show ?thesis
    using assms by (auto simp: failCall_def e ev split_beta Let_def intro: wp_charge wp_refund)
qed

lemma wp_releaseUnpaid:
  "held k m h \<Longrightarrow> wp (releaseUnpaid k) (play_guard env) (\<lambda>_ _. True) (\<lambda>_ _. True) h"
  unfolding releaseUnpaid_def wp_bind wp_attempt by (rule wp_mono [OF wp_release]) simp_all

lemma bigint_div_mono: "b \<le> c \<Longrightarrow> 0 \<le> c \<Longrightarrow> bigint_div b 10 \<le> bigint_div c 10"
  using pos_imp_zdiv_nonneg_iff [of 10 "- b"] pos_imp_zdiv_nonneg_iff [of 10 c]
  by (cases "0 < b"; cases "b = 0") (auto simp: bigint_div_def sgn_if zdiv_mono1)

lemma may_sign_less: "may_sign env b h c \<Longrightarrow> b \<le> LARGEST_BUDGET \<Longrightarrow> may_sign env LARGEST_BUDGET h c"
  using bigint_div_mono [of b LARGEST_BUDGET] by (auto simp: may_sign_def LARGEST_BUDGET_def)

lemma pays_held: "held k m h \<Longrightarrow> b \<le> LARGEST_BUDGET \<Longrightarrow> pays env b (play_guard env) h"
  by (auto simp: pays_def intro: held_append may_sign_less)

lemma asks_held: "held k m h \<Longrightarrow> asks (play_guard env) h"
  by (auto simp: asks_def intro: held_append)

lemma wp_paid_call:
  assumes "held k m h" "budget \<le> LARGEST_BUDGET"
  shows "wp (callUpstreamJson env route query body (Some budget)) (play_guard env)
    (\<lambda>x h'. held k m h' \<and> (fst (snd x) \<longrightarrow> paid_since k m h'))
    (\<lambda>e h'. held k m h' \<and> (exn_evidence e = EvYes \<longrightarrow> paid_since k m h')) h"
proof -
  have keep: "held k m h' \<and> (p \<longrightarrow> paid_since k m h')" if "grown h p h'" for p h'
    using that assms(1) by (cases p) (auto intro: held_grown dest: held_paid)
  have "pays env b (play_guard env) h" if "Some budget = Some b" for b
    using that assms by (auto intro: pays_held)
  then show ?thesis
    by (rule wp_mono [OF wp_callUpstreamJson]) (auto intro: asks_held [OF assms(1)] dest: keep)
qed

lemma wp_text:
  "(\<And>x. Q x h) \<Longrightarrow> (\<And>e. exn_evidence e = EvNo \<Longrightarrow> E e h) \<Longrightarrow> wp (completion_text j) G Q E h"
  by (simp add: completion_text_def non_null_def)

lemma callable_cheap: "assertModelCallable v = Inr m \<Longrightarrow> findModel (m_id m) = Some m \<and> m_tier m = Cheap"
proof -
  assume "assertModelCallable v = Inr m"
  then obtain i where f: "findModel i = Some m" and a: "m_available m"
    by (auto simp: assertModelCallable_def split: option.splits if_splits)
  from f have i: "m_id m = i" and m: "m \<in> set PLAYGROUND_MODELS"
    by (auto simp: findModel_def find_Some_iff)
  from m a have "m_tier m = Cheap"
    by (auto simp: PLAYGROUND_MODELS_def live_model_def dead_model_def)
  with i f show ?thesis by simp
qed

lemma wp_price: "parseUsd s = Inr p \<Longrightarrow> wp (bind (throwing (parseUsd s)) f) G Q E = wp (f p) G Q E"
  by simp

text \<open>Every paid endpoint: hold, call within the budget, then settle by what happened.\<close>

lemma wp_run:
  assumes "advertised chip' model p" "parseUsd bs = Inr budget" "budget \<le> LARGEST_BUDGET"
    and "\<And>x h'. held k (int_str p) h' \<Longrightarrow> (fst (snd x) \<Longrightarrow> paid_since k (int_str p) h') \<Longrightarrow>
      wp (f x) (play_guard env) (\<lambda>_ _. True) (\<lambda>_ _. True) h'"
  shows "wp (bind (beginCall acc k chip' model p) (\<lambda>started.
       case started of
         Inl resp \<Rightarrow> Done resp
       | Inr _ \<Rightarrow>
           bind (attempt (bind (throwing (parseUsd bs)) (\<lambda>budget. callUpstreamJson env route query body (Some budget)))) (\<lambda>r.
             case r of
               Inl e \<Rightarrow> failCall k e p
             | Inr x \<Rightarrow> f x))) (play_guard env) (\<lambda>_ _. True) (\<lambda>_ _. True) h"
proof -
  have call: "wp (callUpstreamJson env route query body (Some budget)) (play_guard env)
      (\<lambda>x. wp (f x) (play_guard env) (\<lambda>_ _. True) (\<lambda>_ _. True))
      (\<lambda>e. wp (failCall k e p) (play_guard env) (\<lambda>_ _. True) (\<lambda>_ _. True)) h'"
    if "held k (int_str p) h'" for h'
    by (rule wp_mono [OF wp_paid_call [OF that assms(3)]]) (auto intro: assms(4) wp_failCall)
  show ?thesis
    unfolding wp_bind
    by (rule wp_mono [OF wp_beginCall [OF assms(1)]]) (auto simp: assms(2) split: sum.split intro: call)
qed

lemma wp_run_chat:
  assumes "findModel (m_id model) = Some model" "m_tier model = Cheap"
  shows "wp (run_chat env acc k model messages route) (play_guard env) (\<lambda>_ _. True) (\<lambda>_ _. True) h"
proof -
  have usd: "parseUsd (TIER_PRICE_USD (m_tier model)) = Inr 200000" "parseUsd (TIER_UPSTREAM_BUDGET_USD (m_tier model)) = Inr 200000"
    by (simp_all add: assms(2) usd_values)
  show ?thesis
    unfolding run_chat_def wp_price [OF usd(1)]
  proof (rule wp_run [OF _ usd(2)])
    show "advertised ''chat'' (Some (m_id model)) 200000" using assms by (simp add: advertised_def usd_values)
  qed (auto simp: LARGEST_BUDGET_def split: option.split result.split intro!: wp_text wp_failCall wp_charge wp_releaseUnpaid [where m = "int_str 200000"])
qed

subsection \<open>The endpoints\<close>

lemma wp_narration:
  assumes "held k m h" "paid_since k m h"
  shows "wp (narration env agg summary) (play_guard env) (\<lambda>_ h'. paid_since k m h') (\<lambda>_ _. False) h"
proof (cases "findModel BLEND_SUMMARY_MODEL_ID")
  case None
  with assms show ?thesis by (simp add: narration_def)
next
  case (Some mo)
  have keep: "wp p (play_guard env) (\<lambda>_ h'. paid_since k m h') (\<lambda>_ h'. paid_since k m h') h"
    if "wp p (play_guard env) (\<lambda>_ _. True) (\<lambda>_ _. True) h" for p :: "'a prog"
    by (rule wp_mono [OF wp_grows [OF that, of "paid_since k m"]]) (use assms in auto)
  have tier: "parseUsd (TIER_UPSTREAM_BUDGET_USD (m_tier mo)) = Inr 200000"
    using Some by (auto simp: usd_values findModel_def find_Some_iff PLAYGROUND_MODELS_def BLEND_SUMMARY_MODEL_ID_def
        live_model_def dead_model_def)
  have call: "wp (callUpstreamJson env route [] body (Some 200000)) (play_guard env)
      (\<lambda>x. wp (f x) (play_guard env) (\<lambda>_ _. True) (\<lambda>_ _. True)) (\<lambda>_ _. True) h"
    if "\<And>x h. wp (f x) (play_guard env) (\<lambda>_ _. True) (\<lambda>_ _. True) h" for route body and f :: "_ \<Rightarrow> 'b prog"
    by (rule wp_mono [OF wp_paid_call [OF assms(1)]]) (auto simp: LARGEST_BUDGET_def that)
  define request where "request = Some (JObj [(''model'', JStr (m_id mo)),
      (''messages'', JArr [message_json (''user'', buildSummaryPrompt agg)]),
      (''max_tokens'', JNum ''200''), (''stream'', JBool False)])"
  have "wp (bind (from_sum (resolvePlaygroundRoute env (m_path mo) (m_method mo))) (\<lambda>route.
      bind (throwing (parseUsd (TIER_UPSTREAM_BUDGET_USD (m_tier mo)))) (\<lambda>budget.
      bind (callUpstreamJson env route [] request (Some budget)) (\<lambda>(completion, _). completion_text completion))))
      (play_guard env) (\<lambda>_ _. True) (\<lambda>_ _. True) h"
    by (auto simp: tier split: sum.split intro!: call wp_text)
  from keep [OF this] show ?thesis
    using Some assms(2) by (simp add: narration_def request_def)
qed

lemma wp_run_tx: "wp (run_tx env acc k tx route) (play_guard env) (\<lambda>_ _. True) (\<lambda>_ _. True) h"
proof -
  have usd: "parseUsd (cp_price TX_CHIP) = Inr 50000" "parseUsd (cp_budget TX_CHIP) = Inr 100000"
    by (simp_all add: TX_CHIP_def usd_values)
  show ?thesis
    unfolding run_tx_def wp_price [OF usd(1)]
  proof (rule wp_run [OF _ usd(2)])
    have "cp_id TX_CHIP = ''tx-decode''" by (simp add: TX_CHIP_def)
    then show "advertised (cp_id TX_CHIP) None 50000" using usd by (simp add: advertised_def)
  qed (auto simp: LARGEST_BUDGET_def split: result.split intro!: wp_charge wp_releaseUnpaid [where m = "int_str 50000"])
qed

lemma wp_run_blend: "wp (run_blend env sc dash acc k route) (play_guard env) (\<lambda>_ _. True) (\<lambda>_ _. True) h"
proof -
  have usd: "parseUsd (cp_price BLEND_CHIP) = Inr 300000" "parseUsd (cp_budget BLEND_CHIP) = Inr 500000"
    by (simp_all add: BLEND_CHIP_def usd_values)
  show ?thesis
    unfolding run_blend_def wp_price [OF usd(1)]
  proof (rule wp_run [OF _ usd(2)])
    have "cp_id BLEND_CHIP = ''blend-activity''" by (simp add: BLEND_CHIP_def)
    then show "advertised (cp_id BLEND_CHIP) None 300000" using usd by (simp add: advertised_def)
  qed (auto simp: LARGEST_BUDGET_def Let_def split: result.split
        intro!: wp_mono [OF wp_narration] wp_charge wp_releaseUnpaid [where m = "int_str 300000"])
qed

lemma wp_authenticate:
  "(\<And>x. Q x h) \<Longrightarrow> wp (authenticate env rq) G Q E h"
  by (simp add: authenticate_def date_now_def split: option.split)

lemma wp_callId: "(\<And>x. Q x h) \<Longrightarrow> wp (callId body) G Q E h"
  by (simp add: callId_def uuid_def split: option.split json.split)

lemma wp_chat: "wp (handlePlaygroundChat env rq) (play_guard env) (\<lambda>_ _. True) (\<lambda>_ _. True) []"
  by (auto simp: handlePlaygroundChat_def Let_def split: option.split sum.split exn.split
      intro!: wp_authenticate wp_callId wp_run_chat [OF callable_cheap [THEN conjunct1] callable_cheap [THEN conjunct2]])

lemma wp_blend: "wp (handlePlaygroundBlendActivity env sc dash rq) (play_guard env) (\<lambda>_ _. True) (\<lambda>_ _. True) []"
  by (auto simp: handlePlaygroundBlendActivity_def split: option.split sum.split intro!: wp_authenticate wp_callId wp_run_blend)

lemma wp_tx: "wp (handlePlaygroundTxDecode env rq) (play_guard env) (\<lambda>_ _. True) (\<lambda>_ _. True) []"
  by (auto simp: handlePlaygroundTxDecode_def Let_def split: option.split sum.split intro!: wp_authenticate wp_callId wp_run_tx)

lemma wp_session: "wp (handlePlaygroundSession env rq) (play_guard env) (\<lambda>_ _. True) (\<lambda>_ _. True) []"
  by (auto simp: handlePlaygroundSession_def call_readAccount_def split: sum.split intro!: wp_authenticate wp_doPost)

lemma wp_admin: "wp (handlePlaygroundAdminTotals env counters rq) (play_guard env) (\<lambda>_ _. True) (\<lambda>_ _. True) []"
  by (auto simp: handlePlaygroundAdminTotals_def call_readTotals_def Let_def split: option.split prod.split intro!: wp_doPost)

lemma wp_turnstile:
  "wp (verifyPlaygroundTurnstile env token ip) (play_guard env) (\<lambda>r h'. turnstile_ok r \<longrightarrow> human env h') (\<lambda>_ _. True) h"
proof -
  have ok: "human env (EHttp (HttpPost SITEVERIFY_URL form) (Inr a) # h)"
    if "ha_ok a" "ha_json a = Some j" "siteverify_ok j" for form a j
    using that unfolding human_def by force
  show ?thesis
    by (auto simp: verifyPlaygroundTurnstile_def http_def body_of_def siteverify_result_def non_null_def Let_def human_def [of env h]
        siteverify_ok_def intro!: ok split: sum.split option.split)
qed

lemma deposit_amount:
  assumes "isDepositOption s" "parseUsd s = Inr n"
  shows "\<exists>opt \<in> set DEPOSIT_OPTIONS_USD. parseUsd opt = Inr n"
  using assms by (auto simp: isDepositOption_def list_ex_iff split: sum.splits)

lemma wp_intent: "wp (handlePlaygroundIntent env rq) (play_guard env) (\<lambda>_ _. True) (\<lambda>_ _. True) []"
proof -
  have create: "wp (call_createIntent env intentId acc amount memo dest t (t + INTENT_TTL_SECONDS * 1000)) (play_guard env) Q
      (\<lambda>_ _. True) h"
    if "human env h" "isDepositOption s" "parseUsd s = Inr amount" "pe_router_public env = Some dest"
      "isValidStellarAccount env dest" "isValidStellarAccount env acc" "\<And>x h. Q x h"
    for intentId acc amount memo dest t Q h s
    using that deposit_amount [OF that(2,3)]
    by (auto simp: call_createIntent_def offer_def split: sum.split intro!: wp_doPost)
  show ?thesis
    unfolding handlePlaygroundIntent_def Let_def
    by (auto intro!: wp_mono [OF wp_turnstile] create split: option.split result.split sum.split simp: date_now_def uuid_def)
qed

subsection \<open>Claiming a deposit\<close>

lemma globalCap: "\<exists>G. globalCapAtomic env = Inr G"
  by (auto simp: globalCapAtomic_def DEFAULT_GLOBAL_CAP_USD_def usd_values Let_def split: option.split sum.split)

lemma dayCap: "parseUsd DEPOSIT_CAP_PER_ACCOUNT_PER_DAY_USD = Inr 1000000000"
  by (simp add: DEPOSIT_CAP_PER_ACCOUNT_PER_DAY_USD_def usd_values)

lemma wp_session_of:
  "wp (session_of i nowSec) G
     (\<lambda>r h'. h' = h \<and> (\<forall>jti e. r = Inr (jti, e) \<longrightarrow> lasts i e)) (\<lambda>_ _. False) h"
  by (auto simp: lasts_def session_of_def uuid_def split: option.split)

lemma wp_locate:
  "wp (locate_deposit env i tx) (play_guard env)
     (\<lambda>r h'. grown h False h' \<and> (\<forall>op t. r = Inr (op, t) \<longrightarrow> located env h' i tx op))
     (\<lambda>_ _. True) h"
proof -
  have "wp (verifyDeposit env (horizonUrl env) tx (i_memo i) (i_destination i) (i_account i) (i_amount i)) (play_guard env)
    (\<lambda>v h'. grown h False h' \<and> (\<forall>n t. v = Verified n t \<longrightarrow>
       paid_on_chain env h' (i_memo i) (i_destination i) (i_account i) (i_amount i) tx (int n))) (\<lambda>e h'. True) h"
    by (rule wp_verifyDeposit) simp
  then show ?thesis
    by (auto simp: locate_deposit_def located_def backed_def elim!: wp_mono split: deposit_verification.split)
qed

lemma wp_open: "wp (handlePlaygroundOpen env rq) (play_guard env) (\<lambda>_ _. True) (\<lambda>_ _. True) []"
proof -
  obtain cap where cap: "globalCapAtomic env = Inr cap" using globalCap by blast
  have claim: "wp (call_openIntent env k tx op t confirmedAt jti exp) (play_guard env) Q (\<lambda>_ _. True) h"
    if "ELedger (RGet k) (Inr (AIntent (Ok i))) \<in> set h"
      "located env h i tx op" "lasts i exp" "\<And>x h. Q x h" for k tx op t confirmedAt jti exp Q h i
    using that cap
    by (force simp: call_openIntent_def claim_ok_def dayCap caps_are_def parseAtomic_int_str intro!: wp_doPost)
  have known: "ELedger (RGet k) (Inr (AIntent (Ok i))) \<in> set h'"
    if "grown [ELedger (RGet k) (Inr (AIntent (Ok i)))] False h'" for k i h'
    using that by (auto simp: grown_def)
  show ?thesis
    unfolding handlePlaygroundOpen_def Let_def
    by (auto simp: call_getIntent_def date_now_def open_response_def Let_def
        intro!: wp_doPost wp_mono [OF wp_locate] wp_mono [OF wp_session_of] claim known split: result.split sum.split)
qed

text \<open>The handlers of the playground, for any environment's requests.\<close>

inductive playground :: "penv \<Rightarrow> scval \<Rightarrow> string \<Rightarrow> response prog \<Rightarrow> bool" for env sc dash where
  "playground env sc dash (handlePlaygroundIntent env rq)"
| "playground env sc dash (handlePlaygroundOpen env rq)"
| "playground env sc dash (handlePlaygroundSession env rq)"
| "playground env sc dash (handlePlaygroundAdminTotals env counters rq)"
| "playground env sc dash (handlePlaygroundChat env rq)"
| "playground env sc dash (handlePlaygroundBlendActivity env sc dash rq)"
| "playground env sc dash (handlePlaygroundTxDecode env rq)"

lemma playground_guarded: "playground env sc dash p \<Longrightarrow> wp p (play_guard env) (\<lambda>_ _. True) (\<lambda>_ _. True) []"
  by (induction rule: playground.induct) (rule wp_intent wp_open wp_session wp_admin wp_chat wp_blend wp_tx)+

end
