(* ===== verification/PlayProps.thy ===== *)
theory PlayProps
  imports PlayInv
begin

text \<open>
  The playground as a whole: any number of requests in flight, each handler at any of its awaits, answers lost and
  handlers crashed at will, and the reaper.  Two interpretations of \<open>guarded_system\<close> over the same guard give the
  invariants of the calls and of the deposits.
\<close>

subsection \<open>Calls\<close>

definition calls_inv :: "ledger \<Rightarrow> (nat \<Rightarrow> history) \<Rightarrow> bool" where
  "calls_inv l hs \<longleftrightarrow>
     (\<forall>n k m. held k m (hs n) \<longrightarrow> (\<exists>c. tget (calls l) k = Some c \<and> parseAtomic (Some m) = Inr (c_max_price c))) \<and>
     (\<forall>n n' k m m'. held k m (hs n) \<longrightarrow> held k m' (hs n') \<longrightarrow> n = n') \<and>
     (\<forall>k c. tget (calls l) k = Some c \<longrightarrow> advertised (c_chip c) (c_model c) (c_max_price c) \<and>
        (c_status c = Committed \<longrightarrow> c_charged c = c_max_price c \<and> (\<exists>n m. paid_since k m (hs n))))"

text \<open>What a step may do to a call, given the history of the handler that makes it.\<close>

definition call_step :: "history \<Rightarrow> string \<Rightarrow> stored_call \<Rightarrow> stored_call \<Rightarrow> bool" where
  "call_step h k c c' \<longleftrightarrow> c_chip c' = c_chip c \<and> c_model c' = c_model c \<and> c_max_price c' = c_max_price c \<and>
     (c_status c' = Committed \<longrightarrow>
        c_status c = Committed \<and> c_charged c' = c_charged c \<or>
        c_charged c' = c_max_price c \<and> (\<exists>m. paid_since k m h))"

lemma call_step_refl [simp]: "call_step h k c c"
  by (simp add: call_step_def)

lemma held_update: "\<not> fresh_hold k m e \<Longrightarrow> held k m ((hs(n := e # hs n)) n') \<longleftrightarrow> held k m (hs n')"
  by simp

lemma paid_update: "paid_since k m (hs n') \<Longrightarrow> paid_since k m ((hs(n := e # hs n)) n')"
  by (cases "n' = n") simp_all

lemma calls_inv_step:
  assumes inv: "calls_inv l hs" and quiet: "\<And>n k m. held k m (hs' n) \<longleftrightarrow> held k m (hs n)"
    and paid: "\<And>n k m. paid_since k m (hs n) \<Longrightarrow> paid_since k m (hs' n)"
    and fwd: "\<And>k c. tget (calls l) k = Some c \<Longrightarrow> \<exists>c'. tget (calls l') k = Some c' \<and> c_max_price c' = c_max_price c"
    and bwd: "\<And>k c'. tget (calls l') k = Some c' \<Longrightarrow> \<exists>c. tget (calls l) k = Some c \<and> call_step (hs n) k c c'"
  shows "calls_inv l' hs'"
  unfolding calls_inv_def quiet
proof (intro conjI allI impI)
  show "\<exists>c. tget (calls l') k = Some c \<and> parseAtomic (Some m) = Inr (c_max_price c)" if "held k m (hs n)" for n k m
    using inv that fwd unfolding calls_inv_def by metis
  show "n = n'" if "held k m (hs n)" "held k m' (hs n')" for n n' k m m'
    using inv that unfolding calls_inv_def by blast
next
  fix k c' assume "tget (calls l') k = Some c'"
  from bwd [OF this] obtain c where c: "tget (calls l) k = Some c" "call_step (hs n) k c c'" by blast
  with inv have old: "advertised (c_chip c) (c_model c) (c_max_price c)"
    "c_status c = Committed \<longrightarrow> c_charged c = c_max_price c \<and> (\<exists>n m. paid_since k m (hs n))"
    unfolding calls_inv_def by blast+
  from old(1) c(2) show "advertised (c_chip c') (c_model c') (c_max_price c')" by (simp add: call_step_def)
  assume "c_status c' = Committed"
  with c(2) old(2) paid show "c_charged c' = c_max_price c'" and "\<exists>n m. paid_since k m (hs' n)"
    unfolding call_step_def by metis+
qed

lemma calls_inv_frame:
  assumes "calls_inv l hs" "\<And>k m. \<not> fresh_hold k m e" "calls l' = calls l"
  shows "calls_inv l' (hs(n := e # hs n))"
  by (rule calls_inv_step [OF assms(1)]) (auto simp: assms(2,3))

lemma fresh_hold_simps [simp]:
  "\<not> fresh_hold k m (EHttp q w)" "\<not> fresh_hold k m (ESign c v)" "\<not> fresh_hold k m (EKvGet key g)"
  "\<not> fresh_hold k m (ELedger r (Inl x))"
  "fresh_hold k m (ELedger r (Inr y)) \<longleftrightarrow> (\<exists>b out. r = RReserve b \<and> y = AReserved (Ok out) \<and>
     rb_call_id b = k \<and> rb_max_price b = m \<and> ro_ok out \<and> \<not> ro_duplicate out)"
  by (auto simp: fresh_hold_def split: lreq.splits lans.splits result.splits)

lemma settle_calls:
  assumes "tget (calls (snd (settle k action charge reason l))) k' = Some c'"
    and "action = DoCommit \<Longrightarrow> \<exists>m c. charge = Some m \<and> paid_since k m h \<and>
      (\<forall>c. tget (calls l) k = Some c \<longrightarrow> parseAtomic (Some m) = Inr (c_max_price c))"
  shows "\<exists>c. tget (calls l) k' = Some c \<and> call_step h k' c c'"
  using assms
  by (cases action)
     (auto simp: settle_def Let_def parse_then_def end_hold_def call_step_def split: option.splits if_splits)

lemma settle_fwd: "tget (calls l) k' = Some c \<Longrightarrow>
    \<exists>c'. tget (calls (snd (settle k action charge reason l))) k' = Some c' \<and> c_max_price c' = c_max_price c"
  by (cases action) (auto simp: settle_def Let_def parse_then_def end_hold_def split: option.splits sum.splits)

lemma calls_reserve:
  assumes inv: "calls_inv l hs" and guard: "play_guard env (CallLedger (RReserve b)) (hs n)"
    and serve: "serve (RReserve b) l = (a, l')" and e: "e = a \<or> e = Inl x"
  shows "calls_inv l' (hs(n := ELedger (RReserve b) e # hs n))"
proof (cases "\<exists>p. parseAtomic (Some (rb_max_price b)) = Inr p \<and> 0 \<le> p \<and> tget (calls l) (rb_call_id b) = None \<and>
    p \<le> num_at (bal l) (rb_account b)")
  case False
  have res: "snd (reserve b l) = l"
    and dup: "\<And>out. fst (reserve b l) = Inr (Ok out) \<Longrightarrow> \<not> (ro_ok out \<and> \<not> ro_duplicate out)"
    using False by (auto simp: reserve_def parse_then_def Let_def not_le split: sum.splits option.splits if_splits)
  from res have l': "l' = l" and a: "a = answer AReserved (fst (reserve b l))" using serve by (auto split: prod.splits)
  show ?thesis
  proof (rule calls_inv_frame [OF inv])
    show "\<not> fresh_hold k m (ELedger (RReserve b) e)" for k m
      using e a dup by (auto simp: answer_def split: sum.splits)
  qed (simp add: l')
next
  case True
  then obtain p where p: "parseAtomic (Some (rb_max_price b)) = Inr p" "0 \<le> p" "tget (calls l) (rb_call_id b) = None"
    "p \<le> num_at (bal l) (rb_account b)" by blast
  from p guard have adv: "advertised (rb_chip b) (rb_model b) p" by (auto simp: parseAtomic_int_str)
  from p serve have l': "l' = take_hold b p l" by (auto simp: reserve_def parse_then_def Let_def)
  let ?hs = "hs(n := ELedger (RReserve b) e # hs n)"
  have unheld: "\<not> held (rb_call_id b) m (hs n')" for m n' using inv p(3) unfolding calls_inv_def by fastforce
  have new: "held k m (?hs n') \<Longrightarrow> held k m (hs n') \<or> n' = n \<and> k = rb_call_id b \<and> m = rb_max_price b" for k m n'
  proof -
    have "fresh_hold k m (ELedger (RReserve b) e) \<Longrightarrow> k = rb_call_id b \<and> m = rb_max_price b"
      by (cases e) auto
    then show "held k m (?hs n') \<Longrightarrow> held k m (hs n') \<or> n' = n \<and> k = rb_call_id b \<and> m = rb_max_price b"
      by (cases "n' = n") auto
  qed
  have calls: "tget (calls l') k = (if k = rb_call_id b then Some (new_call b p) else tget (calls l) k)" for k
    by (simp add: l' take_hold_def Let_def)
  show ?thesis
    unfolding calls_inv_def
  proof (intro conjI allI impI)
    show "\<exists>c. tget (calls l') k = Some c \<and> parseAtomic (Some m) = Inr (c_max_price c)" if "held k m (?hs n')" for n' k m
    proof (cases "k = rb_call_id b")
      case True
      with new [OF that] unheld have "m = rb_max_price b" by blast
      with True p(1) show ?thesis by (simp add: calls new_call_def)
    next
      case False
      with new [OF that] inv show ?thesis unfolding calls calls_inv_def by fastforce
    qed
    show "n' = n2" if "held k m (?hs n')" "held k m' (?hs n2)" for n' n2 k m m'
    proof -
      from new [OF that(1)] new [OF that(2)] unheld
      have "n' = n \<and> n2 = n \<or> held k m (hs n') \<and> held k m' (hs n2)" by blast
      with inv show ?thesis unfolding calls_inv_def by blast
    qed
  next
    fix k c assume c: "tget (calls l') k = Some c"
    then have "c = new_call b p \<or> tget (calls l) k = Some c" by (auto simp: calls split: if_splits)
    then show "advertised (c_chip c) (c_model c) (c_max_price c)"
      using adv inv unfolding calls_inv_def by (auto simp: new_call_def)
    assume "c_status c = Committed"
    with c have "tget (calls l) k = Some c" by (auto simp: calls new_call_def split: if_splits)
    with \<open>c_status c = Committed\<close> inv obtain n' m where "c_charged c = c_max_price c" "paid_since k m (hs n')"
      unfolding calls_inv_def by blast
    then show "c_charged c = c_max_price c" and "\<exists>n m. paid_since k m (?hs n)"
      using paid_update [of k m hs n' n] by blast+
  qed
qed

lemma calls_serving:
  assumes inv: "calls_inv l hs" and money: "money_ok l" and guard: "play_guard env (CallLedger r) (hs n)"
    and serve: "serve r l = (a, l')" and e: "e = a \<or> e = Inl x"
  shows "calls_inv l' (hs(n := ELedger r e # hs n))"
proof -
  have frame: ?thesis if "calls l' = calls l" "\<And>b. r \<noteq> RReserve b"
  proof (rule calls_inv_frame [OF inv])
    show "\<not> fresh_hold k m (ELedger r e)" for k m by (cases e) (auto simp: that(2))
  qed (rule that(1))
  show ?thesis
  proof (cases r)
    case (RReserve b)
    then show ?thesis using calls_reserve [OF inv] guard serve e by blast
  next
    case (RCreate b)
    have "calls (snd (createIntent b l)) = calls l"
      by (rule createIntent_effect) (simp_all add: put_intent_def)
    with RCreate serve show ?thesis by (intro frame) (auto split: prod.splits)
  next
    case (ROpen b)
    have "calls (snd (openIntent b l)) = calls l"
      by (rule openIntent_effect) (simp_all add: open_over_cap_def open_credit_def Let_def)
    with ROpen serve show ?thesis by (intro frame) (auto split: prod.splits)
  next
    case (RDispatch k)
    then have l': "l' = snd (markDispatched k l)" using serve by (auto split: prod.splits)
    show ?thesis
    proof (rule calls_inv_step [OF inv])
      show "\<exists>c'. tget (calls l') k' = Some c' \<and> c_max_price c' = c_max_price c" if "tget (calls l) k' = Some c" for k' c
        using that by (auto simp: l' markDispatched_def split: option.split)
      show "\<exists>c. tget (calls l) k' = Some c \<and> call_step (hs n) k' c c'" if "tget (calls l') k' = Some c'" for k' c'
        using that by (auto simp: l' markDispatched_def call_step_def split: option.splits if_splits)
      show "held k' m ((hs(n := ELedger r e # hs n)) n') \<longleftrightarrow> held k' m (hs n')" for n' k' m
        by (cases e) (simp_all add: RDispatch)
    qed (rule paid_update)
  next
    case (RSettle k action charge reason)
    then have l': "l' = snd (settle k action charge reason l)" using serve by (auto split: prod.splits)
    show ?thesis
    proof (rule calls_inv_step [OF inv])
      show "\<exists>c'. tget (calls l') k' = Some c' \<and> c_max_price c' = c_max_price c" if "tget (calls l) k' = Some c" for k' c
        unfolding l' by (rule settle_fwd [OF that])
      have "\<exists>m. charge = Some m \<and> paid_since k m (hs n) \<and>
          (\<forall>c. tget (calls l) k = Some c \<longrightarrow> parseAtomic (Some m) = Inr (c_max_price c))" if "action = DoCommit"
      proof -
        from guard that RSettle obtain m where m: "charge = Some m" "paid_since k m (hs n)" by auto
        with inv paid_held [OF m(2)] show ?thesis unfolding calls_inv_def by fastforce
      qed
      moreover have "0 \<le> c_max_price c" if "tget (calls l) k = Some c" for c
        using money that by (auto simp: money_ok_def call_ok_def)
      ultimately show "\<exists>c. tget (calls l) k' = Some c \<and> call_step (hs n) k' c c'" if "tget (calls l') k' = Some c'" for k' c'
        using that unfolding l' by (intro settle_calls) auto
      show "held k' m ((hs(n := ELedger r e # hs n)) n') \<longleftrightarrow> held k' m (hs n')" for n' k' m
        by (cases e) (simp_all add: RSettle)
    qed (rule paid_update)
  qed (rule frame; use serve in simp)+
qed

lemma calls_reaping:
  assumes "calls_inv l hs" "money_ok l"
  shows "calls_inv (alarm t l) hs"
proof (rule calls_inv_step [OF assms(1)])
  have calls: "tget (calls (alarm t l)) k = map_option (\<lambda>c. if stale t c then reaped_call c else c) (tget (calls l) k)" for k
    using assms(2) by (intro alarm_calls) (simp add: money_ok_def)
  show "\<exists>c'. tget (calls (alarm t l)) k = Some c' \<and> c_max_price c' = c_max_price c" if "tget (calls l) k = Some c" for k c
    using that by (simp add: calls reaped_call_def)
  show "\<exists>c. tget (calls l) k = Some c \<and> call_step (hs 0) k c c'" if "tget (calls (alarm t l)) k = Some c'" for k c'
    using that by (auto simp: calls reaped_call_def call_step_def split: if_splits)
qed (rule refl)

interpretation calls: guarded_system "playground env sc dash" "play_guard env" calls_inv for env sc dash
proof unfold_locales
  show "playground env sc dash p \<Longrightarrow> wp p (play_guard env) (\<lambda>_ _. True) (\<lambda>_ _. True) []" for p
    by (rule playground_guarded)
  show "calls_inv empty_ledger (\<lambda>_. [])" by (simp add: calls_inv_def empty_ledger_def)
qed (auto intro: calls_serving calls_reaping calls_inv_frame)

subsection \<open>Deposits\<close>

definition cap_of :: "penv \<Rightarrow> int" where
  "cap_of env = projr (globalCapAtomic env)"

definition bounded_session :: "stored_intent \<Rightarrow> bool" where
  "bounded_session i \<longleftrightarrow> (\<forall>e. i_session_exp i = Some e \<longrightarrow> e \<le> renewal_deadline i)"

text \<open>What the terms of an intent are, whatever happens to it later.\<close>

definition offered :: "penv \<Rightarrow> stored_intent \<Rightarrow> bool" where
  "offered env i \<longleftrightarrow>
     (\<exists>opt \<in> set DEPOSIT_OPTIONS_USD. parseUsd opt = Inr (i_amount i)) \<and>
     Some (i_destination i) = pe_router_public env \<and> isValidStellarAccount env (i_account i) \<and>
     i_expires_at i = i_created_at i + INTENT_TTL_SECONDS * 1000"

definition backed_by :: "penv \<Rightarrow> (nat \<Rightarrow> history) \<Rightarrow> stored_intent \<Rightarrow> bool" where
  "backed_by env hs i \<longleftrightarrow>
     (\<exists>n tx op. i_tx_hash i = Some tx \<and> i_op_index i = Some op \<and> backed env (hs n) i tx op)"

definition intent_ok :: "penv \<Rightarrow> (nat \<Rightarrow> history) \<Rightarrow> stored_intent \<Rightarrow> bool" where
  "intent_ok env hs i \<longleftrightarrow> bounded_session i \<and> offered env i \<and> (\<exists>n. human env (hs n)) \<and>
     (i_status i = IConsumed \<longrightarrow> backed_by env hs i)"

definition deposits_inv :: "penv \<Rightarrow> ledger \<Rightarrow> (nat \<Rightarrow> history) \<Rightarrow> bool" where
  "deposits_inv env l hs \<longleftrightarrow>
     caps_ok 1000000000 (cap_of env) l \<and>
     (\<forall>k i. tget (intents l) k = Some i \<longrightarrow> intent_ok env hs i) \<and>
     (\<forall>n k i. ELedger (RGet k) (Inr (AIntent (Ok i))) \<in> set (hs n) \<longrightarrow>
        bounded_session i \<and> (\<exists>i'. tget (intents l) k = Some i' \<and> intent_kept i i'))"

lemma human_mono: "human env h \<Longrightarrow> set h \<subseteq> set h' \<Longrightarrow> human env h'"
  unfolding human_def by blast

lemma backed_mono: "backed env h i tx op \<Longrightarrow> set h \<subseteq> set h' \<Longrightarrow> backed env h' i tx op"
  unfolding backed_def by (rule paid_on_chain_mono)

lemma grow_all: "set (hs n') \<subseteq> set ((hs(n := e # hs n)) n')"
  by auto

lemma intent_ok_grow: "intent_ok env hs i \<Longrightarrow> intent_ok env (hs(n := e # hs n)) i"
proof -
  have human: "\<exists>n'. human env (hs n') \<Longrightarrow> \<exists>n'. human env ((hs(n := e # hs n)) n')"
    by (elim exE) (rule exI, erule human_mono [OF _ grow_all])
  have backed: "backed_by env hs i \<Longrightarrow> backed_by env (hs(n := e # hs n)) i"
    unfolding backed_by_def by (elim exE conjE) (intro exI conjI, assumption, assumption, erule backed_mono [OF _ grow_all])
  assume "intent_ok env hs i"
  with human backed show "intent_ok env (hs(n := e # hs n)) i" unfolding intent_ok_def by blast
qed

lemma deposits_event:
  assumes "deposits_inv env l hs" "\<And>k i. e \<noteq> ELedger (RGet k) (Inr (AIntent (Ok i)))"
  shows "deposits_inv env l (hs(n := e # hs n))"
proof -
  have "ELedger (RGet k) (Inr (AIntent (Ok i))) \<in> set ((hs(n := e # hs n)) n') \<Longrightarrow>
      ELedger (RGet k) (Inr (AIntent (Ok i))) \<in> set (hs n')" for k i n'
    using assms(2) [of k i] by (auto split: if_splits)
  with assms(1) intent_ok_grow show ?thesis unfolding deposits_inv_def by blast
qed

lemma deposits_step:
  assumes inv: "deposits_inv env l hs" and kept: "kept l l'" and caps: "caps_ok 1000000000 (cap_of env) l'"
    and new: "\<And>k i. tget (intents l') k = Some i \<Longrightarrow> intent_ok env hs i"
  shows "deposits_inv env l' hs"
proof -
  have trans: "intent_kept i i' \<Longrightarrow> intent_kept i' i'' \<Longrightarrow> intent_kept i i''" for i i' i''
    by (auto simp: intent_kept_def)
  have "\<exists>i''. tget (intents l') k = Some i'' \<and> intent_kept i i''"
    if "tget (intents l) k = Some i'" "intent_kept i i'" for k i i'
    using kept that trans unfolding kept_def table_kept_def by blast
  with assms(1,3,4) show ?thesis unfolding deposits_inv_def by blast
qed

lemma intents_create:
  assumes "tget (intents (snd (createIntent b l))) k = Some i"
  shows "tget (intents l) k = Some i \<or> (\<exists>n. parseAtomic (Some (cb_amount b)) = Inr n \<and> i = new_intent b n)"
  using assms
  by (auto simp: createIntent_def parse_then_def put_intent_def Let_def split: sum.splits if_splits)

text \<open>What claiming may make of the record of an intent.\<close>

definition claimed_as :: "open_body \<Rightarrow> stored_intent \<Rightarrow> stored_intent \<Rightarrow> bool" where
  "claimed_as b i0 i \<longleftrightarrow>
     (if i_status i0 = IConsumed
      then i = i0\<lparr>i_session_jti := Some (ob_session_jti b), i_session_exp := Some (ob_session_exp b)\<rparr>
      else i \<in> {i0\<lparr>i_status := IExpired\<rparr>,
        i0\<lparr>i_status := IOverCap, i_tx_hash := Some (ob_tx_hash b), i_op_index := Some (ob_op_index b)\<rparr>,
        consumed_intent b i0})"

lemma intents_open:
  assumes "tget (intents (snd (openIntent b l))) k = Some i"
  shows "tget (intents l) k = Some i \<or>
    k = ob_intent_id b \<and> (\<exists>i0. tget (intents l) k = Some i0 \<and> claimed_as b i0 i)"
proof -
  have "tget (intents (snd (openIntent b l))) k = Some i \<longrightarrow> tget (intents l) k = Some i \<or>
      k = ob_intent_id b \<and> (\<exists>i0. tget (intents l) k = Some i0 \<and> claimed_as b i0 i)"
    by (rule openIntent_effect [where P = "\<lambda>s. tget (intents s) k = Some i \<longrightarrow> tget (intents l) k = Some i \<or>
        k = ob_intent_id b \<and> (\<exists>i0. tget (intents l) k = Some i0 \<and> claimed_as b i0 i)"])
      (auto simp: claimed_as_def open_over_cap_def open_credit_def Let_def)
  with assms show ?thesis by blast
qed

lemma deposits_create:
  assumes inv: "deposits_inv env l hs" and guard: "play_guard env (CallLedger (RCreate b)) (hs n)"
    and i: "tget (intents (snd (createIntent b l))) k = Some i"
  shows "intent_ok env hs i"
  using intents_create [OF i]
proof
  assume "tget (intents l) k = Some i"
  with inv show ?thesis by (simp add: deposits_inv_def)
next
  assume "\<exists>n. parseAtomic (Some (cb_amount b)) = Inr n \<and> i = new_intent b n"
  with guard show ?thesis
    by (auto simp: intent_ok_def new_intent_def bounded_session_def offered_def offer_def parseAtomic_int_str)
qed

lemma deposits_open:
  assumes inv: "deposits_inv env l hs" and guard: "play_guard env (CallLedger (ROpen b)) (hs n)"
    and i: "tget (intents (snd (openIntent b l))) k = Some i"
  shows "intent_ok env hs i"
  using intents_open [OF i]
proof
  assume "tget (intents l) k = Some i"
  with inv show ?thesis by (simp add: deposits_inv_def)
next
  assume "k = ob_intent_id b \<and> (\<exists>i0. tget (intents l) k = Some i0 \<and> claimed_as b i0 i)"
  then obtain i0 where i0: "tget (intents l) (ob_intent_id b) = Some i0" and as': "claimed_as b i0 i" by blast
  from guard obtain r where r: "ELedger (RGet (ob_intent_id b)) (Inr (AIntent (Ok r))) \<in> set (hs n)"
    "located env (hs n) r (ob_tx_hash b) (ob_op_index b)" "lasts r (ob_session_exp b)"
    by (auto simp: claim_ok_def)
  with inv i0 have kept: "bounded_session r" "intent_kept r i0" and old: "intent_ok env hs i0"
    unfolding deposits_inv_def by fastforce+
  from kept r(3) have exp: "ob_session_exp b \<le> renewal_deadline i0"
    by (auto simp: bounded_session_def lasts_def intent_kept_def renewal_deadline_def)
  have chain: "backed env (hs n) i0 (ob_tx_hash b) (ob_op_index b)" if "i_status i0 \<noteq> IConsumed"
    using that kept(2) r(2) by (auto simp: located_def isExactReplay_def intent_kept_def backed_def)
  show ?thesis
    using old as' exp chain
    by (auto simp: claimed_as_def intent_ok_def bounded_session_def offered_def consumed_intent_def renewal_deadline_def
        backed_by_def backed_def split: if_splits)
qed

lemma caps_steps:
  assumes "lsteps (caps_are D G) st st'" "money_ok st" "caps_ok D G st"
  shows "caps_ok D G st'"
  by (rule lsteps_inv2 [where J = money_ok and I = "caps_ok D G", OF money_step caps_step assms])

lemma deposits_serving:
  assumes inv: "deposits_inv env l hs" and money: "money_ok l" and pays: "payments_ok l"
    and guard: "play_guard env (CallLedger r) (hs n)" and fresh: "fresh_id r l"
    and serve: "serve r l = (a, l')" and e: "e = a \<or> e = Inl x"
  shows "deposits_inv env l' (hs(n := ELedger r e # hs n))"
proof -
  have l': "l' = snd (serve r l)" using serve by simp
  have "Q b" if "r = ROpen b" "Q = caps_are 1000000000 (cap_of env)" for Q b
    using guard that by (auto simp: claim_ok_def cap_of_def)
  then have steps: "lsteps (caps_are 1000000000 (cap_of env)) l l'"
    unfolding l' by (intro serve_lstep [OF fresh]) blast
  have intents: "intent_ok env hs i" if i: "tget (intents l') k = Some i" for k i
  proof -
    have old: "intent_ok env hs i" if "intents l' = intents l"
      using inv i that by (simp add: deposits_inv_def)
    show ?thesis
    proof (cases r)
      case (RCreate b)
      with i show ?thesis using guard by (intro deposits_create [OF inv, of b]) (auto simp: l' split_beta)
    next
      case (ROpen b)
      with i show ?thesis using guard by (intro deposits_open [OF inv, of b]) (auto simp: l' split_beta)
    next
      case (RReserve b)
      have "intents (snd (reserve b l)) = intents l" by (rule reserve_effect) (simp_all add: take_hold_def Let_def)
      with RReserve show ?thesis by (intro old) (simp add: l' split_beta)
    next
      case (RDispatch b)
      have "intents (snd (markDispatched b l)) = intents l" by (rule markDispatched_effect) simp_all
      with RDispatch show ?thesis by (intro old) (simp add: l' split_beta)
    next
      case (RSettle k' action charge reason)
      have "intents (snd (settle k' action charge reason l)) = intents l" by (rule settle_effect) (simp_all add: end_hold_def)
      with RSettle show ?thesis by (intro old) (simp add: l' split_beta)
    qed (rule old; simp add: l')+
  qed
  have step: "deposits_inv env l' hs"
  proof (rule deposits_step [OF inv])
    show "kept l l'" by (rule kept_steps [OF steps pays money])
    show "caps_ok 1000000000 (cap_of env) l'" using inv by (intro caps_steps [OF steps money]) (simp add: deposits_inv_def)
  qed (rule intents)
  show ?thesis
  proof (cases "\<exists>k i. ELedger r e = ELedger (RGet k) (Inr (AIntent (Ok i)))")
    case False
    then show ?thesis by (intro deposits_event [OF step]) blast
  next
    case True
    then obtain k i where r: "r = RGet k" and i: "e = Inr (AIntent (Ok i))" by blast
    with e serve have l: "l' = l" and got: "tget (intents l) k = Some i"
      by (auto simp: getIntent_def split: option.splits)
    have "bounded_session i" using inv got by (auto simp: deposits_inv_def intent_ok_def)
    moreover have "intent_ok env (hs(n := ELedger r e # hs n)) i'" if "tget (intents l) k' = Some i'" for k' i'
      using inv that by (intro intent_ok_grow) (simp add: deposits_inv_def)
    ultimately show ?thesis
      using step got unfolding deposits_inv_def l r i by (auto split: if_splits)
  qed
qed

lemma deposits_reaping:
  assumes "deposits_inv env l hs" "money_ok l" "payments_ok l"
  shows "deposits_inv env (alarm t l) hs"
proof (rule deposits_step [OF assms(1)])
  show "kept l (alarm t l)" by (rule kept_step [OF lstep.reaper assms(3,2)])
qed (use assms(1) in \<open>auto simp: deposits_inv_def alarm_fields caps_ok_def\<close>)

interpretation deposits: guarded_system "playground env sc dash" "play_guard env" "deposits_inv env" for env sc dash
proof unfold_locales
  show "playground env sc dash p \<Longrightarrow> wp p (play_guard env) (\<lambda>_ _. True) (\<lambda>_ _. True) []" for p
    by (rule playground_guarded)
  show "deposits_inv env empty_ledger (\<lambda>_. [])" by (simp add: deposits_inv_def empty_ledger_def caps_ok_def num_at_def)
qed (auto intro: deposits_serving deposits_reaping deposits_event)

subsection \<open>What is signed\<close>

text \<open>Every credential a handler ever asked for came after a hold and within its limits.\<close>

fun signed_ok :: "penv \<Rightarrow> history \<Rightarrow> bool" where
  "signed_ok env [] \<longleftrightarrow> True"
| "signed_ok env (e # h) \<longleftrightarrow> signed_ok env h \<and>
     (case e of ESign c _ \<Rightarrow> (\<exists>k m. held k m h) \<and> may_sign env LARGEST_BUDGET h c | _ \<Rightarrow> True)"

interpretation signatures: guarded_system "playground env sc dash" "play_guard env" "\<lambda>l hs. \<forall>n. signed_ok env (hs n)"
  for env sc dash
proof unfold_locales
  show "playground env sc dash p \<Longrightarrow> wp p (play_guard env) (\<lambda>_ _. True) (\<lambda>_ _. True) []" for p
    by (rule playground_guarded)
qed auto

lemma voucher_mono: "voucher_ok env h c \<Longrightarrow> set h \<subseteq> set h' \<Longrightarrow> voucher_ok env h' c"
  unfolding voucher_ok_def by (auto split: option.splits)

lemma signed_ok_all:
  "signed_ok env h \<Longrightarrow> ESign c r \<in> set h \<Longrightarrow> (\<exists>k m. held k m h) \<and> may_sign env LARGEST_BUDGET h c"
proof (induction h)
  case (Cons e h)
  then have "(\<exists>k m. held k m h) \<and> may_sign env LARGEST_BUDGET h c" by auto
  then show ?case using voucher_mono [of env h c "e # h"] by (auto simp: may_sign_def)
qed simp

lemma payments_unique:
  assumes "payments_ok l" "tget (intents l) k = Some i" "tget (intents l) k' = Some i'"
    "i_status i = IConsumed" "i_status i' = IConsumed" "i_tx_hash i' = i_tx_hash i" "i_op_index i' = i_op_index i"
  shows "k' = k"
proof -
  from assms(1,2,4) obtain p where p: "paid_by i p" "tget (consumed l) p = Some k" unfolding payments_ok_def by blast
  from assms(1,3,5) obtain p' where p': "paid_by i' p'" "tget (consumed l) p' = Some k'" unfolding payments_ok_def by blast
  from p(1) p'(1) assms(6,7) have "p' = p" by (auto simp: paid_by_def)
  with p(2) p'(2) show ?thesis by simp
qed

lemma cap_of_pos: "0 < cap_of env"
  by (auto simp: cap_of_def globalCapAtomic_def DEFAULT_GLOBAL_CAP_USD_def usd_values Let_def split: option.split sum.split)

end
