(* ===== verification/PlayDemo.thy ===== *)
theory PlayDemo
  imports PlayProps
begin

text \<open>
  One person's use of the playground, run by the model: an intent, its deposit claimed, one transaction decoded.  The
  states it reaches are where the properties of the playground are applied.
\<close>

definition DEMO_ACCOUNT :: string where "DEMO_ACCOUNT = CHR ''G'' # replicate 55 (CHR ''A'')"
definition DEMO_ROUTER :: string where "DEMO_ROUTER = CHR ''G'' # replicate 55 (CHR ''B'')"
definition DEMO_TX :: string where "DEMO_TX = replicate 64 (CHR ''a'')"

definition demo_route :: proute where
  "demo_route = \<lparr>pr_id = ''mercury.tx'', pr_publicPath = ''/v1/services/mercury/txs/by-hash'', pr_method = MethodGet,
     pr_service = ''mercury'', pr_host = ''m.example'', pr_path = ''/tx'', pr_defaults = [], pr_verified = True,
     pr_auth = None, pr_rate = None, pr_payment = ''tempo.charge'', pr_session_key = None\<rparr>"

definition demo_claims :: json where
  "demo_claims = JObj [(''iss'', JStr ISSUER), (''aud'', JStr AUDIENCE), (''sub'', JStr DEMO_ACCOUNT),
     (''jti'', JStr ''jti''), (''iat'', JNum ''0''), (''exp'', JNum ''99''), (''kv'', JNum ''1'')]"

definition demo_env :: penv where
  "demo_env = \<lparr>pe_enabled = Some ''true'', pe_session_secret = Some ''0123456789abcdef'', pe_turnstile_disabled = None,
     pe_turnstile_secret = Some ''secret'', pe_router_public = Some DEMO_ROUTER, pe_recon_token = None,
     pe_horizon_url = None, pe_global_cap = None, pe_chat_disabled = None, pe_secrets = (\<lambda>_. Some ''token''),
     pe_router_signer = None, pe_routes = [demo_route], pe_strkey = (\<lambda>_. True), pe_hmac = (\<lambda>_ _. [7]),
     pe_parse = (\<lambda>_. Some demo_claims), pe_ceiling = (\<lambda>_. 99), pe_number = (\<lambda>_. []),
     pe_date_parse = (\<lambda>_. Some 0), pe_query = (\<lambda>_. ''tx_hash'')\<rparr>"

definition demo_siteverify :: json where
  "demo_siteverify = JObj [(''success'', JBool True), (''action'', JStr PLAYGROUND_TURNSTILE_ACTION),
     (''hostname'', JStr PLAYGROUND_TURNSTILE_HOSTNAME)]"

definition demo_tx :: json where
  "demo_tx = JObj [(''successful'', JBool True), (''memo_type'', JStr ''text''), (''memo'', JStr (generateMemo [2]))]"

definition demo_ops :: json where
  "demo_ops = JObj [(''_embedded'', JObj [(''records'', JArr [JObj
     [(''type'', JStr ''payment''), (''to'', JStr DEMO_ROUTER), (''asset_code'', JStr STELLAR_USDC_ASSET_CODE),
      (''asset_issuer'', JStr STELLAR_PUBNET_USDC_ISSUER), (''from'', JStr DEMO_ACCOUNT), (''amount'', JStr ''0.1000000'')]])])]"

fun demo_http :: "http_req \<Rightarrow> http_answer outcome" where
  "demo_http (HttpPost u f) = Inr \<lparr>ha_status = 200, ha_json = Some demo_siteverify\<rparr>"
| "demo_http (HttpGet u) = Inr \<lparr>ha_status = 200, ha_json = Some (if u = tx_url DEFAULT_HORIZON_URL DEMO_TX then demo_tx else demo_ops)\<rparr>"
| "demo_http (HttpMetered u hs b) = Inr \<lparr>ha_status = 200, ha_json = Some (JObj [])\<rparr>"

text \<open>The merchant asks for one cent, the whole budget of the call, then answers.\<close>

definition demo_challenge :: challenge where
  "demo_challenge = \<lparr>ch_intent = Some (JStr ''charge''), ch_request = Some (JObj [(''amount'', JStr ''10000'')])\<rparr>"

definition demo_answers :: answers where
  "demo_answers = \<lparr>o_http = demo_http, o_mppx = (\<lambda>_. ([[demo_challenge]], Inr \<lparr>ha_status = 200, ha_json = Some (JObj [])\<rparr>)), o_sign = (\<lambda>_. Inr ()), o_kv = (\<lambda>_. Inr None),
     o_put = (\<lambda>_ _. Inr ()), o_daily = (\<lambda>_ _. Inr (True, 1)), o_clock = 0, o_uuid = ''intent-0'', o_bytes = [2],
     o_chan = (\<lambda>_. Inl ''unreachable'')\<rparr>"

definition demo_rq :: "(string \<times> json) list \<Rightarrow> request" where
  "demo_rq fs = \<lparr>rq_auth = Some ''Bearer AAAA.Bw'', rq_ip = None, rq_body = Some (JObj fs)\<rparr>"

definition demo_intent :: "response prog" where
  "demo_intent = handlePlaygroundIntent demo_env (demo_rq [(''account'', JStr DEMO_ACCOUNT), (''turnstile_token'', JStr ''t''),
     (''amount_usd'', JStr ''0.1'')])"

definition demo_open :: "response prog" where
  "demo_open = handlePlaygroundOpen demo_env (demo_rq [(''intent_id'', JStr ''intent-0''), (''tx_hash'', JStr DEMO_TX)])"

definition demo_call :: "response prog" where
  "demo_call = handlePlaygroundTxDecode demo_env (demo_rq [(''call_id'', JStr ''call-0001''), (''tx_hash'', JStr DEMO_TX)])"

subsection \<open>The values it meets\<close>

lemma demo_account [simp]:
  "isValidStellarAccount demo_env DEMO_ACCOUNT" "isValidStellarAccount demo_env DEMO_ROUTER"
  "js_trim DEMO_ACCOUNT = DEMO_ACCOUNT" "DEMO_ACCOUNT \<noteq> []" "DEMO_ROUTER \<noteq> []"
  by (simp_all add: isValidStellarAccount_def DEMO_ACCOUNT_def DEMO_ROUTER_def base32_char_def demo_env_def js_trim_def is_space_def
      list_all_iff)

lemma demo_tx_hash [simp]:
  "js_trim DEMO_TX = DEMO_TX" "js_lower DEMO_TX = DEMO_TX" "tx_hash_re DEMO_TX"
  by (simp_all add: DEMO_TX_def js_trim_def is_space_def js_lower_def lower_char_def tx_hash_re_def hex_char_def list_all_iff)

lemma demo_env_simps [simp]:
  "playgroundEnabled demo_env" "isSessionSecretUsable (pe_session_secret demo_env)"
  "\<not> isPlaygroundTurnstileDisabled demo_env" "pe_turnstile_secret demo_env = Some ''secret''"
  "pe_router_public demo_env = Some DEMO_ROUTER" "horizonUrl demo_env = DEFAULT_HORIZON_URL"
  "globalCapAtomic demo_env = Inr 10000000000" "pe_date_parse demo_env t = Some 0"
  by (simp_all add: playgroundEnabled_def isSessionSecretUsable_def isPlaygroundTurnstileDisabled_def horizonUrl_def
      globalCapAtomic_def DEFAULT_GLOBAL_CAP_USD_def usd_values demo_env_def)

lemma demo_answers_simps [simp]:
  "o_http demo_answers = demo_http" "o_clock demo_answers = 0" "o_uuid demo_answers = ''intent-0''" "o_bytes demo_answers = [2]"
  "o_mppx demo_answers u = ([[demo_challenge]], Inr \<lparr>ha_status = 200, ha_json = Some (JObj [])\<rparr>)"
  "o_sign demo_answers c = Inr ()"
  by (simp_all add: demo_answers_def)

subsection \<open>The intent\<close>

definition demo_create :: create_body where
  "demo_create = \<lparr>cb_intent_id = ''intent-0'', cb_account = DEMO_ACCOUNT, cb_amount = int_str 1000000,
     cb_memo = generateMemo [2], cb_destination = DEMO_ROUTER, cb_now = 0, cb_expires_at = INTENT_TTL_SECONDS * 1000,
     cb_day_cap = int_str 1000000000, cb_global_cap = int_str 10000000000, cb_intents_per_hour = INTENT_RATE_PER_HOUR,
     cb_max_open = MAX_OPEN_INTENTS_PER_ACCOUNT\<rparr>"

definition demo_ledger1 :: ledger where
  "demo_ledger1 = put_intent demo_create 1000000 (DEMO_ACCOUNT @ '':'' @ utcHourKey 0) 1 1 empty_ledger"

lemma num_at_empty [simp]: "num_at [] k = 0"
  by (simp add: num_at_def)

lemma demo_created: "createIntent demo_create empty_ledger = (Inr (Ok (new_intent demo_create 1000000)), demo_ledger1)"
  by (simp add: createIntent_def demo_create_def parse_then_def parseAtomic_int_str INTENT_RATE_PER_HOUR_def
      MAX_OPEN_INTENTS_PER_ACCOUNT_def empty_ledger_def demo_ledger1_def Let_def)

definition demo_check :: event where
  "demo_check = EHttp (HttpPost SITEVERIFY_URL [(''secret'', ''secret''), (''response'', ''t'')])
     (Inr \<lparr>ha_status = 200, ha_json = Some demo_siteverify\<rparr>)"

definition demo_hist1 :: history where
  "demo_hist1 = [ELedger (RCreate demo_create) (Inr (AIntent (Ok (new_intent demo_create 1000000)))), demo_check]"

lemma demo_intent_run:
  "run_prog demo_intent demo_answers [] empty_ledger True =
     (Done (intent_answer (new_intent demo_create 1000000)), demo_hist1, demo_ledger1, True)"
proof -
  have t: "js_trim ''t'' = ''t''" by (simp add: js_trim_def is_space_def)
  have opt: "isDepositOption ''0.1''" by (simp add: isDepositOption_def usd_values DEPOSIT_OPTIONS_USD_def)
  have b: "demo_create = \<lparr>cb_intent_id = ''intent-0'', cb_account = DEMO_ACCOUNT, cb_amount = int_str 1000000,
     cb_memo = generateMemo [2], cb_destination = DEMO_ROUTER, cb_now = 0, cb_expires_at = INTENT_TTL_SECONDS * 1000,
     cb_day_cap = int_str 1000000000, cb_global_cap = int_str 10000000000, cb_intents_per_hour = INTENT_RATE_PER_HOUR,
     cb_max_open = MAX_OPEN_INTENTS_PER_ACCOUNT\<rparr>" by (rule demo_create_def)
  have fresh: "fresh_id (RCreate demo_create) empty_ledger"
    by (simp add: fresh_id_def demo_create_def empty_ledger_def)
  show ?thesis
    by (simp add: demo_intent_def demo_rq_def handlePlaygroundIntent_def readJsonBody_def body_str_def verifyPlaygroundTurnstile_def
        opt_pair_def t opt http_def from_outside_def body_of_def attempt_def ha_ok_def siteverify_result_def non_null_def
        demo_siteverify_def amount_wanted_def date_now_def uuid_def throwing_def usd_values dayCap call_createIntent_def
        doPost_def b [symmetric] demo_created answer_def fresh demo_hist1_def demo_check_def Let_def)
qed

subsection \<open>The deposit\<close>

definition demo_offer :: stored_intent where
  "demo_offer = new_intent demo_create 1000000"

lemma demo_offer_simps [simp]:
  "i_account demo_offer = DEMO_ACCOUNT" "i_amount demo_offer = 1000000" "i_memo demo_offer = generateMemo [2]"
  "i_destination demo_offer = DEMO_ROUTER" "i_created_at demo_offer = 0" "i_expires_at demo_offer = 1800000"
  "i_status demo_offer = IOpen" "i_session_jti demo_offer = None" "i_session_exp demo_offer = None"
  by (simp_all add: demo_offer_def new_intent_def demo_create_def INTENT_TTL_SECONDS_def)

definition demo_claim :: open_body where
  "demo_claim = \<lparr>ob_intent_id = ''intent-0'', ob_tx_hash = DEMO_TX, ob_op_index = 0, ob_now = 0, ob_confirmed_at = 0,
     ob_session_jti = ''intent-0'', ob_session_exp = 604800, ob_day_cap = int_str 1000000000,
     ob_global_cap = int_str 10000000000\<rparr>"

definition demo_ledger2 :: ledger where
  "demo_ledger2 = open_credit demo_claim demo_offer (DEMO_ACCOUNT @ '':'' @ utcDayKey 0) demo_ledger1"

definition demo_opened :: open_answer where
  "demo_opened = \<lparr>oa_intent = consumed_intent demo_claim demo_offer, oa_balance = 1000000, oa_replayed = False\<rparr>"

lemma demo_ledger1_simps [simp]:
  "tget (intents demo_ledger1) ''intent-0'' = Some demo_offer" "tget (consumed demo_ledger1) q = None"
  "num_at (dep demo_ledger1) q = 0" "num_at (bal demo_ledger1) q = 0" "outstanding demo_ledger1 = 0"
  "tget (calls demo_ledger1) q = None" "hist demo_ledger1 = []" "alarm_at demo_ledger1 = None"
  by (simp_all add: demo_ledger1_def put_intent_def empty_ledger_def demo_offer_def num_at_def)
    (simp_all add: demo_create_def)

lemma demo_claimed: "openIntent demo_claim demo_ledger1 = (Inr (Ok demo_opened), demo_ledger2)"
  by (simp add: openIntent_def demo_claim_def parse_then_def parseAtomic_int_str Let_def demo_opened_def demo_ledger2_def)

definition demo_answer :: "json \<Rightarrow> http_answer outcome" where
  "demo_answer j = Inr \<lparr>ha_status = 200, ha_json = Some j\<rparr>"

definition demo_hist2 :: history where
  "demo_hist2 = [ELedger (ROpen demo_claim) (Inr (AOpened (Ok demo_opened))),
     EHttp (HttpGet (ops_url DEFAULT_HORIZON_URL DEMO_TX)) (demo_answer demo_ops),
     EHttp (HttpGet (tx_url DEFAULT_HORIZON_URL DEMO_TX)) (demo_answer demo_tx),
     ELedger (RGet ''intent-0'') (Inr (AIntent (Ok demo_offer)))]"

lemma demo_fetch:
  "demo_http (HttpGet (tx_url DEFAULT_HORIZON_URL DEMO_TX)) = demo_answer demo_tx"
  "demo_http (HttpGet (ops_url DEFAULT_HORIZON_URL DEMO_TX)) = demo_answer demo_ops"
  by (simp_all add: demo_answer_def ops_url_def)

lemma demo_records:
  "first_match (\<lambda>op. op_matches op DEMO_ROUTER DEMO_ACCOUNT 1000000) 0
     (case jarray (optional (jfield demo_ops ''_embedded'') ''records'') of Some xs \<Rightarrow> xs | None \<Rightarrow> []) = Inr (Some 0)"
proof -
  have "horizonAmountToAtomic ''0.1000000'' = Some 1000000"
    by (simp add: horizonAmountToAtomic_def js_trim_def is_space_def digits_re_def is_digit_def digit_val_def padEnd_def all_digits_def)
  then show ?thesis
    by (simp add: demo_ops_def op_matches_def optional_def coalesce_def)
qed

lemma open_response_done: "\<exists>r. open_response env oa jti e t = Done r"
  by (auto simp: open_response_def Let_def split: sum.split)

lemma play_open_run:
  "\<exists>r. run_prog demo_open demo_answers [] demo_ledger1 True = (Done r, demo_hist2, demo_ledger2, True)"
proof -
  have k: "js_trim ''intent-0'' = ''intent-0''" by (simp add: js_trim_def is_space_def)
  have got: "getIntent ''intent-0'' demo_ledger1 = Ok demo_offer" by (simp add: getIntent_def)
  have claim: "\<lparr>ob_intent_id = ''intent-0'', ob_tx_hash = DEMO_TX, ob_op_index = 0, ob_now = 0, ob_confirmed_at = 0,
     ob_session_jti = ''intent-0'', ob_session_exp = 604800, ob_day_cap = int_str 1000000000,
     ob_global_cap = int_str 10000000000\<rparr> = demo_claim" by (simp add: demo_claim_def)
  have tx: "jfield demo_tx ''successful'' = Some (JBool True)" "jfield demo_tx ''memo_type'' = Some (JStr ''text'')"
    "jfield demo_tx ''memo'' = Some (JStr (generateMemo [2]))" "jfield demo_tx ''created_at'' = None"
    "demo_tx \<noteq> JNull" "demo_ops \<noteq> JNull"
    "ops_url DEFAULT_HORIZON_URL DEMO_TX \<noteq> tx_url DEFAULT_HORIZON_URL DEMO_TX"
    by (simp_all add: demo_tx_def demo_ops_def ops_url_def)
  obtain r where r: "open_response demo_env demo_opened ''intent-0'' 604800 0 = Done r" using open_response_done by blast
  show ?thesis
    by (simp add: demo_open_def demo_rq_def handlePlaygroundOpen_def readJsonBody_def body_str_def k call_getIntent_def doPost_def
        got locate_deposit_def isExactReplay_def verifyDeposit_def http_def attempt_def from_outside_def demo_fetch demo_answer_def
        ha_ok_def body_of_def non_null_def close_time_def date_now_def tx demo_records from_sum_def session_of_def uuid_def
        renewal_deadline_def SESSION_TTL_SECONDS_def SESSION_RENEWAL_CAP_SECONDS_def call_openIntent_def throwing_def dayCap claim
        demo_claimed answer_def fresh_id_def r demo_hist2_def Let_def)
qed

subsection \<open>The call\<close>

definition demo_reserve :: reserve_body where
  "demo_reserve = \<lparr>rb_call_id = ''call-0001'', rb_account = DEMO_ACCOUNT, rb_chip = ''tx-decode'', rb_model = None,
     rb_max_price = int_str 50000, rb_now = 0, rb_history_limit = CALL_HISTORY_LIMIT\<rparr>"

definition demo_new_call :: stored_call where
  "demo_new_call = new_call demo_reserve 50000"

definition demo_ledger3 :: ledger where
  "demo_ledger3 = take_hold demo_reserve 50000 demo_ledger2"

definition demo_ledger4 :: ledger where
  "demo_ledger4 = demo_ledger3\<lparr>calls := tput ''call-0001'' (demo_new_call\<lparr>c_dispatched := True\<rparr>) (calls demo_ledger3)\<rparr>"

definition demo_charged :: stored_call where
  "demo_charged = demo_new_call\<lparr>c_dispatched := True, c_status := Committed, c_charged := 50000\<rparr>"

definition demo_ledger5 :: ledger where
  "demo_ledger5 = (end_hold ''call-0001'' demo_charged 0 demo_ledger4)\<lparr>committed := 50000, outstanding := 950000\<rparr>"

lemma demo_ledger2_simps [simp]:
  "num_at (bal demo_ledger2) DEMO_ACCOUNT = 1000000" "tget (calls demo_ledger2) q = None"
  "outstanding demo_ledger2 = 1000000" "committed demo_ledger2 = 0"
  by (simp_all add: demo_ledger2_def open_credit_def Let_def)
    (simp add: demo_ledger1_def put_intent_def empty_ledger_def)

lemma demo_ledger34_simps [simp]:
  "tget (calls demo_ledger3) ''call-0001'' = Some demo_new_call"
  "tget (calls demo_ledger4) ''call-0001'' = Some (demo_new_call\<lparr>c_dispatched := True\<rparr>)"
  "outstanding demo_ledger4 = 1000000" "committed demo_ledger4 = 0" "c_status demo_new_call = Reserved"
  "c_max_price demo_new_call = 50000" "c_dispatched demo_new_call = False"
  by (simp_all add: demo_ledger4_def demo_ledger3_def take_hold_def Let_def)
    (simp_all add: demo_new_call_def new_call_def demo_reserve_def)

lemma demo_reserved:
  "reserve demo_reserve demo_ledger2 =
     (Inr (Ok \<lparr>ro_ok = True, ro_call = Some demo_new_call, ro_balance = 950000, ro_duplicate = False\<rparr>), demo_ledger3)"
  by (simp add: reserve_def parse_then_def parseAtomic_int_str demo_reserve_def Let_def)
    (simp add: demo_ledger3_def demo_new_call_def demo_reserve_def)

lemma demo_marked: "markDispatched ''call-0001'' demo_ledger3 = (Ok True, demo_ledger4)"
  by (simp add: markDispatched_def demo_ledger4_def)

definition demo_settled :: settle_answer where
  "demo_settled = \<lparr>sa_call = demo_charged, sa_balance = num_at (bal demo_ledger4) DEMO_ACCOUNT, sa_already = False\<rparr>"

lemma demo_settlement:
  "settle ''call-0001'' DoCommit (Some (int_str 50000)) None demo_ledger4 = (Inr (Ok demo_settled), demo_ledger5)"
proof -
  have "c_account demo_new_call = DEMO_ACCOUNT" by (simp add: demo_new_call_def new_call_def demo_reserve_def)
  then show ?thesis
    by (simp add: settle_def parse_then_def parseAtomic_int_str Let_def demo_settled_def demo_charged_def demo_ledger5_def)
qed

lemma demo_session: "authenticate demo_env (demo_rq fs) = Clock (\<lambda>t. Done
    (case check_payload (\<lambda>_. 99) demo_claims t of
       Inl e \<Rightarrow> Inl (fail 503 ''not_configured'' ''playground session signing is not configured'' [])
     | Inr (Inl reason) \<Rightarrow> Inl (fail 401 (''session_'' @ verify_reason reason) ''session token is not valid'' [])
     | Inr (Inr payload) \<Rightarrow> Inr (case jstring (jfield payload ''sub'') of Some s \<Rightarrow> s | None \<Rightarrow> [])))"
proof -
  have "js_lower ''Bearer'' = ''bearer''" by code_simp
  then have "bearerFrom (Some ''Bearer AAAA.Bw'') = Some ''AAAA.Bw''"
    by (simp add: bearerFrom_def is_space_def js_trim_def Let_def)
  moreover have "split_on (CHR ''.'') ''AAAA.Bw'' = [''AAAA'', ''Bw'']" "base64urlDecode ''Bw'' = Inr [7]"
      "base64urlDecode ''AAAA'' = Inr [0, 0, 0]" by code_simp+
  ultimately show ?thesis
    by (simp add: authenticate_def demo_rq_def verifySessionToken_def demo_env_def requireSecret_def isSessionSecretUsable_def
        timingSafeEqual_eq date_now_def)
qed

lemma demo_payload_ok: "check_payload (\<lambda>_. 99) demo_claims 0 = Inr (Inr demo_claims)" "jfield demo_claims ''sub'' = Some (JStr DEMO_ACCOUNT)"
proof -
  have "int_str KEY_VERSION = ''1''" "int_re ''99''" "bigint_of ''99'' = 99"
    by code_simp+
  then show "check_payload (\<lambda>_. 99) demo_claims 0 = Inr (Inr demo_claims)" "jfield demo_claims ''sub'' = Some (JStr DEMO_ACCOUNT)"
    by (simp_all add: check_payload_def demo_claims_def num_ge_def)
qed

definition demo_url :: string where
  "demo_url = ''https://m.example/tx?tx_hash''"

definition demo_signing :: signing where
  "demo_signing = \<lparr>sn_url = demo_url, sn_amount = ''10000'', sn_channel = None, sn_cumulative = None\<rparr>"

definition demo_hist5 :: history where
  "demo_hist5 = [ELedger (RSettle ''call-0001'' DoCommit (Some (int_str 50000)) None) (Inr (ASettled (Ok demo_settled))),
     ESign demo_signing (Inr ()),
     ELedger (RDispatch ''call-0001'') (Inr (AMarked (Ok True))),
     ELedger (RReserve demo_reserve) (Inr (AReserved
       (Ok \<lparr>ro_ok = True, ro_call = Some demo_new_call, ro_balance = 950000, ro_duplicate = False\<rparr>)))]"

lemma demo_upstream:
  "callUpstream demo_env demo_route [(''tx_hash'', DEMO_TX)] None (Some 100000) =
     bind (payMerchant demo_url (Some (toTempoRaw6 100000))) (\<lambda>(signed, r).
       case r of
         Inr response \<Rightarrow> Done \<lparr>uc_response = response, uc_paid = signed \<noteq> [], uc_cost = cost_of signed\<rparr>
       | Inl (BudgetExceededError u q m) \<Rightarrow>
           Throw (UpstreamError ''upstream_over_budget'' 502 (exn_message (BudgetExceededError u q m)) (evidence_of signed))
       | Inl e \<Rightarrow> Throw (UpstreamError ''upstream_unreachable'' 502 (exn_message e) (evidence_of signed)))"
  by (simp add: callUpstream_def demo_route_def demo_env_def resolveUpstreamPath_def demo_url_def from_sum_def
      del: exn_message.simps)

lemma demo_within: "within_budget (Some (JStr ''10000'')) demo_url (Some (toTempoRaw6 100000)) = Inr ()"
proof -
  have "digits_re ''10000''" by code_simp
  moreover have "dec_val ''10000'' = 10000" by (simp add: dec_val_def digit_val_def)
  moreover have "toTempoRaw6 100000 = int_str 10000" by (simp add: toTempoRaw6_def bigint_div_def)
  ultimately show ?thesis by (simp add: within_budget_def assertWithinBudget_def js_BigInt_int_str)
qed

lemma demo_call_run:
  "\<exists>r. run_prog demo_call demo_answers [] demo_ledger2 True = (Done r, demo_hist5, demo_ledger5, True)"
proof -
  have id: "ID_PATTERN ''call-0001''" by (simp add: ID_PATTERN_def word_char_def)
  have route: "resolvePlaygroundRoute demo_env ''/v1/services/mercury/txs/by-hash'' MethodGet = Inr demo_route"
    by (simp add: resolvePlaygroundRoute_def getRouteByPublicPath_def demo_env_def demo_route_def)
  have chip: "cp_id TX_CHIP = ''tx-decode''" "cp_price TX_CHIP = ''0.005''" "cp_budget TX_CHIP = ''0.01''"
    by (simp_all add: TX_CHIP_def)
  have b: "\<lparr>rb_call_id = ''call-0001'', rb_account = DEMO_ACCOUNT, rb_chip = ''tx-decode'', rb_model = None,
     rb_max_price = int_str 50000, rb_now = 0, rb_history_limit = CALL_HISTORY_LIMIT\<rparr> = demo_reserve"
    by (simp add: demo_reserve_def)
  have asked: "optional (ch_request demo_challenge) ''amount'' = Some (JStr ''10000'')"
    by (simp add: demo_challenge_def optional_def)
  have sign: "\<lparr>sn_url = demo_url, sn_amount = ''10000'', sn_channel = None, sn_cumulative = None\<rparr> = demo_signing"
    by (simp add: demo_signing_def)
  show ?thesis
    by (simp add: demo_call_def handlePlaygroundTxDecode_def demo_session demo_payload_ok)
      (simp add: demo_rq_def readJsonBody_def callId_def id body_str_def route run_tx_def chip throwing_def usd_values beginCall_def
        date_now_def call_reserve_def b doPost_def demo_reserved answer_def attempt_def call_markDispatched_def demo_marked
        callUpstreamJson_def demo_upstream payMerchant_def mppx_fetch_def asked demo_within shown_def sign_then_def sign ha_ok_def unwrapMerchantEnvelope_def
        call_commit_def demo_settlement fresh_id_def demo_hist5_def Let_def)
qed

subsection \<open>The whole system\<close>

lemma run_next:
  assumes "reachable H s" "H p" "s_procs s n = None" "run_prog p w [] (s_ledger s) True = (p', h', l', True)"
  shows "\<exists>s'. reachable H s' \<and> s_ledger s' = l' \<and> s_procs s' = (s_procs s)(n \<mapsto> (h', p'))"
proof -
  let ?s = "s\<lparr>s_procs := (s_procs s)(n \<mapsto> ([], p))\<rparr>"
  have s: "reachable H ?s" by (rule reachable_step [OF assms(1)]) (rule sys_step.arrive [of H p, OF assms(2,3)])
  have r: "run_prog p w [] (s_ledger ?s) True = (p', h', l', True)" using assms(4) by simp
  have n: "s_procs ?s n = Some ([], p)" by simp
  from run_reachable [OF s n r] show ?thesis by simp
qed

lemma demo_reached: "\<exists>s. reachable (playground demo_env sc dash) s \<and> s_ledger s = demo_ledger5 \<and>
    hist_of s 0 = demo_hist1 \<and> hist_of s 1 = demo_hist2 \<and> hist_of s 2 = demo_hist5"
proof -
  let ?H = "playground demo_env sc dash"
  have H: "?H demo_intent" "?H demo_open" "?H demo_call"
    by (simp_all add: demo_intent_def demo_open_def demo_call_def playground.intros)
  have "run_prog demo_intent demo_answers [] (s_ledger start) True =
      (Done (intent_answer (new_intent demo_create 1000000)), demo_hist1, demo_ledger1, True)"
    by (simp add: start_def demo_intent_run)
  from run_next [where H = ?H and p = demo_intent, OF reachable_start H(1) _ this, of 0] obtain s1 p1 where
    s1: "reachable ?H s1" "s_ledger s1 = demo_ledger1" "s_procs s1 = (s_procs start)(0 \<mapsto> (demo_hist1, p1))"
    by (auto simp: start_def)
  obtain r2 where "run_prog demo_open demo_answers [] (s_ledger s1) True = (Done r2, demo_hist2, demo_ledger2, True)"
    using play_open_run s1(2) by auto
  from run_next [where H = ?H and p = demo_open, OF s1(1) H(2) _ this, of 1] obtain s2 where
    s2: "reachable ?H s2" "s_ledger s2 = demo_ledger2" "s_procs s2 = (s_procs s1)(1 \<mapsto> (demo_hist2, Done r2))"
    by (auto simp: s1(3) start_def)
  obtain r3 where "run_prog demo_call demo_answers [] (s_ledger s2) True = (Done r3, demo_hist5, demo_ledger5, True)"
    using demo_call_run s2(2) by auto
  from run_next [where H = ?H and p = demo_call, OF s2(1) H(3) _ this, of 2] obtain s3 where
    s3: "reachable ?H s3" "s_ledger s3 = demo_ledger5" "s_procs s3 = (s_procs s2)(2 \<mapsto> (demo_hist5, Done r3))"
    by (auto simp: s2(3) s1(3) start_def)
  then have "hist_of s3 0 = demo_hist1 \<and> hist_of s3 1 = demo_hist2 \<and> hist_of s3 2 = demo_hist5"
    by (simp add: hist_of_def s2(3) s1(3))
  with s3 show ?thesis by blast
qed

text \<open>A contract-value decoder that decodes nothing, for the endpoint the run does not use.\<close>

definition demo_sc :: scval where "demo_sc = (\<lambda>_. None)"

lemma demo_held: "held ''call-0001'' (int_str 50000) demo_hist5"
  by (simp add: demo_hist5_def demo_reserve_def)

lemma demo_charged_simps [simp]:
  "c_status demo_charged = Committed" "c_chip demo_charged = ''tx-decode''" "c_model demo_charged = None"
  by (simp_all add: demo_charged_def demo_new_call_def new_call_def demo_reserve_def)

lemma demo_consumed_simps [simp]:
  "i_status (consumed_intent demo_claim demo_offer) = IConsumed"
  "i_memo (consumed_intent demo_claim demo_offer) = generateMemo [2]"
  "i_destination (consumed_intent demo_claim demo_offer) = DEMO_ROUTER"
  "i_account (consumed_intent demo_claim demo_offer) = DEMO_ACCOUNT"
  "i_amount (consumed_intent demo_claim demo_offer) = 1000000"
  "i_created_at (consumed_intent demo_claim demo_offer) = 0"
  by (simp_all add: consumed_intent_def)

lemma demo_ledger5_simps [simp]:
  "tget (calls demo_ledger5) ''call-0001'' = Some demo_charged"
  "tget (intents demo_ledger5) ''intent-0'' = Some (consumed_intent demo_claim demo_offer)"
  "outstanding demo_ledger5 = 950000"
  by (simp_all add: demo_ledger5_def end_hold_def demo_ledger4_def demo_ledger3_def take_hold_def demo_ledger2_def open_credit_def
      Let_def) (simp add: demo_claim_def)

end
