(* ===== verification/PlayClaims.thy ===== *)
theory PlayClaims
  imports PlayDemo
begin

text \<open>
  What the playground guarantees, of every reachable state of the whole system: requests of all seven endpoints in
  flight at once, answers of the ledger lost, handlers crashed, the reaper at any time.  \<open>hist_of s n\<close> is what the
  \<open>n\<close>-th request has done.
\<close>

text \<open>C5: nobody is charged for a call that did not pay.  A call in the books as committed was charged exactly the
  flat price the code advertises for its chip (or model), and some request that held it had, before it settled, signed a
  payment credential for the merchant or got a successful answer from a metered one.\<close>

theorem charged_as_advertised:
  assumes "reachable (playground env sc dash) s" "tget (calls (s_ledger s)) k = Some c" "c_status c = Committed"
  shows "advertised (c_chip c) (c_model c) (c_charged c) \<and> (\<exists>n m. paid_since k m (hist_of s n))"
  using calls.invariant(1) [OF assms(1)] assms(2,3) unfolding calls_inv_def by fastforce

theorem charged_as_advertised_witness:
  "c_status demo_charged = Committed \<and> advertised ''tx-decode'' None (c_charged demo_charged)"
proof -
  obtain s where "reachable (playground demo_env demo_sc []) s" "s_ledger s = demo_ledger5" using demo_reached by blast
  from charged_as_advertised [OF this(1), of "''call-0001''" demo_charged] this(2) show ?thesis by simp
qed

text \<open>C21: a call id is worked by one request.  If two requests were ever given a fresh hold for the same call id, they
  are the same request; and the hold is the one in the books, at the price the request asked for.  So a retried or
  replayed call is never dispatched, nor paid for, twice.\<close>

theorem one_request_per_call:
  assumes "reachable (playground env sc dash) s" "held k m (hist_of s n)" "held k m' (hist_of s n')"
  shows "n = n' \<and> (\<exists>c. tget (calls (s_ledger s)) k = Some c \<and> parseAtomic (Some m) = Inr (c_max_price c))"
  using calls.invariant(1) [OF assms(1)] assms(2,3) unfolding calls_inv_def by blast

theorem one_request_per_call_witness:
  "parseAtomic (Some (int_str 50000)) = Inr (c_max_price demo_charged)"
proof -
  obtain s where s: "reachable (playground demo_env demo_sc []) s" "s_ledger s = demo_ledger5" "hist_of s 2 = demo_hist5"
    using demo_reached by blast
  have "held ''call-0001'' (int_str 50000) (hist_of s 2)" by (simp add: s(3) demo_held)
  from one_request_per_call [OF s(1) this this] s(2) show ?thesis by simp
qed

text \<open>C17: money is only credited for a payment on the ledger of Stellar.  The deposit of every claimed intent was read,
  by some request, from Horizon: a successful transaction with the intent's memo, and in it a payment of USDC, of
  exactly the intent's amount, from the intent's account to the router's address.  No other intent was credited
  for that operation.\<close>

theorem credit_backed:
  assumes "reachable (playground env sc dash) s" "tget (intents (s_ledger s)) k = Some i" "i_status i = IConsumed"
  shows "\<exists>n tx op. i_tx_hash i = Some tx \<and> i_op_index i = Some op \<and>
    paid_on_chain env (hist_of s n) (i_memo i) (i_destination i) (i_account i) (i_amount i) tx op \<and>
    Some (i_destination i) = pe_router_public env \<and>
    (\<forall>k' i'. tget (intents (s_ledger s)) k' = Some i' \<longrightarrow> i_status i' = IConsumed \<longrightarrow>
       i_tx_hash i' = Some tx \<longrightarrow> i_op_index i' = Some op \<longrightarrow> k' = k)"
proof -
  have ok: "intent_ok env (hist_of s) i"
    using deposits.invariant(1) [OF assms(1)] assms(2) by (simp add: deposits_inv_def)
  then obtain n tx op where claim: "i_tx_hash i = Some tx" "i_op_index i = Some op" "backed env (hist_of s n) i tx op"
    using assms(3) by (auto simp: intent_ok_def backed_by_def)
  have "k' = k" if "tget (intents (s_ledger s)) k' = Some i'" "i_status i' = IConsumed" "i_tx_hash i' = Some tx"
    "i_op_index i' = Some op" for k' i'
    using payments_unique [OF reachable_payments [OF assms(1)] assms(2) that(1) assms(3) that(2)] that claim by simp
  with claim ok show ?thesis by (auto simp: backed_def intent_ok_def offered_def)
qed

theorem credit_backed_witness:
  "\<exists>h. paid_on_chain demo_env h (generateMemo [2]) DEMO_ROUTER DEMO_ACCOUNT 1000000 DEMO_TX 0"
proof -
  obtain s where s: "reachable (playground demo_env demo_sc []) s" "s_ledger s = demo_ledger5" using demo_reached by blast
  have "tget (intents (s_ledger s)) ''intent-0'' = Some (consumed_intent demo_claim demo_offer)" using s by simp
  from credit_backed [OF s(1) this] show ?thesis by (auto simp: consumed_intent_def demo_claim_def)
qed

text \<open>C25: the playground's credit is bounded.  What it owes its accounts never exceeds the configured global cap
  (1000 USDC unless set otherwise), and no account is credited more than 100 USDC for the deposits of a day.\<close>

theorem credit_capped:
  assumes "reachable (playground env sc dash) s"
  shows "outstanding (s_ledger s) \<le> cap_of env \<and> num_at (dep (s_ledger s)) q \<le> 1000000000 \<and> 0 < cap_of env"
  using deposits.invariant(1) [OF assms] cap_of_pos [of env] by (auto simp: deposits_inv_def caps_ok_def)

theorem credit_capped_witness: "outstanding demo_ledger5 \<le> cap_of demo_env"
proof -
  obtain s where "reachable (playground demo_env demo_sc []) s" "s_ledger s = demo_ledger5" using demo_reached by blast
  with credit_capped [OF this(1)] show ?thesis by metis
qed

text \<open>Sessions end.  However often a session is renewed, it never lasts longer than 30 days from the creation of the
  deposit intent it belongs to.\<close>

theorem session_ends:
  assumes "reachable (playground env sc dash) s" "tget (intents (s_ledger s)) k = Some i" "i_session_exp i = Some e"
  shows "e \<le> i_created_at i div 1000 + 30 * 24 * 60 * 60"
proof -
  have "intent_ok env (hist_of s) i" using deposits.invariant(1) [OF assms(1)] assms(2) by (simp add: deposits_inv_def)
  with assms(3) show ?thesis
    by (simp add: intent_ok_def bounded_session_def renewal_deadline_def SESSION_RENEWAL_CAP_SECONDS_def)
qed

theorem session_ends_witness: "ob_session_exp demo_claim \<le> 30 * 24 * 60 * 60"
proof -
  obtain s where s: "reachable (playground demo_env demo_sc []) s" "s_ledger s = demo_ledger5" using demo_reached by blast
  have "tget (intents (s_ledger s)) ''intent-0'' = Some (consumed_intent demo_claim demo_offer)" using s by simp
  from session_ends [OF s(1) this, of "ob_session_exp demo_claim"] show ?thesis by (simp add: consumed_intent_def)
qed

text \<open>Deposits are for people, on fixed terms.  Every deposit intent asks for one of the four offered amounts, to the
  router's own address, within half an hour, and was created by a request that had passed the Turnstile check
  for this action and this site (unless the check is switched off).\<close>

theorem intent_terms:
  assumes "reachable (playground env sc dash) s" "tget (intents (s_ledger s)) k = Some i"
  shows "(\<exists>opt \<in> {''0.1'', ''1'', ''10'', ''100''}. parseUsd opt = Inr (i_amount i)) \<and>
    Some (i_destination i) = pe_router_public env \<and> i_expires_at i = i_created_at i + 30 * 60 * 1000 \<and>
    (\<exists>n. human env (hist_of s n))"
proof -
  have "intent_ok env (hist_of s) i" using deposits.invariant(1) [OF assms(1)] assms(2) by (simp add: deposits_inv_def)
  then show ?thesis by (simp add: intent_ok_def offered_def DEPOSIT_OPTIONS_USD_def INTENT_TTL_SECONDS_def)
qed

theorem intent_terms_witness: "Some DEMO_ROUTER = pe_router_public demo_env \<and> (\<exists>h. human demo_env h)"
proof -
  obtain s where s: "reachable (playground demo_env demo_sc []) s" "s_ledger s = demo_ledger5" using demo_reached by blast
  have "tget (intents (s_ledger s)) ''intent-0'' = Some (consumed_intent demo_claim demo_offer)" using s by simp
  from intent_terms [OF s(1) this] show ?thesis by (auto simp: consumed_intent_def)
qed

text \<open>C18: what the router signs is bounded.  Every payment credential it was ever asked to make came from a request that
  held a caller's money, is for a plain number of at most 50000 base units (5 cents), and, if it draws on
  a payment channel, is a voucher for the channel record that was read, at the recorded total plus that amount
  and within the channel's deposit.\<close>

theorem signatures_bounded:
  assumes "reachable (playground env sc dash) s" "ESign c r \<in> set (hist_of s n)"
  shows "digits_re (sn_amount c) \<and> dec_val (sn_amount c) \<le> 50000 \<and> voucher_ok env (hist_of s n) c \<and>
    (\<exists>k m. held k m (hist_of s n))"
proof -
  have "signed_ok env (hist_of s n)" using signatures.invariant(1) [OF assms(1)] by blast
  from signed_ok_all [OF this assms(2)] show ?thesis by (simp add: may_sign_def LARGEST_BUDGET_def bigint_div_def)
qed

theorem signatures_bounded_witness: "digits_re ''10000'' \<and> dec_val ''10000'' \<le> 50000"
proof -
  obtain s where s: "reachable (playground demo_env demo_sc []) s" "hist_of s 2 = demo_hist5" using demo_reached by blast
  have "ESign demo_signing (Inr ()) \<in> set (hist_of s 2)" by (simp add: s(2) demo_hist5_def)
  from signatures_bounded [OF s(1) this] show ?thesis by (simp add: demo_signing_def)
qed

subsection \<open>What goes into a prompt\<close>

lemma sanitize_items_sound:
  "sanitize_items items n = Inr ms \<Longrightarrow> n \<le> MAX_MESSAGE_CHARS \<Longrightarrow>
    length ms = length items \<and> n + sum_list (map (length \<circ> snd) ms) \<le> MAX_MESSAGE_CHARS \<and>
    (\<forall>m \<in> set ms. fst m \<in> {''system'', ''user'', ''assistant''} \<and> snd m \<noteq> [])"
proof (induction items arbitrary: n ms)
  case (Cons item items)
  from Cons.prems obtain role content rest where parts: "role \<in> {''system'', ''user'', ''assistant''}" "content \<noteq> []"
    "n + length content \<le> MAX_MESSAGE_CHARS" "sanitize_items items (n + length content) = Inr rest"
    "ms = (role, content) # rest"
    by (auto split: if_splits option.splits sum.splits simp: not_less)
  from Cons.IH [OF parts(4,3)] parts show ?case by auto
qed simp

text \<open>The messages of a chat are bounded.  What passes the check has between 1 and 12 messages of at most 8000
  characters in all, each with one of the three roles and a content.\<close>

theorem messages_bounded:
  assumes "sanitizeMessages raw = Inr ms"
  shows "1 \<le> length ms \<and> length ms \<le> 12 \<and> sum_list (map (length \<circ> snd) ms) \<le> 8000 \<and>
    (\<forall>m \<in> set ms. fst m \<in> {''system'', ''user'', ''assistant''} \<and> snd m \<noteq> [])"
proof -
  from assms obtain items where items: "sanitize_items items 0 = Inr ms" "items \<noteq> []" "length items \<le> 12"
    by (auto simp: sanitizeMessages_def MAX_MESSAGES_PER_TURN_def not_less split: option.splits if_splits)
  from sanitize_items_sound [OF items(1)] items(2,3) show ?thesis
    by (auto simp: MAX_MESSAGE_CHARS_def Suc_le_eq)
qed

theorem messages_bounded_witness:
  "1 \<le> length [(''user'', ''hi'')] \<and> length [(''user'', ''hi'')] \<le> 12"
proof -
  have "sanitizeMessages (Some (JArr [JObj [(''role'', JStr ''user''), (''content'', JStr ''hi'')]])) = Inr [(''user'', ''hi'')]"
    by (simp add: sanitizeMessages_def MAX_MESSAGES_PER_TURN_def MAX_MESSAGE_CHARS_def)
  from messages_bounded [OF this] show ?thesis by blast
qed

subsection \<open>What the table of a pool's events says\<close>

lemma tally_buckets:
  "ty_buckets (fold (tally_event sc) events t) a =
     (let es = filter (\<lambda>e. classify (eventName sc e) = a) events; amounts = List.map_filter (extractAmount sc) es
      in \<lparr>bk_count = bk_count (ty_buckets t a) + length es,
          bk_total = bk_total (ty_buckets t a) + sum_list amounts,
          bk_samples = bk_samples (ty_buckets t a) + length amounts,
          bk_participants = fold List.insert (List.map_filter (extractParticipant sc) es) (bk_participants (ty_buckets t a))\<rparr>)"
  by (induction events arbitrary: t)
     (auto simp: Let_def tally_event_def bucket_add_def List.map_filter_simps split: option.split)

lemma fold_insert_card: "distinct xs \<Longrightarrow> length (fold List.insert ys xs) = card (set ys \<union> set xs)"
proof (induction ys arbitrary: xs)
  case Nil
  then show ?case by (simp add: distinct_card)
next
  case (Cons y ys)
  then show ?case by (simp add: Un_commute)
qed

lemma length_partition: "length (filter (\<lambda>e. f e = ADeposit) xs) + (length (filter (\<lambda>e. f e = AWithdraw) xs) +
    (length (filter (\<lambda>e. f e = ABorrow) xs) + (length (filter (\<lambda>e. f e = ARepay) xs) + length (filter (\<lambda>e. f e = AOther) xs)))) = length xs"
proof (induction xs)
  case (Cons x xs)
  then show ?case by (cases "f x") auto
qed simp

text \<open>C37: the table agrees with the events.  Each row is what a direct count gives: the number of events of that action,
  the exact sum of their readable amounts, how many had one, and the number of different participants; and the
  rows account for every event examined.\<close>

theorem blend_table_exact:
  "ba_rows (aggregateBlendEvents sc events contract) =
     map (\<lambda>a. let es = filter (\<lambda>e. classify (eventName sc e) = a) events;
                  amounts = List.map_filter (extractAmount sc) es
       in \<lparr>br_action = a, br_count = length es, br_total = int_str (sum_list amounts), br_samples = length amounts,
           br_participants = card (set (List.map_filter (extractParticipant sc) es))\<rparr>) ACTION_ORDER \<and>
   sum_list (map br_count (ba_rows (aggregateBlendEvents sc events contract))) =
     ba_examined (aggregateBlendEvents sc events contract)"
proof -
  have start: "ty_buckets tally_start a = \<lparr>bk_count = 0, bk_total = 0, bk_samples = 0, bk_participants = []\<rparr>" for a
    by (simp add: tally_start_def)
  show ?thesis
    using length_partition [of "\<lambda>e. classify (eventName sc e)" events]
    by (simp add: aggregateBlendEvents_def Let_def tally_buckets start ACTION_ORDER_def fold_insert_card)
qed

end
