(* ===== verification/StoreMachine.thy ===== *)
theory StoreMachine
  imports KvStore
begin

text \<open>
  Protocols over the atomic store.  \<open>W key cur wop\<close> says what may be written to a key that holds \<open>cur\<close>; \<open>wsteps W\<close> is
  any sequence of such writes, by any number of Workers.  An \<open>update\<close> whose function writes only what \<open>W\<close> allows is,
  with other such Workers around, one step of the machine at a state reached during the call.
\<close>

inductive wstep :: "(string \<Rightarrow> 'v option \<Rightarrow> 'v write_op \<Rightarrow> bool) \<Rightarrow> 'v astore \<Rightarrow> 'v astore \<Rightarrow> bool" for W where
  "W key (value_at st key) wop \<Longrightarrow> wstep W st (apply_write key (version_at st key) wop st)"

inductive_cases wstepE: "wstep W st st'"

definition wsteps :: "(string \<Rightarrow> 'v option \<Rightarrow> 'v write_op \<Rightarrow> bool) \<Rightarrow> 'v astore \<Rightarrow> 'v astore \<Rightarrow> bool" where
  "wsteps W = (wstep W)\<^sup>*\<^sup>*"

lemma wsteps_refl [simp]: "wsteps W s s"
  by (simp add: wsteps_def)

lemma wsteps_trans: "wsteps W a b \<Longrightarrow> wsteps W b c \<Longrightarrow> wsteps W a c"
  unfolding wsteps_def by (rule rtranclp_trans)

lemma wsteps_step: "wsteps W a b \<Longrightarrow> wstep W b c \<Longrightarrow> wsteps W a c"
  unfolding wsteps_def by (rule rtranclp.rtrancl_into_rtrancl)

lemma wsteps_do: "wsteps W s s' \<Longrightarrow> do_steps s s'"
  unfolding wsteps_def
proof (induction rule: rtranclp_induct)
  case (step b c)
  from step(2) have "do_steps b c" by (rule wstepE) (simp add: current_write_steps)
  with step(3) show ?case by (rule do_steps_trans)
qed (simp add: do_steps_refl)

interpretation machine: cas_reads handleRead handleCommit apply_write "wsteps W" for W
  by unfold_locales
    (auto simp: read_version read_value commit_current handleCommit_def intro: wsteps_trans guarded_value wsteps_do)

definition written :: "'v write_op \<Rightarrow> 'v option" where
  "written wop = (case wop of SetOp v \<Rightarrow> Some v | DeleteOp \<Rightarrow> None)"

lemma value_written: "value_at (apply_write key e wop st) k = (if k = key then written wop else value_at st k)"
  by (simp add: value_apply_write written_def)

text \<open>A relation that every write of a key keeps, from its old to its new value, holds across any steps.\<close>

lemma wsteps_rel:
  assumes "wsteps W st st'" "\<And>x. R x x" "\<And>x y z. R x y \<Longrightarrow> R y z \<Longrightarrow> R x z"
    and "\<And>cur wop. W key cur wop \<Longrightarrow> R cur (written wop)"
  shows "R (value_at st key) (value_at st' key)"
  using assms(1) unfolding wsteps_def
proof (induction rule: rtranclp_induct)
  case (step b c)
  from step(2) have "R (value_at b key) (value_at c key)"
    by (rule wstepE) (auto simp: value_written assms(2) intro: assms(4))
  with step(3) show ?case by (rule assms(3))
qed (rule assms(2))

text \<open>An assertion on a value that every write of its key establishes.\<close>

lemma wsteps_inv:
  assumes "wsteps W st st'" "I (value_at st key)"
    and "\<And>cur wop. W key cur wop \<Longrightarrow> I cur \<Longrightarrow> I (written wop)"
  shows "I (value_at st' key)"
  using assms(1) unfolding wsteps_def
proof (induction rule: rtranclp_induct)
  case (step b c)
  from step(2) show ?case by (rule wstepE) (auto simp: value_written step(3) intro: assms(3))
qed (rule assms(2))

lemma machine_update:
  assumes env: "\<And>n s. wsteps W s (env n s)" and run: "kv_update env key fn st = (Inr r, st')"
    and fn: "\<And>cur wop r. fn cur = Change wop r \<Longrightarrow> W key cur wop"
  shows "\<exists>lin. wsteps W st lin \<and> wsteps W lin st' \<and>
    (case fn (value_at lin key) of
       Noop r' \<Rightarrow> r' = r
     | Change wop r' \<Rightarrow> r' = r \<and> st' = apply_write key (version_at lin key) wop lin)"
proof -
  let ?s0 = "env 0 st"
  have "update_loop handleCommit env key fn MAX_UPDATE_RETRIES 1 (value_at ?s0 key) (version_at ?s0 key) ?s0 = (Inr r, st')"
    using run by (simp add: kv_update_def Let_def handleRead_def)
  from machine.update_loop_decides [OF env this wsteps_refl, unfolded handleRead_def fst_conv snd_conv]
  obtain lin where lin: "wsteps W ?s0 lin"
    "case fn (value_at lin key) of
       Noop r' \<Rightarrow> r' = r \<and> wsteps W lin st' \<and> wsteps W ?s0 st'
     | Change wop r' \<Rightarrow> r' = r \<and> st' = apply_write key (version_at lin key) wop lin"
    by blast
  then have "wsteps W lin st'"
    by (cases "fn (value_at lin key)") (auto intro!: wsteps_step [OF wsteps_refl] wstep.intros fn)
  with lin wsteps_trans [OF env lin(1)] show ?thesis
    by (intro exI [of _ lin]) (auto split: change.splits)
qed

text \<open>Whether it returns or gives up, an update leaves a state of the machine.\<close>

lemma machine_loop:
  assumes env: "\<And>n s. wsteps W s (env n s)" and fn: "\<And>cur wop r. fn cur = Change wop r \<Longrightarrow> W key cur wop"
  shows "wsteps W held s \<Longrightarrow> value_at held key = cur \<Longrightarrow> version_at held key = ver \<Longrightarrow>
    wsteps W s (snd (update_loop handleCommit env key fn attempts n cur ver s))"
proof (induction attempts arbitrary: n cur ver s held)
  case (Suc attempts)
  show ?case
  proof (cases "fn cur")
    case (Change wop r)
    let ?e = "env n s"
    show ?thesis
    proof (cases "version_at ?e key = ver")
      case True
      have "value_at ?e key = cur"
        using guarded_value [OF wsteps_do [OF wsteps_trans [OF Suc.prems(1) env]]] True Suc.prems(2,3) by metis
      with True Change have "wsteps W ?e (apply_write key ver wop ?e)"
        using wstep.intros [of W key ?e wop] fn wsteps_step [OF wsteps_refl] by metis
      with True Change show ?thesis using wsteps_trans [OF env] by (simp add: handleCommit_def)
    next
      case False
      with Change show ?thesis
        using wsteps_trans [OF env Suc.IH [OF wsteps_refl refl refl]] by (simp add: handleCommit_def)
    qed
  qed simp
qed simp

lemma machine_update_steps:
  assumes "\<And>n s. wsteps W s (env n s)" "\<And>cur wop r. fn cur = Change wop r \<Longrightarrow> W key cur wop"
  shows "wsteps W st (snd (kv_update env key fn st))"
  using wsteps_trans [OF assms(1) machine_loop [OF assms wsteps_refl refl refl]]
  by (simp add: kv_update_def handleRead_def Let_def)

end
