(* ===== verification/Vouchers.thy ===== *)
theory Vouchers
  imports StoreMachine Upstream
begin

text \<open>
  What the atomic store keeps for a payment channel: the latest voucher, the closed and fenced marks and the books of
  written-off debt (\<open>src/src/playground/channel-voucher-store.ts\<close>), and the delivery lock and the roll back of a
  watermark (\<open>src/src/mpp/stellar-channel-dispatch.ts\<close>).  \<open>chan_change\<close> is the function each operation passes to
  \<open>update\<close>; \<open>StoreMachine\<close> makes each \<open>update\<close> one step of the store, whatever runs beside it.
\<close>

subsection \<open>Keys\<close>

definition voucherKey :: "string \<Rightarrow> string" where "voucherKey c = ''pg:channel:voucher:'' @ c"
definition closedKey :: "string \<Rightarrow> string" where "closedKey c = ''pg:channel:closed:'' @ c"
definition fencedKey :: "string \<Rightarrow> string" where "fencedKey c = ''pg:channel:fenced:'' @ c"
definition writeoffKey :: "string \<Rightarrow> string" where "writeoffKey c = ''pg:channel:writeoff:'' @ c"
definition RECON_SUPERSEDE_KEY :: string where "RECON_SUPERSEDE_KEY = ''pg:channel:recon:superseded-aborts''"
definition RECON_WRITEOFF_KEY :: string where "RECON_WRITEOFF_KEY = ''pg:channel:recon:writeoffs''"
definition lockKey :: "string \<Rightarrow> string" where "lockKey c = ''refund:channel-lock:'' @ c"
definition cumulativeKey :: "string \<Rightarrow> string" where "cumulativeKey c = ''stellar:channel:cumulative:'' @ c"
definition challengeKey :: "string \<Rightarrow> string" where "challengeKey c = ''stellar:channel:challenge:'' @ c"

definition DELIVERY_LOCK_TTL_MS :: int where "DELIVERY_LOCK_TTL_MS = 300000"

lemmas key_defs = voucherKey_def closedKey_def fencedKey_def writeoffKey_def RECON_SUPERSEDE_KEY_def
  RECON_WRITEOFF_KEY_def lockKey_def cumulativeKey_def challengeKey_def

subsection \<open>The functions passed to update\<close>

text \<open>
  The left result is a throw inside the function, which leaves the store alone.  A value of another shape than the
  key's is never there (\<open>chan_typed\<close> below); the functions treat it as the code would treat such an object.
\<close>

definition two_ints :: "string \<Rightarrow> string \<Rightarrow> (int \<Rightarrow> int \<Rightarrow> (chan_val, bool js) change) \<Rightarrow> (chan_val, bool js) change" where
  "two_ints a b f =
     (case js_BigInt a of
        Inl e \<Rightarrow> Noop (Inl e)
      | Inr x \<Rightarrow> (case js_BigInt b of Inl e \<Rightarrow> Noop (Inl e) | Inr y \<Rightarrow> f x y))"

definition put_voucher_change :: "string \<Rightarrow> string \<Rightarrow> string \<Rightarrow> int \<Rightarrow> chan_val option \<Rightarrow> (chan_val, bool js) change" where
  "put_voucher_change amountDecimal cumulativeRaw signature now current =
     (let fresh = (\<lambda>settled. Change (SetOp (VoucherVal
            \<lparr>lv_amountDecimal = amountDecimal, lv_cumulativeRaw = cumulativeRaw, lv_signature = signature,
             lv_lastSettledRaw = settled, lv_updatedAt = now\<rparr>)) (Inr True)) in
      case current of
        None \<Rightarrow> fresh ''0''
      | Some (VoucherVal v) \<Rightarrow>
          two_ints (lv_cumulativeRaw v) cumulativeRaw (\<lambda>stored new.
            if new \<le> stored then Noop (Inr True) else fresh (lv_lastSettledRaw v))
      | Some _ \<Rightarrow> Noop (Inl (JsError ''TypeError'')))"

definition mark_settled_change :: "string \<Rightarrow> int \<Rightarrow> chan_val option \<Rightarrow> (chan_val, bool js) change" where
  "mark_settled_change settledRaw now current =
     (case current of
        None \<Rightarrow> Noop (Inr False)
      | Some (VoucherVal v) \<Rightarrow>
          two_ints (lv_lastSettledRaw v) settledRaw (\<lambda>old new.
            if new \<le> old then Noop (Inr False)
            else Change (SetOp (VoucherVal (v\<lparr>lv_lastSettledRaw := settledRaw, lv_updatedAt := now\<rparr>))) (Inr True))
      | Some _ \<Rightarrow> Noop (Inl (JsError ''TypeError'')))"

definition count_abort_change :: "chan_val option \<Rightarrow> (chan_val, bool js) change" where
  "count_abort_change current =
     Change (SetOp (CountVal (case current of Some (CountVal n) \<Rightarrow> n + 1 | _ \<Rightarrow> 1))) (Inr True)"

definition write_off_change :: "string \<Rightarrow> string \<Rightarrow> int \<Rightarrow> chan_val option \<Rightarrow> (chan_val, bool js) change" where
  "write_off_change cumulativeRaw reason now current =
     (case current of
        Some _ \<Rightarrow> Noop (Inr False)
      | None \<Rightarrow> Change (SetOp (WriteoffVal \<lparr>wo_cumulativeRaw = cumulativeRaw, wo_reason = reason, wo_at = now\<rparr>)) (Inr True))"

definition no_writeoffs :: writeoff_totals where
  "no_writeoffs = \<lparr>wt_count = 0, wt_totalRaw = ''0'', wt_channels = []\<rparr>"

definition add_writeoff_change :: "string \<Rightarrow> string \<Rightarrow> chan_val option \<Rightarrow> (chan_val, bool js) change" where
  "add_writeoff_change channelContract cumulativeRaw current =
     (let t = (case current of Some (TotalsVal t) \<Rightarrow> t | _ \<Rightarrow> no_writeoffs) in
      if map_of (wt_channels t) channelContract \<noteq> None then Noop (Inr False)
      else two_ints (wt_totalRaw t) cumulativeRaw (\<lambda>total add.
        Change (SetOp (TotalsVal
          \<lparr>wt_count = wt_count t + 1, wt_totalRaw = int_str (total + add),
           wt_channels = AList.update channelContract cumulativeRaw (wt_channels t)\<rparr>)) (Inr True)))"

definition rollback_change :: "string \<Rightarrow> string \<Rightarrow> chan_val option \<Rightarrow> (chan_val, bool js) change" where
  "rollback_change acceptedAmount previousAmount current =
     (case current of
        Some (WatermarkVal w) \<Rightarrow>
          if wm_amount w \<noteq> acceptedAmount \<or> wm_settling w then Noop (Inr False)
          else if previousAmount = ''0'' then Change DeleteOp (Inr True)
          else Change (SetOp (WatermarkVal \<lparr>wm_amount = previousAmount, wm_settling = False\<rparr>)) (Inr True)
      | _ \<Rightarrow> Noop (Inr False))"

definition lock_until :: "string \<Rightarrow> int option \<Rightarrow> int \<Rightarrow> (chan_val, bool js) change" where
  "lock_until lockId acquired now =
     Change (SetOp (LockVal \<lparr>dl_id = lockId, dl_acquiredAt = acquired, dl_expiresAt = Some (now + DELIVERY_LOCK_TTL_MS)\<rparr>))
       (Inr True)"

definition acquire_change :: "string \<Rightarrow> int \<Rightarrow> chan_val option \<Rightarrow> (chan_val, bool js) change" where
  "acquire_change lockId now current =
     (case current of
        Some (LockVal l) \<Rightarrow>
          (case dl_expiresAt l of
             Some e \<Rightarrow> if now < e then Noop (Inr False) else lock_until lockId (Some now) now
           | None \<Rightarrow> lock_until lockId (Some now) now)
      | _ \<Rightarrow> lock_until lockId (Some now) now)"

definition revalidate_change :: "string \<Rightarrow> int \<Rightarrow> chan_val option \<Rightarrow> (chan_val, bool js) change" where
  "revalidate_change lockId now current =
     (case current of
        Some (LockVal l) \<Rightarrow>
          if dl_id l \<noteq> lockId then Noop (Inr False)
          else lock_until lockId (Some (case dl_acquiredAt l of Some t \<Rightarrow> t | None \<Rightarrow> now)) now
      | _ \<Rightarrow> Noop (Inr False))"

definition release_change :: "string \<Rightarrow> chan_val option \<Rightarrow> (chan_val, bool js) change" where
  "release_change lockId current =
     (case current of
        Some (LockVal l) \<Rightarrow> if dl_id l \<noteq> lockId then Noop (Inr False) else Change DeleteOp (Inr True)
      | _ \<Rightarrow> Noop (Inr False))"

fun chan_change :: "chan_upd \<Rightarrow> chan_val option \<Rightarrow> (chan_val, bool js) change" where
  "chan_change (PutVoucher amountDecimal cumulativeRaw signature now) = put_voucher_change amountDecimal cumulativeRaw signature now"
| "chan_change (MarkSettled settledRaw now) = mark_settled_change settledRaw now"
| "chan_change (SetMark now) = (\<lambda>current. Change (SetOp (MarkVal now)) (Inr True))"
| "chan_change CountAbort = count_abort_change"
| "chan_change (WriteOff cumulativeRaw reason now) = write_off_change cumulativeRaw reason now"
| "chan_change (AddWriteoff channelContract cumulativeRaw) = add_writeoff_change channelContract cumulativeRaw"
| "chan_change (Rollback acceptedAmount previousAmount) = rollback_change acceptedAmount previousAmount"
| "chan_change (AcquireLock lockId now) = acquire_change lockId now"
| "chan_change (RevalidateLock lockId now) = revalidate_change lockId now"
| "chan_change (ReleaseLock lockId) = release_change lockId"

subsection \<open>Calls of the store\<close>

definition unexpected :: "'a prog" where
  "unexpected = Throw (JsExn ''unexpected answer'')"

definition store_get :: "string \<Rightarrow> chan_val option prog" where
  "store_get key = Chan (StoreGet key) (\<lambda>a. bind (from_outside a) (\<lambda>x. case x of AValue v \<Rightarrow> Done v | _ \<Rightarrow> unexpected))"

definition store_update :: "string \<Rightarrow> chan_upd \<Rightarrow> bool prog" where
  "store_update key upd =
     Chan (StoreUpdate key upd) (\<lambda>a. bind (from_outside a) (\<lambda>x. case x of ADid b \<Rightarrow> Done b | _ \<Rightarrow> unexpected))"

definition store_delete :: "string \<Rightarrow> unit prog" where
  "store_delete key = Chan (StoreDelete key) (\<lambda>a. bind (from_outside a) (\<lambda>_. Done ()))"

subsection \<open>channel-voucher-store.ts\<close>

definition getLatestVoucher :: "string \<Rightarrow> latest_voucher option prog" where
  "getLatestVoucher channelContract =
     bind (store_get (voucherKey channelContract)) (\<lambda>v. Done (case v of Some (VoucherVal lv) \<Rightarrow> Some lv | _ \<Rightarrow> None))"

definition putLatestVoucher :: "string \<Rightarrow> string \<Rightarrow> string \<Rightarrow> string \<Rightarrow> unit prog" where
  "putLatestVoucher channelContract amountDecimal cumulativeRaw signature =
     bind date_now (\<lambda>now.
     bind (store_update (voucherKey channelContract) (PutVoucher amountDecimal cumulativeRaw signature now)) (\<lambda>_. Done ()))"

definition markVoucherSettled :: "string \<Rightarrow> string \<Rightarrow> unit prog" where
  "markVoucherSettled channelContract settledRaw =
     bind date_now (\<lambda>now. bind (store_update (voucherKey channelContract) (MarkSettled settledRaw now)) (\<lambda>_. Done ()))"

definition markChannelClosed :: "string \<Rightarrow> unit prog" where
  "markChannelClosed channelContract =
     bind date_now (\<lambda>now. bind (store_update (closedKey channelContract) (SetMark now)) (\<lambda>_. Done ()))"

definition isChannelClosed :: "string \<Rightarrow> bool prog" where
  "isChannelClosed channelContract = bind (store_get (closedKey channelContract)) (\<lambda>v. Done (v \<noteq> None))"

text \<open>The loop of \<open>fenceChannelPersistent\<close>, on the attempts left.\<close>

fun fence_attempts :: "nat \<Rightarrow> string \<Rightarrow> bool prog" where
  "fence_attempts 0 channelContract = Done False"
| "fence_attempts (Suc n) channelContract =
     bind date_now (\<lambda>now.
     bind (attempt (store_update (fencedKey channelContract) (SetMark now))) (\<lambda>r.
       case r of Inr _ \<Rightarrow> Done True | Inl _ \<Rightarrow> fence_attempts n channelContract))"

definition fenceChannelPersistent :: "string \<Rightarrow> bool prog" where
  "fenceChannelPersistent channelContract = fence_attempts 3 channelContract"

definition isChannelBlocked :: "string \<Rightarrow> bool prog" where
  "isChannelBlocked channelContract =
     bind (store_get (closedKey channelContract)) (\<lambda>closed.
     bind (store_get (fencedKey channelContract)) (\<lambda>fenced. Done (closed \<noteq> None \<or> fenced \<noteq> None)))"

definition incrSupersededAbort :: "unit prog" where
  "incrSupersededAbort = bind (store_update RECON_SUPERSEDE_KEY CountAbort) (\<lambda>_. Done ())"

definition getSupersededAbortCount :: "int prog" where
  "getSupersededAbortCount =
     bind (store_get RECON_SUPERSEDE_KEY) (\<lambda>v. Done (case v of Some (CountVal n) \<Rightarrow> n | _ \<Rightarrow> 0))"

definition markVoucherWrittenOff :: "string \<Rightarrow> string \<Rightarrow> string \<Rightarrow> unit prog" where
  "markVoucherWrittenOff channelContract cumulativeRaw reason =
     bind date_now (\<lambda>now.
     bind (store_update (writeoffKey channelContract) (WriteOff cumulativeRaw reason now)) (\<lambda>_.
     bind (store_update RECON_WRITEOFF_KEY (AddWriteoff channelContract cumulativeRaw)) (\<lambda>_. Done ())))"

definition getWriteoffTotals :: "(int \<times> string) prog" where
  "getWriteoffTotals =
     bind (store_get RECON_WRITEOFF_KEY) (\<lambda>v.
     Done (case v of Some (TotalsVal t) \<Rightarrow> (wt_count t, wt_totalRaw t) | _ \<Rightarrow> (0, ''0'')))"

definition getVoucherWriteoff :: "string \<Rightarrow> voucher_writeoff option prog" where
  "getVoucherWriteoff channelContract =
     bind (store_get (writeoffKey channelContract)) (\<lambda>v. Done (case v of Some (WriteoffVal w) \<Rightarrow> Some w | _ \<Rightarrow> None))"

subsection \<open>The delivery lock\<close>

definition acquireChannelDeliveryLock :: "string \<Rightarrow> string \<Rightarrow> bool prog" where
  "acquireChannelDeliveryLock channelContract lockId =
     bind date_now (\<lambda>now. store_update (lockKey channelContract) (AcquireLock lockId now))"

definition revalidateChannelDeliveryLock :: "string \<Rightarrow> string \<Rightarrow> bool prog" where
  "revalidateChannelDeliveryLock channelContract lockId =
     bind date_now (\<lambda>now. store_update (lockKey channelContract) (RevalidateLock lockId now))"

definition releaseChannelDeliveryLock :: "string \<Rightarrow> string \<Rightarrow> unit prog" where
  "releaseChannelDeliveryLock channelContract lockId =
     bind (store_update (lockKey channelContract) (ReleaseLock lockId)) (\<lambda>_. Done ())"

text \<open>\<open>String(current?.amount ?? '0')\<close>\<close>

definition watermark_text :: "chan_val option \<Rightarrow> string" where
  "watermark_text v = (case v of Some (WatermarkVal w) \<Rightarrow> wm_amount w | _ \<Rightarrow> ''0'')"

definition rollbackFailedChannelVoucher :: "string \<Rightarrow> string \<Rightarrow> string \<Rightarrow> string \<Rightarrow> bool prog" where
  "rollbackFailedChannelVoucher channelContract acceptedAmount previousAmount challengeId =
     bind (store_update (cumulativeKey channelContract) (Rollback acceptedAmount previousAmount)) (\<lambda>rolledBack.
     if rolledBack then bind (store_delete (challengeKey challengeId)) (\<lambda>_. Done True)
     else bind (store_get (cumulativeKey channelContract)) (\<lambda>current.
          bind (store_get (challengeKey challengeId)) (\<lambda>challenge.
          Done (watermark_text current = previousAmount \<and> challenge = None))))"

end
