(* ===== verification/Channel.thy ===== *)
theory Channel
  imports Vouchers Playground RateLimit
begin

text \<open>
  The payment channels of the playground before any call is made: configuration and prices
  (\<open>src/src/playground/channel-config.ts\<close>), the registry (\<open>channel-pg-store.ts\<close>), address derivation and the signature of a
  registration (\<open>channel-address.ts\<close>, \<open>channel-register-auth.ts\<close>), the check against the chain (\<open>channel-onchain.ts\<close>),
  the close guard (\<open>channel-close-guard.ts\<close>), the offer in a 402 (\<open>channel-offer.ts\<close>) and the dispatch of a voucher
  (\<open>channel-pg-dispatch.ts\<close>).
\<close>

subsection \<open>Environment\<close>

text \<open>
  The variables of the channel surface, and what comes from outside: URL parsing, the credential format of mppx, SHA-256,
  the XDR encodings, StrKey and ed25519 of the Stellar SDK, and \<open>Buffer.from(s, 'base64')\<close>.  \<open>None\<close> is a throw.
\<close>

record cenv =
  ce_env :: penv
  ce_enabled :: "string option"
  ce_network :: string
  ce_factory :: "string option"
  ce_to :: "string option"
  ce_wasm :: "string option"
  ce_signer_secret :: "string option"
  ce_origin :: "string \<Rightarrow> string"
  ce_credential :: "string \<Rightarrow> json option"
  ce_sha256 :: "nat list \<Rightarrow> nat list"
  ce_salt_xdr :: "string \<Rightarrow> nat list \<Rightarrow> nat list option"
  ce_contract_xdr :: "nat list \<Rightarrow> string \<Rightarrow> nat list \<Rightarrow> nat list option"
  ce_contract_str :: "nat list \<Rightarrow> string"
  ce_key_bytes :: "string \<Rightarrow> nat list option"
  ce_ed25519 :: "nat list \<Rightarrow> nat list \<Rightarrow> nat list \<Rightarrow> bool"
  ce_base64 :: "string \<Rightarrow> nat list"
  ce_public_of :: "string \<Rightarrow> string option"

definition USDC_SAC :: "(string \<times> string) list" where
  "USDC_SAC =
     [(''stellar:pubnet'', ''CCW67TSZV3SSS2HXMBQ5JFGCKJNXKZM7UQUWUZPUTHXSTZLEO7SJMI75''),
      (''stellar:testnet'', ''CBIELTK6YBZJU5UP2WWQEUCYKLPU6AUNZ2BQ4WWFEIE3USCIHMXQDAMA'')]"

definition getStellarUsdcSac :: "cenv \<Rightarrow> string" where
  "getStellarUsdcSac ce =
     (let network = (if ce_network ce = [] then ''stellar:pubnet'' else ce_network ce) in
      case map_of USDC_SAC network of Some sac \<Rightarrow> sac | None \<Rightarrow> the (map_of USDC_SAC ''stellar:pubnet''))"

subsection \<open>channel-config.ts\<close>

definition CHANNEL_REFUND_WAITING_PERIOD :: int where "CHANNEL_REFUND_WAITING_PERIOD = 100"
definition CHANNEL_MIN_DEPOSIT_USD :: string where "CHANNEL_MIN_DEPOSIT_USD = ''0.1''"
definition CHANNEL_MIN_DEPOSIT_RAW :: int where "CHANNEL_MIN_DEPOSIT_RAW = projr (parseUsd CHANNEL_MIN_DEPOSIT_USD)"
definition CHANNEL_MAX_DEPOSIT_USD :: string where "CHANNEL_MAX_DEPOSIT_USD = ''10''"
definition CHANNEL_MARKUP_BPS :: int where "CHANNEL_MARKUP_BPS = 1000"
definition CHANNEL_MARKUP_MIN_RAW :: int where "CHANNEL_MARKUP_MIN_RAW = projr (parseUsd ''0.001'')"

definition channelNetworkPassphrase :: "cenv \<Rightarrow> string" where
  "channelNetworkPassphrase ce =
     (if ce_network ce = ''stellar:testnet'' then ''Test SDF Network ; September 2015''
      else ''Public Global Stellar Network ; September 2015'')"

definition channelHorizonUrl :: "cenv \<Rightarrow> string" where
  "channelHorizonUrl ce =
     (case pe_horizon_url (ce_env ce) of
        None \<Rightarrow> DEFAULT_HORIZON_URL
      | Some u \<Rightarrow> if js_trim u = [] then DEFAULT_HORIZON_URL else js_trim u)"

definition applyMarkup :: "int \<Rightarrow> int" where
  "applyMarkup baseRaw =
     (let pct = bigint_div (baseRaw * CHANNEL_MARKUP_BPS) 10000;
          markup = (if CHANNEL_MARKUP_MIN_RAW < pct then pct else CHANNEL_MARKUP_MIN_RAW)
      in baseRaw + markup)"

record channel_price =
  cp_maxUpstreamRaw :: int
  cp_priceRaw :: int

definition blendNarrationMaxRaw :: "int js" where
  "blendNarrationMaxRaw =
     (let t = (case findModel BLEND_SUMMARY_MODEL_ID of Some m \<Rightarrow> m_tier m | None \<Rightarrow> Cheap)
      in parseUsd (TIER_UPSTREAM_BUDGET_USD t))"

definition channelPriceForModel :: "play_model \<Rightarrow> channel_price js" where
  "channelPriceForModel model =
     js_bind (parseUsd (TIER_UPSTREAM_BUDGET_USD (m_tier model))) (\<lambda>maxUpstreamRaw.
     Inr \<lparr>cp_maxUpstreamRaw = maxUpstreamRaw, cp_priceRaw = applyMarkup maxUpstreamRaw\<rparr>)"

definition channelPriceForChip :: "chip \<Rightarrow> channel_price js" where
  "channelPriceForChip c =
     js_bind (parseUsd (cp_budget c)) (\<lambda>budget.
     js_bind (if cp_id c = ''blend-activity'' then js_bind blendNarrationMaxRaw (\<lambda>n. Inr (budget + n)) else Inr budget)
       (\<lambda>maxUpstreamRaw. Inr \<lparr>cp_maxUpstreamRaw = maxUpstreamRaw, cp_priceRaw = applyMarkup maxUpstreamRaw\<rparr>))"

definition channelPlaygroundEnabled :: "cenv \<Rightarrow> bool" where
  "channelPlaygroundEnabled ce \<longleftrightarrow> ce_enabled ce = Some ''true''"

definition address_re :: "char \<Rightarrow> string \<Rightarrow> bool" where
  "address_re kind s \<longleftrightarrow> length s = 56 \<and> hd s = kind \<and> list_all base32_char (tl s)"

definition trimmed_var :: "(string \<Rightarrow> bool) \<Rightarrow> string option \<Rightarrow> string option" where
  "trimmed_var re var =
     (case var of None \<Rightarrow> None | Some s \<Rightarrow> let v = js_trim s in if v \<noteq> [] \<and> re v then Some v else None)"

definition channelFactoryAddress :: "cenv \<Rightarrow> string option" where
  "channelFactoryAddress ce = trimmed_var (address_re (CHR ''C'')) (ce_factory ce)"

definition channelCollector :: "cenv \<Rightarrow> string option" where
  "channelCollector ce = trimmed_var (address_re (CHR ''G'')) (ce_to ce)"

definition channelWasmHash :: "cenv \<Rightarrow> string option" where
  "channelWasmHash ce = trimmed_var tx_hash_re (map_option js_lower (ce_wasm ce))"

definition priceToChannelAmount :: "int \<Rightarrow> string" where
  "priceToChannelAmount priceRaw = formatUsdc7 priceRaw"

definition price_rows :: "channel_price \<Rightarrow> (string \<times> json) list" where
  "price_rows p =
     [(''max_upstream_cost_usd'', usd (cp_maxUpstreamRaw p)),
      (''markup_usd'', usd (cp_priceRaw p - cp_maxUpstreamRaw p)), (''price_usd'', usd (cp_priceRaw p))]"

definition PRICING_NOTE :: string where
  "PRICING_NOTE =
     ''Each call is quoted at the MAX upstream cost the router could pay for that route (the enforced budget ceiling, including the Blend narration call) plus markup, so the charged amount always covers the real cost. The voucher cumulative advances by exactly the charged amount; failed calls are rolled back and never billed.''"

definition channelPricingConfig :: "string option \<Rightarrow> json js" where
  "channelPricingConfig disabledVar =
     js_bind (js_map (\<lambda>m. js_bind (channelPriceForModel m) (\<lambda>p.
       let outage = chatModelsDisabled disabledVar (Some (m_provider m));
           reason = (if \<not> m_available m then m_reason m else if outage then Some CHAT_OUTAGE_REASON else None) in
       Inr (JObj ([(''id'', JStr (m_id m)),
             (''tier'', JStr (case m_tier m of Cheap \<Rightarrow> ''cheap'' | Flagship \<Rightarrow> ''flagship'')),
             (''provider'', JStr (m_provider m))] @ price_rows p @ [(''available'', JBool (m_available m \<and> \<not> outage))] @
             (case reason of None \<Rightarrow> [] | Some s \<Rightarrow> if s = [] then [] else [(''unavailable_reason'', JStr s)])))))
       PLAYGROUND_MODELS) (\<lambda>models.
     js_bind (js_map (\<lambda>c. js_bind (channelPriceForChip c) (\<lambda>p.
       Inr (JObj ([(''id'', JStr (cp_id c)), (''label'', JStr (cp_label c))] @ price_rows p @
             [(''description'', JStr (cp_description c))])))) PLAYGROUND_CHIPS) (\<lambda>chips.
     Inr (JObj [(''models'', JArr models), (''chips'', JArr chips),
       (''pricing'', JObj [(''model'', JStr ''real-cost''),
          (''markup'', JStr ''10% of max upstream cost, minimum $0.001''), (''note'', JStr PRICING_NOTE)])])))"

subsection \<open>channel-pg-store.ts\<close>

definition PG_PROVENANCE_VERSION :: int where "PG_PROVENANCE_VERSION = 1"
definition CHANNEL_PREFIX :: string where "CHANNEL_PREFIX = ''pgChannel:''"
definition AGENT_PREFIX :: string where "AGENT_PREFIX = ''pgAgent:''"

definition getPgChannel :: "string \<Rightarrow> pg_channel option prog" where
  "getPgChannel channelContract =
     Chan (PgGet (CHANNEL_PREFIX @ channelContract)) (\<lambda>a. bind (from_outside a) (\<lambda>x.
       case x of APgChannel c \<Rightarrow> Done c | _ \<Rightarrow> unexpected))"

definition getPgChannelForAgent :: "string \<Rightarrow> string option prog" where
  "getPgChannelForAgent agentAccount =
     Chan (PgAgentGet (AGENT_PREFIX @ agentAccount)) (\<lambda>a. bind (from_outside a) (\<lambda>x.
       case x of APgAgent c \<Rightarrow> Done c | _ \<Rightarrow> unexpected))"

definition putPgChannel :: "pg_channel \<Rightarrow> unit prog" where
  "putPgChannel state =
     Chan (PgPut (CHANNEL_PREFIX @ pc_contract state) state) (\<lambda>a. bind (from_outside a) (\<lambda>_.
     Chan (PgAgentPut (AGENT_PREFIX @ pc_agent state) (pc_contract state)) (\<lambda>a. bind (from_outside a) (\<lambda>_. Done ()))))"

text \<open>The pages of the listing, one after the other, and the record behind each name.\<close>

fun read_channels :: "string list \<Rightarrow> pg_channel list prog" where
  "read_channels [] = Done []"
| "read_channels (name # names) =
     bind (getPgChannel (drop (length CHANNEL_PREFIX) name)) (\<lambda>s.
     bind (read_channels names) (\<lambda>out. Done (case s of Some c \<Rightarrow> c # out | None \<Rightarrow> out)))"

definition listPgChannels :: "pg_channel list prog" where
  "listPgChannels =
     Chan (PgList CHANNEL_PREFIX) (\<lambda>a. bind (from_outside a) (\<lambda>x.
       case x of APgPages pages \<Rightarrow> read_channels (concat pages) | _ \<Rightarrow> unexpected))"

definition pgChannelProvenanceOk :: "pg_channel \<Rightarrow> cenv \<Rightarrow> bool" where
  "pgChannelProvenanceOk state ce =
     (if pc_version state \<noteq> Some PG_PROVENANCE_VERSION then False
      else case (channelCollector ce, channelWasmHash ce) of
        (Some collector, Some wasmHash) \<Rightarrow> pc_to state = collector \<and> js_lower (pc_wasmHash state) = js_lower wasmHash
      | _ \<Rightarrow> False)"

subsection \<open>channel-address.ts\<close>

definition hex_value :: "char \<Rightarrow> nat option" where
  "hex_value c = (let n = (of_char c :: nat) in
     if 48 \<le> n \<and> n \<le> 57 then Some (n - 48)
     else if 97 \<le> n \<and> n \<le> 102 then Some (n - 87)
     else if 65 \<le> n \<and> n \<le> 70 then Some (n - 55) else None)"

text \<open>\<open>Buffer.from(s, 'hex')\<close> and \<open>toString('hex')\<close>.\<close>

fun hex_bytes :: "string \<Rightarrow> nat list" where
  "hex_bytes (a # b # s) =
     (case (hex_value a, hex_value b) of (Some x, Some y) \<Rightarrow> (x * 16 + y) # hex_bytes s | _ \<Rightarrow> [])"
| "hex_bytes _ = []"

definition bytes_hex :: "nat list \<Rightarrow> string" where
  "bytes_hex bytes = concat (map (\<lambda>b. [hex_digit (b div 16), hex_digit (b mod 16)]) bytes)"

definition hex_text :: "nat \<Rightarrow> string \<Rightarrow> bool" where
  "hex_text n s \<longleftrightarrow> length s = n \<and> list_all (\<lambda>c. hex_value c \<noteq> None) s"

definition parseSaltHex :: "json option \<Rightarrow> nat list option" where
  "parseSaltHex salt =
     (case jstring salt of
        None \<Rightarrow> None
      | Some raw \<Rightarrow>
          let s = js_trim raw; t = (if is_prefix ''0x'' s then drop 2 s else s) in
          if hex_text 64 t then Some (hex_bytes t) else None)"

definition deriveChannelAddress :: "cenv \<Rightarrow> string \<Rightarrow> string \<Rightarrow> nat list \<Rightarrow> string \<Rightarrow> string option" where
  "deriveChannelAddress ce factory from' salt passphrase =
     (if length salt \<noteq> 32 then None
      else case ce_salt_xdr ce from' salt of
        None \<Rightarrow> None
      | Some preimage \<Rightarrow>
          (case ce_contract_xdr ce (ce_sha256 ce (utf8 passphrase)) factory (ce_sha256 ce preimage) of
             None \<Rightarrow> None
           | Some contractIdPreimage \<Rightarrow> Some (ce_contract_str ce (ce_sha256 ce contractIdPreimage))))"

subsection \<open>channel-register-auth.ts\<close>

definition CHANNEL_REGISTER_DOMAIN :: string where "CHANNEL_REGISTER_DOMAIN = ''mpprouter.channel-register.v1''"

definition NEWLINE :: string where "NEWLINE = [char_of (10 :: nat)]"

definition SEP53_PREFIX :: string where "SEP53_PREFIX = ''Stellar Signed Message:'' @ NEWLINE"

record register_tuple =
  rt_channel :: string
  rt_commitmentKey :: string
  rt_saltHex :: string
  rt_from :: string

definition channelRegisterMessage :: "register_tuple \<Rightarrow> string" where
  "channelRegisterMessage t =
     sep_by NEWLINE [CHANNEL_REGISTER_DOMAIN, rt_channel t, rt_commitmentKey t, js_lower (rt_saltHex t), rt_from t]"

definition verifyChannelRegisterSignature :: "cenv \<Rightarrow> register_tuple \<Rightarrow> string \<Rightarrow> bool" where
  "verifyChannelRegisterSignature ce t signatureB64 =
     (let sig = ce_base64 ce signatureB64 in
      case ce_key_bytes ce (rt_from t) of
        None \<Rightarrow> False
      | Some key \<Rightarrow>
          if length sig \<noteq> 64 then False
          else let message = utf8 (channelRegisterMessage t) in
            if ce_ed25519 ce key message sig then True
            else ce_ed25519 ce key (ce_sha256 ce (utf8 SEP53_PREFIX @ message)) sig)"

subsection \<open>channel-onchain.ts\<close>

record channel_expectation =
  ex_collector :: string
  ex_usdcSac :: string
  ex_funder :: string
  ex_commitmentKeyG :: string
  ex_refundWaitingPeriod :: int
  ex_minDepositRaw :: int
  ex_wasmHash :: string

text \<open>The reason and detail of the refusal, or none.\<close>

definition checkChannelMatches :: "cenv \<Rightarrow> onchain_channel \<Rightarrow> channel_expectation \<Rightarrow> (string \<times> string) option" where
  "checkChannelMatches ce onchain expected =
     (if ex_wasmHash expected = []
      then Some (''wasm_not_configured'', ''router channel WASM hash is not configured'')
      else if js_lower (oc_wasmHash onchain) \<noteq> js_lower (ex_wasmHash expected)
      then Some (''wasm_mismatch'', ''channel contract WASM hash does not match the router channel contract'')
      else if oc_to onchain \<noteq> ex_collector expected
      then Some (''recipient_mismatch'', ''channel recipient (to) is not the playground collector'')
      else if oc_closeEffectiveAt onchain \<noteq> None
      then Some (''channel_closing'', ''channel is already in close_start / refund pending'')
      else if oc_token onchain \<noteq> ex_usdcSac expected
      then Some (''token_mismatch'', ''channel token is not the pubnet USDC SAC'')
      else if oc_from onchain \<noteq> ex_funder expected
      then Some (''funder_mismatch'', ''channel funder does not match the submitted account'')
      else case ce_key_bytes ce (ex_commitmentKeyG expected) of
        None \<Rightarrow> Some (''invalid_commitment_key'', ''submitted commitment key is not a valid ed25519 public key'')
      | Some key \<Rightarrow>
          if js_lower (oc_commitmentKeyHex onchain) \<noteq> js_lower (bytes_hex key)
          then Some (''commitment_key_mismatch'', ''channel commitment key does not match the submitted key'')
          else if oc_refundWaitingPeriod onchain \<noteq> ex_refundWaitingPeriod expected
          then Some (''refund_period_mismatch'',
                 ''channel refund_waiting_period must be '' @ int_str (ex_refundWaitingPeriod expected))
          else case js_BigInt (oc_balanceRaw onchain) of
            Inl _ \<Rightarrow> Some (''bad_balance'', ''on-chain balance unreadable'')
          | Inr balance \<Rightarrow>
              if balance < ex_minDepositRaw expected
              then Some (''insufficient_deposit'', ''channel is not funded above the minimum deposit'')
              else None)"

definition readChannelOnChain :: "string \<Rightarrow> string \<Rightarrow> onchain_channel prog" where
  "readChannelOnChain channelContract usdcSac =
     Chan (ReadOnChain channelContract usdcSac) (\<lambda>a. bind (from_outside a) (\<lambda>x.
       case x of AOnChain c \<Rightarrow> Done c | _ \<Rightarrow> unexpected))"

subsection \<open>channel-close-guard.ts\<close>

definition CACHE_TTL_MS :: int where "CACHE_TTL_MS = 15000"

definition getChannelState :: "string \<Rightarrow> chan_state prog" where
  "getChannelState channelContract =
     Chan (ReadState channelContract) (\<lambda>a. bind (from_outside a) (\<lambda>x. case x of AState s \<Rightarrow> Done s | _ \<Rightarrow> unexpected))"

definition readCloseState :: "string \<Rightarrow> chan_state prog" where
  "readCloseState channelContract =
     bind date_now (\<lambda>now.
     Chan (CacheGet channelContract) (\<lambda>a. bind (from_outside a) (\<lambda>x.
       let read = bind (getChannelState channelContract) (\<lambda>s.
             let entry = s\<lparr>cs_balance := None\<rparr> in
             Chan (CachePut channelContract entry now) (\<lambda>a. bind (from_outside a) (\<lambda>_. Done entry))) in
       case x of
         ACached (Some (s, fetchedAt)) \<Rightarrow> if now - fetchedAt < CACHE_TTL_MS then Done s else read
       | _ \<Rightarrow> read)))"

definition isClosingOrRefundable :: "chan_state \<Rightarrow> bool" where
  "isClosingOrRefundable state \<longleftrightarrow> cs_closeEffectiveAt state \<noteq> None"

definition channelClosingForSpend :: "string \<Rightarrow> bool prog" where
  "channelClosingForSpend channelContract =
     bind (attempt (readCloseState channelContract)) (\<lambda>r.
     Done (case r of Inr state \<Rightarrow> isClosingOrRefundable state | Inl _ \<Rightarrow> True))"

subsection \<open>channel-offer.ts\<close>

definition CHANNEL_REGISTER_PATH :: string where "CHANNEL_REGISTER_PATH = ''/v1/playground/channel/register''"

definition channelOffer :: "cenv \<Rightarrow> string \<Rightarrow> int option \<Rightarrow> json option" where
  "channelOffer ce origin priceRaw =
     (if \<not> channelPlaygroundEnabled ce then None
      else case (channelFactoryAddress ce, channelCollector ce, channelWasmHash ce) of
        (Some factory, Some collector, Some wasmHash) \<Rightarrow>
          Some (JObj ([(''scheme'', JStr ''channel''), (''network'', JStr (ce_network ce)),
              (''asset'', JStr (getStellarUsdcSac ce)), (''payTo'', JStr collector)] @
            opt_str ''amount'' (map_option int_str priceRaw) @
            [(''extra'', JObj [(''factory'', JStr factory), (''wasmHash'', JStr wasmHash),
               (''refundWaitingPeriodMinLedgers'', JNum (int_str CHANNEL_REFUND_WAITING_PERIOD)),
               (''register'', JStr (origin @ CHANNEL_REGISTER_PATH)), (''minDeposit'', JStr CHANNEL_MIN_DEPOSIT_USD)])]))
      | _ \<Rightarrow> None)"

definition channelOfferEnvelope :: "cenv \<Rightarrow> string \<Rightarrow> int option \<Rightarrow> (string \<times> json) list option" where
  "channelOfferEnvelope ce resourceUrl priceRaw =
     map_option (\<lambda>offer.
       [(''x402Version'', JNum ''2''), (''error'', JStr ''Payment required''),
        (''resource'', JObj [(''url'', JStr resourceUrl)]), (''accepts'', JArr [offer])])
       (channelOffer ce (ce_origin ce resourceUrl) priceRaw)"

text \<open>\<open>s.includes(t)\<close>\<close>

fun text_has :: "string \<Rightarrow> string \<Rightarrow> bool" where
  "text_has [] t = is_prefix t []"
| "text_has (x # s) t = (is_prefix t (x # s) \<or> text_has s t)"

text \<open>\<open>{ ...envelope, ...existing }\<close>, for an empty body the envelope alone; any other body is left alone.\<close>

definition withChannelOffer :: "cenv \<Rightarrow> string \<Rightarrow> int option \<Rightarrow> response \<Rightarrow> response" where
  "withChannelOffer ce resourceUrl priceRaw r =
     (case (channelOfferEnvelope ce resourceUrl priceRaw,
            case rs_body r of JObj fs \<Rightarrow> Some fs | JStr t \<Rightarrow> if js_trim t = [] then Some [] else None | _ \<Rightarrow> None) of
        (Some envelope, Some existing) \<Rightarrow>
          r\<lparr>rs_headers := (case header_of (rs_headers r) ''Content-Type'' of
               Some t \<Rightarrow> if text_has t ''json'' then rs_headers r else set_header ''Content-Type'' ''application/json'' (rs_headers r)
             | None \<Rightarrow> set_header ''Content-Type'' ''application/json'' (rs_headers r)),
            rs_body := JObj (fold (\<lambda>(k, v). AList.update k v) existing envelope)\<rparr>
      | _ \<Rightarrow> r)"

subsection \<open>channel-pg-dispatch.ts\<close>

text \<open>\<open>/^did:pkh:stellar:[^:]+:(G[A-Z2-7]{55})$/\<close>\<close>

definition did_account :: "string \<Rightarrow> string option" where
  "did_account source =
     (case split_on (CHR '':'') source of
        [did, pkh, stellar, network, g] \<Rightarrow>
          if did = ''did'' \<and> pkh = ''pkh'' \<and> stellar = ''stellar'' \<and> network \<noteq> [] \<and> address_re (CHR ''G'') g
          then Some g else None
      | _ \<Rightarrow> None)"

definition payment_scheme :: "string \<Rightarrow> bool" where
  "payment_scheme s \<longleftrightarrow> is_prefix ''payment'' (js_lower s) \<and> drop 7 s \<noteq> [] \<and> is_space (hd (drop 7 s))"

definition extractAgentAccount :: "cenv \<Rightarrow> string option \<Rightarrow> string option" where
  "extractAgentAccount ce authHeader =
     (case authHeader of
        None \<Rightarrow> None
      | Some auth \<Rightarrow>
          let trimmed = js_trim auth in
          if \<not> payment_scheme trimmed then None
          else case ce_credential ce trimmed of
            None \<Rightarrow> None
          | Some credential \<Rightarrow>
              (let challenge = jfield credential ''challenge'' in
               if map_option js_lower (jstring (optional challenge ''method'')) \<noteq> Some ''stellar'' \<or>
                  map_option js_lower (jstring (optional challenge ''intent'')) \<noteq> Some ''channel'' then None
               else case jstring (jfield credential ''source'') of None \<Rightarrow> None | Some source \<Rightarrow> did_account source))"

record resolved_channel =
  rc_contract :: string
  rc_commitmentKey :: string
  rc_agent :: string
  rc_currency :: string
  rc_depositRaw :: string

definition resolvePgChannelMppx :: "cenv \<Rightarrow> string option \<Rightarrow> string option \<Rightarrow> resolved_channel prog" where
  "resolvePgChannelMppx ce authHeader agentHint =
     (let agent = (case extractAgentAccount ce authHeader of Some g \<Rightarrow> Some g | None \<Rightarrow> agentHint) in
      if agent = None \<or> agent = Some []
      then Throw (JsExn (''No stellar.channel credential with parseable source in Authorization header and no ?agent= hint''))
      else let agentAccount = the agent in
        if \<not> address_re (CHR ''G'') agentAccount then Throw (JsExn (''invalid Stellar G address: '' @ agentAccount))
        else bind (getPgChannelForAgent agentAccount) (\<lambda>c.
          if c = None \<or> c = Some [] then Throw (StellarChannelNotRegisteredError agentAccount)
          else bind (getPgChannel (the c)) (\<lambda>s.
            case s of
              None \<Rightarrow> Throw (StellarChannelNotRegisteredError agentAccount)
            | Some state \<Rightarrow>
                if \<not> pgChannelProvenanceOk state ce then Throw (StellarChannelNotRegisteredError agentAccount)
                else Done \<lparr>rc_contract = the c, rc_commitmentKey = pc_commitmentKey state, rc_agent = pc_agent state,
                           rc_currency = pc_currency state, rc_depositRaw = pc_depositRaw state\<rparr>)))"

end
