(* ===== verification/ChannelCall.thy ===== *)
theory ChannelCall
  imports Channel
begin

text \<open>
  The endpoints of the payment channels (\<open>src/src/routes/playground-channel.ts\<close>): the registration of a channel, and the
  metered calls: a voucher is verified under the delivery lock, the merchant is paid, the voucher is kept or the charge
  reversed, and the lock is released whatever happens.  \<open>withReceipt\<close> adds a header to the response, and headers are
  not modelled.
\<close>

record channel_request =
  cq_request :: request
  cq_url :: string
  cq_agent :: "string option"

definition channel_disabled :: response where
  "channel_disabled = fail 404 ''not_found'' ''channel playground is not enabled'' []"

text \<open>\<open>try { p } finally { q }\<close> for a \<open>q\<close> whose failure is ignored.\<close>

definition finally_ignoring :: "'a prog \<Rightarrow> unit prog \<Rightarrow> 'a prog" where
  "finally_ignoring p q = bind (attempt p) (\<lambda>r. bind (attempt q) (\<lambda>_. from_sum r))"

subsection \<open>Registration\<close>

record registration =
  rg_contract :: string
  rg_agent :: string
  rg_key :: string
  rg_collector :: string
  rg_wasm :: string

definition FORMAT_HINT :: "(string \<times> json) list" where
  "FORMAT_HINT =
     (let nl = [char_of (92 :: nat), CHR ''n''] in
      [(''message_format'', JStr (sep_by nl [''mpprouter.channel-register.v1'', ''<channel>'', ''<commitmentKey>'',
          ''<salt hex lowercase>'', ''<from>''])),
       (''accepted_encodings'', JArr [JStr ''raw ed25519 over the UTF-8 message'', JStr ''SEP-53 signed message''])])"

text \<open>Everything that is checked before the first read of a store or the chain.\<close>

definition check_registration :: "cenv \<Rightarrow> json \<Rightarrow> response + registration" where
  "check_registration ce body =
     (let str = (\<lambda>k. jstring (jfield body k));
          c = body_str body ''channel''; agent = body_str body ''from''; key = body_str body ''commitmentKey'';
          currency = body_str body ''token'';
          network = (case str ''network'' of Some s \<Rightarrow> js_trim s | None \<Rightarrow> ce_network ce) in
      if str ''channel_contract'' \<noteq> None \<and> str ''channel'' = None
      then Inl (fail 400 ''legacy_body''
        (''the snake_case register body is no longer accepted; send { channel, commitmentKey, salt, from, signature } (mpp-spec ''
           @ [char_of (167 :: nat)] @ ''3.4)'') [])
      else if \<not> address_re (CHR ''C'') c
      then Inl (fail 400 ''invalid_channel'' ''channel must be a Soroban contract address (C...)'' [])
      else if \<not> address_re (CHR ''G'') agent
      then Inl (fail 400 ''invalid_funder'' ''from must be a Stellar public key (G...)'' [])
      else if \<not> address_re (CHR ''G'') key
      then Inl (fail 400 ''invalid_commitment_key'' ''commitmentKey must be an ed25519 public key (G...)'' [])
      else case parseSaltHex (jfield body ''salt'') of
        None \<Rightarrow> Inl (fail 400 ''invalid_salt'' ''salt must be the 32-byte hex salt passed to factory.open'' [])
      | Some salt \<Rightarrow>
      (case channelFactoryAddress ce of
         None \<Rightarrow> Inl (fail 503 ''factory_not_configured'' ''playground channel factory is not configured'' [])
       | Some factory \<Rightarrow>
      (case deriveChannelAddress ce factory agent salt (channelNetworkPassphrase ce) of
         None \<Rightarrow> Inl (fail 400 ''invalid_funder'' ''from is not a valid Stellar public key (checksum)'' [])
       | Some derived \<Rightarrow>
          if derived \<noteq> c
          then Inl (fail 400 ''address_mismatch'' ''channel is not the address the factory deploys for this from + salt'' [])
          else let signature = body_str body ''signature'' in
          if signature = [] \<or>
             \<not> verifyChannelRegisterSignature ce
                 \<lparr>rt_channel = c, rt_commitmentKey = key, rt_saltHex = bytes_hex salt, rt_from = agent\<rparr> signature
          then Inl (fail 401 ''unauthenticated''
            (''signature is not from'' @ [char_of (39 :: nat)] @ ''s ed25519 signature over the register message'') FORMAT_HINT)
          else (case channelCollector ce of
            None \<Rightarrow> Inl (fail 503 ''collector_not_configured'' ''playground collector account is not configured'' [])
          | Some collector \<Rightarrow>
          (case channelWasmHash ce of
             None \<Rightarrow> Inl (fail 503 ''wasm_not_configured'' ''playground channel WASM hash is not configured'' [])
           | Some wasmHash \<Rightarrow>
               if currency \<noteq> [] \<and> currency \<noteq> getStellarUsdcSac ce
               then Inl (fail 400 ''unsupported_currency'' ''only the pubnet USDC SAC is supported'' [])
               else if network \<noteq> ce_network ce
               then Inl (fail 400 ''network_mismatch'' (''network must be '' @ ce_network ce) [])
               else Inr \<lparr>rg_contract = c, rg_agent = agent, rg_key = key, rg_collector = collector, rg_wasm = wasmHash\<rparr>)))))"

definition register_reply :: "registration \<Rightarrow> bool \<Rightarrow> string \<Rightarrow> response prog" where
  "register_reply rg replayed depositRaw =
     bind (throwing (parseAtomic (Some depositRaw))) (\<lambda>deposit.
     Done (json_response
       [(''ok'', JBool True), (''replayed'', JBool replayed), (''channel'', JStr (rg_contract rg)),
        (''from'', JStr (rg_agent rg)), (''commitmentKey'', JStr (rg_key rg)), (''depositUsd'', usd deposit)] 200))"

definition register_verified :: "cenv \<Rightarrow> registration \<Rightarrow> response prog" where
  "register_verified ce rg =
     bind (attempt (readChannelOnChain (rg_contract rg) (getStellarUsdcSac ce))) (\<lambda>r.
       case r of
         Inl _ \<Rightarrow> Done (fail 502 ''onchain_read_failed'' ''could not read the channel on-chain'' [])
       | Inr onchain \<Rightarrow>
           (case checkChannelMatches ce onchain
               \<lparr>ex_collector = rg_collector rg, ex_usdcSac = getStellarUsdcSac ce, ex_funder = rg_agent rg,
                ex_commitmentKeyG = rg_key rg, ex_refundWaitingPeriod = CHANNEL_REFUND_WAITING_PERIOD,
                ex_minDepositRaw = CHANNEL_MIN_DEPOSIT_RAW, ex_wasmHash = rg_wasm rg\<rparr> of
              Some (reason, detail) \<Rightarrow> Done (fail 400 reason detail [])
            | None \<Rightarrow>
                bind date_now (\<lambda>now.
                bind (putPgChannel
                    \<lparr>pc_contract = rg_contract rg, pc_commitmentKey = rg_key rg, pc_agent = rg_agent rg,
                     pc_currency = getStellarUsdcSac ce, pc_network = ce_network ce, pc_depositRaw = oc_balanceRaw onchain,
                     pc_to = rg_collector rg, pc_wasmHash = rg_wasm rg, pc_version = Some PG_PROVENANCE_VERSION,
                     pc_openedAt = now\<rparr>) (\<lambda>_.
                register_reply rg False (oc_balanceRaw onchain)))))"

definition handleChannelRegister :: "cenv \<Rightarrow> channel_request \<Rightarrow> response prog" where
  "handleChannelRegister ce rq =
     (if \<not> channelPlaygroundEnabled ce then Done channel_disabled
      else let ip = (case rq_ip (cq_request rq) of Some ip \<Rightarrow> ip | None \<Rightarrow> ''unknown'') in
      bind (attempt (bind date_now (\<lambda>t.
          DailySlot (''channel-register:'' @ ip @ '':'' @ utcDateKey t) 30 from_outside))) (\<lambda>rl.
        case rl of
          Inl _ \<Rightarrow> Done (fail 503 ''rate_limit_unavailable'' ''could not check rate limit; try again shortly'' [])
        | Inr (ok, _) \<Rightarrow>
            if \<not> ok then Done (fail 429 ''rate_limited'' ''too many channel registrations from this IP today'' [])
            else (case check_registration ce (readJsonBody (cq_request rq)) of
              Inl resp \<Rightarrow> Done resp
            | Inr rg \<Rightarrow>
                bind (getPgChannel (rg_contract rg)) (\<lambda>existing.
                  case existing of
                    None \<Rightarrow> register_verified ce rg
                  | Some old \<Rightarrow>
                      if pc_agent old \<noteq> rg_agent rg \<or> pc_commitmentKey old \<noteq> rg_key rg
                      then Done (fail 409 ''channel_conflict'' ''this channel is already registered with different parameters'' [])
                      else if pgChannelProvenanceOk old ce then register_reply rg True (pc_depositRaw old)
                      else register_verified ce rg))))"

subsection \<open>Verifying a voucher\<close>

record channel_voucher =
  cv_challengeId :: string
  cv_acceptedAmount :: string
  cv_previousAmount :: string
  cv_close :: bool
  cv_signature :: string

text \<open>From \<open>challenge\<close> and \<open>payload\<close>; a missing one is a \<open>TypeError\<close>, which is caught.\<close>

definition voucher_of :: "json option \<Rightarrow> json option \<Rightarrow> string \<Rightarrow> channel_voucher option" where
  "voucher_of challenge payload previousAmount =
     (case (challenge, payload) of
        (Some ch, Some p) \<Rightarrow>
          if ch = JNull \<or> p = JNull then None
          else Some \<lparr>cv_challengeId = shown (jfield ch ''id''), cv_acceptedAmount = shown (jfield p ''amount''),
                     cv_previousAmount = previousAmount, cv_close = (jfield p ''action'' = Some (JStr ''close'')),
                     cv_signature = (case coalesce (jfield p ''signature'') (Some (JStr [])) of v \<Rightarrow> shown v)\<rparr>
      | _ \<Rightarrow> None)"

definition hook_voucher :: "json option \<Rightarrow> string \<Rightarrow> channel_voucher option" where
  "hook_voucher payment previousAmount =
     voucher_of (optional payment ''challenge'') (optional (optional payment ''credential'') ''payload'') previousAmount"

definition recovered_voucher :: "cenv \<Rightarrow> string \<Rightarrow> string \<Rightarrow> channel_voucher option" where
  "recovered_voucher ce authHeader previousAmount =
     (case ce_credential ce authHeader of
        None \<Rightarrow> None
      | Some credential \<Rightarrow> voucher_of (jfield credential ''challenge'') (jfield credential ''payload'') previousAmount)"

text \<open>The gates under the delivery lock: the lock id and the watermark read, or the refusal.\<close>

definition take_delivery :: "cenv \<Rightarrow> channel_request \<Rightarrow> int \<Rightarrow> resolved_channel \<Rightarrow> (response + (string \<times> string)) prog" where
  "take_delivery ce rq priceRaw resolved =
     (let c = rc_contract resolved in
      bind uuid (\<lambda>lockId.
      bind (acquireChannelDeliveryLock c lockId) (\<lambda>acquired.
      if \<not> acquired
      then Done (Inl (fail 409 ''delivery_in_progress'' ''another channel delivery is in progress'' [(''retry_after'', JNum ''2'')]))
      else bind (isChannelBlocked c) (\<lambda>blocked.
      if blocked
      then bind (releaseChannelDeliveryLock c lockId) (\<lambda>_.
           Done (Inl (fail 410 ''channel_closed'' ''this channel has been settled/closed; open a new one'' [])))
      else bind (channelClosingForSpend c) (\<lambda>closing.
      if closing
      then bind (attempt (fenceChannelPersistent c)) (\<lambda>_. bind (releaseChannelDeliveryLock c lockId) (\<lambda>_.
           Done (Inl (fail 410 ''channel_closing'' ''this channel is closing/refundable; open a new one'' []))))
      else bind (store_get (cumulativeKey c)) (\<lambda>prev.
      let previousAmount = watermark_text prev in
      bind (throwing (parseAtomic (Some previousAmount))) (\<lambda>prevRaw.
      bind (throwing (parseAtomic (Some (rc_depositRaw resolved)))) (\<lambda>depositRaw.
      if depositRaw < prevRaw + priceRaw
      then bind (releaseChannelDeliveryLock c lockId) (\<lambda>_.
           let remaining = (if prevRaw < depositRaw then depositRaw - prevRaw else 0) in
           Done (Inl (withChannelOffer ce (cq_url rq) (Some priceRaw)
             (fail 402 ''insufficient_channel_balance''
                ''this call would exceed the channel deposit; top up or open a new channel''
                [(''remaining_usd'', usd remaining), (''price_usd'', usd priceRaw)]))))
      else Done (Inr (lockId, previousAmount))))))))))"

definition release_if :: "string \<Rightarrow> (string \<times> string) option \<Rightarrow> unit prog" where
  "release_if c held = (case held of None \<Rightarrow> Done () | Some (lockId, _) \<Rightarrow> releaseChannelDeliveryLock c lockId)"

definition authorization :: "channel_request \<Rightarrow> string option" where
  "authorization rq = (case rq_auth (cq_request rq) of Some [] \<Rightarrow> None | a \<Rightarrow> a)"

record verified_call =
  vc_contract :: string
  vc_voucher :: channel_voucher
  vc_lockId :: string

definition verify_credential ::
    "cenv \<Rightarrow> channel_request \<Rightarrow> int \<Rightarrow> string \<Rightarrow> resolved_channel \<Rightarrow> (string \<times> string) option \<Rightarrow> (response + verified_call) prog" where
  "verify_credential ce rq priceRaw reference resolved held =
     (let c = rc_contract resolved in
      bind (attempt (Chan (VerifyVoucher
          \<lparr>vr_channel = c, vr_commitmentKey = rc_commitmentKey resolved, vr_amount = priceToChannelAmount priceRaw,
           vr_reference = reference, vr_authorization = rq_auth (cq_request rq)\<rparr>)
          (\<lambda>a. bind (from_outside a) (\<lambda>x. case x of AVerify v \<Rightarrow> Done v | _ \<Rightarrow> unexpected)))) (\<lambda>r.
        case r of
          Inl e \<Rightarrow> bind (release_if c held) (\<lambda>_. Done (Inl (fail 402 ''voucher_verification_failed'' (exn_message e) [])))
        | Inr (Challenged headers challenge) \<Rightarrow>
            bind (release_if c held) (\<lambda>_.
            Done (Inl (withChannelOffer ce (cq_url rq) (Some priceRaw) \<lparr>rs_status = 402, rs_headers = headers, rs_body = challenge\<rparr>)))
        | Inr (Accepted payment) \<Rightarrow>
            (case held of
               None \<Rightarrow> Done (Inl (fail 503 ''delivery_stopped'' ''voucher verified but capture failed; no upstream call made'' []))
             | Some (lockId, previousAmount) \<Rightarrow>
                 (let voucher = (case hook_voucher payment previousAmount of
                       Some v \<Rightarrow> Some v
                     | None \<Rightarrow> recovered_voucher ce (the (authorization rq)) previousAmount) in
                  case voucher of
                    None \<Rightarrow> bind (releaseChannelDeliveryLock c lockId) (\<lambda>_.
                      Done (Inl (fail 503 ''delivery_stopped'' ''voucher verified but capture failed; no upstream call made'' [])))
                  | Some v \<Rightarrow>
                      if cv_close v
                      then bind (attempt (rollbackFailedChannelVoucher c (cv_acceptedAmount v) (cv_previousAmount v) (cv_challengeId v))) (\<lambda>_.
                           bind (releaseChannelDeliveryLock c lockId) (\<lambda>_.
                           Done (Inl (fail 400 ''close_not_metered'' ''close vouchers are not accepted on metered call endpoints'' []))))
                      else Done (Inr \<lparr>vc_contract = c, vc_voucher = v, vc_lockId = lockId\<rparr>)))))"

definition verifyChannelVoucher :: "cenv \<Rightarrow> channel_request \<Rightarrow> int \<Rightarrow> string \<Rightarrow> (response + verified_call) prog" where
  "verifyChannelVoucher ce rq priceRaw reference =
     bind (attempt (resolvePgChannelMppx ce (rq_auth (cq_request rq)) (cq_agent rq))) (\<lambda>r.
       case r of
         Inl (StellarChannelNotRegisteredError g) \<Rightarrow>
           Done (Inl (withChannelOffer ce (cq_url rq) (Some priceRaw)
             (fail 402 ''channel_not_registered'' (exn_message (StellarChannelNotRegisteredError g))
               [(''hint'', JStr ''Open a channel and POST /v1/playground/channel/register first.'')])))
       | Inl e \<Rightarrow> Done (Inl (fail 400 ''channel_unresolved'' (exn_message e) []))
       | Inr resolved \<Rightarrow>
           if authorization rq = None then verify_credential ce rq priceRaw reference resolved None
           else bind (take_delivery ce rq priceRaw resolved) (\<lambda>d.
             case d of
               Inl resp \<Rightarrow> Done (Inl resp)
             | Inr held \<Rightarrow> verify_credential ce rq priceRaw reference resolved (Some held)))"

subsection \<open>Reversing and keeping a charge\<close>

definition rollback_voucher :: "string \<Rightarrow> channel_voucher \<Rightarrow> bool prog" where
  "rollback_voucher c v = rollbackFailedChannelVoucher c (cv_acceptedAmount v) (cv_previousAmount v) (cv_challengeId v)"

definition reverseChargeOrFence :: "string \<Rightarrow> channel_voucher \<Rightarrow> unit prog" where
  "reverseChargeOrFence c voucher =
     bind (attempt (rollback_voucher c voucher)) (\<lambda>r.
     if r = Inr True then Done ()
     else bind (attempt (markChannelClosed c)) (\<lambda>_. bind (fenceChannelPersistent c) (\<lambda>_. Done ())))"

datatype coverage = Covered | NotCovered | Unknown

definition checkCovered :: "string \<Rightarrow> int \<Rightarrow> coverage prog" where
  "checkCovered c cumulativeRaw =
     bind (attempt (bind (getLatestVoucher c) (\<lambda>v.
       case v of
         None \<Rightarrow> Done NotCovered
       | Some lv \<Rightarrow> bind (throwing (js_BigInt (lv_cumulativeRaw lv))) (\<lambda>stored.
           Done (if cumulativeRaw \<le> stored then Covered else NotCovered))))) (\<lambda>r.
     Done (case r of Inr cov \<Rightarrow> cov | Inl _ \<Rightarrow> Unknown))"

definition absorbPaidCallAndFence :: "string \<Rightarrow> channel_voucher \<Rightarrow> unit prog" where
  "absorbPaidCallAndFence c voucher =
     bind (attempt incrSupersededAbort) (\<lambda>_.
     bind (fenceChannelPersistent c) (\<lambda>fenced.
     if \<not> fenced then Done ()
     else bind (attempt (rollback_voucher c voucher)) (\<lambda>_. Done ())))"

text \<open>\<open>True\<close> is \<open>'committed'\<close>, \<open>False\<close> is \<open>'reversed'\<close>.\<close>

definition persistVoucherOrReverse :: "string \<Rightarrow> channel_voucher \<Rightarrow> bool prog" where
  "persistVoucherOrReverse c voucher =
     (if cv_signature voucher = [] then bind (absorbPaidCallAndFence c voucher) (\<lambda>_. Done False)
      else bind (throwing (parseAtomic (Some (cv_acceptedAmount voucher)))) (\<lambda>ourCumulative.
        bind (attempt (putLatestVoucher c (formatUsd ourCumulative) (cv_acceptedAmount voucher) (cv_signature voucher))) (\<lambda>r.
          case r of
            Inr _ \<Rightarrow> Done True
          | Inl _ \<Rightarrow>
              bind (checkCovered c ourCumulative) (\<lambda>cov.
              if cov = Covered then Done True
              else bind (absorbPaidCallAndFence c voucher) (\<lambda>_. Done False)))))"

definition not_charged :: "string \<Rightarrow> (string \<times> json) list" where
  "not_charged cid = [(''call_id'', JStr cid), (''charged_usd'', JStr ''0.00'')]"

definition settlementFailed :: "string \<Rightarrow> response" where
  "settlementFailed cid =
     fail 502 ''settlement_persist_failed'' ''could not persist the settlement voucher; the charge was reversed'' (not_charged cid)"

definition commitPaidVoucher :: "string \<Rightarrow> channel_voucher \<Rightarrow> string \<Rightarrow> string \<Rightarrow> response option prog" where
  "commitPaidVoucher c voucher lockId cid =
     bind (revalidateChannelDeliveryLock c lockId) (\<lambda>ours.
     if ours
     then bind (persistVoucherOrReverse c voucher) (\<lambda>committed.
          Done (if committed then None else Some (settlementFailed cid)))
     else bind (throwing (parseAtomic (Some (cv_acceptedAmount voucher)))) (\<lambda>ourCumulative.
          bind (checkCovered c ourCumulative) (\<lambda>cov.
          if cov = Covered then Done None
          else bind (absorbPaidCallAndFence c voucher) (\<lambda>_.
               Done (Some (fail 409 ''lock_superseded_after_pay''
                 ''this call was superseded after payment; you were not charged'' (not_charged cid)))))))"

definition pricingFields :: "int \<Rightarrow> int \<Rightarrow> string option \<Rightarrow> (string \<times> json) list" where
  "pricingFields priceRaw maxUpstreamRaw upstreamCostRaw =
     (let realCostRaw = (case upstreamCostRaw of
            Some s \<Rightarrow> if digits_re s then int (dec_val s) * 10 else maxUpstreamRaw
          | None \<Rightarrow> maxUpstreamRaw) in
      [(''charged_usd'', usd priceRaw), (''upstream_cost_usd'', usd realCostRaw),
       (''markup_usd'', usd (priceRaw - maxUpstreamRaw))])"

definition CHARGED_NOTE :: "(string \<times> json) list" where
  "CHARGED_NOTE = [(''support_note'',
     JStr ''The upstream provider was paid but did not return a usable result, so this call was charged.'')]"

definition as_upstream :: "exn \<Rightarrow> string \<times> int \<times> string \<times> evidence" where
  "as_upstream e =
     (case e of
        UpstreamError code status message ev \<Rightarrow> (code, status, message, ev)
      | _ \<Rightarrow> (''upstream_error'', 502, exn_message e, EvNo))"

subsection \<open>The metered call\<close>

text \<open>After the payment: the voucher is kept before the body is looked at.\<close>

definition deliver ::
    "verified_call \<Rightarrow> string \<Rightarrow> int \<Rightarrow> int \<Rightarrow> (json \<Rightarrow> (string \<times> json) list option prog) \<Rightarrow> json \<Rightarrow> string option \<Rightarrow> response prog" where
  "deliver vc cid priceRaw maxUpstreamRaw buildBody value cost =
     bind (commitPaidVoucher (vc_contract vc) (vc_voucher vc) (vc_lockId vc) cid) (\<lambda>r.
       case r of
         Some resp \<Rightarrow> Done resp
       | None \<Rightarrow>
           bind (attempt (buildBody value)) (\<lambda>b.
           Done (case b of
             Inr (Some bodyFields) \<Rightarrow>
               json_response ([(''call_id'', JStr cid)] @ bodyFields @ pricingFields priceRaw maxUpstreamRaw cost) 200
           | _ \<Rightarrow> fail 502 ''upstream_empty'' ''upstream was paid but returned no usable result''
                   ([(''call_id'', JStr cid)] @ pricingFields priceRaw maxUpstreamRaw cost @ CHARGED_NOTE))))"

definition upstream_failed :: "verified_call \<Rightarrow> string \<Rightarrow> int \<Rightarrow> int \<Rightarrow> exn \<Rightarrow> response prog" where
  "upstream_failed vc cid priceRaw maxUpstreamRaw e =
     (case as_upstream e of (code, status, message, ev) \<Rightarrow>
        if ev = EvYes
        then bind (commitPaidVoucher (vc_contract vc) (vc_voucher vc) (vc_lockId vc) cid) (\<lambda>r.
          Done (case r of
            Some resp \<Rightarrow> resp
          | None \<Rightarrow> fail status code message
              ([(''call_id'', JStr cid)] @ pricingFields priceRaw maxUpstreamRaw None @ CHARGED_NOTE)))
        else bind (reverseChargeOrFence (vc_contract vc) (vc_voucher vc)) (\<lambda>_.
          Done (fail status code message (not_charged cid))))"

definition paid_section ::
    "verified_call \<Rightarrow> string \<Rightarrow> int \<Rightarrow> int \<Rightarrow> (json \<times> bool \<times> string option) prog
      \<Rightarrow> (json \<Rightarrow> (string \<times> json) list option prog) \<Rightarrow> response prog" where
  "paid_section vc cid priceRaw maxUpstreamRaw doUpstream buildBody =
     bind (revalidateChannelDeliveryLock (vc_contract vc) (vc_lockId vc)) (\<lambda>ours.
     if \<not> ours
     then bind (reverseChargeOrFence (vc_contract vc) (vc_voucher vc)) (\<lambda>_.
          Done (fail 409 ''lock_superseded'' ''this call was superseded before payment; you were not charged''
            (not_charged cid)))
     else bind (attempt doUpstream) (\<lambda>up.
       case up of
         Inl e \<Rightarrow> upstream_failed vc cid priceRaw maxUpstreamRaw e
       | Inr (value, paid, cost) \<Rightarrow>
           if \<not> paid
           then bind (reverseChargeOrFence (vc_contract vc) (vc_voucher vc)) (\<lambda>_.
                Done (fail 502 ''upstream_unpaid'' ''the call did not complete a payment; you were not charged''
                  (not_charged cid)))
           else deliver vc cid priceRaw maxUpstreamRaw buildBody value cost))"

definition executeMeteredChannelCall ::
    "cenv \<Rightarrow> channel_request \<Rightarrow> string \<Rightarrow> channel_price \<Rightarrow> (json \<times> bool \<times> string option) prog
      \<Rightarrow> (json \<Rightarrow> (string \<times> json) list option prog) \<Rightarrow> response prog" where
  "executeMeteredChannelCall ce rq cid price doUpstream buildBody =
     bind (verifyChannelVoucher ce rq (cp_priceRaw price) cid) (\<lambda>v.
       case v of
         Inl resp \<Rightarrow> Done resp
       | Inr vc \<Rightarrow>
           finally_ignoring (paid_section vc cid (cp_priceRaw price) (cp_maxUpstreamRaw price) doUpstream buildBody)
             (releaseChannelDeliveryLock (vc_contract vc) (vc_lockId vc)))"

subsection \<open>Chat\<close>

definition chat_result :: "play_model \<Rightarrow> json \<Rightarrow> (string \<times> json) list option prog" where
  "chat_result model value =
     bind (completion_text value) (\<lambda>t.
     Done (case t of
       Some s \<Rightarrow> if s = [] then None else Some [(''message'', JStr s), (''model'', JStr (m_id model))]
     | None \<Rightarrow> None))"

definition handleChannelChat :: "cenv \<Rightarrow> channel_request \<Rightarrow> response prog" where
  "handleChannelChat ce rq =
     (let env = ce_env ce; outage = fail 503 ''model_unavailable'' CHAT_OUTAGE_REASON [] in
      if \<not> channelPlaygroundEnabled ce then Done channel_disabled
      else if chatModelsDisabled (pe_chat_disabled env) None then Done outage
      else let body = readJsonBody (cq_request rq) in
      bind (callId body) (\<lambda>c.
        case c of
          None \<Rightarrow> Done BAD_CALL_ID
        | Some cid \<Rightarrow>
            (case assertModelCallable (jfield body ''model'') of
               Inl (ModelNotAllowedError code message) \<Rightarrow>
                 Done (fail 400 code message
                   [(''allowed_models'', JArr (map (\<lambda>m. JStr (m_id m)) (filter m_available PLAYGROUND_MODELS)))])
             | Inl e \<Rightarrow> Throw e
             | Inr model \<Rightarrow>
                 if chatModelsDisabled (pe_chat_disabled env) (Some (m_provider model)) then Done outage
                 else (case sanitizeMessages (jfield body ''messages'') of
                   Inl complaint \<Rightarrow> Done (fail 400 ''invalid_request'' complaint [])
                 | Inr messages \<Rightarrow>
                     (case resolvePlaygroundRoute env (m_path model) (m_method model) of
                        Inl e \<Rightarrow> Done (route_failure e)
                      | Inr route \<Rightarrow>
                          bind (throwing (channelPriceForModel model)) (\<lambda>price.
                          executeMeteredChannelCall ce rq cid price
                            (bind (throwing (parseUsd (TIER_UPSTREAM_BUDGET_USD (m_tier model)))) (\<lambda>budget.
                              callUpstreamJson env route [] (Some (chat_body model messages)) (Some budget)))
                            (chat_result model)))))))"

subsection \<open>Blend activity\<close>

definition blend_result :: "cenv \<Rightarrow> scval \<Rightarrow> string \<Rightarrow> json \<Rightarrow> (string \<times> json) list option prog" where
  "blend_result ce sc dash raw =
     (let agg = aggregateBlendEvents sc (extractEvents raw) BLEND_MAIN_POOL_CONTRACT_ID in
      bind (narration (ce_env ce) agg (describeAggregate dash agg)) (\<lambda>summary.
      Done (Some [(''summary'', JStr summary),
        (''events_table'', JObj
          [(''contract_id'', JStr (ba_contract agg)), (''events_examined'', jnat (ba_examined agg)),
           (''ledger_range'', range_json agg), (''rows'', JArr (map row_json (ba_rows agg)))])])))"

definition handleChannelBlendActivity :: "cenv \<Rightarrow> scval \<Rightarrow> string \<Rightarrow> channel_request \<Rightarrow> response prog" where
  "handleChannelBlendActivity ce sc dash rq =
     (let env = ce_env ce in
      if \<not> channelPlaygroundEnabled ce then Done channel_disabled
      else bind (callId (readJsonBody (cq_request rq))) (\<lambda>c.
        case c of
          None \<Rightarrow> Done BAD_CALL_ID
        | Some cid \<Rightarrow>
            bind (throwing (channelPriceForChip BLEND_CHIP)) (\<lambda>price.
            case resolvePlaygroundRoute env ''/v1/services/mercury/events/by-contract'' MethodGet of
              Inl e \<Rightarrow> Done (route_failure e)
            | Inr route \<Rightarrow>
                executeMeteredChannelCall ce rq cid price
                  (bind (throwing (parseUsd (cp_budget BLEND_CHIP))) (\<lambda>budget.
                    callUpstreamJson env route
                      [(''contract_id'', BLEND_MAIN_POOL_CONTRACT_ID), (''limit'', int_str BLEND_EVENT_LIMIT)]
                      None (Some budget)))
                  (blend_result ce sc dash))))"

subsection \<open>Transaction decoding\<close>

definition handleChannelTxDecode :: "cenv \<Rightarrow> channel_request \<Rightarrow> response prog" where
  "handleChannelTxDecode ce rq =
     (let env = ce_env ce; body = readJsonBody (cq_request rq) in
      if \<not> channelPlaygroundEnabled ce then Done channel_disabled
      else bind (callId body) (\<lambda>c.
        case c of
          None \<Rightarrow> Done BAD_CALL_ID
        | Some cid \<Rightarrow>
            let txHash = js_lower (body_str body ''tx_hash'') in
            if \<not> tx_hash_re txHash
            then Done (fail 400 ''invalid_request'' ''tx_hash must be a 64-character hex transaction hash'' [])
            else bind (throwing (channelPriceForChip TX_CHIP)) (\<lambda>price.
              case resolvePlaygroundRoute env ''/v1/services/mercury/txs/by-hash'' MethodGet of
                Inl e \<Rightarrow> Done (route_failure e)
              | Inr route \<Rightarrow>
                  executeMeteredChannelCall ce rq cid price
                    (bind (throwing (parseUsd (cp_budget TX_CHIP))) (\<lambda>budget.
                      callUpstreamJson env route [(''tx_hash'', txHash)] None (Some budget)))
                    (\<lambda>result. Done (Some [(''tx_hash'', JStr txHash), (''transaction'', result)])))))"

end
