(* ===== verification/ChannelSettle.thy ===== *)
theory ChannelSettle
  imports ChannelCall
begin

text \<open>
  The collection of what was spent (\<open>src/src/playground/channel-settle.ts\<close>): the cron job that closes channels on chain
  with their latest voucher, under the same delivery lock as the calls.
\<close>

definition SETTLE_THRESHOLD_RAW :: int where "SETTLE_THRESHOLD_RAW = projr (parseUsd ''0.2'')"

definition decodeVoucherSignature :: "cenv \<Rightarrow> string \<Rightarrow> nat list prog" where
  "decodeVoucherSignature ce sig =
     (let s = js_trim sig in
      if hex_text 128 s then Done (hex_bytes s)
      else let buf = ce_base64 ce s in
        if length buf \<noteq> 64
        then Throw (JsExn (''voucher signature is not 64 bytes (got '' @ nat_str (length buf) @ '')''))
        else Done buf)"

definition collectorKeyMatches :: "cenv \<Rightarrow> bool" where
  "collectorKeyMatches ce \<longleftrightarrow>
     (case (ce_signer_secret ce, channelCollector ce) of
        (Some secret, Some collector) \<Rightarrow> secret \<noteq> [] \<and> ce_public_of ce secret = Some collector
      | _ \<Rightarrow> False)"

text \<open>\<open>BigInt(balance) === 0n\<close>, false on what is missing or is not a number.\<close>

definition channelBalanceIsZero :: "json option \<Rightarrow> bool" where
  "channelBalanceIsZero balance \<longleftrightarrow>
     (case balance of
        Some (JNum s) \<Rightarrow> js_BigInt s = Inr 0
      | Some (JStr s) \<Rightarrow> js_BigInt s = Inr 0
      | _ \<Rightarrow> False)"

definition WRITEOFF_REASON :: string where "WRITEOFF_REASON = ''funder refunded before collection''"

definition writeOffRefundedChannel :: "string \<Rightarrow> int \<Rightarrow> unit prog" where
  "writeOffRefundedChannel c cumulativeRaw =
     bind (markVoucherWrittenOff c (int_str cumulativeRaw) WRITEOFF_REASON) (\<lambda>_.
     markVoucherSettled c (int_str cumulativeRaw))"

text \<open>\<open>s.includes(t)\<close>\<close>

definition submit_close :: "close_call \<Rightarrow> string prog" where
  "submit_close cc =
     Chan (CloseOnChain cc) (\<lambda>a. bind (from_outside a) (\<lambda>x. case x of ATx t \<Rightarrow> Done t | _ \<Rightarrow> unexpected))"

text \<open>The close itself, once the channel is marked.\<close>

definition close_channel :: "cenv \<Rightarrow> string \<Rightarrow> latest_voucher \<Rightarrow> int \<Rightarrow> string option prog" where
  "close_channel ce c voucher cumulativeRaw =
     bind (decodeVoucherSignature ce (lv_signature voucher)) (\<lambda>signature.
     bind (attempt (submit_close \<lparr>cc_channel = c, cc_amount = cumulativeRaw, cc_signature = signature\<rparr>)) (\<lambda>r.
       case r of
         Inl e \<Rightarrow>
           if text_has (exn_message e) ''balance is not sufficient''
           then bind (writeOffRefundedChannel c cumulativeRaw) (\<lambda>_. Done None)
           else Throw e
       | Inr txHash \<Rightarrow> bind (markVoucherSettled c (int_str cumulativeRaw)) (\<lambda>_. Done (Some txHash))))"

text \<open>From the voucher read under the lock to the close.\<close>

definition settle_due :: "cenv \<Rightarrow> string \<Rightarrow> string \<Rightarrow> latest_voucher \<Rightarrow> chan_state \<Rightarrow> string option prog" where
  "settle_due ce c lockId voucher state =
     (let closing = cs_closeEffectiveAt state \<noteq> None in
      bind (if closing then bind (fenceChannelPersistent c) (\<lambda>_. Done ()) else Done ()) (\<lambda>_.
      bind (throwing (js_BigInt (lv_cumulativeRaw voucher))) (\<lambda>cumulativeRaw.
      bind (throwing (js_BigInt (lv_lastSettledRaw voucher))) (\<lambda>settled.
      let unsettled = cumulativeRaw - settled in
      if unsettled \<le> 0 then Done None
      else if \<not> closing \<and> unsettled < SETTLE_THRESHOLD_RAW then Done None
      else bind (revalidateChannelDeliveryLock c lockId) (\<lambda>ours.
        if \<not> ours then Done None
        else bind (markChannelClosed c) (\<lambda>_.
             bind (fenceChannelPersistent c) (\<lambda>_.
             if closing \<and> channelBalanceIsZero (cs_balance state)
             then bind (writeOffRefundedChannel c cumulativeRaw) (\<lambda>_. Done None)
             else close_channel ce c voucher cumulativeRaw)))))))"

definition settleOneChannel :: "cenv \<Rightarrow> string \<Rightarrow> string option prog" where
  "settleOneChannel ce c =
     bind uuid (\<lambda>lockId.
     bind (acquireChannelDeliveryLock c lockId) (\<lambda>acquired.
     if \<not> acquired then Done None
     else finally_ignoring
       (bind (getLatestVoucher c) (\<lambda>v.
         case v of
           None \<Rightarrow> Done None
         | Some voucher \<Rightarrow> bind (getChannelState c) (\<lambda>state. settle_due ce c lockId voucher state)))
       (releaseChannelDeliveryLock c lockId)))"

text \<open>The body of the loop; its failure is logged.\<close>

definition settle_if_due :: "cenv \<Rightarrow> pg_channel \<Rightarrow> unit prog" where
  "settle_if_due ce state =
     (let c = pc_contract state in
      if \<not> pgChannelProvenanceOk state ce then Done ()
      else bind (getLatestVoucher c) (\<lambda>v.
        case v of
          None \<Rightarrow> Done ()
        | Some voucher \<Rightarrow>
            bind (throwing (js_BigInt (lv_cumulativeRaw voucher))) (\<lambda>cumulativeRaw.
            bind (throwing (js_BigInt (lv_lastSettledRaw voucher))) (\<lambda>settled.
            bind (if cumulativeRaw - settled \<le> 0 then isChannelBlocked c else Done False) (\<lambda>skip.
            if skip then Done () else bind (settleOneChannel ce c) (\<lambda>_. Done ()))))))"

fun settle_all :: "cenv \<Rightarrow> pg_channel list \<Rightarrow> unit prog" where
  "settle_all ce [] = Done ()"
| "settle_all ce (state # states) = bind (attempt (settle_if_due ce state)) (\<lambda>_. settle_all ce states)"

definition settlePlaygroundChannels :: "cenv \<Rightarrow> unit prog" where
  "settlePlaygroundChannels ce =
     (if \<not> channelPlaygroundEnabled ce then Done ()
      else if ce_signer_secret ce = None \<or> ce_signer_secret ce = Some [] then Done ()
      else if \<not> collectorKeyMatches ce then Done ()
      else bind (attempt listPgChannels) (\<lambda>r.
        case r of Inl _ \<Rightarrow> Done () | Inr channels \<Rightarrow> settle_all ce channels))"

end
