(* ===== verification/VoucherProps.thy ===== *)
theory VoucherProps
  imports Vouchers
begin

text \<open>
  The store of the channels as a machine: \<open>upd_ok\<close> says which function is passed to \<open>update\<close> with which key, \<open>chan_write\<close>
  is every write anybody may make, and the lemmas say what all such writes keep: the shape of the values, the books
  of written-off debt, the order of the vouchers, the marks.
\<close>

subsection \<open>Keys and numbers\<close>

definition pg_key :: "string \<Rightarrow> bool" where "pg_key key \<longleftrightarrow> is_prefix ''pg:channel:'' key"
definition voucher_key :: "string \<Rightarrow> bool" where "voucher_key key \<longleftrightarrow> is_prefix ''pg:channel:voucher:'' key"
definition mark_key :: "string \<Rightarrow> bool" where
  "mark_key key \<longleftrightarrow> is_prefix ''pg:channel:closed:'' key \<or> is_prefix ''pg:channel:fenced:'' key"
definition writeoff_key :: "string \<Rightarrow> bool" where "writeoff_key key \<longleftrightarrow> is_prefix ''pg:channel:writeoff:'' key"

lemma is_prefix_split: "is_prefix p s \<Longrightarrow> \<exists>r. s = p @ r"
  by (induction p s rule: is_prefix.induct) auto

lemma key_kinds [simp]:
  "pg_key (voucherKey c)" "pg_key (closedKey c)" "pg_key (fencedKey c)" "pg_key (writeoffKey c)"
  "pg_key RECON_SUPERSEDE_KEY" "pg_key RECON_WRITEOFF_KEY"
  "\<not> pg_key (lockKey c)" "\<not> pg_key (cumulativeKey c)" "\<not> pg_key (challengeKey c)"
  "voucher_key (voucherKey c)" "mark_key (closedKey c)" "mark_key (fencedKey c)" "writeoff_key (writeoffKey c)"
  by (simp_all add: pg_key_def voucher_key_def mark_key_def writeoff_key_def key_defs)

lemma key_disjoint [simp]:
  "\<not> mark_key (voucherKey c)" "\<not> writeoff_key (voucherKey c)" "voucherKey c \<noteq> RECON_SUPERSEDE_KEY"
  "voucherKey c \<noteq> RECON_WRITEOFF_KEY"
  "\<not> voucher_key (closedKey c)" "\<not> writeoff_key (closedKey c)" "closedKey c \<noteq> RECON_SUPERSEDE_KEY"
  "closedKey c \<noteq> RECON_WRITEOFF_KEY"
  "\<not> voucher_key (fencedKey c)" "\<not> writeoff_key (fencedKey c)" "fencedKey c \<noteq> RECON_SUPERSEDE_KEY"
  "fencedKey c \<noteq> RECON_WRITEOFF_KEY"
  "\<not> voucher_key (writeoffKey c)" "\<not> mark_key (writeoffKey c)" "writeoffKey c \<noteq> RECON_SUPERSEDE_KEY"
  "writeoffKey c \<noteq> RECON_WRITEOFF_KEY"
  "\<not> voucher_key RECON_SUPERSEDE_KEY" "\<not> mark_key RECON_SUPERSEDE_KEY" "\<not> writeoff_key RECON_SUPERSEDE_KEY"
  "\<not> voucher_key RECON_WRITEOFF_KEY" "\<not> mark_key RECON_WRITEOFF_KEY" "\<not> writeoff_key RECON_WRITEOFF_KEY"
  "RECON_SUPERSEDE_KEY \<noteq> RECON_WRITEOFF_KEY" "RECON_WRITEOFF_KEY \<noteq> RECON_SUPERSEDE_KEY"
  by (simp_all add: voucher_key_def mark_key_def writeoff_key_def key_defs)

lemma key_kinds_pg: "voucher_key key \<Longrightarrow> pg_key key" "mark_key key \<Longrightarrow> pg_key key" "writeoff_key key \<Longrightarrow> pg_key key"
  by (auto simp: pg_key_def voucher_key_def mark_key_def writeoff_key_def dest!: is_prefix_split)

text \<open>The number a text is for \<open>BigInt\<close>.\<close>

definition is_num :: "string \<Rightarrow> bool" where "is_num s \<longleftrightarrow> (\<exists>n. js_BigInt s = Inr n)"
definition num :: "string \<Rightarrow> int" where "num s = (case js_BigInt s of Inr n \<Rightarrow> n | Inl _ \<Rightarrow> 0)"

lemma is_num_BigInt: "is_num s \<Longrightarrow> js_BigInt s = Inr (num s)"
  by (auto simp: is_num_def num_def)

lemma num_BigInt: "js_BigInt s = Inr n \<Longrightarrow> is_num s \<and> num s = n"
  by (auto simp: is_num_def num_def)

lemma js_BigInt_int_re: "int_re s \<Longrightarrow> js_BigInt s = Inr (bigint_of s)"
proof -
  assume s: "int_re s"
  obtain c r where cr: "s = c # r" using s by (cases s) (auto simp: int_re_def)
  have "is_digit (last s)"
    using s by (auto simp: int_re_def cr all_digits_def list_all_iff Let_def split: if_splits)
  moreover have "\<not> is_space c" using s by (auto simp: int_re_def cr Let_def split: if_splits)
  ultimately have "js_trim s = s" by (intro js_trim_id) (auto simp: cr)
  with s show ?thesis by (simp add: js_BigInt_def cr)
qed

lemma num_int_str [simp]: "is_num (int_str n)" "num (int_str n) = n"
  by (simp_all add: is_num_def num_def js_BigInt_int_re)

lemma num_zero [simp]: "is_num ''0''" "num ''0'' = 0"
  using num_int_str [of 0] by (simp_all add: int_str_def nat_str.simps digit_char_0)

lemma parseAtomic_num: "parseAtomic (Some s) = Inr n \<Longrightarrow> is_num s \<and> num s = n"
proof -
  assume p: "parseAtomic (Some s) = Inr n"
  have "js_BigInt [] = Inr 0" by (simp add: js_BigInt_def js_trim_def)
  with p show ?thesis
    by (intro num_BigInt) (auto simp: parseAtomic_def js_BigInt_int_re split: if_splits)
qed

lemma two_ints_cases: "two_ints a b f = Change wop r \<Longrightarrow> \<exists>x y. js_BigInt a = Inr x \<and> js_BigInt b = Inr y \<and> f x y = Change wop r"
  by (auto simp: two_ints_def split: sum.splits)

subsection \<open>What may be written\<close>

fun upd_ok :: "chan_upd \<Rightarrow> string \<Rightarrow> bool" where
  "upd_ok (PutVoucher amountDecimal cumulativeRaw signature now) key \<longleftrightarrow> voucher_key key \<and> is_num cumulativeRaw \<and> signature \<noteq> []"
| "upd_ok (MarkSettled settledRaw now) key \<longleftrightarrow> voucher_key key \<and> is_num settledRaw"
| "upd_ok (SetMark now) key \<longleftrightarrow> mark_key key"
| "upd_ok CountAbort key \<longleftrightarrow> key = RECON_SUPERSEDE_KEY"
| "upd_ok (WriteOff cumulativeRaw reason now) key \<longleftrightarrow> writeoff_key key \<and> is_num cumulativeRaw"
| "upd_ok (AddWriteoff c cumulativeRaw) key \<longleftrightarrow> key = RECON_WRITEOFF_KEY \<and> is_num cumulativeRaw"
| "upd_ok _ key \<longleftrightarrow> \<not> pg_key key"

definition chan_write :: "string \<Rightarrow> chan_val option \<Rightarrow> chan_val write_op \<Rightarrow> bool" where
  "chan_write key cur wop \<longleftrightarrow>
     (pg_key key \<longrightarrow> (\<exists>upd r. upd_ok upd key \<and> chan_change upd cur = Change wop r))"

text \<open>The values of the keys.\<close>

definition books_ok :: "writeoff_totals \<Rightarrow> bool" where
  "books_ok t \<longleftrightarrow>
     distinct (map fst (wt_channels t)) \<and> wt_count t = int (length (wt_channels t)) \<and>
     list_all (\<lambda>(c, raw). is_num raw) (wt_channels t) \<and>
     wt_totalRaw t = int_str (sum_list (map (\<lambda>(c, raw). num raw) (wt_channels t)))"

fun val_ok :: "string \<Rightarrow> chan_val \<Rightarrow> bool" where
  "val_ok key (VoucherVal lv) \<longleftrightarrow>
     voucher_key key \<and> is_num (lv_cumulativeRaw lv) \<and> is_num (lv_lastSettledRaw lv) \<and> lv_signature lv \<noteq> []"
| "val_ok key (MarkVal t) \<longleftrightarrow> mark_key key"
| "val_ok key (CountVal n) \<longleftrightarrow> key = RECON_SUPERSEDE_KEY \<and> 0 < n"
| "val_ok key (WriteoffVal w) \<longleftrightarrow> writeoff_key key \<and> is_num (wo_cumulativeRaw w)"
| "val_ok key (TotalsVal t) \<longleftrightarrow> key = RECON_WRITEOFF_KEY \<and> books_ok t"
| "val_ok key _ \<longleftrightarrow> False"

definition chan_typed :: "chan_val astore \<Rightarrow> bool" where
  "chan_typed st \<longleftrightarrow> (\<forall>key v. pg_key key \<longrightarrow> value_at st key = Some v \<longrightarrow> val_ok key v)"

lemma books_add:
  assumes "books_ok t" "map_of (wt_channels t) c = None" "is_num raw"
  shows "books_ok \<lparr>wt_count = wt_count t + 1, wt_totalRaw = int_str (num (wt_totalRaw t) + num raw),
    wt_channels = AList.update c raw (wt_channels t)\<rparr>"
proof -
  have c: "c \<notin> fst ` set (wt_channels t)" using assms(2) by (simp add: map_of_eq_None_iff)
  have "c \<notin> fst ` set xs \<Longrightarrow> AList.update c raw xs = xs @ [(c, raw)]" for xs
    by (induction xs) auto
  from this [OF c] assms c show ?thesis by (auto simp: books_ok_def)
qed

lemma no_writeoffs_ok: "books_ok no_writeoffs"
  by (simp add: books_ok_def no_writeoffs_def int_str_def nat_str.simps digit_char_0)

text \<open>Every function keeps the shape of its keys, and no key of the playground is ever deleted.\<close>

lemma put_voucher_typed:
  assumes "put_voucher_change amt raw sg now cur = Change wop r" "is_num raw" "sg \<noteq> []" "voucher_key key"
    and "\<And>v. cur = Some v \<Longrightarrow> val_ok key v"
  shows "\<exists>v. wop = SetOp v \<and> val_ok key v"
  using assms by (cases cur) (auto simp: put_voucher_change_def Let_def two_ints_def split: chan_val.splits if_splits sum.splits)

lemma mark_settled_typed:
  assumes "mark_settled_change raw now cur = Change wop r" "is_num raw" "voucher_key key"
    and "\<And>v. cur = Some v \<Longrightarrow> val_ok key v"
  shows "\<exists>v. wop = SetOp v \<and> val_ok key v"
  using assms by (cases cur) (auto simp: mark_settled_change_def two_ints_def split: chan_val.splits if_splits sum.splits)

lemma add_writeoff_typed:
  assumes "add_writeoff_change c raw cur = Change wop r" "is_num raw" "\<And>v. cur = Some v \<Longrightarrow> val_ok RECON_WRITEOFF_KEY v"
  shows "\<exists>v. wop = SetOp v \<and> val_ok RECON_WRITEOFF_KEY v"
proof -
  obtain t where t: "t = (case cur of Some (TotalsVal t) \<Rightarrow> t | _ \<Rightarrow> no_writeoffs)" by blast
  have ok: "books_ok t" using assms(3) by (auto simp: t no_writeoffs_ok split: option.split chan_val.split)
  then have "js_BigInt (wt_totalRaw t) = Inr (num (wt_totalRaw t))" by (simp add: books_ok_def is_num_BigInt)
  with assms(1,2) have "map_of (wt_channels t) c = None"
    "wop = SetOp (TotalsVal \<lparr>wt_count = wt_count t + 1, wt_totalRaw = int_str (num (wt_totalRaw t) + num raw),
      wt_channels = AList.update c raw (wt_channels t)\<rparr>)"
    unfolding add_writeoff_change_def Let_def t [symmetric] by (auto simp: two_ints_def is_num_BigInt split: if_splits)
  with books_add [OF ok] assms(2) show ?thesis by simp
qed

lemma change_typed:
  assumes "chan_change upd cur = Change wop r" "upd_ok upd key" "pg_key key" "\<And>v. cur = Some v \<Longrightarrow> val_ok key v"
  shows "\<exists>v. wop = SetOp v \<and> val_ok key v"
proof (cases upd)
  case (PutVoucher amt raw sg now)
  with assms show ?thesis by (auto intro: put_voucher_typed)
next
  case (MarkSettled raw now)
  with assms show ?thesis by (auto intro: mark_settled_typed)
next
  case (AddWriteoff c raw)
  with assms show ?thesis by (auto intro: add_writeoff_typed)
next
  case (WriteOff raw reason now)
  with assms show ?thesis by (auto simp: write_off_change_def split: option.splits)
next
  case CountAbort
  with assms show ?thesis by (cases "cur"; cases "the cur") (auto simp: count_abort_change_def)
qed (use assms in auto)

lemma chan_write_typed:
  assumes "chan_write key cur wop" "pg_key key" "\<And>v. cur = Some v \<Longrightarrow> val_ok key v"
  shows "\<exists>v. wop = SetOp v \<and> val_ok key v"
  using assms change_typed unfolding chan_write_def by metis

lemma typed_step: "wstep chan_write st st' \<Longrightarrow> chan_typed st \<Longrightarrow> chan_typed st'"
  unfolding chan_typed_def
  by (erule wstepE) (auto simp: value_written written_def split: if_splits dest!: chan_write_typed)

lemma typed_steps: "wsteps chan_write st st' \<Longrightarrow> chan_typed st \<Longrightarrow> chan_typed st'"
  unfolding wsteps_def by (induction rule: rtranclp_induct) (auto intro: typed_step)

lemma typed_voucher:
  assumes "chan_typed st" "value_at st (voucherKey c) = Some v"
  shows "\<exists>lv. v = VoucherVal lv \<and> is_num (lv_cumulativeRaw lv) \<and> is_num (lv_lastSettledRaw lv) \<and> lv_signature lv \<noteq> []"
proof -
  have "val_ok (voucherKey c) v" using assms key_kinds unfolding chan_typed_def by blast
  then show ?thesis by (cases v) simp_all
qed

lemma typed_books:
  assumes "chan_typed st" "value_at st RECON_WRITEOFF_KEY = Some v"
  shows "\<exists>t. v = TotalsVal t \<and> books_ok t"
proof -
  have "val_ok RECON_WRITEOFF_KEY v" using assms key_kinds unfolding chan_typed_def by blast
  then show ?thesis by (cases v) simp_all
qed

subsection \<open>Vouchers, marks and books only grow\<close>

definition voucher_le :: "chan_val option \<Rightarrow> chan_val option \<Rightarrow> bool" where
  "voucher_le old new \<longleftrightarrow>
     (\<forall>v. old = Some (VoucherVal v) \<longrightarrow> (\<exists>v'. new = Some (VoucherVal v') \<and>
        num (lv_cumulativeRaw v) \<le> num (lv_cumulativeRaw v') \<and> num (lv_lastSettledRaw v) \<le> num (lv_lastSettledRaw v')))"

lemma voucher_le_refl [simp]: "voucher_le x x"
  by (simp add: voucher_le_def)

lemma voucher_le_trans: "voucher_le x y \<Longrightarrow> voucher_le y z \<Longrightarrow> voucher_le x z"
  unfolding voucher_le_def by fastforce

lemma change_voucher_le:
  assumes "chan_change upd cur = Change wop r" "upd_ok upd (voucherKey c)"
  shows "voucher_le cur (written wop)"
  using assms
  by (cases upd)
    (auto simp: voucher_le_def put_voucher_change_def mark_settled_change_def Let_def written_def
      dest!: two_ints_cases num_BigInt split: if_splits)

lemma voucher_steps:
  assumes "wsteps chan_write st st'"
  shows "voucher_le (value_at st (voucherKey c)) (value_at st' (voucherKey c))"
proof (rule wsteps_rel [OF assms voucher_le_refl voucher_le_trans])
  show "voucher_le cur (written wop)" if "chan_write (voucherKey c) cur wop" for cur wop
    using that change_voucher_le by (auto simp: chan_write_def)
qed

text \<open>A mark, a write-off and an entry of the books stay for good.\<close>

lemma marks_steps:
  assumes "wsteps chan_write st st'" "mark_key key" "value_at st key \<noteq> None"
  shows "value_at st' key \<noteq> None"
proof (rule wsteps_inv [where I = "\<lambda>v. v \<noteq> None", OF assms(1,3)])
  show "written wop \<noteq> None" if "chan_write key cur wop" for cur wop
  proof -
    from that assms(2) key_kinds_pg obtain upd r where u: "upd_ok upd key" "chan_change upd cur = Change wop r"
      unfolding chan_write_def by blast
    have "\<not> voucher_key key" "\<not> writeoff_key key" "key \<noteq> RECON_SUPERSEDE_KEY" "key \<noteq> RECON_WRITEOFF_KEY"
      using assms(2) by (auto simp: mark_key_def voucher_key_def writeoff_key_def key_defs dest!: is_prefix_split)
    with u key_kinds_pg(2) [OF assms(2)] show ?thesis by (cases upd) (auto simp: written_def)
  qed
qed

end
