(* ===== verification/ChannelSystem.thy ===== *)
theory ChannelSystem
  imports AsyncSystem VoucherProps
begin

text \<open>
  All handlers of the payment channels in flight around one atomic store.  A step serves one call of one handler,
  delivers or loses its answer, answers a call to the outside in any way, or is a write of somebody else (the payment
  library, the paid proxy) to a key that is not the playground's.  The locale \<open>channel_system\<close> turns the guards of
  the handlers into invariants of the store and the histories.
\<close>

subsection \<open>Serving the store\<close>

definition did :: "bool js \<Rightarrow> chan_ans outcome" where
  "did r = (case r of Inl _ \<Rightarrow> Inl ''update function threw'' | Inr b \<Rightarrow> Inr (ADid b))"

definition serve_update :: "string \<Rightarrow> chan_upd \<Rightarrow> chan_val astore \<Rightarrow> chan_ans outcome \<times> chan_val astore" where
  "serve_update key upd st =
     (case chan_change upd (value_at st key) of
        Noop r \<Rightarrow> (did r, st)
      | Change wop r \<Rightarrow> (did r, apply_write key (version_at st key) wop st))"

fun store_serve :: "chan_req \<Rightarrow> chan_val astore \<Rightarrow> (chan_ans outcome \<times> chan_val astore) option" where
  "store_serve (StoreGet key) st = Some (Inr (AValue (value_at st key)), st)"
| "store_serve (StoreUpdate key upd) st = Some (serve_update key upd st)"
| "store_serve (StoreDelete key) st =
     Some (Inr ADone, if value_at st key = None then st else apply_write key (version_at st key) DeleteOp st)"
| "store_serve _ st = None"

definition store_req :: "chan_req \<Rightarrow> bool" where
  "store_req r \<longleftrightarrow> (case r of StoreGet k \<Rightarrow> True | StoreUpdate k u \<Rightarrow> True | StoreDelete k \<Rightarrow> True | _ \<Rightarrow> False)"

definition chan_ok :: "chan_req \<Rightarrow> bool" where
  "chan_ok r \<longleftrightarrow> (case r of StoreUpdate key upd \<Rightarrow> upd_ok upd key | StoreDelete key \<Rightarrow> \<not> pg_key key | _ \<Rightarrow> True)"

lemma serve_machine: "store_serve r st = Some (a, st') \<Longrightarrow> chan_ok r \<Longrightarrow> wsteps chan_write st st'"
proof -
  assume s: "store_serve r st = Some (a, st')" and ok: "chan_ok r"
  have one: "chan_write key (value_at st key) wop \<Longrightarrow> wsteps chan_write st (apply_write key (version_at st key) wop st)"
    for key wop by (rule wsteps_step [OF wsteps_refl wstep.intros])
  show ?thesis
  proof (cases r)
    case (StoreUpdate key upd)
    show ?thesis
    proof (cases "chan_change upd (value_at st key)")
      case (Change wop x)
      with ok StoreUpdate have "chan_write key (value_at st key) wop" by (auto simp: chan_ok_def chan_write_def)
      with s StoreUpdate Change one show ?thesis by (auto simp: serve_update_def)
    qed (use s StoreUpdate in \<open>simp add: serve_update_def\<close>)
  next
    case (StoreDelete key)
    with ok have "chan_write key (value_at st key) DeleteOp" by (simp add: chan_ok_def chan_write_def)
    with s StoreDelete one show ?thesis by (auto split: if_splits)
  qed (use s in simp_all)
qed

subsection \<open>The system\<close>

record chan_system =
  c_store :: "chan_val astore"
  c_procs :: "nat \<Rightarrow> (history \<times> response prog) option"

definition chan_start :: chan_system where
  "chan_start = \<lparr>c_store = empty_store, c_procs = (\<lambda>_. None)\<rparr>"

inductive chan_step :: "(response prog \<Rightarrow> bool) \<Rightarrow> chan_system \<Rightarrow> chan_system \<Rightarrow> bool" for H where
  arrive: "H p \<Longrightarrow> c_procs s n = None \<Longrightarrow> chan_step H s (s\<lparr>c_procs := (c_procs s)(n \<mapsto> ([], p))\<rparr>)"
| served: "c_procs s n = Some (h, Chan r k) \<Longrightarrow> store_serve r (c_store s) = Some (a, st) \<Longrightarrow>
    chan_step H s \<lparr>c_store = st, c_procs = (c_procs s)(n \<mapsto> (EChan r a # h, k a))\<rparr>"
| answer_lost: "c_procs s n = Some (h, Chan r k) \<Longrightarrow> store_serve r (c_store s) = Some (a, st) \<Longrightarrow>
    chan_step H s \<lparr>c_store = st, c_procs = (c_procs s)(n \<mapsto> (EChan r (Inl e) # h, k (Inl e)))\<rparr>"
| request_lost: "c_procs s n = Some (h, Chan r k) \<Longrightarrow> store_req r \<Longrightarrow>
    chan_step H s (s\<lparr>c_procs := (c_procs s)(n \<mapsto> (EChan r (Inl e) # h, k (Inl e)))\<rparr>)"
| answered: "c_procs s n = Some (h, p) \<Longrightarrow> outside p es p' \<Longrightarrow> (\<And>r k. p = Chan r k \<Longrightarrow> \<not> store_req r) \<Longrightarrow>
    chan_step H s (s\<lparr>c_procs := (c_procs s)(n \<mapsto> (es @ h, p'))\<rparr>)"
| elsewhere: "\<not> pg_key key \<Longrightarrow>
    chan_step H s (s\<lparr>c_store := apply_write key (version_at (c_store s) key) wop (c_store s)\<rparr>)"

definition chan_reachable :: "(response prog \<Rightarrow> bool) \<Rightarrow> chan_system \<Rightarrow> bool" where
  "chan_reachable H = (chan_step H)\<^sup>*\<^sup>* chan_start"

lemma chan_reachable_start: "chan_reachable H chan_start"
  by (simp add: chan_reachable_def)

lemma chan_reachable_step: "chan_reachable H s \<Longrightarrow> chan_step H s s' \<Longrightarrow> chan_reachable H s'"
  unfolding chan_reachable_def by (rule rtranclp.rtrancl_into_rtrancl)

definition chist :: "chan_system \<Rightarrow> nat \<Rightarrow> history" where
  "chist s n = (case c_procs s n of None \<Rightarrow> [] | Some (h, p) \<Rightarrow> h)"

lemma chist_simps [simp]:
  "chist chan_start = (\<lambda>_. [])"
  "chist (s\<lparr>c_procs := (c_procs s)(n \<mapsto> (h, p))\<rparr>) = (chist s)(n := h)"
  "chist \<lparr>c_store = st, c_procs = (c_procs s)(n \<mapsto> (h, p))\<rparr> = (chist s)(n := h)"
  "chist (s\<lparr>c_store := st\<rparr>) = chist s"
  by (auto simp: chist_def chan_start_def fun_eq_iff)

lemma c_store_procs: "c_store (s\<lparr>c_procs := f\<rparr>) = c_store s"
  by simp

lemma chist_Some: "c_procs s n = Some (h, p) \<Longrightarrow> chist s n = h"
  by (simp add: chist_def)

lemma chist_None: "c_procs s n = None \<Longrightarrow> (chist s)(n := []) = chist s"
  by (auto simp: chist_def)

text \<open>An event that tells nothing of the store.\<close>

definition quiet_event :: "guard_pred \<Rightarrow> event \<Rightarrow> history \<Rightarrow> bool" where
  "quiet_event G e h \<longleftrightarrow>
     (case e of
        EHttp q _ \<Rightarrow> G (CallHttp q) h
      | ESign c _ \<Rightarrow> G (CallSign c) h
      | EChan r a \<Rightarrow> G (CallChan r) h \<and> (store_req r \<longrightarrow> (\<exists>m. a = Inl m))
      | EKvGet _ _ \<Rightarrow> True
      | ELedger _ _ \<Rightarrow> False)"

locale channel_system =
  fixes H :: "response prog \<Rightarrow> bool" and G :: guard_pred and Q :: "response \<Rightarrow> history \<Rightarrow> bool"
    and I :: "chan_val astore \<Rightarrow> (nat \<Rightarrow> history) \<Rightarrow> bool"
  assumes handlers: "H p \<Longrightarrow> wp p G Q (\<lambda>_ _. True) []"
    and keyed: "G (CallChan r) h \<Longrightarrow> chan_ok r"
    and initially: "I empty_store (\<lambda>_. [])"
    and serving: "I st hs \<Longrightarrow> chan_typed st \<Longrightarrow> G (CallChan r) (hs n) \<Longrightarrow> store_serve r st = Some (a, st') \<Longrightarrow>
      b = a \<or> b = Inl e \<Longrightarrow> I st' (hs(n := EChan r b # hs n))"
    and others: "I st hs \<Longrightarrow> \<not> pg_key key \<Longrightarrow> I (apply_write key (version_at st key) wop st) hs"
    and quiet: "I st hs \<Longrightarrow> quiet_event G ev (hs n) \<Longrightarrow> I st (hs(n := ev # hs n))"
begin

definition live :: "chan_system \<Rightarrow> bool" where
  "live s \<longleftrightarrow> (\<forall>n h p. c_procs s n = Some (h, p) \<longrightarrow> wp p G Q (\<lambda>_ _. True) h)"

lemma outside_wp: "outside p es p' \<Longrightarrow> wp p G Q E h \<Longrightarrow> wp p' G Q E (es @ h)"
  by (induction rule: outside.induct) auto

lemma outside_keeps:
  "outside p es p' \<Longrightarrow> wp p G Q E (hs n) \<Longrightarrow> (\<And>r k. p = Chan r k \<Longrightarrow> \<not> store_req r) \<Longrightarrow> I st hs \<Longrightarrow> I st (hs(n := es @ hs n))"
  by (induction rule: outside.induct) (auto intro!: quiet simp: quiet_event_def)

lemma step_live: "chan_step H s s' \<Longrightarrow> live s \<Longrightarrow> live s'"
proof (induction rule: chan_step.induct)
  case (arrive p s n)
  then show ?case using handlers [of p] by (auto simp: live_def)
next
  case (answered s n h p es p')
  then have "wp p' G Q (\<lambda>_ _. True) (es @ h)" by (auto simp: live_def intro: outside_wp)
  with answered(4) show ?case by (auto simp: live_def)
qed (force simp: live_def)+

lemma live_chan: "live s \<Longrightarrow> c_procs s n = Some (h, Chan r k) \<Longrightarrow> G (CallChan r) h"
  by (force simp: live_def)

lemma step_machine: "chan_step H s s' \<Longrightarrow> live s \<Longrightarrow> wsteps chan_write (c_store s) (c_store s')"
proof (induction rule: chan_step.induct)
  case (served s n h r k a st)
  then show ?case using serve_machine keyed live_chan by fastforce
next
  case (answer_lost s n h r k a st e)
  then show ?case using serve_machine keyed live_chan by fastforce
next
  case (elsewhere key s wop)
  then have "wstep chan_write (c_store s) (apply_write key (version_at (c_store s) key) wop (c_store s))"
    by (intro wstep.intros) (simp add: chan_write_def)
  then show ?case by (simp add: wsteps_step [OF wsteps_refl])
qed simp_all

lemma quiet_lost: "I st hs \<Longrightarrow> hs n = h \<Longrightarrow> G (CallChan r) h \<Longrightarrow> I st (hs(n := EChan r (Inl e) # h))"
  using quiet [of st hs "EChan r (Inl e)" n] by (auto simp: quiet_event_def)

lemma step_keeps:
  assumes "chan_step H s s'" "live s" "chan_typed (c_store s)" "I (c_store s) (chist s)"
  shows "I (c_store s') (chist s')"
  using assms
proof (induction rule: chan_step.induct)
  case (arrive p s n)
  then show ?case by (simp add: chist_None)
next
  case (served s n h r k a st)
  then have "I st ((chist s)(n := EChan r a # h))"
    using serving [of "c_store s" "chist s" r n a st a] live_chan [OF served(3,1)] by (simp add: chist_Some)
  then show ?case by (simp only: chist_simps chan_system.select_convs)
next
  case (answer_lost s n h r k a st e)
  then have "I st ((chist s)(n := EChan r (Inl e) # h))"
    using serving [of "c_store s" "chist s" r n a st "Inl e" e] live_chan [OF answer_lost(3,1)] by (simp add: chist_Some)
  then show ?case by (simp only: chist_simps chan_system.select_convs)
next
  case (request_lost s n h r k e)
  then have "I (c_store s) ((chist s)(n := EChan r (Inl e) # h))"
    using quiet_lost [of "c_store s" "chist s" n h r e] live_chan [OF request_lost(3,1)] by (simp add: chist_Some)
  then show ?case by (simp only: chist_simps c_store_procs)
next
  case (answered s n h p es p')
  then have "wp p G Q (\<lambda>_ _. True) h" by (auto simp: live_def)
  with answered outside_keeps [of p es p' "\<lambda>_ _. True" "chist s" n "c_store s"]
  have "I (c_store s) ((chist s)(n := es @ h))" by (simp add: chist_Some)
  then show ?case by (simp only: chist_simps c_store_procs)
next
  case (elsewhere key s wop)
  then show ?case by (simp add: others)
qed

theorem invariant:
  assumes "chan_reachable H s"
  shows "I (c_store s) (chist s)" and "live s" and "chan_typed (c_store s)" and "wsteps chan_write empty_store (c_store s)"
proof -
  have "live s \<and> I (c_store s) (chist s) \<and> wsteps chan_write empty_store (c_store s)"
    using assms unfolding chan_reachable_def
  proof (induction rule: rtranclp_induct)
    case base
    show ?case using initially by (simp add: live_def chan_start_def) (simp add: chan_start_def [symmetric])
  next
    case (step s s')
    have "chan_typed (c_store s)" using typed_steps [of empty_store "c_store s"] step.IH by (simp add: chan_typed_def)
    with step step_live step_keeps wsteps_trans [OF _ step_machine] show ?case by blast
  qed
  then show "I (c_store s) (chist s)" "live s" "wsteps chan_write empty_store (c_store s)" by simp_all
  then show "chan_typed (c_store s)" using typed_steps [of empty_store "c_store s"] by (simp add: chan_typed_def)
qed

lemma finished: "chan_reachable H s \<Longrightarrow> c_procs s n = Some (h, Done r) \<Longrightarrow> Q r h"
  using invariant(2) by (force simp: live_def)

end

end
