(* ===== verification/ChannelInv.thy ===== *)
theory ChannelInv
  imports ChannelSettle ChannelSystem UpstreamInv
begin

text \<open>
  The handlers of the channels as guarded programs: \<open>chan_guard\<close> says what a handler must have seen and done, and in
  which order, before it pays a merchant, keeps a voucher, rolls a watermark back, writes debt off, closes a channel or
  registers one; the rules below derive it for every handler.
\<close>

subsection \<open>Histories\<close>

text \<open>Events in this order, the newest first, with anything in between.\<close>

fun in_order :: "(event \<Rightarrow> bool) list \<Rightarrow> history \<Rightarrow> bool" where
  "in_order [] h \<longleftrightarrow> True"
| "in_order (P # Ps) [] \<longleftrightarrow> False"
| "in_order (P # Ps) (e # h) \<longleftrightarrow> P e \<and> in_order Ps h \<or> in_order (P # Ps) h"

lemma in_order_Cons: "in_order Ps h \<Longrightarrow> in_order Ps (e # h)"
  by (cases Ps) simp_all

lemma in_order_append: "in_order Ps h \<Longrightarrow> in_order Ps (h1 @ h)"
  by (induction h1) (simp_all add: in_order_Cons)

lemma in_order_push: "P e \<Longrightarrow> in_order Ps h \<Longrightarrow> in_order (P # Ps) (e # h)"
  by simp

lemma in_order_ex: "in_order Ps h \<Longrightarrow> P \<in> set Ps \<Longrightarrow> \<exists>e \<in> set h. P e"
  by (induction Ps h rule: in_order.induct) auto

definition put_done :: "event \<Rightarrow> bool" where
  "put_done e \<longleftrightarrow> (\<exists>key d n sg t b. e = EChan (StoreUpdate key (PutVoucher d n sg t)) (Inr (ADid b)))"

lemma put_done_simps [simp]:
  "\<not> put_done (EChan r (Inl m))" "\<not> put_done (ESign c b')" "\<not> put_done (EHttp q w)" "\<not> put_done (EKvGet n g)"
  "put_done (EChan (StoreUpdate key upd) (Inr (ADid b))) \<longleftrightarrow> (\<exists>d n sg t. upd = PutVoucher d n sg t)"
  "\<forall>b. x \<noteq> Inr (ADid b) \<Longrightarrow> \<not> put_done (EChan r x)"
  "\<forall>key upd. r \<noteq> StoreUpdate key upd \<Longrightarrow> \<not> put_done (EChan r x)"
  by (auto simp: put_done_def)

definition quietly :: "event \<Rightarrow> bool" where
  "quietly e \<longleftrightarrow> \<not> paying_event e \<and> \<not> put_done e"

lemma quietly_chan [simp]: "quietly (EChan r a) \<longleftrightarrow> \<not> put_done (EChan r a)"
  by (simp add: quietly_def)

text \<open>What happened in between neither paid a merchant nor kept a voucher.\<close>

definition later :: "history \<Rightarrow> history \<Rightarrow> bool" where
  "later h h' \<longleftrightarrow> (\<exists>h1. h' = h1 @ h \<and> list_all quietly h1)"

lemma later_refl [simp]: "later h h"
  by (simp add: later_def)

lemma later_Cons: "later h h' \<Longrightarrow> quietly e \<Longrightarrow> later h (e # h')"
proof -
  assume "later h h'" "quietly e"
  then obtain h1 where "e # h' = (e # h1) @ h" "list_all quietly (e # h1)" by (auto simp: later_def)
  then show "later h (e # h')" unfolding later_def by blast
qed

lemma later_trans: "later h h' \<Longrightarrow> later h' h'' \<Longrightarrow> later h h''"
  unfolding later_def by fastforce

lemma later_step: "later (e # h) h' \<Longrightarrow> quietly e \<Longrightarrow> later h h'"
  by (rule later_trans [OF later_Cons [OF later_refl]])

lemma later_append: "later h h' \<Longrightarrow> \<exists>h1. h' = h1 @ h"
  by (auto simp: later_def)

lemma later_in_order: "in_order Ps h \<Longrightarrow> later h h' \<Longrightarrow> in_order Ps h'"
  by (auto dest!: later_append intro: in_order_append)

lemma later_mem: "e \<in> set h \<Longrightarrow> later h h' \<Longrightarrow> e \<in> set h'"
  by (auto dest!: later_append)

definition paid :: "history \<Rightarrow> bool" where
  "paid h \<longleftrightarrow> list_ex paying_event h"

definition put_returned :: "history \<Rightarrow> bool" where
  "put_returned h \<longleftrightarrow> list_ex put_done h"

lemma paid_simps [simp]: "\<not> paid []" "paid (e # h) \<longleftrightarrow> paying_event e \<or> paid h"
  by (simp_all add: paid_def)

lemma put_returned_simps [simp]: "\<not> put_returned []" "put_returned (e # h) \<longleftrightarrow> put_done e \<or> put_returned h"
  by (simp_all add: put_returned_def)

lemma later_same: "later h h' \<Longrightarrow> paid h' = paid h \<and> put_returned h' = put_returned h"
  unfolding later_def paid_def put_returned_def quietly_def by (auto simp: list_all_iff list_ex_iff)

lemma exact_paid: "exact h p h' \<Longrightarrow> paid h' \<longleftrightarrow> p \<or> paid h"
  by (auto simp: exact_def paid_def)

subsection \<open>Events of a channel\<close>

text \<open>An update that returned true, a value read, and what the value of a key was.\<close>

definition granted :: "string \<Rightarrow> (chan_upd \<Rightarrow> bool) \<Rightarrow> event \<Rightarrow> bool" where
  "granted key P e \<longleftrightarrow> (\<exists>upd. e = EChan (StoreUpdate key upd) (Inr (ADid True)) \<and> P upd)"

definition confirmed :: "string \<Rightarrow> (chan_upd \<Rightarrow> bool) \<Rightarrow> event \<Rightarrow> bool" where
  "confirmed key P e \<longleftrightarrow> (\<exists>upd b. e = EChan (StoreUpdate key upd) (Inr (ADid b)) \<and> P upd)"

definition read_as :: "string \<Rightarrow> (chan_val option \<Rightarrow> bool) \<Rightarrow> event \<Rightarrow> bool" where
  "read_as key P e \<longleftrightarrow> (\<exists>v. e = EChan (StoreGet key) (Inr (AValue v)) \<and> P v)"

definition acquires :: "string \<Rightarrow> chan_upd \<Rightarrow> bool" where "acquires i upd \<longleftrightarrow> (\<exists>t. upd = AcquireLock i t)"
definition revalidates :: "string \<Rightarrow> chan_upd \<Rightarrow> bool" where "revalidates i upd \<longleftrightarrow> (\<exists>t. upd = RevalidateLock i t)"
definition marks :: "chan_upd \<Rightarrow> bool" where "marks upd \<longleftrightarrow> (\<exists>t. upd = SetMark t)"
definition puts :: "string \<Rightarrow> string \<Rightarrow> chan_upd \<Rightarrow> bool" where
  "puts cumulative signature upd \<longleftrightarrow> (\<exists>d t. upd = PutVoucher d cumulative signature t)"

definition open_state :: "string \<Rightarrow> event \<Rightarrow> bool" where
  "open_state c e \<longleftrightarrow> (\<exists>s. cs_closeEffectiveAt s = None \<and>
     (e = EChan (ReadState c) (Inr (AState s)) \<or> (\<exists>t. e = EChan (CacheGet c) (Inr (ACached (Some (s, t)))))))"

definition registered :: "cenv \<Rightarrow> string \<Rightarrow> string \<Rightarrow> string \<Rightarrow> event \<Rightarrow> bool" where
  "registered ce c key deposit e \<longleftrightarrow>
     (\<exists>s. e = EChan (PgGet (CHANNEL_PREFIX @ c)) (Inr (APgChannel (Some s))) \<and> pgChannelProvenanceOk s ce \<and>
        pc_commitmentKey s = key \<and> pc_depositRaw s = deposit)"

text \<open>The library verified a voucher of that channel, key and price, and this is the voucher it verified.\<close>

definition verified :: "cenv \<Rightarrow> string \<Rightarrow> string \<Rightarrow> int \<Rightarrow> channel_voucher \<Rightarrow> event \<Rightarrow> bool" where
  "verified ce c key priceRaw v e \<longleftrightarrow>
     (\<exists>ref auth payment.
        e = EChan (VerifyVoucher \<lparr>vr_channel = c, vr_commitmentKey = key, vr_amount = priceToChannelAmount priceRaw,
              vr_reference = ref, vr_authorization = auth\<rparr>) (Inr (AVerify (Accepted payment))) \<and>
        (hook_voucher payment (cv_previousAmount v) = Some v \<or>
         hook_voucher payment (cv_previousAmount v) = None \<and> recovered_voucher ce (the auth) (cv_previousAmount v) = Some v))"

subsection \<open>What a call must have gone through\<close>

text \<open>
  Before a voucher is shown to the library: the channel is registered, its delivery lock is taken, it is neither closed
  nor fenced, the chain says it is not closing, and its watermark leaves room for the price.
\<close>

definition gate_events :: "cenv \<Rightarrow> string \<Rightarrow> string \<Rightarrow> string \<Rightarrow> string \<Rightarrow> string \<Rightarrow> (event \<Rightarrow> bool) list" where
  "gate_events ce c key deposit i prev =
     [read_as (cumulativeKey c) (\<lambda>v. watermark_text v = prev), open_state c, read_as (fencedKey c) (\<lambda>v. v = None),
      read_as (closedKey c) (\<lambda>v. v = None), granted (lockKey c) (acquires i), registered ce c key deposit]"

definition room_for :: "string \<Rightarrow> string \<Rightarrow> int \<Rightarrow> bool" where
  "room_for deposit prev priceRaw \<longleftrightarrow>
     (\<exists>d p. parseAtomic (Some deposit) = Inr d \<and> parseAtomic (Some prev) = Inr p \<and> p + priceRaw \<le> d)"

definition gated :: "cenv \<Rightarrow> string \<Rightarrow> string \<Rightarrow> string \<Rightarrow> string \<Rightarrow> int \<Rightarrow> history \<Rightarrow> bool" where
  "gated ce c key i prev priceRaw h \<longleftrightarrow>
     (\<exists>deposit. in_order (gate_events ce c key deposit i prev) h \<and> room_for deposit prev priceRaw)"

text \<open>Before a merchant is paid: moreover the voucher is verified, is not a close, and the lock is still held.\<close>

definition accepted :: "cenv \<Rightarrow> string \<Rightarrow> string \<Rightarrow> int \<Rightarrow> channel_voucher \<Rightarrow> history \<Rightarrow> bool" where
  "accepted ce c i priceRaw v h \<longleftrightarrow> \<not> cv_close v \<and>
     (\<exists>key deposit. in_order (verified ce c key priceRaw v # gate_events ce c key deposit i (cv_previousAmount v)) h \<and>
        room_for deposit (cv_previousAmount v) priceRaw)"

definition cleared :: "cenv \<Rightarrow> string \<Rightarrow> string \<Rightarrow> int \<Rightarrow> channel_voucher \<Rightarrow> history \<Rightarrow> bool" where
  "cleared ce c i priceRaw v h \<longleftrightarrow> \<not> cv_close v \<and>
     (\<exists>key deposit. in_order (granted (lockKey c) (revalidates i) # verified ce c key priceRaw v #
          gate_events ce c key deposit i (cv_previousAmount v)) h \<and>
        room_for deposit (cv_previousAmount v) priceRaw)"

lemma gated_append: "gated ce c key i prev price h \<Longrightarrow> gated ce c key i prev price (h1 @ h)"
  unfolding gated_def by (blast intro: in_order_append)

lemma accepted_append: "accepted ce c i price v h \<Longrightarrow> accepted ce c i price v (h1 @ h)"
  unfolding accepted_def by (blast intro: in_order_append)

lemma cleared_append: "cleared ce c i price v h \<Longrightarrow> cleared ce c i price v (h1 @ h)"
  unfolding cleared_def by (blast intro: in_order_append)

lemma accepted_cleared: "accepted ce c i price v h \<Longrightarrow> granted (lockKey c) (revalidates i) e \<Longrightarrow> cleared ce c i price v (e # h)"
  unfolding accepted_def cleared_def by (metis in_order_push)

lemma cleared_accepted: "cleared ce c i price v h \<Longrightarrow> accepted ce c i price v h"
proof -
  have "in_order (P # Ps) h' \<Longrightarrow> in_order Ps h'" for P Ps h'
    by (induction h') (auto simp: in_order_Cons)
  then show "cleared ce c i price v h \<Longrightarrow> ?thesis" unfolding accepted_def cleared_def by blast
qed

text \<open>The voucher is kept: its \<open>put\<close> returned, or a read found a stored voucher that covers it.\<close>

definition kept :: "string \<Rightarrow> channel_voucher \<Rightarrow> history \<Rightarrow> bool" where
  "kept c v h \<longleftrightarrow> (\<exists>e \<in> set h.
     confirmed (voucherKey c) (puts (cv_acceptedAmount v) (cv_signature v)) e \<or>
     read_as (voucherKey c) (\<lambda>x. \<exists>lv. x = Some (VoucherVal lv) \<and> is_num (lv_cumulativeRaw lv) \<and>
       num (cv_acceptedAmount v) \<le> num (lv_cumulativeRaw lv)) e)"

definition fenced :: "string \<Rightarrow> history \<Rightarrow> bool" where
  "fenced c h \<longleftrightarrow> (\<exists>e \<in> set h. confirmed (fencedKey c) marks e)"

text \<open>A call that gave no answer of its kind.\<close>

definition lost :: "chan_req \<Rightarrow> event \<Rightarrow> bool" where
  "lost r e \<longleftrightarrow> (\<exists>a. e = EChan r a \<and> (\<forall>b. a = Inr (ADid b) \<longrightarrow> \<not> (\<exists>key upd. r = StoreUpdate key upd)))"

lemma lost_quietly [simp]: "lost r e \<Longrightarrow> quietly e"
  by (auto simp: lost_def put_done_def)

text \<open>Every attempt to raise the fence failed.\<close>

definition fence_lost :: "string \<Rightarrow> event \<Rightarrow> bool" where
  "fence_lost c e \<longleftrightarrow> (\<exists>t. lost (StoreUpdate (fencedKey c) (SetMark t)) e)"

definition fence_failed :: "string \<Rightarrow> history \<Rightarrow> bool" where
  "fence_failed c h \<longleftrightarrow> in_order (replicate 3 (fence_lost c)) h"

lemma kept_append: "kept c v h \<Longrightarrow> kept c v (h1 @ h)" and fenced_append: "fenced c h \<Longrightarrow> fenced c (h1 @ h)"
  and fence_failed_append: "fence_failed c h \<Longrightarrow> fence_failed c (h1 @ h)"
  by (auto simp: kept_def fenced_def fence_failed_def in_order_append)

subsection \<open>What the collection must have gone through\<close>

definition voucher_read :: "string \<Rightarrow> latest_voucher \<Rightarrow> event \<Rightarrow> bool" where
  "voucher_read c lv e \<longleftrightarrow> read_as (voucherKey c) (\<lambda>v. v = Some (VoucherVal lv)) e"

definition state_read :: "string \<Rightarrow> chan_state \<Rightarrow> event \<Rightarrow> bool" where
  "state_read c s e \<longleftrightarrow> e = EChan (ReadState c) (Inr (AState s))"

text \<open>Enough is unsettled to be worth a close, or the channel is closing and everything is.\<close>

definition due :: "latest_voucher \<Rightarrow> chan_state \<Rightarrow> bool" where
  "due lv s \<longleftrightarrow>
     (\<exists>n m. js_BigInt (lv_cumulativeRaw lv) = Inr n \<and> js_BigInt (lv_lastSettledRaw lv) = Inr m \<and> m < n \<and>
        (cs_closeEffectiveAt s \<noteq> None \<or> SETTLE_THRESHOLD_RAW \<le> n - m))"

text \<open>Under the lock: the voucher, the state of the channel, the lock again, and the mark that closes it to calls.\<close>

definition settling :: "string \<Rightarrow> string \<Rightarrow> latest_voucher \<Rightarrow> chan_state \<Rightarrow> history \<Rightarrow> bool" where
  "settling c i lv s h \<longleftrightarrow> due lv s \<and>
     in_order [confirmed (closedKey c) marks, granted (lockKey c) (revalidates i), state_read c s, voucher_read c lv,
       granted (lockKey c) (acquires i)] h"

definition collected :: "string \<Rightarrow> int \<Rightarrow> history \<Rightarrow> bool" where
  "collected c n h \<longleftrightarrow> (\<exists>cc tx. EChan (CloseOnChain cc) (Inr (ATx tx)) \<in> set h \<and> cc_channel cc = c \<and> cc_amount cc = n)"

text \<open>The deposit is gone: the channel was refunded, or its contract says so when it is closed.\<close>

definition hopeless :: "string \<Rightarrow> int \<Rightarrow> chan_state \<Rightarrow> history \<Rightarrow> bool" where
  "hopeless c n s h \<longleftrightarrow>
     cs_closeEffectiveAt s \<noteq> None \<and> channelBalanceIsZero (cs_balance s) \<or>
     (\<exists>cc m. EChan (CloseOnChain cc) (Inl m) \<in> set h \<and> cc_channel cc = c \<and> cc_amount cc = n \<and>
        text_has m ''balance is not sufficient'')"

lemma settling_append: "settling c i lv s h \<Longrightarrow> settling c i lv s (h1 @ h)"
  and collected_append: "collected c n h \<Longrightarrow> collected c n (h1 @ h)"
  and hopeless_append: "hopeless c n s h \<Longrightarrow> hopeless c n s (h1 @ h)"
  by (auto simp: settling_def collected_def hopeless_def in_order_append)

subsection \<open>The guard\<close>

definition signed_registration :: "cenv \<Rightarrow> pg_channel \<Rightarrow> bool" where
  "signed_registration ce s \<longleftrightarrow>
     (\<exists>factory salt sg. channelFactoryAddress ce = Some factory \<and>
        deriveChannelAddress ce factory (pc_agent s) salt (channelNetworkPassphrase ce) = Some (pc_contract s) \<and>
        verifyChannelRegisterSignature ce \<lparr>rt_channel = pc_contract s, rt_commitmentKey = pc_commitmentKey s,
          rt_saltHex = bytes_hex salt, rt_from = pc_agent s\<rparr> sg)"

definition on_chain :: "cenv \<Rightarrow> pg_channel \<Rightarrow> history \<Rightarrow> bool" where
  "on_chain ce s h \<longleftrightarrow>
     (\<exists>oc. EChan (ReadOnChain (pc_contract s) (pc_currency s)) (Inr (AOnChain oc)) \<in> set h \<and> pc_depositRaw s = oc_balanceRaw oc \<and>
        checkChannelMatches ce oc
          \<lparr>ex_collector = pc_to s, ex_usdcSac = pc_currency s, ex_funder = pc_agent s, ex_commitmentKeyG = pc_commitmentKey s,
           ex_refundWaitingPeriod = CHANNEL_REFUND_WAITING_PERIOD, ex_minDepositRaw = CHANNEL_MIN_DEPOSIT_RAW,
           ex_wasmHash = pc_wasmHash s\<rparr> = None)"

fun upd_guard :: "cenv \<Rightarrow> string \<Rightarrow> chan_upd \<Rightarrow> history \<Rightarrow> bool" where
  "upd_guard ce key (PutVoucher d n sg t) h \<longleftrightarrow>
     (\<exists>c i m v. key = voucherKey c \<and> cleared ce c i (applyMarkup m) v h \<and> paid h \<and> n = cv_acceptedAmount v \<and> sg = cv_signature v)"
| "upd_guard ce key (MarkSettled n t) h \<longleftrightarrow>
     (\<exists>c i lv s. key = voucherKey c \<and> settling c i lv s h \<and> n = int_str (num (lv_cumulativeRaw lv)) \<and>
        (collected c (num (lv_cumulativeRaw lv)) h \<or> hopeless c (num (lv_cumulativeRaw lv)) s h))"
| "upd_guard ce key (WriteOff n reason t) h \<longleftrightarrow>
     (\<exists>c i lv s. key = writeoffKey c \<and> settling c i lv s h \<and> n = int_str (num (lv_cumulativeRaw lv)) \<and>
        hopeless c (num (lv_cumulativeRaw lv)) s h)"
| "upd_guard ce key (AddWriteoff c n) h \<longleftrightarrow>
     (\<exists>e \<in> set h. confirmed (writeoffKey c) (\<lambda>upd. \<exists>reason t. upd = WriteOff n reason t) e)"
| "upd_guard ce key (Rollback n p) h \<longleftrightarrow>
     (\<exists>c v. key = cumulativeKey c \<and> n = cv_acceptedAmount v \<and> p = cv_previousAmount v \<and>
        (\<exists>k price. \<exists>e \<in> set h. verified ce c k price v e) \<and> (paid h \<longrightarrow> fenced c h) \<and> \<not> put_returned h)"
| "upd_guard ce key _ h \<longleftrightarrow> True"

fun chan_req_guard :: "cenv \<Rightarrow> chan_req \<Rightarrow> history \<Rightarrow> bool" where
  "chan_req_guard ce (StoreUpdate key upd) h \<longleftrightarrow> upd_ok upd key \<and> upd_guard ce key upd h"
| "chan_req_guard ce (StoreDelete key) h \<longleftrightarrow> \<not> pg_key key"
| "chan_req_guard ce (PgPut key s) h \<longleftrightarrow>
     key = CHANNEL_PREFIX @ pc_contract s \<and> signed_registration ce s \<and> on_chain ce s h \<and> pgChannelProvenanceOk s ce"
| "chan_req_guard ce (PgAgentPut key c) h \<longleftrightarrow>
     (\<exists>s x. key = AGENT_PREFIX @ pc_agent s \<and> c = pc_contract s \<and> EChan (PgPut (CHANNEL_PREFIX @ c) s) (Inr x) \<in> set h)"
| "chan_req_guard ce (VerifyVoucher vr) h \<longleftrightarrow>
     vr_authorization vr \<in> {None, Some []} \<or>
     (\<exists>i prev price. vr_amount vr = priceToChannelAmount price \<and> gated ce (vr_channel vr) (vr_commitmentKey vr) i prev price h)"
| "chan_req_guard ce (CloseOnChain cc) h \<longleftrightarrow> collectorKeyMatches ce \<and>
     (\<exists>i lv s. settling (cc_channel cc) i lv s h \<and> cc_amount cc = num (lv_cumulativeRaw lv) \<and>
        decodeVoucherSignature ce (lv_signature lv) = Done (cc_signature cc))"
| "chan_req_guard ce _ h \<longleftrightarrow> True"

definition chan_guard :: "cenv \<Rightarrow> guard_pred" where
  "chan_guard ce a h \<longleftrightarrow>
     (case a of
        CallLedger r \<Rightarrow> False
      | CallHttp q \<Rightarrow> (\<exists>u hs b. q = HttpMetered u hs b) \<and> (\<exists>c i m v. cleared ce c i (applyMarkup m) v h)
      | CallSign s \<Rightarrow> (\<exists>c i m v b. cleared ce c i (applyMarkup m) v h \<and> b \<le> m \<and> may_sign (ce_env ce) b h s)
      | CallChan r \<Rightarrow> chan_req_guard ce r h)"

lemma chan_guard_simps [simp]:
  "chan_guard ce (CallChan r) h \<longleftrightarrow> chan_req_guard ce r h" "\<not> chan_guard ce (CallLedger l) h"
  by (simp_all add: chan_guard_def)

lemma chan_guard_pays: "cleared ce c i (applyMarkup m) v h \<Longrightarrow> b \<le> m \<Longrightarrow> pays (ce_env ce) b (chan_guard ce) h"
  unfolding pays_def chan_guard_def by simp (blast intro: cleared_append)

lemma chan_guard_asks: "cleared ce c i (applyMarkup m) v h \<Longrightarrow> asks (chan_guard ce) h"
  unfolding asks_def chan_guard_def by simp (blast intro: cleared_append)

lemma chan_guard_ok: "chan_guard ce (CallChan r) h \<Longrightarrow> chan_ok r"
  by (cases r) (simp_all add: chan_ok_def)

subsection \<open>Rules for the calls\<close>

lemma wp_store_get:
  assumes "\<And>v. Q v (EChan (StoreGet key) (Inr (AValue v)) # h)" "\<And>m e. lost (StoreGet key) e \<Longrightarrow> E (JsExn m) (e # h)"
  shows "wp (store_get key) (chan_guard ce) Q E h"
proof -
  have "E (JsExn m) (EChan (StoreGet key) a # h)" for m a by (rule assms(2)) (simp add: lost_def)
  then show ?thesis using assms(1) by (auto simp: store_get_def unexpected_def split: sum.split chan_ans.split)
qed

lemma wp_store_update:
  assumes "chan_req_guard ce (StoreUpdate key upd) h" "\<And>b. Q b (EChan (StoreUpdate key upd) (Inr (ADid b)) # h)"
    "\<And>m e. lost (StoreUpdate key upd) e \<Longrightarrow> E (JsExn m) (e # h)"
  shows "wp (store_update key upd) (chan_guard ce) Q E h"
proof -
  have "E (JsExn m) (EChan (StoreUpdate key upd) a # h)" if "\<forall>b. a \<noteq> Inr (ADid b)" for m a
    by (rule assms(3)) (use that in \<open>simp add: lost_def\<close>)
  then show ?thesis using assms(1,2) by (auto simp: store_update_def unexpected_def split: sum.split chan_ans.split)
qed

lemma wp_store_delete:
  assumes "\<not> pg_key key" "\<And>a h'. later h h' \<Longrightarrow> Q () h'" "\<And>m h'. later h h' \<Longrightarrow> E (JsExn m) h'"
  shows "wp (store_delete key) (chan_guard ce) Q E h"
  using assms by (auto simp: store_delete_def later_Cons split: sum.split)

lemma wp_getPgChannel:
  assumes "\<And>s. Q s (EChan (PgGet (CHANNEL_PREFIX @ c)) (Inr (APgChannel s)) # h)" "\<And>m h'. later h h' \<Longrightarrow> E (JsExn m) h'"
  shows "wp (getPgChannel c) (chan_guard ce) Q E h"
  using assms by (auto simp: getPgChannel_def unexpected_def later_Cons split: sum.split chan_ans.split)

lemma wp_getPgChannelForAgent:
  assumes "\<And>c h'. later h h' \<Longrightarrow> Q c h'" "\<And>m h'. later h h' \<Longrightarrow> E (JsExn m) h'"
  shows "wp (getPgChannelForAgent g) (chan_guard ce) Q E h"
  using assms by (auto simp: getPgChannelForAgent_def unexpected_def later_Cons split: sum.split chan_ans.split)

lemma wp_getChannelState:
  assumes "\<And>s. Q s (EChan (ReadState c) (Inr (AState s)) # h)" "\<And>m h'. later h h' \<Longrightarrow> E (JsExn m) h'"
  shows "wp (getChannelState c) (chan_guard ce) Q E h"
  using assms by (auto simp: getChannelState_def unexpected_def later_Cons split: sum.split chan_ans.split)

lemma wp_date_now: "(\<And>t. Q t h) \<Longrightarrow> wp date_now G Q E h"
  by (simp add: date_now_def)

lemma wp_uuid: "(\<And>t. Q t h) \<Longrightarrow> wp uuid G Q E h"
  by (simp add: uuid_def)

subsection \<open>Rules for the store operations\<close>

lemma wp_getLatestVoucher:
  assumes "\<And>v lv. lv = (case v of Some (VoucherVal lv) \<Rightarrow> Some lv | _ \<Rightarrow> None) \<Longrightarrow>
      Q lv (EChan (StoreGet (voucherKey c)) (Inr (AValue v)) # h)"
    "\<And>m h'. later h h' \<Longrightarrow> E (JsExn m) h'"
  shows "wp (getLatestVoucher c) (chan_guard ce) Q E h"
  unfolding getLatestVoucher_def wp_bind by (rule wp_store_get) (use assms in \<open>auto simp: later_Cons\<close>)

lemma wp_acquire:
  assumes "\<And>b h'. later h h' \<Longrightarrow> (b \<Longrightarrow> (\<And>Ps. in_order Ps h \<Longrightarrow> in_order (granted (lockKey c) (acquires i) # Ps) h')) \<Longrightarrow> Q b h'"
    "\<And>m h'. later h h' \<Longrightarrow> E (JsExn m) h'"
  shows "wp (acquireChannelDeliveryLock c i) (chan_guard ce) Q E h"
  unfolding acquireChannelDeliveryLock_def wp_bind
  by (intro wp_date_now wp_store_update) (use assms in \<open>auto simp: later_Cons granted_def acquires_def\<close>)

lemma wp_revalidate:
  assumes "\<And>b h'. later h h' \<Longrightarrow> (b \<Longrightarrow> (\<And>Ps. in_order Ps h \<Longrightarrow> in_order (granted (lockKey c) (revalidates i) # Ps) h')) \<Longrightarrow> Q b h'"
    "\<And>m h'. later h h' \<Longrightarrow> E (JsExn m) h'"
  shows "wp (revalidateChannelDeliveryLock c i) (chan_guard ce) Q E h"
  unfolding revalidateChannelDeliveryLock_def wp_bind
  by (intro wp_date_now wp_store_update) (use assms in \<open>auto simp: later_Cons granted_def revalidates_def\<close>)

lemma wp_release_lock:
  assumes "\<And>h'. later h h' \<Longrightarrow> Q () h'" "\<And>m h'. later h h' \<Longrightarrow> E (JsExn m) h'"
  shows "wp (releaseChannelDeliveryLock c i) (chan_guard ce) Q E h"
  unfolding releaseChannelDeliveryLock_def wp_bind
  by (intro wp_store_update) (use assms in \<open>auto simp: later_Cons\<close>)

lemma wp_markClosed:
  assumes "\<And>h'. later h h' \<Longrightarrow> (\<And>Ps. in_order Ps h \<Longrightarrow> in_order (confirmed (closedKey c) marks # Ps) h') \<Longrightarrow> Q () h'"
    "\<And>m h'. later h h' \<Longrightarrow> E (JsExn m) h'"
  shows "wp (markChannelClosed c) (chan_guard ce) Q E h"
  unfolding markChannelClosed_def wp_bind
  by (intro wp_date_now wp_store_update) (use assms in \<open>auto simp: later_Cons confirmed_def marks_def\<close>)

lemma wp_isChannelBlocked:
  assumes "\<And>b h'. later h h' \<Longrightarrow> (\<not> b \<Longrightarrow> (\<And>Ps. in_order Ps h \<Longrightarrow>
        in_order (read_as (fencedKey c) (\<lambda>v. v = None) # read_as (closedKey c) (\<lambda>v. v = None) # Ps) h')) \<Longrightarrow> Q b h'"
    "\<And>m h'. later h h' \<Longrightarrow> E (JsExn m) h'"
  shows "wp (isChannelBlocked c) (chan_guard ce) Q E h"
  unfolding isChannelBlocked_def wp_bind
  by (intro wp_store_get wp_Done [THEN fun_cong, THEN iffD2] assms) (auto simp: later_Cons read_as_def)

lemma wp_fence_attempts:
  assumes "\<And>h'. later h h' \<Longrightarrow> fenced c h' \<Longrightarrow> Q True h'"
    "\<And>h'. later h h' \<Longrightarrow> (\<And>Ps. in_order Ps h \<Longrightarrow> in_order (replicate n (fence_lost c) @ Ps) h') \<Longrightarrow> Q False h'"
  shows "wp (fence_attempts n c) (chan_guard ce) Q E h"
  using assms
proof (induction n arbitrary: h Q)
  case 0
  then show ?case by simp
next
  case (Suc n)
  have again: "wp (fence_attempts n c) (chan_guard ce) Q E (e # h)" if e: "lost (StoreUpdate (fencedKey c) (SetMark t)) e" for t e
  proof (rule Suc.IH)
    fix h' assume h': "later (e # h) h'"
    then have l: "later h h'" using e by (auto intro: later_trans [OF later_Cons [OF later_refl lost_quietly]])
    then show "fenced c h' \<Longrightarrow> Q True h'" by (rule Suc.prems(1))
    show "Q False h'" if n: "\<And>Ps. in_order Ps (e # h) \<Longrightarrow> in_order (replicate n (fence_lost c) @ Ps) h'"
    proof (rule Suc.prems(2) [OF l])
      fix Ps assume "in_order Ps h"
      with e have "in_order (fence_lost c # Ps) (e # h)" by (auto simp: fence_lost_def)
      from n [OF this] show "in_order (replicate (Suc n) (fence_lost c) @ Ps) h'" by (simp add: replicate_app_Cons_same)
    qed
  qed
  show ?case
    unfolding fence_attempts.simps wp_bind wp_attempt
    by (intro wp_date_now wp_store_update)
      (auto intro: again Suc.prems(1) simp: later_Cons fenced_def confirmed_def marks_def)
qed

lemma wp_fence:
  assumes "\<And>b h'. later h h' \<Longrightarrow> (if b then fenced c h' else fence_failed c h') \<Longrightarrow> Q b h'"
  shows "wp (fenceChannelPersistent c) (chan_guard ce) Q E h"
  unfolding fenceChannelPersistent_def
proof (rule wp_fence_attempts)
  show "Q False h'" if "later h h'" "\<And>Ps. in_order Ps h \<Longrightarrow> in_order (replicate 3 (fence_lost c) @ Ps) h'" for h'
    using assms [of h' False] that(1) that(2) [of "[]"] by (simp add: fence_failed_def)
qed (simp add: assms)

text \<open>A roll back of a verified voucher, when nothing was paid or the fence is up.\<close>

lemma wp_rollback:
  assumes "\<exists>k price. \<exists>e \<in> set h. verified ce c k price v e" "paid h \<Longrightarrow> fenced c h" "\<not> put_returned h"
    "\<And>b h'. later h h' \<Longrightarrow> Q b h'" "\<And>m h'. later h h' \<Longrightarrow> E (JsExn m) h'"
  shows "wp (rollback_voucher c v) (chan_guard ce) Q E h"
proof -
  have g: "chan_req_guard ce (StoreUpdate (cumulativeKey c) (Rollback (cv_acceptedAmount v) (cv_previousAmount v))) h"
    unfolding chan_req_guard.simps upd_guard.simps
    by (rule conjI, simp, rule exI [of _ c], rule exI [of _ v]) (use assms(1-3) in blast)
  have l: "lost r e \<Longrightarrow> later h h' \<Longrightarrow> later h (e # h')" for r e h' by (simp add: later_Cons)
  show ?thesis
    unfolding rollback_voucher_def rollbackFailedChannelVoucher_def wp_bind
    by (intro wp_store_update g)
      (auto intro!: wp_store_delete wp_store_get assms(4,5) dest: later_step simp: later_Cons l)
qed

subsection \<open>Reversing and keeping a charge\<close>

lemma wp_reverse:
  assumes "\<exists>k price. \<exists>e \<in> set h. verified ce c k price v e" "\<not> paid h" "\<not> put_returned h" "\<And>h'. later h h' \<Longrightarrow> Q () h'"
  shows "wp (reverseChargeOrFence c v) (chan_guard ce) Q E h"
proof -
  have fence: "wp (markChannelClosed c) (chan_guard ce) (\<lambda>_. wp (fenceChannelPersistent c) (chan_guard ce) (\<lambda>_. Q ()) E)
      (\<lambda>_. wp (fenceChannelPersistent c) (chan_guard ce) (\<lambda>_. Q ()) E) h'" if "later h h'" for h'
    by (intro wp_markClosed wp_fence) (auto intro: assms(4) later_trans [OF that] later_trans [OF later_trans [OF that]])
  show ?thesis
    unfolding reverseChargeOrFence_def wp_bind wp_attempt
    by (intro wp_rollback [OF assms(1)]) (auto simp: assms(2-4) intro!: fence)
qed

lemma wp_checkCovered:
  assumes "\<And>cov h'. later h h' \<Longrightarrow> (cov = Covered \<Longrightarrow> num (cv_acceptedAmount v) = n \<Longrightarrow> kept c v h') \<Longrightarrow> Q cov h'"
  shows "wp (checkCovered c n) (chan_guard ce) Q E h"
  unfolding checkCovered_def wp_bind wp_attempt
proof (intro wp_getLatestVoucher)
  fix x lv assume lv: "lv = (case x of Some (VoucherVal lv) \<Rightarrow> Some lv | _ \<Rightarrow> None)"
  let ?h = "EChan (StoreGet (voucherKey c)) (Inr (AValue x)) # h"
  have read: "kept c v ?h" if "lv = Some l" "js_BigInt (lv_cumulativeRaw l) = Inr m" "num (cv_acceptedAmount v) \<le> m" for l m
    using that num_BigInt [OF that(2)]
    by (auto simp: kept_def read_as_def lv split: option.splits chan_val.splits intro!: exI [of _ l])
  have l: "later h ?h" by (simp add: later_Cons)
  show "wp (case lv of None \<Rightarrow> Done NotCovered
      | Some lv \<Rightarrow> bind (throwing (js_BigInt (lv_cumulativeRaw lv))) (\<lambda>stored. Done (if n \<le> stored then Covered else NotCovered)))
      (chan_guard ce) (\<lambda>x. wp (Done (case Inr x of Inl _ \<Rightarrow> Unknown | Inr cov \<Rightarrow> cov)) (chan_guard ce) Q E)
      (\<lambda>e. wp (Done (case Inl e of Inl _ \<Rightarrow> Unknown | Inr cov \<Rightarrow> cov)) (chan_guard ce) Q E) ?h"
    using read by (auto intro!: assms [OF l] split: option.split sum.split)
qed (auto intro: assms)

lemma wp_absorb:
  assumes "\<exists>k price. \<exists>e \<in> set h. verified ce c k price v e" "\<not> put_returned h"
    "\<And>h'. later h h' \<Longrightarrow> fenced c h' \<or> fence_failed c h' \<Longrightarrow> Q () h'"
  shows "wp (absorbPaidCallAndFence c v) (chan_guard ce) Q E h"
proof -
  have fence: "wp (bind (fenceChannelPersistent c) (\<lambda>fenced. if \<not> fenced then Done ()
      else bind (attempt (rollback_voucher c v)) (\<lambda>_. Done ()))) (chan_guard ce) Q E h'" if h': "later h h'" for h'
    unfolding wp_bind
  proof (rule wp_fence)
    fix b h2 assume h2: "later h' h2" "if b then fenced c h2 else fence_failed c h2"
    have l: "later h h2" by (rule later_trans [OF h' h2(1)])
    have "fenced c h3" if "later h2 h3" "b" for h3
      using later_append [OF that(1)] h2(2) that(2) by (auto intro: fenced_append)
    moreover have "\<exists>k price. \<exists>e \<in> set h2. verified ce c k price v e" using assms(1) later_mem [OF _ l] by blast
    moreover have "\<not> put_returned h2" using later_same [OF l] assms(2) by simp
    ultimately show "wp (if \<not> b then Done () else bind (attempt (rollback_voucher c v)) (\<lambda>_. Done ())) (chan_guard ce) Q E h2"
      using h2(2) by (auto intro!: wp_rollback assms(3) intro: later_trans [OF l] simp: l)
  qed
  show ?thesis
    unfolding absorbPaidCallAndFence_def incrSupersededAbort_def wp_bind [of "attempt _"] wp_attempt wp_bind [of "store_update _ _"]
    by (intro wp_store_update) (auto intro!: fence [unfolded wp_bind] simp: later_Cons)
qed

definition extends :: "history \<Rightarrow> history \<Rightarrow> bool" where
  "extends h h' \<longleftrightarrow> (\<exists>h1. h' = h1 @ h)"

lemma extends_refl [simp]: "extends h h"
  by (simp add: extends_def)

lemma extends_Cons [simp]: "extends h h' \<Longrightarrow> extends h (e # h')"
  by (metis append_Cons extends_def)

lemma extends_trans: "extends h h' \<Longrightarrow> extends h' h'' \<Longrightarrow> extends h h''"
  unfolding extends_def by force

lemma later_extends: "later h h' \<Longrightarrow> extends h h'"
  by (auto dest: later_append simp: extends_def)

lemma extends_mono:
  "extends h h' \<Longrightarrow> paid h \<Longrightarrow> paid h'" "extends h h' \<Longrightarrow> kept c v h \<Longrightarrow> kept c v h'"
  "extends h h' \<Longrightarrow> fenced c h \<Longrightarrow> fenced c h'" "extends h h' \<Longrightarrow> fence_failed c h \<Longrightarrow> fence_failed c h'"
  "extends h h' \<Longrightarrow> cleared ce c i price v h \<Longrightarrow> cleared ce c i price v h'"
  "extends h h' \<Longrightarrow> accepted ce c i price v h \<Longrightarrow> accepted ce c i price v h'"
  by (auto simp: extends_def paid_def kept_append fenced_append fence_failed_append cleared_append accepted_append)

lemma accepted_verified: "accepted ce c i price v h \<Longrightarrow> \<exists>k price. \<exists>e \<in> set h. verified ce c k price v e"
  unfolding accepted_def by (metis in_order_ex list.set_intros(1))

definition charge_kept :: "string \<Rightarrow> channel_voucher \<Rightarrow> history \<Rightarrow> bool" where
  "charge_kept c v h \<longleftrightarrow> paid h \<and> kept c v h"

definition charge_reversed :: "string \<Rightarrow> history \<Rightarrow> bool" where
  "charge_reversed c h \<longleftrightarrow> (paid h \<longrightarrow> fenced c h \<or> fence_failed c h) \<and> \<not> put_returned h"

lemma charge_later:
  "later h h' \<Longrightarrow> charge_kept c v h \<Longrightarrow> charge_kept c v h'" "later h h' \<Longrightarrow> charge_reversed c h \<Longrightarrow> charge_reversed c h'"
  using later_same [of h h'] extends_mono [OF later_extends] unfolding charge_kept_def charge_reversed_def by blast+

lemma wp_persist:
  assumes "cleared ce c i (applyMarkup m) v h" "paid h" "\<not> put_returned h"
    "\<And>h'. extends h h' \<Longrightarrow> charge_kept c v h' \<Longrightarrow> Q True h'" "\<And>h'. extends h h' \<Longrightarrow> charge_reversed c h' \<Longrightarrow> Q False h'"
    "\<And>m. E (JsExn m) h"
  shows "wp (persistVoucherOrReverse c v) (chan_guard ce) Q E h"
proof -
  have absorb: "wp (bind (absorbPaidCallAndFence c v) (\<lambda>_. Done False)) (chan_guard ce) Q E h'" if h': "later h h'" for h'
    unfolding wp_bind
  proof (rule wp_absorb)
    show "\<exists>k price. \<exists>e \<in> set h'. verified ce c k price v e"
      using accepted_verified [OF cleared_accepted [OF assms(1)]] later_mem [OF _ h'] by blast
    show n: "\<not> put_returned h'" using later_same [OF h'] assms(3) by simp
    show "wp (Done False) (chan_guard ce) Q E h2" if "later h' h2" "fenced c h2 \<or> fence_failed c h2" for h2
      using assms(5) [OF later_extends [OF later_trans [OF h' that(1)]]] that n later_same [OF that(1)]
      by (simp add: charge_reversed_def)
  qed
  show ?thesis
  proof (cases "cv_signature v = []")
    case True
    then show ?thesis using absorb [OF later_refl] by (simp add: persistVoucherOrReverse_def)
  next
    case False
    show ?thesis
    proof (cases "parseAtomic (Some (cv_acceptedAmount v))")
      case (Inl e)
      with False show ?thesis by (simp add: persistVoucherOrReverse_def assms(6))
    next
      case (Inr n)
      then have n: "is_num (cv_acceptedAmount v)" "num (cv_acceptedAmount v) = n" using parseAtomic_num by auto
      let ?key = "voucherKey c"
      let ?upd = "\<lambda>t. PutVoucher (formatUsd n) (cv_acceptedAmount v) (cv_signature v) t"
      have g: "chan_req_guard ce (StoreUpdate ?key (?upd t)) h" for t
        using n False assms(1,2) by auto
      have ok: "charge_kept c v (EChan (StoreUpdate ?key (?upd t)) (Inr (ADid b)) # h)" for t b
        using assms(2) by (auto simp: charge_kept_def kept_def confirmed_def puts_def)
      have reread: "wp (bind (checkCovered c n) (\<lambda>cov. if cov = Covered then Done True
          else bind (absorbPaidCallAndFence c v) (\<lambda>_. Done False))) (chan_guard ce) Q E h'" if h': "later h h'" for h'
        unfolding wp_bind [of "checkCovered c n"]
      proof (rule wp_checkCovered)
        fix cov h2 assume h2: "later h' h2" "cov = Covered \<Longrightarrow> num (cv_acceptedAmount v) = n \<Longrightarrow> kept c v h2"
        have l: "later h h2" by (rule later_trans [OF h' h2(1)])
        have "Q True h2" if "cov = Covered"
          using assms(4) [OF later_extends [OF l]] h2(2) [OF that n(2)] later_same [OF l] assms(2)
          by (simp add: charge_kept_def)
        then show "wp (if cov = Covered then Done True else bind (absorbPaidCallAndFence c v) (\<lambda>_. Done False)) (chan_guard ce) Q E h2"
          using absorb [OF l] by auto
      qed
      show ?thesis
        unfolding persistVoucherOrReverse_def putLatestVoucher_def
        using False Inr
        by (auto intro!: wp_date_now wp_store_update g ok assms(4) reread [unfolded wp_bind] simp del: chan_req_guard.simps
            simp: later_Cons)
    qed
  qed
qed

lemma wp_commit_paid:
  assumes "cleared ce c i (applyMarkup m) v h" "paid h" "\<not> put_returned h"
    "\<And>h'. extends h h' \<Longrightarrow> charge_kept c v h' \<Longrightarrow> Q None h'"
    "\<And>r h'. extends h h' \<Longrightarrow> charge_reversed c h' \<Longrightarrow> jfield (rs_body r) ''charged_usd'' = Some (JStr ''0.00'') \<Longrightarrow> Q (Some r) h'"
    "\<And>e h'. E e h'"
  shows "wp (commitPaidVoucher c v j cid) (chan_guard ce) Q E h"
  unfolding commitPaidVoucher_def wp_bind [of "revalidateChannelDeliveryLock _ _"]
proof (rule wp_revalidate)
  fix ours h' assume h': "later h h'"
  have c: "cleared ce c i (applyMarkup m) v h'" "paid h'" "\<not> put_returned h'"
    using extends_mono(5) [OF later_extends [OF h'] assms(1)] later_same [OF h'] assms(2,3) by auto
  have zero: "jfield (rs_body (settlementFailed cid)) ''charged_usd'' = Some (JStr ''0.00'')"
    "jfield (rs_body (fail 409 code message (not_charged cid))) ''charged_usd'' = Some (JStr ''0.00'')" for code message
    by (simp_all add: settlementFailed_def fail_def json_response_def not_charged_def)
  have yes: "wp (bind (persistVoucherOrReverse c v) (\<lambda>committed. Done (if committed then None else Some (settlementFailed cid))))
      (chan_guard ce) Q E h'"
    unfolding wp_bind
    by (rule wp_persist [OF c]) (auto intro: assms(4-6) zero extends_trans [OF later_extends [OF h']])
  have absorb: "wp (bind (absorbPaidCallAndFence c v) (\<lambda>_. Done (Some (fail 409 ''lock_superseded_after_pay''
      ''this call was superseded after payment; you were not charged'' (not_charged cid))))) (chan_guard ce) Q E h2"
    if h2: "later h' h2" for h2
    unfolding wp_bind
  proof (rule wp_absorb)
    show "\<exists>k price. \<exists>e \<in> set h2. verified ce c k price v e"
      using accepted_verified [OF cleared_accepted [OF c(1)]] later_mem [OF _ h2] by blast
    show n: "\<not> put_returned h2" using later_same [OF h2] c(3) by simp
    show "wp (Done (Some (fail 409 ''lock_superseded_after_pay'' ''this call was superseded after payment; you were not charged''
        (not_charged cid)))) (chan_guard ce) Q E h3" if "later h2 h3" "fenced c h3 \<or> fence_failed c h3" for h3
      unfolding wp_Done by (rule assms(5) [OF later_extends [OF later_trans [OF later_trans [OF h' h2] that(1)]] _ zero(2)]) (use that n later_same [OF that(1)] in \<open>simp add: charge_reversed_def\<close>)
  qed
  have no: "wp (bind (checkCovered c n) (\<lambda>cov. if cov = Covered then Done None else bind (absorbPaidCallAndFence c v)
      (\<lambda>_. Done (Some (fail 409 ''lock_superseded_after_pay'' ''this call was superseded after payment; you were not charged''
        (not_charged cid)))))) (chan_guard ce) Q E h'" if n: "parseAtomic (Some (cv_acceptedAmount v)) = Inr n" for n
    unfolding wp_bind [of "checkCovered _ _"]
  proof (rule wp_checkCovered)
    fix cov h2 assume h2: "later h' h2" "cov = Covered \<Longrightarrow> num (cv_acceptedAmount v) = n \<Longrightarrow> kept c v h2"
    have "Q None h2" if "cov = Covered"
      by (rule assms(4) [OF later_extends [OF later_trans [OF h' h2(1)]]])
        (use h2(2) [OF that] parseAtomic_num [OF n] later_same [OF h2(1)] c(2) in \<open>simp add: charge_kept_def\<close>)
    then show "wp (if cov = Covered then Done None else bind (absorbPaidCallAndFence c v)
      (\<lambda>_. Done (Some (fail 409 ''lock_superseded_after_pay'' ''this call was superseded after payment; you were not charged''
        (not_charged cid))))) (chan_guard ce) Q E h2" using absorb [OF h2(1)] by auto
  qed
  show "wp (if ours then bind (persistVoucherOrReverse c v) (\<lambda>committed. Done (if committed then None else Some (settlementFailed cid)))
      else bind (throwing (parseAtomic (Some (cv_acceptedAmount v)))) (\<lambda>ourCumulative. bind (checkCovered c ourCumulative) (\<lambda>cov.
        if cov = Covered then Done None else bind (absorbPaidCallAndFence c v) (\<lambda>_. Done (Some (fail 409
          ''lock_superseded_after_pay'' ''this call was superseded after payment; you were not charged'' (not_charged cid)))))))
      (chan_guard ce) Q E h'"
    using yes no assms(6) by (simp split: sum.split)
qed (rule assms(6))

subsection \<open>The metered call\<close>

text \<open>
  What an answer that names a charge means: either it says 0.00, and what was paid, if anything, was absorbed behind a
  fence; or it says the price, a merchant was paid, and the voucher that pays for it is kept.
\<close>

definition charge_told :: "cenv \<Rightarrow> response \<Rightarrow> history \<Rightarrow> bool" where
  "charge_told ce r h \<longleftrightarrow>
     (\<forall>x. rs_status r \<noteq> 402 \<longrightarrow> jfield (rs_body r) ''charged_usd'' = Some x \<longrightarrow>
        (\<exists>c i m v. accepted ce c i (applyMarkup m) v h \<and>
           (x = JStr ''0.00'' \<and> charge_reversed c h \<or> x = usd (applyMarkup m) \<and> charge_kept c v h)))"

lemma charge_told_later: "charge_told ce r h \<Longrightarrow> later h h' \<Longrightarrow> charge_told ce r h'"
  unfolding charge_told_def by (meson charge_later extends_mono(6) later_extends)

definition no_charge :: "(string \<times> json) list \<Rightarrow> bool" where
  "no_charge fs \<longleftrightarrow> map_of fs ''charged_usd'' = None"

text \<open>The two halves of a metered call: the paid part and the body built from its answer.\<close>

definition payable :: "cenv \<Rightarrow> int \<Rightarrow> (json \<times> bool \<times> string option) prog \<Rightarrow> bool" where
  "payable ce m p \<longleftrightarrow>
     (\<forall>h c i v. cleared ce c i (applyMarkup m) v h \<longrightarrow>
        wp p (chan_guard ce) (\<lambda>x h'. exact h (fst (snd x)) h' \<and> put_returned h' = put_returned h)
          (\<lambda>e h'. exact h (exn_evidence e = EvYes) h' \<and> put_returned h' = put_returned h) h)"

definition buildable :: "cenv \<Rightarrow> int \<Rightarrow> (json \<Rightarrow> (string \<times> json) list option prog) \<Rightarrow> bool" where
  "buildable ce m b \<longleftrightarrow>
     (\<forall>h c i v val. cleared ce c i (applyMarkup m) v h \<longrightarrow>
        wp (b val) (chan_guard ce) (\<lambda>r h'. (\<forall>fs. r = Some fs \<longrightarrow> no_charge fs) \<and> extends h h') (\<lambda>_ h'. extends h h') h)"

lemma exact_ext: "exact h p h' \<Longrightarrow> extends h h'"
  by (auto simp: exact_def extends_def)

lemma charged_fields:
  "jfield (rs_body (fail status code message ((''call_id'', JStr cid) # pricingFields price m cost @ extra))) ''charged_usd'' = Some (usd price)"
  "jfield (rs_body (fail status code message (not_charged cid))) ''charged_usd'' = Some (JStr ''0.00'')"
  "no_charge fs \<Longrightarrow> jfield (rs_body (json_response ((''call_id'', JStr cid) # fs @ pricingFields price m cost) 200)) ''charged_usd''
     = Some (usd price)"
  by (simp_all add: fail_def json_response_def not_charged_def pricingFields_def no_charge_def map_add_def)

lemma told_kept:
  "accepted ce c i (applyMarkup m) v h \<Longrightarrow> charge_kept c v h \<Longrightarrow> jfield (rs_body r) ''charged_usd'' = Some (usd (applyMarkup m))
    \<Longrightarrow> charge_told ce r h"
  unfolding charge_told_def by auto

lemma told_reversed:
  "accepted ce c i (applyMarkup m) v h \<Longrightarrow> charge_reversed c h \<Longrightarrow> jfield (rs_body r) ''charged_usd'' = Some (JStr ''0.00'')
    \<Longrightarrow> charge_told ce r h"
  unfolding charge_told_def by auto

lemma wp_deliver:
  assumes "cleared ce (vc_contract vc) i (applyMarkup m) (vc_voucher vc) h" "paid h" "\<not> put_returned h" "buildable ce m build"
  shows "wp (deliver vc cid (applyMarkup m) maxRaw build val cost) (chan_guard ce) (charge_told ce) (\<lambda>_ _. True) h"
  unfolding deliver_def wp_bind [of "commitPaidVoucher _ _ _ _"]
proof (rule wp_commit_paid [OF assms(1-3)])
  let ?c = "vc_contract vc" and ?v = "vc_voucher vc"
  note acc = cleared_accepted [OF assms(1)]
  fix h' assume h': "extends h h'"
  show "wp (case Some r of None \<Rightarrow> bind (attempt (build val)) (\<lambda>b. Done (case b of
        Inr (Some bodyFields) \<Rightarrow> json_response ([(''call_id'', JStr cid)] @ bodyFields @ pricingFields (applyMarkup m) maxRaw cost) 200
      | _ \<Rightarrow> fail 502 ''upstream_empty'' ''upstream was paid but returned no usable result''
          ([(''call_id'', JStr cid)] @ pricingFields (applyMarkup m) maxRaw cost @ CHARGED_NOTE))) | Some resp \<Rightarrow> Done resp)
      (chan_guard ce) (charge_told ce) (\<lambda>_ _. True) h'"
    if "charge_reversed ?c h'" "jfield (rs_body r) ''charged_usd'' = Some (JStr ''0.00'')" for r
    using told_reversed [OF extends_mono(6) [OF h' acc] that] by simp
  assume k: "charge_kept ?c ?v h'"
  have told: "charge_told ce r h2" if "extends h' h2" "jfield (rs_body r) ''charged_usd'' = Some (usd (applyMarkup m))" for r h2
    using told_kept [OF extends_mono(6) [OF extends_trans [OF h' that(1)] acc] _ that(2)] k extends_mono(1,2) [OF that(1)]
    by (auto simp: charge_kept_def)
  have "wp (build val) (chan_guard ce) (\<lambda>r h2. (\<forall>fs. r = Some fs \<longrightarrow> no_charge fs) \<and> extends h' h2) (\<lambda>_ h2. extends h' h2) h'"
    using assms(4) extends_mono(5) [OF h' assms(1)] unfolding buildable_def by blast
  then show "wp (case None of None \<Rightarrow> bind (attempt (build val)) (\<lambda>b. Done (case b of
        Inr (Some bodyFields) \<Rightarrow> json_response ([(''call_id'', JStr cid)] @ bodyFields @ pricingFields (applyMarkup m) maxRaw cost) 200
      | _ \<Rightarrow> fail 502 ''upstream_empty'' ''upstream was paid but returned no usable result''
          ([(''call_id'', JStr cid)] @ pricingFields (applyMarkup m) maxRaw cost @ CHARGED_NOTE))) | Some resp \<Rightarrow> Done resp)
      (chan_guard ce) (charge_told ce) (\<lambda>_ _. True) h'"
    unfolding option.case wp_bind wp_attempt wp_Done
    by (rule wp_mono) (auto intro!: told simp: charged_fields split: option.split)
qed simp

lemma as_upstream_cases:
  obtains code status message where "as_upstream e = (code, status, message, exn_evidence e)"
  by (cases e) (simp_all add: as_upstream_def)

lemma wp_upstream_failed:
  assumes "cleared ce (vc_contract vc) i (applyMarkup m) (vc_voucher vc) h" "paid h \<longleftrightarrow> exn_evidence e = EvYes" "\<not> put_returned h"
  shows "wp (upstream_failed vc cid (applyMarkup m) maxRaw e) (chan_guard ce) (charge_told ce) (\<lambda>_ _. True) h"
proof -
  note acc = cleared_accepted [OF assms(1)]
  obtain code status message where e: "as_upstream e = (code, status, message, exn_evidence e)" by (rule as_upstream_cases)
  show ?thesis
  proof (cases "exn_evidence e = EvYes")
    case True
    with assms(2) have p: "paid h" by simp
    show ?thesis
      unfolding upstream_failed_def e prod.case if_P [OF True] wp_bind
      by (rule wp_commit_paid [OF assms(1) p assms(3)])
        (auto intro: told_reversed told_kept extends_mono(6) [OF _ acc] simp: charged_fields)
  next
    case False
    with assms(2) have p: "\<not> paid h" by simp
    show ?thesis
      unfolding upstream_failed_def e prod.case if_not_P [OF False] wp_bind
    proof (rule wp_reverse [OF accepted_verified [OF acc] p assms(3)])
      fix h' assume h': "later h h'"
      then have "charge_reversed (vc_contract vc) h'" using later_same [OF h'] p assms(3) by (simp add: charge_reversed_def)
      then show "wp (Done (fail status code message (not_charged cid))) (chan_guard ce) (charge_told ce) (\<lambda>_ _. True) h'"
        using told_reversed [OF extends_mono(6) [OF later_extends [OF h'] acc]] charged_fields(2) by simp
    qed
  qed
qed

lemma wp_refuse:
  assumes "accepted ce c i (applyMarkup m) v h" "\<not> paid h" "\<not> put_returned h"
  shows "wp (bind (reverseChargeOrFence c v) (\<lambda>_. Done (fail status code message (not_charged cid)))) (chan_guard ce) (charge_told ce) E h"
  unfolding wp_bind
proof (rule wp_reverse [OF accepted_verified [OF assms(1)] assms(2,3)])
  fix h' assume h': "later h h'"
  then have "charge_reversed c h'" using later_same [OF h'] assms(2,3) by (simp add: charge_reversed_def)
  then show "wp (Done (fail status code message (not_charged cid))) (chan_guard ce) (charge_told ce) E h'"
    using told_reversed [OF extends_mono(6) [OF later_extends [OF h'] assms(1)]] charged_fields(2) by simp
qed

lemma wp_paid_section:
  assumes acc: "accepted ce (vc_contract vc) (vc_lockId vc) (applyMarkup m) (vc_voucher vc) h" and p: "\<not> paid h" "\<not> put_returned h"
    and parts: "payable ce m doUpstream" "buildable ce m build"
  shows "wp (paid_section vc cid (applyMarkup m) maxRaw doUpstream build) (chan_guard ce) (charge_told ce) (\<lambda>_ _. True) h"
  unfolding paid_section_def wp_bind [of "revalidateChannelDeliveryLock _ _"]
proof (rule wp_revalidate)
  fix ours h'
  assume h': "later h h'" and ours: "ours \<Longrightarrow> (\<And>Ps. in_order Ps h \<Longrightarrow>
    in_order (granted (lockKey (vc_contract vc)) (revalidates (vc_lockId vc)) # Ps) h')"
  have p': "\<not> paid h'" "\<not> put_returned h'" using later_same [OF h'] p by simp_all
  have acc': "accepted ce (vc_contract vc) (vc_lockId vc) (applyMarkup m) (vc_voucher vc) h'"
    by (rule extends_mono(6) [OF later_extends [OF h'] acc])
  let ?rest = "\<lambda>up. case up of Inl e \<Rightarrow> upstream_failed vc cid (applyMarkup m) maxRaw e
    | Inr (val, pd, cost) \<Rightarrow> if \<not> pd then bind (reverseChargeOrFence (vc_contract vc) (vc_voucher vc)) (\<lambda>_. Done (fail 502 ''upstream_unpaid''
        ''the call did not complete a payment; you were not charged'' (not_charged cid)))
      else deliver vc cid (applyMarkup m) maxRaw build val cost"
  have pay: "wp (bind (attempt doUpstream) ?rest) (chan_guard ce) (charge_told ce) (\<lambda>_ _. True) h'" if o: ours
  proof -
    have cl: "cleared ce (vc_contract vc) (vc_lockId vc) (applyMarkup m) (vc_voucher vc) h'"
      using acc ours [OF o] unfolding accepted_def cleared_def by blast
    have cl2: "cleared ce (vc_contract vc) (vc_lockId vc) (applyMarkup m) (vc_voucher vc) h2" if "exact h' b h2" for h2 b
      by (rule extends_mono(5) [OF exact_ext [OF that] cl])
    have "wp doUpstream (chan_guard ce) (\<lambda>x h2. exact h' (fst (snd x)) h2 \<and> put_returned h2 = put_returned h')
          (\<lambda>e h2. exact h' (exn_evidence e = EvYes) h2 \<and> put_returned h2 = put_returned h') h'"
      using parts(1) cl unfolding payable_def by blast
    then show ?thesis
      unfolding wp_bind wp_attempt
    proof (rule wp_mono)
      fix e h2 assume "exact h' (exn_evidence e = EvYes) h2 \<and> put_returned h2 = put_returned h'"
      then show "wp (?rest (Inl e)) (chan_guard ce) (charge_told ce) (\<lambda>_ _. True) h2"
        using wp_upstream_failed [OF cl2] exact_paid p' by simp
    next
      fix x :: "json \<times> bool \<times> string option" and h2 assume x: "exact h' (fst (snd x)) h2 \<and> put_returned h2 = put_returned h'"
      obtain val pd cost where x2: "x = (val, pd, cost)" by (cases x) auto
      show "wp (?rest (Inr x)) (chan_guard ce) (charge_told ce) (\<lambda>_ _. True) h2"
      proof (cases pd)
        case True
        have "paid h2" using exact_paid [of h' pd h2] x x2 True by simp
        then show ?thesis using wp_deliver [OF cl2 [where b = True] _ _ parts(2)] x x2 True p' by simp
      next
        case False
        have "\<not> paid h2" using exact_paid [of h' pd h2] x x2 False p' by simp
        then show ?thesis
          using wp_refuse [OF extends_mono(6) [OF exact_ext [where p = False] acc']] x x2 False p' by (simp del: wp_bind)
      qed
    qed
  qed
  show "wp (if \<not> ours then bind (reverseChargeOrFence (vc_contract vc) (vc_voucher vc)) (\<lambda>_. Done (fail 409 ''lock_superseded''
      ''this call was superseded before payment; you were not charged'' (not_charged cid)))
      else bind (attempt doUpstream) ?rest) (chan_guard ce) (charge_told ce) (\<lambda>_ _. True) h'"
    using pay wp_refuse [OF acc' p'] by (simp del: wp_bind)
qed simp

subsection \<open>The verification of a voucher\<close>

lemma wp_resolve:
  assumes "\<And>rs h'. later h h' \<Longrightarrow> in_order [registered ce (rc_contract rs) (rc_commitmentKey rs) (rc_depositRaw rs)] h' \<Longrightarrow> Q rs h'"
    "\<And>e h'. later h h' \<Longrightarrow> E e h'"
  shows "wp (resolvePgChannelMppx ce auth agent) (chan_guard ce) Q E h"
proof -
  have found: "wp (bind (getPgChannel c) (\<lambda>s. case s of
        None \<Rightarrow> Throw (StellarChannelNotRegisteredError g)
      | Some state \<Rightarrow> if \<not> pgChannelProvenanceOk state ce then Throw (StellarChannelNotRegisteredError g)
          else Done \<lparr>rc_contract = c, rc_commitmentKey = pc_commitmentKey state, rc_agent = pc_agent state,
                     rc_currency = pc_currency state, rc_depositRaw = pc_depositRaw state\<rparr>)) (chan_guard ce) Q E h'"
    if h': "later h h'" for c g h'
    unfolding wp_bind
    by (rule wp_getPgChannel)
      (auto simp: registered_def later_Cons [OF h'] intro!: assms split: option.split intro: later_trans [OF h'])
  show ?thesis
  proof (cases "case extractAgentAccount ce auth of Some g \<Rightarrow> Some g | None \<Rightarrow> agent")
    case None
    then show ?thesis by (simp add: resolvePgChannelMppx_def assms)
  next
    case (Some g)
    have next': "wp (if c = None \<or> c = Some [] then Throw (StellarChannelNotRegisteredError g) else
        bind (getPgChannel (the c)) (\<lambda>s. case s of
        None \<Rightarrow> Throw (StellarChannelNotRegisteredError g)
      | Some state \<Rightarrow> if \<not> pgChannelProvenanceOk state ce then Throw (StellarChannelNotRegisteredError g)
          else Done \<lparr>rc_contract = the c, rc_commitmentKey = pc_commitmentKey state, rc_agent = pc_agent state,
                     rc_currency = pc_currency state, rc_depositRaw = pc_depositRaw state\<rparr>)) (chan_guard ce) Q E h'"
      if "later h h'" for c h'
      using found [OF that] assms(2) [OF that] by (simp del: wp_bind)
    show ?thesis
      unfolding resolvePgChannelMppx_def Let_def Some option.sel
      using wp_getPgChannelForAgent [of h, OF next' assms(2)] assms(2) [OF later_refl] by simp
  qed
qed

lemma wp_closing:
  assumes "\<And>b h'. later h h' \<Longrightarrow> (\<not> b \<Longrightarrow> (\<And>Ps. in_order Ps h \<Longrightarrow> in_order (open_state c # Ps) h')) \<Longrightarrow> Q b h'"
  shows "wp (channelClosingForSpend c) (chan_guard ce) Q E h"
proof -
  have lost': "Q True h'" if "later h h'" for h' by (rule assms [OF that]) simp
  have state: "Q (isClosingOrRefundable s) h'"
    if "later h h'" "\<And>Ps. cs_closeEffectiveAt s = None \<Longrightarrow> in_order Ps h \<Longrightarrow> in_order (open_state c # Ps) h'" for s h'
    by (rule assms [OF that(1)]) (simp add: isClosingOrRefundable_def that(2))
  have read: "wp (bind (getChannelState c) (\<lambda>s. let entry = s\<lparr>cs_balance := None\<rparr> in
      Chan (CachePut c entry now) (\<lambda>a. bind (from_outside a) (\<lambda>_. Done entry)))) (chan_guard ce)
      (\<lambda>s. Q (isClosingOrRefundable s)) (\<lambda>_. Q True) h'" if h': "later h h'" for h' now
    unfolding wp_bind Let_def
  proof (rule wp_getChannelState)
    fix s
    have "Q (isClosingOrRefundable (s\<lparr>cs_balance := None\<rparr>))
        (EChan (CachePut c (s\<lparr>cs_balance := None\<rparr>) now) a # EChan (ReadState c) (Inr (AState s)) # h')" for a
      by (rule state) (auto simp: later_Cons h' open_state_def later_in_order [OF _ h'])
    then show "wp (Chan (CachePut c (s\<lparr>cs_balance := None\<rparr>) now) (\<lambda>a. bind (from_outside a) (\<lambda>_. Done (s\<lparr>cs_balance := None\<rparr>))))
        (chan_guard ce) (\<lambda>s. Q (isClosingOrRefundable s)) (\<lambda>_. Q True) (EChan (ReadState c) (Inr (AState s)) # h')"
      by (auto simp: later_Cons h' split: sum.split intro: lost')
  qed (auto intro: lost' later_trans [OF h'])
  have cached: "Q (isClosingOrRefundable s) (EChan (CacheGet c) (Inr (ACached (Some (s, t)))) # h)" for s t
    by (rule state) (auto simp: later_Cons open_state_def)
  show ?thesis
    unfolding channelClosingForSpend_def readCloseState_def Let_def
    using lost' read [unfolded Let_def wp_bind, OF later_Cons [OF later_refl]] cached
    by (auto simp: date_now_def later_Cons split: sum.split chan_ans.split option.split prod.split)
qed

text \<open>A response that does not name a charge, or is a challenge.\<close>

definition silent :: "response \<Rightarrow> bool" where
  "silent r \<longleftrightarrow> rs_status r = 402 \<or> jfield (rs_body r) ''charged_usd'' = None"

lemma silent_told: "silent r \<Longrightarrow> charge_told ce r h"
  by (auto simp: silent_def charge_told_def)

lemma silent_fail [simp]:
  "silent (fail 402 code message extra)" "map_of extra ''charged_usd'' = None \<Longrightarrow> silent (fail status code message extra)"
  "silent \<lparr>rs_status = 402, rs_headers = hs, rs_body = b\<rparr>"
  by (simp_all add: silent_def fail_def json_response_def)

lemma silent_offer [simp]: "rs_status r = 402 \<Longrightarrow> silent (withChannelOffer ce u p r)" "rs_status (fail status code message extra) = status"
  by (auto simp: silent_def withChannelOffer_def fail_def json_response_def split: option.split json.split if_split)

lemma wp_release_with:
  "later h h' \<Longrightarrow> (\<And>h2. later h h2 \<Longrightarrow> Q x h2) \<Longrightarrow>
    wp (releaseChannelDeliveryLock c i) (chan_guard ce) (\<lambda>_. Q x) (\<lambda>_ _. True) h'"
  by (rule wp_release_lock) (auto intro: later_trans)

lemma wp_watermark:
  assumes "later h h'" "in_order (tl (gate_events ce (rc_contract rs) (rc_commitmentKey rs) (rc_depositRaw rs) i p)) h'"
    and refused: "\<And>resp h'. later h h' \<Longrightarrow> silent resp \<Longrightarrow> Q (Inl resp) h'"
    and taken: "\<And>i prev h'. later h h' \<Longrightarrow> gated ce (rc_contract rs) (rc_commitmentKey rs) i prev price h' \<Longrightarrow> Q (Inr (i, prev)) h'"
  shows "wp (store_get (cumulativeKey (rc_contract rs))) (chan_guard ce) (\<lambda>prev.
      wp (let previousAmount = watermark_text prev in
          bind (throwing (parseAtomic (Some previousAmount))) (\<lambda>prevRaw.
          bind (throwing (parseAtomic (Some (rc_depositRaw rs)))) (\<lambda>depositRaw.
          if depositRaw < prevRaw + price
          then bind (releaseChannelDeliveryLock (rc_contract rs) i) (\<lambda>_.
             let remaining = (if prevRaw < depositRaw then depositRaw - prevRaw else 0) in
             Done (Inl (withChannelOffer ce (cq_url rq) (Some price)
             (fail 402 ''insufficient_channel_balance''
                ''this call would exceed the channel deposit; top up or open a new channel''
                [(''remaining_usd'', usd remaining), (''price_usd'', usd price)]))))
          else Done (Inr (i, previousAmount))))) (chan_guard ce) Q (\<lambda>_ _. True)) (\<lambda>_ _. True) h'"
proof (rule wp_store_get)
  let ?c = "rc_contract rs"
  fix v
  let ?h = "EChan (StoreGet (cumulativeKey ?c)) (Inr (AValue v)) # h'"
  have l: "later h ?h" by (simp add: later_Cons assms(1))
  have "in_order (gate_events ce ?c (rc_commitmentKey rs) (rc_depositRaw rs) i (watermark_text v)) ?h"
    using assms(2) by (simp add: gate_events_def read_as_def)
  then have "Q (Inr (i, watermark_text v)) ?h"
    if "parseAtomic (Some (watermark_text v)) = Inr p" "parseAtomic (Some (rc_depositRaw rs)) = Inr d" "\<not> d < p + price" for p d
    using that by (intro taken [OF l]) (force simp: gated_def room_for_def)
  moreover have "wp (releaseChannelDeliveryLock ?c i) (chan_guard ce) (\<lambda>_. Q (Inl resp)) (\<lambda>_ _. True) ?h" if "silent resp" for resp
    by (rule wp_release_with [where Q = Q, OF l]) (rule refused [OF _ that])
  ultimately show "wp (let previousAmount = watermark_text v in
          bind (throwing (parseAtomic (Some previousAmount))) (\<lambda>prevRaw.
          bind (throwing (parseAtomic (Some (rc_depositRaw rs)))) (\<lambda>depositRaw.
          if depositRaw < prevRaw + price
          then bind (releaseChannelDeliveryLock (rc_contract rs) i) (\<lambda>_.
             let remaining = (if prevRaw < depositRaw then depositRaw - prevRaw else 0) in
             Done (Inl (withChannelOffer ce (cq_url rq) (Some price)
             (fail 402 ''insufficient_channel_balance''
                ''this call would exceed the channel deposit; top up or open a new channel''
                [(''remaining_usd'', usd remaining), (''price_usd'', usd price)]))))
          else Done (Inr (i, previousAmount))))) (chan_guard ce) Q (\<lambda>_ _. True) ?h"
    by (simp add: Let_def split: sum.split)
qed simp

lemma wp_take_delivery:
  assumes reg: "in_order [registered ce (rc_contract rs) (rc_commitmentKey rs) (rc_depositRaw rs)] h"
    and refused: "\<And>resp h'. later h h' \<Longrightarrow> silent resp \<Longrightarrow> Q (Inl resp) h'"
    and taken: "\<And>i prev h'. later h h' \<Longrightarrow> gated ce (rc_contract rs) (rc_commitmentKey rs) i prev price h' \<Longrightarrow> Q (Inr (i, prev)) h'"
  shows "wp (take_delivery ce rq price rs) (chan_guard ce) Q (\<lambda>_ _. True) h"
proof -
  let ?c = "rc_contract rs"
  have leave: "wp (releaseChannelDeliveryLock ?c i) (chan_guard ce) (\<lambda>_. Q (Inl resp)) (\<lambda>_ _. True) h'"
    if "later h h'" "silent resp" for i resp h'
    by (rule wp_release_with [where Q = Q, OF that(1)]) (rule refused [OF _ that(2)])
  show ?thesis
    unfolding take_delivery_def Let_def [of ?c] wp_bind wp_attempt
    apply (intro wp_uuid wp_acquire)
     subgoal premises p1 for i acquired h1
     proof (cases acquired)
       case True
       show ?thesis
         apply (simp only: True not_True_eq_False if_False wp_bind)
         apply (rule wp_isChannelBlocked)
          subgoal premises p2 for blocked h2
          proof (cases blocked)
            case True
            then show ?thesis using leave [OF later_trans [OF p1(1) p2(1)]] by simp
          next
            case False
            show ?thesis
              unfolding if_not_P [OF False] wp_bind
              apply (rule wp_closing)
              subgoal premises p3 for closing h3
              proof (cases closing)
                case True
                show ?thesis unfolding if_P [OF True] wp_bind wp_attempt wp_Done
                  by (intro wp_fence leave) (blast intro: p1(1) p2(1) p3(1) later_trans, simp)
              next
                case False
                have "in_order (tl (gate_events ce ?c (rc_commitmentKey rs) (rc_depositRaw rs) i [])) h3"
                  using p3(2) [OF False p2(2) [OF \<open>\<not> blocked\<close> p1(2) [OF \<open>acquired\<close> reg]]] by (simp add: gate_events_def)
                with later_trans [OF later_trans [OF p1(1) p2(1)] p3(1)] show ?thesis
                  unfolding if_not_P [OF False] wp_bind by (rule wp_watermark) (rule refused taken; assumption)+
              qed
              done
          qed
          apply simp
         done
     next
       case False
       then show ?thesis by (simp add: refused p1(1))
     qed
     apply simp
    done
qed

lemma voucher_of_previous: "voucher_of a b prev = Some v \<Longrightarrow> cv_previousAmount v = prev"
  by (auto simp: voucher_of_def split: option.splits if_splits)

lemma hook_previous: "hook_voucher p prev = Some v \<Longrightarrow> cv_previousAmount v = prev"
  by (auto simp: hook_voucher_def dest: voucher_of_previous)

lemma recovered_previous: "recovered_voucher ce a prev = Some v \<Longrightarrow> cv_previousAmount v = prev"
  by (auto simp: recovered_voucher_def dest: voucher_of_previous split: option.splits)

lemma gated_accepted:
  assumes "gated ce c key i prev price h" "verified ce c key price v e" "cv_previousAmount v = prev" "\<not> cv_close v"
  shows "accepted ce c i price v (e # h)"
  using assms by (auto simp: gated_def accepted_def)

lemma captured_verified:
  assumes "(case hook_voucher payment prev of Some v \<Rightarrow> Some v | None \<Rightarrow> recovered_voucher ce (the (authorization rq)) prev) = Some v"
    "authorization rq \<noteq> None"
  shows "cv_previousAmount v = prev \<and>
    verified ce c key price v (EChan (VerifyVoucher \<lparr>vr_channel = c, vr_commitmentKey = key, vr_amount = priceToChannelAmount price,
      vr_reference = ref, vr_authorization = rq_auth (cq_request rq)\<rparr>) (Inr (AVerify (Accepted payment))))"
proof -
  have a: "authorization rq = rq_auth (cq_request rq)"
    using assms(2) by (auto simp: authorization_def split: option.splits list.splits)
  have p: "cv_previousAmount v = prev"
    using assms(1) by (auto split: option.splits dest: hook_previous recovered_previous)
  with assms(1) a show ?thesis by (auto simp: verified_def split: option.splits)
qed

lemma wp_release_if:
  "later h h' \<Longrightarrow> (\<And>h2. later h h2 \<Longrightarrow> Q x h2) \<Longrightarrow> wp (release_if c held) (chan_guard ce) (\<lambda>_. Q x) (\<lambda>_ _. True) h'"
  by (auto simp: release_if_def intro: wp_release_with split: option.split)

lemma wp_verify_credential:
  assumes held: "held = None \<and> authorization rq = None \<or>
      (\<exists>i prev. held = Some (i, prev) \<and> authorization rq \<noteq> None \<and>
         gated ce (rc_contract rs) (rc_commitmentKey rs) i prev price h)"
    and clean: "\<not> paid h" "\<not> put_returned h"
    and refused: "\<And>resp h'. silent resp \<Longrightarrow> Q (Inl resp) h'"
    and through: "\<And>vc h'. later h h' \<Longrightarrow> accepted ce (vc_contract vc) (vc_lockId vc) price (vc_voucher vc) h' \<Longrightarrow> Q (Inr vc) h'"
  shows "wp (verify_credential ce rq price ref rs held) (chan_guard ce) Q (\<lambda>_ _. True) h"
proof -
  let ?c = "rc_contract rs"
  let ?vr = "\<lparr>vr_channel = ?c, vr_commitmentKey = rc_commitmentKey rs, vr_amount = priceToChannelAmount price,
           vr_reference = ref, vr_authorization = rq_auth (cq_request rq)\<rparr>"
  have g: "chan_req_guard ce (VerifyVoucher ?vr) h"
    using held by (auto simp: authorization_def split: option.splits list.splits)
  have leave: "wp (releaseChannelDeliveryLock ?c i) (chan_guard ce) (\<lambda>_. Q (Inl resp)) (\<lambda>_ _. True) h'"
    and leave_if: "wp (release_if ?c held) (chan_guard ce) (\<lambda>_. Q (Inl resp)) (\<lambda>_ _. True) h'" if "silent resp" for i resp h'
    by (rule wp_release_with [where Q = Q, OF later_refl] wp_release_if [where Q = Q, OF later_refl], rule refused [OF that])+
  have success: "wp (case held of
               None \<Rightarrow> Done (Inl (fail 503 ''delivery_stopped'' ''voucher verified but capture failed; no upstream call made'' []))
             | Some (lockId, previousAmount) \<Rightarrow>
                 (let voucher = (case hook_voucher payment previousAmount of
                       Some v \<Rightarrow> Some v
                     | None \<Rightarrow> recovered_voucher ce (the (authorization rq)) previousAmount) in
                  case voucher of
                    None \<Rightarrow> bind (releaseChannelDeliveryLock ?c lockId) (\<lambda>_.
                      Done (Inl (fail 503 ''delivery_stopped'' ''voucher verified but capture failed; no upstream call made'' [])))
                  | Some v \<Rightarrow>
                      if cv_close v
                      then bind (attempt (rollbackFailedChannelVoucher ?c (cv_acceptedAmount v) (cv_previousAmount v) (cv_challengeId v))) (\<lambda>_.
                           bind (releaseChannelDeliveryLock ?c lockId) (\<lambda>_.
                           Done (Inl (fail 400 ''close_not_metered'' ''close vouchers are not accepted on metered call endpoints'' []))))
                      else Done (Inr \<lparr>vc_contract = ?c, vc_voucher = v, vc_lockId = lockId\<rparr>)))
      (chan_guard ce) Q (\<lambda>_ _. True) (EChan (VerifyVoucher ?vr) (Inr (AVerify (Accepted payment))) # h)" (is "wp ?p _ _ _ ?h") for payment
  proof (cases held)
    case None
    then show ?thesis by (simp add: refused)
  next
    case (Some ip)
    then obtain i prev where i: "held = Some (i, prev)" "authorization rq \<noteq> None"
      "gated ce ?c (rc_commitmentKey rs) i prev price h" using held by auto
    let ?voucher = "case hook_voucher payment prev of Some v \<Rightarrow> Some v
      | None \<Rightarrow> recovered_voucher ce (the (authorization rq)) prev"
    show ?thesis
    proof (cases ?voucher)
      case None
      then show ?thesis by (simp add: i(1) Let_def leave)
    next
      case (Some v)
      from captured_verified [OF Some i(2)]
      have p: "cv_previousAmount v = prev" and v: "verified ce ?c (rc_commitmentKey rs) price v (hd ?h)" by simp_all
      show ?thesis
      proof (cases "cv_close v")
        case True
        have roll: "wp (rollback_voucher ?c v) (chan_guard ce) Q' E' ?h"
          if "\<And>b h'. later ?h h' \<Longrightarrow> Q' b h'" "\<And>m h'. later ?h h' \<Longrightarrow> E' (JsExn m) h'" for Q' E'
          by (rule wp_rollback) (use v clean that in auto)
        show ?thesis
          unfolding i(1) option.case prod.case Let_def Some if_P [OF True] wp_bind wp_attempt
          by (fold rollback_voucher_def) (auto intro!: roll leave)
      next
        case False
        have "accepted ce ?c i price v ?h" using gated_accepted [OF i(3) v p False] by simp
        then show ?thesis
          using through [of ?h "\<lparr>vc_contract = ?c, vc_voucher = v, vc_lockId = i\<rparr>"] False Some
          by (simp add: i(1) Let_def later_Cons)
      qed
    qed
  qed
  show ?thesis
    unfolding verify_credential_def Let_def
    using g success [unfolded Let_def] leave_if
    by (auto simp: unexpected_def intro!: leave_if [simplified] split: sum.split chan_ans.split verify_answer.split)
qed

lemma wp_verify:
  assumes clean: "\<not> paid h" "\<not> put_returned h"
    and refused: "\<And>resp h'. silent resp \<Longrightarrow> Q (Inl resp) h'"
    and through: "\<And>vc h'. later h h' \<Longrightarrow> accepted ce (vc_contract vc) (vc_lockId vc) price (vc_voucher vc) h' \<Longrightarrow> Q (Inr vc) h'"
  shows "wp (verifyChannelVoucher ce rq price ref) (chan_guard ce) Q (\<lambda>_ _. True) h"
proof -
  have check: "wp (verify_credential ce rq price ref rs held) (chan_guard ce) Q (\<lambda>_ _. True) h'"
    if "later h h'" "held = None \<and> authorization rq = None \<or> (\<exists>i prev. held = Some (i, prev) \<and> authorization rq \<noteq> None \<and>
         gated ce (rc_contract rs) (rc_commitmentKey rs) i prev price h')" for rs held h'
    by (rule wp_verify_credential [OF that(2)])
      (use clean later_same [OF that(1)] refused through later_trans [OF that(1)] in auto)
  have ok: "wp (if authorization rq = None then verify_credential ce rq price ref rs None
           else bind (take_delivery ce rq price rs) (\<lambda>d.
             case d of
               Inl resp \<Rightarrow> Done (Inl resp)
             | Inr held \<Rightarrow> verify_credential ce rq price ref rs (Some held))) (chan_guard ce) Q (\<lambda>_ _. True) h'"
    if h': "later h h'" and reg: "in_order [registered ce (rc_contract rs) (rc_commitmentKey rs) (rc_depositRaw rs)] h'" for rs h'
  proof (cases "authorization rq = None")
    case True
    with check [OF h'] show ?thesis by simp
  next
    case False
    show ?thesis
      unfolding if_not_P [OF False] wp_bind
      by (rule wp_take_delivery [OF reg]) (use False refused check later_trans [OF h'] in auto)
  qed
  have bad: "wp (case Inl e of
         Inl (StellarChannelNotRegisteredError g) \<Rightarrow>
           Done (Inl (withChannelOffer ce (cq_url rq) (Some price)
             (fail 402 ''channel_not_registered'' (exn_message (StellarChannelNotRegisteredError g))
               [(''hint'', JStr ''Open a channel and POST /v1/playground/channel/register first.'')])))
       | Inl e \<Rightarrow> Done (Inl (fail 400 ''channel_unresolved'' (exn_message e) []))
       | Inr rs \<Rightarrow> f rs) (chan_guard ce) Q (\<lambda>_ _. True) h'" for e h' and f :: "resolved_channel \<Rightarrow> (response + verified_call) prog"
    by (auto intro!: refused split: exn.split)
  show ?thesis
    unfolding verifyChannelVoucher_def wp_bind wp_attempt
    by (rule wp_resolve) (simp only: sum.case ok [unfolded wp_bind], rule bad)
qed

lemma wp_metered_channel:
  assumes clean: "\<not> paid h" "\<not> put_returned h" and price: "cp_priceRaw price = applyMarkup (cp_maxUpstreamRaw price)"
    and parts: "payable ce (cp_maxUpstreamRaw price) doUpstream" "buildable ce (cp_maxUpstreamRaw price) build"
  shows "wp (executeMeteredChannelCall ce rq cid price doUpstream build) (chan_guard ce) (charge_told ce) (\<lambda>_ _. True) h"
  unfolding executeMeteredChannelCall_def wp_bind
proof (rule wp_verify [OF clean])
  let ?paid = "\<lambda>vc. finally_ignoring (paid_section vc cid (cp_priceRaw price) (cp_maxUpstreamRaw price) doUpstream build)
    (releaseChannelDeliveryLock (vc_contract vc) (vc_lockId vc))"
  show "wp (case Inl resp of Inl resp \<Rightarrow> Done resp | Inr vc \<Rightarrow> ?paid vc) (chan_guard ce) (charge_told ce) (\<lambda>_ _. True) h'"
    if "silent resp" for resp h'
    using that by (simp add: silent_told)
  show "wp (case Inr vc of Inl resp \<Rightarrow> Done resp | Inr vc \<Rightarrow> ?paid vc) (chan_guard ce) (charge_told ce) (\<lambda>_ _. True) h'"
    if h': "later h h'" and acc: "accepted ce (vc_contract vc) (vc_lockId vc) (cp_priceRaw price) (vc_voucher vc) h'" for vc h'
  proof -
    have "wp (paid_section vc cid (cp_priceRaw price) (cp_maxUpstreamRaw price) doUpstream build) (chan_guard ce)
        (charge_told ce) (\<lambda>_ _. True) h'"
      unfolding price
      by (rule wp_paid_section [OF acc [unfolded price]]) (use clean later_same [OF h'] parts in simp_all)
    moreover have release: "wp (releaseChannelDeliveryLock c i) (chan_guard ce) Q E h2"
      if "\<And>h3. later h2 h3 \<Longrightarrow> Q () h3" "\<And>e h3. later h2 h3 \<Longrightarrow> E e h3" for c i Q E h2
      by (rule wp_release_lock) (auto intro: that)
    ultimately show ?thesis
      unfolding sum.case finally_ignoring_def wp_bind wp_attempt
      by (rule wp_mono) (auto intro!: release intro: charge_told_later)
  qed
qed

subsection \<open>The upstream call\<close>

fun call_of :: "event \<Rightarrow> act option" where
  "call_of (ELedger r a) = Some (CallLedger r)"
| "call_of (EHttp q a) = Some (CallHttp q)"
| "call_of (ESign c a) = Some (CallSign c)"
| "call_of (EChan r a) = Some (CallChan r)"
| "call_of (EKvGet n a) = None"

lemma wp_guard: "wp p G Q E h \<Longrightarrow> (\<And>a h. G a h \<Longrightarrow> G' a h) \<Longrightarrow> wp p G' Q E h"
  by (induction p arbitrary: h) auto

text \<open>What every event of the allowed calls keeps is kept by the program.\<close>

lemma wp_carry:
  assumes "wp p G Q E h" "F h" and carry: "\<And>e h. F h \<Longrightarrow> (\<And>a. call_of e = Some a \<Longrightarrow> G a h) \<Longrightarrow> F (e # h)"
  shows "wp p G (\<lambda>x h. Q x h \<and> F h) (\<lambda>e h. E e h \<and> F h) h"
proof -
  have "F h \<Longrightarrow> G (CallLedger r) h \<Longrightarrow> F (ELedger r a # h)" "F h \<Longrightarrow> G (CallHttp q) h \<Longrightarrow> F (EHttp q w # h)"
    "F h \<Longrightarrow> G (CallSign c) h \<Longrightarrow> F (ESign c u # h)" "F h \<Longrightarrow> G (CallChan r') h \<Longrightarrow> F (EChan r' a' # h)"
    "F h \<Longrightarrow> F (EKvGet n g # h)" for h r a q w c u r' a' n g
    by (rule carry; simp)+
  then show ?thesis using assms(1,2) by (induction p arbitrary: h rule: prog_induct) simp_all
qed

lemma wp_upstream:
  assumes "cleared ce c i (applyMarkup m) v h" "b \<le> m"
  shows "wp (callUpstreamJson (ce_env ce) route query body (Some b)) (chan_guard ce)
    (\<lambda>x h'. exact h (fst (snd x)) h' \<and> put_returned h' = put_returned h)
    (\<lambda>e h'. exact h (exn_evidence e = EvYes) h' \<and> put_returned h' = put_returned h) h"
proof -
  let ?G = "\<lambda>a h. chan_guard ce a h \<and> (\<forall>r. a \<noteq> CallChan r)"
  have "wp (callUpstreamJson (ce_env ce) route query body (Some b)) ?G
      (\<lambda>x h'. exact h (fst (snd x)) h') (\<lambda>e h'. exact h (exn_evidence e = EvYes) h') h"
    by (rule wp_callUpstreamJson_exact)
      (use chan_guard_pays [OF assms] chan_guard_asks [OF assms(1)] in \<open>auto simp: pays_def asks_def\<close>)
  then have "wp (callUpstreamJson (ce_env ce) route query body (Some b)) ?G
      (\<lambda>x h'. exact h (fst (snd x)) h' \<and> put_returned h' = put_returned h)
      (\<lambda>e h'. exact h (exn_evidence e = EvYes) h' \<and> put_returned h' = put_returned h) h"
  proof (rule wp_carry [where F = "\<lambda>h'. put_returned h' = put_returned h"])
    show "put_returned (e # h') = put_returned h"
      if "put_returned h' = put_returned h" "\<And>a. call_of e = Some a \<Longrightarrow> ?G a h'" for e h'
      using that by (cases e) auto
  qed simp
  then show ?thesis by (rule wp_guard) simp
qed

lemma payable_upstream:
  assumes "\<And>b. parseUsd s = Inr b \<Longrightarrow> b \<le> m"
  shows "payable ce m (bind (throwing (parseUsd s)) (\<lambda>budget. callUpstreamJson (ce_env ce) route query body (Some budget)))"
  using wp_upstream assms unfolding payable_def by (auto split: sum.split)

lemma buildable_pure: "(\<And>val fs. f val = Some fs \<Longrightarrow> no_charge fs) \<Longrightarrow> buildable ce m (\<lambda>val. Done (f val))"
  by (auto simp: buildable_def)

lemma buildable_chat: "buildable ce m (chat_result model)"
  by (auto simp: buildable_def chat_result_def completion_text_def non_null_def no_charge_def split: option.split)

lemma blendNarration_budget:
  "findModel BLEND_SUMMARY_MODEL_ID = Some mo \<Longrightarrow> parseUsd (TIER_UPSTREAM_BUDGET_USD (m_tier mo)) = Inr n \<Longrightarrow>
    blendNarrationMaxRaw = Inr n"
  by (simp add: blendNarrationMaxRaw_def)

lemma buildable_blend:
  assumes "\<And>n. blendNarrationMaxRaw = Inr n \<Longrightarrow> n \<le> m"
  shows "buildable ce m (blend_result ce sc dash)"
proof -
  have ext: "wp (bind (attempt (bind (from_sum r) (\<lambda>route. bind (throwing t) (\<lambda>budget.
      bind (callUpstreamJson (ce_env ce) route [] body (Some budget)) (\<lambda>(completion, _). completion_text completion))))) (\<lambda>r.
      Done (g r))) (chan_guard ce) (\<lambda>_ h'. extends h h') (\<lambda>_ h'. extends h h') h"
    if "cleared ce c i (applyMarkup m) v h" "\<And>n. t = Inr n \<Longrightarrow> n \<le> m" for c i v h r t body and g :: "exn + string option \<Rightarrow> string"
  proof -
    have "wp (callUpstreamJson (ce_env ce) route [] body (Some n)) (chan_guard ce) Q (\<lambda>_ h'. extends h h') h"
      if "n \<le> m" "\<And>x h'. extends h h' \<Longrightarrow> Q x h'" for n route Q
      by (rule wp_mono [OF wp_upstream [OF \<open>cleared _ _ _ _ _ _\<close> that(1)]]) (auto intro: that(2) exact_ext)
    then show ?thesis
      using that(2) by (auto simp: completion_text_def non_null_def split: sum.split prod.split option.split)
  qed
  have "wp (narration (ce_env ce) agg s) (chan_guard ce) (\<lambda>_ h'. extends h h') (\<lambda>_ h'. extends h h') h"
    if "cleared ce c i (applyMarkup m) v h" for c i v h agg s
  proof (cases "findModel BLEND_SUMMARY_MODEL_ID")
    case None
    then show ?thesis by (simp add: narration_def)
  next
    case (Some mo)
    have "n \<le> m" if "parseUsd (TIER_UPSTREAM_BUDGET_USD (m_tier mo)) = Inr n" for n
      by (rule assms) (rule blendNarration_budget [OF Some that])
    then show ?thesis using ext [OF that] by (simp add: narration_def Some del: wp_bind)
  qed
  then show ?thesis
    by (auto simp: buildable_def blend_result_def Let_def no_charge_def intro!: wp_mono)
qed

subsection \<open>The endpoints\<close>

lemma model_price: "channelPriceForModel mo = Inr p \<Longrightarrow>
    cp_priceRaw p = applyMarkup (cp_maxUpstreamRaw p) \<and> parseUsd (TIER_UPSTREAM_BUDGET_USD (m_tier mo)) = Inr (cp_maxUpstreamRaw p)"
  by (cases "parseUsd (TIER_UPSTREAM_BUDGET_USD (m_tier mo))") (auto simp: channelPriceForModel_def)

lemma narration_raw: "blendNarrationMaxRaw = Inr 200000"
  by (simp add: blendNarrationMaxRaw_def findModel_def PLAYGROUND_MODELS_def BLEND_SUMMARY_MODEL_ID_def live_model_def
      dead_model_def usd_values)

lemma chip_prices:
  "channelPriceForChip BLEND_CHIP = Inr \<lparr>cp_maxUpstreamRaw = 700000, cp_priceRaw = applyMarkup 700000\<rparr>"
  "channelPriceForChip TX_CHIP = Inr \<lparr>cp_maxUpstreamRaw = 100000, cp_priceRaw = applyMarkup 100000\<rparr>"
  by (simp_all add: channelPriceForChip_def BLEND_CHIP_def TX_CHIP_def usd_values narration_raw)

lemma chip_budgets: "parseUsd (cp_budget BLEND_CHIP) = Inr 500000" "parseUsd (cp_budget TX_CHIP) = Inr 100000"
  by (simp_all add: BLEND_CHIP_def TX_CHIP_def usd_values)

lemma silent_Done: "silent r \<Longrightarrow> wp (Done r) G (charge_told ce) E h"
  by (simp add: silent_told)

lemma wp_call_id: "(\<And>c. Q c h) \<Longrightarrow> wp (callId body) G Q E h"
  by (auto simp: callId_def uuid_def split: option.split json.split)

lemma silent_named [simp]: "silent channel_disabled" "silent BAD_CALL_ID" "silent (route_failure e)"
  by (simp_all add: channel_disabled_def BAD_CALL_ID_def route_failure_def split_beta)

lemma wp_metered_upstream:
  assumes "cp_priceRaw p = applyMarkup (cp_maxUpstreamRaw p)" "\<And>b. parseUsd s = Inr b \<Longrightarrow> b \<le> cp_maxUpstreamRaw p"
    "buildable ce (cp_maxUpstreamRaw p) build"
  shows "wp (executeMeteredChannelCall ce rq cid p (bind (throwing (parseUsd s)) (\<lambda>budget.
      callUpstreamJson (ce_env ce) route query body (Some budget))) build) (chan_guard ce) (charge_told ce) (\<lambda>_ _. True) []"
  by (rule wp_metered_channel [OF _ _ assms(1) payable_upstream [OF assms(2)] assms(3)]) simp_all

lemma wp_channel_chat: "wp (handleChannelChat ce rq) (chan_guard ce) (charge_told ce) (\<lambda>_ _. True) []"
proof -
  have call: "wp (bind (throwing (channelPriceForModel mo)) (\<lambda>price.
      executeMeteredChannelCall ce rq cid price
        (bind (throwing (parseUsd (TIER_UPSTREAM_BUDGET_USD (m_tier mo)))) (\<lambda>budget.
          callUpstreamJson (ce_env ce) route [] body (Some budget)))
        (chat_result mo))) (chan_guard ce) (charge_told ce) (\<lambda>_ _. True) []" for mo cid route body
    unfolding wp_bind [of "throwing (channelPriceForModel mo)"] wp_throwing
    by (cases "channelPriceForModel mo"; simp del: wp_bind; rule wp_metered_upstream [OF _ _ buildable_chat]; simp add: model_price)
  show ?thesis
    unfolding handleChannelChat_def Let_def
    by (auto simp del: wp_bind simp: wp_bind [of "callId b" for b] silent_told intro!: wp_call_id call
        split: exn.split sum.split option.split)
qed

lemma wp_channel_blend: "wp (handleChannelBlendActivity ce sc dash rq) (chan_guard ce) (charge_told ce) (\<lambda>_ _. True) []"
proof -
  let ?p = "\<lparr>cp_maxUpstreamRaw = 700000, cp_priceRaw = applyMarkup 700000\<rparr>"
  have call: "wp (executeMeteredChannelCall ce rq cid ?p
      (bind (throwing (parseUsd (cp_budget BLEND_CHIP))) (\<lambda>budget. callUpstreamJson (ce_env ce) route query None (Some budget)))
      (blend_result ce sc dash)) (chan_guard ce) (charge_told ce) (\<lambda>_ _. True) []" for cid route query
    by (rule wp_metered_upstream) (auto simp: chip_budgets narration_raw intro: buildable_blend)
  show ?thesis
    unfolding handleChannelBlendActivity_def Let_def chip_prices
    by (auto simp del: wp_bind simp: wp_bind [of "callId b" for b] wp_bind [of "throwing t" for t] silent_told
        intro!: wp_call_id call split: sum.split option.split)
qed

lemma wp_decode: "wp (handleChannelTxDecode ce rq) (chan_guard ce) (charge_told ce) (\<lambda>_ _. True) []"
proof -
  let ?p = "\<lparr>cp_maxUpstreamRaw = 100000, cp_priceRaw = applyMarkup 100000\<rparr>"
  have call: "wp (executeMeteredChannelCall ce rq cid ?p
      (bind (throwing (parseUsd (cp_budget TX_CHIP))) (\<lambda>budget. callUpstreamJson (ce_env ce) route query None (Some budget)))
      (\<lambda>result. Done (Some [(''tx_hash'', JStr txHash), (''transaction'', result)])))
      (chan_guard ce) (charge_told ce) (\<lambda>_ _. True) []" for cid route query txHash
    by (rule wp_metered_upstream) (auto simp: chip_budgets no_charge_def intro!: buildable_pure)
  show ?thesis
    unfolding handleChannelTxDecode_def Let_def chip_prices
    by (auto simp del: wp_bind simp: wp_bind [of "callId b" for b] wp_bind [of "throwing t" for t] silent_told
        intro!: wp_call_id call split: sum.split option.split)
qed

end
