(* ===== verification/ChannelAdmin.thy ===== *)
theory ChannelAdmin
  imports ChannelInv
begin

text \<open>
  The guard of the channels derived for the registration of a channel and for the collection of what was spent: only
  a channel whose funder signed it and that is as promised on chain enters the registry, and only the latest voucher,
  under the lock and behind the closed mark, is taken to the chain.
\<close>

subsection \<open>Registration\<close>

lemma check_registration_ok:
  assumes "check_registration ce body = Inr rg"
  shows "channelCollector ce = Some (rg_collector rg) \<and> channelWasmHash ce = Some (rg_wasm rg) \<and>
    (\<exists>factory salt sg. channelFactoryAddress ce = Some factory \<and>
        deriveChannelAddress ce factory (rg_agent rg) salt (channelNetworkPassphrase ce) = Some (rg_contract rg) \<and>
        verifyChannelRegisterSignature ce \<lparr>rt_channel = rg_contract rg, rt_commitmentKey = rg_key rg,
          rt_saltHex = bytes_hex salt, rt_from = rg_agent rg\<rparr> sg)"
  using assms by (auto simp: check_registration_def Let_def split: if_splits option.splits; blast)

lemma check_registration_silent: "check_registration ce body = Inl resp \<Longrightarrow> silent resp"
  by (auto simp: check_registration_def Let_def FORMAT_HINT_def split: if_splits option.splits)

lemma wp_reply: "wp (register_reply rg b d) G (charge_told ce) (\<lambda>_ _. True) h"
  by (auto simp: register_reply_def silent_told silent_def json_response_def split: sum.split)

lemma checked_wasm: "checkChannelMatches ce oc ex = None \<Longrightarrow> ex_wasmHash ex \<noteq> []"
  by (auto simp: checkChannelMatches_def split: if_splits)

lemma wp_register_verified:
  assumes "check_registration ce body = Inr rg"
  shows "wp (register_verified ce rg) (chan_guard ce) (charge_told ce) (\<lambda>_ _. True) h"
proof -
  let ?sac = "getStellarUsdcSac ce"
  let ?s = "\<lambda>oc now. \<lparr>pc_contract = rg_contract rg, pc_commitmentKey = rg_key rg, pc_agent = rg_agent rg,
     pc_currency = ?sac, pc_network = ce_network ce, pc_depositRaw = oc_balanceRaw oc,
     pc_to = rg_collector rg, pc_wasmHash = rg_wasm rg, pc_version = Some PG_PROVENANCE_VERSION, pc_openedAt = now\<rparr>"
  note ok = check_registration_ok [OF assms]
  have put: "wp (putPgChannel (?s oc now)) (chan_guard ce) (\<lambda>_. wp (register_reply rg False d) (chan_guard ce) (charge_told ce) (\<lambda>_ _. True))
      (\<lambda>_ _. True) (EChan (ReadOnChain (rg_contract rg) ?sac) (Inr (AOnChain oc)) # h)" (is "wp _ _ _ _ ?h")
    if "checkChannelMatches ce oc
          \<lparr>ex_collector = rg_collector rg, ex_usdcSac = ?sac, ex_funder = rg_agent rg, ex_commitmentKeyG = rg_key rg,
           ex_refundWaitingPeriod = CHANNEL_REFUND_WAITING_PERIOD, ex_minDepositRaw = CHANNEL_MIN_DEPOSIT_RAW,
           ex_wasmHash = rg_wasm rg\<rparr> = None" for oc now d
  proof -
    have "on_chain ce (?s oc now) ?h" unfolding on_chain_def using that by (intro exI [of _ oc]) simp
    moreover have "signed_registration ce (?s oc now)" using ok by (simp add: signed_registration_def)
    moreover have "pgChannelProvenanceOk (?s oc now) ce" using ok by (simp add: pgChannelProvenanceOk_def)
    ultimately have g: "chan_req_guard ce (PgPut (CHANNEL_PREFIX @ rg_contract rg) (?s oc now)) ?h" by simp
    have g2: "chan_req_guard ce (PgAgentPut (AGENT_PREFIX @ rg_agent rg) (rg_contract rg))
        (EChan (PgPut (CHANNEL_PREFIX @ rg_contract rg) (?s oc now)) (Inr x) # ?h)" for x
      unfolding chan_req_guard.simps by (rule exI [of _ "?s oc now"]) auto
    show ?thesis
      unfolding putPgChannel_def using g g2 by (auto simp del: chan_req_guard.simps simp: wp_reply split: sum.split)
  qed
  show ?thesis
    unfolding register_verified_def readChannelOnChain_def
    using put by (auto simp: unexpected_def date_now_def silent_told split: sum.split chan_ans.split option.split)
qed

lemma wp_register: "wp (handleChannelRegister ce rq) (chan_guard ce) (charge_told ce) (\<lambda>_ _. True) []"
  unfolding handleChannelRegister_def Let_def
  by (auto simp: date_now_def silent_told wp_reply check_registration_silent wp_register_verified intro!: wp_getPgChannel
      split: sum.split option.split)

subsection \<open>Collection\<close>

lemma settling_later: "settling c i lv s h \<Longrightarrow> later h h' \<Longrightarrow> settling c i lv s h'"
  and hopeless_later: "hopeless c n s h \<Longrightarrow> later h h' \<Longrightarrow> hopeless c n s h'"
  by (auto dest!: later_append intro: settling_append hopeless_append)

lemma settling_Cons: "settling c i lv s h \<Longrightarrow> settling c i lv s (e # h)"
  and hopeless_Cons: "hopeless c n s h \<Longrightarrow> hopeless c n s (e # h)"
  using settling_append [of c i lv s h "[e]"] hopeless_append [of c n s h "[e]"] by simp_all

lemma wp_mark_settled:
  assumes "settling c i lv s h" "n = num (lv_cumulativeRaw lv)" "collected c n h \<or> hopeless c n s h"
    "\<And>h'. Q () h'" "\<And>e h'. E e h'"
  shows "wp (markVoucherSettled c (int_str n)) (chan_guard ce) Q E h"
proof -
  have "chan_req_guard ce (StoreUpdate (voucherKey c) (MarkSettled (int_str n) t)) h" for t
    using assms(1-3) by auto
  then show ?thesis
    unfolding markVoucherSettled_def wp_bind by (intro wp_date_now wp_store_update) (simp_all only: assms(4,5) wp_Done)
qed

lemma wp_write_off:
  assumes "settling c i lv s h" "n = num (lv_cumulativeRaw lv)" "hopeless c n s h" "\<And>h'. Q () h'" "\<And>e h'. E e h'"
  shows "wp (writeOffRefundedChannel c n) (chan_guard ce) Q E h"
proof -
  have g: "chan_req_guard ce (StoreUpdate (writeoffKey c) (WriteOff (int_str n) WRITEOFF_REASON t)) h" for t
    using assms(1-3) by auto
  have g2: "chan_req_guard ce (StoreUpdate RECON_WRITEOFF_KEY (AddWriteoff c (int_str n)))
      (EChan (StoreUpdate (writeoffKey c) (WriteOff (int_str n) WRITEOFF_REASON t)) (Inr (ADid b)) # h)" for t b
    by (auto simp: confirmed_def)
  show ?thesis
    unfolding writeOffRefundedChannel_def markVoucherWrittenOff_def wp_bind
    apply (intro wp_date_now wp_store_update g g2)
    unfolding wp_Done
    by (rule wp_mark_settled [OF settling_Cons [OF settling_Cons [OF assms(1)]] assms(2)])
      (use assms(3-5) hopeless_Cons in blast)+
qed

lemma decode_cases: "(\<exists>b. decodeVoucherSignature ce s = Done b) \<or> (\<exists>e. decodeVoucherSignature ce s = Throw e)"
  by (auto simp: decodeVoucherSignature_def Let_def)

lemma wp_close_channel:
  assumes "settling c i lv s h" "n = num (lv_cumulativeRaw lv)" "collectorKeyMatches ce" "\<And>x h'. Q x h'" "\<And>e h'. E e h'"
  shows "wp (close_channel ce c lv n) (chan_guard ce) Q E h"
  using decode_cases [of ce "lv_signature lv"]
proof (elim disjE exE)
  fix e assume "decodeVoucherSignature ce (lv_signature lv) = Throw e"
  then show ?thesis by (simp add: close_channel_def assms(5))
next
  fix b assume b: "decodeVoucherSignature ce (lv_signature lv) = Done b"
  let ?cc = "\<lparr>cc_channel = c, cc_amount = n, cc_signature = b\<rparr>"
  have g: "chan_req_guard ce (CloseOnChain ?cc) h" using assms(1-3) b by auto
  have closed: "wp (markVoucherSettled c (int_str n)) (chan_guard ce) Q' E (EChan (CloseOnChain ?cc) (Inr (ATx tx)) # h)"
    if "\<And>h'. Q' () h'" for Q' tx
    by (rule wp_mark_settled [OF settling_Cons [OF assms(1)] assms(2)])
      (auto simp: collected_def that assms(5) intro!: exI [of _ ?cc])
  have gone: "wp (writeOffRefundedChannel c n) (chan_guard ce) Q' E (EChan (CloseOnChain ?cc) (Inl m) # h)"
    if "text_has m ''balance is not sufficient''" "\<And>h'. Q' () h'" for Q' m
  proof (rule wp_write_off [OF settling_Cons [OF assms(1)] assms(2)])
    show "hopeless c n s (EChan (CloseOnChain ?cc) (Inl m) # h)"
      unfolding hopeless_def by (rule disjI2) (use that(1) in \<open>auto intro!: exI [of _ ?cc]\<close>)
  qed (rule that(2) assms(5))+
  have no: "\<not> text_has ''unexpected answer'' ''balance is not sufficient''" by simp
  show ?thesis
    unfolding close_channel_def b submit_close_def
    using g closed gone no assms(4,5)
    by (simp add: unexpected_def split: sum.split chan_ans.split)
qed

lemma wp_settle_due:
  assumes order: "in_order [state_read c s, voucher_read c lv, granted (lockKey c) (acquires i)] h"
    and coll: "collectorKeyMatches ce" and Q: "\<And>x h'. Q x h'" and E: "\<And>e h'. E e h'"
  shows "wp (settle_due ce c i lv s) (chan_guard ce) Q E h"
proof -
  let ?closing = "cs_closeEffectiveAt s \<noteq> None"
  have mark: "wp (bind (markChannelClosed c) (\<lambda>_. bind (fenceChannelPersistent c) (\<lambda>_.
        if ?closing \<and> channelBalanceIsZero (cs_balance s)
        then bind (writeOffRefundedChannel c n) (\<lambda>_. Done None)
        else close_channel ce c lv n))) (chan_guard ce) Q E h2"
    if o: "in_order [granted (lockKey c) (revalidates i), state_read c s, voucher_read c lv, granted (lockKey c) (acquires i)] h2"
      and d: "due lv s" "n = num (lv_cumulativeRaw lv)" for h2 n
    unfolding wp_bind [of "markChannelClosed c"]
  proof (rule wp_markClosed)
    fix h3 assume "\<And>Ps. in_order Ps h2 \<Longrightarrow> in_order (confirmed (closedKey c) marks # Ps) h3"
    from this [OF o] d(1) have s3: "settling c i lv s h3" by (simp add: settling_def)
    show "wp (bind (fenceChannelPersistent c) (\<lambda>_.
        if ?closing \<and> channelBalanceIsZero (cs_balance s)
        then bind (writeOffRefundedChannel c n) (\<lambda>_. Done None)
        else close_channel ce c lv n)) (chan_guard ce) Q E h3"
      unfolding wp_bind [of "fenceChannelPersistent c"]
    proof (rule wp_fence)
      fix b h4 assume "later h3 h4"
      with s3 have s4: "settling c i lv s h4" by (rule settling_later)
      show "wp (if ?closing \<and> channelBalanceIsZero (cs_balance s) then bind (writeOffRefundedChannel c n) (\<lambda>_. Done None)
        else close_channel ce c lv n) (chan_guard ce) Q E h4"
      proof (cases "?closing \<and> channelBalanceIsZero (cs_balance s)")
        case True
        then have "hopeless c n s h4" by (simp add: hopeless_def)
        show ?thesis
          unfolding if_P [OF True] wp_bind wp_Done by (rule wp_write_off [OF s4 d(2) \<open>hopeless c n s h4\<close>]) (rule Q E)+
      next
        case False
        show ?thesis unfolding if_not_P [OF False] by (rule wp_close_channel [OF s4 d(2) coll]) (rule Q E)+
      qed
    qed
  qed (rule E)
  have rest: "wp (bind (throwing (js_BigInt (lv_cumulativeRaw lv))) (\<lambda>cumulativeRaw.
      bind (throwing (js_BigInt (lv_lastSettledRaw lv))) (\<lambda>settled.
      let unsettled = cumulativeRaw - settled in
      if unsettled \<le> 0 then Done None
      else if \<not> ?closing \<and> unsettled < SETTLE_THRESHOLD_RAW then Done None
      else bind (revalidateChannelDeliveryLock c i) (\<lambda>ours.
        if \<not> ours then Done None
        else bind (markChannelClosed c) (\<lambda>_. bind (fenceChannelPersistent c) (\<lambda>_.
             if ?closing \<and> channelBalanceIsZero (cs_balance s)
             then bind (writeOffRefundedChannel c cumulativeRaw) (\<lambda>_. Done None)
             else close_channel ce c lv cumulativeRaw)))))) (chan_guard ce) Q E h1"
    if h1: "later h h1" for h1
  proof -
    have o1: "in_order [state_read c s, voucher_read c lv, granted (lockKey c) (acquires i)] h1"
      by (rule later_in_order [OF order h1])
    show ?thesis
      using Q E mark [unfolded wp_bind]
      by (auto simp: Let_def due_def num_def intro!: wp_revalidate o1 split: sum.split)
  qed
  show ?thesis
    unfolding settle_due_def Let_def [of ?closing] 
    using rest [unfolded wp_bind] by (auto intro!: wp_fence)
qed

lemma wp_settle_one:
  assumes coll: "collectorKeyMatches ce" and Q: "\<And>x h'. Q x h'" and E: "\<And>e h'. E e h'"
  shows "wp (settleOneChannel ce c) (chan_guard ce) Q E h"
proof -
  have release: "wp (releaseChannelDeliveryLock c i) (chan_guard ce) Q' E' h'"
    if "\<And>x h'. Q' x h'" "\<And>e h'. E' e h'" for i Q' E' h'
    by (rule wp_release_lock) (rule that)+
  have inside: "wp (bind (getLatestVoucher c) (\<lambda>v. case v of None \<Rightarrow> Done None
      | Some voucher \<Rightarrow> bind (getChannelState c) (\<lambda>state. settle_due ce c i voucher state))) (chan_guard ce) Q' E' h1"
    if lock: "in_order [granted (lockKey c) (acquires i)] h1" and q: "\<And>x h'. Q' x h'" and e: "\<And>e h'. E' e h'" for i Q' E' h1
    unfolding wp_bind
  proof (rule wp_getLatestVoucher)
    fix v lv assume lv: "lv = (case v of Some (VoucherVal lv) \<Rightarrow> Some lv | _ \<Rightarrow> None)"
    have "wp (bind (getChannelState c) (\<lambda>state. settle_due ce c i l state)) (chan_guard ce) Q' E'
        (EChan (StoreGet (voucherKey c)) (Inr (AValue v)) # h1)" if l: "lv = Some l" for l
      unfolding wp_bind
    proof (rule wp_getChannelState)
      fix s
      have "v = Some (VoucherVal l)" using lv l by (auto split: option.splits chan_val.splits)
      with lock have "in_order [state_read c s, voucher_read c l, granted (lockKey c) (acquires i)]
          (EChan (ReadState c) (Inr (AState s)) # EChan (StoreGet (voucherKey c)) (Inr (AValue v)) # h1)"
        by (simp add: state_read_def voucher_read_def read_as_def)
      from wp_settle_due [OF this coll] q e show "wp (settle_due ce c i l s) (chan_guard ce) Q' E'
          (EChan (ReadState c) (Inr (AState s)) # EChan (StoreGet (voucherKey c)) (Inr (AValue v)) # h1)" by blast
    qed (rule e)
    then show "wp (case lv of None \<Rightarrow> Done None | Some voucher \<Rightarrow> bind (getChannelState c) (\<lambda>state. settle_due ce c i voucher state))
        (chan_guard ce) Q' E' (EChan (StoreGet (voucherKey c)) (Inr (AValue v)) # h1)"
      using q by (cases lv) (simp_all del: wp_bind)
  qed (rule e)
  show ?thesis
    unfolding settleOneChannel_def finally_ignoring_def wp_bind [of uuid] wp_bind [of "acquireChannelDeliveryLock _ _"]
  proof (intro wp_uuid wp_acquire)
    fix i acquired h1 assume "later h h1" and
      lock: "acquired \<Longrightarrow> (\<And>Ps. in_order Ps h \<Longrightarrow> in_order (granted (lockKey c) (acquires i) # Ps) h1)"
    have done': "wp (bind (attempt (releaseChannelDeliveryLock c i)) (\<lambda>_. from_sum r)) (chan_guard ce) Q E h'" for r h'
      unfolding wp_bind wp_attempt by (rule release) (cases r; simp add: Q E)+
    have "wp (bind (attempt (bind (getLatestVoucher c) (\<lambda>v. case v of None \<Rightarrow> Done None
        | Some voucher \<Rightarrow> bind (getChannelState c) (\<lambda>state. settle_due ce c i voucher state))))
        (\<lambda>r. bind (attempt (releaseChannelDeliveryLock c i)) (\<lambda>_. from_sum r))) (chan_guard ce) Q E h1" if acquired
      unfolding wp_bind [of "attempt (bind (getLatestVoucher c) _)"] wp_attempt [of "bind (getLatestVoucher c) _"]
      by (rule inside [OF lock [OF that in_order.simps(1) [THEN iffD2, OF TrueI]]]) (rule done')+
    then show "wp (if \<not> acquired then Done None else bind (attempt (bind (getLatestVoucher c) (\<lambda>v. case v of None \<Rightarrow> Done None
        | Some voucher \<Rightarrow> bind (getChannelState c) (\<lambda>state. settle_due ce c i voucher state))))
        (\<lambda>r. bind (attempt (releaseChannelDeliveryLock c i)) (\<lambda>_. from_sum r))) (chan_guard ce) Q E h1"
      using Q by (cases acquired) (simp_all del: wp_bind)
  qed (rule E)
qed

lemma wp_settle_if_due:
  assumes coll: "collectorKeyMatches ce" and Q: "\<And>h'. Q () h'" and E: "\<And>e h'. E e h'"
  shows "wp (settle_if_due ce state) (chan_guard ce) Q E h"
proof -
  let ?c = "pc_contract state"
  have one: "wp (bind (settleOneChannel ce ?c) (\<lambda>_. Done ())) (chan_guard ce) Q E h'" for h'
    unfolding wp_bind by (rule wp_settle_one [OF coll]) (simp_all add: Q E)
  have go: "wp (if skip then Done () else bind (settleOneChannel ce ?c) (\<lambda>_. Done ())) (chan_guard ce) Q E h'" for skip h'
    using Q one by (cases skip) (simp_all del: wp_bind)
  have blocked: "wp (bind (if b then isChannelBlocked ?c else Done False) (\<lambda>skip.
      if skip then Done () else bind (settleOneChannel ce ?c) (\<lambda>_. Done ()))) (chan_guard ce) Q E h'" for b h'
  proof (cases b)
    case True
    show ?thesis unfolding if_P [OF True] wp_bind [of "isChannelBlocked _"] by (rule wp_isChannelBlocked) (rule go E)+
  next
    case False
    show ?thesis unfolding if_not_P [OF False] wp_bind [of "Done _"] wp_Done by (rule go)
  qed
  show ?thesis
    unfolding settle_if_due_def Let_def
    using blocked Q E
    by (auto simp del: wp_bind simp: wp_bind [of "getLatestVoucher c" for c] wp_bind [of "throwing t" for t]
        intro!: wp_getLatestVoucher split: option.split sum.split)
qed

lemma wp_settle_all: "collectorKeyMatches ce \<Longrightarrow> (\<And>h'. Q () h') \<Longrightarrow> wp (settle_all ce states) (chan_guard ce) Q E h"
  by (induction states arbitrary: h) (auto intro!: wp_settle_if_due)

lemma wp_read_channels: "(\<And>x h'. Q x h') \<Longrightarrow> (\<And>e h'. E e h') \<Longrightarrow> wp (read_channels names) (chan_guard ce) Q E h"
  by (induction names arbitrary: h Q) (auto intro!: wp_getPgChannel)

text \<open>The cron job as a handler, which answers nothing.\<close>

definition settle_job :: "cenv \<Rightarrow> response prog" where
  "settle_job ce = bind (settlePlaygroundChannels ce) (\<lambda>_. Done (json_response [] 200))"

lemma wp_settle_job: "wp (settle_job ce) (chan_guard ce) (charge_told ce) (\<lambda>_ _. True) []"
proof -
  have told: "charge_told ce (json_response [] 200) h" for h
    by (simp add: silent_told silent_def json_response_def)
  show ?thesis
    unfolding settle_job_def settlePlaygroundChannels_def listPgChannels_def
    by (auto simp: told unexpected_def intro!: wp_read_channels wp_settle_all split: sum.split chan_ans.split)
qed

end
