(* ===== verification/ChannelProps.thy ===== *)
theory ChannelProps
  imports ChannelAdmin
begin

text \<open>
  All handlers of the channels in one system.  The guards of \<open>ChannelInv\<close> and \<open>ChannelAdmin\<close> give, through the locale
  \<open>channel_system\<close>, the invariant \<open>chan_inv\<close> of every reachable state: every call was guarded, the store backs every
  answer that was seen, and every stored voucher was verified, paid for, and settled no further than it was signed.
\<close>

subsection \<open>The handlers\<close>

definition chan_handler :: "cenv \<Rightarrow> response prog \<Rightarrow> bool" where
  "chan_handler ce p \<longleftrightarrow>
     (\<exists>rq. p = handleChannelRegister ce rq \<or> p = handleChannelChat ce rq \<or> p = handleChannelTxDecode ce rq \<or>
        (\<exists>sc dash. p = handleChannelBlendActivity ce sc dash rq)) \<or> p = settle_job ce"

lemma handlers_guarded: "chan_handler ce p \<Longrightarrow> wp p (chan_guard ce) (charge_told ce) (\<lambda>_ _. True) []"
  unfolding chan_handler_def using wp_register wp_channel_chat wp_channel_blend wp_decode wp_settle_job by blast

fun guarded :: "guard_pred \<Rightarrow> history \<Rightarrow> bool" where
  "guarded G [] \<longleftrightarrow> True"
| "guarded G (e # h) \<longleftrightarrow> (\<forall>a. call_of e = Some a \<longrightarrow> G a h) \<and> guarded G h"

lemma guarded_at: "guarded G (h1 @ e # h) \<Longrightarrow> call_of e = Some a \<Longrightarrow> G a h"
  by (induction h1) auto

subsection \<open>The store backs what was seen\<close>

definition backs :: "chan_val astore \<Rightarrow> event \<Rightarrow> bool" where
  "backs st e \<longleftrightarrow>
     (\<forall>c d n sg t b. e = EChan (StoreUpdate (voucherKey c) (PutVoucher d n sg t)) (Inr (ADid b)) \<longrightarrow>
        (\<exists>lv. value_at st (voucherKey c) = Some (VoucherVal lv) \<and> num n \<le> num (lv_cumulativeRaw lv))) \<and>
     (\<forall>key t b. e = EChan (StoreUpdate key (SetMark t)) (Inr (ADid b)) \<longrightarrow> mark_key key \<longrightarrow> value_at st key \<noteq> None) \<and>
     (\<forall>c v. e = EChan (StoreGet (voucherKey c)) (Inr (AValue v)) \<longrightarrow> voucher_le v (value_at st (voucherKey c)))"

lemma backs_lost [simp]: "backs st (EChan r (Inl m))" "backs st (EHttp q w)" "backs st (ESign sg b)" "backs st (EKvGet n g)"
  "backs st (ELedger l x)"
  by (simp_all add: backs_def)

lemma backs_other [simp]: "\<not> store_req r \<Longrightarrow> backs st (EChan r a)"
  by (auto simp: backs_def store_req_def)

lemma voucherKey_inj [simp]: "voucherKey a = voucherKey b \<longleftrightarrow> a = b"
  by (simp add: voucherKey_def)

lemma backs_put: "backs st (EChan (StoreUpdate (voucherKey c) (PutVoucher d n sg t)) (Inr (ADid b))) \<Longrightarrow>
    \<exists>lv. value_at st (voucherKey c) = Some (VoucherVal lv) \<and> num n \<le> num (lv_cumulativeRaw lv)"
  and backs_mark: "backs st (EChan (StoreUpdate key (SetMark t)) (Inr (ADid b))) \<Longrightarrow> mark_key key \<Longrightarrow> value_at st key \<noteq> None"
  and backs_read: "backs st (EChan (StoreGet (voucherKey c)) (Inr (AValue v))) \<Longrightarrow> voucher_le v (value_at st (voucherKey c))"
  by (simp_all add: backs_def)

lemma backs_steps:
  assumes "wsteps chan_write st st'" "backs st e"
  shows "backs st' e"
proof -
  have v: "voucher_le (value_at st (voucherKey c)) (value_at st' (voucherKey c))" for c by (rule voucher_steps [OF assms(1)])
  have covers: "\<exists>lv. value_at st' (voucherKey c) = Some (VoucherVal lv) \<and> n \<le> num (lv_cumulativeRaw lv)"
    if "value_at st (voucherKey c) = Some (VoucherVal lv)" "n \<le> num (lv_cumulativeRaw lv)" for c lv n
    using v [of c] that by (fastforce simp: voucher_le_def)
  have reads: "voucher_le x (value_at st' (voucherKey c))" if "voucher_le x (value_at st (voucherKey c))" for x c
    by (rule voucher_le_trans [OF that v])
  show ?thesis
    unfolding backs_def
  proof (intro conjI allI impI)
    fix c d n sg t b assume "e = EChan (StoreUpdate (voucherKey c) (PutVoucher d n sg t)) (Inr (ADid b))"
    with assms(2) obtain lv where "value_at st (voucherKey c) = Some (VoucherVal lv)" "num n \<le> num (lv_cumulativeRaw lv)"
      using backs_put by blast
    then show "\<exists>lv. value_at st' (voucherKey c) = Some (VoucherVal lv) \<and> num n \<le> num (lv_cumulativeRaw lv)" by (rule covers)
  next
    fix key t b assume "e = EChan (StoreUpdate key (SetMark t)) (Inr (ADid b))" "mark_key key"
    with assms(2) have "value_at st key \<noteq> None" by (simp add: backs_mark)
    then show "value_at st' key \<noteq> None" by (rule marks_steps [OF assms(1) \<open>mark_key key\<close>])
  next
    fix c v assume "e = EChan (StoreGet (voucherKey c)) (Inr (AValue v))"
    with assms(2) have "voucher_le v (value_at st (voucherKey c))" by (simp add: backs_read)
    then show "voucher_le v (value_at st' (voucherKey c))" by (rule reads)
  qed
qed

lemma put_covers:
  assumes "chan_typed st" "is_num n" "serve_update (voucherKey c) (PutVoucher d n sg t) st = (Inr x, st')"
  shows "\<exists>lv. value_at st' (voucherKey c) = Some (VoucherVal lv) \<and> num n \<le> num (lv_cumulativeRaw lv)"
proof (cases "value_at st (voucherKey c)")
  case None
  with assms show ?thesis
    by (auto simp: serve_update_def put_voucher_change_def value_written written_def)
next
  case (Some v)
  from typed_voucher [OF assms(1) Some] obtain lv where lv: "v = VoucherVal lv" "is_num (lv_cumulativeRaw lv)" by blast
  have "js_BigInt (lv_cumulativeRaw lv) = Inr (num (lv_cumulativeRaw lv))" "js_BigInt n = Inr (num n)"
    using lv(2) assms(2) by (simp_all add: is_num_BigInt)
  with assms(3) Some lv(1) show ?thesis
    by (auto simp: serve_update_def put_voucher_change_def two_ints_def value_written written_def split: if_splits)
qed

lemma backs_served:
  assumes "chan_typed st" "chan_ok r" "store_serve r st = Some (a, st')"
  shows "backs st' (EChan r a)"
proof (cases r)
  case (StoreUpdate key upd)
  have "\<exists>lv. value_at st' (voucherKey c) = Some (VoucherVal lv) \<and> num n \<le> num (lv_cumulativeRaw lv)"
    if "key = voucherKey c" "upd = PutVoucher d n sg t" "a = Inr (ADid b)" for c d n sg t b
    using put_covers [OF assms(1), of n c d sg t "ADid b" st'] assms(2,3) StoreUpdate that by (simp add: chan_ok_def)
  moreover have "value_at st' key \<noteq> None" if "upd = SetMark t" for t
    using assms(3) StoreUpdate that by (auto simp: serve_update_def value_written written_def)
  ultimately show ?thesis unfolding backs_def StoreUpdate by auto
next
  case (StoreGet key)
  with assms(3) show ?thesis by (auto simp: backs_def)
next
  case (StoreDelete key)
  then show ?thesis by (simp add: backs_def)
qed (use assms(3) in simp_all)

subsection \<open>Where stored vouchers come from\<close>

definition put_of :: "string \<Rightarrow> latest_voucher \<Rightarrow> event \<Rightarrow> bool" where
  "put_of c lv e \<longleftrightarrow>
     (\<exists>d t a. e = EChan (StoreUpdate (voucherKey c) (PutVoucher d (lv_cumulativeRaw lv) (lv_signature lv) t)) a)"

definition within :: "latest_voucher \<Rightarrow> bool" where
  "within lv \<longleftrightarrow> num (lv_lastSettledRaw lv) \<le> max 0 (num (lv_cumulativeRaw lv))"

definition voucher_inv :: "chan_val astore \<Rightarrow> (nat \<Rightarrow> history) \<Rightarrow> bool" where
  "voucher_inv st hs \<longleftrightarrow>
     (\<forall>c lv. value_at st (voucherKey c) = Some (VoucherVal lv) \<longrightarrow> within lv \<and> (\<exists>n. \<exists>e \<in> set (hs n). put_of c lv e))"

definition chan_inv :: "cenv \<Rightarrow> chan_val astore \<Rightarrow> (nat \<Rightarrow> history) \<Rightarrow> bool" where
  "chan_inv ce st hs \<longleftrightarrow> (\<forall>n. guarded (chan_guard ce) (hs n)) \<and> (\<forall>n. \<forall>e \<in> set (hs n). backs st e) \<and> voucher_inv st hs"

lemma voucher_inv_grow:
  assumes "voucher_inv st hs" "\<And>c. value_at st' (voucherKey c) = value_at st (voucherKey c)"
  shows "voucher_inv st' (hs(n := e # hs n))"
proof -
  have "\<exists>m. \<exists>x \<in> set ((hs(n := e # hs n)) m). P x" if "\<exists>m. \<exists>x \<in> set (hs m). P x" for P
    using that by (metis fun_upd_apply list.set_intros(2))
  then show ?thesis using assms unfolding voucher_inv_def by auto
qed

text \<open>A served update of a voucher keeps both, given that a settlement settles what was read.\<close>

lemma update_voucher_inv:
  assumes inv: "voucher_inv st hs" and typed: "chan_typed st" and ok: "upd_ok upd key" and guard: "upd_guard ce key upd (hs n)"
    and seen: "\<forall>e \<in> set (hs n). backs st e" and change: "chan_change upd (value_at st key) = Change wop r"
    and st': "st' = apply_write key (version_at st key) wop st"
  shows "voucher_inv st' (hs(n := EChan (StoreUpdate key upd) b # hs n))"
proof (cases "voucher_key key")
  case False
  then have "value_at st' (voucherKey c) = value_at st (voucherKey c)" for c
    using key_kinds(10) [of c] by (auto simp: st' value_written)
  then show ?thesis by (rule voucher_inv_grow [OF inv])
next
  case True
  then obtain k where k: "key = voucherKey k" by (auto simp: voucher_key_def voucherKey_def dest!: is_prefix_split)
  let ?hs = "hs(n := EChan (StoreUpdate key upd) b # hs n)"
  have other: "within lv \<and> (\<exists>m. \<exists>e \<in> set (?hs m). put_of c lv e)"
    if "value_at st (voucherKey c) = Some (VoucherVal lv)" for c lv
    using voucher_inv_grow [OF inv, of st n "EChan (StoreUpdate key upd) b"] that unfolding voucher_inv_def by blast
  have new: "\<exists>lv. wop = SetOp (VoucherVal lv) \<and> within lv \<and> (\<exists>m. \<exists>e \<in> set (?hs m). put_of k lv e)"
  proof (cases upd)
    case (PutVoucher d x sg t)
    let ?lv = "\<lambda>settled. \<lparr>lv_amountDecimal = d, lv_cumulativeRaw = x, lv_signature = sg, lv_lastSettledRaw = settled, lv_updatedAt = t\<rparr>"
    have here: "\<exists>e \<in> set (?hs n). put_of k (?lv settled) e" for settled
      by (auto simp: put_of_def k PutVoucher)
    show ?thesis
    proof (cases "value_at st key")
      case None
      with change have "wop = SetOp (VoucherVal (?lv ''0''))" by (simp add: PutVoucher put_voucher_change_def)
      then show ?thesis using here [of "''0''"] by (auto simp: within_def)
    next
      case (Some v)
      then obtain lv where lv: "v = VoucherVal lv" using typed_voucher [OF typed, of k v] k by auto
      with change Some obtain y z where "js_BigInt (lv_cumulativeRaw lv) = Inr y" "js_BigInt x = Inr z" "\<not> z \<le> y"
        "wop = SetOp (VoucherVal (?lv (lv_lastSettledRaw lv)))"
        by (auto simp: PutVoucher put_voucher_change_def dest!: two_ints_cases split: if_splits)
      moreover have "within lv" using other Some lv k by blast
      ultimately show ?thesis using here [of "lv_lastSettledRaw lv"] num_BigInt by (fastforce simp: within_def)
    qed
  next
    case (MarkSettled x t)
    from guard obtain i l s where l: "settling k i l s (hs n)" "x = int_str (num (lv_cumulativeRaw l))"
      by (auto simp: MarkSettled k voucherKey_def)
    then obtain e where "e \<in> set (hs n)" "voucher_read k l e"
      unfolding settling_def by (metis in_order_ex list.set_intros)
    with seen have seen': "voucher_le (Some (VoucherVal l)) (value_at st (voucherKey k))"
      by (auto simp: voucher_read_def read_as_def dest: backs_read)
    from change obtain v where "value_at st key = Some v" by (auto simp: MarkSettled mark_settled_change_def split: option.splits)
    then obtain lv where lv: "value_at st key = Some (VoucherVal lv)" using typed_voucher [OF typed, of k v] k by auto
    with change have wop: "wop = SetOp (VoucherVal (lv\<lparr>lv_lastSettledRaw := x, lv_updatedAt := t\<rparr>))"
      by (auto simp: MarkSettled mark_settled_change_def dest!: two_ints_cases split: if_splits)
    have "num x \<le> num (lv_cumulativeRaw lv)" using seen' lv k l(2) by (auto simp: voucher_le_def)
    then have "within (lv\<lparr>lv_lastSettledRaw := x, lv_updatedAt := t\<rparr>)" by (simp add: within_def)
    moreover have "\<exists>m. \<exists>e \<in> set (?hs m). put_of k lv e" using other lv k by blast
    ultimately show ?thesis using wop by (auto simp: put_of_def)
  qed (use ok True k in simp_all)
  then obtain lv where lv: "wop = SetOp (VoucherVal lv)" "within lv" "\<exists>m. \<exists>e \<in> set (?hs m). put_of k lv e" by blast
  have "value_at st' (voucherKey c) = (if c = k then Some (VoucherVal lv) else value_at st (voucherKey c))" for c
    by (simp add: st' value_written k lv(1) written_def voucherKey_def)
  then show ?thesis using lv(2,3) other unfolding voucher_inv_def by auto
qed

lemma served_voucher_inv:
  assumes inv: "voucher_inv st hs" and typed: "chan_typed st" and guard: "chan_req_guard ce r (hs n)"
    and seen: "\<forall>e \<in> set (hs n). backs st e" and serve: "store_serve r st = Some (a, st')"
  shows "voucher_inv st' (hs(n := EChan r b # hs n))"
proof (cases r)
  case (StoreGet key)
  with serve show ?thesis by (auto intro: voucher_inv_grow [OF inv])
next
  case (StoreUpdate key upd)
  show ?thesis
  proof (cases "chan_change upd (value_at st key)")
    case (Noop x)
    with serve StoreUpdate show ?thesis by (auto simp: serve_update_def intro: voucher_inv_grow [OF inv])
  next
    case (Change wop x)
    with serve StoreUpdate have "st' = apply_write key (version_at st key) wop st" by (simp add: serve_update_def)
    from update_voucher_inv [where ce = ce, OF inv typed _ _ seen Change this] guard StoreUpdate show ?thesis by simp
  qed
next
  case (StoreDelete key)
  with guard have k: "voucherKey c \<noteq> key" for c by auto
  have "value_at st' (voucherKey c) = value_at st (voucherKey c)" for c
    using serve StoreDelete k [of c] by (auto simp: value_written split: if_splits)
  then show ?thesis by (rule voucher_inv_grow [OF inv])
qed (use serve in simp_all)

lemma chan_inv_serving:
  assumes inv: "chan_inv ce st hs" and typed: "chan_typed st" and guard: "chan_guard ce (CallChan r) (hs n)"
    and serve: "store_serve r st = Some (a, st')" and b: "b = a \<or> b = Inl m"
  shows "chan_inv ce st' (hs(n := EChan r b # hs n))"
proof -
  have g: "\<forall>n. guarded (chan_guard ce) (hs n)" and s: "\<forall>n. \<forall>e \<in> set (hs n). backs st e" and v: "voucher_inv st hs"
    using inv by (simp_all add: chan_inv_def)
  have ok: "chan_ok r" by (rule chan_guard_ok [OF guard])
  have "backs st' (EChan r b)" using b backs_served [OF typed ok serve] by auto
  moreover have "backs st' e" if "e \<in> set (hs k)" for e k using backs_steps [OF serve_machine [OF serve ok]] s that by blast
  ultimately have "\<forall>k. \<forall>e \<in> set ((hs(n := EChan r b # hs n)) k). backs st' e" by simp
  moreover have "voucher_inv st' (hs(n := EChan r b # hs n))"
    by (rule served_voucher_inv [OF v typed _ _ serve]) (use guard s in simp_all)
  moreover have "\<forall>k. guarded (chan_guard ce) ((hs(n := EChan r b # hs n)) k)" using g guard by simp
  ultimately show ?thesis by (simp add: chan_inv_def)
qed

lemma chan_inv_others:
  assumes "chan_inv ce st hs" "\<not> pg_key key"
  shows "chan_inv ce (apply_write key (version_at st key) wop st) hs"
proof -
  have "wstep chan_write st (apply_write key (version_at st key) wop st)"
    by (rule wstep.intros) (simp add: chan_write_def assms(2))
  then have "wsteps chan_write st (apply_write key (version_at st key) wop st)" by (rule wsteps_step [OF wsteps_refl])
  moreover have "voucherKey c \<noteq> key" for c using assms(2) by auto
  ultimately show ?thesis
    using assms(1) backs_steps by (auto simp: chan_inv_def voucher_inv_def value_written)
qed

lemma chan_inv_quiet:
  assumes inv: "chan_inv ce st hs" and quiet: "quiet_event (chan_guard ce) e (hs n)"
  shows "chan_inv ce st (hs(n := e # hs n))"
proof -
  have "backs st e" using quiet by (cases e) (auto simp: quiet_event_def)
  moreover have "chan_guard ce a (hs n)" if "call_of e = Some a" for a
    using quiet that by (cases e) (auto simp: quiet_event_def)
  moreover have "voucher_inv st (hs(n := e # hs n))" using inv by (auto simp: chan_inv_def intro: voucher_inv_grow)
  ultimately show ?thesis using inv by (simp add: chan_inv_def)
qed

interpretation channels: channel_system "chan_handler ce" "chan_guard ce" "charge_told ce" "chan_inv ce" for ce
proof
  show "chan_inv ce empty_store (\<lambda>_. [])" by (simp add: chan_inv_def voucher_inv_def)
qed (rule handlers_guarded chan_guard_ok chan_inv_serving chan_inv_others chan_inv_quiet; assumption)+

subsection \<open>Reachable states\<close>

lemma reachable_inv: "chan_reachable (chan_handler ce) s \<Longrightarrow> chan_inv ce (c_store s) (chist s)"
  by (rule channels.invariant(1))

lemma reachable_guarded:
  "chan_reachable (chan_handler ce) s \<Longrightarrow> chist s n = h1 @ e # h \<Longrightarrow> call_of e = Some a \<Longrightarrow> chan_guard ce a h"
  using reachable_inv unfolding chan_inv_def by (metis guarded_at)

lemma reachable_backs: "chan_reachable (chan_handler ce) s \<Longrightarrow> e \<in> set (chist s n) \<Longrightarrow> backs (c_store s) e"
  using reachable_inv unfolding chan_inv_def by blast

text \<open>A voucher said to be kept is in the store, and a fence said to be up is.\<close>

lemma kept_stored:
  assumes "chan_reachable (chan_handler ce) s" "kept c v (chist s n)"
  shows "\<exists>lv. value_at (c_store s) (voucherKey c) = Some (VoucherVal lv) \<and> num (cv_acceptedAmount v) \<le> num (lv_cumulativeRaw lv)"
proof -
  from assms(2) obtain e where e: "e \<in> set (chist s n)" "confirmed (voucherKey c) (puts (cv_acceptedAmount v) (cv_signature v)) e \<or>
     read_as (voucherKey c) (\<lambda>x. \<exists>lv. x = Some (VoucherVal lv) \<and> is_num (lv_cumulativeRaw lv) \<and>
       num (cv_acceptedAmount v) \<le> num (lv_cumulativeRaw lv)) e" unfolding kept_def by blast
  note b = reachable_backs [OF assms(1) e(1)]
  from e(2) show ?thesis
  proof
    assume "confirmed (voucherKey c) (puts (cv_acceptedAmount v) (cv_signature v)) e"
    with b show ?thesis by (auto simp: confirmed_def puts_def dest: backs_put)
  next
    assume "read_as (voucherKey c) (\<lambda>x. \<exists>lv. x = Some (VoucherVal lv) \<and> is_num (lv_cumulativeRaw lv) \<and>
       num (cv_acceptedAmount v) \<le> num (lv_cumulativeRaw lv)) e"
    then obtain lv where "e = EChan (StoreGet (voucherKey c)) (Inr (AValue (Some (VoucherVal lv))))"
      "num (cv_acceptedAmount v) \<le> num (lv_cumulativeRaw lv)" by (auto simp: read_as_def)
    with b show ?thesis by (auto simp: voucher_le_def dest!: backs_read)
  qed
qed

lemma fenced_stored: "chan_reachable (chan_handler ce) s \<Longrightarrow> fenced c (chist s n) \<Longrightarrow> value_at (c_store s) (fencedKey c) \<noteq> None"
  unfolding fenced_def confirmed_def marks_def using reachable_backs backs_mark key_kinds(12) by blast

lemma settling_stored:
  assumes "chan_reachable (chan_handler ce) s" "chist s n = h1 @ h" "settling c i lv st h"
  shows "value_at (c_store s) (closedKey c) \<noteq> None"
    and "\<exists>lv'. value_at (c_store s) (voucherKey c) = Some (VoucherVal lv') \<and> num (lv_cumulativeRaw lv) \<le> num (lv_cumulativeRaw lv')"
proof -
  let ?Ps = "[confirmed (closedKey c) marks, granted (lockKey c) (revalidates i), state_read c st, voucher_read c lv,
       granted (lockKey c) (acquires i)]"
  have o: "in_order ?Ps h" using assms(3) by (simp add: settling_def)
  have mem: "e \<in> set (chist s n)" if "e \<in> set h" for e using that assms(2) by simp
  from in_order_ex [OF o, of "confirmed (closedKey c) marks"] obtain e where "e \<in> set h" "confirmed (closedKey c) marks e" by auto
  then show "value_at (c_store s) (closedKey c) \<noteq> None"
    using reachable_backs [OF assms(1) mem] backs_mark key_kinds(11) unfolding confirmed_def marks_def by blast
  from in_order_ex [OF o, of "voucher_read c lv"] obtain e where "e \<in> set h" "voucher_read c lv e" by auto
  then have "voucher_le (Some (VoucherVal lv)) (value_at (c_store s) (voucherKey c))"
    using reachable_backs [OF assms(1) mem] unfolding voucher_read_def read_as_def by (auto dest: backs_read)
  then show "\<exists>lv'. value_at (c_store s) (voucherKey c) = Some (VoucherVal lv') \<and> num (lv_cumulativeRaw lv) \<le> num (lv_cumulativeRaw lv')"
    by (auto simp: voucher_le_def)
qed

end
