(* ===== verification/ChannelDemo.thy ===== *)
theory ChannelDemo
  imports ChannelProps PlayDemo
begin

text \<open>
  Runs of single handlers of the channels against the store, with a fate for every request to it, and a channel's life
  made of them: its registration, one metered call, its collection; and the call whose outcome nobody could read.
\<close>

subsection \<open>Running one handler\<close>

text \<open>Is a request to the store served, is its answer lost, or did it never arrive?  An empty list serves all.\<close>

datatype fate = Served | AnswerLost | RequestLost

definition fate_of :: "fate list \<Rightarrow> fate" where "fate_of fs = (case fs of [] \<Rightarrow> Served | f # _ \<Rightarrow> f)"

text \<open>What a run ends with: an exception or a value, the history, the store, and the fates left; nothing at the ledger.\<close>

type_synonym 'a crun_result = "((exn + 'a) \<times> history \<times> chan_val astore \<times> fate list) option"

primrec crun :: "'a prog \<Rightarrow> answers \<Rightarrow> history \<Rightarrow> chan_val astore \<Rightarrow> fate list \<Rightarrow> 'a crun_result" where
  "crun (Done x) w h st fs = Some (Inr x, h, st, fs)"
| "crun (Throw e) w h st fs = Some (Inl e, h, st, fs)"
| "crun (Ledger r k) w h st fs = None"
| "crun (Http r k) w h st fs = crun (k (o_http w r)) w (EHttp r (o_http w r) # h) st fs"
| "crun (Sign c k) w h st fs = crun (k (o_sign w c)) w (ESign c (o_sign w c) # h) st fs"
| "crun (Mppx u k) w h st fs = crun (k (o_mppx w u)) w h st fs"
| "crun (KvGet n k) w h st fs = crun (k (o_kv w n)) w (EKvGet n (o_kv w n) # h) st fs"
| "crun (KvPut n v k) w h st fs = crun (k (o_put w n v)) w h st fs"
| "crun (DailySlot n d k) w h st fs = crun (k (o_daily w n d)) w h st fs"
| "crun (Clock k) w h st fs = crun (k (o_clock w)) w h st fs"
| "crun (RandomUUID k) w h st fs = crun (k (o_uuid w)) w h st fs"
| "crun (RandomBytes k) w h st fs = crun (k (o_bytes w)) w h st fs"
| "crun (Chan r k) w h st fs =
     (case store_serve r st of
        None \<Rightarrow> crun (k (o_chan w r)) w (EChan r (o_chan w r) # h) st fs
      | Some (a, st') \<Rightarrow>
          (case fate_of fs of
             Served \<Rightarrow> crun (k a) w (EChan r a # h) st' (tl fs)
           | AnswerLost \<Rightarrow> crun (k (Inl ''lost'')) w (EChan r (Inl ''lost'') # h) st' (tl fs)
           | RequestLost \<Rightarrow> crun (k (Inl ''lost'')) w (EChan r (Inl ''lost'') # h) st (tl fs)))"

lemma store_serve_req: "store_serve r st = None \<longleftrightarrow> \<not> store_req r"
  by (cases r) (simp_all add: store_req_def)

lemma crun_next:
  assumes "\<And>h s. chan_reachable H s \<Longrightarrow> c_procs s n = Some (h, p2) \<Longrightarrow> crun p2 w h (c_store s) gs = R \<Longrightarrow>
      \<exists>s'. chan_reachable H s' \<and> c_store s' = st' \<and> c_procs s' = (c_procs s)(n \<mapsto> q)"
    and "chan_step H s \<lparr>c_store = st2, c_procs = (c_procs s)(n \<mapsto> (h2, p2))\<rparr>" "chan_reachable H s" "crun p2 w h2 st2 gs = R"
  shows "\<exists>s'. chan_reachable H s' \<and> c_store s' = st' \<and> c_procs s' = (c_procs s)(n \<mapsto> q)"
  using assms(1) [OF chan_reachable_step [OF assms(3,2)]] assms(4) by simp

lemma outside_step:
  assumes "c_procs s n = Some (h, p)" "outside p es p'" "\<And>r k. p = Chan r k \<Longrightarrow> \<not> store_req r"
  shows "chan_step H s \<lparr>c_store = c_store s, c_procs = (c_procs s)(n \<mapsto> (es @ h, p'))\<rparr>"
  using chan_step.answered [where H = H, OF assms] by (cases s) simp

lemma crun_reachable:
  assumes "chan_reachable H s" "c_procs s n = Some (h, p)" "crun p w h (c_store s) fs = Some (q, h', st', fs')"
  shows "\<exists>s'. chan_reachable H s' \<and> c_store s' = st' \<and> c_procs s' = (c_procs s)(n \<mapsto> (h', from_sum q))"
  using assms
proof (induction p arbitrary: h s fs rule: prog_induct)
  case (Chan r k)
  show ?case
  proof (cases "store_serve r (c_store s)")
    case None
    then have "\<not> store_req r" by (simp add: store_serve_req)
    show ?thesis
      by (rule crun_next [where R = "Some (q, h', st', fs')" and w = w and gs = fs, OF Chan.IH
            outside_step [OF Chan.prems(2) outside.intros(10) [where z = "o_chan w r"]] Chan.prems(1)])
        (use Chan.prems(3) None \<open>\<not> store_req r\<close> in auto)
  next
    case (Some as)
    obtain a st where a: "as = (a, st)" by (cases as)
    note s = Some [unfolded a]
    have req: "store_req r" using s store_serve_req [of r "c_store s"] by auto
    show ?thesis
    proof (cases "fate_of fs")
      case Served
      show ?thesis
        by (rule crun_next [where R = "Some (q, h', st', fs')" and w = w and gs = "tl fs", OF Chan.IH chan_step.served [OF Chan.prems(2) s] Chan.prems(1)])
          (use Chan.prems(3) s Served in simp_all)
    next
      case AnswerLost
      show ?thesis
        by (rule crun_next [where R = "Some (q, h', st', fs')" and w = w and gs = "tl fs", OF Chan.IH
              chan_step.answer_lost [OF Chan.prems(2) s, where e = "''lost''"] Chan.prems(1)])
          (use Chan.prems(3) s AnswerLost in simp_all)
    next
      case RequestLost
      have step: "chan_step H s \<lparr>c_store = c_store s, c_procs = (c_procs s)(n \<mapsto> (EChan r (Inl ''lost'') # h, k (Inl ''lost'')))\<rparr>"
        using chan_step.request_lost [OF Chan.prems(2) req, of H "''lost''"] by (cases s) simp
      show ?thesis
        by (rule crun_next [where R = "Some (q, h', st', fs')" and w = w and gs = "tl fs", OF Chan.IH step Chan.prems(1)])
          (use Chan.prems(3) s RequestLost in simp_all)
    qed
  qed
next
  case (Done x)
  then show ?case by (auto intro!: exI [of _ s] simp: fun_upd_idem from_sum_def)
next
  case (Throw e)
  then show ?case by (auto intro!: exI [of _ s] simp: fun_upd_idem from_sum_def)
next
  case (Ledger r k)
  then show ?case by simp
next
  case (Http r k)
  show ?case
    by (rule crun_next [where R = "Some (q, h', st', fs')" and w = w and gs = fs, OF Http.IH
          outside_step [OF Http.prems(2) outside.intros(1) [where a = "o_http w r"]] Http.prems(1)]) (use Http.prems(3) in simp_all)
next
  case (Sign c k)
  show ?case
    by (rule crun_next [where R = "Some (q, h', st', fs')" and w = w and gs = fs, OF Sign.IH
          outside_step [OF Sign.prems(2) outside.intros(2) [where b = "o_sign w c"]] Sign.prems(1)]) (use Sign.prems(3) in simp_all)
next
  case (Mppx u k)
  show ?case
    by (rule crun_next [where R = "Some (q, h', st', fs')" and w = w and gs = fs, OF Mppx.IH
          outside_step [OF Mppx.prems(2) outside.intros(3) [where m = "o_mppx w u"]] Mppx.prems(1)]) (use Mppx.prems(3) in simp_all)
next
  case (KvGet m k)
  show ?case
    by (rule crun_next [where R = "Some (q, h', st', fs')" and w = w and gs = fs, OF KvGet.IH
          outside_step [OF KvGet.prems(2) outside.intros(4) [where g = "o_kv w m"]] KvGet.prems(1)]) (use KvGet.prems(3) in simp_all)
next
  case (KvPut m v k)
  show ?case
    by (rule crun_next [where R = "Some (q, h', st', fs')" and w = w and gs = fs, OF KvPut.IH
          outside_step [OF KvPut.prems(2) outside.intros(5) [where b = "o_put w m v"]] KvPut.prems(1)]) (use KvPut.prems(3) in simp_all)
next
  case (DailySlot m d k)
  show ?case
    by (rule crun_next [where R = "Some (q, h', st', fs')" and w = w and gs = fs, OF DailySlot.IH
          outside_step [OF DailySlot.prems(2) outside.intros(6) [where y = "o_daily w m d"]] DailySlot.prems(1)])
      (use DailySlot.prems(3) in simp_all)
next
  case (Clock k)
  show ?case
    by (rule crun_next [where R = "Some (q, h', st', fs')" and w = w and gs = fs, OF Clock.IH
          outside_step [OF Clock.prems(2) outside.intros(7) [where t = "o_clock w"]] Clock.prems(1)]) (use Clock.prems(3) in simp_all)
next
  case (RandomUUID k)
  show ?case
    by (rule crun_next [where R = "Some (q, h', st', fs')" and w = w and gs = fs, OF RandomUUID.IH
          outside_step [OF RandomUUID.prems(2) outside.intros(8) [where s = "o_uuid w"]] RandomUUID.prems(1)])
      (use RandomUUID.prems(3) in simp_all)
next
  case (RandomBytes k)
  show ?case
    by (rule crun_next [where R = "Some (q, h', st', fs')" and w = w and gs = fs, OF RandomBytes.IH
          outside_step [OF RandomBytes.prems(2) outside.intros(9) [where bs = "o_bytes w"]] RandomBytes.prems(1)])
      (use RandomBytes.prems(3) in simp_all)
qed

lemma crun_arrive:
  assumes "chan_reachable H s" "H p" "c_procs s n = None" "crun p w [] (c_store s) fs = Some (q, h', st', fs')"
  shows "\<exists>s'. chan_reachable H s' \<and> c_store s' = st' \<and> c_procs s' = (c_procs s)(n \<mapsto> (h', from_sum q))"
proof -
  let ?s = "s\<lparr>c_procs := (c_procs s)(n \<mapsto> ([], p))\<rparr>"
  have s: "chan_reachable H ?s" by (rule chan_reachable_step [OF assms(1)]) (rule chan_step.arrive [of H p, OF assms(2,3)])
  have r: "crun p w [] (c_store ?s) fs = Some (q, h', st', fs')" using assms(4) by simp
  have n: "c_procs ?s n = Some ([], p)" by simp
  from crun_reachable [OF s n r] show ?thesis by simp
qed

subsection \<open>A channel\<close>

definition DEMO_CHANNEL :: string where "DEMO_CHANNEL = CHR ''C'' # replicate 55 (CHR ''A'')"
definition DEMO_SALT :: string where "DEMO_SALT = replicate 64 (CHR ''0'')"

definition demo_ce :: cenv where
  "demo_ce = \<lparr>ce_env = demo_env, ce_enabled = Some ''true'', ce_network = ''stellar:pubnet'',
     ce_factory = Some DEMO_CHANNEL, ce_to = Some DEMO_ROUTER, ce_wasm = Some DEMO_TX, ce_signer_secret = Some ''secret'',
     ce_origin = (\<lambda>_. ''https://m.example''), ce_credential = (\<lambda>_. None), ce_sha256 = (\<lambda>_. [7]),
     ce_salt_xdr = (\<lambda>_ _. Some [1]), ce_contract_xdr = (\<lambda>_ _ _. Some [2]), ce_contract_str = (\<lambda>_. DEMO_CHANNEL),
     ce_key_bytes = (\<lambda>_. Some [1]), ce_ed25519 = (\<lambda>_ _ _. True), ce_base64 = (\<lambda>_. replicate 64 0),
     ce_public_of = (\<lambda>_. Some DEMO_ROUTER)\<rparr>"

definition demo_onchain :: onchain_channel where
  "demo_onchain = \<lparr>oc_token = getStellarUsdcSac demo_ce, oc_from = DEMO_ACCOUNT, oc_to = DEMO_ROUTER,
     oc_commitmentKeyHex = ''01'', oc_refundWaitingPeriod = 100, oc_balanceRaw = ''10000000'', oc_wasmHash = DEMO_TX,
     oc_closeEffectiveAt = None\<rparr>"

definition demo_channel :: pg_channel where
  "demo_channel = \<lparr>pc_contract = DEMO_CHANNEL, pc_commitmentKey = DEMO_ACCOUNT, pc_agent = DEMO_ACCOUNT,
     pc_currency = getStellarUsdcSac demo_ce, pc_network = ''stellar:pubnet'', pc_depositRaw = ''10000000'',
     pc_to = DEMO_ROUTER, pc_wasmHash = DEMO_TX, pc_version = Some PG_PROVENANCE_VERSION, pc_openedAt = 0\<rparr>"

definition demo_payment :: json where
  "demo_payment = JObj [(''challenge'', JObj [(''id'', JStr ''ch-1'')]),
     (''credential'', JObj [(''payload'', JObj [(''amount'', JStr ''110000''), (''signature'', JStr ''5a'')])])]"

definition demo_voucher :: channel_voucher where
  "demo_voucher = \<lparr>cv_challengeId = ''ch-1'', cv_acceptedAmount = ''110000'', cv_previousAmount = ''0'', cv_close = False,
     cv_signature = ''5a''\<rparr>"

definition demo_state :: "int option \<Rightarrow> chan_state" where
  "demo_state closing = \<lparr>cs_closeEffectiveAt = closing, cs_currentLedger = 0, cs_balance = Some (JStr ''10000000'')\<rparr>"

fun demo_chan :: "pg_channel option \<Rightarrow> int option \<Rightarrow> chan_req \<Rightarrow> chan_ans outcome" where
  "demo_chan stored closing (PgGet k) = Inr (APgChannel stored)"
| "demo_chan stored closing (PgAgentGet k) = Inr (APgAgent (Some DEMO_CHANNEL))"
| "demo_chan stored closing (PgList k) = Inr (APgPages [[CHANNEL_PREFIX @ DEMO_CHANNEL]])"
| "demo_chan stored closing (VerifyVoucher vr) = Inr (AVerify (Accepted (Some demo_payment)))"
| "demo_chan stored closing (CacheGet c) = Inr (ACached None)"
| "demo_chan stored closing (ReadState c) = Inr (AState (demo_state closing))"
| "demo_chan stored closing (ReadOnChain c u) = Inr (AOnChain demo_onchain)"
| "demo_chan stored closing (CloseOnChain cc) = Inr (ATx DEMO_TX)"
| "demo_chan stored closing r = Inr ADone"

definition chan_answers :: "pg_channel option \<Rightarrow> int option \<Rightarrow> answers" where
  "chan_answers stored closing = demo_answers\<lparr>o_chan := demo_chan stored closing, o_uuid := ''lock-1''\<rparr>"

definition demo_crq :: "(string \<times> json) list \<Rightarrow> channel_request" where
  "demo_crq fs = \<lparr>cq_request = \<lparr>rq_auth = Some ''voucher'', rq_ip = None, rq_body = Some (JObj fs)\<rparr>,
     cq_url = ''https://m.example'', cq_agent = Some DEMO_ACCOUNT\<rparr>"

definition demo_register :: "response prog" where
  "demo_register = handleChannelRegister demo_ce (demo_crq
     [(''channel'', JStr DEMO_CHANNEL), (''from'', JStr DEMO_ACCOUNT), (''commitmentKey'', JStr DEMO_ACCOUNT),
      (''salt'', JStr DEMO_SALT), (''signature'', JStr ''sig'')])"

definition demo_decode :: "response prog" where
  "demo_decode = handleChannelTxDecode demo_ce (demo_crq [(''call_id'', JStr ''call-0001''), (''tx_hash'', JStr DEMO_TX)])"

subsection \<open>What its checks evaluate to\<close>

lemma demo_digits [simp]:
  "int_re ''10000000''" "bigint_of ''10000000'' = 10000000" "int_re ''110000''" "bigint_of ''110000'' = 110000"
  "int_re ''0''" "bigint_of ''0'' = 0"
  by (simp_all add: int_re_def bigint_of_def all_digits_def is_digit_def dec_val_def digit_val_def)

lemma demo_numbers [simp]:
  "parseAtomic (Some ''10000000'') = Inr 10000000" "parseAtomic (Some ''0'') = Inr 0"
  "parseAtomic (Some ''110000'') = Inr 110000" "js_BigInt ''10000000'' = Inr 10000000" "js_BigInt ''110000'' = Inr 110000"
  "js_BigInt ''0'' = Inr 0"
  by (simp_all add: parseAtomic_def js_BigInt_int_re)

lemma demo_price [simp]: "CHANNEL_MIN_DEPOSIT_RAW = 1000000" "applyMarkup 100000 = 110000"
proof -
  have "parseUsd ''0.001'' = Inr 10000"
    by (simp add: parseUsd_def js_trim_def is_space_def DECIMAL_RE_def USDC_DECIMALS_def ONE_USDC_def padEnd_def
        is_digit_def digit_val_def Let_def)
  then show "applyMarkup 100000 = 110000"
    by (simp add: applyMarkup_def CHANNEL_MARKUP_BPS_def CHANNEL_MARKUP_MIN_RAW_def bigint_div_def Let_def)
  show "CHANNEL_MIN_DEPOSIT_RAW = 1000000"
    by (simp add: CHANNEL_MIN_DEPOSIT_RAW_def CHANNEL_MIN_DEPOSIT_USD_def usd_values)
qed

lemma demo_written [simp]: "int_str 110000 = ''110000''"
proof -
  have "digit_char 1 = CHR ''1''" by code_simp
  then show ?thesis by (simp add: int_str_def nat_str.simps digit_char_0)
qed

lemma demo_addresses [simp]:
  "address_re (CHR ''C'') DEMO_CHANNEL" "address_re (CHR ''G'') DEMO_ACCOUNT" "address_re (CHR ''G'') DEMO_ROUTER"
  "js_trim DEMO_CHANNEL = DEMO_CHANNEL" "js_trim DEMO_ROUTER = DEMO_ROUTER" "DEMO_CHANNEL \<noteq> []" "DEMO_TX \<noteq> []"
  by (simp_all add: address_re_def DEMO_CHANNEL_def DEMO_ACCOUNT_def DEMO_ROUTER_def DEMO_TX_def base32_char_def js_trim_def
      is_space_def list_all_iff)

lemma demo_salt [simp]:
  "parseSaltHex (Some (JStr DEMO_SALT)) = Some (hex_bytes DEMO_SALT)" "length (hex_bytes DEMO_SALT) = 32"
proof -
  have "is_prefix ''0x'' DEMO_SALT = False" by (simp add: DEMO_SALT_def eval_nat_numeral)
  moreover have "hex_text 64 DEMO_SALT" "js_trim DEMO_SALT = DEMO_SALT"
    by (simp_all add: hex_text_def DEMO_SALT_def hex_value_def js_trim_def is_space_def list_all_iff)
  ultimately show "parseSaltHex (Some (JStr DEMO_SALT)) = Some (hex_bytes DEMO_SALT)" by (simp add: parseSaltHex_def Let_def)
  show "length (hex_bytes DEMO_SALT) = 32" by (simp add: DEMO_SALT_def hex_value_def eval_nat_numeral)
qed

lemma demo_scheme [simp]: "payment_scheme ''voucher'' = False" "js_trim ''voucher'' = ''voucher''"
  by (simp_all add: payment_scheme_def js_trim_def is_space_def js_lower_def lower_char_def)

lemma demo_ce_simps [simp]:
  "channelPlaygroundEnabled demo_ce" "channelCollector demo_ce = Some DEMO_ROUTER" "channelWasmHash demo_ce = Some DEMO_TX"
  "channelFactoryAddress demo_ce = Some DEMO_CHANNEL" "ce_env demo_ce = demo_env" "collectorKeyMatches demo_ce"
  by (simp_all add: channelPlaygroundEnabled_def demo_ce_def channelCollector_def channelWasmHash_def channelFactoryAddress_def
      trimmed_var_def collectorKeyMatches_def)

lemma demo_provenance [simp]: "pgChannelProvenanceOk demo_channel demo_ce"
  by (simp add: pgChannelProvenanceOk_def demo_channel_def)

lemma demo_resolve:
  "resolvePgChannelMppx demo_ce (Some ''voucher'') (Some DEMO_ACCOUNT) =
     bind (getPgChannelForAgent DEMO_ACCOUNT) (\<lambda>c.
          if c = None \<or> c = Some [] then Throw (StellarChannelNotRegisteredError DEMO_ACCOUNT)
          else bind (getPgChannel (the c)) (\<lambda>s.
            case s of
              None \<Rightarrow> Throw (StellarChannelNotRegisteredError DEMO_ACCOUNT)
            | Some state \<Rightarrow>
                if \<not> pgChannelProvenanceOk state demo_ce then Throw (StellarChannelNotRegisteredError DEMO_ACCOUNT)
                else Done \<lparr>rc_contract = the c, rc_commitmentKey = pc_commitmentKey state, rc_agent = pc_agent state,
                           rc_currency = pc_currency state, rc_depositRaw = pc_depositRaw state\<rparr>))"
  by (simp add: resolvePgChannelMppx_def extractAgentAccount_def Let_def)

lemma demo_hook [simp]: "hook_voucher (Some demo_payment) ''0'' = Some demo_voucher"
  by (simp add: hook_voucher_def voucher_of_def demo_payment_def demo_voucher_def optional_def shown_def coalesce_def)

lemma demo_answer_fields [simp]:
  "o_chan (chan_answers stored closing) = demo_chan stored closing" "o_uuid (chan_answers stored closing) = ''lock-1''"
  "o_clock (chan_answers stored closing) = 0" "o_sign (chan_answers stored closing) = (\<lambda>_. Inr ())"
  "o_daily (chan_answers stored closing) = (\<lambda>_ _. Inr (True, 1))"
  "o_mppx (chan_answers stored closing) = (\<lambda>_. ([[demo_challenge]], Inr \<lparr>ha_status = 200, ha_json = Some (JObj [])\<rparr>))"
  by (simp_all add: chan_answers_def demo_answers_def)

subsection \<open>Evaluating a run\<close>

text \<open>The program is looked at only where it is run: its rest stays as it is.\<close>

lemma crun_cong: "w = w' \<Longrightarrow> h = h' \<Longrightarrow> st = st' \<Longrightarrow> fs = fs' \<Longrightarrow> crun p w h st fs = crun p w' h' st' fs'"
  by simp

lemma crun_bind: "crun (bind p f) w h st fs =
    (case crun p w h st fs of
       None \<Rightarrow> None
     | Some (r, h', st', fs') \<Rightarrow>
         (case r of Inl e \<Rightarrow> Some (Inl e, h', st', fs') | Inr x \<Rightarrow> crun (f x) w h' st' fs'))"
  by (induction p arbitrary: h st fs rule: prog_induct) (auto split: option.split prod.split fate.split)

lemma crun_try: "crun (try_catch p c) w h st fs =
    (case crun p w h st fs of
       None \<Rightarrow> None
     | Some (r, h', st', fs') \<Rightarrow>
         (case r of Inl e \<Rightarrow> crun (c e) w h' st' fs' | Inr x \<Rightarrow> Some (Inr x, h', st', fs')))"
  by (induction p arbitrary: h st fs rule: prog_induct) (auto split: option.split prod.split fate.split)

lemma crun_attempt: "crun (attempt p) w h st fs =
    (case crun p w h st fs of None \<Rightarrow> None | Some (r, rest) \<Rightarrow> Some (Inr r, rest))"
  by (auto simp: attempt_def crun_try crun_bind split: option.split prod.split sum.split)

lemma crun_case:
  "crun (if b then p else q) w h st fs = (if b then crun p w h st fs else crun q w h st fs)"
  "crun (let x = e in f x) w h st fs = (let x = e in crun (f x) w h st fs)"
  "crun (case r of Inl e \<Rightarrow> f e | Inr x \<Rightarrow> g x) w h st fs = (case r of Inl e \<Rightarrow> crun (f e) w h st fs | Inr x \<Rightarrow> crun (g x) w h st fs)"
  "crun (case u of None \<Rightarrow> p | Some y \<Rightarrow> i y) w h st fs = (case u of None \<Rightarrow> crun p w h st fs | Some y \<Rightarrow> crun (i y) w h st fs)"
  "crun (case z of (a, b) \<Rightarrow> j a b) w h st fs = (case z of (a, b) \<Rightarrow> crun (j a b) w h st fs)"
  "crun (case d of Challenged hs c \<Rightarrow> l hs c | Accepted t \<Rightarrow> m t) w h st fs =
     (case d of Challenged hs c \<Rightarrow> crun (l hs c) w h st fs | Accepted t \<Rightarrow> crun (m t) w h st fs)"
  by (simp_all add: Let_def split: sum.split option.split prod.split verify_answer.split)

lemma crun_outside:
  "crun (from_sum r) w h st fs = Some (r, h, st, fs)" "crun (from_outside a) w h st fs =
     (case a of Inl m \<Rightarrow> Some (Inl (JsExn m), h, st, fs) | Inr x \<Rightarrow> Some (Inr x, h, st, fs))"
  "crun (throwing t) w h st fs =
     (case t of Inl _ \<Rightarrow> Some (Inl (JsExn ''RangeError''), h, st, fs) | Inr x \<Rightarrow> Some (Inr x, h, st, fs))"
  "crun date_now w h st fs = Some (Inr (o_clock w), h, st, fs)" "crun uuid w h st fs = Some (Inr (o_uuid w), h, st, fs)"
  by (simp_all add: from_sum_def from_outside_def throwing_def date_now_def uuid_def split: sum.split)

lemma crun_get: "crun (store_get key) w h st fs =
    (if fate_of fs = Served then Some (Inr (value_at st key), EChan (StoreGet key) (Inr (AValue (value_at st key))) # h, st, tl fs)
     else Some (Inl (JsExn ''lost''), EChan (StoreGet key) (Inl ''lost'') # h, st, tl fs))"
  by (simp add: store_get_def from_outside_def split: fate.split)

lemma crun_update: "crun (store_update key upd) w h st fs =
    (case serve_update key upd st of (a, st') \<Rightarrow>
       (case fate_of fs of
          Served \<Rightarrow> (case a of Inr (ADid b) \<Rightarrow> Some (Inr b, EChan (StoreUpdate key upd) a # h, st', tl fs)
            | Inl m \<Rightarrow> Some (Inl (JsExn m), EChan (StoreUpdate key upd) a # h, st', tl fs) | _ \<Rightarrow> None)
        | AnswerLost \<Rightarrow> Some (Inl (JsExn ''lost''), EChan (StoreUpdate key upd) (Inl ''lost'') # h, st', tl fs)
        | RequestLost \<Rightarrow> Some (Inl (JsExn ''lost''), EChan (StoreUpdate key upd) (Inl ''lost'') # h, st, tl fs)))"
  by (auto simp: store_update_def serve_update_def from_outside_def did_def split: fate.split change.split sum.split)

lemma crun_delete: "crun (store_delete key) w h st fs =
    (case fate_of fs of
       Served \<Rightarrow> Some (Inr (), EChan (StoreDelete key) (Inr ADone) # h,
         if value_at st key = None then st else apply_write key (version_at st key) DeleteOp st, tl fs)
     | AnswerLost \<Rightarrow> Some (Inl (JsExn ''lost''), EChan (StoreDelete key) (Inl ''lost'') # h,
         if value_at st key = None then st else apply_write key (version_at st key) DeleteOp st, tl fs)
     | RequestLost \<Rightarrow> Some (Inl (JsExn ''lost''), EChan (StoreDelete key) (Inl ''lost'') # h, st, tl fs))"
  by (simp add: store_delete_def from_outside_def split: fate.split)

lemmas crun_rules = crun_bind crun_attempt crun_case crun_outside crun_get crun_update crun_delete

lemma crun_upstream:
  assumes "env = demo_env" "route = demo_route" "query = [(''tx_hash'', DEMO_TX)]" "body = None" "b = Some 100000"
  shows "crun (callUpstreamJson env route query body b) (chan_answers stored closing) h st fs =
    Some (Inr (JObj [], True, cost_of [''10000'']), ESign demo_signing (Inr ()) # h, st, fs)"
proof -
  have asked: "optional (ch_request demo_challenge) ''amount'' = Some (JStr ''10000'')"
    by (simp add: demo_challenge_def optional_def)
  have sign: "\<lparr>sn_url = demo_url, sn_amount = ''10000'', sn_channel = None, sn_cumulative = None\<rparr> = demo_signing"
    by (simp add: demo_signing_def)
  show ?thesis
    by (simp add: assms callUpstreamJson_def demo_upstream payMerchant_def mppx_fetch_def asked demo_within shown_def
        sign_then_def sign ha_ok_def unwrapMerchantEnvelope_def Let_def) (simp add: demo_signing_def)
qed

lemma crun_demo_calls:
  "crun (getPgChannel c) (chan_answers stored closing) h st fs =
     Some (Inr stored, EChan (PgGet (CHANNEL_PREFIX @ c)) (Inr (APgChannel stored)) # h, st, fs)"
  "crun (getPgChannelForAgent g) (chan_answers stored closing) h st fs =
     Some (Inr (Some DEMO_CHANNEL), EChan (PgAgentGet (AGENT_PREFIX @ g)) (Inr (APgAgent (Some DEMO_CHANNEL))) # h, st, fs)"
  "crun (getChannelState c) (chan_answers stored closing) h st fs =
     Some (Inr (demo_state closing), EChan (ReadState c) (Inr (AState (demo_state closing))) # h, st, fs)"
  by (simp_all add: getPgChannel_def getPgChannelForAgent_def getChannelState_def from_outside_def)

lemma crun_verify:
  "crun (Chan (VerifyVoucher vr) (\<lambda>a. bind (from_outside a) (\<lambda>x. case x of AVerify v \<Rightarrow> Done v | _ \<Rightarrow> unexpected)))
     (chan_answers stored closing) h st fs =
     Some (Inr (Accepted (Some demo_payment)), EChan (VerifyVoucher vr) (Inr (AVerify (Accepted (Some demo_payment)))) # h, st, fs)"
  by (simp add: from_outside_def)

lemma crun_closing:
  "crun (channelClosingForSpend c) (chan_answers stored closing) h st fs =
     Some (Inr (closing \<noteq> None), EChan (CachePut c ((demo_state closing)\<lparr>cs_balance := None\<rparr>) 0) (Inr ADone) #
       EChan (ReadState c) (Inr (AState (demo_state closing))) # EChan (CacheGet c) (Inr (ACached None)) # h, st, fs)"
  by (simp add: channelClosingForSpend_def readCloseState_def date_now_def from_outside_def Let_def attempt_def
      getChannelState_def isClosingOrRefundable_def demo_state_def)

lemma crun_resolve:
  assumes "auth = Some ''voucher''" "g = Some DEMO_ACCOUNT"
  shows "crun (resolvePgChannelMppx demo_ce auth g) (chan_answers (Some demo_channel) closing) h st fs =
     Some (Inr \<lparr>rc_contract = DEMO_CHANNEL, rc_commitmentKey = DEMO_ACCOUNT, rc_agent = DEMO_ACCOUNT,
         rc_currency = getStellarUsdcSac demo_ce, rc_depositRaw = ''10000000''\<rparr>,
       EChan (PgGet (CHANNEL_PREFIX @ DEMO_CHANNEL)) (Inr (APgChannel (Some demo_channel))) #
       EChan (PgAgentGet (AGENT_PREFIX @ DEMO_ACCOUNT)) (Inr (APgAgent (Some DEMO_CHANNEL))) # h, st, fs)"
  by (simp add: assms demo_resolve crun_bind crun_demo_calls) (simp add: demo_channel_def)

lemma crun_callId:
  "jfield body ''call_id'' = Some (JStr ''call-0001'') \<Longrightarrow> crun (callId body) w h st fs = Some (Inr (Some ''call-0001''), h, st, fs)"
proof -
  have "ID_PATTERN ''call-0001''" by (simp add: ID_PATTERN_def word_char_def)
  then show "jfield body ''call_id'' = Some (JStr ''call-0001'') \<Longrightarrow> ?thesis" by (simp add: callId_def)
qed

lemma demo_route_found: "resolvePlaygroundRoute demo_env ''/v1/services/mercury/txs/by-hash'' MethodGet = Inr demo_route"
  by (simp add: resolvePlaygroundRoute_def getRouteByPublicPath_def demo_env_def demo_route_def)

lemma demo_keys [simp]:
  "voucherKey c \<noteq> closedKey d" "voucherKey c \<noteq> fencedKey d" "voucherKey c \<noteq> lockKey d"
  "voucherKey c \<noteq> cumulativeKey d" "voucherKey c \<noteq> challengeKey d"
  "voucherKey c \<noteq> RECON_SUPERSEDE_KEY" "RECON_SUPERSEDE_KEY \<noteq> voucherKey c"
  "closedKey c \<noteq> voucherKey d" "closedKey c \<noteq> fencedKey d" "closedKey c \<noteq> lockKey d"
  "closedKey c \<noteq> cumulativeKey d" "closedKey c \<noteq> challengeKey d"
  "closedKey c \<noteq> RECON_SUPERSEDE_KEY" "RECON_SUPERSEDE_KEY \<noteq> closedKey c"
  "fencedKey c \<noteq> voucherKey d" "fencedKey c \<noteq> closedKey d" "fencedKey c \<noteq> lockKey d"
  "fencedKey c \<noteq> cumulativeKey d" "fencedKey c \<noteq> challengeKey d"
  "fencedKey c \<noteq> RECON_SUPERSEDE_KEY" "RECON_SUPERSEDE_KEY \<noteq> fencedKey c"
  "lockKey c \<noteq> voucherKey d" "lockKey c \<noteq> closedKey d" "lockKey c \<noteq> fencedKey d"
  "lockKey c \<noteq> cumulativeKey d" "lockKey c \<noteq> challengeKey d" "lockKey c \<noteq> RECON_SUPERSEDE_KEY"
  "RECON_SUPERSEDE_KEY \<noteq> lockKey c" "cumulativeKey c \<noteq> voucherKey d"
  "cumulativeKey c \<noteq> closedKey d" "cumulativeKey c \<noteq> fencedKey d" "cumulativeKey c \<noteq> lockKey d"
  "cumulativeKey c \<noteq> challengeKey d" "cumulativeKey c \<noteq> RECON_SUPERSEDE_KEY"
  "RECON_SUPERSEDE_KEY \<noteq> cumulativeKey c" "challengeKey c \<noteq> voucherKey d"
  "challengeKey c \<noteq> closedKey d" "challengeKey c \<noteq> fencedKey d" "challengeKey c \<noteq> lockKey d"
  "challengeKey c \<noteq> cumulativeKey d" "challengeKey c \<noteq> RECON_SUPERSEDE_KEY"
  "RECON_SUPERSEDE_KEY \<noteq> challengeKey c"
  by (simp_all add: key_defs)

lemmas chan_programs = executeMeteredChannelCall_def verifyChannelVoucher_def take_delivery_def verify_credential_def
  paid_section_def deliver_def upstream_failed_def commitPaidVoucher_def persistVoucherOrReverse_def putLatestVoucher_def
  finally_ignoring_def acquireChannelDeliveryLock_def revalidateChannelDeliveryLock_def releaseChannelDeliveryLock_def
  isChannelBlocked_def checkCovered_def getLatestVoucher_def

definition write_now :: "string \<Rightarrow> chan_val write_op \<Rightarrow> chan_val astore \<Rightarrow> chan_val astore" where
  "write_now key wop st = apply_write key (version_at st key) wop st"

lemma value_write_now: "value_at (write_now key wop st) k = (if k = key then written wop else value_at st k)"
  by (simp add: write_now_def value_written)

lemma serve_update_now: "serve_update key upd st =
     (case chan_change upd (value_at st key) of Noop r \<Rightarrow> (did r, st) | Change wop r \<Rightarrow> (did r, write_now key wop st))"
  by (simp add: serve_update_def write_now_def split: change.split)

lemma crun_fence: "crun (fenceChannelPersistent c) w h st [] =
    Some (Inr True, EChan (StoreUpdate (fencedKey c) (SetMark (o_clock w))) (Inr (ADid True)) # h,
      write_now (fencedKey c) (SetOp (MarkVal (o_clock w))) st, [])"
  by (simp add: fenceChannelPersistent_def numeral_3_eq_3 crun_rules serve_update_now did_def fate_of_def)

lemmas chan_changes = serve_update_now did_def fate_of_def value_write_now written_def acquire_change_def revalidate_change_def
  release_change_def put_voucher_change_def mark_settled_change_def count_abort_change_def rollback_change_def lock_until_def two_ints_def

lemmas crun_chan = crun_rules crun_upstream crun_demo_calls crun_verify crun_closing crun_resolve crun_callId crun_fence
  demo_route_found chip_prices chip_budgets chan_changes

definition demo_lv :: latest_voucher where
  "demo_lv = \<lparr>lv_amountDecimal = formatUsd 110000, lv_cumulativeRaw = ''110000'', lv_signature = ''5a'',
     lv_lastSettledRaw = ''0'', lv_updatedAt = 0\<rparr>"

text \<open>A call that succeeds.\<close>

lemma demo_decode_run:
  "\<exists>r h st. crun demo_decode (chan_answers (Some demo_channel) None) [] empty_store [] = Some (Inr r, h, st, []) \<and>
     rs_status r = 200 \<and> jfield (rs_body r) ''charged_usd'' = Some (usd 110000) \<and> ESign demo_signing (Inr ()) \<in> set h \<and>
     value_at st (voucherKey DEMO_CHANNEL) = Some (VoucherVal demo_lv) \<and> value_at st (lockKey DEMO_CHANNEL) = None \<and>
     value_at st (closedKey DEMO_CHANNEL) = None \<and> value_at st (fencedKey DEMO_CHANNEL) = None"
  unfolding demo_decode_def handleChannelTxDecode_def chan_programs
  by (simp add: crun_chan Let_def demo_crq_def readJsonBody_def body_str_def authorization_def watermark_text_def demo_voucher_def
      demo_lv_def json_response_def pricingFields_def del: crun.simps(13) cong: crun_cong)

text \<open>A call whose voucher was stored, but neither the answer of the store nor the read after it arrived.\<close>

definition demo_fates :: "fate list" where
  "demo_fates = [Served, Served, Served, Served, Served, Served, AnswerLost, RequestLost]"

lemma demo_unknown_run:
  "\<exists>r h st. crun demo_decode (chan_answers (Some demo_channel) None) [] empty_store demo_fates = Some (Inr r, h, st, []) \<and>
     rs_status r = 502 \<and> jfield (rs_body r) ''charged_usd'' = Some (JStr ''0.00'') \<and> ESign demo_signing (Inr ()) \<in> set h \<and>
     value_at st (voucherKey DEMO_CHANNEL) = Some (VoucherVal demo_lv) \<and>
     (\<exists>a. EChan (StoreUpdate (cumulativeKey DEMO_CHANNEL) (Rollback ''110000'' ''0'')) a \<in> set h)"
  unfolding demo_decode_def handleChannelTxDecode_def chan_programs absorbPaidCallAndFence_def incrSupersededAbort_def
    rollback_voucher_def rollbackFailedChannelVoucher_def
  apply (simp add: crun_chan Let_def demo_crq_def readJsonBody_def body_str_def authorization_def watermark_text_def demo_voucher_def
      demo_lv_def demo_fates_def settlementFailed_def not_charged_def fail_def json_response_def del: crun.simps(13) cong: crun_cong)
  done

text \<open>The collection of a closing channel.\<close>

lemma crun_list:
  "crun listPgChannels (chan_answers (Some demo_channel) closing) h st fs =
     Some (Inr [demo_channel], EChan (PgGet (CHANNEL_PREFIX @ DEMO_CHANNEL)) (Inr (APgChannel (Some demo_channel))) #
       EChan (PgList CHANNEL_PREFIX) (Inr (APgPages [[CHANNEL_PREFIX @ DEMO_CHANNEL]])) # h, st, fs)"
  by (simp add: listPgChannels_def from_outside_def crun_bind crun_demo_calls)

lemma crun_close:
  "crun (submit_close cc) (chan_answers stored closing) h st fs =
     Some (Inr DEMO_TX, EChan (CloseOnChain cc) (Inr (ATx DEMO_TX)) # h, st, fs)"
  by (simp add: submit_close_def from_outside_def)

lemma crun_decode: "sg = ''5a'' \<Longrightarrow> crun (decodeVoucherSignature demo_ce sg) w h st fs = Some (Inr (replicate 64 0), h, st, fs)"
  by (simp add: decodeVoucherSignature_def demo_ce_def js_trim_def is_space_def hex_text_def Let_def)

lemma demo_settle_all:
  assumes "value_at st0 (voucherKey DEMO_CHANNEL) = Some (VoucherVal demo_lv)" "value_at st0 (lockKey DEMO_CHANNEL) = None"
    "value_at st0 (closedKey DEMO_CHANNEL) = None" "value_at st0 (fencedKey DEMO_CHANNEL) = None"
  shows "\<exists>h st. crun (settle_all demo_ce [demo_channel]) (chan_answers (Some demo_channel) (Some 5)) h0 st0 [] = Some (Inr (), h, st, []) \<and>
     EChan (CloseOnChain \<lparr>cc_channel = DEMO_CHANNEL, cc_amount = 110000, cc_signature = replicate 64 0\<rparr>) (Inr (ATx DEMO_TX)) \<in> set h"
proof -
  have "pc_contract demo_channel = DEMO_CHANNEL" by (simp add: demo_channel_def)
  with assms show ?thesis
    unfolding settle_all.simps settle_if_due_def settleOneChannel_def settle_due_def close_channel_def
      markChannelClosed_def markVoucherSettled_def chan_programs
    by (simp add: crun_chan crun_close crun_decode Let_def demo_lv_def demo_state_def channelBalanceIsZero_def
        del: crun.simps(13) cong: crun_cong)
qed

lemma demo_collect_run:
  assumes "value_at st0 (voucherKey DEMO_CHANNEL) = Some (VoucherVal demo_lv)" "value_at st0 (lockKey DEMO_CHANNEL) = None"
    "value_at st0 (closedKey DEMO_CHANNEL) = None" "value_at st0 (fencedKey DEMO_CHANNEL) = None"
  shows "\<exists>r h st. crun (settle_job demo_ce) (chan_answers (Some demo_channel) (Some 5)) [] st0 [] = Some (Inr r, h, st, []) \<and>
     EChan (CloseOnChain \<lparr>cc_channel = DEMO_CHANNEL, cc_amount = 110000, cc_signature = replicate 64 0\<rparr>) (Inr (ATx DEMO_TX)) \<in> set h"
proof -
  have "ce_signer_secret demo_ce = Some ''secret''" by (simp add: demo_ce_def)
  moreover obtain h st where "crun (settle_all demo_ce [demo_channel]) (chan_answers (Some demo_channel) (Some 5))
      [EChan (PgGet (CHANNEL_PREFIX @ DEMO_CHANNEL)) (Inr (APgChannel (Some demo_channel))),
       EChan (PgList CHANNEL_PREFIX) (Inr (APgPages [[CHANNEL_PREFIX @ DEMO_CHANNEL]]))] st0 [] = Some (Inr (), h, st, [])"
    "EChan (CloseOnChain \<lparr>cc_channel = DEMO_CHANNEL, cc_amount = 110000, cc_signature = replicate 64 0\<rparr>) (Inr (ATx DEMO_TX)) \<in> set h"
    using demo_settle_all [OF assms] by blast
  ultimately show ?thesis
    unfolding settle_job_def settlePlaygroundChannels_def
    by (simp add: crun_rules crun_list del: crun.simps(13) settle_all.simps cong: crun_cong)
qed

text \<open>The registration of the channel.\<close>

lemma demo_checked: "check_registration demo_ce (JObj
     [(''channel'', JStr DEMO_CHANNEL), (''from'', JStr DEMO_ACCOUNT), (''commitmentKey'', JStr DEMO_ACCOUNT),
      (''salt'', JStr DEMO_SALT), (''signature'', JStr ''sig'')]) =
   Inr \<lparr>rg_contract = DEMO_CHANNEL, rg_agent = DEMO_ACCOUNT, rg_key = DEMO_ACCOUNT, rg_collector = DEMO_ROUTER, rg_wasm = DEMO_TX\<rparr>"
proof -
  have "js_trim ''sig'' = ''sig''" by (simp add: js_trim_def is_space_def)
  moreover have "deriveChannelAddress demo_ce f a (hex_bytes DEMO_SALT) n = Some DEMO_CHANNEL" for f a n
    by (simp add: deriveChannelAddress_def) (simp add: demo_ce_def)
  moreover have "verifyChannelRegisterSignature demo_ce t s" for t s
    by (simp add: verifyChannelRegisterSignature_def demo_ce_def Let_def)
  ultimately show ?thesis
    by (simp add: check_registration_def body_str_def Let_def)
qed

lemma demo_matches: "checkChannelMatches demo_ce demo_onchain
    \<lparr>ex_collector = DEMO_ROUTER, ex_usdcSac = getStellarUsdcSac demo_ce, ex_funder = DEMO_ACCOUNT,
     ex_commitmentKeyG = DEMO_ACCOUNT, ex_refundWaitingPeriod = CHANNEL_REFUND_WAITING_PERIOD,
     ex_minDepositRaw = 1000000, ex_wasmHash = DEMO_TX\<rparr> = None"
proof -
  have "ce_key_bytes demo_ce DEMO_ACCOUNT = Some [1]" "bytes_hex [1] = ''01''"
    by (simp add: demo_ce_def) code_simp
  then show ?thesis by (simp add: checkChannelMatches_def demo_onchain_def CHANNEL_REFUND_WAITING_PERIOD_def)
qed

lemma demo_register_run:
  "\<exists>r h. crun demo_register (chan_answers None None) [] empty_store [] = Some (Inr r, h, empty_store, []) \<and>
     EChan (PgPut (CHANNEL_PREFIX @ DEMO_CHANNEL) demo_channel) (Inr ADone) \<in> set h"
proof -
  have read: "crun (readChannelOnChain c u) (chan_answers None None) h st fs =
      Some (Inr demo_onchain, EChan (ReadOnChain c u) (Inr (AOnChain demo_onchain)) # h, st, fs)" for c u h st fs
    by (simp add: readChannelOnChain_def from_outside_def)
  have put: "crun (putPgChannel s) (chan_answers None None) h st fs = Some (Inr (),
      EChan (PgAgentPut (AGENT_PREFIX @ pc_agent s) (pc_contract s)) (Inr ADone) #
      EChan (PgPut (CHANNEL_PREFIX @ pc_contract s) s) (Inr ADone) # h, st, fs)" for s h st fs
    by (simp add: putPgChannel_def from_outside_def)
  have slot: "crun (DailySlot k n from_outside) (chan_answers None None) h st fs = Some (Inr (True, 1), h, st, fs)" for k n h st fs
    by (simp add: from_outside_def)
  have reply: "crun (register_reply rg b d) w h st fs = Some (Inr (json_response
      [(''ok'', JBool True), (''replayed'', JBool b), (''channel'', JStr (rg_contract rg)), (''from'', JStr (rg_agent rg)),
       (''commitmentKey'', JStr (rg_key rg)), (''depositUsd'', usd 10000000)] 200), h, st, fs)"
    if "d = oc_balanceRaw demo_onchain" for rg b d w h st fs
    using that by (simp add: register_reply_def crun_rules demo_onchain_def)
  have fields: "oc_balanceRaw demo_onchain = ''10000000''" "ce_network demo_ce = ''stellar:pubnet''"
    by (simp_all add: demo_onchain_def demo_ce_def)
  show ?thesis
    unfolding demo_register_def handleChannelRegister_def register_verified_def
    by (simp add: crun_rules crun_demo_calls read put slot reply fields demo_checked demo_matches Let_def demo_crq_def readJsonBody_def
        demo_channel_def del: crun.simps(9,13) cong: crun_cong)
qed

subsection \<open>The states they reach\<close>

lemma demo_handlers: "chan_handler demo_ce demo_register" "chan_handler demo_ce demo_decode" "chan_handler demo_ce (settle_job demo_ce)"
  unfolding chan_handler_def demo_register_def demo_decode_def by blast+

text \<open>A registration, a call and the collection, one after the other.\<close>

lemma demo_life: "\<exists>s r. chan_reachable (chan_handler demo_ce) s \<and>
    EChan (PgPut (CHANNEL_PREFIX @ DEMO_CHANNEL) demo_channel) (Inr ADone) \<in> set (chist s 0) \<and>
    ESign demo_signing (Inr ()) \<in> set (chist s 1) \<and> c_procs s 1 = Some (chist s 1, Done r) \<and> rs_status r = 200 \<and>
    jfield (rs_body r) ''charged_usd'' = Some (usd 110000) \<and>
    EChan (CloseOnChain \<lparr>cc_channel = DEMO_CHANNEL, cc_amount = 110000, cc_signature = replicate 64 0\<rparr>) (Inr (ATx DEMO_TX)) \<in> set (chist s 2)"
proof -
  let ?H = "chan_handler demo_ce"
  obtain ra ha where a: "crun demo_register (chan_answers None None) [] (c_store chan_start) [] = Some (Inr ra, ha, empty_store, [])"
    "EChan (PgPut (CHANNEL_PREFIX @ DEMO_CHANNEL) demo_channel) (Inr ADone) \<in> set ha"
    using demo_register_run by (auto simp: chan_start_def)
  from crun_arrive [where n = 0 and H = "chan_handler demo_ce", OF chan_reachable_start demo_handlers(1) _ a(1)] obtain s1 where
    s1: "chan_reachable ?H s1" "c_store s1 = empty_store" "c_procs s1 = (c_procs chan_start)(0 \<mapsto> (ha, from_sum (Inr ra)))"
    by (auto simp: chan_start_def)
  obtain rb hb st where b: "crun demo_decode (chan_answers (Some demo_channel) None) [] (c_store s1) [] = Some (Inr rb, hb, st, [])"
    "rs_status rb = 200" "jfield (rs_body rb) ''charged_usd'' = Some (usd 110000)" "ESign demo_signing (Inr ()) \<in> set hb"
    "value_at st (voucherKey DEMO_CHANNEL) = Some (VoucherVal demo_lv)" "value_at st (lockKey DEMO_CHANNEL) = None"
    "value_at st (closedKey DEMO_CHANNEL) = None" "value_at st (fencedKey DEMO_CHANNEL) = None"
    using demo_decode_run s1(2) by auto
  from crun_arrive [where n = 1 and H = "chan_handler demo_ce", OF s1(1) demo_handlers(2) _ b(1)] obtain s2 where
    s2: "chan_reachable ?H s2" "c_store s2 = st" "c_procs s2 = (c_procs s1)(1 \<mapsto> (hb, from_sum (Inr rb)))"
    by (auto simp: s1(3) chan_start_def)
  obtain rc hc st3 where c: "crun (settle_job demo_ce) (chan_answers (Some demo_channel) (Some 5)) [] (c_store s2) [] = Some (Inr rc, hc, st3, [])"
    "EChan (CloseOnChain \<lparr>cc_channel = DEMO_CHANNEL, cc_amount = 110000, cc_signature = replicate 64 0\<rparr>) (Inr (ATx DEMO_TX)) \<in> set hc"
    using demo_collect_run [of st] b(5-8) s2(2) by auto
  from crun_arrive [where n = 2 and H = "chan_handler demo_ce", OF s2(1) demo_handlers(3) _ c(1)] obtain s3 where
    s3: "chan_reachable ?H s3" "c_procs s3 = (c_procs s2)(2 \<mapsto> (hc, from_sum (Inr rc)))"
    by (auto simp: s2(3) s1(3) chan_start_def)
  have "chist s3 0 = ha" "chist s3 1 = hb" "chist s3 2 = hc" "c_procs s3 1 = Some (hb, Done rb)"
    by (simp_all add: chist_def s3(2) s2(3) s1(3) from_sum_def)
  with a b c s3(1) show ?thesis by metis
qed

text \<open>After the first two of them: the voucher is stored.\<close>

lemma demo_stored: "\<exists>s. chan_reachable (chan_handler demo_ce) s \<and>
    value_at (c_store s) (voucherKey DEMO_CHANNEL) = Some (VoucherVal demo_lv)"
proof -
  obtain r h st where "crun demo_decode (chan_answers (Some demo_channel) None) [] (c_store chan_start) [] = Some (Inr r, h, st, [])"
    "value_at st (voucherKey DEMO_CHANNEL) = Some (VoucherVal demo_lv)"
    using demo_decode_run by (auto simp: chan_start_def)
  from crun_arrive [where n = 0 and H = "chan_handler demo_ce", OF chan_reachable_start demo_handlers(2) _ this(1)] this(2) show ?thesis
    by (auto simp: chan_start_def)
qed

lemma demo_unknown: "\<exists>s r h. chan_reachable (chan_handler demo_ce) s \<and> c_procs s 0 = Some (h, Done r) \<and> rs_status r = 502 \<and>
    jfield (rs_body r) ''charged_usd'' = Some (JStr ''0.00'') \<and> ESign demo_signing (Inr ()) \<in> set h \<and>
    value_at (c_store s) (voucherKey DEMO_CHANNEL) = Some (VoucherVal demo_lv) \<and>
    (\<exists>a. EChan (StoreUpdate (cumulativeKey DEMO_CHANNEL) (Rollback ''110000'' ''0'')) a \<in> set (chist s 0))"
proof -
  obtain r h st where r: "crun demo_decode (chan_answers (Some demo_channel) None) [] (c_store chan_start) demo_fates = Some (Inr r, h, st, [])"
    "rs_status r = 502" "jfield (rs_body r) ''charged_usd'' = Some (JStr ''0.00'')" "ESign demo_signing (Inr ()) \<in> set h"
    "value_at st (voucherKey DEMO_CHANNEL) = Some (VoucherVal demo_lv)"
    "\<exists>a. EChan (StoreUpdate (cumulativeKey DEMO_CHANNEL) (Rollback ''110000'' ''0'')) a \<in> set h"
    using demo_unknown_run by (auto simp: chan_start_def)
  from crun_arrive [where n = 0 and H = "chan_handler demo_ce", OF chan_reachable_start demo_handlers(2) _ r(1)] obtain s where
    "chan_reachable (chan_handler demo_ce) s" "c_store s = st" "c_procs s = (c_procs chan_start)(0 \<mapsto> (h, from_sum (Inr r)))"
    by (auto simp: chan_start_def)
  with r show ?thesis by (auto simp: chist_def from_sum_def intro!: exI [of _ s])
qed

end
