(* ===== verification/ChannelClaims.thy ===== *)
theory ChannelClaims
  imports ChannelDemo
begin

text \<open>
  The properties of the payment channels, over every reachable state of the system of all their handlers, and of its
  store as a machine.
\<close>

subsection \<open>Calls\<close>

text \<open>C7: An answer that names a charge tells the truth about it: 0.00 means that no put of the voucher returned and that
  what was paid, if anything, was absorbed behind the fence of the channel or a fence that failed three times; the price
  means that a merchant was paid and that the store holds a voucher the collector can redeem for it.\<close>

theorem channel_charge_told:
  assumes "chan_reachable (chan_handler ce) s" "c_procs s n = Some (h, Done r)" "rs_status r \<noteq> 402"
    "jfield (rs_body r) ''charged_usd'' = Some x"
  shows "\<exists>c i m v. accepted ce c i (applyMarkup m) v h \<and>
    (x = JStr ''0.00'' \<and> \<not> put_returned h \<and>
       (paid h \<longrightarrow> value_at (c_store s) (fencedKey c) \<noteq> None \<or> fence_failed c h) \<or>
     x = usd (applyMarkup m) \<and> paid h \<and>
       (\<exists>lv. value_at (c_store s) (voucherKey c) = Some (VoucherVal lv) \<and>
          num (cv_acceptedAmount v) \<le> num (lv_cumulativeRaw lv)))"
proof -
  have h: "chist s n = h" by (rule chist_Some [OF assms(2)])
  from channels.finished [OF assms(1,2)] assms(3,4) obtain c i m v where
    v: "accepted ce c i (applyMarkup m) v h" "x = JStr ''0.00'' \<and> charge_reversed c h \<or> x = usd (applyMarkup m) \<and> charge_kept c v h"
    unfolding charge_told_def by blast
  with fenced_stored [OF assms(1), of c n] kept_stored [OF assms(1), of c v n] show ?thesis
    unfolding charge_reversed_def charge_kept_def h by blast
qed

theorem channel_charge_told_witness:
  "\<exists>(s :: chan_system) h c i m v. accepted demo_ce c i (applyMarkup m) v h \<and>
    (usd 110000 = JStr ''0.00'' \<and> \<not> put_returned h \<and>
       (paid h \<longrightarrow> value_at (c_store s) (fencedKey c) \<noteq> None \<or> fence_failed c h) \<or>
     usd 110000 = usd (applyMarkup m) \<and> paid h \<and>
       (\<exists>lv. value_at (c_store s) (voucherKey c) = Some (VoucherVal lv) \<and>
          num (cv_acceptedAmount v) \<le> num (lv_cumulativeRaw lv)))"
proof -
  from demo_life obtain s r where s: "chan_reachable (chan_handler demo_ce) s" "c_procs s 1 = Some (chist s 1, Done r)"
    "rs_status r = 200" "jfield (rs_body r) ''charged_usd'' = Some (usd 110000)" by blast
  have "rs_status r \<noteq> 402" using s(3) by simp
  from channel_charge_told [OF s(1,2) this s(4)] show ?thesis by - (intro exI [of _ s] exI [of _ "chist s 1"])
qed

text \<open>C8: Nothing is signed and no paid merchant is called unless the channel was registered on our terms, its delivery lock
  was taken, it was neither closed nor fenced nor closing, its watermark left room for the price, the library verified
  the voucher for that price, and the lock was still held, in this order; and what is signed is within the upstream
  cost the price was made from.\<close>

theorem channel_pays_in_order:
  assumes "chan_reachable (chan_handler ce) s" "chist s n = h1 @ e # h" "e = ESign sg a \<or> e = EHttp q b"
  shows "\<exists>c i m v. cleared ce c i (applyMarkup m) v h \<and> (e = ESign sg a \<longrightarrow> (\<exists>k \<le> m. may_sign (ce_env ce) k h sg))"
  using assms(3)
proof
  assume e: "e = ESign sg a"
  from reachable_guarded [OF assms(1,2), of "CallSign sg"] e have "chan_guard ce (CallSign sg) h" by simp
  then show ?thesis unfolding chan_guard_def e by simp
next
  assume e: "e = EHttp q b"
  from reachable_guarded [OF assms(1,2), of "CallHttp q"] e have "chan_guard ce (CallHttp q) h" by simp
  then show ?thesis unfolding chan_guard_def e by auto
qed

theorem channel_pays_in_order_witness:
  "\<exists>h c i m v. cleared demo_ce c i (applyMarkup m) v h \<and> (\<exists>k \<le> m. may_sign (ce_env demo_ce) k h demo_signing)"
proof -
  from demo_life obtain s where s: "chan_reachable (chan_handler demo_ce) s" "ESign demo_signing (Inr ()) \<in> set (chist s 1)" by blast
  from split_list [OF s(2)] obtain h1 h where "chist s 1 = h1 @ ESign demo_signing (Inr ()) # h" by blast
  from channel_pays_in_order [OF s(1) this, of demo_signing "Inr ()"] show ?thesis by blast
qed

text \<open>C14: A watermark is rolled back only for a voucher the library verified and no put of which returned; and if a
  merchant was paid before, the fence that keeps the channel from further calls is in the store.\<close>

theorem rollback_behind_fence:
  assumes "chan_reachable (chan_handler ce) s" "chist s n = h1 @ EChan (StoreUpdate key (Rollback x p)) a # h"
  shows "\<exists>c v k price. key = cumulativeKey c \<and> x = cv_acceptedAmount v \<and> p = cv_previousAmount v \<and>
    (\<exists>e \<in> set h. verified ce c k price v e) \<and> \<not> put_returned h \<and>
    (paid h \<longrightarrow> value_at (c_store s) (fencedKey c) \<noteq> None)"
proof -
  from reachable_guarded [OF assms, of "CallChan (StoreUpdate key (Rollback x p))"]
  obtain c v k price where v: "key = cumulativeKey c" "x = cv_acceptedAmount v" "p = cv_previousAmount v"
    "\<exists>e \<in> set h. verified ce c k price v e" "paid h \<longrightarrow> fenced c h" "\<not> put_returned h"
    unfolding chan_guard_simps chan_req_guard.simps upd_guard.simps call_of.simps by blast
  have "fenced c (chist s n)" if "paid h" using v(5) that assms(2) fenced_append [of c h "h1 @ [_]"] by simp
  with v fenced_stored [OF assms(1)] show ?thesis by blast
qed

theorem rollback_behind_fence_witness:
  "\<exists>(s :: chan_system) h c v k price. cumulativeKey DEMO_CHANNEL = cumulativeKey c \<and> ''110000'' = cv_acceptedAmount v \<and> ''0'' = cv_previousAmount v \<and>
    (\<exists>e \<in> set h. verified demo_ce c k price v e) \<and> \<not> put_returned h \<and>
    (paid h \<longrightarrow> value_at (c_store s) (fencedKey c) \<noteq> None)"
proof -
  from demo_unknown obtain s a where s: "chan_reachable (chan_handler demo_ce) s"
    "EChan (StoreUpdate (cumulativeKey DEMO_CHANNEL) (Rollback ''110000'' ''0'')) a \<in> set (chist s 0)" by blast
  from split_list [OF s(2)] obtain h1 h where
    "chist s 0 = h1 @ EChan (StoreUpdate (cumulativeKey DEMO_CHANNEL) (Rollback ''110000'' ''0'')) a # h" by blast
  from rollback_behind_fence [OF s(1) this] show ?thesis by - (intro exI [of _ s] exI [of _ h])
qed

text \<open>C35: There is a run in which a call answers that nothing was charged, after a merchant was paid, while the voucher that
  pays for it is in the store for the collector to redeem: the put took effect, and neither its answer nor the read
  that should settle the doubt arrived.\<close>

theorem unreadable_put_is_collectable:
  "\<exists>s n h r lv. chan_reachable (chan_handler demo_ce) s \<and> c_procs s n = Some (h, Done r) \<and>
    jfield (rs_body r) ''charged_usd'' = Some (JStr ''0.00'') \<and> paid h \<and>
    value_at (c_store s) (voucherKey DEMO_CHANNEL) = Some (VoucherVal lv) \<and>
    num (lv_lastSettledRaw lv) < num (lv_cumulativeRaw lv)"
proof -
  from demo_unknown obtain s r h where s: "chan_reachable (chan_handler demo_ce) s" "c_procs s 0 = Some (h, Done r)"
    "jfield (rs_body r) ''charged_usd'' = Some (JStr ''0.00'')" "ESign demo_signing (Inr ()) \<in> set h"
    "value_at (c_store s) (voucherKey DEMO_CHANNEL) = Some (VoucherVal demo_lv)" by blast
  from s(4) have "paid h" unfolding paid_def list_ex_iff by (rule rev_bexI) simp
  moreover have "num (lv_lastSettledRaw demo_lv) < num (lv_cumulativeRaw demo_lv)" by (simp add: demo_lv_def num_def)
  ultimately show ?thesis using s by blast
qed

subsection \<open>The store\<close>

text \<open>C9: Every voucher the collector can redeem was verified for its channel, behind all the gates and under the lock, and
  put only after a merchant had been paid; and nothing is marked settled beyond what was signed.\<close>

theorem stored_voucher_was_earned:
  assumes "chan_reachable (chan_handler ce) s" "value_at (c_store s) (voucherKey c) = Some (VoucherVal lv)"
  shows "num (lv_lastSettledRaw lv) \<le> max 0 (num (lv_cumulativeRaw lv)) \<and>
    (\<exists>n h1 h d t a i m v.
       chist s n = h1 @ EChan (StoreUpdate (voucherKey c) (PutVoucher d (lv_cumulativeRaw lv) (lv_signature lv) t)) a # h \<and>
       cleared ce c i (applyMarkup m) v h \<and> paid h \<and>
       lv_cumulativeRaw lv = cv_acceptedAmount v \<and> lv_signature lv = cv_signature v)"
proof -
  from reachable_inv [OF assms(1)] assms(2) obtain n e where n: "within lv" "e \<in> set (chist s n)" "put_of c lv e"
    unfolding chan_inv_def voucher_inv_def by blast
  then obtain d t a where e: "e = EChan (StoreUpdate (voucherKey c) (PutVoucher d (lv_cumulativeRaw lv) (lv_signature lv) t)) a"
    unfolding put_of_def by blast
  from split_list [OF n(2)] obtain h1 h where h: "chist s n = h1 @ e # h" by blast
  from reachable_guarded [OF assms(1) h, of "CallChan (StoreUpdate (voucherKey c) (PutVoucher d (lv_cumulativeRaw lv) (lv_signature lv) t))"]
  obtain i m v where "cleared ce c i (applyMarkup m) v h" "paid h" "lv_cumulativeRaw lv = cv_acceptedAmount v" "lv_signature lv = cv_signature v"
    unfolding e chan_guard_simps chan_req_guard.simps upd_guard.simps call_of.simps by auto
  with n(1) h e show ?thesis unfolding within_def by blast
qed

theorem stored_voucher_was_earned_witness:
  "\<exists>s. num (lv_lastSettledRaw demo_lv) \<le> max 0 (num (lv_cumulativeRaw demo_lv)) \<and>
    (\<exists>n h1 h d t a i m v.
       chist s n = h1 @ EChan (StoreUpdate (voucherKey DEMO_CHANNEL) (PutVoucher d (lv_cumulativeRaw demo_lv) (lv_signature demo_lv) t)) a # h \<and>
       cleared demo_ce DEMO_CHANNEL i (applyMarkup m) v h \<and> paid h \<and>
       lv_cumulativeRaw demo_lv = cv_acceptedAmount v \<and> lv_signature demo_lv = cv_signature v)"
proof -
  from demo_stored obtain s where s: "chan_reachable (chan_handler demo_ce) s"
    "value_at (c_store s) (voucherKey DEMO_CHANNEL) = Some (VoucherVal demo_lv)" by blast
  from stored_voucher_was_earned [OF s] show ?thesis by - (rule exI [of _ s])
qed

text \<open>C13: A channel is closed on chain only by the collector's key, with the signature and amount of a voucher read under its
  delivery lock, when enough is unsettled or the channel is closing; the closed mark is in the store then, and the
  stored voucher covers at least that amount.\<close>

theorem close_behind_mark:
  assumes "chan_reachable (chan_handler ce) s" "chist s n = h1 @ EChan (CloseOnChain cc) a # h"
  shows "collectorKeyMatches ce \<and> value_at (c_store s) (closedKey (cc_channel cc)) \<noteq> None \<and>
    (\<exists>i lv st. settling (cc_channel cc) i lv st h \<and> cc_amount cc = num (lv_cumulativeRaw lv) \<and>
       decodeVoucherSignature ce (lv_signature lv) = Done (cc_signature cc)) \<and>
    (\<exists>lv. value_at (c_store s) (voucherKey (cc_channel cc)) = Some (VoucherVal lv) \<and> cc_amount cc \<le> num (lv_cumulativeRaw lv))"
proof -
  from reachable_guarded [OF assms, of "CallChan (CloseOnChain cc)"] obtain i lv st where
    g: "collectorKeyMatches ce" "settling (cc_channel cc) i lv st h" "cc_amount cc = num (lv_cumulativeRaw lv)"
      "decodeVoucherSignature ce (lv_signature lv) = Done (cc_signature cc)" by auto
  have "chist s n = (h1 @ [EChan (CloseOnChain cc) a]) @ h" using assms(2) by simp
  from settling_stored [OF assms(1) this g(2)] g show ?thesis by auto
qed

theorem close_behind_mark_witness:
  "\<exists>(s :: chan_system) h. collectorKeyMatches demo_ce \<and> value_at (c_store s) (closedKey DEMO_CHANNEL) \<noteq> None \<and>
    (\<exists>i lv st. settling DEMO_CHANNEL i lv st h \<and> 110000 = num (lv_cumulativeRaw lv) \<and>
       decodeVoucherSignature demo_ce (lv_signature lv) = Done (replicate 64 0)) \<and>
    (\<exists>lv. value_at (c_store s) (voucherKey DEMO_CHANNEL) = Some (VoucherVal lv) \<and> 110000 \<le> num (lv_cumulativeRaw lv))"
proof -
  let ?cc = "\<lparr>cc_channel = DEMO_CHANNEL, cc_amount = 110000, cc_signature = replicate 64 0\<rparr>"
  from demo_life obtain s where s: "chan_reachable (chan_handler demo_ce) s"
    "EChan (CloseOnChain ?cc) (Inr (ATx DEMO_TX)) \<in> set (chist s 2)" by blast
  from split_list [OF s(2)] obtain h1 h where "chist s 2 = h1 @ EChan (CloseOnChain ?cc) (Inr (ATx DEMO_TX)) # h" by blast
  from close_behind_mark [OF s(1) this] show ?thesis
    unfolding close_call.select_convs by - (intro exI [of _ s] exI [of _ h])
qed

text \<open>C15: A channel enters the registry only if its funder signed the registration, its address is the one our factory gives to
  that funder, and the chain showed it paying the collector in our token, not closing, with at least the minimum deposit.\<close>

theorem registered_as_signed:
  assumes "chan_reachable (chan_handler ce) s" "chist s n = h1 @ EChan (PgPut key p) a # h"
  shows "key = CHANNEL_PREFIX @ pc_contract p \<and> signed_registration ce p \<and> channelCollector ce = Some (pc_to p) \<and>
    (\<exists>oc deposit. EChan (ReadOnChain (pc_contract p) (pc_currency p)) (Inr (AOnChain oc)) \<in> set h \<and>
       oc_to oc = pc_to p \<and> oc_token oc = pc_currency p \<and> oc_from oc = pc_agent p \<and> oc_closeEffectiveAt oc = None \<and>
       pc_depositRaw p = oc_balanceRaw oc \<and> js_BigInt (oc_balanceRaw oc) = Inr deposit \<and> CHANNEL_MIN_DEPOSIT_RAW \<le> deposit)"
proof -
  from reachable_guarded [OF assms, of "CallChan (PgPut key p)"] have
    g: "key = CHANNEL_PREFIX @ pc_contract p" "signed_registration ce p" "on_chain ce p h" "pgChannelProvenanceOk p ce" by auto
  from g(4) have "channelCollector ce = Some (pc_to p)" by (auto simp: pgChannelProvenanceOk_def split: if_splits option.splits)
  moreover from g(3) obtain oc where oc: "EChan (ReadOnChain (pc_contract p) (pc_currency p)) (Inr (AOnChain oc)) \<in> set h"
    "pc_depositRaw p = oc_balanceRaw oc" "checkChannelMatches ce oc
          \<lparr>ex_collector = pc_to p, ex_usdcSac = pc_currency p, ex_funder = pc_agent p, ex_commitmentKeyG = pc_commitmentKey p,
           ex_refundWaitingPeriod = CHANNEL_REFUND_WAITING_PERIOD, ex_minDepositRaw = CHANNEL_MIN_DEPOSIT_RAW,
           ex_wasmHash = pc_wasmHash p\<rparr> = None" unfolding on_chain_def by blast
  from oc(3) have "oc_to oc = pc_to p \<and> oc_token oc = pc_currency p \<and> oc_from oc = pc_agent p \<and> oc_closeEffectiveAt oc = None \<and>
      (\<exists>deposit. js_BigInt (oc_balanceRaw oc) = Inr deposit \<and> CHANNEL_MIN_DEPOSIT_RAW \<le> deposit)"
    by (auto simp: checkChannelMatches_def split: if_splits option.splits sum.splits)
  ultimately show ?thesis using g(1,2) oc(1,2) by blast
qed

theorem registered_as_signed_witness:
  "\<exists>h. CHANNEL_PREFIX @ DEMO_CHANNEL = CHANNEL_PREFIX @ pc_contract demo_channel \<and> signed_registration demo_ce demo_channel \<and>
    channelCollector demo_ce = Some (pc_to demo_channel) \<and>
    (\<exists>oc deposit. EChan (ReadOnChain (pc_contract demo_channel) (pc_currency demo_channel)) (Inr (AOnChain oc)) \<in> set h \<and>
       oc_to oc = pc_to demo_channel \<and> oc_token oc = pc_currency demo_channel \<and> oc_from oc = pc_agent demo_channel \<and>
       oc_closeEffectiveAt oc = None \<and> pc_depositRaw demo_channel = oc_balanceRaw oc \<and>
       js_BigInt (oc_balanceRaw oc) = Inr deposit \<and> CHANNEL_MIN_DEPOSIT_RAW \<le> deposit)"
proof -
  from demo_life obtain s where s: "chan_reachable (chan_handler demo_ce) s"
    "EChan (PgPut (CHANNEL_PREFIX @ DEMO_CHANNEL) demo_channel) (Inr ADone) \<in> set (chist s 0)" by blast
  from split_list [OF s(2)] obtain h1 h where
    "chist s 0 = h1 @ EChan (PgPut (CHANNEL_PREFIX @ DEMO_CHANNEL) demo_channel) (Inr ADone) # h" by blast
  from registered_as_signed [OF s(1) this] show ?thesis by - (rule exI [of _ h])
qed

text \<open>C34: Every value the playground keeps in the store has the shape of its key: a voucher with numbers and a signature, a
  mark, a counter, a write-off, or books whose count and total are those of their entries, one per channel.\<close>

theorem channel_store_typed:
  assumes "chan_reachable (chan_handler ce) s" "pg_key key" "value_at (c_store s) key = Some x"
  shows "val_ok key x"
  using channels.invariant(3) [OF assms(1)] assms(2,3) unfolding chan_typed_def by blast

theorem channel_store_typed_witness: "val_ok (voucherKey DEMO_CHANNEL) (VoucherVal demo_lv)"
proof -
  from demo_stored obtain s where s: "chan_reachable (chan_handler demo_ce) s"
    "value_at (c_store s) (voucherKey DEMO_CHANNEL) = Some (VoucherVal demo_lv)" by blast
  from channel_store_typed [OF s(1) key_kinds(1) s(2)] show ?thesis .
qed

text \<open>\<open>update\<close>, retried against any writes of others, does what one served update of the model's store does at some
  moment during the call, and answers the same.\<close>

theorem channel_update_atomic:
  assumes "\<And>n s. wsteps chan_write s (env n s)" "upd_ok upd key" "kv_update env key (chan_change upd) st = (Inr r, st')"
  shows "\<exists>lin. wsteps chan_write st lin \<and> fst (serve_update key upd lin) = did r \<and>
    wsteps chan_write (snd (serve_update key upd lin)) st'"
proof -
  have w: "chan_write key cur wop" if "chan_change upd cur = Change wop x" for cur wop x
    using that assms(2) unfolding chan_write_def by blast
  have "\<exists>lin. wsteps chan_write st lin \<and> wsteps chan_write lin st' \<and> (case chan_change upd (value_at lin key) of Noop r' \<Rightarrow> r' = r
     | Change wop r' \<Rightarrow> r' = r \<and> st' = apply_write key (version_at lin key) wop lin)"
    by (rule machine_update [OF assms(1,3)]) (rule w)
  then obtain lin where "wsteps chan_write st lin" "wsteps chan_write lin st'"
    "case chan_change upd (value_at lin key) of Noop r' \<Rightarrow> r' = r
     | Change wop r' \<Rightarrow> r' = r \<and> st' = apply_write key (version_at lin key) wop lin" by blast
  then show ?thesis
    by (intro exI [of _ lin]) (auto simp: serve_update_def split: change.splits)
qed

theorem channel_update_atomic_witness:
  "\<exists>r st'. kv_update (\<lambda>_ s. s) (closedKey DEMO_CHANNEL) (chan_change (SetMark 7)) empty_store = (Inr r, st') \<and>
    (\<exists>lin. wsteps chan_write empty_store lin \<and> fst (serve_update (closedKey DEMO_CHANNEL) (SetMark 7) lin) = did r \<and>
      wsteps chan_write (snd (serve_update (closedKey DEMO_CHANNEL) (SetMark 7) lin)) st')"
proof -
  obtain r st' where run: "kv_update (\<lambda>_ s. s) (closedKey DEMO_CHANNEL) (chan_change (SetMark 7)) empty_store = (Inr r, st')"
    by (simp add: kv_update_def handleRead_def handleCommit_def MAX_UPDATE_RETRIES_def eval_nat_numeral Let_def)
  from channel_update_atomic [OF _ _ this] run show ?thesis by simp
qed

subsection \<open>The delivery lock\<close>

text \<open>The updates the protocol allows beside a holder whose lock runs until \<open>until\<close>: others take only a lock that is over.\<close>

fun beside :: "string \<Rightarrow> int \<Rightarrow> chan_upd \<Rightarrow> bool" where
  "beside i until (AcquireLock j now) \<longleftrightarrow> now < until"
| "beside i until (RevalidateLock j now) \<longleftrightarrow> j = i \<longrightarrow> until \<le> now + DELIVERY_LOCK_TTL_MS"
| "beside i until (ReleaseLock j) \<longleftrightarrow> j \<noteq> i"
| "beside i until _ \<longleftrightarrow> False"

definition lock_write :: "string \<Rightarrow> string \<Rightarrow> int \<Rightarrow> string \<Rightarrow> chan_val option \<Rightarrow> chan_val write_op \<Rightarrow> bool" where
  "lock_write c i until key cur wop \<longleftrightarrow>
     chan_write key cur wop \<and> (key = lockKey c \<longrightarrow> (\<exists>upd r. beside i until upd \<and> chan_change upd cur = Change wop r))"

definition held_until :: "string \<Rightarrow> int \<Rightarrow> chan_val option \<Rightarrow> bool" where
  "held_until i until x \<longleftrightarrow> (\<exists>l e. x = Some (LockVal l) \<and> dl_id l = i \<and> dl_expiresAt l = Some e \<and> until \<le> e)"

lemma beside_holds: "held_until i until cur \<Longrightarrow> beside i until upd \<Longrightarrow> chan_change upd cur = Change wop r \<Longrightarrow>
    held_until i until (written wop)"
  by (cases upd) (auto simp: held_until_def acquire_change_def revalidate_change_def release_change_def lock_until_def written_def
      split: if_splits)

text \<open>C33: Until the lock of a holder runs out or the holder releases it, whatever other calls do with theirs, the lock stays
  its own, and no acquisition at an earlier time is granted.\<close>

theorem delivery_lock_exclusive:
  assumes "wsteps (lock_write c i until) st st'" "value_at st (lockKey c) = Some (LockVal l)" "dl_id l = i"
    "dl_expiresAt l = Some until" "now < until"
  shows "(\<exists>l'. value_at st' (lockKey c) = Some (LockVal l') \<and> dl_id l' = i) \<and>
    chan_change (AcquireLock j now) (value_at st' (lockKey c)) = Noop (Inr False)"
proof -
  have "held_until i until (value_at st' (lockKey c))"
  proof (rule wsteps_inv [where I = "held_until i until", OF assms(1)])
    show "held_until i until (value_at st (lockKey c))" using assms(2-4) by (auto simp: held_until_def)
    show "held_until i until (written wop)" if "lock_write c i until (lockKey c) cur wop" "held_until i until cur" for cur wop
      using that beside_holds unfolding lock_write_def by blast
  qed
  with assms(5) show ?thesis by (auto simp: held_until_def acquire_change_def)
qed

theorem delivery_lock_exclusive_witness:
  "\<exists>st. (\<exists>l'. value_at st (lockKey DEMO_CHANNEL) = Some (LockVal l') \<and> dl_id l' = ''lock-1'') \<and>
    chan_change (AcquireLock ''lock-2'' 9) (value_at st (lockKey DEMO_CHANNEL)) = Noop (Inr False)"
proof -
  let ?key = "lockKey DEMO_CHANNEL"
  let ?lock = "\<lambda>e. LockVal \<lparr>dl_id = ''lock-1'', dl_acquiredAt = Some 0, dl_expiresAt = Some e\<rparr>"
  define st where "st = write_now ?key (SetOp (?lock 300000)) empty_store"
  have v: "value_at st ?key = Some (?lock 300000)" by (simp add: st_def value_write_now written_def)
  have "lock_write DEMO_CHANNEL ''lock-1'' 300000 ?key (value_at st ?key) (SetOp (?lock 300005))"
    unfolding lock_write_def
  proof (intro conjI impI exI)
    show "beside ''lock-1'' 300000 (RevalidateLock ''lock-1'' 5)" by (simp add: DELIVERY_LOCK_TTL_MS_def)
    show "chan_change (RevalidateLock ''lock-1'' 5) (value_at st ?key) = Change (SetOp (?lock 300005)) (Inr True)"
      by (simp add: v revalidate_change_def lock_until_def DELIVERY_LOCK_TTL_MS_def)
  qed (simp add: chan_write_def)
  then have "wsteps (lock_write DEMO_CHANNEL ''lock-1'' 300000) st (apply_write ?key (version_at st ?key) (SetOp (?lock 300005)) st)"
    by (intro wsteps_step [OF wsteps_refl] wstep.intros)
  from delivery_lock_exclusive [OF this v, of 9 "''lock-2''"] show ?thesis
    by - (rule exI, simp)
qed

end
