(* ===== verification/ProxyAmounts.thy ===== *)
theory ProxyAmounts
  imports Upstream
begin

text \<open>
  The amounts of the paid proxy (\<open>src/src/routes/proxy.ts\<close>): a fixed price in base units, base units as a decimal
  string, the conversion of a USDC price to XLM, and the tolerance for what an x402 buyer signed
  (\<open>src/src/mpp/stellar-x402-server.ts\<close>).  A JavaScript number is \<open>js_rate\<close>: its text, whether it is a finite positive
  number, and \<open>Math.round(n * 1e9)\<close>, since floating point is not modelled.
\<close>

definition STELLAR_USDC_DECIMALS :: int where "STELLAR_USDC_DECIMALS = 7"
definition TEMPO_DEFAULT_DECIMALS :: int where "TEMPO_DEFAULT_DECIMALS = 6"

definition STELLAR_NATIVE_XLM_SAC :: string where
  "STELLAR_NATIVE_XLM_SAC = ''CAS3J7GYLGXMF6TDJBBYYSE3HQ6BBSMLNUQ34T6TZMYMW2EVH34XOWMA''"

subsection \<open>Fixed prices\<close>

text \<open>\<open>/^\d+(\.\d+)?$/\<close>\<close>

definition unsigned_decimal :: "string \<Rightarrow> bool" where
  "unsigned_decimal s \<longleftrightarrow> DECIMAL_RE s \<and> hd s \<noteq> CHR ''-''"

definition fixedPriceToBaseUnits6 :: "string \<Rightarrow> exn + string" where
  "fixedPriceToBaseUnits6 amountUsd =
     (if \<not> unsigned_decimal amountUsd then Inl (JsExn (''fixedPriceToBaseUnits6: not a decimal string: '' @ amountUsd))
      else
        let parts = split_on (CHR ''.'') amountUsd;
            whole = hd parts;
            fracRaw = (case tl parts of f # _ \<Rightarrow> f | [] \<Rightarrow> []) in
        if length fracRaw > 6
        then Inl (JsExn (''fixedPriceToBaseUnits6: more than 6 fractional digits: '' @ amountUsd))
        else Inr (int_str (int (dec_val whole) * 1000000 + int (dec_val (padEnd 6 (CHR ''0'') fracRaw)))))"

subsection \<open>Base units as a decimal string\<close>

definition plain_decimal :: "string \<Rightarrow> nat \<Rightarrow> string" where
  "plain_decimal digits decimals =
     (let padded = padStart (decimals + 1) (CHR ''0'') digits;
          whole = take (length padded - decimals) padded;
          frac = strip_zeros (drop (length padded - decimals) padded) in
      if frac = [] then whole else whole @ ''.'' @ frac)"

text \<open>The second argument is the value of an integer \<open>decimals\<close>; callers have tested the rest.\<close>

definition baseUnitsToDecimalString :: "string \<Rightarrow> int \<Rightarrow> exn + string" where
  "baseUnitsToDecimalString amount decimals =
     (if \<not> int_re amount then Inl (JsExn (''baseUnitsToDecimalString: amount must be integer string, got '' @ amount))
      else if decimals < 0
      then Inl (JsExn (''baseUnitsToDecimalString: decimals must be non-negative integer, got '' @ int_str decimals))
      else
        let negative = (hd amount = CHR ''-''); digits = (if negative then tl amount else amount);
            sign = (if negative then ''-'' else []) in
        if decimals = 0 then Inr (sign @ digits)
        else Inr (sign @ plain_decimal digits (nat decimals)))"

text \<open>
  \<open>parsed.request.amount\<close> is whatever the challenge holds.  The pattern test turns it into text, but \<open>startsWith\<close> is
  called on the value itself: a number passes the test and then throws.
\<close>

definition amount_decimal :: "json option \<Rightarrow> int \<Rightarrow> exn + string" where
  "amount_decimal amount decimals =
     (case amount of
        Some (JStr s) \<Rightarrow> baseUnitsToDecimalString s decimals
      | _ \<Rightarrow> if int_re (shown amount) then Inl (JsExn ''amount.startsWith is not a function'')
             else baseUnitsToDecimalString (shown amount) decimals)"

text \<open>\<open>BigInt(v)\<close> of a JSON value.\<close>

definition json_BigInt :: "json option \<Rightarrow> int js" where
  "json_BigInt v =
     (case v of
        Some (JStr s) \<Rightarrow> js_BigInt s
      | Some (JNum t) \<Rightarrow> if int_re t then Inr (bigint_of t) else Inl (RangeError ''not an integer'')
      | Some (JBool b) \<Rightarrow> Inr (if b then 1 else 0)
      | Some (JArr xs) \<Rightarrow> js_BigInt (shown v)
      | _ \<Rightarrow> Inl (JsError ''TypeError''))"

subsection \<open>XLM\<close>

record js_rate =
  jr_text :: string
  jr_positive :: bool
  jr_scaled :: int

definition RATE_SCALE :: int where "RATE_SCALE = 1000000000"

text \<open>The part of \<open>convertUsdcToXlm\<close> on integers: the quotient, one more when there is a remainder.\<close>

definition xlm_units :: "int \<Rightarrow> int \<Rightarrow> int" where
  "xlm_units usdcBaseUnits rateScaled =
     (let numerator = usdcBaseUnits * RATE_SCALE; q = bigint_div numerator rateScaled in
      if bigint_mod numerator rateScaled \<noteq> 0 then q + 1 else q)"

definition convertUsdcToXlm :: "string \<Rightarrow> js_rate \<Rightarrow> exn + string" where
  "convertUsdcToXlm usdcAmount rate =
     (if \<not> jr_positive rate
      then Inl (JsExn (''convertUsdcToXlm: rate must be a positive finite number, got '' @ jr_text rate))
      else if \<not> DECIMAL_RE usdcAmount
      then Inl (JsExn (''convertUsdcToXlm: usdcAmount must be a decimal string, got '' @ usdcAmount))
      else
        let negative = (hd usdcAmount = CHR ''-''); unsigned = (if negative then tl usdcAmount else usdcAmount);
            parts = split_on (CHR ''.'') unsigned; intPart = hd parts;
            fracPart = (case tl parts of f # _ \<Rightarrow> f | [] \<Rightarrow> []) in
        if length fracPart > 7
        then Inl (JsExn (''convertUsdcToXlm: usdcAmount has more than 7 fractional digits ('' @ usdcAmount @
               ''); cannot represent losslessly at Stellar precision''))
        else
          let usdcBaseUnits = int (dec_val intPart) * 10000000 + int (dec_val (padEnd 7 (CHR ''0'') fracPart)) in
          if usdcBaseUnits = 0 then Inr ''0''
          else if jr_scaled rate \<le> 0
          then Inl (JsExn (''convertUsdcToXlm: scaled rate underflowed to 0 (rate='' @ jr_text rate @ '')''))
          else case baseUnitsToDecimalString (int_str (xlm_units usdcBaseUnits (jr_scaled rate))) 7 of
            Inl e \<Rightarrow> Inl e
          | Inr result \<Rightarrow> Inr (if negative then ''-'' @ result else result))"

subsection \<open>What an x402 buyer may sign\<close>

definition ABSOLUTE_OVERPAY_TOLERANCE_BASE_UNITS_7DP :: int where
  "ABSOLUTE_OVERPAY_TOLERANCE_BASE_UNITS_7DP = 1000000"

text \<open>None is \<open>ok\<close>, otherwise the reason.\<close>

definition isAmountAcceptable :: "int \<Rightarrow> int \<Rightarrow> string option" where
  "isAmountAcceptable signed merchant =
     (if signed < merchant
      then Some (''underpay: signed '' @ int_str signed @ '' < merchant quote '' @ int_str merchant)
      else if signed = merchant then None
      else
        let overpay = signed - merchant; relativeTolerance = bigint_div merchant 10 in
        if overpay \<le> ABSOLUTE_OVERPAY_TOLERANCE_BASE_UNITS_7DP \<or> overpay \<le> relativeTolerance then None
        else Some (''overpay '' @ int_str overpay @ '' exceeds max(10'' @ [char_of (162 :: nat)] @ ''='' @
               int_str ABSOLUTE_OVERPAY_TOLERANCE_BASE_UNITS_7DP @ '', 10%='' @ int_str relativeTolerance @
               '') of merchant quote '' @ int_str merchant))"

subsection \<open>Properties\<close>

lemma amount_policy:
  "0 \<le> merchant \<Longrightarrow> isAmountAcceptable signed merchant = None \<longleftrightarrow>
     merchant \<le> signed \<and> signed \<le> merchant + max 1000000 (merchant div 10)"
  by (auto simp: isAmountAcceptable_def ABSOLUTE_OVERPAY_TOLERANCE_BASE_UNITS_7DP_def bigint_div_nonneg Let_def)

lemma amount_policy_covers: "isAmountAcceptable signed merchant = None \<Longrightarrow> merchant \<le> signed"
  by (auto simp: isAmountAcceptable_def split: if_splits)

text \<open>The XLM price covers the USDC price, by less than one unit: the ceiling of the quotient.\<close>

lemma xlm_units_ceiling:
  assumes "0 \<le> u" "0 < r"
  shows "u * RATE_SCALE \<le> xlm_units u r * r \<and> (0 < u \<longrightarrow> (xlm_units u r - 1) * r < u * RATE_SCALE)"
proof -
  define n q m where "n = u * RATE_SCALE" and "q = n div r" and "m = n mod r"
  have n: "0 \<le> n" using assms by (simp add: RATE_SCALE_def n_def)
  have e: "n = q * r + m" "0 \<le> m" "m < r" using assms(2) by (simp_all add: q_def m_def)
  have x: "xlm_units u r = (if m \<noteq> 0 then q + 1 else q)"
    using n assms(2) by (simp add: xlm_units_def Let_def bigint_div_nonneg bigint_mod_nonneg n_def q_def m_def)
  show ?thesis unfolding x n_def [symmetric] using e assms(2) by (simp add: left_diff_distrib distrib_right)
qed

text \<open>The decimal text of a number of base units, read back.\<close>

lemma plain_decimal_parts:
  assumes "all_digits digits" "0 < n"
  shows "\<exists>w f. w \<noteq> [] \<and> all_digits w \<and> all_digits f \<and> length f \<le> n \<and>
    plain_decimal digits n = (if f = [] then w else w @ ''.'' @ f) \<and>
    dec_val w * 10 ^ n + dec_val (padEnd n (CHR ''0'') f) = dec_val digits"
proof -
  let ?p = "padStart (n + 1) (CHR ''0'') digits"
  let ?w = "take (length ?p - n) ?p"
  define d where "d = drop (length ?p - n) ?p"
  have len: "length d = n" by (simp add: d_def)
  obtain k where k: "d = strip_zeros d @ replicate k (CHR ''0'')" using strip_zeros_decomp by blast
  then have lk: "length (strip_zeros d) + k = n" using len by (metis length_append length_replicate)
  have p: "?p = ?w @ d" by (simp add: d_def)
  have dg: "all_digits ?w" "all_digits d" using assms(1) p by (metis all_digits_padStart all_digits_simps(3))+
  have f: "all_digits (strip_zeros d)" using dg(2) k by (metis all_digits_simps(3))
  have pad: "padEnd n (CHR ''0'') (strip_zeros d) = d" unfolding padEnd_def using k lk by (metis add_diff_cancel_left')
  have "dec_val ?p = dec_val ?w * 10 ^ n + dec_val d" using p len by (metis dec_val_append)
  moreover have "length ?w \<noteq> 0" by simp
  then have "?w \<noteq> []" by (metis list.size(3))
  ultimately show ?thesis using dg f pad lk by (intro exI [of _ ?w] exI [of _ "strip_zeros d"]) (simp add: plain_decimal_def Let_def d_def)
qed

text \<open>A printed quote is a decimal that reads back as the same number of units, also as a USDC amount on Stellar.\<close>

lemma split_plain:
  assumes "all_digits w" "all_digits f"
  shows "split_on (CHR ''.'') (if f = [] then w else w @ ''.'' @ f) = (if f = [] then [w] else [w, f])"
proof -
  have "CHR ''.'' \<notin> set w" "CHR ''.'' \<notin> set f" using assms by (auto intro: all_digits_no_char simp: is_digit_def dest!: all_digits_no_char [where c = "CHR ''.''"])
  then show ?thesis by (simp add: str_simps)
qed

lemma printed_units:
  assumes "0 < decimals"
  obtains s w f where "baseUnitsToDecimalString (nat_str n) decimals = Inr s" "s = (if f = [] then w else w @ ''.'' @ f)"
    "w \<noteq> []" "all_digits w" "all_digits f" "length f \<le> nat decimals" "hd s \<noteq> CHR ''-''" "DECIMAL_RE s"
    "dec_val w * 10 ^ nat decimals + dec_val (padEnd (nat decimals) (CHR ''0'') f) = n"
proof -
  obtain c r where c: "nat_str n = c # r" "is_digit c" "all_digits r" using nat_str_cases by blast
  then have m: "c \<noteq> CHR ''-''" by (auto simp: is_digit_def)
  have "int_re (nat_str n)" using c m by (simp add: int_re_def)
  then have b: "baseUnitsToDecimalString (nat_str n) decimals = Inr (plain_decimal (nat_str n) (nat decimals))"
    using assms c m by (simp add: baseUnitsToDecimalString_def)
  have "all_digits (nat_str n)" "0 < nat decimals" using assms by (simp_all add: all_digits_nat_str)
  from plain_decimal_parts [OF this] obtain w f where
    wf: "w \<noteq> []" "all_digits w" "all_digits f" "length f \<le> nat decimals"
      "plain_decimal (nat_str n) (nat decimals) = (if f = [] then w else w @ ''.'' @ f)"
      "dec_val w * 10 ^ nat decimals + dec_val (padEnd (nat decimals) (CHR ''0'') f) = n" by auto
  obtain d t where w: "w = d # t" "is_digit d" using wf(1,2) by (cases w) auto
  then have d: "d \<noteq> CHR ''-''" by (auto simp: is_digit_def)
  let ?s = "if f = [] then w else w @ ''.'' @ f"
  have h: "hd ?s \<noteq> CHR ''-''" using w d by simp
  have "(case ?s of x # y \<Rightarrow> if x = CHR ''-'' then y else ?s | [] \<Rightarrow> ?s) = ?s" using w d by simp
  then have "DECIMAL_RE ?s" unfolding DECIMAL_RE_def Let_def using split_plain [OF wf(2,3)] wf(1-3) by simp
  with b wf h show ?thesis by (intro that [of ?s f w]) simp_all
qed

lemma padEnd_7: "length f \<le> 6 \<Longrightarrow> dec_val (padEnd 7 (CHR ''0'') f) = 10 * dec_val (padEnd 6 (CHR ''0'') f)"
proof -
  assume "length f \<le> 6"
  then have "7 - length f = Suc (6 - length f)" by simp
  then have "padEnd 7 (CHR ''0'') f = padEnd 6 (CHR ''0'') f @ ''0''" by (simp add: padEnd_def replicate_append_same)
  then show ?thesis by (simp add: dec_val_append digit_val_def)
qed



end
