(* ===== verification/PayInvoice.thy ===== *)
theory PayInvoice
  imports Upstream
begin

text \<open>
  The body of a pay-invoice call (\<open>src/src/routes/pay-invoice-admin.ts\<close>): which checkout a caller names, by URL or by
  id, under any of the accepted aliases.  \<open>new URL\<close> is an argument: \<open>None\<close> is a throw.
\<close>

record js_url =
  ju_protocol :: string
  ju_hostname :: string
  ju_pathname :: string
  ju_query :: "(string \<times> string) list"
  ju_https :: string \<comment> \<open>\<open>toString()\<close> after the protocol was set to \<open>https:\<close>\<close>

type_synonym url_parser = "string \<Rightarrow> js_url option"

subsection \<open>Providers\<close>

datatype invoice_provider = Coinbase | StripeCrypto

definition COINBASE_HOSTS :: "string list" where "COINBASE_HOSTS = [''payments.coinbase.com'', ''commerce.coinbase.com'']"
definition STRIPE_HOSTS :: "string list" where "STRIPE_HOSTS = [''crypto.stripe.com'']"

definition web_protocol :: "js_url \<Rightarrow> bool" where
  "web_protocol u \<longleftrightarrow> ju_protocol u = ''https:'' \<or> ju_protocol u = ''http:''"

definition detectProvider :: "url_parser \<Rightarrow> string \<Rightarrow> invoice_provider option" where
  "detectProvider url raw =
     (case url raw of
        None \<Rightarrow> None
      | Some u \<Rightarrow>
          if \<not> web_protocol u then None
          else let host = js_lower (ju_hostname u) in
            if host \<in> set STRIPE_HOSTS then Some StripeCrypto
            else if host \<in> set COINBASE_HOSTS then Some Coinbase else None)"

subsection \<open>Identifiers\<close>

definition id_char :: "char \<Rightarrow> bool" where
  "id_char c \<longleftrightarrow> word_char c \<or> c = CHR ''-''"

text \<open>\<open>/^paymentSession_[A-Za-z0-9_-]+$/\<close> and \<open>/^pl_[A-Za-z0-9_-]+$/\<close>\<close>

definition prefixed_id :: "string \<Rightarrow> string \<Rightarrow> bool" where
  "prefixed_id p s \<longleftrightarrow> is_prefix p s \<and> drop (length p) s \<noteq> [] \<and> list_all id_char (drop (length p) s)"

definition COINBASE_SESSION_ID_RE :: "string \<Rightarrow> bool" where "COINBASE_SESSION_ID_RE = prefixed_id ''paymentSession_''"
definition COINBASE_LEGACY_ID_RE :: "string \<Rightarrow> bool" where "COINBASE_LEGACY_ID_RE = prefixed_id ''pl_''"

definition uuid_char :: "char \<Rightarrow> bool" where
  "uuid_char c = (let n = (of_char c :: nat) in 48 \<le> n \<and> n \<le> 57 \<or> 97 \<le> n \<and> n \<le> 102)"

definition BARE_UUID_RE :: "string \<Rightarrow> bool" where
  "BARE_UUID_RE s \<longleftrightarrow>
     (let parts = split_on (CHR ''-'') (js_lower s) in
      map length parts = [8, 4, 4, 4, 12] \<and> list_all (list_all uuid_char) parts)"

definition isCoinbasePaymentSessionId :: "string \<Rightarrow> bool" where
  "isCoinbasePaymentSessionId i \<longleftrightarrow> prefixed_id ''paymentSession_'' i"

text \<open>\<open>pathname.match(/mark([A-Za-z0-9_-]+)/)\<close> where the group begins with \<open>p\<close>: the first place both fit.\<close>

fun path_match :: "string \<Rightarrow> string \<Rightarrow> string \<Rightarrow> string option" where
  "path_match mark p [] = None"
| "path_match mark p (c # s) =
     (let rest = drop (length mark) (c # s); got = takeWhile id_char (drop (length p) rest) in
      if is_prefix mark (c # s) \<and> is_prefix p rest \<and> got \<noteq> [] then Some (p @ got) else path_match mark p s)"

definition extractPaymentLinkId :: "url_parser \<Rightarrow> string \<Rightarrow> string option" where
  "extractPaymentLinkId url raw =
     (case url raw of None \<Rightarrow> None | Some u \<Rightarrow> path_match ''/payment-links/'' ''pl_'' (ju_pathname u))"

definition extractCoinbaseCheckoutId :: "url_parser \<Rightarrow> string \<Rightarrow> string option" where
  "extractCoinbaseCheckoutId url raw =
     (if detectProvider url raw \<noteq> Some Coinbase then None
      else case url raw of
        None \<Rightarrow> None
      | Some u \<Rightarrow>
          (case path_match ''/payment-links/'' ''pl_'' (ju_pathname u) of
             Some i \<Rightarrow> Some i
           | None \<Rightarrow> path_match ''/payment-sessions/'' ''paymentSession_'' (ju_pathname u)))"

definition extractStripeSessionBlob :: "url_parser \<Rightarrow> string \<Rightarrow> string option" where
  "extractStripeSessionBlob url raw =
     (if detectProvider url raw \<noteq> Some StripeCrypto then None
      else case url raw of None \<Rightarrow> None | Some u \<Rightarrow> path_match ''/pay/'' [] (ju_pathname u))"

subsection \<open>The canonical address of a checkout\<close>

definition COINBASE_CHECKOUT_BASE :: string where "COINBASE_CHECKOUT_BASE = ''https://payments.coinbase.com''"

definition session_url :: "string \<Rightarrow> string" where
  "session_url i = COINBASE_CHECKOUT_BASE @ ''/payment-sessions/'' @ i"

definition link_url :: "string \<Rightarrow> string" where
  "link_url i = COINBASE_CHECKOUT_BASE @ ''/payment-links/'' @ i"

definition canonicalCoinbaseCheckoutUrl :: "url_parser \<Rightarrow> string \<Rightarrow> string option" where
  "canonicalCoinbaseCheckoutUrl url raw =
     (let s = js_trim raw in
      if s = [] then None
      else if COINBASE_SESSION_ID_RE s then Some (session_url s)
      else if COINBASE_LEGACY_ID_RE s then Some (link_url s)
      else if is_prefix ''payments.coinbase.com/'' (js_lower s)
      then (case extractCoinbaseCheckoutId url (''https://'' @ s) of
              None \<Rightarrow> None
            | Some i \<Rightarrow> Some (if isCoinbasePaymentSessionId i then session_url i else link_url i))
      else case url s of
        None \<Rightarrow> None
      | Some u \<Rightarrow>
          if \<not> web_protocol u then None
          else if js_lower (ju_hostname u) \<noteq> ''wallet.coinbase.com'' then None
          else if ju_pathname u \<notin> {''/base-pay'', ''/base-pay/''} then None
          else (case filter (\<lambda>(k, v). k = ''paymentSessionId'') (ju_query u) of
                  [(k, v)] \<Rightarrow>
                    (let value = js_trim v in
                     if COINBASE_SESSION_ID_RE value then Some (session_url value)
                     else if BARE_UUID_RE value then Some (session_url (''paymentSession_'' @ js_lower value))
                     else None)
                | _ \<Rightarrow> None))"

definition normalizeInvoiceUrl :: "url_parser \<Rightarrow> string \<Rightarrow> string" where
  "normalizeInvoiceUrl url raw =
     (case canonicalCoinbaseCheckoutUrl url raw of
        Some c \<Rightarrow> c
      | None \<Rightarrow>
          if detectProvider url raw = None then raw
          else case url raw of None \<Rightarrow> raw | Some u \<Rightarrow> if ju_protocol u \<noteq> ''http:'' then raw else ju_https u)"

subsection \<open>The body\<close>

datatype pay_invoice_normalized = ByUrl string | ByPaymentId string

fun normalized_json :: "pay_invoice_normalized \<Rightarrow> json" where
  "normalized_json (ByUrl u) = JObj [(''url'', JStr u)]"
| "normalized_json (ByPaymentId i) = JObj [(''payment_id'', JStr i)]"

record pay_invoice_error =
  pe_message :: string
  pe_hint :: string
  pe_empty_input :: bool
  pe_capabilities :: "string list"

record pay_invoice_result =
  ni_normalized :: "pay_invoice_normalized option"
  ni_raw_url :: string
  ni_raw_id :: string
  ni_link_id :: "string option"
  ni_provider :: "invoice_provider option"
  ni_error :: "pay_invoice_error option"

definition URL_ALIASES :: "string list" where "URL_ALIASES = [''url'', ''payment_link'', ''link'', ''invoice_url'']"
definition ID_ALIASES :: "string list" where "ID_ALIASES = [''payment_id'', ''id'', ''invoice_id'', ''paymentLinkId'']"

text \<open>The first alias that holds a string with something in it.\<close>

fun first_alias :: "json \<Rightarrow> string list \<Rightarrow> string" where
  "first_alias body [] = []"
| "first_alias body (a # as) =
     (case jstring (jfield body a) of
        Some s \<Rightarrow> if js_trim s \<noteq> [] then js_trim s else first_alias body as
      | None \<Rightarrow> first_alias body as)"

definition QUOT :: string where "QUOT = [char_of (34 :: nat)]"

definition not_an_object :: pay_invoice_error where
  "not_an_object =
     \<lparr>pe_message = ''Request body must be a JSON object.'',
      pe_hint = ''Send Content-Type: application/json with a JSON object body.'', pe_empty_input = False,
      pe_capabilities =
        [''POST body: { '' @ QUOT @ ''url'' @ QUOT @ '': '' @ QUOT @ ''<payment_link_url>'' @ QUOT @ '' }'',
         ''POST body: { '' @ QUOT @ ''payment_id'' @ QUOT @ '': '' @ QUOT @ ''<pl_... or paymentSession_...>'' @ QUOT @ '' }'',
         ''Aliases accepted for url: payment_link, link, invoice_url'',
         ''Aliases accepted for payment_id: id, invoice_id, paymentLinkId'']\<rparr>"

definition nothing_named :: pay_invoice_error where
  "nothing_named =
     \<lparr>pe_message = ''Body must contain at least one of: url or payment_id (with accepted aliases).'',
      pe_hint = ''Provide { '' @ QUOT @ ''url'' @ QUOT @ '': '' @ QUOT @ ''<checkout_url>'' @ QUOT @ '' } or { '' @ QUOT @
        ''payment_id'' @ QUOT @ '': '' @ QUOT @ ''<pl_... or paymentSession_...>'' @ QUOT @ '' }.'',
      pe_empty_input = True,
      pe_capabilities =
        [''url aliases: url, payment_link, link, invoice_url'', ''id aliases: payment_id, id, invoice_id, paymentLinkId'',
         ''Coinbase URL families: /payment-links/pl_... and /payment-sessions/paymentSession_...'']\<rparr>"

definition nothing_normalized :: "pay_invoice_error \<Rightarrow> pay_invoice_result" where
  "nothing_normalized e =
     \<lparr>ni_normalized = None, ni_raw_url = [], ni_raw_id = [], ni_link_id = None, ni_provider = None, ni_error = Some e\<rparr>"

definition normalizePayInvoiceBody :: "url_parser \<Rightarrow> json \<Rightarrow> pay_invoice_result" where
  "normalizePayInvoiceBody url input =
     (if \<not> is_object input then nothing_normalized not_an_object
      else
        let given = first_alias input URL_ALIASES;
            rawUrl = (if given = [] then [] else normalizeInvoiceUrl url given);
            rawId = first_alias input ID_ALIASES;
            linkIdDetected = (if rawUrl = [] then None else extractCoinbaseCheckoutId url rawUrl);
            providerDetected = (if rawUrl = [] then None else detectProvider url rawUrl) in
        if rawUrl = [] \<and> rawId = [] then nothing_normalized nothing_named
        else if rawUrl \<noteq> [] \<and> rawId \<noteq> []
        then \<lparr>ni_normalized = Some (ByPaymentId rawId), ni_raw_url = rawUrl, ni_raw_id = rawId,
              ni_link_id = linkIdDetected, ni_provider = providerDetected, ni_error = None\<rparr>
        else if rawUrl \<noteq> []
        then \<lparr>ni_normalized = Some (ByUrl rawUrl), ni_raw_url = rawUrl, ni_raw_id = [], ni_link_id = linkIdDetected,
              ni_provider = providerDetected, ni_error = None\<rparr>
        else \<lparr>ni_normalized = Some (ByPaymentId rawId), ni_raw_url = [], ni_raw_id = rawId, ni_link_id = None,
              ni_provider = None, ni_error = None\<rparr>)"

end
