(* ===== verification/Idempotency.thy ===== *)
theory Idempotency
  imports SessionToken
begin

text \<open>
  The cache keys of the paid proxy (\<open>src/src/mpp/idempotency.ts\<close>): everything that can change a merchant's response is
  folded into one hash, each field with its byte length in front, so that no field can pose as its neighbour.
  SHA-256 is an argument, from a string to the hexadecimal text of its digest.
\<close>

subsection \<open>The keys\<close>

definition lengthPrefixed :: "string \<Rightarrow> string" where
  "lengthPrefixed value = nat_str (length (utf8 value)) @ '':'' @ value"

record idempotency_params =
  ip_requestId :: string
  ip_routeId :: string
  ip_payer :: string
  ip_method :: string
  ip_upstreamPath :: string
  ip_forwardedSearch :: string
  ip_body :: "string option"

definition body_text :: "string option \<Rightarrow> string" where
  "body_text b = (case b of None \<Rightarrow> [] | Some s \<Rightarrow> s)"

definition buildIdempotencyKey :: "(string \<Rightarrow> string) \<Rightarrow> idempotency_params \<Rightarrow> string" where
  "buildIdempotencyKey sha256Hex p =
     (let bodyHash = sha256Hex (body_text (ip_body p));
          material = concat (map lengthPrefixed
            [ip_payer p, ip_routeId p, ip_method p, ip_upstreamPath p, ip_forwardedSearch p, ip_requestId p, bodyHash])
      in ''idempotency:v2:'' @ sha256Hex material)"

record x402_params =
  xp_payloadHash :: string
  xp_routeId :: string
  xp_method :: string
  xp_upstreamPath :: string
  xp_forwardedSearch :: string
  xp_body :: "string option"

definition buildX402ReplayKey :: "(string \<Rightarrow> string) \<Rightarrow> x402_params \<Rightarrow> string" where
  "buildX402ReplayKey sha256Hex p =
     (let bodyHash = sha256Hex (body_text (xp_body p));
          material = concat (map lengthPrefixed
            [xp_payloadHash p, xp_routeId p, xp_method p, xp_upstreamPath p, xp_forwardedSearch p, bodyHash])
      in ''idempotency:x402:'' @ sha256Hex material)"

subsection \<open>What the replay cache may serve\<close>

definition header_word :: "string \<Rightarrow> bool" where
  "header_word s \<longleftrightarrow> s \<noteq> [] \<and> list_all (\<lambda>c. let n = (of_char c :: nat) in 97 \<le> n \<and> n \<le> 122 \<or> n = 45) s"

definition X402_CACHED_HEADER :: "string \<Rightarrow> bool" where
  "X402_CACHED_HEADER name \<longleftrightarrow>
     (let s = js_lower name in
      s = ''content-type'' \<or> s = ''payment-response'' \<or>
      is_prefix ''x-payment-'' s \<and> header_word (drop 10 s) \<or> is_prefix ''x-mpprouter-'' s \<and> header_word (drop 12 s))"

record x402_cached =
  xc_status :: int
  xc_body :: string
  xc_headers :: "(string \<times> string) list"

fun cached_headers :: "(string \<times> json) list \<Rightarrow> (string \<times> string) list option" where
  "cached_headers [] = Some []"
| "cached_headers ((name, val) # rest) =
     (case val of
        JStr s \<Rightarrow>
          if \<not> X402_CACHED_HEADER name then None
          else map_option (\<lambda>hs. (name, s) # hs) (cached_headers rest)
      | _ \<Rightarrow> None)"

definition parseX402CachedResult :: "json option \<Rightarrow> x402_cached option" where
  "parseX402CachedResult value =
     (case value of
        None \<Rightarrow> None
      | Some v \<Rightarrow>
          if \<not> is_object v then None
          else if jfield v ''status'' \<noteq> Some (JNum ''200'') then None
          else case (jstring (jfield v ''body''), jfield v ''headers'') of
            (Some body, Some (JObj hs)) \<Rightarrow>
              map_option (\<lambda>headers. \<lparr>xc_status = 200, xc_body = body, xc_headers = headers\<rparr>) (cached_headers hs)
          | _ \<Rightarrow> None)"

subsection \<open>The encoding is injective\<close>

lemma utf8_append: "utf8 (a @ b) = utf8 a @ utf8 b"
  by (simp add: utf8_def)

lemma utf8_Nil_iff: "utf8 s = [] \<longleftrightarrow> s = []"
  by (cases s) (auto simp: utf8_def Let_def)

text \<open>Two texts of the same encoded length at the front of the same string are the same.\<close>

lemma same_front:
  assumes "v @ r = w @ r'" "length (utf8 v) = length (utf8 w)"
  shows "v = w \<and> r = r'"
proof -
  from assms(1) obtain us where "v = w @ us \<and> us @ r = r' \<or> v @ us = w \<and> r = us @ r'"
    by (auto simp: append_eq_append_conv2)
  with assms(2) show ?thesis by (auto simp: utf8_append utf8_Nil_iff)
qed

lemma digits_front:
  assumes "nat_str n @ CHR '':'' # r = nat_str m @ CHR '':'' # r'"
  shows "n = m \<and> r = r'"
proof -
  have digit: "list_all (\<lambda>c. c \<noteq> CHR '':'') (nat_str k)" for k
    using all_digits_nat_str [of k] by (auto simp: all_digits_def list_all_iff is_digit_def)
  have front: "takeWhile (\<lambda>c. c \<noteq> CHR '':'') (nat_str k @ CHR '':'' # s) = nat_str k"
    "dropWhile (\<lambda>c. c \<noteq> CHR '':'') (nat_str k @ CHR '':'' # s) = CHR '':'' # s" for k s
    using digit [of k] by (simp_all add: list_all_iff takeWhile_append2 dropWhile_append2)
  from arg_cong [OF assms, of "takeWhile (\<lambda>c. c \<noteq> CHR '':'')"] arg_cong [OF assms, of "dropWhile (\<lambda>c. c \<noteq> CHR '':'')"]
  have "nat_str n = nat_str m" "r = r'" by (simp_all only: front list.inject)
  then show ?thesis by simp
qed

lemma lengthPrefixed_front:
  "lengthPrefixed v @ r = lengthPrefixed w @ r' \<Longrightarrow> v = w \<and> r = r'"
  using digits_front [of "length (utf8 v)" "v @ r" "length (utf8 w)" "w @ r'"] same_front [of v r w r']
  by (simp add: lengthPrefixed_def)

lemma prefixed_inject:
  "concat (map lengthPrefixed xs) = concat (map lengthPrefixed ys) \<Longrightarrow> length xs = length ys \<Longrightarrow> xs = ys"
proof (induction xs arbitrary: ys)
  case (Cons x xs)
  then obtain y ys' where "ys = y # ys'" by (cases ys) auto
  with Cons lengthPrefixed_front [of x "concat (map lengthPrefixed xs)" y "concat (map lengthPrefixed ys')"]
  show ?case by auto
qed simp

subsection \<open>Properties\<close>

text \<open>C38: a cached response is only ever found by the request that earned it.  If two requests have the same cache key,
  they agree in payer, route, method, upstream path, query, request id and body, or there is a collision of SHA-256:
  two different texts with the same digest.\<close>

theorem idempotency_key_exact:
  assumes "buildIdempotencyKey sha p = buildIdempotencyKey sha q"
  shows "(ip_payer p = ip_payer q \<and> ip_routeId p = ip_routeId q \<and> ip_method p = ip_method q \<and>
      ip_upstreamPath p = ip_upstreamPath q \<and> ip_forwardedSearch p = ip_forwardedSearch q \<and>
      ip_requestId p = ip_requestId q \<and> body_text (ip_body p) = body_text (ip_body q)) \<or>
    (\<exists>x y. x \<noteq> y \<and> sha x = sha y)"
proof (cases "\<exists>x y. x \<noteq> y \<and> sha x = sha y")
  case False
  then have inj: "sha x = sha y \<longleftrightarrow> x = y" for x y by blast
  let ?fields = "\<lambda>p. [ip_payer p, ip_routeId p, ip_method p, ip_upstreamPath p, ip_forwardedSearch p, ip_requestId p,
    sha (body_text (ip_body p))]"
  have "concat (map lengthPrefixed (?fields p)) = concat (map lengthPrefixed (?fields q))"
    using assms by (simp add: buildIdempotencyKey_def inj)
  from prefixed_inject [OF this] show ?thesis by (simp add: inj)
qed blast

theorem idempotency_key_exact_witness:
  "\<exists>p q. p \<noteq> q \<and> buildIdempotencyKey (\<lambda>s. s) p = buildIdempotencyKey (\<lambda>s. s) q \<and> ip_payer p = ip_payer q"
proof -
  let ?p = "\<lambda>b. \<lparr>ip_requestId = ''r'', ip_routeId = ''groq.chat'', ip_payer = ''G1'', ip_method = ''GET'',
    ip_upstreamPath = ''/v1'', ip_forwardedSearch = [], ip_body = b\<rparr>"
  have key: "buildIdempotencyKey (\<lambda>s. s) (?p None) = buildIdempotencyKey (\<lambda>s. s) (?p (Some []))"
    by (simp add: buildIdempotencyKey_def body_text_def)
  from idempotency_key_exact [OF key] have "ip_payer (?p None) = ip_payer (?p (Some []))" by blast
  with key show ?thesis by (intro exI [of _ "?p None"] exI [of _ "?p (Some [])"]) simp
qed

lemma cached_headers_sound:
  "cached_headers fs = Some hs \<Longrightarrow> list_all (\<lambda>(n, v). X402_CACHED_HEADER n) hs \<and> fs = map (\<lambda>(n, v). (n, JStr v)) hs"
  by (induction fs arbitrary: hs) (auto split: json.splits if_splits)

text \<open>A replayed x402 result is a 200 with exactly the stored headers, each of them on the whitelist; and
  what the branch stores in that form is read back unchanged.\<close>

theorem x402_replay_whitelisted:
  "parseX402CachedResult (Some (JObj [(''status'', JNum ''200''), (''body'', JStr b), (''headers'', JObj fs)])) = r \<longleftrightarrow>
     (case r of
        None \<Rightarrow> \<not> list_all (\<lambda>(n, v). X402_CACHED_HEADER n \<and> (\<exists>s. v = JStr s)) fs
      | Some c \<Rightarrow> xc_status c = 200 \<and> xc_body c = b \<and> x402_cached.more c = () \<and>
          list_all (\<lambda>(n, v). X402_CACHED_HEADER n) (xc_headers c) \<and> fs = map (\<lambda>(n, v). (n, JStr v)) (xc_headers c))"
proof -
  have some: "cached_headers (map (\<lambda>(n, v). (n, JStr v)) hs) = Some hs" if "list_all (\<lambda>(n, v). X402_CACHED_HEADER n) hs" for hs
    using that by (induction hs) auto
  have none: "cached_headers fs = None \<longleftrightarrow> \<not> list_all (\<lambda>(n, v). X402_CACHED_HEADER n \<and> (\<exists>s. v = JStr s)) fs"
    by (induction fs) (auto split: json.splits if_splits)
  show ?thesis
    using none some cached_headers_sound by (cases r) (auto simp: parseX402CachedResult_def)
qed

end
