(* ===== verification/Proxy.thy ===== *)
theory Proxy
  imports Channel ProxyAmounts PayInvoice Idempotency
begin

text \<open>
  The paid proxy (\<open>src/src/routes/proxy.ts\<close>) before any money moves: its environment, a request and a resolved route,
  which credential a request carries, what is forwarded to a merchant, the challenges of a merchant's 402 and the quote
  of an invoice, and the shared readers and writers of the order ledger (\<open>src/src/services/order-ledger.ts\<close>).
\<close>

subsection \<open>Environment, route and request\<close>

text \<open>
  \<open>env\<close>, and what comes from outside: JSON, \<open>new URL\<close>, base64, the challenge format of mppx, the payload schema of x402,
  the transactions of the Stellar SDK, \<open>toFixed\<close> and \<open>toString(36)\<close>.  \<open>None\<close> is a throw.
\<close>

record tempo_challenge =
  tq_id :: string
  tq_realm :: string
  tq_intent :: string
  tq_request :: json
  tq_expires :: "string option"

text \<open>A transaction: its source, and per operation the function and arguments, if it invokes a contract.\<close>

record stellar_tx =
  tx_source :: string
  tx_invocations :: "(string \<times> string list) option list"

record xenv =
  xe_chan :: cenv
  xe_x402_enabled :: "string option"
  xe_pay_to :: "string option"
  xe_router_public :: string
  xe_admin_secret :: "string option"
  xe_xlm_var :: string
  xe_xlm_rate :: js_rate
  xe_gate :: "string \<Rightarrow> string option"
  xe_alerts :: bool
  xe_stats :: bool
  xe_hosted_host :: "string \<Rightarrow> bool"
  xe_parse :: "string \<Rightarrow> json option"
  xe_url :: url_parser
  xe_atob :: "string \<Rightarrow> string option"
  xe_btoa :: "string \<Rightarrow> string"
  xe_challenges :: "string \<Rightarrow> tempo_challenge list option"
  xe_schema :: "json \<Rightarrow> (int \<times> x402_payment) option"
  xe_tx :: "string \<Rightarrow> string \<Rightarrow> stellar_tx option"
  xe_is_key :: "string \<Rightarrow> bool"
  xe_is_contract :: "string \<Rightarrow> bool"
  xe_usdc :: "string \<Rightarrow> string"
  xe_fixed :: "int \<Rightarrow> int \<Rightarrow> string"
  xe_base36 :: "int \<Rightarrow> string"

definition xe_penv :: "xenv \<Rightarrow> penv" where "xe_penv xe = ce_env (xe_chan xe)"
definition xe_network :: "xenv \<Rightarrow> string" where "xe_network xe = ce_network (xe_chan xe)"

definition sha_hex :: "xenv \<Rightarrow> string \<Rightarrow> string" where
  "sha_hex xe s = bytes_hex (ce_sha256 (xe_chan xe) (utf8 s))"

record payout =
  po_network :: string
  po_payTo :: string
  po_asset :: string

record route_operator =
  op_id :: string
  op_payouts :: "payout list"

record proxy_route =
  xo_route :: proute
  xo_operation :: string
  xo_operator :: "route_operator option"
  xo_hosted :: bool
  xo_fixedUsd :: "string option"
  xo_launchGate :: "string option"
  xo_blocked :: bool

record proxy_request =
  xr_method :: string
  xr_url :: string
  xr_origin :: string
  xr_hostname :: string
  xr_path :: string
  xr_query :: "(string \<times> string) list"
  xr_headers :: "(string \<times> string) list"
  xr_body :: string

definition route_id :: "proxy_route \<Rightarrow> string" where "route_id r = pr_id (xo_route r)"

text \<open>\<open>operator?.payouts.find(p => p.network.startsWith('stellar:'))?.payTo\<close>\<close>

definition stellar_payout :: "route_operator \<Rightarrow> string option" where
  "stellar_payout o' = map_option po_payTo (find (\<lambda>p. is_prefix ''stellar:'' (po_network p)) (op_payouts o'))"

definition expected_payTo :: "proxy_route \<Rightarrow> string option" where
  "expected_payTo r = (case xo_operator r of None \<Rightarrow> None | Some o' \<Rightarrow> stellar_payout o')"

definition json_with :: "int \<Rightarrow> (string \<times> string) list \<Rightarrow> (string \<times> json) list \<Rightarrow> response" where
  "json_with status headers body = \<lparr>rs_status = status, rs_headers = JSON_HEADERS @ headers, rs_body = JObj body\<rparr>"

definition of_fetch :: "http_text \<Rightarrow> response" where
  "of_fetch t = \<lparr>rs_status = ht_status t, rs_headers = ht_headers t, rs_body = JStr (case ht_text t of Some s \<Rightarrow> s | None \<Rightarrow> [])\<rparr>"

subsection \<open>Calls\<close>

definition await :: "proxy_req \<Rightarrow> (proxy_ans \<Rightarrow> 'a prog) \<Rightarrow> 'a prog" where
  "await r k = Chan (Proxy r) (\<lambda>a. bind (from_outside a) (\<lambda>x. case x of AProxy y \<Rightarrow> k y | _ \<Rightarrow> unexpected))"

definition await_unit :: "proxy_req \<Rightarrow> unit prog" where
  "await_unit r = await r (\<lambda>_. Done ())"

text \<open>\<open>ctx.waitUntil\<close>, and a \<open>catch\<close> that only logs: the outcome does not matter.\<close>

definition ignoring :: "'a prog \<Rightarrow> unit prog" where
  "ignoring p = bind (attempt p) (\<lambda>_. Done ())"

definition fetch_text :: "fetch_call \<Rightarrow> http_text prog" where
  "fetch_text f = await (Fetch f) (\<lambda>y. case y of AFetched t \<Rightarrow> Done t | _ \<Rightarrow> unexpected)"

definition body_of :: "http_text \<Rightarrow> string prog" where
  "body_of t = (case ht_text t of Some s \<Rightarrow> Done s | None \<Rightarrow> Throw (JsExn ''body could not be read''))"

definition ht_ok :: "http_text \<Rightarrow> bool" where
  "ht_ok t \<longleftrightarrow> 200 \<le> ht_status t \<and> ht_status t \<le> 299"

text \<open>\<open>headers.get('content-type') || 'application/json'\<close>\<close>

definition content_type :: "(string \<times> string) list \<Rightarrow> string" where
  "content_type hs = (case header_of hs ''content-type'' of Some t \<Rightarrow> if t = [] then ''application/json'' else t | None \<Rightarrow> ''application/json'')"

text \<open>The body of a merchant's answer, and its content type.\<close>

definition read_body :: "int \<Rightarrow> (string \<times> string) prog" where
  "read_body status = await (ReadBody status) (\<lambda>y. case y of
       ABody (Some s) t \<Rightarrow> Done (s, if t = [] then ''application/json'' else t)
     | ABody None _ \<Rightarrow> Throw (JsExn ''body could not be read'')
     | _ \<Rightarrow> unexpected)"

definition kv_text :: "string \<Rightarrow> string option prog" where
  "kv_text key = await (KvTextGet key) (\<lambda>y. case y of AText t \<Rightarrow> Done (case t of Some [] \<Rightarrow> None | _ \<Rightarrow> t) | _ \<Rightarrow> unexpected)"

definition enqueue :: "enqueue_input \<Rightarrow> refund_record prog" where
  "enqueue i = await (EnqueueRefund i) (\<lambda>y. case y of ARefund r \<Rightarrow> Done r | _ \<Rightarrow> unexpected)"

definition checkoutDeliveryPaused :: "bool prog" where
  "checkoutDeliveryPaused = await CheckoutPaused (\<lambda>y. case y of AFlag b \<Rightarrow> Done b | _ \<Rightarrow> unexpected)"

definition checkoutPausedResponse :: response where
  "checkoutPausedResponse =
     json_with 503 [(''Retry-After'', ''300'')]
       [(''error'', JStr ''CHECKOUT_PAUSED''),
        (''message'', JStr ''Checkout delivery is temporarily paused. Nothing was charged or paid; try again later.''),
        (''retryable'', JBool True)]"

subsection \<open>What is forwarded\<close>

definition sanitizeUpstreamErrorDetail :: "bool \<Rightarrow> string \<Rightarrow> string" where
  "sanitizeUpstreamErrorDetail hasUpstreamAuth body =
     (if hasUpstreamAuth then ''Upstream returned an error. Detail withheld for router-held-credential routes.''
      else take 500 body)"

definition forwardHeaders :: "proxy_request \<Rightarrow> bool \<Rightarrow> (string \<times> string) list" where
  "forwardHeaders rq keepAuthorization =
     filter (\<lambda>(key, value). let lower = js_lower key in
       lower \<noteq> ''host'' \<and> (lower \<noteq> ''authorization'' \<or> keepAuthorization) \<and> lower \<noteq> ''accept-payment'') (xr_headers rq)"

definition inject_auth :: "(string \<times> string) list \<Rightarrow> proxy_route \<Rightarrow> xenv \<Rightarrow> (string \<times> string) list" where
  "inject_auth headers route xe =
     (case pr_auth (xo_route route) of
        None \<Rightarrow> headers
      | Some (binding, h, bearer) \<Rightarrow>
          (case pe_secrets (xe_penv xe) binding of
             None \<Rightarrow> headers
           | Some token \<Rightarrow>
               if token = [] then headers else set_header h (if bearer then ''Bearer '' @ token else token) headers))"

definition buildMerchantUrl :: "string \<Rightarrow> string \<Rightarrow> string \<Rightarrow> string" where
  "buildMerchantUrl merchantHost upstreamPath search = ''https://'' @ merchantHost @ upstreamPath @ search"

text \<open>The forwarded query: without what filled a placeholder, and without the router's own parameters.\<close>

definition forwarded_search :: "xenv \<Rightarrow> (string \<times> string) list \<Rightarrow> string list \<Rightarrow> string" where
  "forwarded_search xe query taken =
     (let s = pe_query (xe_penv xe) (filter (\<lambda>(k, v). k \<notin> set taken \<and> k \<notin> {''payment'', ''agent''}) query) in
      if s = [] then [] else ''?'' @ s)"

definition request_body :: "proxy_request \<Rightarrow> string option" where
  "request_body rq = (if xr_method rq = ''GET'' \<or> xr_method rq = ''HEAD'' then None else Some (xr_body rq))"

subsection \<open>x402 credentials\<close>

definition parseStellarX402Header :: "xenv \<Rightarrow> string \<Rightarrow> x402_payment option" where
  "parseStellarX402Header xe authHeader =
     (let trimmed = js_trim authHeader; encoded = js_trim (drop 7 trimmed) in
      if \<not> payment_scheme trimmed \<or> encoded = [] then None
      else case xe_atob xe encoded of
        None \<Rightarrow> None
      | Some decoded \<Rightarrow>
          (case xe_parse xe decoded of
             None \<Rightarrow> None
           | Some parsed \<Rightarrow>
               (case xe_schema xe parsed of
                  None \<Rightarrow> None
                | Some (version, payload) \<Rightarrow> if version = 2 then Some payload else None)))"

definition payTo_for :: "xenv \<Rightarrow> string option \<Rightarrow> string option" where
  "payTo_for xe expected =
     (let p = (case expected of Some e \<Rightarrow> Some e | None \<Rightarrow> xe_pay_to xe) in if p = Some [] then None else p)"

definition isStellarX402ForThisRouter :: "string \<Rightarrow> xenv \<Rightarrow> string option \<Rightarrow> bool" where
  "isStellarX402ForThisRouter authHeader xe expectedPayTo =
     (if xe_x402_enabled xe \<noteq> Some ''true'' then False
      else case payTo_for xe expectedPayTo of
        None \<Rightarrow> False
      | Some payTo \<Rightarrow>
          (case parseStellarX402Header xe authHeader of
             None \<Rightarrow> False
           | Some payload \<Rightarrow> xp_scheme payload = ''exact'' \<and> xp_network payload = xe_network xe \<and> xp_payTo payload = payTo))"

subsection \<open>Which credential\<close>

datatype auth_kind = StellarChargeAuth | StellarChannelAuth | StellarX402Auth | PassthroughAuth | NoAuth

definition classifyAuth :: "string option \<Rightarrow> xenv \<Rightarrow> string option \<Rightarrow> auth_kind" where
  "classifyAuth authHeader xe expectedX402PayTo =
     (case authHeader of
        None \<Rightarrow> NoAuth
      | Some auth \<Rightarrow>
          if auth = [] then NoAuth
          else
            let trimmed = js_trim auth;
                other = (if isStellarX402ForThisRouter trimmed xe expectedX402PayTo then StellarX402Auth else PassthroughAuth) in
            if \<not> payment_scheme trimmed then PassthroughAuth
            else case ce_credential (xe_chan xe) trimmed of
              None \<Rightarrow> other
            | Some credential \<Rightarrow>
                (let challenge = jfield credential ''challenge'' in
                 if map_option js_lower (jstring (optional challenge ''method'')) = Some ''stellar''
                 then (case optional challenge ''intent'' of
                         None \<Rightarrow> StellarChargeAuth
                       | Some JNull \<Rightarrow> StellarChargeAuth
                       | Some (JStr intent) \<Rightarrow> if js_lower intent = ''channel'' then StellarChannelAuth else StellarChargeAuth
                       | Some _ \<Rightarrow> other)
                 else other))"

text \<open>The credential header: \<open>Authorization\<close>, or the one of x402 v2 under the same scheme.\<close>

definition auth_header :: "proxy_request \<Rightarrow> string option" where
  "auth_header rq =
     (case header_of (xr_headers rq) ''authorization'' of
        Some (c # s) \<Rightarrow> Some (c # s)
      | _ \<Rightarrow>
          (case header_of (xr_headers rq) ''payment-signature'' of
             Some (c # s) \<Rightarrow> Some (''Payment '' @ js_trim (c # s))
           | _ \<Rightarrow> None))"

definition agent_hint :: "proxy_request \<Rightarrow> string option" where
  "agent_hint rq = map_of (xr_query rq) ''agent''"

definition auth_kind_of :: "xenv \<Rightarrow> proxy_request \<Rightarrow> proxy_route \<Rightarrow> auth_kind" where
  "auth_kind_of xe rq route =
     (let raw = classifyAuth (auth_header rq) xe (expected_payTo route) in
      if raw = NoAuth \<and> map_option js_lower (map_of (xr_query rq) ''payment'') = Some ''channel'' \<and>
         agent_hint rq \<notin> {None, Some []}
      then StellarChannelAuth else raw)"

definition extractStellarAddress :: "xenv \<Rightarrow> string option \<Rightarrow> string option" where
  "extractStellarAddress xe authHeader =
     (case authHeader of
        None \<Rightarrow> None
      | Some auth \<Rightarrow>
          let trimmed = js_trim auth in
          if \<not> payment_scheme trimmed then None
          else case ce_credential (xe_chan xe) trimmed of
            None \<Rightarrow> None
          | Some credential \<Rightarrow>
              (if map_option js_lower (jstring (optional (jfield credential ''challenge'') ''method'')) \<noteq> Some ''stellar'' then None
               else case jstring (jfield credential ''source'') of None \<Rightarrow> None | Some source \<Rightarrow> did_account source))"

subsection \<open>The merchant's 402\<close>

text \<open>\<open>/name="([^"]+)"/\<close>, the first place it matches.\<close>

fun attr_match :: "string \<Rightarrow> string \<Rightarrow> string option" where
  "attr_match mark [] = None"
| "attr_match mark (c # s) =
     (let rest = drop (length mark) (c # s); got = takeWhile (\<lambda>x. x \<noteq> char_of (34 :: nat)) rest in
      if is_prefix mark (c # s) \<and> got \<noteq> [] \<and> drop (length got) rest \<noteq> [] then Some got else attr_match mark s)"

definition base64url_plain :: "string \<Rightarrow> string" where
  "base64url_plain = map (\<lambda>c. if c = CHR ''-'' then CHR ''+'' else if c = CHR ''_'' then CHR ''/'' else c)"

definition parseTempoChallenge :: "xenv \<Rightarrow> string \<Rightarrow> tempo_challenge option" where
  "parseTempoChallenge xe wwwAuth =
     (let attr = (\<lambda>name. attr_match (name @ ''='' @ QUOT) wwwAuth) in
      case (attr ''id'', attr ''request'') of
        (Some i, Some encoded) \<Rightarrow>
          (case xe_atob xe (base64url_plain encoded) of
             None \<Rightarrow> None
           | Some requestJson \<Rightarrow>
               (case xe_parse xe requestJson of
                  None \<Rightarrow> None
                | Some req \<Rightarrow>
                    Some \<lparr>tq_id = i, tq_realm = (case attr ''realm'' of Some r \<Rightarrow> r | None \<Rightarrow> []),
                          tq_intent = (case attr ''intent'' of Some t \<Rightarrow> t | None \<Rightarrow> ''charge''),
                          tq_request = req, tq_expires = attr ''expires''\<rparr>))
      | _ \<Rightarrow> None)"

definition tq_amount :: "tempo_challenge \<Rightarrow> json option" where "tq_amount p = jfield (tq_request p) ''amount''"

definition tq_session :: "tempo_challenge \<Rightarrow> bool" where "tq_session p \<longleftrightarrow> js_lower (tq_intent p) = ''session''"

text \<open>\<open>selectSessionChallenge\<close> (\<open>src/src/mpp/tempo-challenges.ts\<close>): the first session offer our channel can pay.\<close>

definition TOKEN_SYMBOLS :: "(string \<times> string) list" where
  "TOKEN_SYMBOLS =
     [(''0x20c000000000000000000000b9537d11c60e8b50'', ''USDC.e''), (''0x20c0000000000000000000006a37da5c996874be'', ''OUSD'')]"

definition tokenSymbol :: "string \<Rightarrow> string" where
  "tokenSymbol currency =
     (if currency = [] then ''USDC.e''
      else case map_of TOKEN_SYMBOLS (js_lower currency) of
        Some known \<Rightarrow> known
      | None \<Rightarrow> take 6 currency @ ''...'' @ drop (length currency - 4) currency)"

definition selectSessionChallenge :: "xenv \<Rightarrow> tempo_challenge list \<Rightarrow> tempo_channel \<Rightarrow> (string \<times> string list) + tempo_challenge" where
  "selectSessionChallenge xe challenges channel =
     (let sessions = filter tq_session challenges;
          offered = map (\<lambda>c. tokenSymbol (case coalesce (jfield (tq_request c) ''currency'') (Some (JStr [])) of v \<Rightarrow> shown v)) sessions in
      if sessions = [] then Inl (''no_session_challenge'', offered)
      else case find (\<lambda>c. sessionChallengeMismatch (xe_penv xe) (Some (tq_request c)) channel = None) sessions of
        None \<Rightarrow> Inl (''no_matching_challenge'', offered)
      | Some match \<Rightarrow> Inr match)"

subsection \<open>Invoices\<close>

definition isRozoPayInvoiceRoute :: "proxy_route \<Rightarrow> bool" where
  "isRozoPayInvoiceRoute route \<longleftrightarrow>
     pr_service (xo_route route) = ''rozo-agent-api'' \<and> xo_operation route = ''pay-invoice'' \<and>
     pr_host (xo_route route) = ''agentapi.rozo.ai'' \<and> pr_path (xo_route route) = ''/pay-invoice''"

definition digits_field :: "json option \<Rightarrow> string option" where
  "digits_field v = (if truthy v \<and> digits_re (shown v) then Some (shown v) else None)"

text \<open>\<open>parsed.accepts?.[0]?.maxAmountRequired\<close>\<close>

definition parseX402AmountFromBody :: "xenv \<Rightarrow> string \<Rightarrow> string option" where
  "parseX402AmountFromBody xe bodyText =
     (case xe_parse xe bodyText of
        None \<Rightarrow> None
      | Some parsed \<Rightarrow>
          (case jfield parsed ''accepts'' of
             Some (JArr (a # as)) \<Rightarrow> digits_field (jfield a ''maxAmountRequired'')
           | _ \<Rightarrow> None))"

definition QUOTE_URL :: string where "QUOTE_URL = ''https://agentapi.rozo.ai/quote-invoice''"

definition quoteInvoiceAmountBaseUnits :: "xenv \<Rightarrow> string option \<Rightarrow> string option prog" where
  "quoteInvoiceAmountBaseUnits xe requestBody =
     (case (requestBody, xe_admin_secret xe) of
        (Some (c # s), Some (d # secret)) \<Rightarrow>
          (case xe_parse xe (c # s) of
             None \<Rightarrow> Done None
           | Some parsedBody \<Rightarrow>
               (case ni_normalized (normalizePayInvoiceBody (xe_url xe) parsedBody) of
                  None \<Rightarrow> Done None
                | Some normalized \<Rightarrow>
                    bind (attempt (bind (fetch_text
                        \<lparr>fc_method = ''POST'', fc_url = QUOTE_URL,
                         fc_headers = [(''content-type'', ''application/json''), (''x-admin-secret'', d # secret)],
                         fc_body = Some (stringify (normalized_json normalized))\<rparr>) (\<lambda>resp.
                      if \<not> ht_ok resp then Done None
                      else bind (body_of resp) (\<lambda>text.
                        Done (case xe_parse xe text of
                          None \<Rightarrow> None
                        | Some quote \<Rightarrow> digits_field (optional (jfield quote ''quote'') ''callerPaysAtomicUsdc'')))))) (\<lambda>r.
                    Done (case r of Inl _ \<Rightarrow> None | Inr atomic \<Rightarrow> atomic))))
      | _ \<Rightarrow> Done None)"

subsection \<open>The order ledger\<close>

definition orderKey :: "string \<Rightarrow> string" where "orderKey orderId = ''mercury_order:'' @ orderId"
definition txIndexKey :: "string \<Rightarrow> string" where "txIndexKey tx = ''mercury_order_tx:'' @ js_lower tx"

definition newOrderId :: "xenv \<Rightarrow> string prog" where
  "newOrderId xe = bind date_now (\<lambda>t. bind uuid (\<lambda>r. Done (''ord_'' @ xe_base36 xe t @ ''_'' @ r)))"

definition isUpstreamOkEntry :: "order_entry \<Rightarrow> bool" where
  "isUpstreamOkEntry e \<longleftrightarrow> 200 \<le> oe_upstream e \<and> oe_upstream e < 300 \<and> oe_refund e = RefundNone"

definition isSettledEntry :: "order_entry \<Rightarrow> bool" where
  "isSettledEntry e \<longleftrightarrow> (case oe_settlement e of Some s \<Rightarrow> s = SettleDone | None \<Rightarrow> oe_ref e \<notin> {None, Some []})"

text \<open>\<open>orderStatsRow\<close> is null for a settlement still pending; a failed write is only logged.\<close>

definition recordOrderStats :: "xenv \<Rightarrow> order_entry \<Rightarrow> unit prog" where
  "recordOrderStats xe e =
     (if \<not> xe_stats xe \<or> oe_settlement e = Some SettlePending then Done () else ignoring (await_unit (RecordStats e)))"

definition recordOrder :: "xenv \<Rightarrow> order_entry \<Rightarrow> bool prog" where
  "recordOrder xe e =
     bind (attempt (
       bind (await_unit (OrderPut (orderKey (oe_id e)) e)) (\<lambda>_.
       bind (case oe_ref e of Some (c # s) \<Rightarrow> await_unit (TxIndexPut (txIndexKey (c # s)) (oe_id e)) | _ \<Rightarrow> Done ()) (\<lambda>_.
       recordOrderStats xe e)))) (\<lambda>r. Done (case r of Inr _ \<Rightarrow> True | Inl _ \<Rightarrow> False))"

definition updateOrderRefundStatus :: "xenv \<Rightarrow> string \<Rightarrow> refund_mark \<Rightarrow> bool prog" where
  "updateOrderRefundStatus xe orderId refundStatus =
     bind (attempt (
       await (OrderGet (orderKey orderId)) (\<lambda>y. case y of
         AOrder None \<Rightarrow> Done False
       | AOrder (Some e) \<Rightarrow>
           if oe_refund e = refundStatus then Done True
           else let next = e\<lparr>oe_refund := refundStatus\<rparr> in
             bind (await_unit (OrderPut (orderKey orderId) next)) (\<lambda>_. bind (recordOrderStats xe next) (\<lambda>_. Done True))
       | _ \<Rightarrow> unexpected))) (\<lambda>r. Done (case r of Inr b \<Rightarrow> b | Inl _ \<Rightarrow> False))"

end
