(* ===== verification/ProxyPay.thy ===== *)
theory ProxyPay
  imports Proxy
begin

text \<open>
  The merchant side of the paid proxy: \<open>payMerchantAndGetBody\<close> (\<open>src/src/routes/proxy.ts\<close>) reaches a merchant in one of
  four ways and reports an answer or a failure, and \<open>handleAsyncJob\<close> binds a job that is still running to its payer.
  With it the metrics of a call (\<open>src/src/services/route-metrics.ts\<close>) and the shape of some merchants' answers
  (\<open>src/src/routes/merchant-envelope.ts\<close>).  Latencies are not modelled.
\<close>

subsection \<open>What a call to a merchant comes to\<close>

text \<open>A body, its content type and status; or a response, the reason for a refund, the merchant's status, our own fault.\<close>

datatype merchant_pay =
  PayOk string string int
| PayError response "refund_reason option" "int option" bool

fun reason_text :: "refund_reason \<Rightarrow> string" where
  "reason_text Timeout = ''timeout''"
| "reason_text Upstream5xx = ''upstream_5xx''"
| "reason_text NonFulfillment = ''non_fulfillment''"
| "reason_text EmptyResponse = ''empty_response''"

definition status_reason :: "int \<Rightarrow> refund_reason" where
  "status_reason status = (if status \<ge> 500 then Upstream5xx else NonFulfillment)"

subsection \<open>Jobs that are still running\<close>

definition PENDING_JOB_STATUSES :: "string list" where
  "PENDING_JOB_STATUSES = [''queued'', ''pending'', ''running'', ''processing'', ''in_progress'', ''in-progress'']"

definition isAsyncJobResponse :: "xenv \<Rightarrow> int \<Rightarrow> string \<Rightarrow> bool \<times> json option" where
  "isAsyncJobResponse xe merchantStatus body =
     (let parsed = xe_parse xe body;
          jobId = coalesce (optional parsed ''jobId'') (coalesce (optional parsed ''job_id'') (optional parsed ''id''));
          pending = (case jstring (optional parsed ''status'') of
                       Some s \<Rightarrow> js_lower s \<in> set PENDING_JOB_STATUSES | None \<Rightarrow> False) in
      (merchantStatus = 202 \<or> merchantStatus = 200 \<and> truthy jobId \<and> pending, jobId))"

subsection \<open>Metrics\<close>

definition classifyOutcome :: "int option \<Rightarrow> bool \<Rightarrow> bool \<Rightarrow> bool \<Rightarrow> bool \<Rightarrow> call_outcome" where
  "classifyOutcome upstreamStatus routerHoldsCredential routerSideFailure deliveryFailed asyncAccepted =
     (if routerSideFailure then RouterFault
      else case upstreamStatus of
        None \<Rightarrow> ProviderFault
      | Some s \<Rightarrow>
          if 200 \<le> s \<and> s < 300
          then (if deliveryFailed then ProviderFault else if asyncAccepted \<or> s = 202 then CallPending else CallOk)
          else if s = 401 \<or> s = 403 then (if routerHoldsCredential then RouterFault else ProviderFault)
          else if s = 408 \<or> s = 429 then ProviderFault
          else if s = 402 then (if routerHoldsCredential then RouterFault else ProviderFault)
          else if 400 \<le> s \<and> s < 500 then CallerError
          else ProviderFault)"

definition asyncCallId :: "string \<Rightarrow> string \<Rightarrow> string" where
  "asyncCallId routeId jobId = ''job:'' @ routeId @ '':'' @ jobId"

definition recordRouteFailure :: "string \<Rightarrow> string \<Rightarrow> unit prog" where
  "recordRouteFailure routeId reason = ignoring (await_unit (RouteHealth routeId (Some reason)))"

definition recordRouteSuccess :: "string \<Rightarrow> unit prog" where
  "recordRouteSuccess routeId = ignoring (await_unit (RouteHealth routeId None))"

definition recordRouteCall :: "xenv \<Rightarrow> route_call \<Rightarrow> unit prog" where
  "recordRouteCall xe metric = (if \<not> xe_stats xe then Done () else ignoring (await_unit (RouteCall metric)))"

subsection \<open>merchant-envelope.ts\<close>

text \<open>\<open>/^\s*application\/json\b/i\<close>\<close>

definition json_type :: "string \<Rightarrow> bool" where
  "json_type contentType =
     (let t = dropWhile is_space (js_lower contentType); rest = drop (length ''application/json'') t in
      is_prefix ''application/json'' t \<and> (rest = [] \<or> \<not> word_char (hd rest)))"

definition presentMerchantEnvelope :: "xenv \<Rightarrow> string \<Rightarrow> string \<Rightarrow> string" where
  "presentMerchantEnvelope xe body contentType =
     (if \<not> json_type contentType then body
      else case xe_parse xe body of
        Some (JObj fs) \<Rightarrow>
          (case (map_of fs ''success'', map_of fs ''data'') of
             (Some (JBool True), Some (JObj data)) \<Rightarrow>
               if length fs = 2
               then stringify (JObj (AList.update ''data'' (JObj data) (AList.update ''success'' (JBool True) data)))
               else body
           | _ \<Rightarrow> body)
      | _ \<Rightarrow> body)"

definition isEnvelopeLiftedRoute :: "string \<Rightarrow> bool" where
  "isEnvelopeLiftedRoute routeId \<longleftrightarrow> routeId \<in> {''groq_chat'', ''deepseek_chat''}"

subsection \<open>Ways to reach a merchant\<close>

text \<open>A hosted origin, which is presented its own stored credential, or a secret of the router.\<close>

definition hosted_headers :: "string \<Rightarrow> (string \<times> string) list option prog" where
  "hosted_headers providerId = await (HostedHeaders providerId) (\<lambda>y. case y of AHeaders h \<Rightarrow> Done h | _ \<Rightarrow> unexpected)"

definition origin_headers :: "xenv \<Rightarrow> proxy_route \<Rightarrow> route_operator \<Rightarrow> proxy_request \<Rightarrow> (string \<times> string) list option prog" where
  "origin_headers xe route operator rq =
     (if xo_hosted route \<and> pr_auth (xo_route route) \<noteq> None then Done (Some (inject_auth (forwardHeaders rq False) route xe))
      else if xo_hosted route then hosted_headers (op_id operator)
      else Done (Some (forwardHeaders rq False)))"

definition pay_operator ::
    "xenv \<Rightarrow> proxy_route \<Rightarrow> route_operator \<Rightarrow> string \<Rightarrow> proxy_request \<Rightarrow> string option \<Rightarrow> merchant_pay prog" where
  "pay_operator xe route operator merchantUrl rq body =
     bind (origin_headers xe route operator rq) (\<lambda>hs.
       case hs of
         None \<Rightarrow> Done (PayError (json_with 503 []
           [(''error'', JStr ''Hosted route misconfigured''), (''provider'', JStr (op_id operator)),
            (''detail'', JStr ''The origin credential for this hosted route could not be loaded. Nothing was charged.'')])
           (Some Timeout) None True)
       | Some headers \<Rightarrow>
           bind (attempt (fetch_text \<lparr>fc_method = xr_method rq, fc_url = merchantUrl, fc_headers = headers, fc_body = body\<rparr>)) (\<lambda>r.
             case r of
               Inl e \<Rightarrow> Done (PayError (json_with 502 []
                 [(''error'', JStr ''Provider endpoint unreachable''), (''provider'', JStr (op_id operator)),
                  (''detail'', JStr (exn_message e))]) (Some Timeout) None False)
             | Inr reply \<Rightarrow>
                 if 300 \<le> ht_status reply \<and> ht_status reply < 400
                 then Done (PayError (json_with 502 []
                   [(''error'', JStr ''Provider request failed''), (''provider'', JStr (op_id operator)),
                    (''status'', JNum (int_str (ht_status reply))),
                    (''detail'', JStr ''The origin redirected; direct-settlement origins must answer on the registered host.'')])
                   (Some Upstream5xx) (Some (ht_status reply)) False)
                 else bind (body_of reply) (\<lambda>text.
                   if \<not> ht_ok reply
                   then Done (PayError (json_with 502 []
                     [(''error'', JStr ''Provider request failed''), (''provider'', JStr (op_id operator)),
                      (''status'', JNum (int_str (ht_status reply))),
                      (''detail'', JStr (sanitizeUpstreamErrorDetail (xo_hosted route) text))])
                     (Some (status_reason (ht_status reply))) (Some (ht_status reply)) False)
                   else Done (PayOk text (content_type (ht_headers reply)) (ht_status reply)))))"

definition pay_with_secret :: "xenv \<Rightarrow> proxy_route \<Rightarrow> string \<Rightarrow> proxy_request \<Rightarrow> string option \<Rightarrow> merchant_pay prog" where
  "pay_with_secret xe route merchantUrl rq body =
     bind (attempt (fetch_text \<lparr>fc_method = xr_method rq, fc_url = merchantUrl,
         fc_headers = inject_auth (forwardHeaders rq False) route xe, fc_body = body\<rparr>)) (\<lambda>r.
       case r of
         Inl e \<Rightarrow> Done (PayError (json_with 502 []
           [(''error'', JStr ''Upstream call failed''), (''detail'', JStr (exn_message e))]) (Some Timeout) None False)
       | Inr reply \<Rightarrow>
           bind (body_of reply) (\<lambda>text.
             if \<not> ht_ok reply
             then Done (PayError (json_with 502 []
               [(''error'', JStr ''Upstream request failed''), (''status'', JNum (int_str (ht_status reply))),
                (''detail'', JStr (sanitizeUpstreamErrorDetail True text))])
               (Some (status_reason (ht_status reply))) (Some (ht_status reply)) False)
             else Done (PayOk text (content_type (ht_headers reply)) (ht_status reply))))"

definition pay_invoice_headers :: "string \<Rightarrow> proxy_request \<Rightarrow> (string \<times> string) list" where
  "pay_invoice_headers secret rq =
     (let headers = set_header ''x-admin-secret'' secret (forwardHeaders rq False) in
      if header_of headers ''content-type'' \<in> {None, Some []} then set_header ''content-type'' ''application/json'' headers
      else headers)"

definition pay_invoice_bridge :: "string \<Rightarrow> string \<Rightarrow> proxy_request \<Rightarrow> string option \<Rightarrow> merchant_pay prog" where
  "pay_invoice_bridge secret merchantUrl rq body =
     bind checkoutDeliveryPaused (\<lambda>paused.
     if paused then Done (PayError checkoutPausedResponse (Some NonFulfillment) None True)
     else bind (attempt (fetch_text \<lparr>fc_method = xr_method rq, fc_url = merchantUrl,
         fc_headers = pay_invoice_headers secret rq, fc_body = body\<rparr>)) (\<lambda>r.
       case r of
         Inl e \<Rightarrow> Done (PayError (json_with 502 []
           [(''error'', JStr ''Merchant admin payment failed''), (''detail'', JStr (exn_message e))]) (Some Timeout) None False)
       | Inr reply \<Rightarrow>
           bind (body_of reply) (\<lambda>text.
             if \<not> ht_ok reply \<and> ht_status reply \<noteq> 202
             then Done (PayError (json_with 502 []
               [(''error'', JStr ''Merchant admin payment failed''), (''status'', JNum (int_str (ht_status reply))),
                (''detail'', JStr (take 500 text))])
               (Some (status_reason (ht_status reply))) (Some (ht_status reply)) False)
             else Done (PayOk text (content_type (ht_headers reply)) (ht_status reply)))))"

text \<open>
  What the session payment may differ from: the quoted amount, compared with \<open>!==\<close>, so that a quote that is not a string
  differs from every amount.
\<close>

definition expected_amount :: "json option \<Rightarrow> string option" where
  "expected_amount amount = (case amount of None \<Rightarrow> None | Some (JStr s) \<Rightarrow> Some s | Some _ \<Rightarrow> Some [])"

definition pay_session :: "xenv \<Rightarrow> proxy_route \<Rightarrow> tempo_challenge \<Rightarrow> string \<Rightarrow> http_answer prog" where
  "pay_session xe route parsed merchantUrl =
     (let key = sessionChannelKeyFor (xo_route route) in
      bind (payMerchantSessionWith (xe_penv xe) key merchantUrl None (expected_amount (tq_amount parsed))) (\<lambda>(channel, signed, r).
      bind (from_sum r) (\<lambda>response.
      if \<not> ha_ok response then Done response
      else bind (throwing (js_BigInt (case channel of Some c \<Rightarrow> tc_cumulativeRaw c | None \<Rightarrow> []))) (\<lambda>before.
           bind (throwing (json_BigInt (tq_amount parsed))) (\<lambda>amount.
           bind (ignoring (bumpCumulative (xe_penv xe) key (int_str (before + amount)))) (\<lambda>_. Done response))))))"

definition pay_charge :: "string \<Rightarrow> http_answer prog" where
  "pay_charge merchantUrl = bind (payMerchant merchantUrl None) (\<lambda>(signed, r). from_sum r)"

definition pool_failure :: "exn \<Rightarrow> merchant_pay" where
  "pool_failure e =
     (case e of
        ChannelNotInstalledError i \<Rightarrow> PayError (json_with 503 []
          [(''error'', JStr ''Router session channel not installed''), (''detail'', JStr (exn_message e)),
           (''hint'', JStr ''Operator must run scripts/open-channel.ts before this merchant accepts session traffic.'')])
          (Some Upstream5xx) None True
      | ChannelDepositExhaustedError i n d \<Rightarrow> PayError (json_with 503 []
          [(''error'', JStr ''Router session channel deposit exhausted''), (''detail'', JStr (exn_message e)),
           (''hint'', JStr ''Operator must top up the channel (scripts/admin/topup-tempo-channel.ts).'')])
          (Some Upstream5xx) None True
      | SessionChallengeMismatchError i d \<Rightarrow> PayError (json_with 503 [(''Retry-After'', ''300'')]
          [(''error'', JStr ''Router temporarily unable to serve this route''),
           (''detail'', JStr (''The merchant did not offer a payment challenge in this route'' @ [char_of (39 :: nat)] @
              ''s channel token.''))])
          (Some Upstream5xx) None True
      | _ \<Rightarrow> PayError (json_with 502 []
          [(''error'', JStr ''Merchant payment failed''), (''detail'', JStr (exn_message e))]) (Some Timeout) None False)"

definition pay_from_pool :: "xenv \<Rightarrow> proxy_route \<Rightarrow> tempo_challenge \<Rightarrow> string \<Rightarrow> merchant_pay prog" where
  "pay_from_pool xe route parsed merchantUrl =
     bind (attempt (if tq_session parsed then pay_session xe route parsed merchantUrl else pay_charge merchantUrl)) (\<lambda>r.
       case r of
         Inl e \<Rightarrow> Done (pool_failure e)
       | Inr reply \<Rightarrow>
           let status = ha_status reply in
           if \<not> ha_ok reply \<and> status \<noteq> 202
           then bind (read_body status) (\<lambda>(errorBody, _).
             Done (PayError (json_with 502 []
               [(''error'', JStr ''Merchant payment failed''), (''status'', JNum (int_str status)),
                (''detail'', JStr (take 500 errorBody))]) (Some (status_reason status)) (Some status) False))
           else bind (read_body status) (\<lambda>(body, contentType).
             if status \<noteq> 202 \<and> js_trim body = []
             then Done (PayError (json_with 502 [] [(''error'', JStr ''Merchant returned an empty response'')])
               (Some EmptyResponse) (Some status) False)
             else Done (PayOk body contentType status)))"

definition payMerchantAndGetBodyInner ::
    "xenv \<Rightarrow> proxy_route \<Rightarrow> tempo_challenge \<Rightarrow> string \<Rightarrow> proxy_request \<Rightarrow> string option \<Rightarrow> merchant_pay prog" where
  "payMerchantAndGetBodyInner xe route parsed merchantUrl rq body =
     (case xo_operator route of
        Some operator \<Rightarrow> pay_operator xe route operator merchantUrl rq body
      | None \<Rightarrow>
          if pr_auth (xo_route route) \<noteq> None then pay_with_secret xe route merchantUrl rq body
          else case (isRozoPayInvoiceRoute route, xe_admin_secret xe) of
            (True, Some (c # secret)) \<Rightarrow> pay_invoice_bridge (c # secret) merchantUrl rq body
          | _ \<Rightarrow> pay_from_pool xe route parsed merchantUrl)"

subsection \<open>The call as the catalog sees it\<close>

text \<open>\<open>ROUTER_SIDE_ERROR_NAMES\<close>\<close>

fun router_side_error :: "exn \<Rightarrow> string option" where
  "router_side_error (ChannelNotInstalledError i) = Some ''ChannelNotInstalledError''"
| "router_side_error (BudgetExceededError u r m) = Some ''BudgetExceededError''"
| "router_side_error (ChannelDepositExhaustedError i n d) = Some ''ChannelDepositExhaustedError''"
| "router_side_error (SessionChallengeMismatchError i d) = Some ''SessionChallengeMismatchError''"
| "router_side_error _ = None"

definition thrown_call :: "proxy_route \<Rightarrow> proxy_request \<Rightarrow> exn \<Rightarrow> route_call" where
  "thrown_call route rq e =
     (let ours = router_side_error e in
      \<lparr>rcl_callId = None, rcl_routeId = route_id route, rcl_method = xr_method rq,
       rcl_outcome = classifyOutcome None False (ours \<noteq> None) False False,
       rcl_reason = (case ours of Some n \<Rightarrow> Some n | None \<Rightarrow> Some ''timeout''), rcl_upstream = None\<rparr>)"

definition finished_call :: "xenv \<Rightarrow> proxy_route \<Rightarrow> proxy_request \<Rightarrow> merchant_pay \<Rightarrow> bool \<Rightarrow> json option \<Rightarrow> route_call" where
  "finished_call xe route rq result isAsync jobId =
     (let failed = (case result of PayError _ reason _ _ \<Rightarrow> Some (case reason of Some x \<Rightarrow> reason_text x | None \<Rightarrow> ''upstream_error'') | PayOk _ _ _ \<Rightarrow> None);
          status = (case result of PayOk _ _ s \<Rightarrow> Some s | PayError _ _ s _ \<Rightarrow> s);
          ours = (case result of PayError _ _ _ o' \<Rightarrow> o' | PayOk _ _ _ \<Rightarrow> False);
          holds = (pr_auth (xo_route route) \<noteq> None \<or> isRozoPayInvoiceRoute route \<and> xe_admin_secret xe \<notin> {None, Some []}) in
      \<lparr>rcl_callId = (if isAsync \<and> truthy jobId then Some (asyncCallId (route_id route) (shown jobId)) else None),
       rcl_routeId = route_id route, rcl_method = xr_method rq,
       rcl_outcome = classifyOutcome status holds ours (failed \<noteq> None \<or> isAsync \<and> \<not> truthy jobId) (isAsync \<and> truthy jobId),
       rcl_reason = (case failed of Some x \<Rightarrow> Some x
                     | None \<Rightarrow> if isAsync \<and> \<not> truthy jobId then Some ''async_response_without_job_id'' else None),
       rcl_upstream = status\<rparr>)"

definition lifted :: "xenv \<Rightarrow> proxy_route \<Rightarrow> merchant_pay \<Rightarrow> bool \<Rightarrow> merchant_pay" where
  "lifted xe route result isAsync =
     (case result of
        PayOk body contentType status \<Rightarrow>
          if status = 200 \<and> \<not> isAsync \<and> isEnvelopeLiftedRoute (route_id route)
          then PayOk (presentMerchantEnvelope xe body contentType) contentType status else result
      | _ \<Rightarrow> result)"

definition payMerchantAndGetBody ::
    "xenv \<Rightarrow> proxy_route \<Rightarrow> tempo_challenge \<Rightarrow> string \<Rightarrow> proxy_request \<Rightarrow> string option \<Rightarrow> merchant_pay prog" where
  "payMerchantAndGetBody xe route parsed merchantUrl rq requestBody =
     bind (attempt (payMerchantAndGetBodyInner xe route parsed merchantUrl rq requestBody)) (\<lambda>r.
       case r of
         Inl e \<Rightarrow>
           bind (recordRouteFailure (route_id route) ''timeout'') (\<lambda>_.
           bind (recordRouteCall xe (thrown_call route rq e)) (\<lambda>_. Throw e))
       | Inr result \<Rightarrow>
           (let (isAsync, jobId) = (case result of PayOk body _ status \<Rightarrow> isAsyncJobResponse xe status body | _ \<Rightarrow> (False, None)) in
            bind (case result of
                PayError _ reason _ _ \<Rightarrow> recordRouteFailure (route_id route) (case reason of Some x \<Rightarrow> reason_text x | None \<Rightarrow> ''upstream_error'')
              | PayOk _ _ _ \<Rightarrow> recordRouteSuccess (route_id route)) (\<lambda>_.
            bind (recordRouteCall xe (finished_call xe route rq result isAsync jobId)) (\<lambda>_.
            Done (lifted xe route result isAsync)))))"

subsection \<open>Binding a job to its payer\<close>

definition job_auth_put :: "string \<Rightarrow> job_auth \<Rightarrow> unit prog" where
  "job_auth_put jobId record' = await_unit (JobPut (''jobAuth:'' @ jobId) record')"

definition rollback_delivery :: "channel_delivery \<Rightarrow> bool prog" where
  "rollback_delivery d =
     bind (rollbackFailedChannelVoucher (cd_contract d) (cd_accepted d) (cd_previous d) (cd_challengeId d)) (\<lambda>rolledBack.
     if rolledBack then bind (releaseChannelDeliveryLock (cd_contract d) (cd_lockId d)) (\<lambda>_. Done True) else Done False)"

definition async_refund :: "proxy_route \<Rightarrow> payment_proof \<Rightarrow> enqueue_input" where
  "async_refund route proof =
     \<lparr>en_proof = proof, en_reason = EmptyResponse, en_merchant = pr_host (xo_route route), en_routeId = route_id route, en_orderId = None\<rparr>"

definition release_delivery :: "channel_delivery option \<Rightarrow> (channel_delivery \<Rightarrow> bool) \<Rightarrow> unit prog" where
  "release_delivery d P =
     (case d of Some x \<Rightarrow> if P x then releaseChannelDeliveryLock (cd_contract x) (cd_lockId x) else Done () | None \<Rightarrow> Done ())"

definition REVIEW :: "(string \<times> string) list" where "REVIEW = [(''Refund-Status'', ''manual-review'')]"

text \<open>A job without an id cannot be asked for: the voucher is taken back and the payment refunded.\<close>

definition no_job_id ::
    "proxy_route \<Rightarrow> string \<Rightarrow> string \<Rightarrow> payment_proof option \<Rightarrow> channel_delivery option \<Rightarrow> response prog" where
  "no_job_id route body contentType paymentProof delivery =
     bind (case delivery of Some d \<Rightarrow> if cd_close d then Done True else rollback_delivery d | None \<Rightarrow> Done True) (\<lambda>rolledBack.
     if \<not> rolledBack
     then Done (json_with 503 REVIEW [(''error'', JStr ''Async voucher requires manual review'')])
     else case paymentProof of
       None \<Rightarrow> Done \<lparr>rs_status = 202, rs_headers = [(''Content-Type'', contentType)], rs_body = JStr body\<rparr>
     | Some proof \<Rightarrow>
         bind (attempt (enqueue (async_refund route proof))) (\<lambda>r.
           case r of
             Inl e \<Rightarrow> Done (json_with 503 REVIEW
               [(''error'', JStr ''Async delivery and refund persistence failed''), (''detail'', JStr (exn_message e))])
           | Inr refund \<Rightarrow>
               bind (release_delivery delivery cd_close) (\<lambda>_.
               Done (json_with 502 [(''Refund-Id'', publicId refund), (''Refund-Status'', ''pending'')]
                 [(''error'', JStr ''Async merchant returned no job id'')]))))"

text \<open>The record of the job could not be kept.\<close>

definition job_not_kept :: "proxy_route \<Rightarrow> exn \<Rightarrow> payment_proof option \<Rightarrow> channel_delivery option \<Rightarrow> response prog" where
  "job_not_kept route e paymentProof delivery =
     (let review = Done (json_with 503 REVIEW
            [(''error'', JStr ''Could not persist async delivery ownership''), (''detail'', JStr (exn_message e))]);
          reply = (\<lambda>hs. json_with 503 hs [(''error'', JStr ''Could not persist async delivery ownership'')]);
          refunding = (case paymentProof of
              None \<Rightarrow> review
            | Some proof \<Rightarrow>
                bind (attempt (
                  bind (enqueue (async_refund route proof)) (\<lambda>refund.
                  bind (release_delivery delivery (\<lambda>_. True)) (\<lambda>_. Done refund)))) (\<lambda>r.
                case r of
                  Inl _ \<Rightarrow> review
                | Inr refund \<Rightarrow> Done (reply [(''Refund-Id'', publicId refund), (''Refund-Status'', ''pending'')]))) in
      case delivery of
        None \<Rightarrow> refunding
      | Some d \<Rightarrow>
          if cd_close d then refunding
          else bind (rollback_delivery d) (\<lambda>rolledBack.
               Done (reply [(''Refund-Status'', if rolledBack then ''voucher-not-consumed'' else ''manual-review'')])))"

text \<open>The third segment of the path.\<close>

definition path_service :: "string \<Rightarrow> string" where
  "path_service path = (let parts = split_on (CHR ''/'') path in if length parts > 3 then parts ! 3 else ''undefined'')"

definition handleAsyncJob ::
    "xenv \<Rightarrow> string \<Rightarrow> string \<Rightarrow> int \<Rightarrow> proxy_route \<Rightarrow> string option \<Rightarrow> proxy_request \<Rightarrow> payment_proof option
      \<Rightarrow> channel_delivery option \<Rightarrow> response option prog" where
  "handleAsyncJob xe body contentType merchantStatus route authHeader rq paymentProof delivery =
     (let (isAsync, job) = isAsyncJobResponse xe merchantStatus body; jobId = shown job in
      if \<not> isAsync then Done None
      else if \<not> truthy job then bind (no_job_id route body contentType paymentProof delivery) (\<lambda>r. Done (Some r))
      else case extractStellarAddress xe authHeader of
        None \<Rightarrow> Done (Some (json_with 401 [] [(''error'', JStr ''Async jobs require a Stellar payment credential to bind ownership'')]))
      | Some stellarAddress \<Rightarrow>
          bind date_now (\<lambda>now.
          let actualHost = (if pr_host (xo_route route) \<noteq> [] then pr_host (xo_route route)
                            else hd (split_on (CHR ''_'') (route_id route)) @ ''.dev'');
              record' = \<lparr>ja_address = stellarAddress, ja_service = route_id route, ja_host = actualHost,
                ja_path = ''/api/jobs/'' @ jobId, ja_paidAt = now, ja_proof = paymentProof, ja_delivery = delivery\<rparr> in
          bind (attempt (job_auth_put jobId record')) (\<lambda>r.
          case r of
            Inl e \<Rightarrow> bind (job_not_kept route e paymentProof delivery) (\<lambda>resp. Done (Some resp))
          | Inr _ \<Rightarrow> Done (Some
              \<lparr>rs_status = 202,
               rs_headers = [(''Content-Type'', contentType),
                 (''X-Job-Poll-Url'', xr_origin rq @ ''/v1/services/'' @ path_service (xr_path rq) @ ''/jobs/'' @ jobId),
                 (''X-Job-Id'', jobId)],
               rs_body = JStr body\<rparr>))))"

end
