(* ===== verification/ProxyX402.thy ===== *)
theory ProxyX402
  imports ProxyPay
begin

text \<open>
  The Stellar x402 side of the paid proxy: \<open>src/src/mpp/stellar-x402-server.ts\<close> (the amount policy is in
  \<open>ProxyAmounts\<close>), the settlement with its order row and open marker and the resolver of settlements left open
  (\<open>src/src/services/x402-settlement.ts\<close>), and the x402 branch of \<open>handleProxy\<close>: verify, pay the merchant, settle the buyer.
  Waiting between writes of one key is not modelled.
\<close>

subsection \<open>stellar-x402-server.ts\<close>

text \<open>The first 16 bytes of the hash, in hex.\<close>

definition hashXdr :: "xenv \<Rightarrow> string \<Rightarrow> string" where
  "hashXdr xe xdr = bytes_hex (take 16 (ce_sha256 (xe_chan xe) (utf8 xdr)))"

definition nonceKeyFromHash :: "string \<Rightarrow> string" where
  "nonceKeyFromHash payloadHash = ''stellar_x402:payload:'' @ payloadHash"

definition NONCE_TTL_SECONDS :: int where "NONCE_TTL_SECONDS = 3600"

definition checkAndReserveNonce :: "string \<Rightarrow> bool prog" where
  "checkAndReserveNonce payloadHash =
     (let key = nonceKeyFromHash payloadHash in
      bind (kv_text key) (\<lambda>existing.
      if existing \<noteq> None then Done False
      else bind (await_unit (KvTextPut key (JStr ''1''))) (\<lambda>_. Done True)))"

definition release_nonce :: "string \<Rightarrow> unit prog" where
  "release_nonce payloadHash = ignoring (await_unit (KvTextDelete (nonceKeyFromHash payloadHash)))"

definition buildPaymentRequirementsForAgentAmount :: "xenv \<Rightarrow> int \<Rightarrow> string \<Rightarrow> x402_requirements" where
  "buildPaymentRequirementsForAgentAmount xe agentSignedAmount payTo =
     \<lparr>xq_network = xe_network xe, xq_amount = int_str agentSignedAmount, xq_asset = xe_usdc xe (xe_network xe), xq_payTo = payTo\<rparr>"

definition accept_entry :: "string \<Rightarrow> string \<Rightarrow> string \<Rightarrow> string \<Rightarrow> bool \<Rightarrow> json" where
  "accept_entry network amount asset payTo sponsored =
     JObj [(''scheme'', JStr ''exact''), (''network'', JStr network), (''amount'', JStr amount), (''asset'', JStr asset),
       (''payTo'', JStr payTo), (''maxTimeoutSeconds'', JNum ''300''),
       (''extra'', JObj [(''areFeesSponsored'', JBool sponsored)])]"

definition operator_accept :: "xenv \<Rightarrow> int \<Rightarrow> int \<Rightarrow> payout \<Rightarrow> json" where
  "operator_accept xe quote6 amount7 p =
     (if is_prefix ''stellar:'' (po_network p)
      then accept_entry (po_network p) (int_str amount7) (xe_usdc xe (po_network p)) (po_payTo p) True
      else accept_entry (po_network p) (int_str quote6) (if po_asset p = [] then ''USDC'' else po_asset p) (po_payTo p) False)"

definition buildX402PaymentRequiredHeader :: "xenv \<Rightarrow> int \<Rightarrow> string \<Rightarrow> route_operator option \<Rightarrow> string option" where
  "buildX402PaymentRequiredHeader xe merchantQuoteTempoBaseUnits resourceUrl operator =
     (if xe_x402_enabled xe \<noteq> Some ''true'' then None
      else
        let stellarAmount = merchantQuoteTempoBaseUnits * 10;
            accepts = (case operator of
              Some o' \<Rightarrow> map (operator_accept xe merchantQuoteTempoBaseUnits stellarAmount) (op_payouts o')
            | None \<Rightarrow>
                (case xe_pay_to xe of
                   Some (c # s) \<Rightarrow>
                     [accept_entry (xe_network xe) (int_str stellarAmount) (xe_usdc xe (xe_network xe)) (c # s) True]
                 | _ \<Rightarrow> [])) in
        if accepts = [] then None
        else Some (xe_btoa xe (stringify (JObj
          [(''x402Version'', JNum ''2''), (''error'', JStr ''Payment required''),
           (''resource'', JObj [(''url'', JStr resourceUrl)]), (''accepts'', JArr accepts)]))))"

definition passphraseFor :: "string \<Rightarrow> string option" where
  "passphraseFor network =
     (if network = ''stellar:pubnet'' then Some ''Public Global Stellar Network ; September 2015''
      else if network = ''stellar:testnet'' then Some ''Test SDF Network ; September 2015'' else None)"

text \<open>The first argument of the first transfer that is an account or a contract, else the source if it is an account.\<close>

definition transfer_from :: "xenv \<Rightarrow> (string \<times> string list) option \<Rightarrow> string option" where
  "transfer_from xe invocation =
     (case invocation of
        Some (name, from' # args) \<Rightarrow>
          if name = ''transfer'' \<and> (xe_is_key xe from' \<or> xe_is_contract xe from') then Some from' else None
      | _ \<Rightarrow> None)"

definition extractPayerFromXdr :: "xenv \<Rightarrow> string \<Rightarrow> string \<Rightarrow> string option" where
  "extractPayerFromXdr xe xdr network =
     (case passphraseFor network of
        None \<Rightarrow> None
      | Some passphrase \<Rightarrow>
          (case xe_tx xe xdr passphrase of
             None \<Rightarrow> None
           | Some tx \<Rightarrow>
               (case List.map_filter (transfer_from xe) (tx_invocations tx) of
                  from' # _ \<Rightarrow> Some from'
                | [] \<Rightarrow> if xe_is_key xe (tx_source tx) then Some (tx_source tx) else None)))"

definition extractPayloadIdentity :: "xenv \<Rightarrow> x402_payment \<Rightarrow> string \<Rightarrow> (string \<times> string option) option" where
  "extractPayloadIdentity xe payload network =
     (case jstring (xp_transaction payload) of
        Some (c # s) \<Rightarrow> Some (hashXdr xe (c # s), extractPayerFromXdr xe (c # s) network)
      | _ \<Rightarrow> None)"

record x402_prepared =
  xr_payload :: x402_payment
  xr_requirements :: x402_requirements
  xr_signed :: int
  xr_hash :: string
  xr_payer :: "string option"

text \<open>A refusal is its reason and status.\<close>

definition prepareStellarX402Inbound :: "xenv \<Rightarrow> string \<Rightarrow> int \<Rightarrow> string option \<Rightarrow> (string \<times> int) + x402_prepared" where
  "prepareStellarX402Inbound xe authHeader merchantQuoteBaseUnits expectedPayTo =
     (case parseStellarX402Header xe authHeader of
        None \<Rightarrow> Inl (''invalid stellar x402 payload format'', 402)
      | Some payload \<Rightarrow>
          if payTo_for xe expectedPayTo = None \<or> payTo_for xe expectedPayTo \<noteq> Some (xp_payTo payload)
          then Inl (''stellar x402 payload pays a different recipient than this route settles to'', 402)
          else case js_BigInt (xp_amount payload) of
            Inl _ \<Rightarrow> Inl (''stellar x402 payload has non-integer accepted.amount: '' @ xp_amount payload, 402)
          | Inr signedAmount \<Rightarrow>
              (case isAmountAcceptable signedAmount merchantQuoteBaseUnits of
                 Some reason \<Rightarrow> Inl (''stellar x402 amount rejected: '' @ reason, 402)
               | None \<Rightarrow>
                   (case extractPayloadIdentity xe payload (xe_network xe) of
                      None \<Rightarrow> Inl (''stellar x402 payload missing `transaction` XDR (unexpected shape for exact scheme)'', 402)
                    | Some (payloadHash, payer) \<Rightarrow>
                        Inr \<lparr>xr_payload = payload,
                             xr_requirements = buildPaymentRequirementsForAgentAmount xe signedAmount (xp_payTo payload),
                             xr_signed = signedAmount, xr_hash = payloadHash, xr_payer = payer\<rparr>)))"

text \<open>The facilitator is asked; what it throws is a refusal.\<close>

definition verifyStellarX402WithFacilitator :: "x402_payment \<Rightarrow> x402_requirements \<Rightarrow> (string \<times> int) option prog" where
  "verifyStellarX402WithFacilitator payload requirements =
     bind (attempt (await (FacilitatorVerify payload requirements) (\<lambda>y.
       case y of AFacilitator invalidReason \<Rightarrow> Done invalidReason | _ \<Rightarrow> unexpected))) (\<lambda>r.
     Done (case r of
       Inl e \<Rightarrow> Some (''stellar x402 verify threw: '' @ exn_message e, 402)
     | Inr (Some invalidReason) \<Rightarrow> Some (''stellar x402 verify failed: '' @ invalidReason, 402)
     | Inr None \<Rightarrow> None))"

subsection \<open>x402-settlement.ts\<close>

definition OPEN_PREFIX :: string where "OPEN_PREFIX = ''x402_settle_open:''"
definition openKey :: "string \<Rightarrow> string" where "openKey orderId = OPEN_PREFIX @ orderId"
definition TX_EXPIRED_AFTER_MS :: int where "TX_EXPIRED_AFTER_MS = 300000 + 28000 + 60000"
definition RESOLVER_MIN_AGE_MS :: int where "RESOLVER_MIN_AGE_MS = 60000"
definition RESOLVER_GIVE_UP_MS :: int where "RESOLVER_GIVE_UP_MS = 24 * 60 * 60 * 1000"

definition applyResult :: "order_entry \<Rightarrow> settle_result \<Rightarrow> order_entry" where
  "applyResult entry result =
     entry\<lparr>oe_ref := (if sr_state result = SettleDone then sr_transaction result else None),
           oe_settlement := Some (sr_state result), oe_attempts := sr_attempted result,
           oe_reason := sr_reason result, oe_error := sr_error result\<rparr>"

text \<open>Written twice at most; a failure is only logged.\<close>

definition write_open :: "order_entry \<Rightarrow> int \<Rightarrow> unit prog" where
  "write_open e startedAt =
     (let put = await_unit (OpenPut (openKey (oe_id e)) e startedAt) in
      bind (attempt put) (\<lambda>r. case r of Inr _ \<Rightarrow> Done () | Inl _ \<Rightarrow> ignoring put))"

fun write_signed :: "order_entry \<Rightarrow> int \<Rightarrow> string list list \<Rightarrow> unit prog" where
  "write_signed e startedAt [] = Done ()"
| "write_signed e startedAt (hashes # rest) =
     bind (write_open (e\<lparr>oe_attempts := hashes\<rparr>) startedAt) (\<lambda>_. write_signed e startedAt rest)"

definition alertUnsettled :: "xenv \<Rightarrow> order_entry \<Rightarrow> unit prog" where
  "alertUnsettled xe e = (if \<not> xe_alerts xe then Done () else await_unit (SettlementAlert e))"

text \<open>\<open>settleStellarX402\<close>, with the hash lists its \<open>onSigned\<close> callback was given.\<close>

definition settle_call :: "x402_payment \<Rightarrow> x402_requirements \<Rightarrow> (string list list \<times> settle_result) prog" where
  "settle_call payload requirements =
     await (SettleX402 payload requirements) (\<lambda>y. case y of ASettled402 signed result \<Rightarrow> Done (signed, result) | _ \<Rightarrow> unexpected)"

record settle_params =
  sp_payload :: x402_payment
  sp_requirements :: x402_requirements
  sp_routeId :: string
  sp_payer :: "string option"
  sp_amountUsd :: string
  sp_currency :: "json option"
  sp_path :: string
  sp_upstream :: int

definition settlement_entry :: "settle_params \<Rightarrow> string \<Rightarrow> int \<Rightarrow> order_entry" where
  "settlement_entry p orderId startedAt =
     \<lparr>oe_id = orderId, oe_ts = startedAt, oe_route = sp_routeId p, oe_payer = sp_payer p, oe_amount = sp_amountUsd p,
      oe_currency = (if truthy (sp_currency p) then sp_currency p else None), oe_ref = None,
      oe_settlement = Some SettlePending, oe_attempts = [], oe_reason = None, oe_error = None, oe_path = sp_path p,
      oe_upstream = sp_upstream p, oe_refund = RefundNone\<rparr>"

definition settleAndRecordX402 :: "xenv \<Rightarrow> settle_params \<Rightarrow> settle_result prog" where
  "settleAndRecordX402 xe p =
     bind date_now (\<lambda>startedAt.
     bind (newOrderId xe) (\<lambda>orderId.
     let entry = settlement_entry p orderId startedAt; key = openKey orderId in
     bind (recordOrder xe entry) (\<lambda>_.
     bind (write_open entry startedAt) (\<lambda>_.
     bind (settle_call (sp_payload p) (sp_requirements p)) (\<lambda>(signed, result).
     bind (write_signed entry startedAt signed) (\<lambda>_.
     let final = applyResult entry result in
     bind (recordOrder xe final) (\<lambda>written.
     bind (if written \<and> sr_state result \<noteq> SettleUnknown then ignoring (await_unit (OpenDelete key))
           else if sr_state result = SettleUnknown then write_open final startedAt else Done ()) (\<lambda>_.
     bind (if sr_state result = SettleFailed then alertUnsettled xe final else Done ()) (\<lambda>_.
     Done result)))))))))"

text \<open>Settlements left open, read back from the chain: the new row, or none while it is too early to tell.\<close>

fun read_hashes :: "string list \<Rightarrow> (string option \<times> bool) prog" where
  "read_hashes [] = Done (None, True)"
| "read_hashes (hash # rest) =
     bind (attempt (await (TxStatus hash) (\<lambda>y. case y of ATxStatus s \<Rightarrow> Done s | _ \<Rightarrow> unexpected))) (\<lambda>r.
       case r of
         Inr ChainSuccess \<Rightarrow> Done (Some hash, True)
       | Inr _ \<Rightarrow> read_hashes rest
       | Inl _ \<Rightarrow> bind (read_hashes rest) (\<lambda>(found, _). Done (found, False)))"

definition with_reason :: "order_entry \<Rightarrow> settle_state \<Rightarrow> string \<Rightarrow> order_entry" where
  "with_reason entry state reason =
     entry\<lparr>oe_settlement := Some state, oe_reason := (case oe_reason entry of Some x \<Rightarrow> Some x | None \<Rightarrow> Some reason)\<rparr>"

definition resolveOne :: "order_entry \<Rightarrow> int \<Rightarrow> order_entry option prog" where
  "resolveOne entry age =
     (let hashes = oe_attempts entry in
      bind (read_hashes hashes) (\<lambda>(found, readAll).
      Done (case found of
        Some hash \<Rightarrow> Some (entry\<lparr>oe_settlement := Some SettleDone, oe_ref := Some hash, oe_reason := None, oe_error := None\<rparr>)
      | None \<Rightarrow>
          if age < TX_EXPIRED_AFTER_MS then None
          else if hashes = [] then Some (with_reason entry SettleUnknown ''worker_stopped_before_signing'')
          else if readAll then Some (with_reason entry SettleFailed ''tx_expired_not_on_chain'')
          else if age \<ge> RESOLVER_GIVE_UP_MS then Some (with_reason entry SettleUnknown ''chain_unreadable'')
          else None)))"

definition resolve_open :: "xenv \<Rightarrow> int \<Rightarrow> string \<Rightarrow> unit prog" where
  "resolve_open xe now name =
     await (OpenGet name) (\<lambda>y. case y of
       AOpen (Some (entry, createdAt)) \<Rightarrow>
         let age = now - createdAt in
         if age < RESOLVER_MIN_AGE_MS then Done ()
         else bind (resolveOne entry age) (\<lambda>final.
           case final of
             None \<Rightarrow> Done ()
           | Some e \<Rightarrow>
               bind (recordOrder xe e) (\<lambda>written.
               if \<not> written then Done ()
               else bind (await_unit (OpenDelete name)) (\<lambda>_.
                    if oe_settlement e \<noteq> Some SettleDone then alertUnsettled xe e else Done ())))
     | AOpen None \<Rightarrow> Done ()
     | _ \<Rightarrow> unexpected)"

fun resolve_all :: "xenv \<Rightarrow> int \<Rightarrow> string list \<Rightarrow> unit prog" where
  "resolve_all xe now [] = Done ()"
| "resolve_all xe now (name # rest) = bind (resolve_open xe now name) (\<lambda>_. resolve_all xe now rest)"

definition resolveOpenX402Settlements :: "xenv \<Rightarrow> unit prog" where
  "resolveOpenX402Settlements xe =
     ignoring (await OpenList (\<lambda>y. case y of
       ANames names \<Rightarrow> if names = [] then Done () else bind date_now (\<lambda>now. resolve_all xe now names)
     | _ \<Rightarrow> unexpected))"

subsection \<open>The rate limit of a route\<close>

text \<open>The key of the day and the limit, as they were when the request arrived.\<close>

type_synonym rate_slot = "(string \<times> int) option"

definition too_many :: "int \<Rightarrow> int \<Rightarrow> response prog" where
  "too_many used limit =
     bind date_now (\<lambda>now.
     Done (json_with 429 [(''Retry-After'', int_str (secondsUntilUtcMidnight now))]
       [(''error'', JStr ''Daily rate limit exceeded for this service''),
        (''detail'', JStr (int_str used @ ''/'' @ int_str limit @ '' calls used today (UTC). Resets at next UTC midnight.''))]))"

definition consumeRateLimitSlotOrReject :: "rate_slot \<Rightarrow> response option prog" where
  "consumeRateLimitSlotOrReject slot =
     (case slot of
        None \<Rightarrow> Done None
      | Some (rlKey, perDay) \<Rightarrow>
          bind (DailySlot rlKey perDay from_outside) (\<lambda>(ok, used).
          if ok then Done None else bind (too_many used perDay) (\<lambda>r. Done (Some r))))"

subsection \<open>The x402 branch\<close>

text \<open>What every branch of the handler has once the merchant is quoted.\<close>

record quoted_call =
  qc_route :: proxy_route
  qc_request :: proxy_request
  qc_parsed :: tempo_challenge
  qc_url :: string
  qc_path :: string
  qc_search :: string
  qc_body :: "string option"
  qc_slot :: rate_slot

definition qc_pay :: "xenv \<Rightarrow> quoted_call \<Rightarrow> merchant_pay prog" where
  "qc_pay xe q = payMerchantAndGetBody xe (qc_route q) (qc_parsed q) (qc_url q) (qc_request q) (qc_body q)"

text \<open>
  \<open>typeof parsed.request.decimals === 'number'\<close>, and the number itself: none when it is not an integer.  A request that
  is null has no properties to read.
\<close>

definition quote_decimals :: "tempo_challenge \<Rightarrow> (exn + string \<times> int option)" where
  "quote_decimals parsed =
     (if tq_request parsed = JNull then Inl (JsExn ''TypeError'')
      else case jfield (tq_request parsed) ''decimals'' of
        Some (JNum t) \<Rightarrow>
          Inr (t, if int_re t then Some (bigint_of t)
                  else if text_has t ''e+'' then Some (if is_prefix ''-'' t then - (10 ^ 21) else 10 ^ 21) else None)
      | _ \<Rightarrow> Inr (int_str TEMPO_DEFAULT_DECIMALS, Some TEMPO_DEFAULT_DECIMALS))"

definition replay_key :: "xenv \<Rightarrow> quoted_call \<Rightarrow> string \<Rightarrow> string" where
  "replay_key xe q payloadHash =
     buildX402ReplayKey (sha_hex xe)
       \<lparr>xp_payloadHash = payloadHash, xp_routeId = route_id (qc_route q), xp_method = xr_method (qc_request q),
        xp_upstreamPath = qc_path q, xp_forwardedSearch = qc_search q, xp_body = qc_body q\<rparr>"

text \<open>A payload seen before: the result it bought, if it is the same call, else a refusal.\<close>

definition replayed :: "xenv \<Rightarrow> string \<Rightarrow> response prog" where
  "replayed xe key =
     bind (kv_text key) (\<lambda>cached.
     Done (case (case cached of None \<Rightarrow> None | Some text \<Rightarrow> parseX402CachedResult (xe_parse xe text)) of
       Some stored \<Rightarrow>
         \<lparr>rs_status = 200, rs_headers = xc_headers stored @ [(''X-Idempotent'', ''true'')], rs_body = JStr (xc_body stored)\<rparr>
     | None \<Rightarrow> json_with 402 []
         [(''error'', JStr ''stellar.x402 replay detected''),
          (''detail'', JStr ''This signed payload was already submitted to this router.'')]))"

definition x402_refusal :: "string \<times> int \<Rightarrow> response" where
  "x402_refusal r = json_with (snd r) [] [(''error'', JStr ''stellar.x402 verification failed''), (''detail'', JStr (fst r))]"

definition settle_params_of :: "quoted_call \<Rightarrow> x402_prepared \<Rightarrow> string \<Rightarrow> int \<Rightarrow> settle_params" where
  "settle_params_of q prepared amountUsd merchantStatus =
     \<lparr>sp_payload = xr_payload prepared, sp_requirements = xr_requirements prepared, sp_routeId = route_id (qc_route q),
      sp_payer = xr_payer prepared, sp_amountUsd = amountUsd, sp_currency = jfield (tq_request (qc_parsed q)) ''currency'',
      sp_path = qc_path q @ qc_search q, sp_upstream = merchantStatus\<rparr>"

fun settle_text :: "settle_state \<Rightarrow> string" where
  "settle_text SettlePending = ''pending''"
| "settle_text SettleDone = ''settled''"
| "settle_text SettleFailed = ''failed''"
| "settle_text SettleUnknown = ''unknown''"

definition given :: "string option \<Rightarrow> string list" where
  "given v = (case v of Some (c # s) \<Rightarrow> [c # s] | _ \<Rightarrow> [])"

definition x402_headers :: "xenv \<Rightarrow> string \<Rightarrow> string \<Rightarrow> string option \<Rightarrow> settle_result \<Rightarrow> (string \<times> string) list" where
  "x402_headers xe contentType amount payer settlement =
     [(''Content-Type'', contentType), (''X-MPPRouter-Quoted-Amount'', amount), (''X-MPPRouter-Upstream-Cost'', amount)] @
     map (\<lambda>p. (''X-MPPRouter-Payer'', p)) (given payer) @
     (if sr_success settlement then map (\<lambda>t. (''X-Payment-Tx'', t)) (given (sr_transaction settlement)) else []) @
     [(''PAYMENT-RESPONSE'', xe_btoa xe (stringify (JObj (
         [(''success'', JBool (sr_success settlement)),
          (''transaction'', JStr (if sr_success settlement then (case sr_transaction settlement of Some t \<Rightarrow> t | None \<Rightarrow> []) else [])),
          (''network'', JStr (xe_network xe))] @
         map (\<lambda>p. (''payer'', JStr p)) (given payer) @
         map (\<lambda>r. (''errorReason'', JStr r)) (given (sr_reason settlement)))))),
      (''X-Payment-Method'', ''stellar.x402'')] @
     (if sr_success settlement then [(''X-Payment-Settle-Status'', ''settled'')]
      else (''X-Payment-Settle-Status'', settle_text (sr_state settlement)) #
           map (\<lambda>r. (''X-Payment-Settle-Reason'', r)) (given (sr_reason settlement)))"

definition cached_json :: "string \<Rightarrow> (string \<times> string) list \<Rightarrow> json" where
  "cached_json body headers =
     JObj [(''status'', JNum ''200''), (''body'', JStr body), (''headers'', JObj (map (\<lambda>(k, v). (k, JStr v)) headers))]"

text \<open>The merchant has answered: settle the buyer, keep the result for a retry, answer.\<close>

definition x402_delivered :: "xenv \<Rightarrow> quoted_call \<Rightarrow> string \<Rightarrow> x402_prepared \<Rightarrow> string \<Rightarrow> string \<Rightarrow> int \<Rightarrow> response prog" where
  "x402_delivered xe q authHeader prepared body contentType merchantStatus =
     bind (handleAsyncJob xe body contentType merchantStatus (qc_route q) (Some authHeader) (qc_request q) None None) (\<lambda>asyncResponse.
     bind (from_sum (amount_decimal (tq_amount (qc_parsed q)) TEMPO_DEFAULT_DECIMALS)) (\<lambda>amount.
     bind (settleAndRecordX402 xe (settle_params_of q prepared amount merchantStatus)) (\<lambda>settlement.
     case asyncResponse of
       Some r \<Rightarrow> Done r
     | None \<Rightarrow>
         let headers = x402_headers xe contentType amount (xr_payer prepared) settlement in
         bind (ignoring (await_unit (KvTextPut (replay_key xe q (xr_hash prepared)) (cached_json body headers)))) (\<lambda>_.
         Done \<lparr>rs_status = 200, rs_headers = headers, rs_body = JStr body\<rparr>))))"

definition x402_verified :: "xenv \<Rightarrow> quoted_call \<Rightarrow> string \<Rightarrow> x402_prepared \<Rightarrow> response prog" where
  "x402_verified xe q authHeader prepared =
     bind (consumeRateLimitSlotOrReject (qc_slot q)) (\<lambda>reject.
       case reject of
         Some r \<Rightarrow> bind (release_nonce (xr_hash prepared)) (\<lambda>_. Done r)
       | None \<Rightarrow>
           bind (qc_pay xe q) (\<lambda>payResult.
             case payResult of
               PayError resp reason status ours \<Rightarrow> bind (release_nonce (xr_hash prepared)) (\<lambda>_. Done resp)
             | PayOk body contentType merchantStatus \<Rightarrow>
                 x402_delivered xe q authHeader prepared body contentType merchantStatus))"

definition x402_branch :: "xenv \<Rightarrow> quoted_call \<Rightarrow> string \<Rightarrow> response prog" where
  "x402_branch xe q authHeader =
     bind (from_sum (quote_decimals (qc_parsed q))) (\<lambda>(text, decimals).
     if decimals \<noteq> Some 6
     then Done (json_with 502 [] [(''error'', JStr ''stellar.x402 branch only supports USDC-6 merchants''),
            (''detail'', JStr (''merchant decimals='' @ text @ '', expected 6''))])
     else case json_BigInt (tq_amount (qc_parsed q)) of
       Inl _ \<Rightarrow> Done (json_with 502 [] ([(''error'', JStr ''Merchant quote amount is not an integer base-unit string'')] @
                  (case tq_amount (qc_parsed q) of None \<Rightarrow> [] | Some a \<Rightarrow> [(''raw'', a)])))
     | Inr merchantQuoteTempoBaseUnits \<Rightarrow>
         (case prepareStellarX402Inbound xe authHeader (merchantQuoteTempoBaseUnits * 10) (expected_payTo (qc_route q)) of
            Inl refusal \<Rightarrow> Done (x402_refusal refusal)
          | Inr prepared \<Rightarrow>
              bind (checkAndReserveNonce (xr_hash prepared)) (\<lambda>reserved.
              if \<not> reserved then replayed xe (replay_key xe q (xr_hash prepared))
              else bind (verifyStellarX402WithFacilitator (xr_payload prepared) (xr_requirements prepared)) (\<lambda>refusal.
                case refusal of
                  Some r \<Rightarrow> bind (release_nonce (xr_hash prepared)) (\<lambda>_. Done (x402_refusal r))
                | None \<Rightarrow> x402_verified xe q authHeader prepared))))"

end
