(* ===== verification/ProxyQuote.thy ===== *)
theory ProxyQuote
  imports ProxyX402
begin

text \<open>
  The steps of \<open>handleProxy\<close> (\<open>src/src/routes/proxy.ts\<close>) before a payment is looked at: the routes that do not exist,
  the relay of directly settled routes (\<open>src/src/routes/provider-relay.ts\<close>), the daily cap, the quote of the merchant,
  and the checks that the router could pay it (\<open>src/src/mpp/session-preflight.ts\<close> and the balance of the pool).  An em dash in a message is written as a hyphen.
\<close>

subsection \<open>No such route\<close>

definition no_route :: "xenv \<Rightarrow> proxy_request \<Rightarrow> response prog" where
  "no_route xe rq =
     await (AllowedMethods (xr_path rq)) (\<lambda>y. case y of
       AMethods allowed \<Rightarrow>
         let unknown = Done (json_with 400 []
               [(''error'', JStr ''Unknown public service route''),
                (''hint'', JStr ''Use GET /v1/services/catalog for the list of supported public routes'')]) in
         if allowed \<noteq> []
         then Done (json_with 405 [(''Allow'', sep_by '', '' allowed)]
           [(''error'', JStr ''Method not allowed for this service route''), (''path'', JStr (xr_path rq)),
            (''method'', JStr (xr_method rq)), (''allowed_methods'', JArr (map JStr allowed)),
            (''hint'', JStr (''Retry with '' @ sep_by '' or '' allowed @ ''. The catalog '' @ [char_of (39 :: nat)] @ ''method'' @
              [char_of (39 :: nat)] @ '' field is authoritative - see GET /v1/services/catalog.''))])
         else if xr_method rq = ''GET'' \<and> \<not> xe_hosted_host xe (xr_hostname rq)
         then await (ProviderIndex (xr_path rq)) (\<lambda>z. case z of AIndex (Some r) \<Rightarrow> Done r | AIndex None \<Rightarrow> unknown | _ \<Rightarrow> unexpected)
         else unknown
     | _ \<Rightarrow> unexpected)"

subsection \<open>provider-relay.ts\<close>

definition FORWARD_REQUEST_HEADERS :: "string list" where
  "FORWARD_REQUEST_HEADERS =
     [''accept'', ''accept-language'', ''accept-encoding'', ''content-type'', ''payment-signature'', ''x-payment'',
      ''accept-payment'', ''payment-required'', ''x-mpp-client-id'', ''idempotency-key'', ''x-request-id'', ''user-agent'']"

definition forwardableAuthorization :: "string option \<Rightarrow> string option" where
  "forwardableAuthorization value =
     (case value of Some (c # s) \<Rightarrow> if payment_scheme (js_trim (c # s)) then Some (c # s) else None | _ \<Rightarrow> None)"

definition DROP_RESPONSE_HEADERS :: "string list" where
  "DROP_RESPONSE_HEADERS =
     [''connection'', ''keep-alive'', ''transfer-encoding'', ''content-encoding'', ''content-length'', ''alt-svc'', ''server'',
      ''cf-ray'', ''cf-cache-status'', ''set-cookie'', ''set-cookie2'', ''refresh'', ''link'', ''clear-site-data'',
      ''service-worker-allowed'', ''content-security-policy-report-only'', ''report-to'', ''reporting-endpoints'', ''nel'']"

definition isolation_policy :: string where
  "isolation_policy =
     (let q = (\<lambda>s. [char_of (39 :: nat)] @ s @ [char_of (39 :: nat)]) in
      ''sandbox; default-src '' @ q ''none'' @ ''; base-uri '' @ q ''none'' @ ''; form-action '' @ q ''none'' @
      ''; frame-ancestors '' @ q ''none'')"

text \<open>\<open>/^application\/[a-z0-9!#$&^_.+-]+\+json$/\<close>\<close>

definition suffix_json :: "string \<Rightarrow> bool" where
  "suffix_json mime \<longleftrightarrow>
     (let t = drop (length ''application/'') mime; name = take (length t - 5) t in
      is_prefix ''application/'' mime \<and> 5 \<le> length t \<and> drop (length t - 5) t = ''+json'' \<and> name \<noteq> [] \<and>
      list_all (\<lambda>c. word_char c \<and> lower_char c = c \<or> c \<in> set ''!#$&^.+-'') name)"

definition isolatedResponseHeaders :: "(string \<times> string) list \<Rightarrow> (string \<times> string) list" where
  "isolatedResponseHeaders source =
     (let headers = set_header ''X-Content-Type-Options'' ''nosniff'' (set_header ''Content-Security-Policy'' isolation_policy source);
          mime = js_lower (js_trim (takeWhile (\<lambda>c. c \<noteq> CHR '';'')
            (case header_of headers ''Content-Type'' of Some t \<Rightarrow> t | None \<Rightarrow> [])));
          passiveApiType = (mime \<in> {''application/json'', ''text/plain'', ''text/event-stream''} \<or> suffix_json mime) in
      if passiveApiType then headers
      else set_header ''Content-Disposition''
             (''attachment; filename='' @ QUOT @ ''provider-response.bin'' @ QUOT)
             (set_header ''Content-Type'' ''application/octet-stream'' headers))"

definition isDirectSettlementRoute :: "proxy_route \<Rightarrow> bool" where
  "isDirectSettlementRoute route \<longleftrightarrow> xo_operator route \<noteq> None \<and> \<not> xo_hosted route"

text \<open>The URL is built from the route; the whole query is passed on.\<close>

definition relayTargetUrl :: "xenv \<Rightarrow> proxy_route \<Rightarrow> proxy_request \<Rightarrow> string" where
  "relayTargetUrl xe route rq =
     (let s = pe_query (xe_penv xe) (xr_query rq) in
      ''https://'' @ pr_host (xo_route route) @ pr_path (xo_route route) @ (if s = [] then [] else ''?'' @ s))"

definition relay_headers :: "proxy_route \<Rightarrow> proxy_request \<Rightarrow> (string \<times> string) list" where
  "relay_headers route rq =
     set_header ''X-MPP-Router-Relay'' (route_id route)
       (filter (\<lambda>(key, value). let lower = js_lower key in
          if lower = ''authorization'' then forwardableAuthorization (Some value) \<noteq> None
          else lower \<in> set FORWARD_REQUEST_HEADERS) (xr_headers rq))"

definition relay_call :: "proxy_route \<Rightarrow> proxy_request \<Rightarrow> call_outcome \<Rightarrow> string option \<Rightarrow> int option \<Rightarrow> route_call" where
  "relay_call route rq outcome' reason status =
     \<lparr>rcl_callId = None, rcl_routeId = route_id route, rcl_method = xr_method rq, rcl_outcome = outcome', rcl_reason = reason,
      rcl_upstream = status\<rparr>"

definition ABORTED :: string where "ABORTED = ''AbortError''"

definition unreachable_reply :: "route_operator \<Rightarrow> bool \<Rightarrow> response" where
  "unreachable_reply operator timedOut =
     \<lparr>rs_status = 502, rs_headers = isolatedResponseHeaders JSON_HEADERS, rs_body = JObj
       [(''error'', JStr ''Provider endpoint unreachable''), (''provider'', JStr (op_id operator)), (''settlement'', JStr ''direct''),
        (''detail'', JStr (if timedOut then ''The provider did not answer within the relay timeout.'' else ''The provider could not be reached.'')),
        (''charged'', JBool False),
        (''note'', JStr ''MPP Router relays this route to the provider and never holds the payment; nothing was charged by the router.'')]\<rparr>"

definition EXPOSED_HEADERS :: string where
  "EXPOSED_HEADERS =
     sep_by '', '' [''Payment-Required'', ''Payment-Response'', ''X-Payment-Response'', ''Payment-Receipt'', ''WWW-Authenticate'',
       ''X-MPP-Router-Settlement'', ''X-MPP-Router-Provider'']"

definition relayed_headers :: "route_operator \<Rightarrow> (string \<times> string) list \<Rightarrow> (string \<times> string) list" where
  "relayed_headers operator upstream =
     isolatedResponseHeaders
       (set_header ''Access-Control-Expose-Headers'' EXPOSED_HEADERS
       (set_header ''X-MPP-Router-Provider'' (op_id operator)
       (set_header ''X-MPP-Router-Settlement'' ''direct''
         (filter (\<lambda>(key, value). js_lower key \<notin> set DROP_RESPONSE_HEADERS) upstream))))"

definition carriedCredential :: "proxy_request \<Rightarrow> bool" where
  "carriedCredential rq \<longleftrightarrow>
     header_of (xr_headers rq) ''payment-signature'' \<notin> {None, Some []} \<or>
     header_of (xr_headers rq) ''x-payment'' \<notin> {None, Some []} \<or>
     forwardableAuthorization (header_of (xr_headers rq) ''authorization'') \<noteq> None"

text \<open>An abort by the relay's timer is the failure of that name.\<close>

definition relayDirectSettlementRoute :: "xenv \<Rightarrow> proxy_route \<Rightarrow> route_operator \<Rightarrow> proxy_request \<Rightarrow> response prog" where
  "relayDirectSettlementRoute xe route operator rq =
     bind (attempt (fetch_text \<lparr>fc_method = xr_method rq, fc_url = relayTargetUrl xe route rq,
         fc_headers = relay_headers route rq, fc_body = request_body rq\<rparr>)) (\<lambda>r.
       case r of
         Inl e \<Rightarrow>
           (let timedOut = (exn_message e = ABORTED) in
            bind (recordRouteCall xe (relay_call route rq ProviderFault (Some (if timedOut then ''timeout'' else ''unreachable'')) None)) (\<lambda>_.
            bind (recordRouteFailure (route_id route) (if timedOut then ''timeout'' else ''upstream_5xx'')) (\<lambda>_.
            Done (unreachable_reply operator timedOut))))
       | Inr upstream \<Rightarrow>
           let status = ht_status upstream in
           if 300 \<le> status \<and> status < 400
           then bind (recordRouteCall xe (relay_call route rq ProviderFault (Some ''redirect'') (Some status))) (\<lambda>_.
                bind (recordRouteFailure (route_id route) ''upstream_5xx'') (\<lambda>_.
                Done \<lparr>rs_status = 502, rs_headers = isolatedResponseHeaders JSON_HEADERS, rs_body = JObj
                  [(''error'', JStr ''Provider endpoint redirected''), (''provider'', JStr (op_id operator)),
                   (''status'', JNum (int_str status)),
                   (''detail'', JStr ''Direct-settlement routes must be served on the verified origin without redirects.'')]\<rparr>))
           else
             let outcome' = (if status = 402 \<and> carriedCredential rq then ProviderFault
                             else classifyOutcome (Some status) False False False False) in
             bind (recordRouteCall xe (relay_call route rq outcome' None (Some status))) (\<lambda>_.
             bind (if outcome' = ProviderFault
                   then recordRouteFailure (route_id route) (if status = 408 then ''timeout'' else ''upstream_5xx'')
                   else if outcome' = CallOk then recordRouteSuccess (route_id route) else Done ()) (\<lambda>_.
             Done \<lparr>rs_status = status, rs_headers = relayed_headers operator (ht_headers upstream),
                   rs_body = JStr (case ht_text upstream of Some s \<Rightarrow> s | None \<Rightarrow> [])\<rparr>)))"

subsection \<open>The daily cap, read before anything is asked for\<close>

definition peek_slot :: "proxy_route \<Rightarrow> (response + rate_slot) prog" where
  "peek_slot route =
     (case pr_rate (xo_route route) of
        None \<Rightarrow> Done (Inr None)
      | Some perDay \<Rightarrow>
          bind date_now (\<lambda>now.
          let rlKey = ''ratelimit:'' @ pr_service (xo_route route) @ '':'' @ RateLimit.utcDateKey now in
          await (PeekDaily rlKey perDay) (\<lambda>y. case y of
            APeek (ok, used) \<Rightarrow>
              if ok then Done (Inr (Some (rlKey, perDay))) else bind (too_many used perDay) (\<lambda>r. Done (Inl r))
          | _ \<Rightarrow> unexpected)))"

subsection \<open>The quote\<close>

definition synthetic_challenge :: "string \<Rightarrow> string \<Rightarrow> string \<Rightarrow> string \<Rightarrow> tempo_challenge" where
  "synthetic_challenge i merchantHost amount recipient =
     \<lparr>tq_id = i, tq_realm = merchantHost, tq_intent = ''charge'',
      tq_request = JObj [(''amount'', JStr amount), (''currency'', JStr ''usd''), (''decimals'', JNum ''6''), (''recipient'', JStr recipient)],
      tq_expires = None\<rparr>"

definition quote_unavailable :: "xenv \<Rightarrow> string option \<Rightarrow> response" where
  "quote_unavailable xe requestBody =
     (let normalizedInput = (case requestBody of
            Some (c # s) \<Rightarrow>
              (case xe_parse xe (c # s) of
                 Some parsed \<Rightarrow> map_option normalized_json (ni_normalized (normalizePayInvoiceBody (xe_url xe) parsed))
               | None \<Rightarrow> None)
          | _ \<Rightarrow> None);
          dash = '' - '' in
      json_with 502 []
        ([(''code'', JStr ''QUOTE_UNAVAILABLE''), (''error'', JStr ''Cannot derive exact invoice amount for pay-invoice route''),
          (''message'', JStr ''Router refuses fallback quote to avoid undercharging. quote-invoice must return callerPaysAtomicUsdc.''),
          (''hint'', JStr (''The upstream quote-invoice endpoint did not return a valid callerPaysAtomicUsdc. This may be a temporary upstream error'' @
             dash @ ''retry, or check that the payment link is valid and not expired.''))] @
         (case normalizedInput of Some j \<Rightarrow> [(''normalized_input'', j)] | None \<Rightarrow> []) @
         [(''route_capabilities'', JArr
            [JStr (''POST /v1/services/rozo-agent-api/pay-invoice'' @ dash @ ''pay invoice (requires active link)''),
             JStr (''POST /v1/services/rozo-agent-api/quote-invoice'' @ dash @ ''get quote before paying'')])]))"

text \<open>The greater of the two, both decimal digits.\<close>

definition safe_side :: "string \<Rightarrow> string option \<Rightarrow> string" where
  "safe_side gatedAmount x402Amount =
     (case x402Amount of None \<Rightarrow> gatedAmount | Some x \<Rightarrow> if dec_val gatedAmount > dec_val x then gatedAmount else x)"

definition invoice_quote :: "xenv \<Rightarrow> proxy_route \<Rightarrow> http_text \<Rightarrow> string option \<Rightarrow> (response + tempo_challenge) prog" where
  "invoice_quote xe route probe requestBody =
     bind checkoutDeliveryPaused (\<lambda>paused.
     if paused then Done (Inl checkoutPausedResponse)
     else bind (body_of probe) (\<lambda>rawBody.
     let x402Amount = parseX402AmountFromBody xe rawBody in
     bind (quoteInvoiceAmountBaseUnits xe requestBody) (\<lambda>gatedAmount.
     case gatedAmount of
       None \<Rightarrow> Done (Inl (quote_unavailable xe requestBody))
     | Some g \<Rightarrow>
         bind date_now (\<lambda>now.
         Done (Inr (synthetic_challenge (''x402-'' @ int_str now) (pr_host (xo_route route)) (safe_side g x402Amount)
           ''router-admin-bypass''))))))"

text \<open>The first challenge of the merchant's 402, and the header it came in, or the answer to give instead.\<close>

definition probe_quote ::
    "xenv \<Rightarrow> proxy_route \<Rightarrow> proxy_request \<Rightarrow> string \<Rightarrow> string option \<Rightarrow> (response + tempo_challenge option \<times> string option) prog" where
  "probe_quote xe route rq merchantUrl requestBody =
     (case xo_fixedUsd route of
        Some amountUsd \<Rightarrow>
          bind date_now (\<lambda>now.
          bind (from_sum (fixedPriceToBaseUnits6 amountUsd)) (\<lambda>amount.
          Done (Inr (Some (synthetic_challenge (''mercury-fixed-'' @ int_str now) (pr_host (xo_route route)) amount (route_id route)), None))))
      | None \<Rightarrow>
          bind (fetch_text \<lparr>fc_method = xr_method rq, fc_url = merchantUrl, fc_headers = forwardHeaders rq False, fc_body = requestBody\<rparr>) (\<lambda>probe.
          if ht_status probe \<noteq> 402 then Done (Inl (of_fetch probe))
          else case header_of (ht_headers probe) ''www-authenticate'' of
            Some (c # s) \<Rightarrow> Done (Inr (parseTempoChallenge xe (c # s), Some (c # s)))
          | _ \<Rightarrow>
              if isRozoPayInvoiceRoute route
              then bind (invoice_quote xe route probe requestBody) (\<lambda>r.
                   Done (case r of Inl resp \<Rightarrow> Inl resp | Inr p \<Rightarrow> Inr (Some p, None)))
              else Done (Inl (json_with 502 [] [(''error'', JStr ''Merchant returned 402 without WWW-Authenticate header'')]))))"

definition temporarily_unable :: "string \<Rightarrow> response" where
  "temporarily_unable detail =
     json_with 503 [(''Retry-After'', ''300'')]
       [(''error'', JStr ''Router temporarily unable to serve this route''), (''detail'', JStr detail)]"

text \<open>The offer our channel can pay, on the routes that are paid through a channel.\<close>

definition session_quote ::
    "xenv \<Rightarrow> proxy_route \<Rightarrow> tempo_challenge option \<Rightarrow> string \<Rightarrow> (response + tempo_challenge option) prog" where
  "session_quote xe route parsed wwwAuth =
     (case xe_challenges xe wwwAuth of
        None \<Rightarrow> Done (Inl (json_with 502 []
          [(''error'', JStr ''Could not parse merchant challenge''), (''detail'', JStr ''Nothing was charged.'')]))
      | Some offered \<Rightarrow>
          if list_ex tq_session offered \<and> (pr_payment (xo_route route) = ''tempo.session'' \<or> tq_session (hd offered))
          then bind (getTempoChannel (xe_penv xe) (sessionChannelKeyFor (xo_route route))) (\<lambda>channel.
            Done (case (case channel of Some c \<Rightarrow> selectSessionChallenge xe offered c | None \<Rightarrow> Inl (''channel_not_installed'', [])) of
              Inl (reason, _) \<Rightarrow> Inl (temporarily_unable (''Session channel check failed: '' @ reason @ ''. Nothing was charged.''))
            | Inr c \<Rightarrow> Inr (Some c)))
          else Done (Inr parsed))"

definition quote_merchant ::
    "xenv \<Rightarrow> proxy_route \<Rightarrow> proxy_request \<Rightarrow> string \<Rightarrow> string option \<Rightarrow> (response + tempo_challenge) prog" where
  "quote_merchant xe route rq merchantUrl requestBody =
     bind (probe_quote xe route rq merchantUrl requestBody) (\<lambda>r.
       case r of
         Inl resp \<Rightarrow> Done (Inl resp)
       | Inr (parsed, wwwAuth) \<Rightarrow>
           bind (case wwwAuth of None \<Rightarrow> Done (Inr parsed) | Some w \<Rightarrow> session_quote xe route parsed w) (\<lambda>r'.
           Done (case r' of
             Inl resp \<Rightarrow> Inl resp
           | Inr None \<Rightarrow> Inl (json_with 502 []
               [(''error'', JStr ''Could not parse merchant challenge''),
                (''raw'', case wwwAuth of Some w \<Rightarrow> JStr w | None \<Rightarrow> JNull)])
           | Inr (Some p) \<Rightarrow> Inr p)))"

subsection \<open>Could the router pay it?\<close>

definition SESSION_HEADROOM_SAFETY_FACTOR :: int where "SESSION_HEADROOM_SAFETY_FACTOR = 2"

text \<open>None is \<open>ok\<close>, otherwise the reason; a currency that is no text, and an unreadable cumulative, throw.\<close>

definition evaluateSessionPreflight :: "tempo_channel \<Rightarrow> json option \<Rightarrow> int \<Rightarrow> int \<Rightarrow> int \<Rightarrow> int \<Rightarrow> (exn + string option)" where
  "evaluateSessionPreflight channel challengeCurrency quoteRaw deposit settled closeRequestedAt =
     (case jstring challengeCurrency of
        None \<Rightarrow> Inl (JsExn ''TypeError'')
      | Some currency \<Rightarrow>
          if js_lower (tc_currency channel) \<noteq> js_lower currency then Inr (Some ''currency_mismatch'')
          else if closeRequestedAt \<noteq> 0 then Inr (Some ''channel_closing'')
          else case js_BigInt (tc_cumulativeRaw channel) of
            Inl _ \<Rightarrow> Inl (JsExn ''SyntaxError'')
          | Inr cumulative \<Rightarrow>
              let used = (if cumulative > settled then cumulative else settled); headroom = deposit - used in
              if headroom < quoteRaw * SESSION_HEADROOM_SAFETY_FACTOR then Inr (Some ''insufficient_headroom'') else Inr None)"

definition checkSessionPreflight :: "xenv \<Rightarrow> string \<Rightarrow> json option \<Rightarrow> int \<Rightarrow> string option prog" where
  "checkSessionPreflight xe channelKey challengeCurrency quoteRaw =
     bind (getTempoChannel (xe_penv xe) channelKey) (\<lambda>c.
       case c of
         None \<Rightarrow> Done (Some ''channel_not_installed'')
       | Some channel \<Rightarrow>
           bind (attempt (await (SessionState (tc_channelId channel)) (\<lambda>y. case y of
             AChain deposit settled closeRequestedAt \<Rightarrow>
               from_sum (evaluateSessionPreflight channel challengeCurrency quoteRaw deposit settled closeRequestedAt)
           | _ \<Rightarrow> unexpected))) (\<lambda>r.
           Done (case r of Inr reason \<Rightarrow> reason | Inl _ \<Rightarrow> Some ''read_failed'')))"

definition TEMPO_USDC_HANDLE :: string where "TEMPO_USDC_HANDLE = ''0x20c000000000000000000000b9537d11c60e8b50''"
definition LOW_BALANCE_THRESHOLD :: int where "LOW_BALANCE_THRESHOLD = 5000000"

text \<open>\<open>parsed.request.currency || TEMPO_USDC_HANDLE\<close>, on which \<open>toLowerCase\<close> is called.\<close>

definition quoted_token :: "tempo_challenge \<Rightarrow> exn + string" where
  "quoted_token parsed =
     (let currency = jfield (tq_request parsed) ''currency'' in
      if \<not> truthy currency then Inr TEMPO_USDC_HANDLE
      else case jstring currency of Some s \<Rightarrow> Inr s | None \<Rightarrow> Inl (JsExn ''TypeError''))"

definition check_balance :: "xenv \<Rightarrow> tempo_challenge \<Rightarrow> int \<Rightarrow> response option prog" where
  "check_balance xe parsed quote =
     bind (from_sum (quoted_token parsed)) (\<lambda>quotedToken.
     await (TempoBalance quotedToken) (\<lambda>y. case y of
       ABalance None \<Rightarrow> Done None
     | ABalance (Some balance) \<Rightarrow>
         let quotesUsdc = (js_lower quotedToken = TEMPO_USDC_HANDLE) in
         bind (if quotesUsdc \<and> balance < LOW_BALANCE_THRESHOLD \<and> xe_alerts xe then ignoring (await_unit (LowBalanceAlert balance)) else Done ()) (\<lambda>_.
         Done (if balance < quote
           then Some (temporarily_unable (''Tempo pool balance ('' @ xe_fixed xe balance 2 @ '' '' @
             (if quotesUsdc then ''USDC'' else ''quoted token'') @ '') is insufficient for merchant quote ('' @
             xe_fixed xe quote 4 @ ''). Please try again later.''))
           else None))
     | _ \<Rightarrow> unexpected))"

definition preflight :: "xenv \<Rightarrow> proxy_route \<Rightarrow> tempo_challenge \<Rightarrow> response option prog" where
  "preflight xe route parsed =
     (if xo_fixedUsd route \<noteq> None then Done None
      else case json_BigInt (tq_amount parsed) of
        Inl _ \<Rightarrow> Done (if tq_session parsed then Some (temporarily_unable ''Merchant quote is unreadable. Nothing was charged.'') else None)
      | Inr quote \<Rightarrow>
          if tq_session parsed
          then bind (checkSessionPreflight xe (sessionChannelKeyFor (xo_route route)) (jfield (tq_request parsed) ''currency'') quote) (\<lambda>refused.
               Done (map_option (\<lambda>reason. temporarily_unable (''Session channel check failed: '' @ reason @ ''. Nothing was charged.'')) refused))
          else check_balance xe parsed quote)"

end
