(* ===== verification/ProxyCharge.thy ===== *)
theory ProxyCharge
  imports ProxyQuote
begin

text \<open>
  The rest of \<open>handleProxy\<close> (\<open>src/src/routes/proxy.ts\<close>): the buyer's payment is verified by the payment library, as a
  charge or as a voucher of a Stellar channel (\<open>src/src/mpp/stellar-channel-dispatch.ts\<close>), the merchant is paid, and a
  call that is not delivered is taken back, refunded, or marked for review.  \<open>withReceipt\<close> adds the library's receipt to
  the response and is left out; \<open>ctx.waitUntil\<close> runs its task at once and ignores its failure.
\<close>

subsection \<open>Whom the buyer pays\<close>

definition settlement_recipient :: "xenv \<Rightarrow> proxy_route \<Rightarrow> response + string" where
  "settlement_recipient xe route =
     (case xo_operator route of
        None \<Rightarrow> Inr (xe_router_public xe)
      | Some operator \<Rightarrow>
          (case stellar_payout operator of
             None \<Rightarrow> Inl (json_with 503 []
               [(''error'', JStr ''Provider route misconfigured''),
                (''detail'', JStr ''This third-party service has no Stellar settlement address.'')])
           | Some payTo \<Rightarrow> Inr payTo))"

record stellar_resolved =
  sv_contract :: string
  sv_key :: string
  sv_agent :: string
  sv_currency :: string

definition resolveStellarChannelMppx :: "xenv \<Rightarrow> string option \<Rightarrow> string option \<Rightarrow> stellar_resolved prog" where
  "resolveStellarChannelMppx xe authHeader agentHint =
     (let agent = (case extractAgentAccount (xe_chan xe) authHeader of Some g \<Rightarrow> Some g | None \<Rightarrow> agentHint) in
      if agent = None \<or> agent = Some []
      then Throw (JsExn ''No stellar.channel credential with parseable source in Authorization header and no ?agent= query hint'')
      else let agentAccount = the agent in
        if \<not> address_re (CHR ''G'') agentAccount then Throw (JsExn (''invalid Stellar G address: '' @ agentAccount))
        else await (ChannelForAgent agentAccount) (\<lambda>y. case y of
          AAgentChannel (Some (c # s)) \<Rightarrow>
            await (StellarChannel (c # s)) (\<lambda>z. case z of
              AStellarChannel (Some state) \<Rightarrow>
                Done \<lparr>sv_contract = c # s, sv_key = sc_commitmentKey state, sv_agent = sc_agent state, sv_currency = sc_currency state\<rparr>
            | AStellarChannel None \<Rightarrow> Throw (StellarChannelNotRegisteredError agentAccount)
            | _ \<Rightarrow> unexpected)
        | AAgentChannel _ \<Rightarrow> Throw (StellarChannelNotRegisteredError agentAccount)
        | _ \<Rightarrow> unexpected))"

definition unresolved :: "exn \<Rightarrow> response" where
  "unresolved e =
     (case e of
        StellarChannelNotRegisteredError g \<Rightarrow> json_with 402 []
          [(''error'', JStr ''Router does not recognize this agent''), (''detail'', JStr (exn_message e)),
           (''hint'', JStr ''Deploy a Stellar channel contract and run scripts/admin/register-stellar-channel.ts before first use.'')]
      | _ \<Rightarrow> json_with 500 []
          [(''error'', JStr ''Router payment handler misconfigured''), (''detail'', JStr (exn_message e))])"

subsection \<open>What the buyer pays\<close>

definition stellar_amount :: "tempo_challenge \<Rightarrow> (exn + response + string)" where
  "stellar_amount parsed =
     (case quote_decimals parsed of
        Inl e \<Rightarrow> Inl e
      | Inr (text, decimals) \<Rightarrow>
          (case decimals of
             None \<Rightarrow> Inr (Inl (json_with 502 []
               [(''error'', JStr ''Merchant challenge carried an invalid decimals field''), (''raw'', tq_request parsed)]))
           | Some d \<Rightarrow>
               if d < 0
               then Inr (Inl (json_with 502 []
                 [(''error'', JStr ''Merchant challenge carried an invalid decimals field''), (''raw'', tq_request parsed)]))
               else if d > STELLAR_USDC_DECIMALS
               then Inr (Inl (json_with 502 []
                 [(''error'', JStr ''Merchant token precision exceeds Stellar USDC''),
                  (''detail'', JStr (''merchant decimals='' @ text @ '', stellar='' @ int_str STELLAR_USDC_DECIMALS @
                     ''. See notes.md for chains that need explicit handling (e.g. BNB Chain ERC-20 = 18 decimals).''))]))
               else (case amount_decimal (tq_amount parsed) d of
                 Inl e \<Rightarrow> Inr (Inl (json_with 502 []
                   [(''error'', JStr ''Could not normalize merchant amount''), (''detail'', JStr (exn_message e))]))
               | Inr s \<Rightarrow> Inr (Inr s))))"

definition channel_amount :: "xenv \<Rightarrow> string \<Rightarrow> string \<Rightarrow> response + string" where
  "channel_amount xe currency stellarAmount =
     (if currency \<noteq> STELLAR_NATIVE_XLM_SAC then Inr stellarAmount
      else if \<not> jr_positive (xe_xlm_rate xe)
      then Inl (json_with 500 []
        [(''error'', JStr ''XLM_USD_RATE misconfigured''),
         (''detail'', JStr (''Worker env XLM_USD_RATE must be a positive number, got '' @ xe_xlm_var xe))])
      else case convertUsdcToXlm stellarAmount (xe_xlm_rate xe) of
        Inl e \<Rightarrow> Inl (json_with 502 []
          [(''error'', JStr ''Could not convert USDC amount to XLM''), (''detail'', JStr (exn_message e))])
      | Inr s \<Rightarrow> Inr s)"

subsection \<open>What was paid\<close>

record proxy_voucher =
  pv_challengeId :: string
  pv_accepted :: string
  pv_previous :: string
  pv_close :: bool

record paid_call =
  pd_channel :: bool
  pd_contract :: "string option"
  pd_lock :: "string option"
  pd_proof :: "payment_proof option"
  pd_voucher :: "proxy_voucher option"
  pd_payer :: "string option"

text \<open>\<open>v.k\<close>, which throws when \<open>v\<close> is undefined or null.\<close>

definition member :: "json option \<Rightarrow> string \<Rightarrow> json option option" where
  "member v k = (if v = None \<or> v = Some JNull then None else Some (optional v k))"

definition member2 :: "json option \<Rightarrow> string \<Rightarrow> string \<Rightarrow> json option option" where
  "member2 v k l = Option.bind (member v k) (\<lambda>w. member w l)"

text \<open>\<open>payerAccount(source)\<close>\<close>

definition payer_of :: "json option \<Rightarrow> string option" where
  "payer_of source = (case jstring source of None \<Rightarrow> None | Some s \<Rightarrow> (case payerAccount s of Inr g \<Rightarrow> Some g | Inl _ \<Rightarrow> None))"

definition proof_of ::
    "json option option \<Rightarrow> json option option \<Rightarrow> string option \<Rightarrow> json option option \<Rightarrow> json option option \<Rightarrow> json option option
      \<Rightarrow> pay_mode \<Rightarrow> payment_proof option" where
  "proof_of i tx payer recipient asset amount mode =
     (case (i, tx, payer, recipient, asset, amount) of
        (Some i', Some tx', Some g, Some r, Some a, Some n) \<Rightarrow>
          Some \<lparr>p_paymentId = shown i', p_paymentTx = shown tx', p_payer = g, p_recipient = shown r, p_asset = shown a,
                p_amountAtomic = shown n, p_mode = mode\<rparr>
      | _ \<Rightarrow> None)"

text \<open>The hook of a charge, and the same from the credential and the receipt.\<close>

definition charge_hook :: "json option \<Rightarrow> payment_proof option" where
  "charge_hook payment =
     proof_of (member2 payment ''challenge'' ''id'') (member2 payment ''receipt'' ''reference'')
       (Option.bind (member2 payment ''credential'' ''source'') payer_of) (member2 payment ''request'' ''recipient'')
       (member2 payment ''request'' ''currency'') (member2 payment ''request'' ''amount'') ModeCharge"

definition challenge_member :: "json option \<Rightarrow> string \<Rightarrow> json option option" where
  "challenge_member credential k = Option.bind (member2 credential ''challenge'' ''request'') (\<lambda>r. member r k)"

definition recovered_charge :: "xenv \<Rightarrow> string option \<Rightarrow> string option \<Rightarrow> payment_proof option" where
  "recovered_charge xe authHeader receipt =
     (case (Option.bind authHeader (ce_credential (xe_chan xe)), receipt) of
        (Some credential, Some reference) \<Rightarrow>
          proof_of (member2 (Some credential) ''challenge'' ''id'') (Some (Some (JStr reference)))
            (payer_of (jfield credential ''source'')) (challenge_member (Some credential) ''recipient'')
            (challenge_member (Some credential) ''currency'') (challenge_member (Some credential) ''amount'') ModeCharge
      | _ \<Rightarrow> None)"

text \<open>The hook of a voucher sets the payer, then the voucher, then for a close the proof, until something is missing.\<close>

definition voucher_capture ::
    "xenv \<Rightarrow> string \<Rightarrow> string \<Rightarrow> json option option \<Rightarrow> string option \<Rightarrow> json option option \<Rightarrow> json option option \<Rightarrow> json option option
      \<Rightarrow> string option \<times> proxy_voucher option \<times> payment_proof option" where
  "voucher_capture xe previousAmount currency payload payer challengeId tx amount =
     (case (payload, payer) of
        (Some p, Some g) \<Rightarrow>
          (if p = None \<or> p = Some JNull then (None, None, None)
           else case challengeId of
             None \<Rightarrow> (Some g, None, None)
           | Some i \<Rightarrow>
               let close = (optional p ''action'' = Some (JStr ''close'')) in
               (Some g, Some \<lparr>pv_challengeId = shown i, pv_accepted = shown (optional p ''amount''), pv_previous = previousAmount,
                              pv_close = close\<rparr>,
                if close then proof_of (Some i) tx (Some g) (Some (Some (JStr (xe_router_public xe)))) (Some (Some (JStr currency))) amount ModeChannel
                else None))
      | _ \<Rightarrow> (None, None, None))"

definition channel_hook ::
    "xenv \<Rightarrow> json option \<Rightarrow> string \<Rightarrow> string \<Rightarrow> string option \<times> proxy_voucher option \<times> payment_proof option" where
  "channel_hook xe payment previousAmount currency =
     voucher_capture xe previousAmount currency (member2 payment ''credential'' ''payload'')
       (Option.bind (member2 payment ''credential'' ''source'') payer_of) (member2 payment ''challenge'' ''id'')
       (member2 payment ''receipt'' ''reference'') (member2 payment ''request'' ''amount'')"

definition recovered_channel ::
    "xenv \<Rightarrow> string \<Rightarrow> string option \<Rightarrow> string \<Rightarrow> string \<Rightarrow> string option \<times> proxy_voucher option \<times> payment_proof option" where
  "recovered_channel xe authHeader receipt previousAmount currency =
     (case (ce_credential (xe_chan xe) authHeader, receipt) of
        (Some credential, Some reference) \<Rightarrow>
          voucher_capture xe previousAmount currency (member (Some credential) ''payload'') (payer_of (jfield credential ''source''))
            (member2 (Some credential) ''challenge'' ''id'') (Some (Some (JStr reference))) (challenge_member (Some credential) ''amount'')
      | _ \<Rightarrow> (None, None, None))"

definition either :: "'a option \<Rightarrow> 'a option \<Rightarrow> 'a option" where
  "either a b = (case a of Some x \<Rightarrow> Some x | None \<Rightarrow> b)"

text \<open>What the capture of a voucher leaves, with the recovery when the hook gave no voucher.\<close>

definition captured_channel ::
    "xenv \<Rightarrow> string option \<Rightarrow> stellar_resolved \<Rightarrow> (string \<times> string) option \<Rightarrow> json option \<Rightarrow> string option \<Rightarrow> paid_call" where
  "captured_channel xe authHeader resolved held payment receipt =
     (let (payer, voucher, proof) = (case held of
            None \<Rightarrow> (None, None, None)
          | Some (lockId, previousAmount) \<Rightarrow>
              (let (g, v, pr) = channel_hook xe payment previousAmount (sv_currency resolved) in
               if v \<noteq> None \<or> authHeader = None \<or> sv_currency resolved = [] then (g, v, pr)
               else let (g', v', pr') = recovered_channel xe (the authHeader) receipt previousAmount (sv_currency resolved) in
                    (either g' g, v', pr'))) in
      \<lparr>pd_channel = True, pd_contract = Some (sv_contract resolved), pd_lock = map_option fst held, pd_proof = proof,
       pd_voucher = voucher, pd_payer = payer\<rparr>)"

definition captured_charge :: "xenv \<Rightarrow> string option \<Rightarrow> json option \<Rightarrow> string option \<Rightarrow> paid_call" where
  "captured_charge xe authHeader payment receipt =
     \<lparr>pd_channel = False, pd_contract = None, pd_lock = None,
      pd_proof = either (charge_hook payment) (recovered_charge xe authHeader receipt), pd_voucher = None, pd_payer = None\<rparr>"

subsection \<open>Verification\<close>

definition verify_payment :: "pay_check \<Rightarrow> pay_answer prog" where
  "verify_payment c = await (VerifyPayment c) (\<lambda>y. case y of APay a \<Rightarrow> Done a | _ \<Rightarrow> unexpected)"

definition charge_check :: "xenv \<Rightarrow> quoted_call \<Rightarrow> string option \<Rightarrow> string \<Rightarrow> string \<Rightarrow> pay_check" where
  "charge_check xe q authHeader stellarAmount recipient =
     \<lparr>py_channel = None, py_amount = stellarAmount, py_currency = getStellarUsdcSac (xe_chan xe), py_recipient = recipient,
      py_meta = route_id (qc_route q), py_authorization = authHeader\<rparr>"

definition channel_check :: "quoted_call \<Rightarrow> string option \<Rightarrow> stellar_resolved \<Rightarrow> string \<Rightarrow> pay_check" where
  "channel_check q authHeader resolved channelAmount =
     \<lparr>py_channel = Some (sv_contract resolved, sv_key resolved), py_amount = channelAmount, py_currency = [], py_recipient = [],
      py_meta = tq_id (qc_parsed q), py_authorization = authHeader\<rparr>"

definition verification_failed :: "exn \<Rightarrow> response" where
  "verification_failed e = json_with 402 [] [(''error'', JStr ''Payment verification failed''), (''detail'', JStr (exn_message e))]"

text \<open>Under the delivery lock: the watermark before the voucher, and what the library says of it.\<close>

definition locked_verify :: "stellar_resolved \<Rightarrow> string \<Rightarrow> pay_check \<Rightarrow> (response + string \<times> pay_answer) prog" where
  "locked_verify resolved lockId check =
     bind (acquireChannelDeliveryLock (sv_contract resolved) lockId) (\<lambda>acquired.
     if \<not> acquired
     then Done (Inl (json_with 409 [(''Retry-After'', ''2'')]
       [(''error'', JStr ''Another channel delivery is in progress''), (''hint'', JStr ''Retry this exact request shortly.'')]))
     else bind (store_get (cumulativeKey (sv_contract resolved))) (\<lambda>previous.
          bind (verify_payment check) (\<lambda>a. Done (Inr (watermark_text previous, a)))))"

definition verify_channel ::
    "quoted_call \<Rightarrow> string option \<Rightarrow> stellar_resolved \<Rightarrow> string \<Rightarrow> (response + (string \<times> string) option \<times> pay_answer) prog" where
  "verify_channel q authHeader resolved channelAmount =
     (let check = channel_check q authHeader resolved channelAmount in
      if authHeader = None
      then bind (attempt (verify_payment check)) (\<lambda>r.
        Done (case r of Inl e \<Rightarrow> Inl (verification_failed e) | Inr a \<Rightarrow> Inr (None, a)))
      else bind uuid (\<lambda>lockId.
        bind (attempt (locked_verify resolved lockId check)) (\<lambda>r.
          case r of
            Inl e \<Rightarrow> bind (ignoring (releaseChannelDeliveryLock (sv_contract resolved) lockId)) (\<lambda>_. Done (Inl (verification_failed e)))
          | Inr (Inl resp) \<Rightarrow> Done (Inl resp)
          | Inr (Inr (previousAmount, a)) \<Rightarrow> Done (Inr (Some (lockId, previousAmount), a)))))"

definition verify_charge :: "pay_check \<Rightarrow> (response + pay_answer) prog" where
  "verify_charge check =
     bind (attempt (verify_payment check)) (\<lambda>r. Done (case r of Inl e \<Rightarrow> Inl (verification_failed e) | Inr a \<Rightarrow> Inr a))"

text \<open>The challenge of the library, beside the one of x402.\<close>

definition remove_header :: "string \<Rightarrow> (string \<times> string) list \<Rightarrow> (string \<times> string) list" where
  "remove_header k hs = filter (\<lambda>(k', v). js_lower k' \<noteq> js_lower k) hs"

definition challenge_response :: "xenv \<Rightarrow> quoted_call \<Rightarrow> (string \<times> string) list \<Rightarrow> json \<Rightarrow> response" where
  "challenge_response xe q headers body =
     (let plain = \<lparr>rs_status = 402, rs_headers = headers, rs_body = body\<rparr> in
      case json_BigInt (tq_amount (qc_parsed q)) of
        Inl _ \<Rightarrow> plain
      | Inr quote \<Rightarrow>
          (case buildX402PaymentRequiredHeader xe quote (xr_url (qc_request q)) (xo_operator (qc_route q)) of
             Some value \<Rightarrow>
               let hs = set_header ''Payment-Required'' value headers in
               plain\<lparr>rs_headers := (if xo_hosted (qc_route q) then remove_header ''WWW-Authenticate'' hs else hs)\<rparr>
           | None \<Rightarrow> plain))"

subsection \<open>Evidence of the charge\<close>

definition payer_told :: "paid_call \<Rightarrow> string option" where
  "payer_told pd = either (map_option p_payer (pd_proof pd)) (pd_payer pd)"

definition withFacadeChargeEvidence :: "quoted_call \<Rightarrow> paid_call \<Rightarrow> string option \<Rightarrow> response \<Rightarrow> response prog" where
  "withFacadeChargeEvidence q pd upstreamCost resp =
     bind (from_sum (amount_decimal (tq_amount (qc_parsed q)) TEMPO_DEFAULT_DECIMALS)) (\<lambda>amount.
     let costed = set_header ''X-MPPRouter-Upstream-Cost'' (case upstreamCost of Some c \<Rightarrow> c | None \<Rightarrow> amount)
           (set_header ''X-MPPRouter-Quoted-Amount'' amount (rs_headers resp));
         told = (case payer_told pd of Some (c # s) \<Rightarrow> set_header ''X-MPPRouter-Payer'' (c # s) costed | _ \<Rightarrow> costed) in
     Done (resp\<lparr>rs_headers := set_header ''X-Payment-Method'' (if pd_channel pd then ''stellar.channel'' else ''stellar.charge'') told\<rparr>))"

definition with_header :: "string \<Rightarrow> string \<Rightarrow> response \<Rightarrow> response" where
  "with_header k v resp = resp\<lparr>rs_headers := set_header k v (rs_headers resp)\<rparr>"

definition refund_headers :: "quoted_call \<Rightarrow> refund_record \<Rightarrow> response \<Rightarrow> response" where
  "refund_headers q refund resp =
     with_header ''Refund-Status-Url'' (xr_origin (qc_request q) @ ''/v1/refunds/'' @ publicId refund)
       (with_header ''Refund-Status'' ''pending'' (with_header ''Refund-Id'' (publicId refund) resp))"

definition review :: "response \<Rightarrow> response" where
  "review resp = with_header ''Refund-Status'' ''manual-review'' resp"

subsection \<open>Locks and vouchers of a call\<close>

definition release_lock :: "paid_call \<Rightarrow> unit prog" where
  "release_lock pd =
     (case (pd_contract pd, pd_lock pd) of
        (Some c, Some lockId) \<Rightarrow> releaseChannelDeliveryLock c lockId
      | _ \<Rightarrow> Done ())"

definition open_voucher :: "paid_call \<Rightarrow> (string \<times> proxy_voucher) option" where
  "open_voucher pd =
     (case (pd_contract pd, pd_voucher pd) of
        (Some c, Some v) \<Rightarrow> if pd_channel pd \<and> \<not> pv_close v then Some (c, v) else None
      | _ \<Rightarrow> None)"

definition take_back :: "string \<Rightarrow> proxy_voucher \<Rightarrow> bool prog" where
  "take_back c v =
     bind (attempt (rollbackFailedChannelVoucher c (pv_accepted v) (pv_previous v) (pv_challengeId v))) (\<lambda>r.
     Done (case r of Inr b \<Rightarrow> b | Inl _ \<Rightarrow> False))"

definition rollback_status :: "bool \<Rightarrow> string" where
  "rollback_status rolledBack = (if rolledBack then ''voucher-not-consumed'' else ''manual-review'')"

subsection \<open>Order rows and refunds\<close>

definition order_row ::
    "quoted_call \<Rightarrow> payment_proof option \<Rightarrow> string \<Rightarrow> int \<Rightarrow> string \<Rightarrow> int \<Rightarrow> refund_mark \<Rightarrow> order_entry" where
  "order_row q proof orderId now amountUsd upstreamStatus mark =
     \<lparr>oe_id = orderId, oe_ts = now, oe_route = route_id (qc_route q), oe_payer = map_option p_payer proof, oe_amount = amountUsd,
      oe_currency = jfield (tq_request (qc_parsed q)) ''currency'', oe_ref = map_option p_paymentTx proof, oe_settlement = None,
      oe_attempts = [], oe_reason = None, oe_error = None, oe_path = qc_path q @ qc_search q, oe_upstream = upstreamStatus,
      oe_refund = mark\<rparr>"

definition record_row :: "xenv \<Rightarrow> quoted_call \<Rightarrow> payment_proof option \<Rightarrow> string \<Rightarrow> int \<Rightarrow> refund_mark \<Rightarrow> bool prog" where
  "record_row xe q proof orderId upstreamStatus mark =
     bind date_now (\<lambda>now.
     bind (from_sum (amount_decimal (tq_amount (qc_parsed q)) TEMPO_DEFAULT_DECIMALS)) (\<lambda>amountUsd.
     recordOrder xe (order_row q proof orderId now amountUsd upstreamStatus mark)))"

definition refund_input :: "quoted_call \<Rightarrow> payment_proof \<Rightarrow> refund_reason \<Rightarrow> string option \<Rightarrow> enqueue_input" where
  "refund_input q proof reason orderId =
     \<lparr>en_proof = proof, en_reason = reason, en_merchant = pr_host (xo_route (qc_route q)), en_routeId = route_id (qc_route q),
      en_orderId = orderId\<rparr>"

text \<open>The refund, or none when it could not be kept: then its row is marked unknown.\<close>

definition refund_or_mark ::
    "xenv \<Rightarrow> quoted_call \<Rightarrow> payment_proof \<Rightarrow> refund_reason \<Rightarrow> string \<Rightarrow> bool \<Rightarrow> refund_record option prog" where
  "refund_or_mark xe q proof reason orderId recorded =
     bind (attempt (enqueue (refund_input q proof reason (if recorded then Some orderId else None)))) (\<lambda>r.
       case r of
         Inr refund \<Rightarrow> Done (Some refund)
       | Inl _ \<Rightarrow>
           bind (if recorded then bind (updateOrderRefundStatus xe orderId RefundUnknown) (\<lambda>_. Done ()) else Done ()) (\<lambda>_. Done None))"

subsection \<open>The cap was reached after the payment\<close>

definition rate_rejected :: "xenv \<Rightarrow> quoted_call \<Rightarrow> paid_call \<Rightarrow> response \<Rightarrow> response prog" where
  "rate_rejected xe q pd reject =
     bind (case open_voucher pd of
         Some (c, v) \<Rightarrow>
           bind (take_back c v) (\<lambda>rolledBack.
           Done (with_header ''Refund-Mode'' ''channel-remainder'' (with_header ''Refund-Status'' (rollback_status rolledBack) reject)))
       | None \<Rightarrow>
           (case pd_proof pd of
              None \<Rightarrow> Done (review reject)
            | Some proof \<Rightarrow>
                bind (newOrderId xe) (\<lambda>orderId.
                bind (record_row xe q (Some proof) orderId 429 RefundPending) (\<lambda>recorded.
                bind (refund_or_mark xe q proof NonFulfillment orderId recorded) (\<lambda>refund.
                Done (case refund of Some rf \<Rightarrow> refund_headers q rf reject | None \<Rightarrow> review reject)))))) (\<lambda>resp.
     bind (ignoring (release_lock pd)) (\<lambda>_. withFacadeChargeEvidence q pd (Some ''0'') resp))"

subsection \<open>The merchant did not deliver\<close>

text \<open>\<open>recordFailedLeg\<close>; the id is made before, when there is a proof.\<close>

definition failed_leg :: "xenv \<Rightarrow> quoted_call \<Rightarrow> paid_call \<Rightarrow> string \<Rightarrow> int option \<Rightarrow> refund_mark \<Rightarrow> bool prog" where
  "failed_leg xe q pd orderId status mark =
     (case pd_proof pd of
        None \<Rightarrow> Done False
      | Some proof \<Rightarrow> record_row xe q (Some proof) orderId (case status of Some s \<Rightarrow> s | None \<Rightarrow> 0) mark)"

definition direct_failure :: "string \<Rightarrow> response \<Rightarrow> response" where
  "direct_failure recipient resp =
     with_header ''Settled-To'' recipient (with_header ''Refund-Mode'' ''direct''
       (with_header ''Refund-Status'' ''not-applicable-direct-settlement'' resp))"

definition undelivered ::
    "xenv \<Rightarrow> quoted_call \<Rightarrow> paid_call \<Rightarrow> string \<Rightarrow> response \<Rightarrow> refund_reason option \<Rightarrow> int option \<Rightarrow> response prog" where
  "undelivered xe q pd recipient resp reason status =
     bind (if pd_proof pd \<noteq> None then newOrderId xe else Done []) (\<lambda>orderId.
     case open_voucher pd of
       Some (c, v) \<Rightarrow>
         bind (take_back c v) (\<lambda>rolledBack.
         bind (if rolledBack then ignoring (release_lock pd) else ignoring (failed_leg xe q pd orderId status RefundUnknown)) (\<lambda>_.
         withFacadeChargeEvidence q pd (if rolledBack then Some ''0'' else None)
           (with_header ''Refund-Channel'' c (with_header ''Refund-Status'' (rollback_status rolledBack)
             (with_header ''Refund-Mode'' ''channel-remainder'' resp)))))
     | None \<Rightarrow>
         (case (pd_proof pd, reason) of
            (Some proof, Some why) \<Rightarrow>
              if xo_operator (qc_route q) \<noteq> None
              then bind (ignoring (failed_leg xe q pd orderId status RefundNone)) (\<lambda>_.
                   withFacadeChargeEvidence q pd None (direct_failure recipient resp))
              else bind (failed_leg xe q pd orderId status RefundPending) (\<lambda>recorded.
                   bind (refund_or_mark xe q proof why orderId recorded) (\<lambda>refund.
                   bind (ignoring (release_lock pd)) (\<lambda>_.
                   withFacadeChargeEvidence q pd None
                     (case refund of Some rf \<Rightarrow> refund_headers q rf resp | None \<Rightarrow> review resp))))
          | _ \<Rightarrow>
              bind (ignoring (failed_leg xe q pd orderId status RefundUnknown)) (\<lambda>_.
              bind (ignoring (release_lock pd)) (\<lambda>_.
              withFacadeChargeEvidence q pd None (review resp)))))"

subsection \<open>The merchant delivered\<close>

definition delivery_of :: "paid_call \<Rightarrow> channel_delivery option" where
  "delivery_of pd =
     (case (pd_contract pd, pd_lock pd, pd_voucher pd) of
        (Some c, Some lockId, Some v) \<Rightarrow>
          Some \<lparr>cd_contract = c, cd_lockId = lockId, cd_challengeId = pv_challengeId v, cd_accepted = pv_accepted v,
                cd_previous = pv_previous v, cd_close = pv_close v\<rparr>
      | _ \<Rightarrow> None)"

definition delivered_call ::
    "xenv \<Rightarrow> quoted_call \<Rightarrow> string option \<Rightarrow> paid_call \<Rightarrow> string option \<Rightarrow> string \<Rightarrow> string \<Rightarrow> int \<Rightarrow> response prog" where
  "delivered_call xe q authHeader pd idempotencyKey body contentType merchantStatus =
     bind (handleAsyncJob xe body contentType merchantStatus (qc_route q) authHeader (qc_request q) (pd_proof pd) (delivery_of pd)) (\<lambda>asyncResponse.
     case asyncResponse of
       Some resp \<Rightarrow> withFacadeChargeEvidence q pd None resp
     | None \<Rightarrow>
         bind (release_lock pd) (\<lambda>_.
         bind (case idempotencyKey of Some key \<Rightarrow> ignoring (await_unit (KvTextPut key (JStr body))) | None \<Rightarrow> Done ()) (\<lambda>_.
         bind (newOrderId xe) (\<lambda>orderId.
         bind (ignoring (record_row xe q (pd_proof pd) orderId merchantStatus RefundNone)) (\<lambda>_.
         bind (from_sum (amount_decimal (tq_amount (qc_parsed q)) TEMPO_DEFAULT_DECIMALS)) (\<lambda>amount.
         Done \<lparr>rs_status = 200,
               rs_headers = [(''Content-Type'', contentType), (''X-MPPRouter-Quoted-Amount'', amount),
                   (''X-MPPRouter-Upstream-Cost'', amount)] @ map (\<lambda>p. (''X-MPPRouter-Payer'', p)) (given (payer_told pd)),
               rs_body = JStr body\<rparr>))))))"

subsection \<open>A paid call\<close>

definition idempotency_key :: "xenv \<Rightarrow> quoted_call \<Rightarrow> paid_call \<Rightarrow> string option" where
  "idempotency_key xe q pd =
     (case (header_of (xr_headers (qc_request q)) ''x-request-id'', payer_told pd) of
        (Some (c # requestId), Some (d # payer)) \<Rightarrow>
          Some (buildIdempotencyKey (sha_hex xe)
            \<lparr>ip_requestId = c # requestId, ip_routeId = route_id (qc_route q), ip_payer = d # payer,
             ip_method = xr_method (qc_request q), ip_upstreamPath = qc_path q, ip_forwardedSearch = qc_search q, ip_body = qc_body q\<rparr>)
      | _ \<Rightarrow> None)"

definition threw :: "exn \<Rightarrow> merchant_pay" where
  "threw e =
     PayError (json_with 502 [] [(''error'', JStr ''Merchant delivery failed''), (''detail'', JStr (exn_message e))]) (Some Timeout) None False"

definition call_merchant ::
    "xenv \<Rightarrow> quoted_call \<Rightarrow> string option \<Rightarrow> paid_call \<Rightarrow> string \<Rightarrow> string option \<Rightarrow> response prog" where
  "call_merchant xe q authHeader pd recipient idempotencyKey =
     bind (consumeRateLimitSlotOrReject (qc_slot q)) (\<lambda>reject.
       case reject of
         Some r \<Rightarrow> rate_rejected xe q pd r
       | None \<Rightarrow>
           bind (attempt (qc_pay xe q)) (\<lambda>r.
             case (case r of Inl e \<Rightarrow> threw e | Inr x \<Rightarrow> x) of
               PayError resp reason status ours \<Rightarrow> undelivered xe q pd recipient resp reason status
             | PayOk body contentType merchantStatus \<Rightarrow>
                 delivered_call xe q authHeader pd idempotencyKey body contentType merchantStatus))"

definition paid_call_response :: "xenv \<Rightarrow> quoted_call \<Rightarrow> string option \<Rightarrow> paid_call \<Rightarrow> string \<Rightarrow> response prog" where
  "paid_call_response xe q authHeader pd recipient =
     (let idempotencyKey = idempotency_key xe q pd in
      bind (case idempotencyKey of Some key \<Rightarrow> kv_text key | None \<Rightarrow> Done None) (\<lambda>cached.
        case cached of
          Some text \<Rightarrow>
            bind (release_lock pd) (\<lambda>_.
            withFacadeChargeEvidence q pd (Some ''0'')
              \<lparr>rs_status = 200, rs_headers = JSON_HEADERS @ [(''X-Idempotent'', ''true'')], rs_body = JStr text\<rparr>)
        | None \<Rightarrow> call_merchant xe q authHeader pd recipient idempotencyKey))"

text \<open>A payment that cannot be described is not delivered, since it could not be refunded.\<close>

definition stopped :: "string \<Rightarrow> string \<Rightarrow> response" where
  "stopped error detail = json_with 503 REVIEW [(''error'', JStr error), (''detail'', JStr detail)]"

definition accepted_response :: "xenv \<Rightarrow> quoted_call \<Rightarrow> string option \<Rightarrow> paid_call \<Rightarrow> string \<Rightarrow> response prog" where
  "accepted_response xe q authHeader pd recipient =
     (if pd_channel pd \<and> pd_voucher pd = None
      then withFacadeChargeEvidence q pd (Some ''0'') (stopped ''Channel payment verified but delivery stopped for refund safety''
             ''Operator reconciliation required; no upstream call was attempted.'')
      else if \<not> pd_channel pd \<and> pd_proof pd = None
      then withFacadeChargeEvidence q pd (Some ''0'') (stopped ''Payment settled but delivery was stopped for refund safety''
             ''Operator reconciliation required; no upstream charge was attempted.'')
      else paid_call_response xe q authHeader pd recipient)"

definition charge_branch :: "xenv \<Rightarrow> quoted_call \<Rightarrow> string option \<Rightarrow> string \<Rightarrow> response prog" where
  "charge_branch xe q authHeader recipient =
     bind (from_sum (stellar_amount (qc_parsed q))) (\<lambda>s.
       case s of
         Inl resp \<Rightarrow> Done resp
       | Inr stellarAmount \<Rightarrow>
           bind (verify_charge (charge_check xe q authHeader stellarAmount recipient)) (\<lambda>r.
             case r of
               Inl resp \<Rightarrow> Done resp
             | Inr (PayChallenged headers body) \<Rightarrow> Done (challenge_response xe q headers body)
             | Inr (PayAccepted payment receipt) \<Rightarrow>
                 accepted_response xe q authHeader (captured_charge xe authHeader payment receipt) recipient))"

definition channel_branch :: "xenv \<Rightarrow> quoted_call \<Rightarrow> string option \<Rightarrow> string \<Rightarrow> response prog" where
  "channel_branch xe q authHeader recipient =
     bind (attempt (resolveStellarChannelMppx xe authHeader (agent_hint (qc_request q)))) (\<lambda>r.
       case r of
         Inl e \<Rightarrow> Done (unresolved e)
       | Inr resolved \<Rightarrow>
           bind (from_sum (stellar_amount (qc_parsed q))) (\<lambda>s.
             case (case s of Inl resp \<Rightarrow> Inl resp | Inr stellarAmount \<Rightarrow> channel_amount xe (sv_currency resolved) stellarAmount) of
               Inl resp \<Rightarrow> Done resp
             | Inr channelAmount \<Rightarrow>
                 bind (verify_channel q authHeader resolved channelAmount) (\<lambda>r.
                   case r of
                     Inl resp \<Rightarrow> Done resp
                   | Inr (held, PayChallenged headers body) \<Rightarrow>
                       bind (case held of Some (lockId, _) \<Rightarrow> releaseChannelDeliveryLock (sv_contract resolved) lockId | None \<Rightarrow> Done ()) (\<lambda>_.
                       Done (challenge_response xe q headers body))
                   | Inr (held, PayAccepted payment receipt) \<Rightarrow>
                       accepted_response xe q authHeader (captured_channel xe authHeader resolved held payment receipt) recipient)))"

subsection \<open>handleProxy\<close>

definition paid_branches :: "xenv \<Rightarrow> quoted_call \<Rightarrow> auth_kind \<Rightarrow> string option \<Rightarrow> response prog" where
  "paid_branches xe q authKind authHeader =
     (if authKind = StellarX402Auth then x402_branch xe q (case authHeader of Some a \<Rightarrow> a | None \<Rightarrow> [])
      else case settlement_recipient xe (qc_route q) of
        Inl resp \<Rightarrow> Done resp
      | Inr recipient \<Rightarrow>
          if authKind = StellarChannelAuth then channel_branch xe q authHeader recipient
          else charge_branch xe q authHeader recipient)"

definition serve_paid ::
    "xenv \<Rightarrow> proxy_route \<Rightarrow> proxy_request \<Rightarrow> string \<Rightarrow> string \<Rightarrow> string \<Rightarrow> auth_kind \<Rightarrow> string option \<Rightarrow> response prog" where
  "serve_paid xe route rq merchantUrl upstreamPath forwardedSearch authKind authHeader =
     bind (peek_slot route) (\<lambda>r.
       case r of
         Inl resp \<Rightarrow> Done resp
       | Inr slot \<Rightarrow>
           bind (quote_merchant xe route rq merchantUrl (request_body rq)) (\<lambda>r.
             case r of
               Inl resp \<Rightarrow> Done resp
             | Inr parsed \<Rightarrow>
                 bind (preflight xe route parsed) (\<lambda>refused.
                   case refused of
                     Some resp \<Rightarrow> Done resp
                   | None \<Rightarrow>
                       paid_branches xe
                         \<lparr>qc_route = route, qc_request = rq, qc_parsed = parsed, qc_url = merchantUrl, qc_path = upstreamPath,
                          qc_search = forwardedSearch, qc_body = request_body rq, qc_slot = slot\<rparr> authKind authHeader)))"

text \<open>A hosted route takes x402 only, and forwards no other credential.\<close>

definition hosted_refusal :: "xenv \<Rightarrow> proxy_route \<Rightarrow> proxy_request \<Rightarrow> response prog" where
  "hosted_refusal xe route rq =
     bind (case xo_fixedUsd route of
         None \<Rightarrow> Done None
       | Some amountUsd \<Rightarrow>
           bind (from_sum (fixedPriceToBaseUnits6 amountUsd)) (\<lambda>amount.
           Done (buildX402PaymentRequiredHeader xe (bigint_of amount) (xr_url rq) (xo_operator route)))) (\<lambda>h.
     Done (json_with 402 (map (\<lambda>x. (''Payment-Required'', x)) (given h))
       [(''error'', JStr ''x402 required''),
        (''detail'', JStr (''This router-hosted route accepts Stellar x402 payments only (PAYMENT-SIGNATURE, exact scheme, stellar:pubnet). '' @
           ''Other credentials are not forwarded and nothing was charged.''))]))"

definition passthrough :: "xenv \<Rightarrow> proxy_request \<Rightarrow> string \<Rightarrow> response prog" where
  "passthrough xe rq merchantUrl =
     bind (fetch_text \<lparr>fc_method = xr_method rq, fc_url = merchantUrl, fc_headers = forwardHeaders rq True, fc_body = request_body rq\<rparr>)
       (\<lambda>r. Done (of_fetch r))"

definition launchGateOpen :: "xenv \<Rightarrow> proxy_route \<Rightarrow> bool" where
  "launchGateOpen xe route \<longleftrightarrow> (case xo_launchGate route of Some (c # g) \<Rightarrow> xe_gate xe (c # g) = Some ''verify'' | _ \<Rightarrow> False)"

text \<open>The route is what \<open>resolveRoute\<close> found.\<close>

definition handleProxy :: "xenv \<Rightarrow> proxy_request \<Rightarrow> proxy_route option \<Rightarrow> response prog" where
  "handleProxy xe rq resolved =
     (case resolved of
        None \<Rightarrow> no_route xe rq
      | Some route \<Rightarrow>
          (case (isDirectSettlementRoute route, xo_operator route) of
             (True, Some operator) \<Rightarrow> relayDirectSettlementRoute xe route operator rq
           | _ \<Rightarrow>
               if xo_blocked route \<and> \<not> launchGateOpen xe route
               then Done (json_with 403 []
                 [(''error'', JStr ''Route not enabled for payment''),
                  (''hint'', JStr ''See GET /v1/services/catalog for the set of routes that accept payment.'')])
               else case resolveUpstreamPath (xo_route route) (xr_query rq) of
                 Inl e \<Rightarrow> Done (json_with 400 []
                   [(''error'', JStr ''Bad upstream path placeholder''), (''detail'', JStr (exn_message e))])
               | Inr (upstreamPath, used) \<Rightarrow>
                   let forwardedSearch = forwarded_search xe (xr_query rq) used;
                       merchantUrl = buildMerchantUrl (pr_host (xo_route route)) upstreamPath forwardedSearch;
                       authHeader = auth_header rq; authKind = auth_kind_of xe rq route in
                   if xo_hosted route \<and> authKind \<notin> {StellarX402Auth, NoAuth} then hosted_refusal xe route rq
                   else if authKind = PassthroughAuth then passthrough xe rq merchantUrl
                   else serve_paid xe route rq merchantUrl upstreamPath forwardedSearch authKind authHeader))"

end
