(* ===== verification/ProxyInv.thy ===== *)
theory ProxyInv
  imports ProxyCharge ChannelProps
begin

text \<open>
  The paid proxy as a guarded program.  \<open>proxy_guard\<close> says what a request must have gone through before anything is signed
  for a merchant, sent with a credential, settled, refunded or rolled back; \<open>proxy_done\<close> what is true of every answer.
  The guards are facts of the history that stay true, so most of a handler is \<open>quiet\<close>: it makes only calls that need
  no justification, and the history grows.
\<close>

subsection \<open>Runs of one request\<close>

text \<open>What a program can do, whatever is answered: every interleaving with others is among the answers.\<close>

inductive runs :: "'a prog \<Rightarrow> history \<Rightarrow> 'a prog \<Rightarrow> bool" for p where
  begun: "runs p [] p"
| called: "runs p h q \<Longrightarrow> outside q es q' \<Longrightarrow> runs p (es @ h) q'"

locale guarded_run =
  fixes p :: "'a prog" and G :: guard_pred and Q :: "'a \<Rightarrow> history \<Rightarrow> bool"
  assumes program: "wp p G Q (\<lambda>_ _. True) []"
begin

lemma stays_guarded: "outside q es q' \<Longrightarrow> wp q G Q E h \<Longrightarrow> guarded G h \<Longrightarrow> wp q' G Q E (es @ h) \<and> guarded G (es @ h)"
  by (induction rule: outside.induct) auto

lemma run_live: "runs p h q \<Longrightarrow> wp q G Q (\<lambda>_ _. True) h \<and> guarded G h"
proof (induction rule: runs.induct)
  case begun
  show ?case using program by simp
next
  case (called h q es q')
  then show ?case using stays_guarded by blast
qed

lemma run_guarded: "runs p (h1 @ e # h) q \<Longrightarrow> call_of e = Some a \<Longrightarrow> G a h"
  using run_live guarded_at by blast

lemma run_finished: "runs p h (Done r) \<Longrightarrow> Q r h"
  using run_live by fastforce

end

text \<open>A program of which no call is the ledger's ends after a run of its own.\<close>

lemma runs_first: "runs p' h q \<Longrightarrow> outside p es p' \<Longrightarrow> runs p (h @ es) q"
proof (induction rule: runs.induct)
  case begun
  then show ?case using runs.called [OF runs.begun] by fastforce
next
  case (called h q es' q')
  then show ?case using runs.called [of p "h @ es" q es' q'] by simp
qed

definition found :: "'a prog \<Rightarrow> 'a \<Rightarrow> history \<Rightarrow> bool" where
  "found p x h \<longleftrightarrow> (\<exists>hq. runs p hq (Done x) \<and> set hq \<subseteq> set h)"

lemma found_step:
  assumes "outside p es p'" "wp p' G Q E (es @ h) \<Longrightarrow>
      wp p' G (\<lambda>x h'. Q x h' \<and> (\<exists>hq. runs p' hq (Done x) \<and> h' = hq @ es @ h)) E (es @ h)" "wp p' G Q E (es @ h)"
  shows "wp p' G (\<lambda>x h'. Q x h' \<and> (\<exists>hq. runs p hq (Done x) \<and> h' = hq @ h)) E (es @ h)"
  by (rule wp_mono [OF assms(2) [OF assms(3)]]) (use runs_first [OF _ assms(1)] in fastforce)+

lemma wp_found:
  assumes "\<And>r h. \<not> G (CallLedger r) h"
  shows "wp p G Q E h \<Longrightarrow> wp p G (\<lambda>x h'. Q x h' \<and> (\<exists>hq. runs p hq (Done x) \<and> h' = hq @ h)) E h"
proof (induction p arbitrary: h rule: prog_induct)
  case (Done x)
  then show ?case using runs.begun [of "Done x"] by auto
next
  case (Throw e)
  then show ?case by simp
next
  case (Ledger r k)
  then show ?case using assms by simp
next
  case (Http r k)
  then show ?case using found_step [OF outside.intros(1) [of r k] Http.IH] by simp
next
  case (Mppx u k)
  then show ?case using found_step [OF outside.intros(3) [of u k] Mppx.IH] by simp
next
  case (Sign c k)
  then show ?case using found_step [OF outside.intros(2) [of c k] Sign.IH] by simp
next
  case (KvGet n k)
  then show ?case using found_step [OF outside.intros(4) [of n k] KvGet.IH] by simp
next
  case (KvPut n v k)
  then show ?case using found_step [OF outside.intros(5) [of n v k] KvPut.IH] by simp
next
  case (DailySlot n d k)
  then show ?case using found_step [OF outside.intros(6) [of n d k] DailySlot.IH] by simp
next
  case (Clock k)
  then show ?case using found_step [OF outside.intros(7) [of k] Clock.IH] by simp
next
  case (RandomUUID k)
  then show ?case using found_step [OF outside.intros(8) [of k] RandomUUID.IH] by simp
next
  case (RandomBytes k)
  then show ?case using found_step [OF outside.intros(9) [of k] RandomBytes.IH] by simp
next
  case (Chan c k)
  then show ?case using found_step [OF outside.intros(10) [of c k] Chan.IH] by simp
qed

text \<open>Every handler of a system around the atomic store makes such a run.\<close>

lemma system_runs:
  assumes "chan_reachable H s" "c_procs s n = Some (h, q)"
  shows "\<exists>p. H p \<and> runs p h q"
proof -
  have "\<forall>n h q. c_procs s n = Some (h, q) \<longrightarrow> (\<exists>p. H p \<and> runs p h q)"
    using assms(1) unfolding chan_reachable_def
  proof (induction rule: rtranclp_induct)
    case base
    show ?case by (simp add: chan_start_def)
  next
    case (step s s')
    have chan: "runs p h (Chan r k) \<Longrightarrow> runs p (EChan r a # h) (k a)" for p :: "response prog" and h r k a
      using runs.called [of p h "Chan r k" "[EChan r a]" "k a"] by (simp add: outside.intros)
    from step.hyps(2) step.IH show ?case
    proof (induction rule: chan_step.induct)
      case (arrive p s n)
      then show ?case by (auto intro!: exI [of _ p] runs.begun)
    next
      case (served s n h r k a st)
      then obtain p where "H p" "runs p h (Chan r k)" by blast
      then have "H p \<and> runs p (EChan r a # h) (k a)" by (simp add: chan)
      with served.prems show ?case by auto
    next
      case (answer_lost s n h r k a st e)
      then obtain p where "H p" "runs p h (Chan r k)" by blast
      then have "H p \<and> runs p (EChan r (Inl e) # h) (k (Inl e))" by (simp add: chan)
      with answer_lost.prems show ?case by auto
    next
      case (request_lost s n h r k e)
      then obtain p where "H p" "runs p h (Chan r k)" by blast
      then have "H p \<and> runs p (EChan r (Inl e) # h) (k (Inl e))" by (simp add: chan)
      with request_lost.prems show ?case by auto
    next
      case (answered s n h q es q')
      then obtain p where "H p" "runs p h q" by blast
      then have "H p \<and> runs p (es @ h) q'" using answered.hyps(2) by (simp add: runs.called)
      with answered.prems show ?case by auto
    qed simp
  qed
  with assms(2) show ?thesis by blast
qed

subsection \<open>Histories that grow\<close>

text \<open>The calls by which a buyer pays; everything else leaves what has been paid as it is.\<close>

definition pays_in :: "proxy_req \<Rightarrow> bool" where
  "pays_in r \<longleftrightarrow> (case r of VerifyPayment _ \<Rightarrow> True | FacilitatorVerify _ _ \<Rightarrow> True | _ \<Rightarrow> False)"

definition heavy :: "chan_req \<Rightarrow> bool" where
  "heavy q \<longleftrightarrow> (case q of Proxy r \<Rightarrow> pays_in r | _ \<Rightarrow> False)"

definition calm :: "history \<Rightarrow> history \<Rightarrow> bool" where
  "calm h h' \<longleftrightarrow> set h \<subseteq> set h' \<and> (\<forall>q a. heavy q \<and> EChan q a \<in> set h' \<longrightarrow> EChan q a \<in> set h)"

lemma calm_refl [simp]: "calm h h"
  by (simp add: calm_def)

lemma calm_trans: "calm h h' \<Longrightarrow> calm h' h'' \<Longrightarrow> calm h h''"
  by (auto simp: calm_def)

lemma calm_chan: "calm h h' \<Longrightarrow> \<not> heavy q \<Longrightarrow> calm h (EChan q a # h')"
  by (auto simp: calm_def)

lemma calm_other: "calm h h' \<Longrightarrow> calm h (ESign c x # h')" "calm h h' \<Longrightarrow> calm h (EHttp r y # h')"
    "calm h h' \<Longrightarrow> calm h (EKvGet k z # h')" "calm h h' \<Longrightarrow> calm h (ELedger l w # h')"
  by (auto simp: calm_def)

lemma calm_in: "calm h h' \<Longrightarrow> e \<in> set h \<Longrightarrow> e \<in> set h'"
  by (auto simp: calm_def)

lemma wp_calm:
  assumes "\<And>r h. G (CallChan r) h \<Longrightarrow> \<not> heavy r"
  shows "wp p G Q E h \<Longrightarrow> calm h0 h \<Longrightarrow> wp p G (\<lambda>x h'. Q x h' \<and> calm h0 h') (\<lambda>e h'. E e h' \<and> calm h0 h') h"
  by (induction p arbitrary: h) (auto intro: calm_chan calm_other dest: assms)

subsection \<open>Programs after a history\<close>

text \<open>
  \<open>sure G b p Q\<close>: after everything in \<open>b\<close>, the program justifies its calls, pays nothing in, and ends with \<open>Q\<close> or throws.
  A \<open>quiet\<close> program is one of which nothing more is to be said.
\<close>

definition sure :: "guard_pred \<Rightarrow> history \<Rightarrow> 'a prog \<Rightarrow> ('a \<Rightarrow> history \<Rightarrow> bool) \<Rightarrow> bool" where
  "sure G b p Q \<longleftrightarrow> (\<forall>h. calm b h \<longrightarrow> wp p G (\<lambda>x h'. calm h h' \<and> Q x h') (\<lambda>_ h'. calm h h') h)"

definition quiet :: "guard_pred \<Rightarrow> history \<Rightarrow> 'a prog \<Rightarrow> bool" where
  "quiet G b p \<longleftrightarrow> sure G b p (\<lambda>_ _. True)"

lemma sure_wp:
  "sure G b p Q \<Longrightarrow> calm b h \<Longrightarrow> (\<And>x h'. calm h h' \<Longrightarrow> Q x h' \<Longrightarrow> R x h') \<Longrightarrow> (\<And>e h'. calm h h' \<Longrightarrow> E e h') \<Longrightarrow> wp p G R E h"
  unfolding sure_def by (blast intro: wp_mono)

lemma sure_later: "sure G b p Q \<Longrightarrow> calm b b' \<Longrightarrow> sure G b' p Q"
  unfolding sure_def by (blast intro: calm_trans)

lemma sure_weaken: "sure G b p Q \<Longrightarrow> (\<And>x h. calm b h \<Longrightarrow> Q x h \<Longrightarrow> R x h) \<Longrightarrow> sure G b p R"
  unfolding sure_def by (blast intro: wp_mono calm_trans)

lemma sure_quiet: "sure G b p Q \<Longrightarrow> quiet G b p"
  unfolding quiet_def by (erule sure_weaken) simp

lemma quiet_later: "quiet G b p \<Longrightarrow> calm b b' \<Longrightarrow> quiet G b' p"
  unfolding quiet_def by (rule sure_later)

lemma sure_calm: "sure G b p Q \<Longrightarrow> sure G b p (\<lambda>x h. calm b h \<and> Q x h)"
  by (erule sure_weaken) simp

lemma sure_Done: "(\<And>h. calm b h \<Longrightarrow> Q x h) \<Longrightarrow> sure G b (Done x) Q"
  by (simp add: sure_def)

lemma sure_Throw: "sure G b (Throw e) Q"
  by (simp add: sure_def)

lemma sure_bind:
  assumes "sure G b p P" "\<And>x h. calm b h \<Longrightarrow> P x h \<Longrightarrow> sure G h (f x) Q"
  shows "sure G b (bind p f) Q"
  unfolding sure_def wp_bind
proof (intro allI impI)
  fix h assume h: "calm b h"
  show "wp p G (\<lambda>x. wp (f x) G (\<lambda>x h'. calm h h' \<and> Q x h') (\<lambda>_ h'. calm h h')) (\<lambda>_ h'. calm h h') h"
  proof (rule sure_wp [OF assms(1) h])
    fix x h' assume h': "calm h h'" "P x h'"
    then have "sure G h' (f x) Q" by (intro assms(2) calm_trans [OF h])
    then show "wp (f x) G (\<lambda>x h'. calm h h' \<and> Q x h') (\<lambda>_ h'. calm h h') h'"
      by (rule sure_wp) (auto intro: calm_trans [OF h'(1)])
  qed
qed

lemma sure_then: "quiet G b p \<Longrightarrow> (\<And>x h. calm b h \<Longrightarrow> sure G h (f x) Q) \<Longrightarrow> sure G b (bind p f) Q"
  unfolding quiet_def by (rule sure_bind)

lemma sure_attempt: "sure G b p Q \<Longrightarrow> sure G b (attempt p) (\<lambda>r h. case r of Inr x \<Rightarrow> Q x h | Inl _ \<Rightarrow> True)"
  unfolding sure_def wp_attempt by (auto intro: wp_mono)

lemma sure_from_sum: "(\<And>x h. r = Inr x \<Longrightarrow> calm b h \<Longrightarrow> Q x h) \<Longrightarrow> sure G b (from_sum r) Q"
  by (auto simp: sure_def split: sum.split)

lemma sure_chan:
  assumes "\<not> heavy r" "\<And>h. calm b h \<Longrightarrow> G (CallChan r) h"
    and "\<And>a h. calm b h \<Longrightarrow> EChan r a \<in> set h \<Longrightarrow> sure G h (k a) Q"
  shows "sure G b (Chan r k) Q"
  unfolding sure_def
proof (intro allI impI)
  fix h assume h: "calm b h"
  have g: "calm h (EChan r a # h)" for a by (rule calm_chan) (simp_all add: assms(1))
  have "wp (k a) G (\<lambda>x h'. calm h h' \<and> Q x h') (\<lambda>_ h'. calm h h') (EChan r a # h)" for a
  proof (rule sure_wp [OF assms(3) calm_refl])
    show "calm b (EChan r a # h)" by (rule calm_trans [OF h g])
  qed (auto intro: calm_trans [OF g])
  then show "wp (Chan r k) G (\<lambda>x h'. calm h h' \<and> Q x h') (\<lambda>_ h'. calm h h') h"
    using assms(2) [OF h] by simp
qed

lemma sure_await:
  assumes "\<not> pays_in r" "\<And>h. calm b h \<Longrightarrow> G (CallChan (Proxy r)) h"
    and "\<And>y h. calm b h \<Longrightarrow> EChan (Proxy r) (Inr (AProxy y)) \<in> set h \<Longrightarrow> sure G h (k y) Q"
  shows "sure G b (await r k) Q"
  unfolding await_def
  by (rule sure_chan) (auto simp: heavy_def from_outside_def unexpected_def assms intro!: sure_Throw assms(3) split: sum.split chan_ans.split)

text \<open>A program shown by the calculus itself, when it makes no call that pays in.\<close>

lemma wp_sure:
  assumes "\<And>h. calm b h \<Longrightarrow> wp p (\<lambda>c h. G c h \<and> (\<forall>q. c = CallChan q \<longrightarrow> \<not> heavy q)) Q (\<lambda>_ _. True) h"
  shows "sure G b p Q"
  unfolding sure_def
proof (intro allI impI)
  fix h assume h: "calm b h"
  let ?G = "\<lambda>c h. G c h \<and> (\<forall>q. c = CallChan q \<longrightarrow> \<not> heavy q)"
  have "wp p ?G (\<lambda>x h'. Q x h' \<and> calm h h') (\<lambda>e h'. True \<and> calm h h') h"
    by (rule wp_calm [OF _ assms [OF h]]) auto
  then show "wp p G (\<lambda>x h'. calm h h' \<and> Q x h') (\<lambda>_ h'. calm h h') h"
    by (rule wp_mono [OF wp_guard]) auto
qed

lemma found_calm: "found p x h \<Longrightarrow> calm h h' \<Longrightarrow> found p x h'"
  unfolding found_def calm_def by blast

lemma sure_found:
  assumes "\<And>r h. \<not> G (CallLedger r) h" "quiet G b p"
  shows "sure G b p (found p)"
  unfolding sure_def
proof (intro allI impI)
  fix h assume "calm b h"
  with assms(2) have "wp p G (\<lambda>x h'. calm h h') (\<lambda>_ h'. calm h h') h" by (simp add: quiet_def sure_def)
  from wp_found [OF assms(1) this] show "wp p G (\<lambda>x h'. calm h h' \<and> found p x h') (\<lambda>_ h'. calm h h') h"
    by (rule wp_mono) (auto simp: found_def)
qed

subsection \<open>Quiet programs\<close>

named_theorems quiet_rules "programs that make only calls that need no more justification"

lemma quiet_Done [quiet_rules]: "quiet G b (Done x)" and quiet_Throw [quiet_rules]: "quiet G b (Throw e)"
  by (simp_all add: quiet_def sure_def)

lemma quiet_bind [quiet_rules]: "quiet G b p \<Longrightarrow> (\<And>x. quiet G b (f x)) \<Longrightarrow> quiet G b (bind p f)"
  unfolding quiet_def by (erule sure_bind) (auto intro: sure_later)

lemma quiet_attempt [quiet_rules]: "quiet G b p \<Longrightarrow> quiet G b (attempt p)"
  unfolding quiet_def by (drule sure_attempt) (erule sure_weaken, simp)

lemma quiet_ignoring [quiet_rules]: "quiet G b p \<Longrightarrow> quiet G b (ignoring p)"
  unfolding ignoring_def by (intro quiet_rules)

lemma quiet_from [quiet_rules]: "quiet G b (from_sum a)" "quiet G b (from_outside c)" "quiet G b (throwing d)"
  by (simp_all add: quiet_def sure_def split: sum.split)

lemma quiet_clock [quiet_rules]: "quiet G b date_now" "quiet G b uuid"
  by (simp_all add: quiet_def sure_def date_now_def uuid_def)

lemma quiet_slot [quiet_rules]: "(\<And>r. quiet G b (k r)) \<Longrightarrow> quiet G b (DailySlot n d k)"
  unfolding quiet_def sure_def by simp

lemma quiet_chan: "\<not> heavy r \<Longrightarrow> (\<And>h. calm b h \<Longrightarrow> G (CallChan r) h) \<Longrightarrow> (\<And>a. quiet G b (k a)) \<Longrightarrow> quiet G b (Chan r k)"
  unfolding quiet_def by (rule sure_chan) (auto intro: sure_later)

lemma quiet_await:
  "\<not> pays_in r \<Longrightarrow> (\<And>h. calm b h \<Longrightarrow> G (CallChan (Proxy r)) h) \<Longrightarrow> (\<And>y. quiet G b (k y)) \<Longrightarrow> quiet G b (await r k)"
  unfolding quiet_def by (rule sure_await) (auto intro: sure_later)

lemma quiet_unexpected [quiet_rules]: "quiet G b unexpected"
  by (simp add: unexpected_def quiet_rules)

lemma quiet_if [quiet_rules]: "(c \<Longrightarrow> quiet G b p) \<Longrightarrow> (\<not> c \<Longrightarrow> quiet G b q) \<Longrightarrow> quiet G b (if c then p else q)"
  by simp

lemma quiet_option [quiet_rules]: "(x = None \<Longrightarrow> quiet G b p) \<Longrightarrow> (\<And>y. x = Some y \<Longrightarrow> quiet G b (f y)) \<Longrightarrow> quiet G b (case_option p f x)"
  by (cases x) simp_all

lemma quiet_sum [quiet_rules]: "(\<And>y. x = Inl y \<Longrightarrow> quiet G b (f y)) \<Longrightarrow> (\<And>y. x = Inr y \<Longrightarrow> quiet G b (g y)) \<Longrightarrow> quiet G b (case_sum f g x)"
  by (cases x) simp_all

lemma quiet_prod [quiet_rules]: "(\<And>y z. x = (y, z) \<Longrightarrow> quiet G b (f y z)) \<Longrightarrow> quiet G b (case_prod f x)"
  by (cases x) simp_all

lemma quiet_list [quiet_rules]: "(x = [] \<Longrightarrow> quiet G b p) \<Longrightarrow> (\<And>y z. x = y # z \<Longrightarrow> quiet G b (f y z)) \<Longrightarrow> quiet G b (case_list p f x)"
  by (cases x) simp_all

lemma quiet_bool [quiet_rules]: "(x \<Longrightarrow> quiet G b p) \<Longrightarrow> (\<not> x \<Longrightarrow> quiet G b q) \<Longrightarrow> quiet G b (case_bool p q x)"
  by (cases x) simp_all

lemma quiet_ans [quiet_rules]:
  "(\<And>x. quiet G b (f0 x)) \<Longrightarrow> (\<And>x. quiet G b (f1 x)) \<Longrightarrow> (\<And>x. quiet G b (f2 x)) \<Longrightarrow> (\<And>x y. quiet G b (f3 x y)) \<Longrightarrow>
    (\<And>x. quiet G b (f4 x)) \<Longrightarrow> (\<And>x. quiet G b (f5 x)) \<Longrightarrow> (\<And>x. quiet G b (f6 x)) \<Longrightarrow> (\<And>x y z. quiet G b (f7 x y z)) \<Longrightarrow>
    (\<And>x. quiet G b (f8 x)) \<Longrightarrow> quiet G b f9 \<Longrightarrow> (\<And>x. quiet G b (f10 x)) \<Longrightarrow> (\<And>x. quiet G b (f11 x)) \<Longrightarrow>
    (\<And>x y. quiet G b (f12 x y)) \<Longrightarrow> (\<And>x. quiet G b (f13 x)) \<Longrightarrow> (\<And>x. quiet G b (f14 x)) \<Longrightarrow> (\<And>x. quiet G b (f15 x)) \<Longrightarrow>
    (\<And>x. quiet G b (f16 x)) \<Longrightarrow> (\<And>x. quiet G b (f17 x)) \<Longrightarrow> (\<And>x. quiet G b (f18 x)) \<Longrightarrow> (\<And>x. quiet G b (f19 x)) \<Longrightarrow>
    (\<And>x. quiet G b (f20 x)) \<Longrightarrow>
    quiet G b (case_proxy_ans f0 f1 f2 f3 f4 f5 f6 f7 f8 f9 f10 f11 f12 f13 f14 f15 f16 f17 f18 f19 f20 y)"
  by (cases y) simp_all

lemma quiet_body_of [quiet_rules]: "quiet G b (body_of t)"
  unfolding body_of_def by (intro quiet_rules)

subsection \<open>The payment of the buyer\<close>

definition target_url :: "xenv \<Rightarrow> proxy_request \<Rightarrow> proxy_route \<Rightarrow> string" where
  "target_url xe rq route =
     (case resolveUpstreamPath (xo_route route) (xr_query rq) of
        Inr (path, used) \<Rightarrow> buildMerchantUrl (pr_host (xo_route route)) path (forwarded_search xe (xr_query rq) used)
      | Inl _ \<Rightarrow> [])"

text \<open>The library accepted a payment; the facilitator accepted a signed one.\<close>

definition accepted_by :: "pay_check \<Rightarrow> json option \<Rightarrow> string option \<Rightarrow> event" where
  "accepted_by ck payment receipt = EChan (Proxy (VerifyPayment ck)) (Inr (AProxy (APay (PayAccepted payment receipt))))"

definition facilitated :: "x402_payment \<Rightarrow> x402_requirements \<Rightarrow> event" where
  "facilitated pay req = EChan (Proxy (FacilitatorVerify pay req)) (Inr (AProxy (AFacilitator None)))"

text \<open>What the merchant asks for this request: \<open>quote_merchant\<close> found it, from calls that were made.\<close>

definition quoted :: "xenv \<Rightarrow> proxy_request \<Rightarrow> proxy_route \<Rightarrow> tempo_challenge \<Rightarrow> history \<Rightarrow> bool" where
  "quoted xe rq route parsed h \<longleftrightarrow> found (quote_merchant xe route rq (target_url xe rq route) (request_body rq)) (Inr parsed) h"

lemma quoted_more: "quoted xe rq route parsed h \<Longrightarrow> set h \<subseteq> set h' \<Longrightarrow> quoted xe rq route parsed h'"
  unfolding quoted_def found_def by blast

lemma quoted_calm: "quoted xe rq route parsed h \<Longrightarrow> calm h h' \<Longrightarrow> quoted xe rq route parsed h'"
  unfolding quoted_def by (rule found_calm)

text \<open>What was checked is the quoted amount, in the token and to the recipient of the route.\<close>

definition checks_price :: "xenv \<Rightarrow> proxy_request \<Rightarrow> proxy_route \<Rightarrow> pay_check \<Rightarrow> tempo_challenge \<Rightarrow> bool" where
  "checks_price xe rq route ck parsed \<longleftrightarrow>
     py_authorization ck = auth_header rq \<and>
     (\<exists>s. stellar_amount parsed = Inr (Inr s) \<and>
        (case py_channel ck of
           None \<Rightarrow> py_amount ck = s \<and> py_currency ck = getStellarUsdcSac (xe_chan xe) \<and>
             settlement_recipient xe route = Inr (py_recipient ck)
         | Some _ \<Rightarrow> \<exists>currency. channel_amount xe currency s = Inr (py_amount ck)))"

definition x402_covers :: "xenv \<Rightarrow> proxy_route \<Rightarrow> tempo_challenge \<Rightarrow> x402_payment \<Rightarrow> x402_requirements \<Rightarrow> bool" where
  "x402_covers xe route parsed pay req \<longleftrightarrow>
     (\<exists>quote signed. json_BigInt (tq_amount parsed) = Inr quote \<and> js_BigInt (xp_amount pay) = Inr signed \<and>
        isAmountAcceptable signed (quote * 10) = None \<and> xq_amount req = int_str signed \<and>
        payTo_for xe (expected_payTo route) = Some (xq_payTo req) \<and> xp_payTo pay = xq_payTo req)"

definition x402_price :: "xenv \<Rightarrow> proxy_request \<Rightarrow> proxy_route \<Rightarrow> x402_payment \<Rightarrow> x402_requirements \<Rightarrow> history \<Rightarrow> bool" where
  "x402_price xe rq route pay req h \<longleftrightarrow> (\<exists>parsed. quoted xe rq route parsed h \<and> x402_covers xe route parsed pay req)"

lemma x402_price_calm: "x402_price xe rq route pay req h \<Longrightarrow> calm h h' \<Longrightarrow> x402_price xe rq route pay req h'"
  unfolding x402_price_def by (blast intro: quoted_calm)

definition bought :: "xenv \<Rightarrow> proxy_request \<Rightarrow> proxy_route \<Rightarrow> tempo_challenge \<Rightarrow> history \<Rightarrow> bool" where
  "bought xe rq route parsed h \<longleftrightarrow> quoted xe rq route parsed h \<and>
     ((\<exists>ck payment receipt. accepted_by ck payment receipt \<in> set h \<and> checks_price xe rq route ck parsed) \<or>
      (\<exists>pay req. facilitated pay req \<in> set h \<and> x402_covers xe route parsed pay req))"

lemma bought_calm: "bought xe rq route parsed h \<Longrightarrow> calm h h' \<Longrightarrow> bought xe rq route parsed h'"
  unfolding bought_def by (blast intro: quoted_calm calm_in)

lemma stellar_amount_price:
  "stellar_amount parsed = Inr (Inr s) \<Longrightarrow> \<exists>d. 0 \<le> d \<and> d \<le> STELLAR_USDC_DECIMALS \<and> amount_decimal (tq_amount parsed) d = Inr s"
  by (auto simp: stellar_amount_def split: sum.splits option.splits if_splits) (meson linorder_not_less)

lemma bought_amount: "bought xe rq route parsed h \<Longrightarrow> tq_amount parsed \<noteq> None"
proof
  assume b: "bought xe rq route parsed h" and n: "tq_amount parsed = None"
  have "\<not> int_re ''undefined''" by (simp add: int_re_def is_digit_def)
  then have "amount_decimal None d \<noteq> Inr s" "json_BigInt None \<noteq> Inr k" for d s k
    by (auto simp: amount_decimal_def shown_def baseUnitsToDecimalString_def json_BigInt_def)
  with b n show False
    by (auto simp: bought_def checks_price_def x402_covers_def dest!: stellar_amount_price)
qed

text \<open>Nothing was asked for so far.\<close>

definition unpaid :: "history \<Rightarrow> bool" where
  "unpaid h \<longleftrightarrow> (\<forall>q a. heavy q \<longrightarrow> EChan q a \<notin> set h)"

subsection \<open>The merchant's answer\<close>

definition served :: "xenv \<Rightarrow> proxy_request \<Rightarrow> proxy_route \<Rightarrow> string \<Rightarrow> int \<Rightarrow> history \<Rightarrow> bool" where
  "served xe rq route body status h \<longleftrightarrow> 200 \<le> status \<and> status \<le> 299 \<and>
     ((\<exists>t. EChan (Proxy (ReadBody status)) (Inr (AProxy (ABody (Some body) t))) \<in> set h) \<or>
      (\<exists>f a. EChan (Proxy (Fetch f)) (Inr (AProxy (AFetched a))) \<in> set h \<and> fc_url f = target_url xe rq route \<and>
         ht_status a = status \<and> ht_text a = Some body))"

definition delivered :: "xenv \<Rightarrow> proxy_request \<Rightarrow> proxy_route \<Rightarrow> string \<Rightarrow> int \<Rightarrow> history \<Rightarrow> bool" where
  "delivered xe rq route body status h \<longleftrightarrow>
     (\<exists>raw contentType. served xe rq route raw status h \<and> (body = raw \<or> body = presentMerchantEnvelope xe raw contentType))"

lemma served_calm: "served xe rq route b s h \<Longrightarrow> calm h h' \<Longrightarrow> served xe rq route b s h'"
  unfolding served_def calm_def by blast

lemma delivered_calm: "delivered xe rq route b s h \<Longrightarrow> calm h h' \<Longrightarrow> delivered xe rq route b s h'"
  unfolding delivered_def by (blast intro: served_calm)

subsection \<open>What a verified payment left\<close>

definition captured :: "xenv \<Rightarrow> proxy_request \<Rightarrow> pay_check \<Rightarrow> json option \<Rightarrow> string option \<Rightarrow> paid_call \<Rightarrow> bool" where
  "captured xe rq ck payment receipt pd \<longleftrightarrow>
     py_channel ck = None \<and> pd = captured_charge xe (auth_header rq) payment receipt \<or>
     (\<exists>resolved held. py_channel ck = Some (sv_contract resolved, sv_key resolved) \<and>
        pd = captured_channel xe (auth_header rq) resolved held payment receipt)"

definition pays_for :: "xenv \<Rightarrow> proxy_request \<Rightarrow> proxy_route \<Rightarrow> tempo_challenge \<Rightarrow> paid_call \<Rightarrow> history \<Rightarrow> bool" where
  "pays_for xe rq route parsed pd h \<longleftrightarrow> quoted xe rq route parsed h \<and>
     (\<exists>ck payment receipt. accepted_by ck payment receipt \<in> set h \<and> checks_price xe rq route ck parsed \<and>
        captured xe rq ck payment receipt pd)"

lemma backed_calm: "pays_for xe rq route parsed pd h \<Longrightarrow> calm h h' \<Longrightarrow> pays_for xe rq route parsed pd h'"
  unfolding pays_for_def by (blast intro: quoted_calm calm_in)

lemma backed_bought: "pays_for xe rq route parsed pd h \<Longrightarrow> bought xe rq route parsed h"
  unfolding pays_for_def bought_def by blast

definition nonce_reserved :: "xenv \<Rightarrow> x402_payment \<Rightarrow> history \<Rightarrow> bool" where
  "nonce_reserved xe pay h \<longleftrightarrow>
     (\<exists>xdr y. xp_transaction pay = Some (JStr xdr) \<and>
        EChan (Proxy (KvTextPut (nonceKeyFromHash (hashXdr xe xdr)) (JStr ''1''))) (Inr (AProxy y)) \<in> set h \<and>
        (\<exists>t. EChan (Proxy (KvTextGet (nonceKeyFromHash (hashXdr xe xdr)))) (Inr (AProxy (AText t))) \<in> set h \<and> t \<in> {None, Some []}))"

lemma nonce_calm: "nonce_reserved xe pay h \<Longrightarrow> calm h h' \<Longrightarrow> nonce_reserved xe pay h'"
  unfolding nonce_reserved_def calm_def by blast

text \<open>Before a buyer is settled, a row for the settlement and its open marker were attempted.\<close>

definition row_tried :: "history \<Rightarrow> bool" where
  "row_tried h \<longleftrightarrow> (\<exists>key key' e t a b. oe_settlement e = Some SettlePending \<and> EChan (Proxy (OrderPut key e)) a \<in> set h \<and>
     EChan (Proxy (OpenPut key' e t)) b \<in> set h)"

subsection \<open>The guard\<close>

definition sign_ok :: "xenv \<Rightarrow> proxy_request \<Rightarrow> proxy_route \<Rightarrow> signing \<Rightarrow> history \<Rightarrow> bool" where
  "sign_ok xe rq route c h \<longleftrightarrow> xo_operator route = None \<and> pr_auth (xo_route route) = None \<and>
     (\<exists>parsed. bought xe rq route parsed h \<and>
        (sn_cumulative c = None \<and> sn_channel c = None \<or>
         tq_amount parsed = Some (JStr (sn_amount c)) \<and> voucher_ok (xe_penv xe) h c))"

definition fetch_ok :: "xenv \<Rightarrow> proxy_request \<Rightarrow> proxy_route \<Rightarrow> fetch_call \<Rightarrow> history \<Rightarrow> bool" where
  "fetch_ok xe rq route f h \<longleftrightarrow>
     fc_headers f = forwardHeaders rq False \<or>
     fc_headers f = forwardHeaders rq True \<and> auth_kind_of xe rq route = PassthroughAuth \<and> \<not> xo_hosted route \<or>
     fc_headers f = relay_headers route rq \<and> isDirectSettlementRoute route \<or>
     fc_url f = QUOTE_URL \<and> isRozoPayInvoiceRoute route \<or>
     fc_url f = target_url xe rq route \<and> (\<exists>parsed. bought xe rq route parsed h)"

definition refund_ok_for :: "xenv \<Rightarrow> proxy_request \<Rightarrow> proxy_route \<Rightarrow> enqueue_input \<Rightarrow> history \<Rightarrow> bool" where
  "refund_ok_for xe rq route i h \<longleftrightarrow>
     (\<exists>parsed pd. pays_for xe rq route parsed pd h \<and> pd_proof pd = Some (en_proof i) \<and> open_voucher pd = None) \<and>
     en_routeId i = route_id route \<and> en_merchant i = pr_host (xo_route route)"

definition rollback_ok :: "xenv \<Rightarrow> proxy_request \<Rightarrow> proxy_route \<Rightarrow> string \<Rightarrow> string \<Rightarrow> string \<Rightarrow> history \<Rightarrow> bool" where
  "rollback_ok xe rq route key accepted' previous h \<longleftrightarrow>
     (\<exists>parsed pd c v. pays_for xe rq route parsed pd h \<and> open_voucher pd = Some (c, v) \<and> key = cumulativeKey c \<and>
        accepted' = pv_accepted v \<and> previous = pv_previous v)"

fun proxy_req_guard :: "xenv \<Rightarrow> proxy_request \<Rightarrow> proxy_route \<Rightarrow> proxy_req \<Rightarrow> history \<Rightarrow> bool" where
  "proxy_req_guard xe rq route (Fetch f) h = fetch_ok xe rq route f h"
| "proxy_req_guard xe rq route (VerifyPayment ck) h =
     (unpaid h \<and> (xo_hosted route \<longrightarrow> auth_header rq = None) \<and> \<not> isDirectSettlementRoute route \<and>
      (\<exists>parsed. quoted xe rq route parsed h \<and> checks_price xe rq route ck parsed))"
| "proxy_req_guard xe rq route (FacilitatorVerify pay req) h =
     (unpaid h \<and> nonce_reserved xe pay h \<and> x402_price xe rq route pay req h)"
| "proxy_req_guard xe rq route (SettleX402 pay req) h =
     (facilitated pay req \<in> set h \<and> nonce_reserved xe pay h \<and> x402_price xe rq route pay req h \<and>
      (\<exists>body status. delivered xe rq route body status h) \<and> row_tried h)"
| "proxy_req_guard xe rq route (EnqueueRefund i) h = refund_ok_for xe rq route i h"
| "proxy_req_guard xe rq route (HostedHeaders i) h = (\<exists>parsed. bought xe rq route parsed h)"
| "proxy_req_guard xe rq route _ h = True"

fun chan_part :: "xenv \<Rightarrow> proxy_request \<Rightarrow> proxy_route \<Rightarrow> chan_req \<Rightarrow> history \<Rightarrow> bool" where
  "chan_part xe rq route (Proxy r) h = proxy_req_guard xe rq route r h"
| "chan_part xe rq route (StoreGet key) h = True"
| "chan_part xe rq route (StoreUpdate key (AcquireLock i t)) h = (\<exists>c. key = lockKey c)"
| "chan_part xe rq route (StoreUpdate key (ReleaseLock i)) h = (\<exists>c. key = lockKey c)"
| "chan_part xe rq route (StoreUpdate key (Rollback a p)) h = rollback_ok xe rq route key a p h"
| "chan_part xe rq route (StoreDelete key) h = (\<exists>i. key = challengeKey i)"
| "chan_part xe rq route _ h = False"

fun proxy_guard :: "xenv \<Rightarrow> proxy_request \<Rightarrow> proxy_route \<Rightarrow> act \<Rightarrow> history \<Rightarrow> bool" where
  "proxy_guard xe rq route (CallSign c) h = sign_ok xe rq route c h"
| "proxy_guard xe rq route (CallChan r) h = chan_part xe rq route r h"
| "proxy_guard xe rq route _ h = False"

end
