(* ===== verification/ProxySteps.thy ===== *)
theory ProxySteps
  imports ProxyInv
begin

text \<open>
  Every step of the paid proxy in the calculus of \<open>ProxyInv\<close>: which steps are quiet, and what the others leave.
\<close>

subsection \<open>Quiet steps\<close>

abbreviation still :: "xenv \<Rightarrow> proxy_request \<Rightarrow> proxy_route \<Rightarrow> history \<Rightarrow> 'a prog \<Rightarrow> bool" where
  "still xe rq route \<equiv> quiet (proxy_guard xe rq route)"

lemma still_await [quiet_rules]:
  "\<not> pays_in r \<Longrightarrow> (\<And>h. calm b h \<Longrightarrow> proxy_req_guard xe rq route r h) \<Longrightarrow> (\<And>y. still xe rq route b (k y)) \<Longrightarrow>
     still xe rq route b (await r k)"
  by (rule quiet_await) simp_all

lemma still_unit [quiet_rules]: "\<not> pays_in r \<Longrightarrow> (\<And>h. calm b h \<Longrightarrow> proxy_req_guard xe rq route r h) \<Longrightarrow> still xe rq route b (await_unit r)"
  unfolding await_unit_def by (rule still_await) (simp_all add: quiet_rules)

lemma still_kv [quiet_rules]: "still xe rq route b (kv_text key)" "still xe rq route b (read_body n)"
    "still xe rq route b checkoutDeliveryPaused" "still xe rq route b (release_nonce k)"
    "still xe rq route b (job_auth_put i j)"
  unfolding kv_text_def read_body_def checkoutDeliveryPaused_def release_nonce_def job_auth_put_def
  by (intro quiet_rules; simp add: pays_in_def)+

lemma still_order [quiet_rules]: "still xe rq route b (newOrderId xe)" "still xe rq route b (recordOrderStats xe e)"
    "still xe rq route b (recordOrder xe e)" "still xe rq route b (updateOrderRefundStatus xe i m)"
  unfolding newOrderId_def recordOrderStats_def recordOrder_def updateOrderRefundStatus_def Let_def
  by (intro quiet_rules; simp add: pays_in_def)+

lemma still_metrics [quiet_rules]: "still xe rq route b (recordRouteFailure i w)" "still xe rq route b (recordRouteSuccess i)"
    "still xe rq route b (recordRouteCall xe c)" "still xe rq route b (alertUnsettled xe e)"
  unfolding recordRouteFailure_def recordRouteSuccess_def recordRouteCall_def alertUnsettled_def
  by (intro quiet_rules; simp add: pays_in_def)+

lemma still_rate [quiet_rules]: "still xe rq route b (too_many u l)" "still xe rq route b (consumeRateLimitSlotOrReject slot)"
    "still xe rq route b (peek_slot r)" "still xe rq route b (replayed xe k)"
  unfolding too_many_def consumeRateLimitSlotOrReject_def peek_slot_def replayed_def Let_def
  by (intro quiet_rules; simp add: pays_in_def)+

lemma still_open [quiet_rules]: "still xe rq route b (write_open e t)" "still xe rq route b (write_signed e t hs)"
proof -
  show w: "still xe rq route b (write_open e t)" for e
    unfolding write_open_def Let_def by (intro quiet_rules; simp add: pays_in_def)
  show "still xe rq route b (write_signed e t hs)"
    by (induction hs) (auto simp: quiet_rules intro!: quiet_rules w)
qed

subsection \<open>The store of the channels\<close>

lemma still_store [quiet_rules]: "still xe rq route b (store_get k)" "still xe rq route b (acquireChannelDeliveryLock c i)"
    "still xe rq route b (releaseChannelDeliveryLock c i)" "still xe rq route b (release_lock pd)"
    "still xe rq route b (store_delete (challengeKey i))" "still xe rq route b (release_delivery d P)"
  unfolding store_get_def store_delete_def acquireChannelDeliveryLock_def releaseChannelDeliveryLock_def release_lock_def store_update_def
    release_delivery_def
  by (intro quiet_rules quiet_chan; auto simp: heavy_def unexpected_def intro!: quiet_rules split: chan_ans.split)+

text \<open>What the payment seams sign is what the guard allows, once the call has been bought.\<close>

definition own_purse :: "proxy_route \<Rightarrow> bool" where
  "own_purse route \<longleftrightarrow> xo_operator route = None \<and> pr_auth (xo_route route) = None"

lemma pays_bought:
  assumes "own_purse route" "bought xe rq route parsed b" "calm b h"
  shows "pays_up (xe_penv xe) None (expected_amount (tq_amount parsed))
     (\<lambda>c h. proxy_guard xe rq route c h \<and> (\<forall>q. c = CallChan q \<longrightarrow> \<not> heavy q)) h"
  unfolding pays_up_def
proof (intro allI impI conjI)
  fix h1 c assume m: "may_pay (xe_penv xe) None (expected_amount (tq_amount parsed)) (h1 @ h) c"
  have "bought xe rq route parsed (h1 @ h)"
    using bought_calm [OF assms(2,3)] quoted_more [of xe rq route parsed h "h1 @ h"] unfolding bought_def by auto
  moreover have "sn_cumulative c \<noteq> None \<Longrightarrow> tq_amount parsed = Some (JStr (sn_amount c))"
    using m bought_amount [OF assms(2)] unfolding may_pay_def
    by (auto simp: expected_amount_def digits_re_def split: option.splits json.splits)
  ultimately show "proxy_guard xe rq route (CallSign c) (h1 @ h)"
    using m assms(1) unfolding may_pay_def sign_ok_def own_purse_def by (auto simp: sign_ok_def)
qed simp

lemma still_seam:
  assumes "own_purse route" "bought xe rq route parsed b"
  shows "still xe rq route b (payMerchantSessionWith (xe_penv xe) m url None (expected_amount (tq_amount parsed)))" (is ?session)
    and "still xe rq route b (payMerchant url None)" (is ?charge)
proof -
  show ?session unfolding quiet_def
    by (rule wp_sure, rule wp_mono [OF wp_payMerchantSessionWith], rule pays_bought [OF assms]) simp_all
  show ?charge unfolding quiet_def
    by (rule wp_sure, rule wp_mono [OF wp_payMerchant], rule pays_bought [OF assms]) simp_all
qed

lemma still_channel [quiet_rules]: "still xe rq route b (bumpCumulative (xe_penv xe) m raw)"
    "still xe rq route b (getTempoChannel (xe_penv xe) m)"
proof -
  show "still xe rq route b (bumpCumulative (xe_penv xe) m raw)" unfolding quiet_def
    by (rule wp_sure, rule wp_mono [OF wp_bumpCumulative]) simp_all
  show "still xe rq route b (getTempoChannel (xe_penv xe) m)" unfolding quiet_def
    by (rule wp_sure, rule wp_mono [OF wp_getTempoChannel]) simp_all
qed

subsection \<open>Before a payment\<close>

definition may_fetch :: "xenv \<Rightarrow> proxy_request \<Rightarrow> proxy_route \<Rightarrow> history \<Rightarrow> fetch_call \<Rightarrow> bool" where
  "may_fetch xe rq route b f \<longleftrightarrow> (\<forall>h. calm b h \<longrightarrow> fetch_ok xe rq route f h)"

lemma still_fetch: "may_fetch xe rq route b f \<Longrightarrow> still xe rq route b (fetch_text f)"
  unfolding fetch_text_def may_fetch_def by (intro quiet_rules; simp add: pays_in_def)

lemma fetch_plain: "fc_headers f = forwardHeaders rq False \<Longrightarrow> may_fetch xe rq route b f"
  and fetch_relay: "fc_headers f = relay_headers route rq \<Longrightarrow> isDirectSettlementRoute route \<Longrightarrow> may_fetch xe rq route b f"
  and fetch_quote: "fc_url f = QUOTE_URL \<Longrightarrow> isRozoPayInvoiceRoute route \<Longrightarrow> may_fetch xe rq route b f"
  and fetch_bought: "fc_url f = target_url xe rq route \<Longrightarrow> bought xe rq route parsed b \<Longrightarrow> may_fetch xe rq route b f"
  by (auto simp: may_fetch_def fetch_ok_def intro: bought_calm)

lemma still_quote_invoice: "isRozoPayInvoiceRoute route \<Longrightarrow> still xe rq route b (quoteInvoiceAmountBaseUnits xe body)"
  unfolding quoteInvoiceAmountBaseUnits_def Let_def
  by (intro quiet_rules still_fetch fetch_quote; simp)

lemma still_quote: "still xe rq route b (quote_merchant xe route rq url body)"
  unfolding quote_merchant_def probe_quote_def session_quote_def invoice_quote_def Let_def
  by (intro quiet_rules still_fetch fetch_plain still_quote_invoice; simp)

lemma still_preflight: "still xe rq route b (preflight xe r parsed)"
  unfolding preflight_def check_balance_def checkSessionPreflight_def Let_def
  by (intro quiet_rules; simp add: pays_in_def)

lemma still_resolve: "still xe rq route b (resolveStellarChannelMppx xe auth hint)"
  unfolding resolveStellarChannelMppx_def Let_def
  by (intro quiet_rules; simp add: pays_in_def)

lemma still_hosted: "still xe rq route b (hosted_refusal xe route rq)"
  unfolding hosted_refusal_def by (intro quiet_rules)

lemma still_passthrough:
  "auth_kind_of xe rq route = PassthroughAuth \<Longrightarrow> \<not> xo_hosted route \<Longrightarrow> still xe rq route b (passthrough xe rq url)"
  unfolding passthrough_def by (intro quiet_rules still_fetch) (auto simp: may_fetch_def fetch_ok_def)

lemma still_relay: "isDirectSettlementRoute route \<Longrightarrow> still xe rq route b (relayDirectSettlementRoute xe route operator rq)"
  unfolding relayDirectSettlementRoute_def Let_def
  by (intro quiet_rules still_fetch fetch_relay; simp)

subsection \<open>The merchant\<close>

lemma sure_if: "(c \<Longrightarrow> sure G b p Q) \<Longrightarrow> (\<not> c \<Longrightarrow> sure G b q Q) \<Longrightarrow> sure G b (if c then p else q) Q"
  by simp

lemma sure_option: "(x = None \<Longrightarrow> sure G b p Q) \<Longrightarrow> (\<And>y. x = Some y \<Longrightarrow> sure G b (f y) Q) \<Longrightarrow> sure G b (case_option p f x) Q"
  by (cases x) simp_all

lemma sure_sum: "(\<And>y. x = Inl y \<Longrightarrow> sure G b (f y) Q) \<Longrightarrow> (\<And>y. x = Inr y \<Longrightarrow> sure G b (g y) Q) \<Longrightarrow> sure G b (case_sum f g x) Q"
  by (cases x) simp_all

lemma sure_fetch:
  "may_fetch xe rq route b f \<Longrightarrow> sure (proxy_guard xe rq route) b (fetch_text f)
     (\<lambda>t h. EChan (Proxy (Fetch f)) (Inr (AProxy (AFetched t))) \<in> set h)"
  unfolding fetch_text_def
  by (rule sure_await) (auto simp: pays_in_def may_fetch_def unexpected_def intro!: sure_Throw sure_Done intro: calm_in split: proxy_ans.split)

lemma sure_body_of: "sure G b (body_of t) (\<lambda>x h. ht_text t = Some x)"
  by (auto simp: body_of_def intro!: sure_Throw sure_Done split: option.split)

lemma sure_read_body:
  "sure (proxy_guard xe rq route) b (read_body n)
     (\<lambda>x h. \<exists>t. EChan (Proxy (ReadBody n)) (Inr (AProxy (ABody (Some (fst x)) t))) \<in> set h)"
  unfolding read_body_def
  by (rule sure_await) (auto simp: pays_in_def unexpected_def intro!: sure_Throw sure_Done split: proxy_ans.split option.split,
    (blast intro: calm_in)+)

text \<open>A call that is reported as answered was answered, with that body and a status of success.\<close>

definition honest :: "xenv \<Rightarrow> proxy_request \<Rightarrow> proxy_route \<Rightarrow> merchant_pay \<Rightarrow> history \<Rightarrow> bool" where
  "honest xe rq route r h \<longleftrightarrow> (case r of PayOk body contentType status \<Rightarrow> served xe rq route body status h | PayError _ _ _ _ \<Rightarrow> True)"

lemma honest_error [simp]: "honest xe rq route (PayError a c d e) h"
  by (simp add: honest_def)

lemma honest_fetched:
  assumes "EChan (Proxy (Fetch f)) (Inr (AProxy (AFetched t))) \<in> set h" "fc_url f = target_url xe rq route" "ht_text t = Some body"
    "ht_ok t \<or> ht_status t = 202"
  shows "honest xe rq route (PayOk body ct (ht_status t)) h"
  using assms unfolding honest_def served_def by (auto simp: ht_ok_def)

lemma sure_answered:
  assumes "may_fetch xe rq route b f" "fc_url f = target_url xe rq route"
    and "\<And>e. \<exists>a c d o'. failed e = PayError a c d o'"
    and "\<And>t h. calm b h \<Longrightarrow> EChan (Proxy (Fetch f)) (Inr (AProxy (AFetched t))) \<in> set h \<Longrightarrow>
      sure (proxy_guard xe rq route) h (k t) (honest xe rq route)"
  shows "sure (proxy_guard xe rq route) b (bind (attempt (fetch_text f)) (\<lambda>r. case r of Inl e \<Rightarrow> Done (failed e) | Inr t \<Rightarrow> k t))
    (honest xe rq route)"
proof (rule sure_bind [OF sure_attempt [OF sure_fetch [OF assms(1)]]])
  fix r :: "exn + http_text" and h assume h: "calm b h" "case r of Inl x \<Rightarrow> True | Inr x \<Rightarrow> EChan (Proxy (Fetch f)) (Inr (AProxy (AFetched x))) \<in> set h"
  show "sure (proxy_guard xe rq route) h (case r of Inl e \<Rightarrow> Done (failed e) | Inr t \<Rightarrow> k t) (honest xe rq route)"
  proof (cases r)
    case (Inl e)
    then show ?thesis using assms(3) [of e] by (auto intro!: sure_Done)
  next
    case (Inr t)
    then show ?thesis using h assms(4) by simp
  qed
qed

lemma sure_texted:
  assumes "EChan (Proxy (Fetch f)) (Inr (AProxy (AFetched t))) \<in> set b" "fc_url f = target_url xe rq route"
    and "\<And>x. bad \<Longrightarrow> \<exists>a c d o'. failed x = PayError a c d o'" "\<not> bad \<Longrightarrow> ht_ok t \<or> ht_status t = 202"
  shows "sure (proxy_guard xe rq route) b (bind (body_of t) (\<lambda>x. if bad then Done (failed x) else Done (PayOk x ct (ht_status t))))
    (honest xe rq route)"
proof (rule sure_bind [OF sure_body_of], rule sure_if)
  fix x h assume "bad"
  then show "sure (proxy_guard xe rq route) h (Done (failed x)) (honest xe rq route)" using assms(3) [of x] by (auto intro!: sure_Done)
next
  fix x h assume h: "calm b h" "ht_text t = Some x" and "\<not> bad"
  then show "sure (proxy_guard xe rq route) h (Done (PayOk x ct (ht_status t))) (honest xe rq route)"
    using assms(1,2,4) by (auto intro!: sure_Done honest_fetched [where f = f] intro: calm_in)
qed

lemma sure_operator:
  assumes "bought xe rq route parsed b"
  shows "sure (proxy_guard xe rq route) b (pay_operator xe route operator (target_url xe rq route) rq body) (honest xe rq route)"
  unfolding pay_operator_def
  apply (rule sure_then)
  subgoal unfolding origin_headers_def hosted_headers_def
    by (intro quiet_rules; simp add: pays_in_def; blast intro: bought_calm assms)
  apply (rule sure_option, simp add: sure_Done)
  apply (rule sure_answered, rule fetch_bought [OF _ bought_calm [OF assms]])
  by (auto intro!: sure_if sure_texted sure_Done)

lemma sure_secret:
  assumes "bought xe rq route parsed b"
  shows "sure (proxy_guard xe rq route) b (pay_with_secret xe route (target_url xe rq route) rq body) (honest xe rq route)"
  unfolding pay_with_secret_def
  by (rule sure_answered, rule fetch_bought [OF _ assms]) (auto intro!: sure_texted)

lemma sure_invoice:
  assumes "bought xe rq route parsed b"
  shows "sure (proxy_guard xe rq route) b (pay_invoice_bridge secret (target_url xe rq route) rq body) (honest xe rq route)"
  unfolding pay_invoice_bridge_def
  apply (rule sure_then, intro quiet_rules)
  apply (rule sure_if, simp add: sure_Done)
  by (rule sure_answered, rule fetch_bought [OF _ bought_calm [OF assms]]) (auto intro!: sure_texted)

lemma still_pool:
  assumes "own_purse route" "bought xe rq route parsed b"
  shows "still xe rq route b (pay_session xe r parsed url)" "still xe rq route b (pay_charge url)"
proof -
  note seam = still_seam [OF assms]
  show "still xe rq route b (pay_session xe r parsed url)"
    unfolding pay_session_def Let_def by (intro quiet_rules seam)
  show "still xe rq route b (pay_charge url)"
    unfolding pay_charge_def by (intro quiet_rules seam)
qed

lemma sure_read:
  assumes "\<And>x y h. calm b h \<Longrightarrow> \<exists>t. EChan (Proxy (ReadBody n)) (Inr (AProxy (ABody (Some x) t))) \<in> set h \<Longrightarrow>
      sure (proxy_guard xe rq route) h (k x y) Q"
  shows "sure (proxy_guard xe rq route) b (bind (read_body n) (\<lambda>(x, y). k x y)) Q"
  by (rule sure_bind [OF sure_read_body]) (simp only: split_beta, rule assms)

lemma honest_read:
  "EChan (Proxy (ReadBody n)) (Inr (AProxy (ABody (Some x) t))) \<in> set b \<Longrightarrow> calm b h \<Longrightarrow> 200 \<le> n \<Longrightarrow> n \<le> 299 \<Longrightarrow>
     honest xe rq route (PayOk x y n) h"
  by (auto simp: honest_def served_def dest: calm_in)

lemma honest_pool_failure: "honest xe rq route (pool_failure e) h"
  by (cases e) (simp_all add: pool_failure_def)

lemma sure_pool:
  assumes "own_purse route" "bought xe rq route parsed b"
  shows "sure (proxy_guard xe rq route) b (pay_from_pool xe route parsed url) (honest xe rq route)"
  unfolding pay_from_pool_def Let_def
  apply (rule sure_then)
  subgoal by (intro quiet_rules still_pool [OF assms])
  apply (rule sure_sum)
  subgoal by (intro sure_Done honest_pool_failure)
  by (auto simp: ha_ok_def intro!: sure_if sure_read sure_Done intro: honest_read)

lemma sure_inner:
  assumes "bought xe rq route parsed b"
  shows "sure (proxy_guard xe rq route) b (payMerchantAndGetBodyInner xe route parsed (target_url xe rq route) rq body) (honest xe rq route)"
proof -
  have "sure (proxy_guard xe rq route) b (pay_from_pool xe route parsed (target_url xe rq route)) (honest xe rq route)"
    if "xo_operator route = None" "pr_auth (xo_route route) = None"
    using that assms by (intro sure_pool) (simp_all add: own_purse_def)
  then show ?thesis unfolding payMerchantAndGetBodyInner_def
    by (cases "pr_auth (xo_route route)")
      (auto intro: sure_operator sure_secret sure_invoice assms split: option.split bool.split list.split)
qed

text \<open>The answer as it is passed on: some merchants' envelopes are lifted.\<close>

definition faithful :: "xenv \<Rightarrow> proxy_request \<Rightarrow> proxy_route \<Rightarrow> merchant_pay \<Rightarrow> history \<Rightarrow> bool" where
  "faithful xe rq route r h \<longleftrightarrow> (case r of PayOk body contentType status \<Rightarrow> delivered xe rq route body status h | PayError _ _ _ _ \<Rightarrow> True)"

lemma lifted_faithful: "honest xe rq route r h \<Longrightarrow> faithful xe rq route (lifted xe route r a) h"
  by (auto simp: honest_def faithful_def lifted_def delivered_def split: merchant_pay.splits)

lemma honest_calm: "honest xe rq route r h \<Longrightarrow> calm h h' \<Longrightarrow> honest xe rq route r h'"
  by (auto simp: honest_def intro: served_calm split: merchant_pay.splits)

lemma sure_merchant:
  assumes "bought xe rq route parsed b"
  shows "sure (proxy_guard xe rq route) b (payMerchantAndGetBody xe route parsed (target_url xe rq route) rq body) (faithful xe rq route)"
  unfolding payMerchantAndGetBody_def
proof (rule sure_bind [OF sure_attempt [OF sure_inner [OF assms]]], rule sure_sum)
  fix r :: "exn + merchant_pay" and h e
  show "sure (proxy_guard xe rq route) h (bind (recordRouteFailure (route_id route) ''timeout'') (\<lambda>_.
      bind (recordRouteCall xe (thrown_call route rq e)) (\<lambda>_. Throw e))) (faithful xe rq route)"
    by (intro sure_then sure_Throw quiet_rules)
next
  fix r :: "exn + merchant_pay" and h result
  assume "case r of Inl x \<Rightarrow> True | Inr x \<Rightarrow> honest xe rq route x h" "r = Inr result"
  then have "honest xe rq route result h" by simp
  then have faithful: "faithful xe rq route (lifted xe route result a) h'" if "calm h h'" for a h'
    by (intro lifted_faithful honest_calm [OF _ that])
  show "sure (proxy_guard xe rq route) h
      (let (isAsync, jobId) = (case result of PayOk body _ status \<Rightarrow> isAsyncJobResponse xe status body | _ \<Rightarrow> (False, None)) in
       bind (case result of
           PayError _ reason _ _ \<Rightarrow> recordRouteFailure (route_id route) (case reason of Some x \<Rightarrow> reason_text x | None \<Rightarrow> ''upstream_error'')
         | PayOk _ _ _ \<Rightarrow> recordRouteSuccess (route_id route)) (\<lambda>_.
       bind (recordRouteCall xe (finished_call xe route rq result isAsync jobId)) (\<lambda>_.
       Done (lifted xe route result isAsync)))) (faithful xe rq route)"
    unfolding Let_def split_beta
    by (intro sure_then sure_Done faithful) (auto intro!: quiet_rules intro: calm_trans split: merchant_pay.split)
qed

subsection \<open>What becomes of a payment\<close>

text \<open>A voucher is back when the watermark was restored, or it had never been consumed.\<close>

definition taken_back :: "history \<Rightarrow> bool" where
  "taken_back h \<longleftrightarrow> (\<exists>c accepted' previous i v.
     EChan (StoreUpdate (cumulativeKey c) (Rollback accepted' previous)) (Inr (ADid True)) \<in> set h \<or>
     EChan (StoreGet (cumulativeKey c)) (Inr (AValue v)) \<in> set h \<and> watermark_text v = previous \<and>
     EChan (StoreGet (challengeKey i)) (Inr (AValue None)) \<in> set h)"

definition refund_status :: "response \<Rightarrow> string option" where
  "refund_status r = header_of (rs_headers r) ''Refund-Status''"

definition refund_kept :: "response \<Rightarrow> history \<Rightarrow> bool" where
  "refund_kept r h \<longleftrightarrow> refund_status r = Some ''pending'' \<and>
     (\<exists>i rf. EChan (Proxy (EnqueueRefund i)) (Inr (AProxy (ARefund rf))) \<in> set h \<and>
        header_of (rs_headers r) ''Refund-Id'' = Some (publicId rf))"

text \<open>
  After a payment the caller has the merchant's answer, or an earlier answer to the same request, or is told that a
  refund is on record, that the voucher was taken back, that a person will look at it, or that the money never was ours.
\<close>

definition accounted :: "xenv \<Rightarrow> proxy_request \<Rightarrow> proxy_route \<Rightarrow> response \<Rightarrow> history \<Rightarrow> bool" where
  "accounted xe rq route r h \<longleftrightarrow>
     (\<exists>body status. delivered xe rq route body status h \<and> rs_body r = JStr body \<and> rs_status r \<in> {200, 202}) \<or>
     (\<exists>body. rs_status r = 200 \<and> rs_body r = JStr body \<and> header_of (rs_headers r) ''X-Idempotent'' = Some ''true'') \<or>
     refund_kept r h \<or>
     refund_status r = Some ''voucher-not-consumed'' \<and> taken_back h \<or>
     refund_status r = Some ''manual-review'' \<or>
     refund_status r = Some ''not-applicable-direct-settlement'' \<and> xo_operator route \<noteq> None \<or>
     (\<exists>body status. delivered xe rq route body status h \<and> fst (isAsyncJobResponse xe status body) \<and> rs_status r = 401)"

definition told_same :: "response \<Rightarrow> response \<Rightarrow> bool" where
  "told_same r x \<longleftrightarrow> rs_status x = rs_status r \<and> rs_body x = rs_body r \<and>
     (\<forall>k \<in> {''Refund-Status'', ''Refund-Id'', ''X-Idempotent''}. header_of (rs_headers x) k = header_of (rs_headers r) k)"

lemma taken_calm: "taken_back h \<Longrightarrow> calm h h' \<Longrightarrow> taken_back h'"
  unfolding taken_back_def by (blast intro: calm_in)

lemma accounted_calm: "accounted xe rq route r h \<Longrightarrow> calm h h' \<Longrightarrow> accounted xe rq route r h'"
  unfolding accounted_def refund_kept_def by (blast intro: delivered_calm taken_calm calm_in)

lemma accounted_same: "accounted xe rq route r h \<Longrightarrow> told_same r x \<Longrightarrow> accounted xe rq route x h"
  unfolding accounted_def told_same_def refund_kept_def refund_status_def by simp

subsection \<open>Taking back and refunding\<close>

lemma sure_update:
  "(\<And>h. calm b h \<Longrightarrow> G (CallChan (StoreUpdate k u)) h) \<Longrightarrow>
     sure G b (store_update k u) (\<lambda>r h. EChan (StoreUpdate k u) (Inr (ADid r)) \<in> set h)"
  unfolding store_update_def
  by (rule sure_chan) (auto simp: heavy_def from_outside_def unexpected_def intro!: sure_Throw sure_Done intro: calm_in split: sum.split chan_ans.split)

lemma sure_get:
  "(\<And>h. calm b h \<Longrightarrow> G (CallChan (StoreGet k)) h) \<Longrightarrow>
     sure G b (store_get k) (\<lambda>v h. EChan (StoreGet k) (Inr (AValue v)) \<in> set h)"
  unfolding store_get_def
  by (rule sure_chan) (auto simp: heavy_def from_outside_def unexpected_def intro!: sure_Throw sure_Done intro: calm_in split: sum.split chan_ans.split)

definition may_take_back :: "xenv \<Rightarrow> proxy_request \<Rightarrow> proxy_route \<Rightarrow> string \<Rightarrow> string \<Rightarrow> string \<Rightarrow> history \<Rightarrow> bool" where
  "may_take_back xe rq route c accepted' previous b \<longleftrightarrow>
     (\<exists>parsed pd v. pays_for xe rq route parsed pd b \<and> open_voucher pd = Some (c, v) \<and> accepted' = pv_accepted v \<and> previous = pv_previous v)"

lemma may_take_back_calm: "may_take_back xe rq route c a p b \<Longrightarrow> calm b h \<Longrightarrow> may_take_back xe rq route c a p h"
  unfolding may_take_back_def by (blast intro: backed_calm)

lemma may_rollback: "may_take_back xe rq route c a p h \<Longrightarrow> rollback_ok xe rq route (cumulativeKey c) a p h"
  unfolding may_take_back_def rollback_ok_def by blast

lemma sure_rollback:
  assumes "may_take_back xe rq route c a p b"
  shows "sure (proxy_guard xe rq route) b (rollbackFailedChannelVoucher c a p i) (\<lambda>r h. r \<longrightarrow> taken_back h)"
  unfolding rollbackFailedChannelVoucher_def
proof (rule sure_bind [OF sure_update], goal_cases)
  case (1 h)
  then show ?case using may_rollback [OF may_take_back_calm [OF assms]] by simp
next
  case (2 ok h)
  show ?case
  proof (rule sure_if)
    assume ok
    with 2 have "EChan (StoreUpdate (cumulativeKey c) (Rollback a p)) (Inr (ADid True)) \<in> set h" by simp
    then have "taken_back h" unfolding taken_back_def by blast
    then show "sure (proxy_guard xe rq route) h (bind (store_delete (challengeKey i)) (\<lambda>_. Done True)) (\<lambda>r h. r \<longrightarrow> taken_back h)"
      by (intro sure_then sure_Done quiet_rules) (blast intro: taken_calm)
  next
    show "sure (proxy_guard xe rq route) h (bind (store_get (cumulativeKey c)) (\<lambda>current. bind (store_get (challengeKey i)) (\<lambda>challenge.
        Done (watermark_text current = p \<and> challenge = None)))) (\<lambda>r h. r \<longrightarrow> taken_back h)"
      by (rule sure_bind [OF sure_get], simp, rule sure_bind [OF sure_get], simp, rule sure_Done)
        (unfold taken_back_def, blast intro: calm_in calm_trans)
  qed
qed

lemma sure_take_back:
  assumes "may_take_back xe rq route c (pv_accepted v) (pv_previous v) b"
  shows "sure (proxy_guard xe rq route) b (take_back c v) (\<lambda>r h. r \<longrightarrow> taken_back h)"
  unfolding take_back_def
  by (rule sure_bind [OF sure_attempt [OF sure_rollback [OF assms]]])
    (auto intro!: sure_Done intro: taken_calm split: sum.splits)

lemma sure_enqueue:
  assumes "\<And>h. calm b h \<Longrightarrow> refund_ok_for xe rq route i h"
  shows "sure (proxy_guard xe rq route) b (enqueue i) (\<lambda>rf h. EChan (Proxy (EnqueueRefund i)) (Inr (AProxy (ARefund rf))) \<in> set h)"
  unfolding enqueue_def
  by (rule sure_await) (auto simp: assms pays_in_def unexpected_def intro!: sure_Throw sure_Done intro: calm_in split: proxy_ans.split)

text \<open>Only the close of a channel is proof of a settled payment.\<close>

lemma capture_closes: "voucher_capture xe pa cur pl g i tx am = (g', v, Some pr) \<Longrightarrow> \<exists>w. v = Some w \<and> pv_close w"
  by (auto simp: voucher_capture_def Let_def split: option.splits if_splits)

lemma recovered_closes: "recovered_channel xe auth receipt pa cur = (g', v, Some pr) \<Longrightarrow> \<exists>w. v = Some w \<and> pv_close w"
  unfolding recovered_channel_def by (auto dest: capture_closes split: option.splits)

lemma channel_closes: "pd_proof (captured_channel xe auth r held payment receipt) \<noteq> None \<Longrightarrow>
    open_voucher (captured_channel xe auth r held payment receipt) = None"
proof -
  have hook: "channel_hook xe payment pa cur = (g', v, Some pr) \<Longrightarrow> \<exists>w. v = Some w \<and> pv_close w" for pa cur g' v pr
    unfolding channel_hook_def by (rule capture_closes)
  assume "pd_proof (captured_channel xe auth r held payment receipt) \<noteq> None"
  then show ?thesis
    by (auto simp: captured_channel_def open_voucher_def Let_def split: option.splits prod.splits if_splits dest: hook recovered_closes)
qed

lemma proof_closes: "captured xe rq ck payment receipt pd \<Longrightarrow> pd_proof pd \<noteq> None \<Longrightarrow> open_voucher pd = None"
  using channel_closes by (auto simp: captured_def captured_charge_def open_voucher_def)

definition may_refund :: "xenv \<Rightarrow> proxy_request \<Rightarrow> proxy_route \<Rightarrow> payment_proof \<Rightarrow> history \<Rightarrow> bool" where
  "may_refund xe rq route proof b \<longleftrightarrow> (\<exists>parsed pd. pays_for xe rq route parsed pd b \<and> pd_proof pd = Some proof)"

lemma may_refund_ok:
  "may_refund xe rq route (en_proof i) b \<Longrightarrow> en_routeId i = route_id route \<Longrightarrow> en_merchant i = pr_host (xo_route route) \<Longrightarrow> calm b h \<Longrightarrow>
     refund_ok_for xe rq route i h"
  unfolding may_refund_def refund_ok_for_def by (metis backed_calm pays_for_def option.distinct(1) proof_closes)

lemma may_refund_calm: "may_refund xe rq route pr b \<Longrightarrow> calm b h \<Longrightarrow> may_refund xe rq route pr h"
  unfolding may_refund_def by (blast intro: backed_calm)

subsection \<open>Headers\<close>

lemma lower_names: "js_lower ''Refund-Status'' = ''refund-status''" "js_lower ''Refund-Id'' = ''refund-id''"
    "js_lower ''X-Idempotent'' = ''x-idempotent''" "js_lower ''Refund-Status-Url'' = ''refund-status-url''"
    "js_lower ''Refund-Mode'' = ''refund-mode''" "js_lower ''Refund-Channel'' = ''refund-channel''"
    "js_lower ''Settled-To'' = ''settled-to''" "js_lower ''X-MPPRouter-Upstream-Cost'' = ''x-mpprouter-upstream-cost''"
    "js_lower ''X-MPPRouter-Quoted-Amount'' = ''x-mpprouter-quoted-amount''" "js_lower ''X-MPPRouter-Payer'' = ''x-mpprouter-payer''"
    "js_lower ''X-Payment-Method'' = ''x-payment-method''" "js_lower ''Content-Type'' = ''content-type''"
    "js_lower ''Retry-After'' = ''retry-after''" "js_lower ''X-Job-Poll-Url'' = ''x-job-poll-url''"
    "js_lower ''X-Job-Id'' = ''x-job-id''"
  by code_simp+

lemma sure_evidence: "sure G b (withFacadeChargeEvidence q pd cost r) (\<lambda>x h. calm b h \<and> told_same r x)"
  unfolding withFacadeChargeEvidence_def Let_def
  by (rule sure_bind [OF sure_from_sum [where Q = "\<lambda>_ h. calm b h"]])
    (auto simp: told_same_def lower_names intro!: sure_Done intro: calm_trans split: option.split list.split)

lemma sure_told:
  "accounted xe rq route r b \<Longrightarrow> sure G b (withFacadeChargeEvidence q pd cost r) (accounted xe rq route)"
  by (rule sure_weaken [OF sure_evidence]) (blast intro: accounted_same accounted_calm)

text \<open>Ways to be accounted for.\<close>

lemma accounted_review: "refund_status r = Some ''manual-review'' \<Longrightarrow> accounted xe rq route r h"
  by (simp add: accounted_def)

lemma review_review [simp]: "refund_status (review r) = Some ''manual-review''"
  by (simp add: review_def refund_status_def with_header_def)

lemma accounted_back: "refund_status r = Some (rollback_status back') \<Longrightarrow> back' \<longrightarrow> taken_back h \<Longrightarrow> accounted xe rq route r h"
  by (auto simp: accounted_def rollback_status_def split: if_splits)

lemma accounted_kept:
  "EChan (Proxy (EnqueueRefund i)) (Inr (AProxy (ARefund rf))) \<in> set h \<Longrightarrow> accounted xe rq route (refund_headers q rf r) h"
  by (auto simp: accounted_def refund_kept_def refund_status_def refund_headers_def with_header_def lower_names)

lemma accounted_direct: "xo_operator route \<noteq> None \<Longrightarrow> accounted xe rq route (direct_failure recipient r) h"
  by (simp add: accounted_def direct_failure_def refund_status_def with_header_def lower_names)

subsection \<open>A paid call that failed\<close>

lemma backed_take_back:
  "pays_for xe rq route parsed pd b \<Longrightarrow> open_voucher pd = Some (c, v) \<Longrightarrow> may_take_back xe rq route c (pv_accepted v) (pv_previous v) b"
  unfolding may_take_back_def by blast

lemma backed_refund: "pays_for xe rq route parsed pd b \<Longrightarrow> pd_proof pd = Some proof \<Longrightarrow> may_refund xe rq route proof b"
  unfolding may_refund_def by blast

lemma still_row [quiet_rules]: "still xe rq route b (record_row xe q pr i n m)" "still xe rq route b (failed_leg xe q pd i st m)"
  unfolding failed_leg_def record_row_def by (intro quiet_rules)+

lemma sure_refund_or_mark:
  assumes "may_refund xe rq route proof b" "qc_route q = route"
  shows "sure (proxy_guard xe rq route) b (refund_or_mark xe q proof why i recorded)
    (\<lambda>x h. \<forall>rf. x = Some rf \<longrightarrow> (\<exists>j. EChan (Proxy (EnqueueRefund j)) (Inr (AProxy (ARefund rf))) \<in> set h))"
  unfolding refund_or_mark_def
proof (rule sure_bind [OF sure_attempt [OF sure_enqueue]], goal_cases)
  case (1 h)
  then show ?case using assms by (intro may_refund_ok) (simp_all add: refund_input_def)
next
  case (2 x h)
  show ?case
  proof (rule sure_sum)
    fix e
    show "sure (proxy_guard xe rq route) h (bind (if recorded then bind (updateOrderRefundStatus xe i RefundUnknown) (\<lambda>_. Done ()) else Done ())
        (\<lambda>_. Done None)) (\<lambda>x h. \<forall>rf. x = Some rf \<longrightarrow> (\<exists>j. EChan (Proxy (EnqueueRefund j)) (Inr (AProxy (ARefund rf))) \<in> set h))"
      by (rule sure_then, intro quiet_rules, rule sure_Done) simp
  next
    fix rf assume "x = Inr rf"
    then show "sure (proxy_guard xe rq route) h (Done (Some rf))
        (\<lambda>x h. \<forall>rf. x = Some rf \<longrightarrow> (\<exists>j. EChan (Proxy (EnqueueRefund j)) (Inr (AProxy (ARefund rf))) \<in> set h))"
      using 2 by (intro sure_Done) (auto dest: calm_in)
  qed
qed

lemma accounted_refund:
  "\<forall>rf. x = Some rf \<longrightarrow> (\<exists>j. EChan (Proxy (EnqueueRefund j)) (Inr (AProxy (ARefund rf))) \<in> set h) \<Longrightarrow>
     accounted xe rq route (case x of Some rf \<Rightarrow> refund_headers q rf r | None \<Rightarrow> review r) h"
  by (cases x) (auto intro: accounted_review accounted_kept)

lemma sure_refunded:
  assumes "may_refund xe rq route proof b" "qc_route q = route"
  shows "sure (proxy_guard xe rq route) b
    (bind (refund_or_mark xe q proof why i recorded) (\<lambda>refund. bind (ignoring (release_lock pd)) (\<lambda>_.
       withFacadeChargeEvidence q pd cost (case refund of Some rf \<Rightarrow> refund_headers q rf resp | None \<Rightarrow> review resp))))
    (accounted xe rq route)"
proof (rule sure_bind [OF sure_refund_or_mark [OF assms]], rule sure_then, intro quiet_rules, rule sure_told)
  fix refund :: "refund_record option" and h h' :: history
  assume "\<forall>rf. refund = Some rf \<longrightarrow> (\<exists>j. EChan (Proxy (EnqueueRefund j)) (Inr (AProxy (ARefund rf))) \<in> set h)" "calm h h'"
  then show "accounted xe rq route (case refund of Some rf \<Rightarrow> refund_headers q rf resp | None \<Rightarrow> review resp) h'"
    by (intro accounted_refund) (blast intro: calm_in)
qed

lemma sure_reversed:
  assumes "may_take_back xe rq route c (pv_accepted v) (pv_previous v) b"
    and "\<And>r h. still xe rq route h (k r)" "\<And>r. refund_status (told r) = Some (rollback_status r)"
  shows "sure (proxy_guard xe rq route) b
    (bind (take_back c v) (\<lambda>r. bind (k r) (\<lambda>_. withFacadeChargeEvidence q pd (cost r) (told r)))) (accounted xe rq route)"
  by (rule sure_bind [OF sure_take_back [OF assms(1)]], rule sure_then, rule assms(2), rule sure_told,
      rule accounted_back [OF assms(3)]) (blast intro: taken_calm)

lemma sure_undelivered:
  assumes b: "pays_for xe rq route parsed pd b" and q: "qc_route q = route"
  shows "sure (proxy_guard xe rq route) b (undelivered xe q pd recipient resp reason status) (accounted xe rq route)"
  unfolding undelivered_def
proof (rule sure_then, goal_cases)
  case 1
  show ?case by (intro quiet_rules)
next
  case (2 i h)
  note b' = backed_calm [OF b 2]
  have other: "sure (proxy_guard xe rq route) h
     (bind (ignoring (failed_leg xe q pd i status RefundUnknown)) (\<lambda>_. bind (ignoring (release_lock pd)) (\<lambda>_.
        withFacadeChargeEvidence q pd None (review resp)))) (accounted xe rq route)"
    by (intro sure_then quiet_rules sure_told accounted_review review_review)
  have direct: "sure (proxy_guard xe rq route) h (bind (ignoring (failed_leg xe q pd i status RefundNone)) (\<lambda>_.
        withFacadeChargeEvidence q pd None (direct_failure recipient resp))) (accounted xe rq route)" if "xo_operator route \<noteq> None"
    by (intro sure_then quiet_rules sure_told accounted_direct that)
  have refunded: "sure (proxy_guard xe rq route) h (bind (failed_leg xe q pd i status RefundPending) (\<lambda>recorded.
       bind (refund_or_mark xe q pf why i recorded) (\<lambda>refund. bind (ignoring (release_lock pd)) (\<lambda>_.
         withFacadeChargeEvidence q pd None (case refund of Some rf \<Rightarrow> refund_headers q rf resp | None \<Rightarrow> review resp)))))
       (accounted xe rq route)" if "pd_proof pd = Some pf" for pf why
    by (rule sure_then, intro quiet_rules, rule sure_refunded [OF may_refund_calm [OF backed_refund [OF b' that]] q])
  show ?case
    by (rule sure_option)
      (auto simp: q split_beta with_header_def refund_status_def lower_names
        intro!: sure_reversed backed_take_back [OF b'] quiet_rules other direct refunded split: option.splits)
qed

lemma sure_rate_rejected:
  assumes b: "pays_for xe rq route parsed pd b" and q: "qc_route q = route"
  shows "sure (proxy_guard xe rq route) b (rate_rejected xe q pd reject) (accounted xe rq route)"
  unfolding rate_rejected_def
proof (rule sure_bind [where P = "accounted xe rq route"], goal_cases)
  case 1
  have reversed: "sure (proxy_guard xe rq route) b (bind (take_back c v) (\<lambda>r. Done (with_header ''Refund-Mode'' ''channel-remainder''
      (with_header ''Refund-Status'' (rollback_status r) reject)))) (accounted xe rq route)" if "open_voucher pd = Some (c, v)" for c v
    by (rule sure_bind [OF sure_take_back [OF backed_take_back [OF b that]]], rule sure_Done, rule accounted_back)
      (auto simp: with_header_def refund_status_def lower_names intro: taken_calm)
  have refunded: "sure (proxy_guard xe rq route) b (bind (newOrderId xe) (\<lambda>i. bind (record_row xe q (Some pf) i 429 RefundPending) (\<lambda>recorded.
      bind (refund_or_mark xe q pf NonFulfillment i recorded) (\<lambda>refund.
        Done (case refund of Some rf \<Rightarrow> refund_headers q rf reject | None \<Rightarrow> review reject))))) (accounted xe rq route)"
    if p: "pd_proof pd = Some pf" for pf
  proof (rule sure_then, intro quiet_rules, rule sure_then, intro quiet_rules)
    fix i recorded and h h' :: history assume "calm b h" "calm h h'"
    then have "may_refund xe rq route pf h'" by (intro may_refund_calm [OF backed_refund [OF b p]]) (rule calm_trans)
    from sure_refund_or_mark [OF this q]
    show "sure (proxy_guard xe rq route) h' (bind (refund_or_mark xe q pf NonFulfillment i recorded) (\<lambda>refund.
        Done (case refund of Some rf \<Rightarrow> refund_headers q rf reject | None \<Rightarrow> review reject))) (accounted xe rq route)"
      by (rule sure_bind) (intro sure_Done accounted_refund, blast intro: calm_in)
  qed
  show ?case
    by (rule sure_option) (auto simp: split_beta intro!: reversed refunded sure_Done accounted_review split: option.split)
next
  case (2 resp h)
  then show ?case by (intro sure_then quiet_rules sure_told) (rule accounted_calm)
qed

subsection \<open>Jobs that are still running\<close>

text \<open>What a job is bound to is a payment of this request.\<close>

definition bound_job :: "xenv \<Rightarrow> proxy_request \<Rightarrow> proxy_route \<Rightarrow> payment_proof option \<Rightarrow> channel_delivery option \<Rightarrow> history \<Rightarrow> bool" where
  "bound_job xe rq route paymentProof delivery b \<longleftrightarrow>
     (\<forall>pr. paymentProof = Some pr \<longrightarrow> may_refund xe rq route pr b) \<and>
     (\<forall>d. delivery = Some d \<and> \<not> cd_close d \<longrightarrow> may_take_back xe rq route (cd_contract d) (cd_accepted d) (cd_previous d) b)"

lemma bound_job_calm: "bound_job xe rq route p d b \<Longrightarrow> calm b h \<Longrightarrow> bound_job xe rq route p d h"
  unfolding bound_job_def by (blast intro: may_refund_calm may_take_back_calm)

lemma sure_rollback_delivery:
  assumes "may_take_back xe rq route (cd_contract d) (cd_accepted d) (cd_previous d) b"
  shows "sure (proxy_guard xe rq route) b (rollback_delivery d) (\<lambda>r h. r \<longrightarrow> taken_back h)"
  unfolding rollback_delivery_def
  by (rule sure_bind [OF sure_rollback [OF assms]], rule sure_if, rule sure_then, intro quiet_rules)
    (auto intro!: sure_Done intro: taken_calm calm_trans)

lemma sure_async_refund:
  assumes "may_refund xe rq route pr b"
  shows "sure (proxy_guard xe rq route) b (enqueue (async_refund route pr))
    (\<lambda>rf h. \<exists>i. EChan (Proxy (EnqueueRefund i)) (Inr (AProxy (ARefund rf))) \<in> set h)"
  by (rule sure_weaken [OF sure_enqueue]) (auto intro!: may_refund_ok simp: async_refund_def assms)

lemma accounted_pending:
  "\<exists>i. EChan (Proxy (EnqueueRefund i)) (Inr (AProxy (ARefund rf))) \<in> set h \<Longrightarrow>
     accounted xe rq route (json_with n [(''Refund-Id'', publicId rf), (''Refund-Status'', ''pending'')] j) h"
  by (auto simp: accounted_def refund_kept_def refund_status_def json_with_def JSON_HEADERS_def lower_names)

lemma json_review [simp]: "refund_status (json_with n REVIEW j) = Some ''manual-review''"
  by (simp add: refund_status_def json_with_def JSON_HEADERS_def REVIEW_def lower_names)

lemma accounted_body: "delivered xe rq route body status h \<Longrightarrow> rs_body r = JStr body \<Longrightarrow> rs_status r \<in> {200, 202} \<Longrightarrow> accounted xe rq route r h"
  unfolding accounted_def by blast

lemma sure_no_job:
  assumes "delivered xe rq route body status b" "bound_job xe rq route p d b"
  shows "sure (proxy_guard xe rq route) b (no_job_id route body ct p d) (accounted xe rq route)"
  unfolding no_job_id_def
proof (rule sure_then, goal_cases)
  case 1
  show ?case using assms(2) unfolding bound_job_def
    by (intro quiet_rules) (auto intro: sure_quiet sure_rollback_delivery)
next
  case (2 rolledBack h)
  note del = delivered_calm [OF assms(1)] and b = bound_job_calm [OF assms(2) 2]
  show ?case
  proof (rule sure_if, simp add: sure_Done accounted_review, rule sure_option)
    show "sure (proxy_guard xe rq route) h (Done \<lparr>rs_status = 202, rs_headers = [(''Content-Type'', ct)], rs_body = JStr body\<rparr>) (accounted xe rq route)"
      by (rule sure_Done, rule accounted_body) (auto intro: del calm_trans [OF 2])
  next
    fix pr assume "p = Some pr"
    then have "may_refund xe rq route pr h" using b by (simp add: bound_job_def)
    note refund = sure_attempt [OF sure_async_refund [OF this]]
    show "sure (proxy_guard xe rq route) h (bind (attempt (enqueue (async_refund route pr))) (\<lambda>r. case r of
        Inl e \<Rightarrow> Done (json_with 503 REVIEW
          [(''error'', JStr ''Async delivery and refund persistence failed''), (''detail'', JStr (exn_message e))])
      | Inr refund \<Rightarrow> bind (release_delivery d cd_close) (\<lambda>_.
          Done (json_with 502 [(''Refund-Id'', publicId refund), (''Refund-Status'', ''pending'')]
            [(''error'', JStr ''Async merchant returned no job id'')])))) (accounted xe rq route)"
      by (rule sure_bind [OF refund], rule sure_sum, simp add: sure_Done accounted_review, rule sure_then, intro quiet_rules,
          rule sure_Done, rule accounted_pending) (auto dest: calm_in)
  qed
qed

lemma sure_not_kept:
  assumes "bound_job xe rq route p d b"
  shows "sure (proxy_guard xe rq route) b (job_not_kept route e p d) (accounted xe rq route)"
proof -
  let ?reply = "\<lambda>hs. json_with 503 hs [(''error'', JStr ''Could not persist async delivery ownership'')]"
  have refunding: "sure (proxy_guard xe rq route) b (bind (attempt (bind (enqueue (async_refund route pr)) (\<lambda>refund.
        bind (release_delivery d (\<lambda>_. True)) (\<lambda>_. Done refund)))) (\<lambda>r. case r of
        Inl _ \<Rightarrow> Done (json_with 503 REVIEW j)
      | Inr refund \<Rightarrow> Done (?reply [(''Refund-Id'', publicId refund), (''Refund-Status'', ''pending'')]))) (accounted xe rq route)"
    if "p = Some pr" for pr j
  proof (rule sure_bind [OF sure_attempt])
    let ?enqueued = "\<lambda>rf h. \<exists>i. EChan (Proxy (EnqueueRefund i)) (Inr (AProxy (ARefund rf))) \<in> set h"
    have pr: "may_refund xe rq route pr b" using assms that by (simp add: bound_job_def)
    show "sure (proxy_guard xe rq route) b (bind (enqueue (async_refund route pr)) (\<lambda>refund.
        bind (release_delivery d (\<lambda>_. True)) (\<lambda>_. Done refund))) ?enqueued"
      by (rule sure_bind [OF sure_async_refund [OF pr]], rule sure_then, intro quiet_rules, rule sure_Done) (blast intro: calm_in)
    fix r :: "exn + refund_record" and h assume r: "case r of Inl _ \<Rightarrow> True | Inr rf \<Rightarrow> ?enqueued rf h"
    show "sure (proxy_guard xe rq route) h (case r of Inl _ \<Rightarrow> Done (json_with 503 REVIEW j)
      | Inr refund \<Rightarrow> Done (?reply [(''Refund-Id'', publicId refund), (''Refund-Status'', ''pending'')])) (accounted xe rq route)"
      using r by (cases r) (auto intro!: sure_Done accounted_review accounted_pending dest: calm_in)
  qed
  have reversed: "sure (proxy_guard xe rq route) b (bind (rollback_delivery x) (\<lambda>r.
      Done (?reply [(''Refund-Status'', if r then ''voucher-not-consumed'' else ''manual-review'')]))) (accounted xe rq route)"
    if "d = Some x" "\<not> cd_close x" for x
  proof (rule sure_bind [OF sure_rollback_delivery], goal_cases)
    case 1
    show ?case using assms that by (simp add: bound_job_def)
  next
    case (2 r h)
    then show ?case
      by (intro sure_Done accounted_back [where back' = r])
        (auto simp: refund_status_def json_with_def JSON_HEADERS_def lower_names rollback_status_def intro: taken_calm)
  qed
  show ?thesis unfolding job_not_kept_def Let_def
    apply (rule sure_option, rule sure_option, simp add: sure_Done accounted_review, erule refunding)
    apply (rule sure_if, rule sure_option, simp add: sure_Done accounted_review, erule refunding)
    by (erule (1) reversed)
qed

lemma sure_async:
  assumes "delivered xe rq route body status b" "bound_job xe rq route p d b"
  shows "sure (proxy_guard xe rq route) b (handleAsyncJob xe body ct status route auth rq p d)
    (\<lambda>r h. \<forall>resp. r = Some resp \<longrightarrow> accounted xe rq route resp h)"
proof -
  let ?Q = "\<lambda>r h. \<forall>resp. r = Some resp \<longrightarrow> accounted xe rq route resp h"
  have some: "sure (proxy_guard xe rq route) h (bind q (\<lambda>r. Done (Some r))) ?Q" if "sure (proxy_guard xe rq route) h q (accounted xe rq route)" for h q
    by (rule sure_bind [OF that]) (auto intro!: sure_Done intro: accounted_calm)
  obtain a job where a: "isAsyncJobResponse xe status body = (a, job)" by (cases "isAsyncJobResponse xe status body")
  have unbound: "accounted xe rq route r b" if "a" "rs_status r = 401" for r
  proof -
    have "fst (isAsyncJobResponse xe status body)" using a that by simp
    with assms(1) that(2) show ?thesis unfolding accounted_def by blast
  qed
  have told: "rs_body r = JStr body \<Longrightarrow> rs_status r = 202 \<Longrightarrow> accounted xe rq route r b" for r
    by (rule accounted_body [OF assms(1)]) auto
  show ?thesis unfolding handleAsyncJob_def Let_def a split
    apply (rule sure_if, simp add: sure_Done)
    apply (rule sure_if, rule some [OF sure_no_job [OF assms]])
    apply (rule sure_option)
    subgoal by (intro sure_Done allI impI) (auto simp: json_with_def intro!: accounted_calm [OF unbound])
    apply (rule sure_then, intro quiet_rules, rule sure_then, intro quiet_rules)
    apply (rule sure_sum, rule some [OF sure_not_kept])
    subgoal by (blast intro: bound_job_calm [OF assms(2)] calm_trans)
    by (intro sure_Done allI impI) (auto intro!: accounted_calm [OF told] intro: calm_trans)
qed

subsection \<open>A paid call\<close>

lemma channel_captured [simp]: "pd_channel (captured_channel xe auth r held payment receipt)"
  by (simp add: captured_channel_def Let_def split_beta)

lemma bound_delivery:
  assumes "pays_for xe rq route parsed pd b"
  shows "bound_job xe rq route (pd_proof pd) (delivery_of pd) b"
proof -
  have "open_voucher pd = Some (cd_contract d, v) \<and> cd_accepted d = pv_accepted v \<and> cd_previous d = pv_previous v"
    if "delivery_of pd = Some d" "\<not> cd_close d" "pd_channel pd" "pd_voucher pd = Some v" for d v
    using that by (auto simp: delivery_of_def open_voucher_def split: option.splits)
  moreover have "pd_channel pd" if "delivery_of pd = Some d" for d
    using assms that by (auto simp: pays_for_def captured_def captured_charge_def delivery_of_def)
  moreover have "\<exists>v. pd_voucher pd = Some v" if "delivery_of pd = Some d" for d
    using that by (auto simp: delivery_of_def split: option.splits)
  ultimately show ?thesis unfolding bound_job_def by (metis assms backed_refund backed_take_back)
qed

lemma sure_delivered_call:
  assumes "pays_for xe rq route parsed pd b" "delivered xe rq route body status b" "qc_route q = route" "qc_request q = rq"
  shows "sure (proxy_guard xe rq route) b (delivered_call xe q auth pd key body ct status) (accounted xe rq route)"
  unfolding delivered_call_def assms(3,4)
proof (rule sure_bind [OF sure_async [OF assms(2) bound_delivery [OF assms(1)]]], rule sure_option)
  fix r h
  assume "calm b h"
  then have "delivered xe rq route body status h" by (rule delivered_calm [OF assms(2)])
  then have told: "rs_body x = JStr body \<Longrightarrow> rs_status x = 200 \<Longrightarrow> calm h h' \<Longrightarrow> accounted xe rq route x h'" for x h'
    by (intro accounted_body) (auto intro: delivered_calm)
  show "sure (proxy_guard xe rq route) h (bind (release_lock pd) (\<lambda>_.
         bind (case key of Some key \<Rightarrow> ignoring (await_unit (KvTextPut key (JStr body))) | None \<Rightarrow> Done ()) (\<lambda>_.
         bind (newOrderId xe) (\<lambda>orderId.
         bind (ignoring (record_row xe q (pd_proof pd) orderId status RefundNone)) (\<lambda>_.
         bind (from_sum (amount_decimal (tq_amount (qc_parsed q)) TEMPO_DEFAULT_DECIMALS)) (\<lambda>amount.
         Done \<lparr>rs_status = 200,
               rs_headers = [(''Content-Type'', ct), (''X-MPPRouter-Quoted-Amount'', amount),
                   (''X-MPPRouter-Upstream-Cost'', amount)] @ map (\<lambda>p. (''X-MPPRouter-Payer'', p)) (given (payer_told pd)),
               rs_body = JStr body\<rparr>)))))) (accounted xe rq route)"
    apply (intro sure_then sure_Done quiet_rules)
    apply (simp_all add: pays_in_def)
    by (rule told) (simp, simp, meson calm_trans)
next
  fix r resp h assume "\<forall>resp. r = Some resp \<longrightarrow> accounted xe rq route resp h" "r = Some resp"
  then show "sure (proxy_guard xe rq route) h (withFacadeChargeEvidence q pd None resp) (accounted xe rq route)"
    by (intro sure_told) simp
qed

text \<open>The call of this request on this route, at the address the route gives.\<close>

definition call_for :: "xenv \<Rightarrow> proxy_request \<Rightarrow> proxy_route \<Rightarrow> quoted_call \<Rightarrow> bool" where
  "call_for xe rq route q \<longleftrightarrow> qc_route q = route \<and> qc_request q = rq \<and> qc_url q = target_url xe rq route"

lemma sure_pay:
  assumes "call_for xe rq route q" "bought xe rq route (qc_parsed q) b"
  shows "sure (proxy_guard xe rq route) b (qc_pay xe q) (faithful xe rq route)"
  using sure_merchant [OF assms(2)] assms(1) by (simp add: qc_pay_def call_for_def)

lemma sure_paid_call:
  assumes "call_for xe rq route q" "pays_for xe rq route (qc_parsed q) pd b"
  shows "sure (proxy_guard xe rq route) b (paid_call_response xe q auth pd recipient) (accounted xe rq route)"
proof -
  have qs: "qc_route q = route" "qc_request q = rq" using assms(1) by (simp_all add: call_for_def)
  have merchant: "sure (proxy_guard xe rq route) h (call_merchant xe q auth pd recipient key) (accounted xe rq route)"
    if "calm b h" for h key
    unfolding call_merchant_def
  proof (rule sure_then, intro quiet_rules, rule sure_option, goal_cases)
    case (1 x h')
    note h' = calm_trans [OF that 1(1)]
    note bk = backed_calm [OF assms(2) h']
    show ?case
    proof (rule sure_bind [OF sure_attempt [OF sure_pay [OF assms(1) backed_bought [OF bk]]]])
      fix r :: "exn + merchant_pay" and h2
      assume h2: "calm h' h2" "case r of Inr x \<Rightarrow> faithful xe rq route x h2 | Inl _ \<Rightarrow> True"
      note bk2 = backed_calm [OF bk h2(1)]
      show "sure (proxy_guard xe rq route) h2 (case (case r of Inl e \<Rightarrow> threw e | Inr x \<Rightarrow> x) of
               PayError resp reason status ours \<Rightarrow> undelivered xe q pd recipient resp reason status
             | PayOk body contentType merchantStatus \<Rightarrow>
                 delivered_call xe q auth pd key body contentType merchantStatus) (accounted xe rq route)"
        using h2(2) bk2 qs
        by (cases r) (auto simp: threw_def faithful_def intro: sure_undelivered sure_delivered_call split: merchant_pay.splits)
    qed
  next
    case (2 x h' r)
    show ?case by (rule sure_rate_rejected [OF backed_calm [OF assms(2) calm_trans [OF that 2(1)]] qs(1)])
  qed
  show ?thesis unfolding paid_call_response_def Let_def
  proof (rule sure_then, goal_cases)
    case 1
    show ?case by (intro quiet_rules)
  next
    case (2 cached h)
    show ?case
    proof (rule sure_option, rule merchant [OF 2], rule sure_then, intro quiet_rules, rule sure_told)
      fix t h'
      show "accounted xe rq route \<lparr>rs_status = 200, rs_headers = JSON_HEADERS @ [(''X-Idempotent'', ''true'')], rs_body = JStr t\<rparr> h'"
        by (simp add: accounted_def JSON_HEADERS_def lower_names)
    qed
  qed
qed

lemma sure_accepted:
  assumes "call_for xe rq route q" "pays_for xe rq route (qc_parsed q) pd b"
  shows "sure (proxy_guard xe rq route) b (accepted_response xe q auth pd recipient) (accounted xe rq route)"
proof -
  have "refund_status (stopped e d) = Some ''manual-review''" for e d
    by (simp add: stopped_def)
  then show ?thesis unfolding accepted_response_def
    by (intro sure_if sure_told accounted_review sure_paid_call assms)
qed

subsection \<open>Settling an x402 buyer\<close>

text \<open>A call that is made whether it succeeds or not.\<close>

definition made :: "chan_req \<Rightarrow> history \<Rightarrow> bool" where
  "made q h \<longleftrightarrow> (\<exists>a. EChan q a \<in> set h)"

lemma made_calm: "made q h \<Longrightarrow> calm h h' \<Longrightarrow> made q h'"
  unfolding made_def by (blast intro: calm_in)

definition tries :: "guard_pred \<Rightarrow> history \<Rightarrow> 'a prog \<Rightarrow> chan_req \<Rightarrow> bool" where
  "tries G b p q \<longleftrightarrow> (\<forall>h. calm b h \<longrightarrow> wp p G (\<lambda>_ h'. calm h h' \<and> made q h') (\<lambda>_ h'. calm h h' \<and> made q h') h)"

lemma tries_await:
  assumes "\<not> pays_in r" "\<And>h. calm b h \<Longrightarrow> G (CallChan (Proxy r)) h" "\<And>y. quiet G b (k y)"
  shows "tries G b (await r k) (Proxy r)"
  unfolding tries_def await_def
proof (intro allI impI)
  fix h assume h: "calm b h"
  have g: "calm h (EChan (Proxy r) a # h)" for a by (rule calm_chan) (simp_all add: heavy_def assms(1))
  have "quiet G b (bind (from_outside a) (\<lambda>x. case x of AProxy y \<Rightarrow> k y | _ \<Rightarrow> unexpected))" for a
    by (auto intro!: quiet_rules assms(3) split: chan_ans.split)
  note rest = this [unfolded quiet_def, THEN sure_wp, OF calm_trans [OF h g]]
  have "wp (bind (from_outside a) (\<lambda>x. case x of AProxy y \<Rightarrow> k y | _ \<Rightarrow> unexpected)) G
      (\<lambda>_ h'. calm h h' \<and> made (Proxy r) h') (\<lambda>_ h'. calm h h' \<and> made (Proxy r) h') (EChan (Proxy r) a # h)" for a
    by (rule rest) (auto intro: calm_trans [OF g] simp: made_def dest: calm_in [where e = "EChan (Proxy r) a"])
  then show "wp (Chan (Proxy r) (\<lambda>a. bind (from_outside a) (\<lambda>x. case x of AProxy y \<Rightarrow> k y | _ \<Rightarrow> unexpected))) G
      (\<lambda>_ h'. calm h h' \<and> made (Proxy r) h') (\<lambda>_ h'. calm h h' \<and> made (Proxy r) h') h"
    using assms(2) [OF h] by simp
qed

lemma tries_bind:
  assumes "tries G b p q" "\<And>x. quiet G b (f x)"
  shows "tries G b (bind p f) q"
  unfolding tries_def wp_bind
proof (intro allI impI)
  fix h assume h: "calm b h"
  show "wp p G (\<lambda>x. wp (f x) G (\<lambda>_ h'. calm h h' \<and> made q h') (\<lambda>_ h'. calm h h' \<and> made q h')) (\<lambda>_ h'. calm h h' \<and> made q h') h"
  proof (rule wp_mono [OF assms(1) [unfolded tries_def, rule_format, OF h]])
    fix x h' assume h': "calm h h' \<and> made q h'"
    then have "calm b h'" using calm_trans [OF h] by blast
    then show "wp (f x) G (\<lambda>_ h'. calm h h' \<and> made q h') (\<lambda>_ h'. calm h h' \<and> made q h') h'"
      by (rule sure_wp [OF assms(2) [unfolded quiet_def]]) (use h' in \<open>blast intro: calm_trans made_calm\<close>)+
  qed simp
qed

lemma sure_tried: "tries G b p q \<Longrightarrow> sure G b (attempt p) (\<lambda>_ h. made q h)"
  unfolding tries_def sure_def wp_attempt by (blast intro: wp_mono)

lemma sure_made: "sure G b p (\<lambda>_ h. made q h) \<Longrightarrow> (\<And>x. quiet G b (f x)) \<Longrightarrow> sure G b (bind p f) (\<lambda>_ h. made q h)"
  by (erule sure_bind) (rule sure_weaken [OF quiet_later [unfolded quiet_def]], auto intro: made_calm simp: quiet_def)

lemma sure_record: "sure (proxy_guard xe rq route) b (recordOrder xe e) (\<lambda>_ h. made (Proxy (OrderPut (orderKey (oe_id e)) e)) h)"
  unfolding recordOrder_def await_unit_def
  by (intro sure_made sure_tried tries_bind tries_await quiet_rules; simp add: pays_in_def)

lemma sure_write_open: "sure (proxy_guard xe rq route) b (write_open e t) (\<lambda>_ h. made (Proxy (OpenPut (openKey (oe_id e)) e t)) h)"
  unfolding write_open_def await_unit_def Let_def
  by (intro sure_made sure_tried tries_bind tries_await quiet_rules; simp add: pays_in_def)

lemma sure_settle:
  assumes "facilitated (sp_payload p) (sp_requirements p) \<in> set b" "nonce_reserved xe (sp_payload p) b"
    "x402_price xe rq route (sp_payload p) (sp_requirements p) b" "delivered xe rq route body status b"
  shows "sure (proxy_guard xe rq route) b (settleAndRecordX402 xe p) (\<lambda>_ h. made (Proxy (SettleX402 (sp_payload p) (sp_requirements p))) h)"
  unfolding settleAndRecordX402_def Let_def
proof (rule sure_then, intro quiet_rules, rule sure_then, intro quiet_rules, rule sure_bind [OF sure_record], rule sure_bind [OF sure_write_open],
    rule sure_made, goal_cases)
  case (1 t h1 i h2 w h3 u h4)
  let ?e = "settlement_entry p i t" and ?settle = "SettleX402 (sp_payload p) (sp_requirements p)"
  note b4 = calm_trans [OF 1(1) calm_trans [OF 1(2) calm_trans [OF 1(3) 1(5)]]]
  have "row_tried h4"
    using 1(6) made_calm [OF 1(4) 1(5)] unfolding row_tried_def made_def by (force simp: settlement_entry_def)
  then have row: "row_tried h" if "calm h4 h" for h using that unfolding row_tried_def by (blast intro: calm_in)
  have ok: "proxy_req_guard xe rq route ?settle h" if "calm h4 h" for h
    using row [OF that] calm_in [OF calm_trans [OF b4 that] assms(1)] nonce_calm [OF assms(2) calm_trans [OF b4 that]]
      x402_price_calm [OF assms(3) calm_trans [OF b4 that]]
      delivered_calm [OF assms(4) calm_trans [OF b4 that]] by auto
  show ?case unfolding settle_call_def
    by (rule sure_await, simp add: pays_in_def, simp only: proxy_guard.simps chan_part.simps, erule ok)
      (auto simp: unexpected_def made_def intro!: sure_Throw sure_Done dest: calm_in split: proxy_ans.split)
next
  case (2 t h1 i h2 w h3 u h4 r)
  show ?case by (auto simp: split_beta intro!: quiet_rules simp: pays_in_def)
qed

subsection \<open>The x402 branch\<close>

text \<open>A payment the facilitator accepted was settled, or its reservation was given back.\<close>

definition x402_closed :: "xenv \<Rightarrow> x402_payment \<Rightarrow> x402_requirements \<Rightarrow> history \<Rightarrow> bool" where
  "x402_closed xe pay req h \<longleftrightarrow>
     made (Proxy (SettleX402 pay req)) h \<or>
     (\<exists>xdr. xp_transaction pay = Some (JStr xdr) \<and> made (Proxy (KvTextDelete (nonceKeyFromHash (hashXdr xe xdr)))) h)"

lemma prepared_facts:
  assumes "prepareStellarX402Inbound xe auth (quote * 10) (expected_payTo route) = Inr prepared" "json_BigInt (tq_amount parsed) = Inr quote"
  shows "x402_covers xe route parsed (xr_payload prepared) (xr_requirements prepared)"
    and "\<exists>xdr. xp_transaction (xr_payload prepared) = Some (JStr xdr) \<and> xr_hash prepared = hashXdr xe xdr"
proof -
  have js: "jstring v = Some s \<longleftrightarrow> v = Some (JStr s)" for v s by (cases v rule: jstring.cases) auto
  from assms(1) obtain pay where p: "parseStellarX402Header xe auth = Some pay" "payTo_for xe (expected_payTo route) = Some (xp_payTo pay)"
    unfolding prepareStellarX402Inbound_def by (auto split: option.splits if_splits)
  with assms(1) obtain signed where s: "js_BigInt (xp_amount pay) = Inr signed" "isAmountAcceptable signed (quote * 10) = None"
    unfolding prepareStellarX402Inbound_def by (auto split: option.splits sum.splits)
  with p assms(1) obtain i g where i: "extractPayloadIdentity xe pay (xe_network xe) = Some (i, g)"
    unfolding prepareStellarX402Inbound_def by (auto split: option.splits)
  with p s assms(1) have r: "prepared = \<lparr>xr_payload = pay, xr_requirements = buildPaymentRequirementsForAgentAmount xe signed (xp_payTo pay),
      xr_signed = signed, xr_hash = i, xr_payer = g\<rparr>"
    unfolding prepareStellarX402Inbound_def by simp
  show "x402_covers xe route parsed (xr_payload prepared) (xr_requirements prepared)"
    using p s r assms(2) by (auto simp: x402_covers_def buildPaymentRequirementsForAgentAmount_def)
  show "\<exists>xdr. xp_transaction (xr_payload prepared) = Some (JStr xdr) \<and> xr_hash prepared = hashXdr xe xdr"
    using i r by (auto simp: extractPayloadIdentity_def js split: option.splits list.splits)
qed

lemma sure_release: "sure (proxy_guard xe rq route) b (release_nonce k) (\<lambda>_ h. made (Proxy (KvTextDelete (nonceKeyFromHash k))) h)"
  unfolding release_nonce_def ignoring_def await_unit_def
  by (intro sure_made sure_tried tries_await quiet_rules; simp add: pays_in_def)

text \<open>Everything from the moment the facilitator accepted.\<close>

lemma sure_x402_delivered:
  assumes "call_for xe rq route q" "facilitated (xr_payload pr) (xr_requirements pr) \<in> set b" "nonce_reserved xe (xr_payload pr) b"
    "x402_price xe rq route (xr_payload pr) (xr_requirements pr) b" "delivered xe rq route body status b"
  shows "sure (proxy_guard xe rq route) b (x402_delivered xe q auth pr body ct status)
    (\<lambda>_ h. made (Proxy (SettleX402 (xr_payload pr) (xr_requirements pr))) h)"
proof -
  have qs: "qc_route q = route" "qc_request q = rq" using assms(1) by (simp_all add: call_for_def)
  have b: "bound_job xe rq route None None b" by (simp add: bound_job_def)
  show ?thesis unfolding x402_delivered_def qs
  proof (rule sure_then, rule sure_quiet [OF sure_async [OF assms(5) b]], rule sure_then, intro quiet_rules, rule sure_made, goal_cases)
    case (1 x h am h')
    note h = calm_trans [OF 1]
    show ?case
      using sure_settle [of "settle_params_of q pr am status" h' xe rq route body status]
        calm_in [OF h assms(2)] nonce_calm [OF assms(3) h] x402_price_calm [OF assms(4) h] delivered_calm [OF assms(5) h]
      by (simp add: settle_params_of_def)
  next
    case (2 x h am h' r)
    show ?case unfolding Let_def by (intro quiet_rules) (simp_all add: pays_in_def)
  qed
qed

lemma sure_x402_verified:
  assumes "call_for xe rq route q" "facilitated (xr_payload pr) (xr_requirements pr) \<in> set b" "nonce_reserved xe (xr_payload pr) b"
    "quoted xe rq route (qc_parsed q) b" "x402_covers xe route (qc_parsed q) (xr_payload pr) (xr_requirements pr)"
    "\<exists>xdr. xp_transaction (xr_payload pr) = Some (JStr xdr) \<and> xr_hash pr = hashXdr xe xdr"
  shows "sure (proxy_guard xe rq route) b (x402_verified xe q auth pr) (\<lambda>_ h. x402_closed xe (xr_payload pr) (xr_requirements pr) h)"
proof -
  have released: "sure (proxy_guard xe rq route) h (bind (release_nonce (xr_hash pr)) (\<lambda>_. Done r))
      (\<lambda>_ h. x402_closed xe (xr_payload pr) (xr_requirements pr) h)" for h r
    by (rule sure_bind [OF sure_release], rule sure_Done) (use assms(6) in \<open>auto simp: x402_closed_def intro: made_calm\<close>)
  have bought: "bought xe rq route (qc_parsed q) b" using assms(2,4,5) unfolding bought_def by blast
  have price: "x402_price xe rq route (xr_payload pr) (xr_requirements pr) b" using assms(4,5) unfolding x402_price_def by blast
  show ?thesis unfolding x402_verified_def
  proof (rule sure_then, intro quiet_rules, rule sure_option, goal_cases)
    case (1 x h)
    show ?case
    proof (rule sure_bind [OF sure_pay [OF assms(1) bought_calm [OF bought 1(1)]]])
      fix r h' assume h': "calm h h'" "faithful xe rq route r h'"
      note b = calm_trans [OF 1(1) h'(1)]
      show "sure (proxy_guard xe rq route) h' (case r of
          PayError resp reason status ours \<Rightarrow> bind (release_nonce (xr_hash pr)) (\<lambda>_. Done resp)
        | PayOk body contentType merchantStatus \<Rightarrow> x402_delivered xe q auth pr body contentType merchantStatus)
        (\<lambda>_ h. x402_closed xe (xr_payload pr) (xr_requirements pr) h)"
      proof (cases r)
        case (PayOk body ct status)
        then have "delivered xe rq route body status h'" using h' by (simp add: faithful_def)
        note settled = sure_x402_delivered [OF assms(1) calm_in [OF b assms(2)] nonce_calm [OF assms(3) b] x402_price_calm [OF price b] this]
        have "sure (proxy_guard xe rq route) h' (x402_delivered xe q auth pr body ct status)
            (\<lambda>_ h. x402_closed xe (xr_payload pr) (xr_requirements pr) h)"
          by (rule sure_weaken [OF settled]) (simp add: x402_closed_def)
        then show ?thesis by (simp add: PayOk)
      qed (simp add: released)
    qed
  next
    case (2 x h r)
    show ?case by (rule released)
  qed
qed

subsection \<open>Where a payment is accepted\<close>

definition proxy_done :: "xenv \<Rightarrow> proxy_request \<Rightarrow> proxy_route \<Rightarrow> response \<Rightarrow> history \<Rightarrow> bool" where
  "proxy_done xe rq route r h \<longleftrightarrow>
     (\<forall>ck payment receipt. accepted_by ck payment receipt \<in> set h \<longrightarrow> accounted xe rq route r h) \<and>
     (\<forall>pay req. facilitated pay req \<in> set h \<longrightarrow> x402_closed xe pay req h)"

lemma heavy_simps [simp]: "heavy (Proxy r) = pays_in r" "pays_in (VerifyPayment ck)" "pays_in (FacilitatorVerify p q)"
  by (simp_all add: heavy_def pays_in_def)

lemma unpaid_calm: "unpaid h \<Longrightarrow> calm h h' \<Longrightarrow> unpaid h'"
  unfolding unpaid_def calm_def by blast

lemma unpaid_done: "unpaid h \<Longrightarrow> proxy_done xe rq route r h"
  by (auto simp: unpaid_def proxy_done_def accepted_by_def facilitated_def)

lemma only_paid:
  assumes "unpaid h" "calm (EChan q a # h) h'" "heavy q'" "EChan q' a' \<in> set h'"
  shows "q' = q \<and> a' = a"
proof -
  have "EChan q' a' \<in> set (EChan q a # h)" using assms(2-4) unfolding calm_def by blast
  with assms(1,3) show ?thesis by (auto simp: unpaid_def)
qed

lemma verify_done:
  assumes "unpaid h" "calm (EChan (Proxy (VerifyPayment ck)) a # h) h'"
    and "\<And>payment receipt. a = Inr (AProxy (APay (PayAccepted payment receipt))) \<Longrightarrow> accounted xe rq route r h'"
  shows "proxy_done xe rq route r h'"
  unfolding proxy_done_def
proof (intro conjI allI impI)
  fix ck' payment receipt assume "accepted_by ck' payment receipt \<in> set h'"
  from only_paid [OF assms(1,2) _ this [unfolded accepted_by_def]] assms(3) [of payment receipt]
  show "accounted xe rq route r h'" by simp
next
  fix pay req assume "facilitated pay req \<in> set h'"
  from only_paid [OF assms(1,2) _ this [unfolded facilitated_def]] show "x402_closed xe pay req h'" by simp
qed

lemma facilitator_done:
  assumes "unpaid h" "calm (EChan (Proxy (FacilitatorVerify pay req)) a # h) h'"
    and "a = Inr (AProxy (AFacilitator None)) \<Longrightarrow> x402_closed xe pay req h'"
  shows "proxy_done xe rq route r h'"
  unfolding proxy_done_def
proof (intro conjI allI impI)
  fix ck' payment receipt assume "accepted_by ck' payment receipt \<in> set h'"
  from only_paid [OF assms(1,2) _ this [unfolded accepted_by_def]] show "accounted xe rq route r h'" by simp
next
  fix pay' req' assume "facilitated pay' req' \<in> set h'"
  from only_paid [OF assms(1,2) _ this [unfolded facilitated_def]] show "x402_closed xe pay' req' h'" using assms(3) by simp
qed

text \<open>A step before any payment: nothing was paid after it.\<close>

lemma unpaid_base: "unpaid h \<Longrightarrow> calm [] h"
  by (auto simp: calm_def unpaid_def)

lemma wp_sure_then:
  assumes "sure (proxy_guard xe rq route) [] p P" "unpaid h"
    "\<And>x h'. calm h h' \<Longrightarrow> unpaid h' \<Longrightarrow> P x h' \<Longrightarrow> wp (f x) (proxy_guard xe rq route) Q (\<lambda>_ _. True) h'"
  shows "wp (bind p f) (proxy_guard xe rq route) Q (\<lambda>_ _. True) h"
  unfolding wp_bind by (rule sure_wp [OF assms(1) unpaid_base [OF assms(2)]]) (auto intro: assms(3) unpaid_calm [OF assms(2)])

lemma wp_still:
  assumes "still xe rq route [] p" "unpaid h" "\<And>x h'. calm h h' \<Longrightarrow> unpaid h' \<Longrightarrow> wp (f x) (proxy_guard xe rq route) Q (\<lambda>_ _. True) h'"
  shows "wp (bind p f) (proxy_guard xe rq route) Q (\<lambda>_ _. True) h"
  by (rule wp_sure_then [OF assms(1) [unfolded quiet_def] assms(2)]) (rule assms(3))

lemma wp_Done_unpaid: "unpaid h \<Longrightarrow> wp (Done r) G (proxy_done xe rq route) E h"
  by (simp add: unpaid_done)

lemma sure_kv_text: "sure (proxy_guard xe rq route) b (kv_text k)
    (\<lambda>x h. x = None \<longrightarrow> (\<exists>t. EChan (Proxy (KvTextGet k)) (Inr (AProxy (AText t))) \<in> set h \<and> t \<in> {None, Some []}))"
  unfolding kv_text_def
  by (rule sure_await) (auto simp: pays_in_def unexpected_def intro!: sure_Throw sure_Done dest: calm_in split: proxy_ans.split option.split list.split)

lemma sure_put: "sure (proxy_guard xe rq route) b (await_unit (KvTextPut k v)) (\<lambda>_ h. \<exists>y. EChan (Proxy (KvTextPut k v)) (Inr (AProxy y)) \<in> set h)"
  unfolding await_unit_def by (rule sure_await) (auto simp: pays_in_def intro!: sure_Done dest: calm_in)

lemma sure_reserve:
  "sure (proxy_guard xe rq route) b (checkAndReserveNonce k) (\<lambda>r h. r \<longrightarrow>
     (\<exists>y. EChan (Proxy (KvTextPut (nonceKeyFromHash k) (JStr ''1''))) (Inr (AProxy y)) \<in> set h) \<and>
     (\<exists>t. EChan (Proxy (KvTextGet (nonceKeyFromHash k))) (Inr (AProxy (AText t))) \<in> set h \<and> t \<in> {None, Some []}))"
  unfolding checkAndReserveNonce_def Let_def
  by (rule sure_bind [OF sure_kv_text], rule sure_if, simp add: sure_Done, rule sure_bind [OF sure_put], rule sure_Done)
    (blast intro: calm_in)


lemma wp_reserved:
  assumes "unpaid h" "\<And>r h'. calm h h' \<Longrightarrow> unpaid h' \<Longrightarrow> (r \<Longrightarrow> xp_transaction pay = Some (JStr xdr) \<Longrightarrow> nonce_reserved xe pay h') \<Longrightarrow>
      wp (f r) (proxy_guard xe rq route) Q (\<lambda>_ _. True) h'"
  shows "wp (bind (checkAndReserveNonce (hashXdr xe xdr)) f) (proxy_guard xe rq route) Q (\<lambda>_ _. True) h"
  unfolding wp_bind
  by (rule sure_wp [OF sure_reserve unpaid_base [OF assms(1)]], rule assms(2))
    (auto simp: nonce_reserved_def intro: unpaid_calm [OF assms(1)])

text \<open>The facilitator is asked: what follows is about one accepted payment, or about none.\<close>

lemma wp_facilitator:
  assumes "unpaid h" "nonce_reserved xe pay h" "x402_price xe rq route pay req h"
    and accepted: "\<And>h'. set h \<subseteq> set h' \<Longrightarrow> facilitated pay req \<in> set h' \<Longrightarrow> nonce_reserved xe pay h' \<Longrightarrow>
      sure (proxy_guard xe rq route) h' (f None) (\<lambda>_ h. x402_closed xe pay req h)"
    and refused: "\<And>r h'. still xe rq route h' (f (Some r))"
  shows "wp (bind (verifyStellarX402WithFacilitator pay req) f) (proxy_guard xe rq route) (proxy_done xe rq route) (\<lambda>_ _. True) h"
proof -
  let ?h = "\<lambda>a. EChan (Proxy (FacilitatorVerify pay req)) a # h"
  have no: "wp (f (Some r)) (proxy_guard xe rq route) (proxy_done xe rq route) (\<lambda>_ _. True) (?h a)"
    if "a \<noteq> Inr (AProxy (AFacilitator None))" for r a
    by (rule sure_wp [OF refused [unfolded quiet_def] calm_refl]) (use that in \<open>auto intro: facilitator_done [OF assms(1)]\<close>)
  have yes: "wp (f None) (proxy_guard xe rq route) (proxy_done xe rq route) (\<lambda>_ _. True) (?h (Inr (AProxy (AFacilitator None))))"
  proof (rule sure_wp [OF accepted calm_refl])
    show "facilitated pay req \<in> set (?h (Inr (AProxy (AFacilitator None))))" by (simp add: facilitated_def)
    show "nonce_reserved xe pay (?h (Inr (AProxy (AFacilitator None))))"
      using assms(2) unfolding nonce_reserved_def by auto
    show "set h \<subseteq> set (?h (Inr (AProxy (AFacilitator None))))" by auto
  qed (auto intro: facilitator_done [OF assms(1)])
  show ?thesis
    using assms(1-3) no yes
    by (auto simp: verifyStellarX402WithFacilitator_def await_def unexpected_def from_outside_def
        split: sum.split chan_ans.split proxy_ans.split option.split)
qed

lemma wp_x402_branch:
  assumes "call_for xe rq route q" "unpaid h" "quoted xe rq route (qc_parsed q) h"
  shows "wp (x402_branch xe q auth) (proxy_guard xe rq route) (proxy_done xe rq route) (\<lambda>_ _. True) h"
proof -
  have qs: "qc_route q = route" "qc_request q = rq" using assms(1) by (simp_all add: call_for_def)
  have prepared: "wp (bind (checkAndReserveNonce (xr_hash pr)) (\<lambda>reserved.
        if \<not> reserved then replayed xe (replay_key xe q (xr_hash pr))
        else bind (verifyStellarX402WithFacilitator (xr_payload pr) (xr_requirements pr)) (\<lambda>refusal.
          case refusal of
            Some r \<Rightarrow> bind (release_nonce (xr_hash pr)) (\<lambda>_. Done (x402_refusal r))
          | None \<Rightarrow> x402_verified xe q auth pr))) (proxy_guard xe rq route) (proxy_done xe rq route) (\<lambda>_ _. True) h"
    if p: "prepareStellarX402Inbound xe auth (quote * 10) (expected_payTo route) = Inr pr" "json_BigInt (tq_amount (qc_parsed q)) = Inr quote" for pr quote
  proof -
    note covers = prepared_facts(1) [OF p]
    obtain xdr where x: "xp_transaction (xr_payload pr) = Some (JStr xdr)" "xr_hash pr = hashXdr xe xdr"
      using prepared_facts(2) [OF p] by blast
    show ?thesis unfolding x(2)
    proof (rule wp_reserved [OF assms(2), where pay = "xr_payload pr"], goal_cases)
      case (1 r h')
      note quoted = quoted_calm [OF assms(3) 1(1)]
      have "wp (bind (replayed xe k) Done) (proxy_guard xe rq route) (proxy_done xe rq route) (\<lambda>_ _. True) h'" for k
        by (rule wp_still [OF _ 1(2)]) (auto intro: quiet_rules unpaid_done)
      then have replay: "wp (replayed xe k) (proxy_guard xe rq route) (proxy_done xe rq route) (\<lambda>_ _. True) h'" for k by simp
      have "wp (bind (verifyStellarX402WithFacilitator (xr_payload pr) (xr_requirements pr)) (\<lambda>refusal.
          case refusal of
            Some r \<Rightarrow> bind (release_nonce (hashXdr xe xdr)) (\<lambda>_. Done (x402_refusal r))
          | None \<Rightarrow> x402_verified xe q auth pr)) (proxy_guard xe rq route) (proxy_done xe rq route) (\<lambda>_ _. True) h'" if r
      proof (rule wp_facilitator [OF 1(2) 1(3) [OF that x(1)]], goal_cases)
        case 1
        show ?case using covers quoted unfolding x402_price_def by blast
      next
        case (2 h2)
        then show ?case using x covers by (simp, intro sure_x402_verified [OF assms(1)] quoted_more [OF quoted]) auto
      next
        case (3 r h2)
        show ?case by (simp, intro quiet_rules)
      qed
      with replay show ?case by simp
    qed
  qed
  show ?thesis unfolding x402_branch_def qs
    using prepared by (auto simp: unpaid_done assms(2) split: sum.split)
qed

subsection \<open>The library\<close>

lemma wp_library:
  assumes "unpaid h" "proxy_req_guard xe rq route (VerifyPayment ck) h"
    and accepted: "\<And>h' p rc. set h \<subseteq> set h' \<Longrightarrow> accepted_by ck p rc \<in> set h' \<Longrightarrow>
      sure (proxy_guard xe rq route) h' (f (Inr (PayAccepted p rc))) (accounted xe rq route)"
    and other: "\<And>h' r. (\<forall>p rc. r \<noteq> Inr (PayAccepted p rc)) \<Longrightarrow> still xe rq route h' (f r)"
  shows "wp (verify_payment ck) (proxy_guard xe rq route)
    (\<lambda>a. wp (f (Inr a)) (proxy_guard xe rq route) (proxy_done xe rq route) (\<lambda>_ _. True))
    (\<lambda>e. wp (f (Inl e)) (proxy_guard xe rq route) (proxy_done xe rq route) (\<lambda>_ _. True)) h"
proof -
  let ?h = "\<lambda>a. EChan (Proxy (VerifyPayment ck)) a # h"
  have no: "wp (f r) (proxy_guard xe rq route) (proxy_done xe rq route) (\<lambda>_ _. True) (?h a)"
    if "\<forall>p rc. r \<noteq> Inr (PayAccepted p rc)" "\<forall>p rc. a \<noteq> Inr (AProxy (APay (PayAccepted p rc)))" for r a
    by (rule sure_wp [OF other [OF that(1), unfolded quiet_def] calm_refl]) (use that in \<open>auto intro: verify_done [OF assms(1)]\<close>)
  have yes: "wp (f (Inr (PayAccepted p rc))) (proxy_guard xe rq route) (proxy_done xe rq route) (\<lambda>_ _. True)
      (?h (Inr (AProxy (APay (PayAccepted p rc)))))" for p rc
  proof (rule sure_wp [OF accepted calm_refl])
    show "accepted_by ck p rc \<in> set (?h (Inr (AProxy (APay (PayAccepted p rc)))))" by (simp add: accepted_by_def)
    show "set h \<subseteq> set (?h (Inr (AProxy (APay (PayAccepted p rc)))))" by auto
  qed (auto intro: verify_done [OF assms(1)])
  have "wp (f (Inr x)) (proxy_guard xe rq route) (proxy_done xe rq route) (\<lambda>_ _. True) (?h (Inr (AProxy (APay x))))" for x
    using yes no by (cases x) auto
  then show ?thesis
    using assms(2) no
    by (auto simp: verify_payment_def await_def unexpected_def from_outside_def split: sum.split chan_ans.split proxy_ans.split)
qed

text \<open>A payment of the price asked by the check at hand.\<close>

definition verified :: "xenv \<Rightarrow> proxy_request \<Rightarrow> proxy_route \<Rightarrow> quoted_call \<Rightarrow> pay_check \<Rightarrow> history \<Rightarrow> bool" where
  "verified xe rq route q ck h \<longleftrightarrow>
     call_for xe rq route q \<and> checks_price xe rq route ck (qc_parsed q) \<and> quoted xe rq route (qc_parsed q) h"

lemma verified_more: "verified xe rq route q ck h \<Longrightarrow> set h \<subseteq> set h' \<Longrightarrow> verified xe rq route q ck h'"
  unfolding verified_def by (blast intro: quoted_more)

lemma sure_backed:
  assumes "verified xe rq route q ck b" "accepted_by ck p rc \<in> set b" "captured xe rq ck p rc pd"
  shows "sure (proxy_guard xe rq route) b (accepted_response xe q auth pd recipient) (accounted xe rq route)"
  using assms unfolding verified_def by (intro sure_accepted) (auto simp: pays_for_def)

text \<open>The library is asked about a credential only on routes whose payments it takes.\<close>

definition open_to :: "proxy_request \<Rightarrow> proxy_route \<Rightarrow> bool" where
  "open_to rq route \<longleftrightarrow> (xo_hosted route \<longrightarrow> auth_header rq = None) \<and> \<not> isDirectSettlementRoute route"

lemma verify_allowed:
  "verified xe rq route q ck h \<Longrightarrow> unpaid h \<Longrightarrow> open_to rq route \<Longrightarrow> proxy_req_guard xe rq route (VerifyPayment ck) h"
  by (auto simp: verified_def open_to_def)

lemma wp_charge_branch:
  assumes "call_for xe rq route q" "unpaid h" "open_to rq route" "settlement_recipient xe route = Inr recipient"
    "quoted xe rq route (qc_parsed q) h"
  shows "wp (charge_branch xe q (auth_header rq) recipient) (proxy_guard xe rq route) (proxy_done xe rq route) (\<lambda>_ _. True) h"
proof -
  let ?ck = "\<lambda>s. charge_check xe q (auth_header rq) s recipient"
  let ?f = "\<lambda>r. case (case r of Inl e \<Rightarrow> Inl (verification_failed e) | Inr a \<Rightarrow> Inr a) of
      Inl resp \<Rightarrow> Done resp
    | Inr (PayChallenged headers body) \<Rightarrow> Done (challenge_response xe q headers body)
    | Inr (PayAccepted payment receipt) \<Rightarrow>
        accepted_response xe q (auth_header rq) (captured_charge xe (auth_header rq) payment receipt) recipient"
  have "wp (bind (attempt (verify_payment (?ck s))) ?f) (proxy_guard xe rq route) (proxy_done xe rq route) (\<lambda>_ _. True) h"
    if s: "stellar_amount (qc_parsed q) = Inr (Inr s)" for s
  proof -
    have v: "verified xe rq route q (?ck s) h"
      using s assms unfolding verified_def checks_price_def by (auto simp: charge_check_def)
    show ?thesis unfolding wp_bind wp_attempt
    proof (rule wp_library [where f = ?f, OF assms(2)], goal_cases)
      case 1
      show ?case by (rule verify_allowed [OF v assms(2,3)])
    next
      case (2 h' p rc)
      show ?case by (simp, rule sure_backed [OF verified_more [OF v 2(1)] 2(2)]) (simp add: captured_def charge_check_def)
    next
      case (3 h' r)
      then show ?case by (auto intro!: quiet_rules split: sum.split pay_answer.split)
    qed
  qed
  then show ?thesis
    by (auto simp: charge_branch_def verify_charge_def unpaid_done assms(2) split: sum.split)
qed


lemma channel_priced:
  assumes "stellar_amount parsed = Inr s" "(case s of Inl resp \<Rightarrow> Inl resp | Inr x \<Rightarrow> channel_amount xe currency x) = Inr n"
  shows "\<exists>x. stellar_amount parsed = Inr (Inr x) \<and> channel_amount xe currency x = Inr n"
  using assms by (cases s) auto

text \<open>The voucher is verified under the lock; a call that is not verified gives the lock back.\<close>

lemma wp_locked:
  assumes "unpaid h" and guard: "\<And>h'. calm h h' \<Longrightarrow> unpaid h' \<Longrightarrow> proxy_req_guard xe rq route (VerifyPayment ck) h'"
    and busy: "\<And>h' r. unpaid h' \<Longrightarrow> wp (f (Inr (Inl r))) (proxy_guard xe rq route) (proxy_done xe rq route) (\<lambda>_ _. True) h'"
    and lost: "\<And>h' e. still xe rq route h' (f (Inl e))"
    and challenged: "\<And>h' t hs body. still xe rq route h' (f (Inr (Inr (t, PayChallenged hs body))))"
    and accepted: "\<And>h' t p rc. set h \<subseteq> set h' \<Longrightarrow> accepted_by ck p rc \<in> set h' \<Longrightarrow>
      sure (proxy_guard xe rq route) h' (f (Inr (Inr (t, PayAccepted p rc)))) (accounted xe rq route)"
  shows "wp (bind (attempt (locked_verify resolved i ck)) f) (proxy_guard xe rq route) (proxy_done xe rq route) (\<lambda>_ _. True) h"
proof -
  let ?D = "\<lambda>r. wp (f r) (proxy_guard xe rq route) (proxy_done xe rq route) (\<lambda>_ _. True)"
  have failed: "?D (Inl e) h'" if "unpaid h'" for e h'
    by (rule sure_wp [OF lost [unfolded quiet_def] calm_refl]) (auto intro: unpaid_done unpaid_calm [OF that])
  have verify: "wp (verify_payment ck) (proxy_guard xe rq route) (\<lambda>a. ?D (Inr (Inr (t, a)))) (\<lambda>e. ?D (Inl e)) h'"
    if "calm h h'" "unpaid h'" for t h'
  proof -
    let ?f = "\<lambda>r. f (case r of Inl e \<Rightarrow> Inl e | Inr a \<Rightarrow> Inr (Inr (t, a)))"
    have "wp (verify_payment ck) (proxy_guard xe rq route)
        (\<lambda>a. wp (?f (Inr a)) (proxy_guard xe rq route) (proxy_done xe rq route) (\<lambda>_ _. True))
        (\<lambda>e. wp (?f (Inl e)) (proxy_guard xe rq route) (proxy_done xe rq route) (\<lambda>_ _. True)) h'"
    proof (rule wp_library [where f = ?f, OF that(2) guard [OF that]], goal_cases)
      case (1 h2 p rc)
      have "set h \<subseteq> set h2" using that(1) 1(1) by (auto simp: calm_def)
      then show ?case using 1(2) by (simp add: accepted)
    next
      case (2 h2 r)
      then show ?case using lost challenged by (cases r; cases "projr r") auto
    qed
    then show ?thesis by simp
  qed
  have lock: "wp (acquireChannelDeliveryLock c i) (proxy_guard xe rq route) (\<lambda>_ h'. calm h h' \<and> unpaid h') (\<lambda>_. unpaid) h" for c
    by (rule sure_wp [OF still_store(2) [unfolded quiet_def] unpaid_base [OF assms(1)]]) (auto intro: unpaid_calm [OF assms(1)])
  have get: "wp (store_get k) (proxy_guard xe rq route) (\<lambda>_ h2. calm h h2 \<and> unpaid h2) (\<lambda>_. unpaid) h'" if "calm h h'" "unpaid h'" for k h'
    by (rule sure_wp [OF still_store(1) [unfolded quiet_def] unpaid_base [OF that(2)]])
      (auto intro: unpaid_calm [OF that(2)] calm_trans [OF that(1)])
  have read: "wp (bind (store_get k) (\<lambda>previous. bind (verify_payment ck) (\<lambda>a. Done (Inr (watermark_text previous, a)))))
      (proxy_guard xe rq route) (\<lambda>a. ?D (Inr a)) (\<lambda>e. ?D (Inl e)) h'" if "calm h h'" "unpaid h'" for k h'
    unfolding wp_bind by (rule wp_mono [OF get [OF that]]) (auto intro: failed verify)
  show ?thesis unfolding wp_bind wp_attempt locked_verify_def
  proof (rule wp_mono [OF lock])
    fix got h' assume "calm h h' \<and> unpaid h'"
    then show "wp (if \<not> got
        then Done (Inl (json_with 409 [(''Retry-After'', ''2'')]
          [(''error'', JStr ''Another channel delivery is in progress''), (''hint'', JStr ''Retry this exact request shortly.'')]))
        else bind (store_get (cumulativeKey (sv_contract resolved))) (\<lambda>previous.
          bind (verify_payment ck) (\<lambda>a. Done (Inr (watermark_text previous, a)))))
      (proxy_guard xe rq route) (\<lambda>x. ?D (Inr x)) (\<lambda>e. ?D (Inl e)) h'"
      using busy read by (cases got) (simp_all del: wp_bind)
  qed (rule failed)
qed

lemma wp_unlocked:
  assumes "unpaid h" "proxy_req_guard xe rq route (VerifyPayment ck) h"
    and "\<And>h' p rc. set h \<subseteq> set h' \<Longrightarrow> accepted_by ck p rc \<in> set h' \<Longrightarrow>
      sure (proxy_guard xe rq route) h' (f (Inr (PayAccepted p rc))) (accounted xe rq route)"
    and "\<And>h' r. (\<forall>p rc. r \<noteq> Inr (PayAccepted p rc)) \<Longrightarrow> still xe rq route h' (f r)"
  shows "wp (bind (attempt (verify_payment ck)) f) (proxy_guard xe rq route) (proxy_done xe rq route) (\<lambda>_ _. True) h"
  unfolding wp_bind wp_attempt by (rule wp_library [where f = f, OF assms])

lemma bind_bind: "bind (bind p f) g = bind p (\<lambda>x. bind (f x) g)"
  by (induction p) simp_all

lemma wp_channel_branch:
  assumes q: "call_for xe rq route q" and h: "unpaid h" and op: "open_to rq route" and quoted: "quoted xe rq route (qc_parsed q) h"
  shows "wp (channel_branch xe q (auth_header rq) recipient) (proxy_guard xe rq route) (proxy_done xe rq route) (\<lambda>_ _. True) h"
proof -
  define ck where "ck = (\<lambda>resolved n. channel_check q (auth_header rq) resolved n)"
  define rest where "rest = (\<lambda>resolved r. case r of
      Inl resp \<Rightarrow> Done resp
    | Inr (held, PayChallenged headers body) \<Rightarrow>
        bind (case held of Some (lockId, _) \<Rightarrow> releaseChannelDeliveryLock (sv_contract resolved) lockId | None \<Rightarrow> Done ()) (\<lambda>_.
        Done (challenge_response xe q headers body))
    | Inr (held, PayAccepted payment receipt) \<Rightarrow>
        accepted_response xe q (auth_header rq) (captured_channel xe (auth_header rq) resolved held payment receipt) recipient)"
  have accepted: "sure (proxy_guard xe rq route) h (rest resolved (Inr (held, PayAccepted p rc))) (accounted xe rq route)"
    if "verified xe rq route q (ck resolved n) h" "accepted_by (ck resolved n) p rc \<in> set h" for resolved n held p rc h
    unfolding rest_def using that
    by (simp, intro sure_backed) (auto simp: captured_def ck_def channel_check_def)
  have other: "still xe rq route h (rest resolved (Inl resp))" "still xe rq route h (rest resolved (Inr (held, PayChallenged hs body)))"
    for resolved resp held hs body h
    unfolding rest_def by (auto intro!: quiet_rules)
  have rest_replied: "unpaid h' \<Longrightarrow> wp (rest resolved (Inl resp)) (proxy_guard xe rq route) (proxy_done xe rq route) (\<lambda>_ _. True) h'"
    for resolved resp h' by (simp add: rest_def unpaid_done)
  have verified: "wp (bind (verify_channel q (auth_header rq) resolved n) (rest resolved))
      (proxy_guard xe rq route) (proxy_done xe rq route) (\<lambda>_ _. True) h'"
    if v: "verified xe rq route q (ck resolved n) h'" and h': "unpaid h'" for resolved n h'
  proof (cases "auth_header rq = None")
    case True
    let ?f = "\<lambda>r. rest resolved (case r of Inl e \<Rightarrow> Inl (verification_failed e) | Inr a \<Rightarrow> Inr (None, a))"
    have "wp (bind (attempt (verify_payment (ck resolved n))) ?f) (proxy_guard xe rq route) (proxy_done xe rq route) (\<lambda>_ _. True) h'"
    proof (rule wp_unlocked [OF h' verify_allowed [OF v h' op]], goal_cases)
      case (1 h2 p rc)
      then show ?case by (simp add: accepted [OF verified_more [OF v]])
    next
      case (2 h2 r)
      then show ?case using other by (cases r; cases "projr r") auto
    qed
    then show ?thesis using True by (simp add: verify_channel_def ck_def bind_bind)
  next
    case False
    let ?f = "\<lambda>i r. bind (case r of
            Inl e \<Rightarrow> bind (ignoring (releaseChannelDeliveryLock (sv_contract resolved) i)) (\<lambda>_. Done (Inl (verification_failed e)))
          | Inr (Inl resp) \<Rightarrow> Done (Inl resp)
          | Inr (Inr (previousAmount, a)) \<Rightarrow> Done (Inr (Some (i, previousAmount), a))) (rest resolved)"
    have "wp (bind (attempt (locked_verify resolved i (ck resolved n))) (?f i)) (proxy_guard xe rq route) (proxy_done xe rq route) (\<lambda>_ _. True) h2"
      if "calm h' h2" "unpaid h2" for i h2
    proof (rule wp_locked [OF that(2)], goal_cases)
      case (1 h3)
      then show ?case using that(1) by (intro verify_allowed [OF verified_more [OF v] _ op]) (auto simp: calm_def)
    next
      case (5 h3 t p rc)
      then have "set h' \<subseteq> set h3" using that(1) by (auto simp: calm_def)
      then show ?case using 5(2) by (simp add: accepted [OF verified_more [OF v]])
    qed (auto simp: bind_bind intro!: quiet_rules other intro: rest_replied)
    then have "wp (bind uuid (\<lambda>i. bind (attempt (locked_verify resolved i (ck resolved n))) (?f i)))
        (proxy_guard xe rq route) (proxy_done xe rq route) (\<lambda>_ _. True) h'"
      by (intro wp_still [OF _ h']) (auto intro: quiet_rules)
    moreover have "bind (verify_channel q (auth_header rq) resolved n) (rest resolved) =
        bind uuid (\<lambda>i. bind (attempt (locked_verify resolved i (ck resolved n))) (?f i))"
      using False by (simp only: verify_channel_def ck_def bind_bind Let_def if_False)
    ultimately show ?thesis by (simp only:)
  qed
  have priced: "verified xe rq route q (ck resolved n) h'" if "calm h h'" "stellar_amount (qc_parsed q) = Inr s"
      "(case s of Inl resp \<Rightarrow> Inl resp | Inr x \<Rightarrow> channel_amount xe (sv_currency resolved) x) = Inr n"
    for s resolved n h'
    using channel_priced [OF that(2,3)] q quoted_calm [OF quoted that(1)]
    unfolding verified_def checks_price_def ck_def channel_check_def by auto
  have rest': "(\<lambda>r. case r of
      Inl resp \<Rightarrow> Done resp
    | Inr (held, PayChallenged headers body) \<Rightarrow>
        bind (case held of Some (lockId, _) \<Rightarrow> releaseChannelDeliveryLock (sv_contract resolved) lockId | None \<Rightarrow> Done ()) (\<lambda>_.
        Done (challenge_response xe q headers body))
    | Inr (held, PayAccepted payment receipt) \<Rightarrow>
        accepted_response xe q (auth_header rq) (captured_channel xe (auth_header rq) resolved held payment receipt) recipient) = rest resolved"
    for resolved by (simp add: rest_def)
  have amount: "wp (bind (from_sum (stellar_amount (qc_parsed q))) (\<lambda>s.
        case (case s of Inl resp \<Rightarrow> Inl resp | Inr x \<Rightarrow> channel_amount xe (sv_currency resolved) x) of
          Inl resp \<Rightarrow> Done resp
        | Inr n \<Rightarrow> bind (verify_channel q (auth_header rq) resolved n) (rest resolved)))
      (proxy_guard xe rq route) (proxy_done xe rq route) (\<lambda>_ _. True) h'"
    if "calm h h'" "unpaid h'" for resolved h'
    using verified [OF priced [OF that(1)] that(2)] that(2) by (auto simp: unpaid_done split: sum.splits)
  show ?thesis unfolding channel_branch_def rest'
  proof (rule wp_still [OF _ h], intro quiet_rules still_resolve, goal_cases)
    case (1 r h')
    then show ?case using amount by (auto simp: unpaid_done split: sum.split)
  qed
qed

subsection \<open>handleProxy\<close>

lemma wp_paid_branches:
  assumes "call_for xe rq route q" "unpaid h" "k = StellarX402Auth \<or> open_to rq route" "quoted xe rq route (qc_parsed q) h"
  shows "wp (paid_branches xe q k (auth_header rq)) (proxy_guard xe rq route) (proxy_done xe rq route) (\<lambda>_ _. True) h"
proof -
  have "qc_route q = route" using assms(1) by (simp add: call_for_def)
  then show ?thesis unfolding paid_branches_def using assms
    by (auto simp: unpaid_done intro: wp_x402_branch wp_channel_branch wp_charge_branch split: sum.split)
qed

lemma sure_quote: "sure (proxy_guard xe rq route) b (quote_merchant xe route rq (target_url xe rq route) (request_body rq))
    (\<lambda>r h. \<forall>parsed. r = Inr parsed \<longrightarrow> quoted xe rq route parsed h)"
  by (rule sure_weaken [OF sure_found [OF _ still_quote]]) (auto simp: quoted_def)

lemma wp_serve_paid:
  assumes "url = target_url xe rq route" "unpaid h" "k = StellarX402Auth \<or> open_to rq route"
  shows "wp (serve_paid xe route rq url path search k (auth_header rq)) (proxy_guard xe rq route) (proxy_done xe rq route) (\<lambda>_ _. True) h"
  unfolding serve_paid_def
proof (rule wp_still [OF _ assms(2)], intro quiet_rules, goal_cases)
  case (1 r h1)
  let ?q = "\<lambda>parsed slot. \<lparr>qc_route = route, qc_request = rq, qc_parsed = parsed, qc_url = url, qc_path = path,
      qc_search = search, qc_body = request_body rq, qc_slot = slot\<rparr>"
  have paid: "wp (paid_branches xe (?q parsed slot) k (auth_header rq)) (proxy_guard xe rq route) (proxy_done xe rq route) (\<lambda>_ _. True) h'"
    if "unpaid h'" "quoted xe rq route parsed h'" for parsed slot h'
    using assms(1,3) that by (intro wp_paid_branches) (simp_all add: call_for_def)
  have checked: "wp (bind (preflight xe route parsed) (\<lambda>refused. case refused of
        Some resp \<Rightarrow> Done resp
      | None \<Rightarrow> paid_branches xe (?q parsed slot) k (auth_header rq)))
      (proxy_guard xe rq route) (proxy_done xe rq route) (\<lambda>_ _. True) h'" if "unpaid h'" "quoted xe rq route parsed h'" for parsed slot h'
    by (rule wp_still [OF still_preflight that(1)], rename_tac r h2, case_tac r)
      (simp_all add: unpaid_done paid quoted_calm [OF that(2)])
  have quoted: "wp (bind (quote_merchant xe route rq url (request_body rq)) (\<lambda>r. case r of
        Inl resp \<Rightarrow> Done resp
      | Inr parsed \<Rightarrow> bind (preflight xe route parsed) (\<lambda>refused. case refused of
            Some resp \<Rightarrow> Done resp
          | None \<Rightarrow> paid_branches xe (?q parsed slot) k (auth_header rq))))
      (proxy_guard xe rq route) (proxy_done xe rq route) (\<lambda>_ _. True) h'" if "unpaid h'" for slot h'
    unfolding assms(1)
    by (rule wp_sure_then [OF sure_quote that], rename_tac r h2, case_tac r)
      (simp_all add: unpaid_done checked [unfolded assms(1)] del: wp_bind)
  show ?case using 1 by (cases r) (simp_all add: unpaid_done quoted del: wp_bind)
qed

lemma no_credential: "auth_kind_of xe rq route = NoAuth \<Longrightarrow> auth_header rq = None"
proof -
  have "auth_header rq \<noteq> Some []" by (auto simp: auth_header_def split: option.splits list.splits)
  then have "classifyAuth (auth_header rq) xe p = NoAuth \<Longrightarrow> auth_header rq = None" for p
    by (cases "auth_header rq") (auto simp: classifyAuth_def Let_def split: option.splits json.splits if_splits)
  then show "auth_kind_of xe rq route = NoAuth \<Longrightarrow> auth_header rq = None"
    by (auto simp: auth_kind_of_def Let_def split: if_splits)
qed

lemma wp_quiet_done: "still xe rq route [] p \<Longrightarrow> wp p (proxy_guard xe rq route) (proxy_done xe rq route) (\<lambda>_ _. True) []"
  using wp_still [of xe rq route p "[]" Done] by (simp add: unpaid_done unpaid_def)

lemma wp_handleProxy: "wp (handleProxy xe rq (Some route)) (proxy_guard xe rq route) (proxy_done xe rq route) (\<lambda>_ _. True) []"
proof -
  let ?W = "\<lambda>p. wp p (proxy_guard xe rq route) (proxy_done xe rq route) (\<lambda>_ _. True) []"
  have reply: "proxy_done xe rq route r []" for r by (rule unpaid_done) (simp add: unpaid_def)
  have relay: "?W (relayDirectSettlementRoute xe route operator rq)" if "isDirectSettlementRoute route" for operator
    by (rule wp_quiet_done [OF still_relay [OF that]])
  have hosted: "?W (hosted_refusal xe route rq)" by (rule wp_quiet_done [OF still_hosted])
  have pass: "?W (passthrough xe rq url)" if "auth_kind_of xe rq route = PassthroughAuth" "\<not> xo_hosted route" for url
    by (rule wp_quiet_done [OF still_passthrough [OF that]])
  have serve: "?W (serve_paid xe route rq (buildMerchantUrl (pr_host (xo_route route)) path (forwarded_search xe (xr_query rq) used))
      path (forwarded_search xe (xr_query rq) used) (auth_kind_of xe rq route) (auth_header rq))"
    if "resolveUpstreamPath (xo_route route) (xr_query rq) = Inr (path, used)" "\<not> isDirectSettlementRoute route"
      "xo_hosted route \<Longrightarrow> auth_kind_of xe rq route \<in> {StellarX402Auth, NoAuth}" for path used
    using that no_credential [of xe rq route]
    by (intro wp_serve_paid) (auto simp: target_url_def open_to_def unpaid_def)
  show ?thesis
  proof (cases "isDirectSettlementRoute route")
    case True
    then obtain operator where "xo_operator route = Some operator" by (auto simp: isDirectSettlementRoute_def)
    then show ?thesis using relay [OF True] by (simp add: handleProxy_def True)
  next
    case False
    then show ?thesis
      by (auto simp: handleProxy_def Let_def reply hosted pass split: sum.split intro: serve)
  qed
qed

end
