(* ===== verification/ProxyDemo.thy ===== *)
theory ProxyDemo
  imports ProxySteps ChannelDemo "HOL-Library.Code_Target_Nat"
begin

text \<open>
  Single requests of the paid proxy, evaluated (on binary numbers, \<open>Code_Target_Nat\<close>): a charge that is delivered and one whose merchant fails, a voucher that is
  taken back, and an x402 buyer who is settled.
\<close>

subsection \<open>Running one request\<close>

text \<open>Every call is answered by \<open>w\<close>, the store's too; nothing at the ledger.\<close>

primrec prun :: "'a prog \<Rightarrow> answers \<Rightarrow> history \<Rightarrow> ((exn + 'a) \<times> history) option" where
  "prun (Done x) w h = Some (Inr x, h)"
| "prun (Throw e) w h = Some (Inl e, h)"
| "prun (Ledger r k) w h = None"
| "prun (Http r k) w h = prun (k (o_http w r)) w (EHttp r (o_http w r) # h)"
| "prun (Sign c k) w h = prun (k (o_sign w c)) w (ESign c (o_sign w c) # h)"
| "prun (Mppx u k) w h = prun (k (o_mppx w u)) w h"
| "prun (KvGet n k) w h = prun (k (o_kv w n)) w (EKvGet n (o_kv w n) # h)"
| "prun (KvPut n v k) w h = prun (k (o_put w n v)) w h"
| "prun (DailySlot n d k) w h = prun (k (o_daily w n d)) w h"
| "prun (Clock k) w h = prun (k (o_clock w)) w h"
| "prun (RandomUUID k) w h = prun (k (o_uuid w)) w h"
| "prun (RandomBytes k) w h = prun (k (o_bytes w)) w h"
| "prun (Chan r k) w h = prun (k (o_chan w r)) w (EChan r (o_chan w r) # h)"

lemma prun_runs: "prun p w h = Some (r, h') \<Longrightarrow> runs p0 h p \<Longrightarrow> runs p0 h' (from_sum r)"
proof (induction p arbitrary: h rule: prog_induct)
  case (Http q k)
  then show ?case using runs.called [OF Http.prems(2) outside.intros(1) [where a = "o_http w q"]] by auto
next
  case (Mppx u k)
  then show ?case using runs.called [OF Mppx.prems(2) outside.intros(3) [where m = "o_mppx w u"]] by auto
next
  case (Sign c k)
  then show ?case using runs.called [OF Sign.prems(2) outside.intros(2) [where b = "o_sign w c"]] by auto
next
  case (KvGet n k)
  then show ?case using runs.called [OF KvGet.prems(2) outside.intros(4) [where g = "o_kv w n"]] by auto
next
  case (KvPut n v k)
  then show ?case using runs.called [OF KvPut.prems(2) outside.intros(5) [where b = "o_put w n v"]] by auto
next
  case (DailySlot n d k)
  then show ?case using runs.called [OF DailySlot.prems(2) outside.intros(6) [where y = "o_daily w n d"]] by auto
next
  case (Clock k)
  then show ?case using runs.called [OF Clock.prems(2) outside.intros(7) [where t = "o_clock w"]] by auto
next
  case (RandomUUID k)
  then show ?case using runs.called [OF RandomUUID.prems(2) outside.intros(8) [where s = "o_uuid w"]] by auto
next
  case (RandomBytes k)
  then show ?case using runs.called [OF RandomBytes.prems(2) outside.intros(9) [where bs = "o_bytes w"]] by auto
next
  case (Chan q k)
  then show ?case using runs.called [OF Chan.prems(2) outside.intros(10) [where z = "o_chan w q"]] by auto
qed (auto simp: from_sum_def)

subsection \<open>A merchant and its buyers\<close>

definition pd_challenge :: string where
  "pd_challenge = ''Payment id='' @ QUOT @ ''q1'' @ QUOT @ '', request='' @ QUOT @ ''e'' @ QUOT"

definition pd_price :: json where
  "pd_price = JObj [(''amount'', JStr ''10''), (''decimals'', JNum ''6'')]"

definition pd_source :: string where "pd_source = ''did:pkh:stellar:pubnet:'' @ DEMO_ACCOUNT"

definition pd_credential :: "string \<Rightarrow> json" where
  "pd_credential intent = JObj
     [(''challenge'', JObj [(''id'', JStr ''ch''), (''method'', JStr ''stellar''), (''intent'', JStr intent)]),
      (''source'', JStr pd_source), (''payload'', JObj [(''amount'', JStr ''11'')])]"

definition pd_payment :: "string \<Rightarrow> json" where
  "pd_payment intent = JObj
     [(''challenge'', JObj [(''id'', JStr ''ch'')]), (''receipt'', JObj [(''reference'', JStr ''tx'')]),
      (''credential'', pd_credential intent),
      (''request'', JObj [(''recipient'', JStr ''r''), (''currency'', JStr ''c''), (''amount'', JStr ''10'')])]"

definition pd_x402 :: x402_payment where
  "pd_x402 = \<lparr>xp_scheme = ''exact'', xp_network = ''stellar:pubnet'', xp_payTo = ''r'', xp_amount = ''100'',
     xp_transaction = Some (JStr ''xdr'')\<rparr>"

definition pd_xe :: "string option \<Rightarrow> xenv" where
  "pd_xe intent = \<lparr>xe_chan = demo_ce\<lparr>ce_credential := (\<lambda>_. map_option pd_credential intent)\<rparr>, xe_x402_enabled = Some ''true'', xe_pay_to = Some ''r'',
     xe_router_public = ''r'', xe_admin_secret = None, xe_xlm_var = [], xe_xlm_rate = \<lparr>jr_text = [], jr_positive = False, jr_scaled = 0\<rparr>,
     xe_gate = (\<lambda>_. None), xe_alerts = False, xe_stats = False, xe_hosted_host = (\<lambda>_. False), xe_parse = (\<lambda>_. Some pd_price),
     xe_url = (\<lambda>_. None), xe_atob = (\<lambda>_. Some ''j''), xe_btoa = (\<lambda>_. []),
     xe_challenges = (\<lambda>_. Some [\<lparr>tq_id = ''q1'', tq_realm = [], tq_intent = ''charge'', tq_request = pd_price, tq_expires = None\<rparr>]),
     xe_schema = (\<lambda>_. Some (2, pd_x402)), xe_tx = (\<lambda>_ _. None), xe_is_key = (\<lambda>_. False), xe_is_contract = (\<lambda>_. False),
     xe_usdc = (\<lambda>_. ''usdc''), xe_fixed = (\<lambda>_ _. []), xe_base36 = (\<lambda>_. ''z'')\<rparr>"

definition pd_route :: proxy_route where
  "pd_route = \<lparr>xo_route = demo_route, xo_operation = ''txs'', xo_operator = None, xo_hosted = False, xo_fixedUsd = None,
     xo_launchGate = None, xo_blocked = False\<rparr>"

definition pd_rq :: proxy_request where
  "pd_rq = \<lparr>xr_method = ''GET'', xr_url = ''u'', xr_origin = ''o'', xr_hostname = ''h'', xr_path = ''/p'', xr_query = [],
     xr_headers = [(''authorization'', ''Payment c'')], xr_body = []\<rparr>"

definition pd_refund :: refund_record where
  "pd_refund = \<lparr>refundId = ''i'', publicId = ''p'', r_state = Pending, r_reason = NonFulfillment,
     r_payment = \<lparr>p_paymentId = ''ch'', p_paymentTx = ''tx'', p_payer = DEMO_ACCOUNT, p_recipient = ''r'', p_asset = ''c'',
       p_amountAtomic = ''10'', p_mode = ModeCharge\<rparr>,
     r_merchant = ''m.example'', r_routeId = ''mercury.tx'', r_orderId = None, r_amount = ''10'', r_createdAt = [], r_events = [],
     r_lease = None, r_refundTx = None, r_signedXdr = None, r_confirmedLedger = None, r_confirmedAt = None\<rparr>"

fun pd_chan :: "string \<Rightarrow> chan_req \<Rightarrow> chan_ans outcome" where
  "pd_chan intent (Proxy (Fetch f)) = Inr (AProxy (AFetched \<lparr>ht_status = 402, ht_headers = [(''www-authenticate'', pd_challenge)], ht_text = Some []\<rparr>))"
| "pd_chan intent (Proxy (TempoBalance t)) = Inr (AProxy (ABalance None))"
| "pd_chan intent (Proxy (VerifyPayment ck)) = Inr (AProxy (APay (PayAccepted (Some (pd_payment intent)) (Some ''tx''))))"
| "pd_chan intent (Proxy (EnqueueRefund i)) = Inr (AProxy (ARefund pd_refund))"
| "pd_chan intent (Proxy (ReadBody n)) = Inr (AProxy (ABody (Some ''ok'') []))"
| "pd_chan intent (Proxy (KvTextGet k)) = Inr (AProxy (AText None))"
| "pd_chan intent (Proxy (OrderGet k)) = Inr (AProxy (AOrder None))"
| "pd_chan intent (Proxy (FacilitatorVerify pay req)) = Inr (AProxy (AFacilitator None))"
| "pd_chan intent (Proxy (SettleX402 pay req)) = Inr (AProxy (ASettled402 [[''h'']]
     \<lparr>sr_success = True, sr_state = SettleDone, sr_transaction = Some ''h'', sr_reason = None, sr_error = None, sr_attempted = [''h'']\<rparr>))"
| "pd_chan intent (Proxy (ChannelForAgent g)) = Inr (AProxy (AAgentChannel (Some ''C'')))"
| "pd_chan intent (Proxy (StellarChannel c)) = Inr (AProxy (AStellarChannel (Some \<lparr>sc_commitmentKey = ''k'', sc_agent = DEMO_ACCOUNT, sc_currency = ''usdc''\<rparr>)))"
| "pd_chan intent (Proxy r) = Inr (AProxy AUnit)"
| "pd_chan intent (StoreGet k) = Inr (AValue None)"
| "pd_chan intent (StoreUpdate k u) = Inr (ADid True)"
| "pd_chan intent r = Inr ADone"

definition pd_answers :: "string \<Rightarrow> http_answer outcome \<Rightarrow> answers" where
  "pd_answers intent reply = demo_answers\<lparr>o_chan := pd_chan intent, o_mppx := (\<lambda>_. ([[demo_challenge]], reply))\<rparr>"

definition pd_ok :: "http_answer outcome" where "pd_ok = Inr \<lparr>ha_status = 200, ha_json = None\<rparr>"

text \<open>Which events are looked for.\<close>

definition is_sign :: "event \<Rightarrow> bool" where "is_sign e = (case e of ESign c b \<Rightarrow> True | _ \<Rightarrow> False)"

definition chan_event :: "(chan_req \<Rightarrow> chan_ans outcome \<Rightarrow> bool) \<Rightarrow> event \<Rightarrow> bool" where
  "chan_event P e = (case e of EChan r a \<Rightarrow> P r a | _ \<Rightarrow> False)"

definition proxy_event :: "(proxy_req \<Rightarrow> bool) \<Rightarrow> event \<Rightarrow> bool" where
  "proxy_event P = chan_event (\<lambda>r a. case r of Proxy q \<Rightarrow> P q | _ \<Rightarrow> False)"

definition is_accepted :: "event \<Rightarrow> bool" where
  "is_accepted = chan_event (\<lambda>r a. case r of Proxy (VerifyPayment ck) \<Rightarrow>
     (case a of Inr (AProxy (APay (PayAccepted p rc))) \<Rightarrow> True | _ \<Rightarrow> False) | _ \<Rightarrow> False)"

definition is_facilitated :: "event \<Rightarrow> bool" where
  "is_facilitated = chan_event (\<lambda>r a. case r of Proxy (FacilitatorVerify p q) \<Rightarrow>
     (case a of Inr (AProxy (AFacilitator None)) \<Rightarrow> True | _ \<Rightarrow> False) | _ \<Rightarrow> False)"

definition is_fetch :: "event \<Rightarrow> bool" where
  "is_fetch = proxy_event (\<lambda>q. case q of Fetch f \<Rightarrow> True | _ \<Rightarrow> False)"

definition is_refund :: "event \<Rightarrow> bool" where
  "is_refund = proxy_event (\<lambda>q. case q of EnqueueRefund i \<Rightarrow> True | _ \<Rightarrow> False)"

definition is_settle :: "event \<Rightarrow> bool" where
  "is_settle = proxy_event (\<lambda>q. case q of SettleX402 p r \<Rightarrow> True | _ \<Rightarrow> False)"

definition is_rollback :: "event \<Rightarrow> bool" where
  "is_rollback = chan_event (\<lambda>r a. case r of StoreUpdate k (Rollback x y) \<Rightarrow> True | _ \<Rightarrow> False)"

definition shows_all :: "int \<Rightarrow> (event \<Rightarrow> bool) list \<Rightarrow> ((exn + response) \<times> history) option \<Rightarrow> bool" where
  "shows_all status Ps z = (case z of Some (Inr r, h) \<Rightarrow> rs_status r = status \<and> list_all (\<lambda>P. list_ex P h) Ps | _ \<Rightarrow> False)"

lemma shown_run:
  assumes "shows_all status Ps (prun p w [])"
  obtains r h where "runs p h (Done r)" "rs_status r = status" "\<And>P. P \<in> set Ps \<Longrightarrow> \<exists>h1 e h2. h = h1 @ e # h2 \<and> P e"
proof -
  from assms obtain r h where r: "prun p w [] = Some (Inr r, h)" "rs_status r = status" "\<forall>P \<in> set Ps. list_ex P h"
    by (auto simp: shows_all_def list_all_iff split: option.splits prod.splits sum.splits)
  have "\<exists>h1 e h2. h = h1 @ e # h2 \<and> P e" if "P \<in> set Ps" for P
    using r(3) that by (metis list_ex_iff split_list)
  with prun_runs [OF r(1) runs.begun] r(2) that show thesis by (simp add: from_sum_def)
qed

text \<open>The merchant does not answer, and the payment is queued for a refund.\<close>

lemma run_refunded: "shows_all 502 [is_sign, is_accepted, is_fetch, is_refund]
    (prun (handleProxy (pd_xe (Some ''charge'')) pd_rq (Some pd_route)) (pd_answers ''charge'' (Inl ''down'')) [])"
  by code_simp

text \<open>A voucher of the buyer is taken back.\<close>

lemma run_taken_back: "shows_all 502 [is_rollback]
    (prun (handleProxy (pd_xe (Some ''channel'')) pd_rq (Some pd_route)) (pd_answers ''channel'' (Inl ''down'')) [])"
  by code_simp

text \<open>An x402 buyer is served and settled.\<close>

lemma run_settled: "shows_all 200 [is_facilitated, is_settle]
    (prun (handleProxy (pd_xe None) pd_rq (Some pd_route)) (pd_answers ''charge'' pd_ok) [])"
  by code_simp

end
