(* ===== verification/ProxyClaims.thy ===== *)
theory ProxyClaims
  imports ProxyDemo
begin

text \<open>
  What the paid proxy promises, over every run of a request: whatever the merchant, the payment library, the facilitator,
  KV and the store answer.  \<open>system_runs\<close> gives such a run for each request of a system around the store.
\<close>

interpretation proxy: guarded_run "handleProxy xe rq (Some route)" "proxy_guard xe rq route" "proxy_done xe rq route" for xe rq route
  by unfold_locales (rule wp_handleProxy)

subsection \<open>Events\<close>

lemma seen_sign: "is_sign e \<Longrightarrow> \<exists>c b. e = ESign c b"
  by (cases e) (simp_all add: is_sign_def)

lemma seen_chan: "chan_event P e \<Longrightarrow> \<exists>r a. e = EChan r a \<and> P r a"
  by (cases e) (simp_all add: chan_event_def)

lemma seen_proxy: "proxy_event P e \<Longrightarrow> \<exists>r a. e = EChan (Proxy r) a \<and> P r"
proof -
  assume "proxy_event P e"
  then obtain r a where "e = EChan r a" "case r of Proxy q \<Rightarrow> P q | _ \<Rightarrow> False"
    using seen_chan unfolding proxy_event_def by blast
  then show ?thesis by (cases r) simp_all
qed

lemma seen_fetch: "is_fetch e \<Longrightarrow> \<exists>f a. e = EChan (Proxy (Fetch f)) a"
proof -
  assume "is_fetch e"
  then obtain r a where "e = EChan (Proxy r) a" "case r of Fetch f \<Rightarrow> True | _ \<Rightarrow> False"
    using seen_proxy unfolding is_fetch_def by blast
  then show ?thesis by (cases r; simp)
qed

lemma seen_refund: "is_refund e \<Longrightarrow> \<exists>i a. e = EChan (Proxy (EnqueueRefund i)) a"
proof -
  assume "is_refund e"
  then obtain r a where "e = EChan (Proxy r) a" "case r of EnqueueRefund i \<Rightarrow> True | _ \<Rightarrow> False"
    using seen_proxy unfolding is_refund_def by blast
  then show ?thesis by (cases r; simp)
qed

lemma seen_settle: "is_settle e \<Longrightarrow> \<exists>pay req a. e = EChan (Proxy (SettleX402 pay req)) a"
proof -
  assume "is_settle e"
  then obtain r a where "e = EChan (Proxy r) a" "case r of SettleX402 p q \<Rightarrow> True | _ \<Rightarrow> False"
    using seen_proxy unfolding is_settle_def by blast
  then show ?thesis by (cases r; simp)
qed

lemma seen_rollback: "is_rollback e \<Longrightarrow> \<exists>key x y a. e = EChan (StoreUpdate key (Rollback x y)) a"
proof -
  assume "is_rollback e"
  then obtain r a where "e = EChan r a" "case r of StoreUpdate k (Rollback x y) \<Rightarrow> True | _ \<Rightarrow> False"
    using seen_chan unfolding is_rollback_def by blast
  then show ?thesis by (cases r; simp split: chan_upd.splits)
qed

lemma seen_accepted: "is_accepted e \<Longrightarrow> \<exists>ck payment receipt. e = accepted_by ck payment receipt"
proof -
  assume "is_accepted e"
  then obtain r a where "e = EChan r a" "case r of Proxy (VerifyPayment ck) \<Rightarrow> (case a of Inr (AProxy (APay (PayAccepted p rc))) \<Rightarrow> True | _ \<Rightarrow> False) | _ \<Rightarrow> False"
    using seen_chan unfolding is_accepted_def by blast
  then show ?thesis by (cases r; simp add: accepted_by_def split: proxy_req.splits sum.splits chan_ans.splits proxy_ans.splits pay_answer.splits)
qed

lemma seen_facilitated: "is_facilitated e \<Longrightarrow> \<exists>pay req. e = facilitated pay req"
proof -
  assume "is_facilitated e"
  then obtain r a where "e = EChan r a" "case r of Proxy (FacilitatorVerify p q) \<Rightarrow> (case a of Inr (AProxy (AFacilitator None)) \<Rightarrow> True | _ \<Rightarrow> False) | _ \<Rightarrow> False"
    using seen_chan unfolding is_facilitated_def by blast
  then show ?thesis by (cases r; simp add: facilitated_def split: proxy_req.splits sum.splits chan_ans.splits proxy_ans.splits option.splits)
qed

lemma refunded_run:
  obtains r h where "runs (handleProxy (pd_xe (Some ''charge'')) pd_rq (Some pd_route)) h (Done r)" "rs_status r = 502"
    "\<exists>h1 c b h2. h = h1 @ ESign c b # h2" "\<exists>h1 ck payment receipt h2. h = h1 @ accepted_by ck payment receipt # h2"
    "\<exists>h1 f a h2. h = h1 @ EChan (Proxy (Fetch f)) a # h2" "\<exists>h1 i a h2. h = h1 @ EChan (Proxy (EnqueueRefund i)) a # h2"
proof (rule shown_run [OF run_refunded])
  fix r h
  assume "runs (handleProxy (pd_xe (Some ''charge'')) pd_rq (Some pd_route)) h (Done r)" "rs_status r = 502"
    and ev: "\<And>P. P \<in> set [is_sign, is_accepted, is_fetch, is_refund] \<Longrightarrow> \<exists>h1 e h2. h = h1 @ e # h2 \<and> P e"
  moreover have "\<exists>h1 c b h2. h = h1 @ ESign c b # h2" using ev [of is_sign] seen_sign by (simp, metis)
  moreover have "\<exists>h1 ck payment receipt h2. h = h1 @ accepted_by ck payment receipt # h2" using ev [of is_accepted] seen_accepted by (simp, metis)
  moreover have "\<exists>h1 f a h2. h = h1 @ EChan (Proxy (Fetch f)) a # h2" using ev [of is_fetch] seen_fetch by (simp, metis)
  moreover have "\<exists>h1 i a h2. h = h1 @ EChan (Proxy (EnqueueRefund i)) a # h2" using ev [of is_refund] seen_refund by (simp, metis)
  ultimately show thesis by (intro that)
qed

lemma taken_back_run:
  obtains r h where "runs (handleProxy (pd_xe (Some ''channel'')) pd_rq (Some pd_route)) h (Done r)"
    "\<exists>h1 key accepted' previous a h2. h = h1 @ EChan (StoreUpdate key (Rollback accepted' previous)) a # h2"
proof (rule shown_run [OF run_taken_back])
  fix r h
  assume "runs (handleProxy (pd_xe (Some ''channel'')) pd_rq (Some pd_route)) h (Done r)"
    and ev: "\<And>P. P \<in> set [is_rollback] \<Longrightarrow> \<exists>h1 e h2. h = h1 @ e # h2 \<and> P e"
  moreover have "\<exists>h1 key accepted' previous a h2. h = h1 @ EChan (StoreUpdate key (Rollback accepted' previous)) a # h2"
    using ev [of is_rollback] seen_rollback by (simp, metis)
  ultimately show thesis by (intro that)
qed

lemma settled_run:
  obtains r h where "runs (handleProxy (pd_xe None) pd_rq (Some pd_route)) h (Done r)" "rs_status r = 200"
    "\<exists>h1 pay req h2. h = h1 @ facilitated pay req # h2" "\<exists>h1 pay req a h2. h = h1 @ EChan (Proxy (SettleX402 pay req)) a # h2"
proof (rule shown_run [OF run_settled])
  fix r h
  assume "runs (handleProxy (pd_xe None) pd_rq (Some pd_route)) h (Done r)" "rs_status r = 200"
    and ev: "\<And>P. P \<in> set [is_facilitated, is_settle] \<Longrightarrow> \<exists>h1 e h2. h = h1 @ e # h2 \<and> P e"
  moreover have "\<exists>h1 pay req h2. h = h1 @ facilitated pay req # h2" using ev [of is_facilitated] seen_facilitated by (simp, metis)
  moreover have "\<exists>h1 pay req a h2. h = h1 @ EChan (Proxy (SettleX402 pay req)) a # h2" using ev [of is_settle] seen_settle by (simp, metis)
  ultimately show thesis by (intro that)
qed

subsection \<open>The buyer\<close>





text \<open>C3: A buyer's signed x402 payment is settled only when the facilitator had accepted it, its nonce was reserved by this
  request, it covers the price found for this request, the merchant had delivered, and a row of the settlement with its
  open marker had been attempted.\<close>

theorem buyer_settled_after_delivery:
  "runs (handleProxy xe rq (Some route)) (h1 @ EChan (Proxy (SettleX402 pay req)) a # h) q \<Longrightarrow>
     facilitated pay req \<in> set h \<and> nonce_reserved xe pay h \<and> x402_price xe rq route pay req h \<and>
     (\<exists>body status. delivered xe rq route body status h) \<and> row_tried h"
  using proxy.run_guarded [of xe rq route h1 "EChan (Proxy (SettleX402 pay req)) a" h q "CallChan (Proxy (SettleX402 pay req))"] by simp

theorem buyer_settled_after_delivery_witness:
  "\<exists>h1 pay req a h q body status. runs (handleProxy (pd_xe None) pd_rq (Some pd_route)) (h1 @ EChan (Proxy (SettleX402 pay req)) a # h) q \<and>
     delivered (pd_xe None) pd_rq pd_route body status h \<and> facilitated pay req \<in> set h"
proof (rule settled_run)
  fix r h
  assume run: "runs (handleProxy (pd_xe None) pd_rq (Some pd_route)) h (Done r)"
    "\<exists>h1 pay req a h2. h = h1 @ EChan (Proxy (SettleX402 pay req)) a # h2"
  then obtain h1 pay req a h2 where "runs (handleProxy (pd_xe None) pd_rq (Some pd_route)) (h1 @ EChan (Proxy (SettleX402 pay req)) a # h2) (Done r)"
    by blast
  with buyer_settled_after_delivery [OF this] show ?thesis by blast
qed

subsection \<open>The merchant\<close>

text \<open>C2: Nothing is signed for a merchant before the buyer's payment of the price found for this request was accepted; never
  on a route with an operator or an injected credential; and a voucher of our own channel is for exactly that price and
  continues the total of the channel within its deposit.\<close>

theorem merchant_paid_from_purchase:
  "runs (handleProxy xe rq (Some route)) (h1 @ ESign c b # h) q \<Longrightarrow>
     xo_operator route = None \<and> pr_auth (xo_route route) = None \<and>
     (\<exists>parsed. bought xe rq route parsed h \<and>
        (sn_cumulative c = None \<and> sn_channel c = None \<or>
         tq_amount parsed = Some (JStr (sn_amount c)) \<and> voucher_ok (xe_penv xe) h c))"
  using proxy.run_guarded [of xe rq route h1 "ESign c b" h q "CallSign c"] by (simp add: sign_ok_def)

theorem merchant_paid_from_purchase_witness:
  "\<exists>h1 c b h q parsed. runs (handleProxy (pd_xe (Some ''charge'')) pd_rq (Some pd_route)) (h1 @ ESign c b # h) q \<and>
     bought (pd_xe (Some ''charge'')) pd_rq pd_route parsed h"
proof (rule refunded_run)
  fix r h
  assume run: "runs (handleProxy (pd_xe (Some ''charge'')) pd_rq (Some pd_route)) h (Done r)" "\<exists>h1 c b h2. h = h1 @ ESign c b # h2"
  then obtain h1 c b h2 where "runs (handleProxy (pd_xe (Some ''charge'')) pd_rq (Some pd_route)) (h1 @ ESign c b # h2) (Done r)" by blast
  with merchant_paid_from_purchase [OF this] show ?thesis by blast
qed



subsection \<open>When the merchant does not deliver\<close>

text \<open>C10: A refund is queued only for the payment the library accepted in this request, with the proof captured from it, never
  beside a voucher that can still be taken back, and names this route and its merchant.\<close>

theorem refunds_what_was_paid:
  "runs (handleProxy xe rq (Some route)) (h1 @ EChan (Proxy (EnqueueRefund i)) a # h) q \<Longrightarrow>
     (\<exists>parsed pd. pays_for xe rq route parsed pd h \<and> pd_proof pd = Some (en_proof i) \<and> open_voucher pd = None) \<and>
     en_routeId i = route_id route \<and> en_merchant i = pr_host (xo_route route)"
  using proxy.run_guarded [of xe rq route h1 "EChan (Proxy (EnqueueRefund i)) a" h q "CallChan (Proxy (EnqueueRefund i))"]
  by (simp add: refund_ok_for_def)

theorem refunds_what_was_paid_witness:
  "\<exists>h1 i a h q parsed pd. runs (handleProxy (pd_xe (Some ''charge'')) pd_rq (Some pd_route)) (h1 @ EChan (Proxy (EnqueueRefund i)) a # h) q \<and>
     pays_for (pd_xe (Some ''charge'')) pd_rq pd_route parsed pd h \<and> pd_proof pd = Some (en_proof i)"
proof (rule refunded_run)
  fix r h
  assume run: "runs (handleProxy (pd_xe (Some ''charge'')) pd_rq (Some pd_route)) h (Done r)" "\<exists>h1 i a h2. h = h1 @ EChan (Proxy (EnqueueRefund i)) a # h2"
  then obtain h1 i a h2 where "runs (handleProxy (pd_xe (Some ''charge'')) pd_rq (Some pd_route)) (h1 @ EChan (Proxy (EnqueueRefund i)) a # h2) (Done r)" by blast
  with refunds_what_was_paid [OF this] show ?thesis by blast
qed



subsection \<open>Requests of a system\<close>

text \<open>Among any other requests around the store, lost answers included, every call of a proxied request was allowed.\<close>

lemma proxies_guarded:
  assumes "chan_reachable H s" "c_procs s n = Some (h1 @ e # h, q)" "call_of e = Some a"
    and "\<And>p. H p \<Longrightarrow> \<exists>rq route. p = handleProxy xe rq (Some route)"
  shows "\<exists>rq route. proxy_guard xe rq route a h"
proof -
  obtain p where p: "H p" "runs p (h1 @ e # h) q" using system_runs [OF assms(1,2)] by blast
  obtain rq route where "p = handleProxy xe rq (Some route)" using assms(4) [OF p(1)] by blast
  with proxy.run_guarded [of xe rq route h1 e h q a] p(2) assms(3) show ?thesis by blast
qed

end
