(* ===== verification/Spec2Isabelle.thy ===== *)
theory Spec2Isabelle
  imports RateLimit LedgerProps SignerProps PlayClaims ChannelClaims ProxyClaims
begin

text \<open>
  Verification development of the Rozo MPP router (\<open>src/\<close>, TypeScript on Cloudflare Workers): the parts that hold,
  move and count money.

  The program.  The router sells calls to merchants: a caller pays it in USDC on Stellar, it pays the merchant over
  Tempo, and what goes wrong after a payment is refunded.  State lives in Durable Objects, each of which serves one
  request at a time, and in Cloudflare KV; everything else is an \<open>async\<close> handler that can be interleaved with others
  at each \<open>await\<close>, can lose an answer, and can die.  Six subsystems are modelled, with what they stand on:

  \<^item> The atomic store.  \<open>src/mpp/atomic-store-do.ts\<close> is a versioned key-value object (theory \<open>AtomicStore\<close>) and
    \<open>src/mpp/kv-atomic-store.ts\<close> its client, whose \<open>update\<close> retries a compare-and-set (\<open>KvStore\<close>).
    \<open>src/mpp/rate-limit-do.ts\<close> and \<open>src/routes/create-invoice-gate.ts\<close> count on the same pattern (\<open>RateLimit\<close>).
  \<^item> Refunds.  \<open>src/refund/refund.ts\<close> keeps one record per refunded payment (\<open>Refund\<close>, \<open>RefundProps\<close>);
    \<open>src/routes/refunds.ts\<close> and \<open>src/refund/stellar-proof.ts\<close> are the endpoints by which the signer works on
    them (\<open>RefundRoutes\<close>); \<open>src/refund-signer-core.ts\<close> and \<open>src/refund-signer.ts\<close> are the signer itself, with its
    own SQL tables (\<open>RefundSigner\<close>, \<open>SignerInv\<close>, \<open>SignerProps\<close>).
  \<^item> The custodial ledger of the playground, \<open>src/playground/ledger-do.ts\<close>, with \<open>src/playground/amount.ts\<close>
    (\<open>Amount\<close>, \<open>JsDate\<close>, \<open>Ledger\<close>, \<open>LedgerInv\<close>, \<open>LedgerProps\<close>).
  \<^item> The playground around it: catalog and limits (\<open>PlayModels\<close>, \<open>src/playground/models.ts\<close>), session tokens
    (\<open>SessionToken\<close>, \<open>session-token.ts\<close>), the payment seams (\<open>Upstream\<close>: \<open>src/mpp/channel-store.ts\<close>,
    \<open>tempo-challenges.ts\<close>, \<open>tempo-client.ts\<close>, \<open>src/playground/upstream.ts\<close>), the Blend aggregation (\<open>Blend\<close>,
    \<open>blend.ts\<close>), and deposits, Turnstile, the ledger client and the request handlers (\<open>Playground\<close>: \<open>deposit.ts\<close>,
    \<open>turnstile.ts\<close>, \<open>ledger-client.ts\<close>, \<open>src/routes/playground.ts\<close>).
  \<^item> The payment channels of the playground, the non-custodial way to pay for the same calls: a user opens a Soroban
    channel, registers it, signs a cumulative voucher per call, and a cron job collects the last one on chain
    (\<open>src/routes/playground-channel.ts\<close>, \<open>src/playground/channel-*.ts\<close>, \<open>src/mpp/stellar-channel-dispatch.ts\<close>).
    \<open>ChannelTypes\<close> holds the records that are stored and the calls that are made, \<open>Vouchers\<close> the voucher store, the
    delivery lock and the roll back, \<open>Channel\<close> configuration, registry, derivation of addresses, on-chain checks,
    close guard and offers, \<open>ChannelCall\<close> the registration and the metered calls, \<open>ChannelSettle\<close> the settlement.
  \<^item> The paid proxy, \<open>handleProxy\<close> of \<open>src/routes/proxy.ts\<close>: quote of the merchant, preflight, verification of the
    buyer's payment as a charge, as a voucher of a Stellar channel or as a signed x402 payment, payment of the merchant,
    and what follows when it does not deliver.  \<open>ProxyTypes\<close> holds the calls that are made, \<open>ProxyAmounts\<close> the
    amounts (\<open>src/utils/amount.ts\<close> and the price policy), \<open>PayInvoice\<close> the input of the invoice route
    (\<open>src/services/pay-invoice-input.ts\<close>), \<open>Proxy\<close> routes, credentials, challenges and the order rows,
    \<open>ProxyPay\<close> the payment of the merchant and asynchronous jobs, \<open>ProxyX402\<close> the inbound x402 payment and its
    settlement (\<open>src/x402/\<close>), \<open>ProxyQuote\<close> relay, rate slots, quote and preflight, \<open>ProxyCharge\<close> the captures of a
    payment, the branches and \<open>handleProxy\<close> itself.
  \<^item> \<open>src/mpp/idempotency.ts\<close>, the keys under which answers are cached (\<open>Idempotency\<close>).

  How code becomes definitions.  \<open>Prelude\<close> holds sorted tables (the object storage), the result type \<open>'a js\<close> of code
  that may throw, and the rules the proofs share; \<open>JsString\<close> the JavaScript string and number functions the code
  uses.  A handler of a Durable Object is a function from request and state to answer and next state.  Stored amounts
  and timestamps are integers, as \<open>BigInt\<close> and safe integers are; strings are lists of code units below 256.
  An \<open>async\<close> handler of the playground is a tree of its calls (\<open>Async\<close>, type \<open>'a prog\<close>), composed by \<open>bind\<close> and
  \<open>try_catch\<close> as the source sequences its awaits.  \<open>AsyncSystem\<close> runs any number of them against the ledger object:
  a step serves one call of one handler, delivers or loses its answer, answers a call to the outside in any way, or
  fires the reaper; a handler that is never stepped again has crashed.

  What the lemmas show.
  \<^item> \<open>LedgerInv\<close>: the books of the ledger balance (\<open>money_ok\<close>), the replay table accounts for all credit
    (\<open>payments_ok\<close>), caps hold, a hold always has an alarm, and what is settled stays so (\<open>kept\<close>), in every state
    reachable by any requests (\<open>lstep\<close>).  \<open>LedgerProps\<close> states them per operation.
  \<^item> \<open>KvStore\<close>: a compare-and-set client of a store whose values it cannot see change is an atomic update; the locale
    \<open>kv_client\<close> carries this to the refund records and the rate counters.
  \<^item> \<open>RefundProps\<close>, \<open>RefundRoutes\<close>, \<open>SignerProps\<close>: a refund moves along its state machine only, pays its payer only, is
    confirmed only by a payment on chain, and the refunds of a payment never exceed it, whatever answers are lost.
  \<^item> \<open>UpstreamInv\<close>, \<open>PlayInv\<close>: \<open>wp\<close>, a calculus over programs, shows for each handler that every call it makes
    satisfies \<open>play_guard\<close>: it commits only after paying, releases only what it holds, claims only what it saw on
    chain, signs only within budget and channel deposit.
  \<^item> \<open>PlayProps\<close>: the locale \<open>guarded_system\<close> turns the guards into invariants of the whole system, interpreted for the
    calls, the deposits and the signatures.  \<open>PlayDemo\<close> runs one complete use (intent, deposit, paid call) through
    the model, and \<open>PlayClaims\<close> states the end-to-end properties, each applied to that run.
  \<^item> \<open>StoreMachine\<close>, \<open>VoucherProps\<close>: an \<open>update\<close> of the atomic store, retried against any writes of others, is one step of
    a machine, so the channel system may serve it as one; every value keeps the shape of its key (\<open>chan_typed\<close>).
  \<^item> \<open>ChannelSystem\<close>: any number of channel handlers over one store; the locale \<open>channel_system\<close> states what a guard on
    calls and a backing of stored values must satisfy, and yields their invariants.  \<open>ChannelInv\<close>, \<open>ChannelAdmin\<close>: the
    guard of each call (\<open>chan_guard\<close>), a condition on the history of its handler, and the rules that show it of every
    operation.  \<open>ChannelProps\<close> interprets the locale; \<open>ChannelDemo\<close> runs registration, a paid call and its collection,
    and a call whose put is answered by nobody; \<open>ChannelClaims\<close> states the properties.
  \<^item> \<open>ProxyInv\<close>: \<open>runs\<close>, what one request can do whatever it is answered (\<open>system_runs\<close>: each request of a system around
    the store makes such a run); the locale \<open>guarded_run\<close>; \<open>proxy_guard\<close>, what must have happened before anything is
    signed, forwarded, asked for, settled, refunded or taken back; and the calculus \<open>sure\<close>/\<open>quiet\<close>, in which most of a
    handler needs no more than that its calls are harmless.  \<open>ProxySteps\<close> goes through every step of the proxy;
    \<open>accounted\<close> says what a buyer whose payment was accepted may be left with.  \<open>ProxyDemo\<close> evaluates a refunded charge,
    a voucher taken back and a settled x402 payment; \<open>ProxyClaims\<close> interprets the locale on \<open>handleProxy\<close> and states
    the properties.

  Bounds.  \<open>update\<close> tries \<open>MAX_UPDATE_RETRIES\<close> = 5 times, the counters \<open>MAX_CAS_RETRIES\<close> = 25 times, the signer polls
  \<open>POLL_ATTEMPTS\<close> = 25 times, the fence of a channel is written at most three times: these are the source's own bounds, modelled as the recursion argument, and running out is
  a result of its own, as in the code.  Nothing else needs fuel; \<open>resolve_path\<close> terminates on the length of the path.

  From outside the repository, as arguments: HMAC, JSON parsing and number formatting, \<open>Date.parse\<close>, StrKey checksums,
  contract-value decoding, Horizon, Turnstile, Stellar RPC and the XDR library, the route table (generated), and the
  payment client \<open>mppx\<close>, which may call back with any challenges in any number of rounds and then answer or fail.
  Nothing is assumed of them but what a named hypothesis of a theorem says.  That an intent id drawn by
  \<open>crypto.randomUUID\<close> is not taken is a condition of the steps that create intents (\<open>fresh_id\<close>).

  Not modelled: logging; wall-clock time beyond the value read (instants are inputs), latencies and the timer that
  bounds a settlement (\<open>runBoundedSettlement\<close>); the payment library's receipt header (\<open>withReceipt\<close>); the search of the
  route table (\<open>resolveRoute\<close>, whose result is the argument of \<open>handleProxy\<close>) and the asynchronous job poll; the XDR
  decoding of \<open>readChannelOnChain\<close>, whose result is any answer; invoices, webhooks, coupons, providers, Stripe and UPI,
  whose core is SQL, HTTP clients and signature checks of other services; the x402 payer, generated documents, user
  interfaces and alerts.
\<close>

end
